(* ===== verification/Prelude.thy ===== *)
theory Prelude
  imports Main "HOL-Library.AList" "HOL-Library.Multiset"
begin

text \<open>
  Shared vocabulary of the development: the exceptions the services throw, the JavaScript
  values that reach them from a request body, the insertion-ordered \<open>Map\<close> of the language as
  an association list, the stable array sort with a comparator, page slicing and duplicate
  removal. The lemmas about them carry the component proofs.
\<close>

section \<open>Proof collections\<close>

named_theorems store_simps \<open>laws of the insertion-ordered map\<close>
named_theorems frame_simps \<open>fields of the state an operation leaves alone\<close>

section \<open>Exceptions\<close>

text \<open>
  The NestJS exceptions thrown by the services, each with the \<open>code\<close> of its response body, and
  the plain \<open>Error\<close> objects of the internal assertions. An operation of a service returns the
  exception or its value together with the state it leaves behind: JavaScript does not roll
  back the assignments made before a \<open>throw\<close>.
\<close>

datatype http_error =
    BadRequest string
  | Unauthorized string
  | Forbidden string
  | NotFound string
  | Conflict string
  | Unavailable string
  | TooMany string
  | Thrown string

type_synonym 'a result = "http_error + 'a"

fun error_code :: "http_error \<Rightarrow> string" where
  "error_code (BadRequest c) = c"
| "error_code (Unauthorized c) = c"
| "error_code (Forbidden c) = c"
| "error_code (NotFound c) = c"
| "error_code (Conflict c) = c"
| "error_code (Unavailable c) = c"
| "error_code (TooMany c) = c"
| "error_code (Thrown c) = c"

fun is_ok :: "'a result \<Rightarrow> bool" where
  "is_ok (Inl _) = False"
| "is_ok (Inr _) = True"

text \<open>Calling an operation that may throw, then going on with its value.\<close>

definition call :: "('e + 'a) \<times> 's \<Rightarrow> ('a \<Rightarrow> 's \<Rightarrow> ('e + 'b) \<times> 's) \<Rightarrow> ('e + 'b) \<times> 's" where
  "call m k = (case m of (Inl e, s) \<Rightarrow> (Inl e, s) | (Inr a, s) \<Rightarrow> k a s)"

lemma call_simps [simp]:
  "call (Inl e, s) k = (Inl e, s)"
  "call (Inr a, s) k = k a s"
  by (simp_all add: call_def)

lemma call_Inr:
  "call m k = (Inr b, s') \<longleftrightarrow> (\<exists>a s. m = (Inr a, s) \<and> k a s = (Inr b, s'))"
  by (cases m; cases "fst m") (auto simp: call_def)

text \<open>
  \<open>xs.map(f)\<close> and \<open>for (const x of xs)\<close> with a body that may throw: the elements in order, up to
  the first one that throws; without and with a state.
\<close>

fun map_ok :: "('i \<Rightarrow> 'e + 'o) \<Rightarrow> 'i list \<Rightarrow> 'e + 'o list" where
  "map_ok f [] = Inr []"
| "map_ok f (x # xs) = (case f x of Inl e \<Rightarrow> Inl e
     | Inr y \<Rightarrow> (case map_ok f xs of Inl e \<Rightarrow> Inl e | Inr ys \<Rightarrow> Inr (y # ys)))"

fun for_each :: "('i \<Rightarrow> 's \<Rightarrow> ('e + 'o) \<times> 's) \<Rightarrow> 'i list \<Rightarrow> 's \<Rightarrow> ('e + 'o list) \<times> 's" where
  "for_each f [] s = (Inr [], s)"
| "for_each f (x # xs) s = call (f x s) (\<lambda>y s1. call (for_each f xs s1) (\<lambda>ys s2. (Inr (y # ys), s2)))"

lemma map_ok_Inr: "map_ok f xs = Inr ys \<longleftrightarrow> list_all2 (\<lambda>x y. f x = Inr y) xs ys"
proof (induction xs arbitrary: ys)
  case (Cons x xs)
  show ?case
  proof (cases "f x")
    case (Inr y)
    with Cons show ?thesis by (cases "map_ok f xs") (auto simp: list_all2_Cons1)
  qed (simp add: list_all2_Cons1)
qed auto

lemma for_each_Inr_length: "fst (for_each f xs s) = Inr ys \<Longrightarrow> length ys = length xs"
proof (induction xs arbitrary: s ys)
  case (Cons x xs)
  obtain r t where fx: "f x s = (r, t)" by fastforce
  obtain q u where rest: "for_each f xs t = (q, u)" by fastforce
  from Cons.IH [of t] Cons.prems fx rest show ?case by (cases r; cases q) auto
qed simp

section \<open>Values of a request\<close>

text \<open>
  A number of a request: \<open>JInt\<close> when \<open>Number.isInteger\<close> holds of it, \<open>JOther\<close> for every other
  number (a fraction, \<open>NaN\<close>, an infinity). The services compare a number with another one only
  after \<open>Number.isInteger\<close>, or by strict equality with an integer, which \<open>JOther\<close> never equals.
\<close>

datatype jsnum = JInt int | JOther

fun is_integer :: "jsnum \<Rightarrow> bool" where
  "is_integer (JInt _) = True"
| "is_integer JOther = False"

fun num_value :: "jsnum \<Rightarrow> int" where
  "num_value (JInt n) = n"
| "num_value JOther = 0"

text \<open>Untyped values: the bodies the services inspect field by field, and audit payloads.\<close>

datatype json =
    JUndef
  | JNull
  | JBool bool
  | JNum jsnum
  | JStr string
  | JArr "json list"
  | JObj "(string \<times> json) list"

definition JId :: "string option \<Rightarrow> json" where
  "JId s = (case s of None \<Rightarrow> JUndef | Some t \<Rightarrow> JStr t)"

abbreviation JNat :: "nat \<Rightarrow> json" where
  "JNat n \<equiv> JNum (JInt (int n))"

section \<open>Insertion-ordered maps\<close>

text \<open>
  \<open>Map\<close>: \<open>set\<close> on a present key keeps its position, on a new key appends; \<open>values()\<close> runs in
  insertion order. An association list with distinct keys, updated by \<open>AList.update\<close>.
\<close>

type_synonym ('k, 'v) js_map = "('k \<times> 'v) list"

definition js_get :: "('k, 'v) js_map \<Rightarrow> 'k \<Rightarrow> 'v option" where
  "js_get m k = map_of m k"

definition js_set :: "('k, 'v) js_map \<Rightarrow> 'k \<Rightarrow> 'v \<Rightarrow> ('k, 'v) js_map" where
  "js_set m k v = AList.update k v m"

definition js_remove :: "('k, 'v) js_map \<Rightarrow> 'k \<Rightarrow> ('k, 'v) js_map" where
  "js_remove m k = AList.delete k m"

definition js_has :: "('k, 'v) js_map \<Rightarrow> 'k \<Rightarrow> bool" where
  "js_has m k = (js_get m k \<noteq> None)"

definition js_values :: "('k, 'v) js_map \<Rightarrow> 'v list" where
  "js_values m = map snd m"

definition js_keys :: "('k, 'v) js_map \<Rightarrow> 'k list" where
  "js_keys m = map fst m"

definition js_wf :: "('k, 'v) js_map \<Rightarrow> bool" where
  "js_wf m = distinct (js_keys m)"

lemma js_get_Nil [simp]: "js_get [] k = None"
  by (simp add: js_get_def)

lemma js_wf_Nil [simp]: "js_wf []"
  by (simp add: js_wf_def js_keys_def)

lemma js_get_set [simp]: "js_get (js_set m k v) k' = (if k' = k then Some v else js_get m k')"
  by (simp add: js_get_def js_set_def update_conv)

lemma js_get_remove [simp]: "js_get (js_remove m k) k' = (if k' = k then None else js_get m k')"
  by (simp add: js_get_def js_remove_def delete_conv)

lemma js_wf_set [simp]: "js_wf m \<Longrightarrow> js_wf (js_set m k v)"
  by (simp add: js_wf_def js_keys_def js_set_def distinct_update)

lemma js_wf_remove [simp]: "js_wf m \<Longrightarrow> js_wf (js_remove m k)"
  by (simp add: js_wf_def js_keys_def js_remove_def distinct_delete)

lemma js_values_get: "js_wf m \<Longrightarrow> v \<in> set (js_values m) \<longleftrightarrow> (\<exists>k. js_get m k = Some v)"
  by (force simp: js_wf_def js_keys_def js_values_def js_get_def)

lemma js_get_in_values: "js_get m k = Some v \<Longrightarrow> v \<in> set (js_values m)"
  by (force simp: js_get_def js_values_def dest: map_of_SomeD)

lemma js_set_fresh: "js_get m k = None \<Longrightarrow> js_set m k v = m @ [(k, v)]"
  by (induction m) (auto simp: js_get_def js_set_def split: if_splits)

lemma js_values_set_fresh: "js_get m k = None \<Longrightarrow> js_values (js_set m k v) = js_values m @ [v]"
  by (simp add: js_set_fresh js_values_def)

lemma js_keys_set: "js_has m k \<Longrightarrow> js_keys (js_set m k v) = js_keys m"
  by (induction m) (auto simp: js_has_def js_get_def js_set_def js_keys_def split: if_splits)

lemma js_values_set_cases:
  "v' \<in> set (js_values (js_set m k v)) \<Longrightarrow> v' = v \<or> v' \<in> set (js_values m)"
  by (induction m) (auto simp: js_set_def js_values_def split: if_splits)

lemma js_set_same_image:
  "js_get m k = Some v \<Longrightarrow> f w = f v \<Longrightarrow> map f (js_values (js_set m k w)) = map f (js_values m)"
  by (induction m) (auto simp: js_get_def js_set_def js_values_def split: if_splits)

lemma js_map_values:
  "js_get (map (\<lambda>e. (fst e, f (snd e))) m) k = map_option f (js_get m k)"
  "js_values (map (\<lambda>e. (fst e, f (snd e))) m) = map f (js_values m)"
  "js_keys (map (\<lambda>e. (fst e, f (snd e))) m) = js_keys m"
  "js_wf (map (\<lambda>e. (fst e, f (snd e))) m) = js_wf m"
  by (induction m) (auto simp: js_get_def js_values_def js_keys_def js_wf_def comp_def)

lemma js_values_set_wf:
  assumes "js_wf m"
  shows "v' \<in> set (js_values (js_set m k v)) \<longleftrightarrow> v' = v \<or> (\<exists>k'. k' \<noteq> k \<and> js_get m k' = Some v')"
  using assms by (subst js_values_get) auto

lemma js_set_length: "length (js_set m k v) = (if js_has m k then length m else Suc (length m))"
  by (induction m) (auto simp: js_has_def js_get_def js_set_def split: if_splits)

text \<open>
  What the services rely on when they keep their records in a \<open>Map\<close>: the laws of lookup
  after an insertion, stated once and proved of the model's own maps.
\<close>

locale record_store =
  fixes get :: "'m \<Rightarrow> 'k \<Rightarrow> 'v option"
    and put :: "'m \<Rightarrow> 'k \<Rightarrow> 'v \<Rightarrow> 'm"
    and vals :: "'m \<Rightarrow> 'v list"
    and wf :: "'m \<Rightarrow> bool"
  assumes get_put: "get (put m k v) k' = (if k' = k then Some v else get m k')"
    and wf_put: "wf m \<Longrightarrow> wf (put m k v)"
    and vals_get: "wf m \<Longrightarrow> v \<in> set (vals m) \<longleftrightarrow> (\<exists>k. get m k = Some v)"
begin

text \<open>A property of every record survives storing a record that has it.\<close>

lemma all_put:
  assumes "wf m" and "\<And>w. w \<in> set (vals m) \<Longrightarrow> P w" and "P v"
  shows "w \<in> set (vals (put m k v)) \<Longrightarrow> P w"
  using assms by (auto simp: vals_get wf_put get_put split: if_splits)

text \<open>
  A key derived from the record: if every record is filed under its own key, the records
  with one key are equal. Storing a record under its own key keeps that.
\<close>

definition keyed :: "('v \<Rightarrow> 'k) \<Rightarrow> 'm \<Rightarrow> bool" where
  "keyed key m \<longleftrightarrow> (\<forall>k v. get m k = Some v \<longrightarrow> key v = k)"

lemma keyed_put: "keyed key m \<Longrightarrow> key v = k \<Longrightarrow> keyed key (put m k v)"
  by (auto simp: keyed_def get_put)

lemma keyed_inj:
  "keyed key m \<Longrightarrow> wf m \<Longrightarrow> v \<in> set (vals m) \<Longrightarrow> w \<in> set (vals m) \<Longrightarrow> key v = key w \<Longrightarrow> v = w"
  by (auto simp: keyed_def vals_get)

end

interpretation js: record_store js_get js_set js_values js_wf
  by unfold_locales (auto simp: js_values_get)

section \<open>Arrays\<close>

text \<open>
  \<open>Array.prototype.sort\<close> with a comparator is stable; the model is stable insertion from the
  right. A comparator returns a number whose sign decides.
\<close>

fun insert_by :: "('a \<Rightarrow> 'a \<Rightarrow> int) \<Rightarrow> 'a \<Rightarrow> 'a list \<Rightarrow> 'a list" where
  "insert_by cmp x [] = [x]"
| "insert_by cmp x (y # ys) = (if cmp x y \<le> 0 then x # y # ys else y # insert_by cmp x ys)"

definition sort_by :: "('a \<Rightarrow> 'a \<Rightarrow> int) \<Rightarrow> 'a list \<Rightarrow> 'a list" where
  "sort_by cmp xs = foldr (insert_by cmp) xs []"

lemma sort_by_simps [simp]:
  "sort_by cmp [] = []"
  "sort_by cmp (x # xs) = insert_by cmp x (sort_by cmp xs)"
  by (simp_all add: sort_by_def)

lemma mset_insert_by: "mset (insert_by cmp x xs) = add_mset x (mset xs)"
  by (induction xs) auto

lemma mset_sort_by [simp]: "mset (sort_by cmp xs) = mset xs"
  by (induction xs) (auto simp: mset_insert_by)

lemma set_sort_by [simp]: "set (sort_by cmp xs) = set xs"
  by (metis mset_sort_by set_mset_mset)

lemma sort_by_rev:
  "sorted_wrt (\<lambda>x y. 0 < cmp x y) xs \<Longrightarrow> sort_by cmp xs = rev xs"
proof (induction xs)
  case Nil
  then show ?case by simp
next
  case (Cons x xs)
  have last: "insert_by cmp x ys = ys @ [x]" if "\<And>y. y \<in> set ys \<Longrightarrow> 0 < cmp x y" for ys
    using that
  proof (induction ys)
    case (Cons y ys)
    then have "\<not> cmp x y \<le> 0" by fastforce
    with Cons show ?case by simp
  qed simp
  have "insert_by cmp x (rev xs) = rev xs @ [x]"
    by (rule last) (use Cons.prems in simp)
  with Cons show ?case by simp
qed

lemma length_sort_by [simp]: "length (sort_by cmp xs) = length xs"
  by (metis mset_sort_by size_mset)

lemma distinct_sort_by [simp]: "distinct (sort_by cmp xs) = distinct xs"
  by (metis mset_sort_by mset_eq_imp_distinct_iff)

locale comparator =
  fixes cmp :: "'a \<Rightarrow> 'a \<Rightarrow> int"
  assumes total: "cmp x y \<le> 0 \<or> cmp y x \<le> 0"
    and trans: "cmp x y \<le> 0 \<Longrightarrow> cmp y z \<le> 0 \<Longrightarrow> cmp x z \<le> 0"
begin

lemma sorted_insert_by:
  "sorted_wrt (\<lambda>x y. cmp x y \<le> 0) ys \<Longrightarrow> sorted_wrt (\<lambda>x y. cmp x y \<le> 0) (insert_by cmp x ys)"
proof (induction ys)
  case Nil
  then show ?case by simp
next
  case (Cons y ys)
  have ins: "set (insert_by cmp x ys) = insert x (set ys)"
    by (metis mset_insert_by set_mset_add_mset_insert set_mset_mset)
  show ?case
  proof (cases "cmp x y \<le> 0")
    case True
    with Cons.prems show ?thesis by (auto intro: trans)
  next
    case False
    with total [of x y] have "cmp y x \<le> 0" by simp
    with False Cons show ?thesis by (simp add: ins)
  qed
qed

lemma sorted_sort_by: "sorted_wrt (\<lambda>x y. cmp x y \<le> 0) (sort_by cmp xs)"
  by (induction xs) (simp_all add: sorted_insert_by)

end

definition cmp_int :: "int \<Rightarrow> int \<Rightarrow> int" where
  "cmp_int a b = (if a < b then - 1 else if a = b then 0 else 1)"

definition cmp_or :: "int \<Rightarrow> int \<Rightarrow> int" where
  "cmp_or a b = (if a \<noteq> 0 then a else b)"

lemma cmp_int_le [simp]: "cmp_int a b \<le> 0 \<longleftrightarrow> a \<le> b"
  by (simp add: cmp_int_def)

interpretation by_number: comparator cmp_int
  by unfold_locales auto

text \<open>\<open>[...new Set(xs)]\<close>: the first occurrence of each element, in order.\<close>

definition js_uniq :: "'a list \<Rightarrow> 'a list" where
  "js_uniq xs = rev (remdups (rev xs))"

lemma set_js_uniq [simp]: "set (js_uniq xs) = set xs"
  by (simp add: js_uniq_def)

lemma distinct_js_uniq [simp]: "distinct (js_uniq xs)"
  by (simp add: js_uniq_def)

lemma new_Set_size: "length (js_uniq xs) = length xs \<longleftrightarrow> distinct xs"
  by (simp add: js_uniq_def length_remdups_card_conv distinct_card card_distinct)
     (metis card_distinct distinct_card)

text \<open>\<open>xs.slice((page - 1) * pageSize, page * pageSize)\<close> for validated page numbers.\<close>

definition page_slice :: "int \<Rightarrow> int \<Rightarrow> 'a list \<Rightarrow> 'a list" where
  "page_slice page psz xs = take (nat psz) (drop (nat ((page - 1) * psz)) xs)"

lemma length_page_slice: "length (page_slice page psz xs) \<le> nat psz"
  by (simp add: page_slice_def)

lemma page_slice_app:
  assumes "0 \<le> psz"
  shows "concat (map (\<lambda>k. page_slice (int k) psz xs) [1..<Suc n]) = take (n * nat psz) xs"
proof (induction n)
  case 0
  then show ?case by simp
next
  case (Suc n)
  have "nat ((int (Suc n) - 1) * psz) = n * nat psz"
    using assms by (simp add: nat_mult_distrib)
  then have "page_slice (int (Suc n)) psz xs = take (nat psz) (drop (n * nat psz) xs)"
    by (simp add: page_slice_def)
  with Suc show ?case
    by (simp add: take_add [symmetric] add.commute)
qed

lemma pages_cover:
  assumes "0 \<le> psz" and "length xs \<le> n * nat psz"
  shows "concat (map (\<lambda>k. page_slice (int k) psz xs) [1..<Suc n]) = xs"
  by (subst page_slice_app [OF assms(1)]) (use assms(2) in simp)

end
