(* ===== verification/JsText.thy ===== *)
theory JsText
  imports Prelude
begin

text \<open>
  The string methods and the character classes of the regular expressions the services use.
  A string is a list of code units below 256: every literal of the modelled code is one, a
  length is \<open>String.prototype.length\<close>, and the case mappings, white space and canonical
  decompositions are those of Unicode restricted to that range.
\<close>

definition code :: "char \<Rightarrow> nat" where
  "code c = of_char c"

definition between :: "nat \<Rightarrow> nat \<Rightarrow> char \<Rightarrow> bool" where
  "between lo hi c = (lo \<le> code c \<and> code c \<le> hi)"

definition is_space :: "char \<Rightarrow> bool" where
  "is_space c = (code c \<in> {9, 10, 11, 12, 13, 32, 160})"

definition is_digit :: "char \<Rightarrow> bool" where "is_digit = between 48 57"
definition is_upper :: "char \<Rightarrow> bool" where "is_upper = between 65 90"
definition is_lower :: "char \<Rightarrow> bool" where "is_lower = between 97 122"

definition is_alnum :: "char \<Rightarrow> bool" where
  "is_alnum c = (is_digit c \<or> is_upper c \<or> is_lower c)"

text \<open>\<open>[a-zA-Z0-9_-]\<close> and \<open>[a-zA-Z0-9:_-]\<close>.\<close>

definition word_dash :: "char \<Rightarrow> bool" where
  "word_dash c = (is_alnum c \<or> c = CHR ''_'' \<or> c = CHR ''-'')"

definition word_colon :: "char \<Rightarrow> bool" where
  "word_colon c = (word_dash c \<or> c = CHR '':'')"

text \<open>\<open>/^[class]{lo,hi}$/.test(s)\<close>.\<close>

definition all_in :: "(char \<Rightarrow> bool) \<Rightarrow> nat \<Rightarrow> nat \<Rightarrow> string \<Rightarrow> bool" where
  "all_in cls lo hi s = (lo \<le> length s \<and> length s \<le> hi \<and> list_all cls s)"

section \<open>Trimming and case\<close>

definition js_trim_start :: "string \<Rightarrow> string" where
  "js_trim_start s = dropWhile is_space s"

definition js_trim :: "string \<Rightarrow> string" where
  "js_trim s = rev (dropWhile is_space (rev (dropWhile is_space s)))"

definition lower_char :: "char \<Rightarrow> char" where
  "lower_char c =
     (if between 65 90 c \<or> (between 192 222 c \<and> code c \<noteq> 215) then char_of (code c + 32) else c)"

definition upper_char :: "char \<Rightarrow> string" where
  "upper_char c =
     (if code c = 223 then ''SS''
      else if between 97 122 c \<or> (between 224 254 c \<and> code c \<noteq> 247) then [char_of (code c - 32)]
      else [c])"

definition js_lower :: "string \<Rightarrow> string" where
  "js_lower s = map lower_char s"

definition js_upper :: "string \<Rightarrow> string" where
  "js_upper s = concat (map upper_char s)"

text \<open>\<open>normalize("NFD").replace(/[\u0300-\u036f]/g, "")\<close>: the base letter of an accented one.\<close>

definition strip_accent :: "char \<Rightarrow> char" where
  "strip_accent c =
     (if between 192 197 c then CHR ''A'' else if code c = 199 then CHR ''C''
      else if between 200 203 c then CHR ''E'' else if between 204 207 c then CHR ''I''
      else if code c = 209 then CHR ''N'' else if between 210 214 c then CHR ''O''
      else if between 217 220 c then CHR ''U'' else if code c = 221 then CHR ''Y''
      else if between 224 229 c then CHR ''a'' else if code c = 231 then CHR ''c''
      else if between 232 235 c then CHR ''e'' else if between 236 239 c then CHR ''i''
      else if code c = 241 then CHR ''n'' else if between 242 246 c then CHR ''o''
      else if between 249 252 c then CHR ''u'' else if code c = 253 \<or> code c = 255 then CHR ''y''
      else c)"

section \<open>Searching\<close>

fun starts_with :: "string \<Rightarrow> string \<Rightarrow> bool" where
  "starts_with [] s = True"
| "starts_with (p # ps) [] = False"
| "starts_with (p # ps) (c # s) = (p = c \<and> starts_with ps s)"

fun js_includes :: "string \<Rightarrow> string \<Rightarrow> bool" where
  "js_includes p [] = (p = [])"
| "js_includes p (c # s) = (starts_with p (c # s) \<or> js_includes p s)"

fun index_from :: "char \<Rightarrow> string \<Rightarrow> int \<Rightarrow> int" where
  "index_from x [] n = -1"
| "index_from x (c # s) n = (if c = x then n else index_from x s (n + 1))"

text \<open>\<open>s.indexOf(c)\<close>, \<open>s.indexOf(c, from)\<close> and \<open>s.lastIndexOf(c)\<close>.\<close>

definition index_of :: "char \<Rightarrow> string \<Rightarrow> int" where
  "index_of x s = index_from x s 0"

definition index_of_at :: "char \<Rightarrow> string \<Rightarrow> int \<Rightarrow> int" where
  "index_of_at x s i = index_from x (drop (nat i) s) (int (min (nat i) (length s)))"

fun last_from :: "char \<Rightarrow> string \<Rightarrow> int \<Rightarrow> int \<Rightarrow> int" where
  "last_from x [] n r = r"
| "last_from x (c # s) n r = last_from x s (n + 1) (if c = x then n else r)"

definition last_index_of :: "char \<Rightarrow> string \<Rightarrow> int" where
  "last_index_of x s = last_from x s 0 (-1)"

text \<open>\<open>s.split(c)\<close> and \<open>parts.join(c)\<close> for a one-character separator.\<close>

fun js_split :: "char \<Rightarrow> string \<Rightarrow> string list" where
  "js_split x [] = [[]]"
| "js_split x (c # s) = (if c = x then [] # js_split x s
     else case js_split x s of [] \<Rightarrow> [[c]] | w # ws \<Rightarrow> (c # w) # ws)"

fun js_join :: "string \<Rightarrow> string list \<Rightarrow> string" where
  "js_join sep [] = []"
| "js_join sep [w] = w"
| "js_join sep (w # ws) = w @ sep @ js_join sep ws"

text \<open>\<open>s?.trim()\<close> as a condition: absent and blank strings are falsy.\<close>

definition js_blank :: "string \<Rightarrow> bool" where
  "js_blank s = (js_trim s = [])"

fun opt_text :: "string option \<Rightarrow> string" where
  "opt_text None = []"
| "opt_text (Some s) = s"

text \<open>\<open>Boolean(s)\<close> of an optional string.\<close>

fun truthy :: "string option \<Rightarrow> bool" where
  "truthy None = False"
| "truthy (Some s) = (s \<noteq> [])"

text \<open>A decimal number in a template literal.\<close>

fun digits_of :: "nat \<Rightarrow> string" where
  "digits_of n = (if n < 10 then [char_of (48 + n)] else digits_of (n div 10) @ [char_of (48 + n mod 10)])"

definition show_int :: "int \<Rightarrow> string" where
  "show_int n = (if n < 0 then CHR ''-'' # digits_of (nat (- n)) else digits_of (nat n))"

declare digits_of.simps [simp del]

text \<open>
  \<open>JSON.stringify\<close>: fields in their order, an undefined field dropped, an undefined element
  \<open>null\<close>. The numbers the services serialise passed an integer test; another one prints as
  \<open>NaN\<close> does.
\<close>

definition hex_char :: "nat \<Rightarrow> char" where
  "hex_char n = (if n < 10 then char_of (48 + n) else char_of (87 + n))"

definition json_char :: "char \<Rightarrow> string" where
  "json_char c =
     (if code c = 34 \<or> code c = 92 then [CHR 0x5C, c]
      else if code c = 8 then [CHR 0x5C, CHR ''b''] else if code c = 9 then [CHR 0x5C, CHR ''t'']
      else if code c = 10 then [CHR 0x5C, CHR ''n''] else if code c = 12 then [CHR 0x5C, CHR ''f'']
      else if code c = 13 then [CHR 0x5C, CHR ''r'']
      else if code c < 32 then [CHR 0x5C, CHR ''u'', CHR ''0'', CHR ''0'', hex_char (code c div 16), hex_char (code c mod 16)]
      else [c])"

definition json_quote :: "string \<Rightarrow> string" where
  "json_quote t = [CHR 0x22] @ concat (map json_char t) @ [CHR 0x22]"

fun json_text :: "json \<Rightarrow> string" where
  "json_text JUndef = ''null''"
| "json_text JNull = ''null''"
| "json_text (JBool b) = (if b then ''true'' else ''false'')"
| "json_text (JNum n) = (case n of JInt k \<Rightarrow> show_int k | JOther \<Rightarrow> ''null'')"
| "json_text (JStr t) = json_quote t"
| "json_text (JArr vs) = ''['' @ js_join '','' (map json_text vs) @ '']''"
| "json_text (JObj kvs) = ''{'' @ js_join '',''
     (map (\<lambda>kv. json_quote (fst kv) @ '':'' @ json_text (snd kv)) (filter (\<lambda>kv. snd kv \<noteq> JUndef) kvs)) @ ''}''"

section \<open>Phone numbers\<close>

text \<open>\<open>replace(/[^+\d]/g, "")\<close> and \<open>/^\+?\d{8,15}$/\<close>.\<close>

definition phone_digits :: "string \<Rightarrow> string" where
  "phone_digits s = filter (\<lambda>c. c = CHR ''+'' \<or> is_digit c) s"

definition phone_ok :: "string \<Rightarrow> bool" where
  "phone_ok s = (case s of [] \<Rightarrow> False
     | c # r \<Rightarrow> all_in is_digit 8 15 (if c = CHR ''+'' then r else s))"

section \<open>Lemmas\<close>

lemma dropWhile_idem: "dropWhile P (dropWhile P s) = dropWhile P s"
  by (induction s) auto

lemma dropWhile_rev_hd:
  "s = [] \<or> \<not> P (hd s) \<Longrightarrow> rev (dropWhile P (rev s)) = [] \<or> \<not> P (hd (rev (dropWhile P (rev s))))"
  by (cases s) (simp_all add: dropWhile_append)

lemma js_trim_Nil [simp]: "js_trim [] = []"
  by (simp add: js_trim_def)

lemma js_trim_hd: "js_trim s \<noteq> [] \<Longrightarrow> \<not> is_space (hd (js_trim s))"
  using dropWhile_rev_hd [of "dropWhile is_space s" is_space] hd_dropWhile [of is_space s]
  unfolding js_trim_def by (metis list.collapse dropWhile_eq_Nil_conv list.set_sel(1))

lemma js_trim_last: "js_trim s \<noteq> [] \<Longrightarrow> \<not> is_space (last (js_trim s))"
  by (simp add: js_trim_def last_rev hd_dropWhile)

lemma js_trim_idem [simp]: "js_trim (js_trim s) = js_trim s"
proof (cases "js_trim s = []")
  case True
  then show ?thesis by simp
next
  case False
  have start: "dropWhile is_space (js_trim s) = js_trim s"
    using js_trim_hd [OF False] False by (cases "js_trim s") auto
  have "dropWhile is_space (rev (js_trim s)) = rev (js_trim s)"
    unfolding js_trim_def rev_rev_ident by (rule dropWhile_idem)
  with start show ?thesis by (simp add: js_trim_def [of "js_trim s"])
qed

lemma set_js_trim: "set (js_trim s) \<subseteq> set s"
  by (auto simp: js_trim_def dest!: set_dropWhileD)

lemma length_js_trim: "length (js_trim s) \<le> length s"
  unfolding js_trim_def
  by (metis length_dropWhile_le length_rev order_trans)

lemma js_lower_idem [simp]: "js_lower (js_lower s) = js_lower s"
proof -
  have "lower_char (lower_char c) = lower_char c" for c
  proof -
    have "code (char_of n) = n mod 256" for n
      by (simp add: code_def)
    then show ?thesis
      by (auto simp: lower_char_def between_def)
  qed
  then show ?thesis by (simp add: js_lower_def)
qed

lemma phone_digits_idem [simp]: "phone_digits (phone_digits s) = phone_digits s"
  by (simp add: phone_digits_def)

lemma starts_with_append [simp]: "starts_with p (p @ s)"
  by (induction p) auto

lemma starts_with_iff: "starts_with p s \<longleftrightarrow> (\<exists>t. s = p @ t)"
  by (induction p s rule: starts_with.induct) auto

lemma js_includes_iff: "js_includes p s \<longleftrightarrow> (\<exists>u v. s = u @ p @ v)"
proof (induction s)
  case Nil
  then show ?case by auto
next
  case (Cons c s)
  have "(\<exists>u v. c # s = u @ p @ v) \<longleftrightarrow> (\<exists>v. c # s = p @ v) \<or> (\<exists>u v. s = u @ p @ v)"
    by (metis append_Cons append_Nil list.sel(3) neq_Nil_conv tl_append2)
  with Cons show ?case by (simp add: starts_with_iff)
qed

lemma js_includes_char: "js_includes [x] s \<longleftrightarrow> x \<in> set s"
  by (auto simp: js_includes_iff in_set_conv_decomp)

lemma index_from_bound:
  "index_from x s n = -1 \<or> n \<le> index_from x s n \<and> index_from x s n < n + int (length s)"
  by (induction x s n rule: index_from.induct) auto

lemma index_from_absent: "0 \<le> n \<Longrightarrow> index_from x s n = -1 \<longleftrightarrow> x \<notin> set s"
  by (induction x s n rule: index_from.induct) auto

lemma js_split_nonempty [simp]: "js_split x s \<noteq> []"
  by (induction s) (auto split: list.splits)

lemma js_split_word: "x \<notin> set w \<Longrightarrow> js_split x w = [w]"
  by (induction w) auto

lemma js_split_app: "x \<notin> set w \<Longrightarrow> js_split x (w @ x # s) = w # js_split x s"
  by (induction w) auto

lemma js_join_split [simp]: "js_join [x] (js_split x s) = s"
proof (induction s)
  case Nil
  then show ?case by simp
next
  case (Cons c s)
  then show ?case
    by (cases "js_split x s"; cases "tl (js_split x s)") auto
qed

lemma digits_of_nonempty [simp]: "digits_of n \<noteq> []"
  by (subst digits_of.simps) simp

end
