(* ===== verification/Host.thy ===== *)
theory Host
  imports JsText
begin

text \<open>
  The Node runtime as the services see it: the clock, the supply of random identifiers and
  tokens, digests, and the library functions whose result the language leaves to the
  implementation (parsing a date, comparing two strings in a locale, formatting a day in a
  time zone). They are the fields of the innermost record of the state, which every service
  state extends, so an operation draws an identifier by moving the supply on.

  Instants are milliseconds since the epoch: \<open>Date.now()\<close>, and what \<open>toISOString\<close> prints; two
  such strings compare as their instants do. One operation runs at one instant.
\<close>

record host =
  now :: int
  draws :: nat
  uuid :: "nat \<Rightarrow> string"
  random_token :: "nat \<Rightarrow> string"
  sha256hex :: "string \<Rightarrow> string"
  scrypt :: "string \<Rightarrow> string \<Rightarrow> string"
  date_parse :: "string \<Rightarrow> int option"
  iso_string :: "int \<Rightarrow> string"
  utc_year :: "int \<Rightarrow> int"
  local_day :: "int \<Rightarrow> string"
  locale_cmp :: "string \<Rightarrow> string \<Rightarrow> int"

text \<open>\<open>randomUUID()\<close> and \<open>randomBytes(n).toString(...)\<close>: the next draw of the supply.\<close>

definition fresh_uuid :: "'a host_scheme \<Rightarrow> string" where
  "fresh_uuid s = uuid s (draws s)"

definition fresh_token :: "'a host_scheme \<Rightarrow> string" where
  "fresh_token s = random_token s (draws s)"

definition drawn :: "'a host_scheme \<Rightarrow> 'a host_scheme" where
  "drawn s = s\<lparr>draws := Suc (draws s)\<rparr>"

text \<open>The identifiers handed out so far.\<close>

definition issued :: "'a host_scheme \<Rightarrow> string set" where
  "issued s = uuid s ` {..<draws s}"

text \<open>
  The host goes on: time passes and identifiers are drawn, the library functions stay.
\<close>

definition same_host :: "'a host_scheme \<Rightarrow> 'b host_scheme \<Rightarrow> bool" where
  "same_host s t \<longleftrightarrow> uuid t = uuid s \<and> random_token t = random_token s \<and> sha256hex t = sha256hex s
     \<and> scrypt t = scrypt s \<and> date_parse t = date_parse s \<and> iso_string t = iso_string s
     \<and> utc_year t = utc_year s \<and> local_day t = local_day s \<and> locale_cmp t = locale_cmp s
     \<and> now s = now t \<and> draws s \<le> draws t"

lemma same_host_refl [simp]: "same_host s s"
  by (simp add: same_host_def)

lemma same_host_trans: "same_host s t \<Longrightarrow> same_host t u \<Longrightarrow> same_host s u"
  by (auto simp: same_host_def)

lemma drawn_simps [simp]:
  "now (drawn s) = now s" "uuid (drawn s) = uuid s" "draws (drawn s) = Suc (draws s)"
  "random_token (drawn s) = random_token s" "sha256hex (drawn s) = sha256hex s"
  "scrypt (drawn s) = scrypt s" "date_parse (drawn s) = date_parse s"
  "iso_string (drawn s) = iso_string s" "utc_year (drawn s) = utc_year s"
  "local_day (drawn s) = local_day s" "locale_cmp (drawn s) = locale_cmp s"
  by (simp_all add: drawn_def)

lemma same_host_drawn [simp]: "same_host s (drawn s)"
  by (simp add: same_host_def)

lemma fresh_uuid_not_issued: "inj (uuid s) \<Longrightarrow> fresh_uuid s \<notin> issued s"
  by (auto simp: fresh_uuid_def issued_def inj_eq)

lemma uuid_not_issued: "inj (uuid s) \<Longrightarrow> draws s \<le> n \<Longrightarrow> uuid s n \<notin> issued s"
  by (auto simp: issued_def inj_eq)

lemma issued_mono: "same_host s t \<Longrightarrow> i \<in> issued s \<Longrightarrow> i \<in> issued t"
  by (auto simp: issued_def same_host_def)

lemma issued_drawn: "issued (drawn s) = insert (fresh_uuid s) (issued s)"
  by (simp add: issued_def fresh_uuid_def lessThan_Suc)

text \<open>\<open>new Date(text ?? "")\<close> of an optional string.\<close>

definition parse_opt :: "'a host_scheme \<Rightarrow> string option \<Rightarrow> int option" where
  "parse_opt s t = date_parse s (opt_text t)"

text \<open>A concrete host for the witnesses: identifiers are numbered, dates are decimal numbers.\<close>

fun decimal :: "string \<Rightarrow> nat \<Rightarrow> int option" where
  "decimal [] n = Some (int n)"
| "decimal (c # s) n = (if is_digit c then decimal s (10 * n + (code c - 48)) else None)"

fun string_cmp :: "string \<Rightarrow> string \<Rightarrow> int" where
  "string_cmp [] [] = 0"
| "string_cmp [] (d # t) = -1"
| "string_cmp (c # s) [] = 1"
| "string_cmp (c # s) (d # t) =
     (if code c < code d then -1 else if code d < code c then 1 else string_cmp s t)"

definition demo_host :: host where
  "demo_host = \<lparr>now = 1000, draws = 0, uuid = (\<lambda>n. ''id-'' @ replicate n CHR ''x''),
     random_token = (\<lambda>n. ''tk-'' @ replicate n CHR ''x''),
     sha256hex = (\<lambda>s. ''#'' @ s), scrypt = (\<lambda>s salt. salt @ ''$'' @ s),
     date_parse = (\<lambda>s. if s = [] then None else decimal s 0), iso_string = show_int,
     utc_year = (\<lambda>_. 2026), local_day = (\<lambda>t. show_int (t div 86400000)),
     locale_cmp = string_cmp\<rparr>"

lemma string_cmp_total: "string_cmp s t \<le> 0 \<or> string_cmp t s \<le> 0"
  by (induction s t rule: string_cmp.induct) auto

lemma code_inj: "code c = code d \<longleftrightarrow> c = d"
  by (metis char_of_char code_def)

lemma string_cmp_trans: "string_cmp s t \<le> 0 \<Longrightarrow> string_cmp t u \<le> 0 \<Longrightarrow> string_cmp s u \<le> 0"
proof (induction s t arbitrary: u rule: string_cmp.induct)
  case (1 u)
  then show ?case by simp
next
  case (2 d t u)
  then show ?case by (cases u) auto
next
  case (3 c s u)
  then show ?case by simp
next
  case (4 c s d t)
  show ?case
  proof (cases u)
    case Nil
    with "4.prems" show ?thesis by simp
  next
    case (Cons e v)
    show ?thesis
    proof (cases "code c < code e")
      case True
      with Cons show ?thesis by simp
    next
      case False
      with "4.prems" Cons have eq: "code c = code d" "code d = code e"
        by (auto split: if_splits)
      with "4.prems" Cons have "string_cmp s t \<le> 0" "string_cmp t v \<le> 0" by auto
      with "4.IH" eq have "string_cmp s v \<le> 0" by simp
      with eq Cons show ?thesis by simp
    qed
  qed
qed

interpretation by_text: comparator string_cmp
  using string_cmp_total string_cmp_trans by unfold_locales blast+

lemma inj_demo_uuid: "inj (uuid demo_host)"
  by (auto simp: inj_def demo_host_def dest: arg_cong [where f = length])

end
