(* ===== verification/Auth.thy ===== *)
theory Auth
  imports Host
begin

text \<open>
  Identities and the role guard: \<open>auth/auth.types.ts\<close> and \<open>auth/rbac.guard.ts\<close>. The role tests
  the services repeat inline are abbreviations over \<open>has_role\<close>.
\<close>

section \<open>Roles, scopes, principals\<close>

datatype role = SUPER_ADMIN | ADMIN | MANAGER | ADMISSIONS | AUDITOR

fun role_name :: "role \<Rightarrow> string" where
  "role_name SUPER_ADMIN = ''SUPER_ADMIN''"
| "role_name ADMIN = ''ADMIN''"
| "role_name MANAGER = ''MANAGER''"
| "role_name ADMISSIONS = ''ADMISSIONS''"
| "role_name AUDITOR = ''AUDITOR''"

definition roles :: "role list" where
  "roles = [SUPER_ADMIN, ADMIN, MANAGER, ADMISSIONS, AUDITOR]"

text \<open>\<open>isRole(value)\<close>, and the cast of a value that passed it.\<close>

definition isRole :: "string \<Rightarrow> bool" where
  "isRole v = (v \<in> set (map role_name roles))"

definition as_role :: "string \<Rightarrow> role option" where
  "as_role v = find (\<lambda>r. role_name r = v) roles"

definition as_roles :: "string list \<Rightarrow> role list" where
  "as_roles vs = List.map_filter as_role vs"

datatype scope = GlobalScope | CampusScope string | TeamScope string

record principal =
  userId :: string
  p_roles :: "role list"
  scopes :: "scope list"
  sessionId :: string
  mustChangeSecret :: "bool option"
  permissionLeadIds :: "string list option"

definition has_role :: "principal \<Rightarrow> role list \<Rightarrow> bool" where
  "has_role p rs = list_ex (\<lambda>r. r \<in> set rs) (p_roles p)"

abbreviation manager_roles :: "role list" where
  "manager_roles \<equiv> [MANAGER, ADMIN, SUPER_ADMIN]"

abbreviation operational_roles :: "role list" where
  "operational_roles \<equiv> [ADMISSIONS, MANAGER, ADMIN, SUPER_ADMIN]"

definition is_manager :: "principal \<Rightarrow> bool" where
  "is_manager p = has_role p manager_roles"

definition is_operational :: "principal \<Rightarrow> bool" where
  "is_operational p = has_role p operational_roles"

definition is_admin :: "principal \<Rightarrow> bool" where
  "is_admin p = has_role p [ADMIN, SUPER_ADMIN]"

definition global_scope :: "principal \<Rightarrow> bool" where
  "global_scope p = (GlobalScope \<in> set (scopes p))"

definition campus_scope :: "principal \<Rightarrow> string \<Rightarrow> bool" where
  "campus_scope p c = (CampusScope c \<in> set (scopes p))"

text \<open>\<open>principal.scopes.some(GLOBAL || CAMPUS with this id)\<close>.\<close>

definition reaches_campus :: "principal \<Rightarrow> string \<Rightarrow> bool" where
  "reaches_campus p c = (global_scope p \<or> campus_scope p c)"

lemma has_role_iff: "has_role p rs \<longleftrightarrow> (\<exists>r \<in> set (p_roles p). r \<in> set rs)"
  by (simp add: has_role_def list_ex_iff)

lemma manager_operational [simp, intro]: "is_manager p \<Longrightarrow> is_operational p"
  by (auto simp: is_manager_def is_operational_def has_role_iff)

lemma as_role_name [simp]: "as_role (role_name r) = Some r"
  by (cases r) (simp_all add: as_role_def roles_def)

lemma isRole_as_role: "isRole v \<longleftrightarrow> (\<exists>r. as_role v = Some r \<and> role_name r = v)"
  by (auto simp: isRole_def as_role_def roles_def split: if_splits)

lemma as_role_Some: "as_role v = Some r \<Longrightarrow> role_name r = v"
  by (auto simp: as_role_def find_Some_iff)

lemma as_roles_length: "list_all isRole vs \<Longrightarrow> map role_name (as_roles vs) = vs"
  by (induction vs) (auto simp: as_roles_def List.map_filter_simps isRole_as_role)

lemma as_roles_mem: "r \<in> set (as_roles vs) \<longleftrightarrow> role_name r \<in> set vs"
  by (induction vs) (auto simp: as_roles_def List.map_filter_simps dest: as_role_Some split: option.splits)

section \<open>The guard\<close>

fun canAccessScope :: "principal \<Rightarrow> scope \<Rightarrow> bool" where
  "canAccessScope p sc =
     (if GlobalScope \<in> set (scopes p) then True
      else list_ex (\<lambda>c. case (c, sc) of
             (CampusScope a, CampusScope b) \<Rightarrow> a = b
           | (TeamScope a, TeamScope b) \<Rightarrow> a = b
           | _ \<Rightarrow> False) (scopes p))"

text \<open>
  \<open>RbacGuard.canActivate\<close>: the principal of the request, the roles its handler and controller
  require (\<open>None\<close> when they set no metadata).
\<close>

definition canActivate :: "principal option \<Rightarrow> role list option \<Rightarrow> bool result" where
  "canActivate req required =
     (case req of
        None \<Rightarrow> Inl (Unauthorized ''session_invalid'')
      | Some p \<Rightarrow>
          if mustChangeSecret p = Some True then Inl (Forbidden ''secret_change_required'')
          else (let need = (case required of None \<Rightarrow> [] | Some rs \<Rightarrow> rs)
                in if need \<noteq> [] \<and> \<not> list_ex (\<lambda>r. r \<in> set (p_roles p)) need
                   then Inl (Forbidden ''role_forbidden'') else Inr True))"

lemma canAccessScope_iff:
  "canAccessScope p sc \<longleftrightarrow> GlobalScope \<in> set (scopes p) \<or> sc \<in> set (scopes p)"
  by (cases sc) (auto simp: list_ex_iff split: scope.splits, (metis scope.exhaust)+)

text \<open>A manager and an auditor for the witnesses.\<close>

definition demo_principal :: "string \<Rightarrow> role list \<Rightarrow> principal" where
  "demo_principal u rs = \<lparr>userId = u, p_roles = rs, scopes = [GlobalScope], sessionId = ''sess'',
     mustChangeSecret = None, permissionLeadIds = None\<rparr>"

end
