(* ===== verification/AuditTrail.thy ===== *)
theory AuditTrail
  imports Auth
begin

text \<open>
  The audit trail of \<open>audit/audit.service.ts\<close>: redaction of the payloads, minimisation of the
  client address, the idempotent append-only log and its bounded listing.
\<close>

section \<open>Redaction\<close>

datatype audit_result = SUCCESS | DENIED | FAILED

record audit_event =
  ae_id :: string
  ae_eventType :: string
  ae_actorId :: "string option"
  ae_actorRoles :: "role list"
  ae_minimizedIp :: "string option"
  ae_sessionId :: "string option"
  ae_correlationId :: string
  ae_before :: json
  ae_after :: json
  ae_result :: audit_result
  ae_idempotencyKey :: string
  ae_occurredAt :: int

record audit_input =
  ai_eventType :: string
  ai_actorId :: "string option"
  ai_actorRoles :: "role list"
  ai_ip :: "string option"
  ai_sessionId :: "string option"
  ai_correlationId :: string
  ai_before :: json
  ai_after :: json
  ai_result :: audit_result
  ai_idempotencyKey :: string

definition sensitive_words :: "string list" where
  "sensitive_words = [''password'', ''secret'', ''token'', ''authorization'', ''cookie'',
     ''credential'', ''recovery'', ''link'', ''url'']"

definition SENSITIVE_KEYS :: "string \<Rightarrow> bool" where
  "SENSITIVE_KEYS k = list_ex (\<lambda>w. js_includes w (js_lower k)) sensitive_words"

definition is_link :: "string \<Rightarrow> bool" where
  "is_link v = (starts_with ''http://'' (js_lower v) \<or> starts_with ''https://'' (js_lower v))"

fun sanitize :: "json \<Rightarrow> json" where
  "sanitize (JArr vs) = JArr (map sanitize vs)"
| "sanitize (JStr v) = (if is_link v then JStr ''[redacted-link]'' else JStr v)"
| "sanitize (JObj kvs) =
     JObj (map (\<lambda>kv. (fst kv, sanitize (snd kv))) (filter (\<lambda>kv. \<not> SENSITIVE_KEYS (fst kv)) kvs))"
| "sanitize v = v"

text \<open>What a redacted payload may hold, at any depth.\<close>

fun redacted :: "json \<Rightarrow> bool" where
  "redacted (JArr vs) = list_all redacted vs"
| "redacted (JStr v) = (\<not> is_link v)"
| "redacted (JObj kvs) = list_all (\<lambda>kv. \<not> SENSITIVE_KEYS (fst kv) \<and> redacted (snd kv)) kvs"
| "redacted v = True"

lemma redaction_marker: "\<not> is_link ''[redacted-link]''"
  by (simp add: is_link_def js_lower_def lower_char_def between_def code_def)

lemma redacted_sanitize: "redacted (sanitize v)"
  by (induction v rule: sanitize.induct) (auto simp: redaction_marker list_all_iff)

lemma sanitize_redacted: "redacted v \<Longrightarrow> sanitize v = v"
proof (induction v rule: sanitize.induct)
  case (3 kvs)
  then have "filter (\<lambda>kv. \<not> SENSITIVE_KEYS (fst kv)) kvs = kvs"
    by (auto simp: list_all_iff filter_id_conv)
  moreover have "map (\<lambda>kv. (fst kv, sanitize (snd kv))) kvs = kvs"
    using 3 by (intro map_idI) (auto simp: list_all_iff prod_eq_iff)
  ultimately show ?case by simp
qed (auto simp: list_all_iff intro: map_idI)

section \<open>Client addresses\<close>

definition ip_digits :: "string \<Rightarrow> bool" where
  "ip_digits w = all_in is_digit 1 3 w"

definition minimizeIp :: "string option \<Rightarrow> string option" where
  "minimizeIp ip = (case ip of None \<Rightarrow> None | Some a \<Rightarrow>
     if a = [] then None
     else (let n = (if starts_with ''::ffff:'' a then drop 7 a else a)
       in case js_split (CHR ''.'') n of
            [a1, a2, a3, a4] \<Rightarrow>
              if list_all ip_digits [a1, a2, a3, a4] then Some (js_join ''.'' [a1, a2, a3, ''0''])
              else if CHR '':'' \<in> set n then Some (js_join '':'' (take 4 (js_split (CHR '':'') n)) @ ''::'')
              else Some ''unknown''
          | _ \<Rightarrow> if CHR '':'' \<in> set n then Some (js_join '':'' (take 4 (js_split (CHR '':'') n)) @ ''::'')
              else Some ''unknown''))"

section \<open>The log\<close>

record audit_state = host +
  audit_events :: "(string, audit_event) js_map"

definition audit_record :: "audit_input \<Rightarrow> 'a audit_state_scheme \<Rightarrow> audit_event \<times> 'a audit_state_scheme" where
  "audit_record i s =
     (case js_get (audit_events s) (ai_idempotencyKey i) of
        Some e \<Rightarrow> (e, s)
      | None \<Rightarrow>
          (let e = \<lparr>ae_id = fresh_uuid s, ae_eventType = ai_eventType i, ae_actorId = ai_actorId i,
                 ae_actorRoles = ai_actorRoles i, ae_minimizedIp = minimizeIp (ai_ip i),
                 ae_sessionId = ai_sessionId i, ae_correlationId = ai_correlationId i,
                 ae_before = sanitize (ai_before i), ae_after = sanitize (ai_after i),
                 ae_result = ai_result i, ae_idempotencyKey = ai_idempotencyKey i,
                 ae_occurredAt = now s\<rparr>
           in (e, drawn s\<lparr>audit_events := js_set (audit_events s) (ai_idempotencyKey i) e\<rparr>)))"

definition audit_list :: "int \<Rightarrow> 'a audit_state_scheme \<Rightarrow> audit_event list" where
  "audit_list limit s =
     (let bounded = nat (max 1 (min limit 500)); es = js_values (audit_events s)
      in rev (drop (length es - bounded) es))"

text \<open>
  The record most services write: the acting principal, a correlation identifier, the
  payloads, the outcome and the idempotency key.
\<close>

definition audit_by ::
  "principal \<Rightarrow> string \<Rightarrow> string \<Rightarrow> json \<Rightarrow> json \<Rightarrow> audit_result \<Rightarrow> string \<Rightarrow> 'a audit_state_scheme \<Rightarrow> 'a audit_state_scheme" where
  "audit_by p cid ty bef aft res key s =
     snd (audit_record \<lparr>ai_eventType = ty, ai_actorId = Some (userId p), ai_actorRoles = p_roles p,
       ai_ip = None, ai_sessionId = Some (sessionId p), ai_correlationId = cid, ai_before = bef,
       ai_after = aft, ai_result = res, ai_idempotencyKey = key\<rparr> s)"

section \<open>Laws of the log\<close>

lemma audit_record_same: "snd (audit_record i s) = s \<or> same_host s (snd (audit_record i s))"
  by (auto simp: audit_record_def Let_def same_host_def drawn_def split: option.splits)

lemma same_host_audit [simp]: "same_host s (snd (audit_record i s))"
  by (auto simp: audit_record_def Let_def same_host_def drawn_def split: option.splits)

lemma audit_host [simp]:
  "now (snd (audit_record i s)) = now s" "uuid (snd (audit_record i s)) = uuid s"
  "random_token (snd (audit_record i s)) = random_token s"
  "sha256hex (snd (audit_record i s)) = sha256hex s" "scrypt (snd (audit_record i s)) = scrypt s"
  "date_parse (snd (audit_record i s)) = date_parse s" "iso_string (snd (audit_record i s)) = iso_string s"
  "utc_year (snd (audit_record i s)) = utc_year s" "local_day (snd (audit_record i s)) = local_day s"
  "locale_cmp (snd (audit_record i s)) = locale_cmp s"
  using same_host_audit [of s i] by (simp_all add: same_host_def del: same_host_audit)

lemma draws_audit: "draws s \<le> draws (snd (audit_record i s))"
  using same_host_audit [of s i] by (simp add: same_host_def del: same_host_audit)

lemma audit_record_get:
  "js_get (audit_events (snd (audit_record i s))) (ai_idempotencyKey i) = Some (fst (audit_record i s))"
  by (auto simp: audit_record_def Let_def drawn_def split: option.splits)

lemma audit_record_keeps:
  "js_get (audit_events s) k = Some e \<Longrightarrow> js_get (audit_events (snd (audit_record i s))) k = Some e"
  by (auto simp: audit_record_def Let_def drawn_def split: option.splits)

lemma audit_record_prefix:
  "\<exists>new. js_values (audit_events (snd (audit_record i s))) = js_values (audit_events s) @ new"
  by (cases "js_get (audit_events s) (ai_idempotencyKey i)")
     (simp_all add: audit_record_def Let_def drawn_def js_values_set_fresh)

text \<open>
  The contract the services rely on when they write to the trail: a key names one event for
  ever, and nothing written is altered or removed.
\<close>

locale event_log =
  fixes lookup :: "'s \<Rightarrow> 'k \<Rightarrow> 'e option"
    and append :: "'i \<Rightarrow> 's \<Rightarrow> 'e \<times> 's"
    and key_of :: "'i \<Rightarrow> 'k"
    and entries :: "'s \<Rightarrow> 'e list"
  assumes lookup_append: "lookup (snd (append i s)) (key_of i) = Some (fst (append i s))"
    and append_keeps: "lookup s k = Some e \<Longrightarrow> lookup (snd (append i s)) k = Some e"
    and append_known: "lookup s (key_of i) = Some e \<Longrightarrow> append i s = (e, s)"
    and append_suffix: "\<exists>new. entries (snd (append i s)) = entries s @ new"
begin

fun append_all :: "'i list \<Rightarrow> 's \<Rightarrow> 's" where
  "append_all [] s = s"
| "append_all (i # is) s = append_all is (snd (append i s))"

lemma append_all_keeps: "lookup s k = Some e \<Longrightarrow> lookup (append_all is s) k = Some e"
  by (induction "is" arbitrary: s) (auto simp: append_keeps)

lemma append_all_suffix: "\<exists>new. entries (append_all is s) = entries s @ new"
proof (induction "is" arbitrary: s)
  case Nil
  then show ?case by simp
next
  case (Cons i "is")
  from append_suffix [of i s] Cons [of "snd (append i s)"] show ?case by auto
qed

text \<open>Writing an input again, however much was written in between, gives the first event back.\<close>

lemma append_replay:
  "append i (append_all is (snd (append i s))) = (fst (append i s), append_all is (snd (append i s)))"
  by (rule append_known) (simp add: append_all_keeps lookup_append)

end

interpretation audit: event_log
  "\<lambda>s. js_get (audit_events s)" audit_record ai_idempotencyKey "\<lambda>s. js_values (audit_events s)"
proof (unfold_locales, goal_cases)
  case (1 s i)
  then show ?case by (rule audit_record_get)
next
  case (2 s k e i)
  then show ?case by (rule audit_record_keeps)
next
  case (3 s i e)
  then show ?case by (simp add: audit_record_def)
next
  case (4 i s)
  then show ?case by (rule audit_record_prefix)
qed

lemma audit_by_host [simp]:
  "now (audit_by p cid ty b a r k s) = now s" "uuid (audit_by p cid ty b a r k s) = uuid s"
  "random_token (audit_by p cid ty b a r k s) = random_token s"
  "sha256hex (audit_by p cid ty b a r k s) = sha256hex s" "scrypt (audit_by p cid ty b a r k s) = scrypt s"
  "date_parse (audit_by p cid ty b a r k s) = date_parse s"
  "iso_string (audit_by p cid ty b a r k s) = iso_string s"
  "utc_year (audit_by p cid ty b a r k s) = utc_year s"
  "local_day (audit_by p cid ty b a r k s) = local_day s"
  "locale_cmp (audit_by p cid ty b a r k s) = locale_cmp s"
  by (simp_all add: audit_by_def)

lemma same_host_audit_by [simp]: "same_host s (audit_by p cid ty b a r k s)"
  by (simp add: audit_by_def)

lemma audit_events_prefix:
  "\<exists>new. js_values (audit_events (audit_by p cid ty b a r k s)) = js_values (audit_events s) @ new"
  unfolding audit_by_def by (rule audit_record_prefix)


section \<open>Properties\<close>

text \<open>
  Recording is idempotent: the input recorded again, whatever was recorded in between,
  returns the event of the first time and leaves the trail and the host as they are.
\<close>

theorem audit_replay:
  "audit_record i (audit.append_all is (snd (audit_record i s)))
     = (fst (audit_record i s), audit.append_all is (snd (audit_record i s)))"
  by (rule audit.append_replay)

text \<open>
  C40: The trail only grows, by at most one event a call, and nothing sensitive enters it: the
  payloads of a new event hold, at any depth, neither a field with a sensitive name nor a
  string that is a link, and its client address is the minimised one.
\<close>

theorem audit_append_only_redacted:
  "\<exists>new. js_values (audit_events (snd (audit_record i s))) = js_values (audit_events s) @ new
     \<and> length new \<le> 1
     \<and> list_all (\<lambda>e. redacted (ae_before e) \<and> redacted (ae_after e)
          \<and> ae_minimizedIp e = minimizeIp (ai_ip i) \<and> ae_occurredAt e = now s) new"
  by (cases "js_get (audit_events s) (ai_idempotencyKey i)")
     (simp_all add: audit_record_def Let_def js_values_set_fresh redacted_sanitize drawn_def)

lemma ip_digits_no_dot: "ip_digits w \<Longrightarrow> CHR ''.'' \<notin> set w"
  by (auto simp: ip_digits_def all_in_def list_all_iff is_digit_def between_def code_def)

lemma ip_digits_no_colon: "ip_digits w \<Longrightarrow> CHR '':'' \<notin> set w"
  by (auto simp: ip_digits_def all_in_def list_all_iff is_digit_def between_def code_def)

lemma minimize_quad:
  assumes "ip_digits a" "ip_digits b" "ip_digits c" "ip_digits d"
  shows "minimizeIp (Some (a @ ''.'' @ b @ ''.'' @ c @ ''.'' @ d)) = Some (a @ ''.'' @ b @ ''.'' @ c @ ''.0'')"
    and "minimizeIp (Some (''::ffff:'' @ a @ ''.'' @ b @ ''.'' @ c @ ''.'' @ d)) = Some (a @ ''.'' @ b @ ''.'' @ c @ ''.0'')"
proof -
  note split = js_split_app [OF ip_digits_no_dot [OF assms(1)]] js_split_app [OF ip_digits_no_dot [OF assms(2)]]
    js_split_app [OF ip_digits_no_dot [OF assms(3)]] js_split_word [OF ip_digits_no_dot [OF assms(4)]]
  have start: "\<not> starts_with ''::ffff:'' (a @ CHR ''.'' # s)" for s
    using assms(1) ip_digits_no_colon [OF assms(1)] by (cases a) auto
  show "minimizeIp (Some (a @ ''.'' @ b @ ''.'' @ c @ ''.'' @ d)) = Some (a @ ''.'' @ b @ ''.'' @ c @ ''.0'')"
    using assms by (simp add: minimizeIp_def start split)
  show "minimizeIp (Some (''::ffff:'' @ a @ ''.'' @ b @ ''.'' @ c @ ''.'' @ d)) = Some (a @ ''.'' @ b @ ''.'' @ c @ ''.0'')"
    using assms by (simp add: minimizeIp_def split)
qed

text \<open>
  The host part of an IPv4 address, mapped into IPv6 or not, never reaches the trail:
  its last number is replaced by zero.
\<close>

theorem minimizeIp_hides_host:
  assumes "ip_digits a" "ip_digits b" "ip_digits c" "ip_digits d" and "prefix = [] \<or> prefix = ''::ffff:''"
  shows "minimizeIp (Some (prefix @ a @ ''.'' @ b @ ''.'' @ c @ ''.'' @ d)) = Some (a @ ''.'' @ b @ ''.'' @ c @ ''.0'')"
  using assms minimize_quad by auto

theorem minimizeIp_hides_host_witness: "minimizeIp (Some ''::ffff:10.0.77.9'') = Some ''10.0.77.0''"
  using minimizeIp_hides_host [of "''10''" "''0''" "''77''" "''9''" "''::ffff:''"]
  by (simp add: ip_digits_def all_in_def is_digit_def between_def code_def)

end
