(* ===== verification/Sessions.thy ===== *)
theory Sessions
  imports AuditTrail
begin

text \<open>
  \<open>auth/session.service.ts\<close> without a database: the table of sessions by token digest, the
  identity state (active flag and authentication version) that \<open>UserService\<close> pushes into it,
  and the sliding-window limiter of \<open>auth/rate-limit.service.ts\<close>.
\<close>

section \<open>State and operations\<close>

record session_record =
  ses_userId :: string
  ses_roles :: "role list"
  ses_scopes :: "scope list"
  ses_sessionId :: string
  ses_mustChangeSecret :: bool
  ses_tokenDigest :: string
  ses_active :: bool
  ses_expiresAt :: int
  ses_authenticationVersion :: int

record session_state = audit_state +
  sessions :: "(string, session_record) js_map"
  authenticationVersions :: "(string, int) js_map"
  activeUsers :: "(string, bool) js_map"
  attempts :: "(string, int list) js_map"

definition digestToken :: "'a host_scheme \<Rightarrow> string \<Rightarrow> string" where
  "digestToken s token = sha256hex s token"

fun valid_scope :: "json \<Rightarrow> scope option" where
  "valid_scope (JObj kvs) =
     (case map_of kvs ''kind'' of
        Some (JStr k) \<Rightarrow>
          if k = ''GLOBAL'' then Some GlobalScope
          else (case map_of kvs ''id'' of
                  Some (JStr i) \<Rightarrow> if k = ''CAMPUS'' then Some (CampusScope i)
                                  else if k = ''TEAM'' then Some (TeamScope i) else None
                | _ \<Rightarrow> None)
      | _ \<Rightarrow> None)"
| "valid_scope _ = None"

fun validScopes :: "json \<Rightarrow> scope list" where
  "validScopes (JArr vs) = List.map_filter valid_scope vs"
| "validScopes _ = []"

definition updateIdentityState ::
  "string \<Rightarrow> bool \<Rightarrow> int \<Rightarrow> 'a session_state_scheme \<Rightarrow> 'a session_state_scheme" where
  "updateIdentityState u act ver s =
     s\<lparr>activeUsers := js_set (activeUsers s) u act,
       authenticationVersions := js_set (authenticationVersions s) u ver\<rparr>"

text \<open>The pair is the token handed to the browser and the session identifier.\<close>

definition session_create ::
  "string \<Rightarrow> role list \<Rightarrow> scope list \<Rightarrow> int \<Rightarrow> bool \<Rightarrow> int \<Rightarrow> 'a session_state_scheme
     \<Rightarrow> (string \<times> string) \<times> 'a session_state_scheme" where
  "session_create u rs scs lifetimeMs mustChange ver s =
     (let sid = fresh_uuid s; s1 = drawn s; token = fresh_token s1; s2 = drawn s1;
          digest = digestToken s token;
          r = \<lparr>ses_userId = u, ses_roles = rs, ses_scopes = scs, ses_sessionId = sid,
               ses_mustChangeSecret = mustChange, ses_tokenDigest = digest, ses_active = True,
               ses_expiresAt = now s + lifetimeMs, ses_authenticationVersion = ver\<rparr>
      in ((token, sid),
          s2\<lparr>authenticationVersions := js_set (authenticationVersions s) u ver,
             activeUsers := js_set (activeUsers s) u True,
             sessions := js_set (sessions s) digest r\<rparr>))"

definition authenticate :: "string \<Rightarrow> 'a session_state_scheme \<Rightarrow> principal option" where
  "authenticate token s =
     (case js_get (sessions s) (digestToken s token) of
        None \<Rightarrow> None
      | Some r \<Rightarrow>
          if \<not> ses_active r \<or> ses_expiresAt r \<le> now s then None
          else if js_get (activeUsers s) (ses_userId r) = Some False then None
          else if (case js_get (authenticationVersions s) (ses_userId r) of
                     None \<Rightarrow> ses_authenticationVersion r | Some v \<Rightarrow> v)
                  \<noteq> ses_authenticationVersion r then None
          else Some \<lparr>userId = ses_userId r, p_roles = ses_roles r, scopes = ses_scopes r,
                 sessionId = ses_sessionId r, mustChangeSecret = Some (ses_mustChangeSecret r),
                 permissionLeadIds = None\<rparr>)"

text \<open>Both revocations clear the flag of the stored object in place.\<close>

definition session_revoke :: "string \<Rightarrow> 'a session_state_scheme \<Rightarrow> bool \<times> 'a session_state_scheme" where
  "session_revoke sid s =
     (case find (\<lambda>e. ses_sessionId (snd e) = sid) (sessions s) of
        None \<Rightarrow> (False, s)
      | Some e \<Rightarrow> (True, s\<lparr>sessions := js_set (sessions s) (fst e) (snd e\<lparr>ses_active := False\<rparr>)\<rparr>))"

definition revokeUser :: "string \<Rightarrow> 'a session_state_scheme \<Rightarrow> nat \<times> 'a session_state_scheme" where
  "revokeUser u s =
     (length (filter (\<lambda>r. ses_userId r = u \<and> ses_active r) (js_values (sessions s))),
      s\<lparr>sessions := map (\<lambda>e. if ses_userId (snd e) = u \<and> ses_active (snd e)
                              then (fst e, snd e\<lparr>ses_active := False\<rparr>) else e) (sessions s)\<rparr>)"

section \<open>Lemmas\<close>

lemma session_frames [simp, frame_simps]:
  "now (updateIdentityState u act v s) = now s" "audit_events (updateIdentityState u act v s) = audit_events s"
  "sha256hex (updateIdentityState u act v s) = sha256hex s"
  "sessions (updateIdentityState u act v s) = sessions s" "uuid (updateIdentityState u act v s) = uuid s"
  "draws (updateIdentityState u act v s) = draws s" "scrypt (updateIdentityState u act v s) = scrypt s"
  "random_token (updateIdentityState u act v s) = random_token s"
  "now (snd (revokeUser u s)) = now s" "audit_events (snd (revokeUser u s)) = audit_events s"
  "sha256hex (snd (revokeUser u s)) = sha256hex s" "scrypt (snd (revokeUser u s)) = scrypt s"
  "uuid (snd (revokeUser u s)) = uuid s" "draws (snd (revokeUser u s)) = draws s"
  "random_token (snd (revokeUser u s)) = random_token s"
  "activeUsers (snd (revokeUser u s)) = activeUsers s"
  "authenticationVersions (snd (revokeUser u s)) = authenticationVersions s"
  "sessions (snd (audit_record i s)) = sessions s"
  "activeUsers (snd (audit_record i s)) = activeUsers s"
  "authenticationVersions (snd (audit_record i s)) = authenticationVersions s"
  "sessions (audit_by p cid ty b a r k s) = sessions s"
  "activeUsers (audit_by p cid ty b a r k s) = activeUsers s"
  "authenticationVersions (audit_by p cid ty b a r k s) = authenticationVersions s"
  by (auto simp: updateIdentityState_def revokeUser_def audit_by_def audit_record_def Let_def drawn_def
        split: option.splits)

lemma authenticate_Some:
  "authenticate token s = Some p \<longleftrightarrow>
     (\<exists>r. js_get (sessions s) (sha256hex s token) = Some r \<and> ses_active r \<and> now s < ses_expiresAt r
        \<and> js_get (activeUsers s) (ses_userId r) \<noteq> Some False
        \<and> js_get (authenticationVersions s) (ses_userId r) \<in> {None, Some (ses_authenticationVersion r)}
        \<and> p = \<lparr>userId = ses_userId r, p_roles = ses_roles r, scopes = ses_scopes r,
                sessionId = ses_sessionId r, mustChangeSecret = Some (ses_mustChangeSecret r),
                permissionLeadIds = None\<rparr>)"
  by (auto simp: authenticate_def digestToken_def split: option.splits if_splits)

lemma authenticate_cong:
  "sha256hex t = sha256hex s \<Longrightarrow> now t = now s \<Longrightarrow> sessions t = sessions s \<Longrightarrow> activeUsers t = activeUsers s
     \<Longrightarrow> authenticationVersions t = authenticationVersions s \<Longrightarrow> authenticate token t = authenticate token s"
  by (simp add: authenticate_def digestToken_def cong: option.case_cong if_cong)

lemma authenticate_audit [simp]:
  "authenticate token (snd (audit_record i s)) = authenticate token s"
  "authenticate token (audit_by p cid ty b a r k s) = authenticate token s"
  by (rule authenticate_cong; simp)+

lemma js_get_map_values:
  "js_get (map (\<lambda>e. (fst e, f (snd e))) m) k = map_option f (js_get m k)"
  by (induction m) (auto simp: js_get_def)

lemma revokeUser_get:
  "js_get (sessions (snd (revokeUser u s))) d =
     map_option (\<lambda>r. if ses_userId r = u \<and> ses_active r then r\<lparr>ses_active := False\<rparr> else r) (js_get (sessions s) d)"
proof -
  have "sessions (snd (revokeUser u s)) =
      map (\<lambda>e. (fst e, if ses_userId (snd e) = u \<and> ses_active (snd e)
        then snd e\<lparr>ses_active := False\<rparr> else snd e)) (sessions s)"
    by (simp add: revokeUser_def)
  then show ?thesis
    by (simp only: js_get_map_values [of "\<lambda>r. if ses_userId r = u \<and> ses_active r then r\<lparr>ses_active := False\<rparr> else r"])
qed

lemma authenticate_revokeUser:
  "authenticate token (snd (revokeUser u s)) =
     (case authenticate token s of None \<Rightarrow> None | Some p \<Rightarrow> if userId p = u then None else Some p)"
  by (auto simp: authenticate_def digestToken_def revokeUser_get split: option.splits)

text \<open>A new version or a cleared flag shuts every session issued under another version out.\<close>

lemma authenticate_updateIdentityState:
  assumes "authenticate token (updateIdentityState u act ver s) = Some p" and "userId p = u"
  shows "act \<and> (\<exists>r. js_get (sessions s) (sha256hex s token) = Some r \<and> ses_userId r = u
                  \<and> ses_authenticationVersion r = ver)"
  using assms by (auto simp: authenticate_Some updateIdentityState_def)

lemma authenticate_updateIdentityState_other:
  assumes "authenticate token s = Some p" and "userId p \<noteq> u"
  shows "authenticate token (updateIdentityState u act ver s) = Some p"
  using assms by (auto simp: authenticate_Some updateIdentityState_def)

lemma js_get_find: "js_wf m \<Longrightarrow> find (\<lambda>e. P (snd e)) m = Some e \<Longrightarrow> js_get m (fst e) = Some (snd e) \<and> P (snd e)"
  by (auto simp: find_Some_iff js_wf_def js_keys_def js_get_def)

lemma session_revoke_blocks:
  assumes wf: "js_wf (sessions s)" and rev: "session_revoke sid s = (True, s')"
    and unique: "\<And>d r d' r'. js_get (sessions s) d = Some r \<Longrightarrow> js_get (sessions s) d' = Some r'
        \<Longrightarrow> ses_sessionId r = sid \<Longrightarrow> ses_sessionId r' = sid \<Longrightarrow> d = d'"
    and auth: "authenticate token s' = Some p"
  shows "sessionId p \<noteq> sid \<and> authenticate token s = Some p"
proof -
  from rev obtain e where e: "find (\<lambda>e. ses_sessionId (snd e) = sid) (sessions s) = Some e"
    and s': "s' = s\<lparr>sessions := js_set (sessions s) (fst e) (snd e\<lparr>ses_active := False\<rparr>)\<rparr>"
    by (auto simp: session_revoke_def split: option.splits)
  from js_get_find [OF wf e] have got: "js_get (sessions s) (fst e) = Some (snd e)"
    and sid: "ses_sessionId (snd e) = sid" by auto
  from auth s' have other: "sha256hex s token \<noteq> fst e" and same: "authenticate token s = Some p"
    by (auto simp: authenticate_Some split: if_splits)
  from same obtain r where "js_get (sessions s) (sha256hex s token) = Some r" "sessionId p = ses_sessionId r"
    by (auto simp: authenticate_Some)
  with unique [OF got _ sid] other same show ?thesis by auto
qed

lemma session_create_authenticates:
  assumes "session_create u rs scs life must ver s = ((token, sid), s')" and "0 < life"
  shows "authenticate token s' = Some \<lparr>userId = u, p_roles = rs, scopes = scs, sessionId = sid,
           mustChangeSecret = Some must, permissionLeadIds = None\<rparr>"
  using assms by (auto simp: session_create_def Let_def authenticate_def digestToken_def drawn_def)

section \<open>Rate limiting\<close>

definition assertAllowed ::
  "string \<Rightarrow> int \<Rightarrow> nat \<Rightarrow> int \<Rightarrow> 'a session_state_scheme \<Rightarrow> unit result \<times> 'a session_state_scheme" where
  "assertAllowed key t limit windowMs s =
     (let recent = filter (\<lambda>ts. t - windowMs < ts)
            (case js_get (attempts s) key of None \<Rightarrow> [] | Some ts \<Rightarrow> ts)
      in if limit \<le> length recent then (Inl (TooMany ''rate_limit_exceeded''), s)
         else (Inr (), s\<lparr>attempts := js_set (attempts s) key (recent @ [t])\<rparr>))"

text \<open>A client calling at the given instants: the instants that were let through, in order.\<close>

fun allowed_calls ::
  "string \<Rightarrow> nat \<Rightarrow> int \<Rightarrow> int list \<Rightarrow> 'a session_state_scheme \<Rightarrow> int list \<times> 'a session_state_scheme" where
  "allowed_calls key limit windowMs [] s = ([], s)"
| "allowed_calls key limit windowMs (t # ts) s =
     (case assertAllowed key t limit windowMs s of
        (Inl _, s') \<Rightarrow> allowed_calls key limit windowMs ts s'
      | (Inr _, s') \<Rightarrow> (case allowed_calls key limit windowMs ts s' of (us, s'') \<Rightarrow> (t # us, s'')))"

definition recent_attempts :: "string \<Rightarrow> 'a session_state_scheme \<Rightarrow> int list" where
  "recent_attempts key s = (case js_get (attempts s) key of None \<Rightarrow> [] | Some ts \<Rightarrow> ts)"

lemma assertAllowed_cases:
  assumes "assertAllowed key t limit w s = (r, s')"
  shows "(r = Inr () \<and> length (filter (\<lambda>x. t - w < x) (recent_attempts key s)) < limit
            \<and> recent_attempts key s' = filter (\<lambda>x. t - w < x) (recent_attempts key s) @ [t])
       \<or> (r \<noteq> Inr () \<and> s' = s \<and> limit \<le> length (filter (\<lambda>x. t - w < x) (recent_attempts key s)))"
  using assms by (auto simp: assertAllowed_def recent_attempts_def Let_def split: if_splits)

lemma allowed_calls_subset: "set (fst (allowed_calls key limit w ts s)) \<subseteq> set ts"
proof (induction ts arbitrary: s)
  case Nil
  then show ?case by simp
next
  case (Cons t ts)
  then show ?case by (cases "assertAllowed key t limit w s") (fastforce split: sum.splits prod.splits)
qed

text \<open>
  The window lemma: with a clock that does not go back, the calls let through from a state
  together with the attempts it remembers never exceed the limit in a window ending at one of
  the calls.
\<close>

lemma allowed_calls_window:
  assumes "sorted ts" and "\<And>x. x \<in> set (recent_attempts key s) \<Longrightarrow> \<forall>t \<in> set ts. x \<le> t"
    and "0 \<le> w" and "fst (allowed_calls key limit w ts s) = pre @ u # post"
  shows "length (filter (\<lambda>x. u - w < x) (recent_attempts key s @ pre)) < limit"
  using assms
proof (induction ts arbitrary: s pre)
  case Nil
  then show ?case by simp
next
  case (Cons t ts)
  obtain r s' where step: "assertAllowed key t limit w s = (r, s')"
    by (cases "assertAllowed key t limit w s") auto
  from assertAllowed_cases [OF step] show ?case
  proof (elim disjE conjE)
    assume "r \<noteq> Inr ()" and "s' = s"
    with step Cons.prems(4) have "fst (allowed_calls key limit w ts s) = pre @ u # post"
      by (cases r) auto
    with Cons show ?thesis by simp
  next
    let ?kept = "filter (\<lambda>x. t - w < x) (recent_attempts key s)"
    assume r: "r = Inr ()" and less: "length ?kept < limit"
      and recent: "recent_attempts key s' = ?kept @ [t]"
    obtain us s'' where rest: "allowed_calls key limit w ts s' = (us, s'')"
      by (cases "allowed_calls key limit w ts s'") auto
    with step r Cons.prems(4) have split: "t # us = pre @ u # post" by simp
    show ?thesis
    proof (cases pre)
      case Nil
      with split less show ?thesis by simp
    next
      case (Cons p pre')
      with split have p: "p = t" and us: "us = pre' @ u # post" by auto
      have dom: "\<And>x. x \<in> set (recent_attempts key s') \<Longrightarrow> \<forall>t' \<in> set ts. x \<le> t'"
        using Cons.prems(1,2) recent by auto
      have "length (filter (\<lambda>x. u - w < x) (recent_attempts key s' @ pre')) < limit"
        using Cons.IH [of s' pre'] Cons.prems(1,3) dom rest us by simp
      moreover have "t \<le> u"
        using allowed_calls_subset [of key limit w ts s'] rest us Cons.prems(1) by auto
      then have "filter (\<lambda>x. u - w < x) ?kept = filter (\<lambda>x. u - w < x) (recent_attempts key s)"
        by (auto simp: filter_filter intro!: filter_cong)
      ultimately show ?thesis using recent Cons p by simp
    qed
  qed
qed


text \<open>
  C14: However often a client calls, no window of \<open>windowMs\<close> ending at a call that was let
  through holds more than \<open>limit\<close> calls that were let through (the clock does not go back).
\<close>

theorem rate_limit_window:
  assumes "sorted ts" and "0 < windowMs" and "js_get (attempts s) key = None"
    and "fst (allowed_calls key limit windowMs ts s) = pre @ u # post"
  shows "length (filter (\<lambda>x. u - windowMs < x) (pre @ [u])) \<le> limit"
proof -
  have "length (filter (\<lambda>x. u - windowMs < x) (recent_attempts key s @ pre)) < limit"
    by (rule allowed_calls_window [OF assms(1) _ _ assms(4)]) (use assms in \<open>auto simp: recent_attempts_def\<close>)
  with assms show ?thesis by (simp add: recent_attempts_def)
qed

definition session_demo :: session_state where
  "session_demo = \<lparr>now = 0, draws = 0, uuid = uuid demo_host, random_token = random_token demo_host,
     sha256hex = sha256hex demo_host, scrypt = scrypt demo_host, date_parse = date_parse demo_host,
     iso_string = iso_string demo_host, utc_year = utc_year demo_host, local_day = local_day demo_host,
     locale_cmp = locale_cmp demo_host, audit_events = [], sessions = [], authenticationVersions = [],
     activeUsers = [], attempts = []\<rparr>"

theorem rate_limit_window_witness:
  "length (filter (\<lambda>x. 70 - 60 < x) ([0, 10, 70] :: int list)) \<le> 2
     \<and> fst (allowed_calls ''k'' 2 60 [0, 10, 20, 70] session_demo) = [0, 10, 70]"
proof -
  have run: "fst (allowed_calls ''k'' 2 60 [0, 10, 20, 70] session_demo) = [0, 10] @ 70 # []"
    by (simp add: assertAllowed_def session_demo_def)
  have "length (filter (\<lambda>x. 70 - 60 < x) ([0, 10] @ [70] :: int list)) \<le> 2"
    by (rule rate_limit_window [OF _ _ _ run]) (simp_all add: session_demo_def)
  with run show ?thesis by simp
qed

end
