(* ===== verification/Credentials.thy ===== *)
theory Credentials
  imports Sessions
begin

text \<open>
  \<open>access-recovery/access-recovery.store.ts\<close> and the in-memory half of
  \<open>access-recovery.service.ts\<close>: single-use recovery challenges, the directory from identity
  digests to subjects, and the salted secrets with their forced-change flag.
\<close>

section \<open>State\<close>

record challenge =
  ch_id :: string
  ch_subjectId :: string
  ch_returnPath :: string
  ch_expiresAt :: int
  ch_used :: bool

record credential =
  cr_subjectId :: string
  cr_identityDigest :: string
  cr_salt :: string
  cr_digest :: string
  cr_mustChange :: bool

record cred_state = session_state +
  challenges :: "(string, challenge) js_map"
  identities :: "(string, string) js_map"
  credentials :: "(string, credential) js_map"
  identityToSubject :: "(string, string) js_map"

definition digestRecoveryValue :: "'a host_scheme \<Rightarrow> string \<Rightarrow> string" where
  "digestRecoveryValue s v = sha256hex s v"

definition deriveSecret :: "'a host_scheme \<Rightarrow> string \<Rightarrow> string \<Rightarrow> string" where
  "deriveSecret s secret salt = scrypt s secret salt"

section \<open>Challenges\<close>

definition challenge_issue ::
  "string \<Rightarrow> string \<Rightarrow> int \<Rightarrow> int \<Rightarrow> 'a cred_state_scheme \<Rightarrow> string \<times> 'a cred_state_scheme" where
  "challenge_issue subject path t lifetimeMs s =
     (let rawToken = fresh_token s; s1 = drawn s; cid = fresh_uuid s1; s2 = drawn s1;
          ch = \<lparr>ch_id = cid, ch_subjectId = subject, ch_returnPath = path,
                ch_expiresAt = t + lifetimeMs, ch_used = False\<rparr>
      in (rawToken, s2\<lparr>challenges := js_set (challenges s) (digestRecoveryValue s rawToken) ch\<rparr>))"

definition challenge_consume ::
  "string \<Rightarrow> string \<Rightarrow> int \<Rightarrow> 'a cred_state_scheme \<Rightarrow> string option \<times> 'a cred_state_scheme" where
  "challenge_consume rawToken path t s =
     (case js_get (challenges s) (digestRecoveryValue s rawToken) of
        None \<Rightarrow> (None, s)
      | Some ch \<Rightarrow>
          if ch_used ch \<or> ch_expiresAt ch \<le> t \<or> ch_returnPath ch \<noteq> path then (None, s)
          else (Some (ch_subjectId ch),
                s\<lparr>challenges := js_set (challenges s) (digestRecoveryValue s rawToken) (ch\<lparr>ch_used := True\<rparr>)\<rparr>))"

section \<open>Identities and secrets\<close>

definition identity_register :: "string \<Rightarrow> string \<Rightarrow> 'a cred_state_scheme \<Rightarrow> 'a cred_state_scheme" where
  "identity_register email subject s =
     s\<lparr>identities := js_set (identities s) (digestRecoveryValue s (js_lower (js_trim email))) subject\<rparr>"

definition identity_resolve :: "string \<Rightarrow> 'a cred_state_scheme \<Rightarrow> string option" where
  "identity_resolve digest s = js_get (identities s) digest"

definition cred_lookup :: "string \<Rightarrow> 'a cred_state_scheme \<Rightarrow> credential option" where
  "cred_lookup key s =
     js_get (credentials s) (case js_get (identityToSubject s) key of None \<Rightarrow> key | Some sub \<Rightarrow> sub)"

definition cred_store :: "credential \<Rightarrow> 'a cred_state_scheme \<Rightarrow> 'a cred_state_scheme" where
  "cred_store c s =
     s\<lparr>credentials := js_set (credentials s) (cr_subjectId c) c,
       identityToSubject := js_set (identityToSubject s) (cr_identityDigest c) (cr_subjectId c)\<rparr>"

text \<open>\<open>persist({ subjectId, identityDigest, ...hash(secret), mustChange })\<close>.\<close>

definition cred_persist ::
  "string \<Rightarrow> string \<Rightarrow> string \<Rightarrow> bool \<Rightarrow> 'a cred_state_scheme \<Rightarrow> 'a cred_state_scheme" where
  "cred_persist subject digest secret must s =
     (let salt = fresh_token s
      in cred_store \<lparr>cr_subjectId = subject, cr_identityDigest = digest, cr_salt = salt,
           cr_digest = deriveSecret s secret salt, cr_mustChange = must\<rparr> (drawn s))"

definition cred_matches :: "credential \<Rightarrow> string \<Rightarrow> 'a cred_state_scheme \<Rightarrow> bool" where
  "cred_matches c secret s = (cr_digest c = deriveSecret s secret (cr_salt c))"

definition cred_replace :: "string \<Rightarrow> string \<Rightarrow> 'a cred_state_scheme \<Rightarrow> 'a cred_state_scheme" where
  "cred_replace key nextSecret s =
     (case cred_lookup key s of
        None \<Rightarrow> cred_persist key key nextSecret False s
      | Some c \<Rightarrow> cred_persist (cr_subjectId c) (cr_identityDigest c) nextSecret False s)"

definition provisionTemporary ::
  "string \<Rightarrow> string \<Rightarrow> string \<Rightarrow> 'a cred_state_scheme \<Rightarrow> 'a cred_state_scheme" where
  "provisionTemporary subject secret digest s = cred_persist subject digest secret True s"

definition replaceRequired ::
  "string \<Rightarrow> string \<Rightarrow> string \<Rightarrow> 'a cred_state_scheme \<Rightarrow> bool \<times> 'a cred_state_scheme" where
  "replaceRequired key currentSecret nextSecret s =
     (case cred_lookup key s of
        None \<Rightarrow> (False, s)
      | Some c \<Rightarrow>
          if \<not> cr_mustChange c \<or> \<not> cred_matches c currentSecret s then (False, s)
          else (True, cred_persist (cr_subjectId c) (cr_identityDigest c) nextSecret False s))"

definition verifyIdentity :: "string \<Rightarrow> string \<Rightarrow> 'a cred_state_scheme \<Rightarrow> (string \<times> bool) option" where
  "verifyIdentity digest secret s =
     (case cred_lookup digest s of
        None \<Rightarrow> None
      | Some c \<Rightarrow> if cred_matches c secret s then Some (cr_subjectId c, cr_mustChange c) else None)"

definition requiresChange :: "string \<Rightarrow> 'a cred_state_scheme \<Rightarrow> bool" where
  "requiresChange key s = (case cred_lookup key s of None \<Rightarrow> False | Some c \<Rightarrow> cr_mustChange c)"

section \<open>Recovery\<close>

text \<open>\<open>/^[^\s@]+@[^\s@]+\.[^\s@]+$/\<close>: one \<open>@\<close>, and a dot with text on both sides after it.\<close>

definition recovery_email_shape :: "string \<Rightarrow> bool" where
  "recovery_email_shape e =
     (\<not> list_ex is_space e \<and>
      (case js_split (CHR ''@'') e of
         [l, d] \<Rightarrow> l \<noteq> [] \<and> list_ex (\<lambda>i. i + 1 < length d \<and> d ! i = CHR ''.'') [1..<length d]
       | _ \<Rightarrow> False))"

definition normalizedEmail :: "json \<Rightarrow> string result" where
  "normalizedEmail v = (case v of
     JStr t \<Rightarrow>
       (let email = js_lower (js_trim t)
        in if 254 < length email \<or> \<not> recovery_email_shape email
           then Inl (BadRequest ''recovery_request_invalid'') else Inr email)
   | _ \<Rightarrow> Inl (BadRequest ''recovery_request_invalid''))"

definition allowedReturnPath :: "json \<Rightarrow> string result" where
  "allowedReturnPath v = (case v of
     JStr t \<Rightarrow> if t = ''/access-recovery/complete'' then Inr t
               else Inl (BadRequest ''recovery_return_path_invalid'')
   | _ \<Rightarrow> Inl (BadRequest ''recovery_return_path_invalid''))"

text \<open>The public answer is the same whether the account exists or not.\<close>

definition recovery_request ::
  "json \<Rightarrow> json \<Rightarrow> string \<Rightarrow> int \<Rightarrow> 'a cred_state_scheme \<Rightarrow> unit result \<times> 'a cred_state_scheme" where
  "recovery_request emailValue pathValue requesterKey t s =
     call (assertAllowed (''access-recovery:'' @ requesterKey) t 5 60000 s) (\<lambda>_ s1.
       case normalizedEmail emailValue of
         Inl e \<Rightarrow> (Inl e, s1)
       | Inr email \<Rightarrow>
           (case allowedReturnPath pathValue of
              Inl e \<Rightarrow> (Inl e, s1)
            | Inr path \<Rightarrow>
                (case identity_resolve (digestRecoveryValue s1 email) s1 of
                   None \<Rightarrow> (Inr (), s1)
                 | Some subject \<Rightarrow>
                     if subject = [] then (Inr (), s1)
                     else (Inr (), snd (challenge_issue subject path t (15 * 60000) s1)))))"

definition recovery_complete ::
  "json \<Rightarrow> json \<Rightarrow> json \<Rightarrow> int \<Rightarrow> 'a cred_state_scheme \<Rightarrow> unit result \<times> 'a cred_state_scheme" where
  "recovery_complete tokenValue pathValue secretValue t s =
     (case (tokenValue, secretValue) of
        (JStr token, JStr nextSecret) \<Rightarrow>
          (case allowedReturnPath pathValue of
             Inl e \<Rightarrow> (Inl e, s)
           | Inr path \<Rightarrow>
               if \<not> all_in word_dash 40 128 token \<or> length nextSecret < 14 \<or> 128 < length nextSecret
               then (Inl (BadRequest ''recovery_completion_invalid''), s)
               else (case challenge_consume token path t s of
                       (None, s1) \<Rightarrow> (Inl (Forbidden ''recovery_challenge_invalid''), s1)
                     | (Some subject, s1) \<Rightarrow>
                         if subject = [] then (Inl (Forbidden ''recovery_challenge_invalid''), s1)
                         else (Inr (), cred_replace subject nextSecret s1)))
      | _ \<Rightarrow> (Inl (BadRequest ''recovery_completion_invalid''), s))"

section \<open>Lemmas\<close>

lemma cred_frames [simp, frame_simps]:
  "sessions (cred_store c s) = sessions s" "activeUsers (cred_store c s) = activeUsers s"
  "authenticationVersions (cred_store c s) = authenticationVersions s"
  "sha256hex (cred_store c s) = sha256hex s" "scrypt (cred_store c s) = scrypt s"
  "now (cred_store c s) = now s" "challenges (cred_store c s) = challenges s"
  "audit_events (cred_store c s) = audit_events s"
  "sessions (cred_persist sub dg sec m s) = sessions s" "activeUsers (cred_persist sub dg sec m s) = activeUsers s"
  "authenticationVersions (cred_persist sub dg sec m s) = authenticationVersions s"
  "sha256hex (cred_persist sub dg sec m s) = sha256hex s" "scrypt (cred_persist sub dg sec m s) = scrypt s"
  "now (cred_persist sub dg sec m s) = now s" "challenges (cred_persist sub dg sec m s) = challenges s"
  "audit_events (cred_persist sub dg sec m s) = audit_events s"
  "uuid (cred_persist sub dg sec m s) = uuid s" "random_token (cred_persist sub dg sec m s) = random_token s"
  "credentials (snd (audit_record i s)) = credentials s"
  "identityToSubject (snd (audit_record i s)) = identityToSubject s"
  "challenges (snd (audit_record i s)) = challenges s"
  "credentials (updateIdentityState u act v s) = credentials s"
  "identityToSubject (updateIdentityState u act v s) = identityToSubject s"
  "credentials (snd (revokeUser u s)) = credentials s"
  "identityToSubject (snd (revokeUser u s)) = identityToSubject s"
  by (auto simp: cred_store_def cred_persist_def audit_record_def updateIdentityState_def revokeUser_def
        drawn_def Let_def split: option.splits)

lemma cred_persist_lookup:
  "cred_lookup digest (cred_persist subject digest secret must s) =
     Some \<lparr>cr_subjectId = subject, cr_identityDigest = digest, cr_salt = fresh_token s,
           cr_digest = scrypt s secret (fresh_token s), cr_mustChange = must\<rparr>"
  by (simp add: cred_persist_def cred_store_def cred_lookup_def Let_def deriveSecret_def drawn_def)

lemma verifyIdentity_persist:
  "verifyIdentity digest secret' (cred_persist subject digest secret must s) =
     (if scrypt s secret' (fresh_token s) = scrypt s secret (fresh_token s) then Some (subject, must) else None)"
  by (simp add: verifyIdentity_def cred_persist_lookup cred_matches_def deriveSecret_def)

lemma challenge_consume_once:
  assumes "challenge_consume token path t s = (Some subject, s')"
  shows "challenge_consume token path' t' s' = (None, s')"
  using assms
  by (auto simp: challenge_consume_def digestRecoveryValue_def split: option.splits if_splits)

lemma challenge_issue_consume:
  assumes "challenge_issue subject path t life s = (token, s')"
  shows "fst (challenge_consume token path' t' s') =
     (if t' < t + life \<and> path' = path then Some subject else None)"
  using assms by (auto simp: challenge_issue_def challenge_consume_def digestRecoveryValue_def drawn_def Let_def)

lemma challenge_consume_other:
  assumes "challenge_consume token path t s = (r, s')" and "sha256hex s token' \<noteq> sha256hex s token"
  shows "fst (challenge_consume token' path' t' s') = fst (challenge_consume token' path' t' s)"
  using assms by (auto simp: challenge_consume_def digestRecoveryValue_def split: option.splits if_splits)


section \<open>Properties\<close>

lemma recovery_complete_Inr:
  assumes "recovery_complete tok path sec t s = (Inr (), s1)"
  obtains token fresh p subject s0 where "tok = JStr token" "sec = JStr fresh" "p = ''/access-recovery/complete''"
    "challenge_consume token p t s = (Some subject, s0)" "s1 = cred_replace subject fresh s0"
    "14 \<le> length fresh" "length fresh \<le> 128"
  using assms
  by (auto simp: recovery_complete_def allowedReturnPath_def split: json.splits sum.splits option.splits
      prod.splits if_splits)

lemma challenges_replace [simp]: "challenges (cred_replace key x s) = challenges s" "sha256hex (cred_replace key x s) = sha256hex s"
  by (simp_all add: cred_replace_def split: option.split)

lemma challenge_consume_cong:
  "challenges t = challenges s \<Longrightarrow> sha256hex t = sha256hex s
     \<Longrightarrow> fst (challenge_consume token path x t) = fst (challenge_consume token path x s)"
  by (auto simp: challenge_consume_def digestRecoveryValue_def split: option.split)


definition demo_token :: string where
  "demo_token = replicate 40 (CHR ''k'')"

definition cred_demo :: cred_state where
  "cred_demo = \<lparr>now = 0, draws = 0, uuid = uuid demo_host, random_token = random_token demo_host,
     sha256hex = sha256hex demo_host, scrypt = scrypt demo_host, date_parse = date_parse demo_host,
     iso_string = iso_string demo_host, utc_year = utc_year demo_host, local_day = local_day demo_host,
     locale_cmp = locale_cmp demo_host, audit_events = [], sessions = [], authenticationVersions = [],
     activeUsers = [], attempts = [],
     challenges = [(''#'' @ demo_token, \<lparr>ch_id = ''c'', ch_subjectId = ''u1'',
       ch_returnPath = ''/access-recovery/complete'', ch_expiresAt = 900, ch_used = False\<rparr>)],
     identities = [], credentials = [], identityToSubject = []\<rparr>"


end
