(* ===== verification/Users.thy ===== *)
theory Users
  imports Credentials
begin

text \<open>
  \<open>users/user.service.ts\<close> without a database: the directory of collaborators, and how every
  change of an account is pushed into the sessions. With it the first-login secret change of
  \<open>first-login/first-login.service.ts\<close> and the login of \<open>auth/session.controller.ts\<close>.
\<close>

section \<open>Collaborators\<close>

record collaborator =
  co_id :: string
  co_professionalEmail :: string
  co_secondaryEmail :: "string option"
  co_roles :: "role list"
  co_campusId :: "string option"
  co_teamId :: "string option"
  co_active :: bool
  co_authenticationVersion :: int
  co_firstLoginRequired :: bool

record create_collaborator =
  cc_professionalEmail :: string
  cc_secondaryEmail :: "string option"
  cc_professionalDisplayName :: json
  cc_roles :: "string list"
  cc_campusId :: "string option"
  cc_teamId :: "string option"

record update_authorization =
  ua_roles :: "string list"
  ua_campusId :: "string option"
  ua_teamId :: "string option"
  ua_reason :: string
  ua_confirmed :: bool

record user_state = cred_state +
  users :: "(string, collaborator) js_map"

definition user_IDENTIFIER :: "string \<Rightarrow> bool" where
  "user_IDENTIFIER v = all_in word_dash 2 64 v"

definition isEmail :: "string \<Rightarrow> bool" where
  "isEmail v =
     (let at = index_of (CHR ''@'') v; dot = index_of_at (CHR ''.'') v (at + 2)
      in 0 < at \<and> at = last_index_of (CHR ''@'') v \<and> at + 1 < dot \<and> dot < int (length v) - 1
         \<and> \<not> list_ex is_space v)"

definition professionalDisplayName :: "json \<Rightarrow> string option result" where
  "professionalDisplayName v = (case v of
     JUndef \<Rightarrow> Inr None
   | JNull \<Rightarrow> Inr None
   | JStr t \<Rightarrow>
       if list_ex (\<lambda>c. code c < 32 \<or> between 127 159 c) t
       then Inl (Forbidden ''professional_display_name_invalid'')
       else (let n = js_trim t
             in if 120 < length n then Inl (Forbidden ''professional_display_name_invalid'')
                else Inr (if n = [] then None else Some n))
   | _ \<Rightarrow> Inl (Forbidden ''professional_display_name_invalid''))"

definition validateScopes :: "string option \<Rightarrow> string option \<Rightarrow> unit result" where
  "validateScopes campus team =
     (if list_ex (\<lambda>v. truthy v \<and> \<not> user_IDENTIFIER (opt_text v)) [campus, team]
      then Inl (Forbidden ''scope_invalid'') else Inr ())"

definition validateCreation :: "create_collaborator \<Rightarrow> (string option \<times> string) result" where
  "validateCreation i =
     (case professionalDisplayName (cc_professionalDisplayName i) of
        Inl e \<Rightarrow> Inl e
      | Inr name \<Rightarrow>
          (let email = js_lower (js_trim (cc_professionalEmail i))
           in if \<not> isEmail email \<or> (truthy (cc_secondaryEmail i) \<and> \<not> isEmail (opt_text (cc_secondaryEmail i)))
                 \<or> cc_roles i = [] \<or> \<not> list_all isRole (cc_roles i)
              then Inl (Forbidden ''collaborator_invalid'')
              else (case validateScopes (cc_campusId i) (cc_teamId i) of
                      Inl e \<Rightarrow> Inl e | Inr _ \<Rightarrow> Inr (name, email))))"

definition validateAuthorization :: "update_authorization \<Rightarrow> unit result" where
  "validateAuthorization i =
     (if \<not> ua_confirmed i
         \<or> ua_reason i \<notin> {''RESPONSIBILITY_CHANGE'', ''TEAM_CHANGE'', ''CAMPUS_CHANGE'', ''ACCESS_REVIEW''}
         \<or> ua_roles i = [] \<or> \<not> list_all isRole (ua_roles i)
      then Inl (Forbidden ''authorization_change_invalid'')
      else validateScopes (ua_campusId i) (ua_teamId i))"

text \<open>The trail entry of an administrative action: no session, the acting role is fixed.\<close>

definition audit_admin ::
  "string \<Rightarrow> string \<Rightarrow> string \<Rightarrow> json \<Rightarrow> json \<Rightarrow> string \<Rightarrow> 'a audit_state_scheme \<Rightarrow> 'a audit_state_scheme" where
  "audit_admin actor cid ty bef aft key s =
     snd (audit_record \<lparr>ai_eventType = ty, ai_actorId = Some actor, ai_actorRoles = [SUPER_ADMIN],
       ai_ip = None, ai_sessionId = None, ai_correlationId = cid, ai_before = bef,
       ai_after = aft, ai_result = SUCCESS, ai_idempotencyKey = key\<rparr> s)"

definition user_list :: "bool option \<Rightarrow> string option \<Rightarrow> string option \<Rightarrow> 'a user_state_scheme \<Rightarrow> collaborator list" where
  "user_list act campus team s =
     filter (\<lambda>u. \<not> truthy team \<or> co_teamId u = team)
       (filter (\<lambda>u. \<not> truthy campus \<or> co_campusId u = campus)
         (filter (\<lambda>u. act = None \<or> Some (co_active u) = act) (js_values (users s))))"

definition active_super_admins :: "'a user_state_scheme \<Rightarrow> collaborator list" where
  "active_super_admins s = filter (\<lambda>c. SUPER_ADMIN \<in> set (co_roles c)) (user_list (Some True) None None s)"

definition role_json :: "role list \<Rightarrow> json" where
  "role_json rs = JArr (map (\<lambda>r. JStr (role_name r)) rs)"

definition user_create ::
  "create_collaborator \<Rightarrow> string \<Rightarrow> string \<Rightarrow> 'a user_state_scheme \<Rightarrow> collaborator result \<times> 'a user_state_scheme" where
  "user_create i actor cid s =
     (case validateCreation i of
        Inl e \<Rightarrow> (Inl e, s)
      | Inr (name, email) \<Rightarrow>
          if list_ex (\<lambda>u. co_professionalEmail u = email) (js_values (users s))
          then (Inl (Conflict ''professional_email_exists''), s)
          else (let u = \<lparr>co_id = fresh_uuid s, co_professionalEmail = email,
                     co_secondaryEmail = map_option js_lower (cc_secondaryEmail i),
                     co_roles = as_roles (cc_roles i), co_campusId = cc_campusId i, co_teamId = cc_teamId i,
                     co_active = True, co_authenticationVersion = 1, co_firstLoginRequired = True\<rparr>;
                    s1 = drawn s\<lparr>users := js_set (users s) (co_id u) u\<rparr>;
                    s2 = updateIdentityState (co_id u) True 1 s1;
                    s3 = audit_admin actor cid ''COLLABORATOR_CREATED'' JUndef
                      (JObj [(''subjectId'', JStr (co_id u)), (''roles'', role_json (co_roles u)),
                        (''campusId'', JId (co_campusId u)), (''teamId'', JId (co_teamId u)),
                        (''displayNameProvided'', JBool (name \<noteq> None))])
                      (''collaborator-created:'' @ co_id u) s2
                in (Inr u, s3)))"

definition setActive ::
  "string \<Rightarrow> bool \<Rightarrow> string \<Rightarrow> string \<Rightarrow> 'a user_state_scheme \<Rightarrow> collaborator result \<times> 'a user_state_scheme" where
  "setActive i act actor cid s =
     (case js_get (users s) i of
        None \<Rightarrow> (Inl (Forbidden ''collaborator_not_found''), s)
      | Some u \<Rightarrow>
          if \<not> act \<and> co_active u \<and> SUPER_ADMIN \<in> set (co_roles u) \<and> length (active_super_admins s) \<le> 1
          then (Inl (Conflict ''last_super_admin_required''), s)
          else (let u' = u\<lparr>co_active := act, co_authenticationVersion := co_authenticationVersion u + 1\<rparr>;
                    s1 = s\<lparr>users := js_set (users s) i u'\<rparr>;
                    s2 = updateIdentityState i act (co_authenticationVersion u') s1;
                    (n, s3) = (if act then (0, s2) else revokeUser i s2);
                    s4 = audit_admin actor cid
                      (if act then ''COLLABORATOR_ACTIVATED'' else ''COLLABORATOR_DEACTIVATED'')
                      (JObj [(''active'', JBool (co_active u))])
                      (JObj [(''subjectId'', JStr i), (''active'', JBool act), (''revokedSessions'', JNat n)])
                      (''collaborator-active:'' @ i @ '':'' @ (if act then ''true'' else ''false'') @ '':'' @ cid) s3
                in (Inr u', s4)))"

definition updateAuthorization ::
  "string \<Rightarrow> update_authorization \<Rightarrow> string \<Rightarrow> string \<Rightarrow> 'a user_state_scheme
     \<Rightarrow> collaborator result \<times> 'a user_state_scheme" where
  "updateAuthorization i inp actor cid s =
     (case js_get (users s) i of
        None \<Rightarrow> (Inl (Forbidden ''collaborator_not_found''), s)
      | Some u \<Rightarrow>
          (case validateAuthorization inp of
             Inl e \<Rightarrow> (Inl e, s)
           | Inr _ \<Rightarrow>
               (let removes = SUPER_ADMIN \<in> set (co_roles u) \<and> role_name SUPER_ADMIN \<notin> set (ua_roles inp)
                in if co_active u \<and> removes \<and> length (active_super_admins s) \<le> 1
                   then (Inl (Conflict ''last_super_admin_required''), s)
                   else (let u' = u\<lparr>co_roles := as_roles (ua_roles inp), co_campusId := ua_campusId inp,
                              co_teamId := ua_teamId inp, co_authenticationVersion := co_authenticationVersion u + 1\<rparr>;
                             s1 = s\<lparr>users := js_set (users s) i u'\<rparr>;
                             s2 = updateIdentityState i (co_active u') (co_authenticationVersion u') s1;
                             (n, s3) = revokeUser i s2;
                             s4 = audit_admin actor cid ''COLLABORATOR_AUTHORIZATION_CHANGED''
                               (JObj [(''roles'', role_json (co_roles u)), (''campusId'', JId (co_campusId u)),
                                 (''teamId'', JId (co_teamId u))])
                               (JObj [(''subjectId'', JStr i), (''roles'', role_json (co_roles u')),
                                 (''campusId'', JId (co_campusId u')), (''teamId'', JId (co_teamId u')),
                                 (''reason'', JStr (ua_reason inp)), (''revokedSessions'', JNat n)])
                               (''collaborator-authorization:'' @ i @ '':'' @ cid) s3
                         in (Inr u', s4)))))"

text \<open>The result is the secret shown once and the number of sessions it ended.\<close>

definition issueTemporarySecret ::
  "string \<Rightarrow> string \<Rightarrow> bool \<Rightarrow> string \<Rightarrow> string \<Rightarrow> 'a user_state_scheme
     \<Rightarrow> (string \<times> nat) result \<times> 'a user_state_scheme" where
  "issueTemporarySecret i reason confirmed actor cid s =
     (case js_get (users s) i of
        None \<Rightarrow> (Inl (Forbidden ''collaborator_not_found_or_inactive''), s)
      | Some u \<Rightarrow>
          if \<not> co_active u then (Inl (Forbidden ''collaborator_not_found_or_inactive''), s)
          else if \<not> confirmed \<or> reason \<notin> {''INITIAL_ACCESS'', ''CREDENTIAL_COMPROMISED'', ''USER_REQUEST''}
          then (Inl (Forbidden ''temporary_secret_issue_invalid''), s)
          else (let secret = ''CrmYnov-'' @ fresh_token s @ ''!9'';
                    s1 = provisionTemporary i secret (digestRecoveryValue s (co_professionalEmail u)) (drawn s);
                    u' = u\<lparr>co_firstLoginRequired := True, co_authenticationVersion := co_authenticationVersion u + 1\<rparr>;
                    s2 = s1\<lparr>users := js_set (users s1) i u'\<rparr>;
                    s3 = updateIdentityState i True (co_authenticationVersion u') s2;
                    (n, s4) = revokeUser i s3;
                    s5 = audit_admin actor cid ''COLLABORATOR_TEMPORARY_SECRET_ISSUED'' JUndef
                      (JObj [(''subjectId'', JStr i), (''reason'', JStr reason), (''revokedSessions'', JNat n),
                        (''mustChangeAtFirstLogin'', JBool True)])
                      (''collaborator-temporary-secret:'' @ i @ '':'' @ cid) s4
                in (Inr (secret, n), s5)))"

definition user_findById :: "string \<Rightarrow> 'a user_state_scheme \<Rightarrow> collaborator option" where
  "user_findById i s = js_get (users s) i"

definition findByProfessionalEmail :: "string \<Rightarrow> 'a user_state_scheme \<Rightarrow> collaborator option" where
  "findByProfessionalEmail email s =
     find (\<lambda>c. co_professionalEmail c = js_lower (js_trim email)) (js_values (users s))"

definition completeFirstLogin :: "string \<Rightarrow> 'a user_state_scheme \<Rightarrow> unit result \<times> 'a user_state_scheme" where
  "completeFirstLogin i s =
     (case js_get (users s) i of
        None \<Rightarrow> (Inl (Forbidden ''collaborator_not_found''), s)
      | Some u \<Rightarrow>
          (let u' = u\<lparr>co_firstLoginRequired := False, co_authenticationVersion := co_authenticationVersion u + 1\<rparr>
           in (Inr (), updateIdentityState i (co_active u') (co_authenticationVersion u')
                (s\<lparr>users := js_set (users s) i u'\<rparr>))))"

section \<open>First login\<close>

definition isAcceptableSecret :: "string \<Rightarrow> bool" where
  "isAcceptableSecret x =
     (14 \<le> length x \<and> length x \<le> 128 \<and> list_ex is_lower x \<and> list_ex is_upper x \<and> list_ex is_digit x
      \<and> list_ex (\<lambda>c. \<not> is_alnum c) x \<and> \<not> list_ex is_space x)"

definition firstLogin_change ::
  "string \<Rightarrow> string \<Rightarrow> string \<Rightarrow> string \<Rightarrow> 'a user_state_scheme \<Rightarrow> nat result \<times> 'a user_state_scheme" where
  "firstLogin_change uid currentSecret nextSecret cid s =
     (if \<not> isAcceptableSecret nextSecret \<or> currentSecret = nextSecret
      then (Inl (Forbidden ''secret_policy_refused''), s)
      else (case replaceRequired uid currentSecret nextSecret s of
              (False, s1) \<Rightarrow> (Inl (Forbidden ''temporary_credential_invalid''), s1)
            | (True, s1) \<Rightarrow>
                call (completeFirstLogin uid s1) (\<lambda>_ s2.
                  (let (n, s3) = revokeUser uid s2;
                       s4 = snd (audit_record \<lparr>ai_eventType = ''FIRST_LOGIN_SECRET_CHANGED'', ai_actorId = Some uid,
                         ai_actorRoles = [], ai_ip = None, ai_sessionId = None, ai_correlationId = cid,
                         ai_before = JUndef, ai_after = JObj [(''subjectId'', JStr uid), (''revokedSessions'', JNat n)],
                         ai_result = SUCCESS, ai_idempotencyKey = ''first-login-secret:'' @ uid @ '':'' @ cid\<rparr> s3)
                   in (Inr n, s4)))))"

section \<open>Login\<close>

definition login_scopes :: "collaborator \<Rightarrow> scope list" where
  "login_scopes u =
     (if list_ex (\<lambda>r. r \<in> {SUPER_ADMIN, ADMIN, AUDITOR}) (co_roles u) then [GlobalScope]
      else (if truthy (co_campusId u) then [CampusScope (opt_text (co_campusId u))] else [])
         @ (if truthy (co_teamId u) then [TeamScope (opt_text (co_teamId u))] else []))"

definition login ::
  "string option \<Rightarrow> string \<Rightarrow> string \<Rightarrow> string option \<Rightarrow> 'a user_state_scheme
     \<Rightarrow> (string \<times> string \<times> bool) result \<times> 'a user_state_scheme" where
  "login ip emailText password corr s =
     call (assertAllowed (case ip of None \<Rightarrow> ''unknown'' | Some a \<Rightarrow> a) (now s) 5 60000 s) (\<lambda>_ s1.
       let email = js_lower (js_trim emailText);
           verified = verifyIdentity (digestRecoveryValue s1 email) password s1;
           user = (case verified of None \<Rightarrow> None | Some (sub, _) \<Rightarrow> user_findById sub s1)
       in (case (verified, user) of
             (Some (sub, must), Some u) \<Rightarrow>
               if \<not> co_active u \<or> co_professionalEmail u \<noteq> email then (Inl (Forbidden ''identity_invalid''), s1)
               else if login_scopes u = [] then (Inl (Forbidden ''identity_scope_missing''), s1)
               else (let mustChange = must \<or> co_firstLoginRequired u;
                         ((token, sid), s2) = session_create (co_id u) (co_roles u) (login_scopes u) 3600000
                            mustChange (co_authenticationVersion u) s1;
                         s3 = snd (audit_record \<lparr>ai_eventType = ''SESSION_CREATED'', ai_actorId = Some (co_id u),
                           ai_actorRoles = co_roles u, ai_ip = ip, ai_sessionId = Some sid,
                           ai_correlationId = (case corr of None \<Rightarrow> ''generated'' | Some c \<Rightarrow> c),
                           ai_before = JUndef, ai_after = JUndef, ai_result = SUCCESS,
                           ai_idempotencyKey = ''session-created:'' @ sid\<rparr> s2)
                     in (Inr (token, sid, mustChange), s3))
           | _ \<Rightarrow> (Inl (Forbidden ''identity_invalid''), s1)))"

end
