(* ===== verification/Directory.thy ===== *)
theory Directory
  imports Users
begin

text \<open>
  What the directory of collaborators guarantees: the invariant that ties \<open>UserService\<close>, the
  identity state inside \<open>SessionService\<close> and the session table together, kept by every
  operation of \<open>users/user.service.ts\<close>, \<open>first-login/first-login.service.ts\<close>,
  \<open>access-recovery/access-recovery.service.ts\<close> and \<open>auth/session.controller.ts\<close>.
\<close>

section \<open>The invariant\<close>

definition user_ok :: "'a user_state_scheme \<Rightarrow> string \<Rightarrow> collaborator \<Rightarrow> bool" where
  "user_ok s i u \<longleftrightarrow> co_id u = i \<and> i \<in> issued s \<and> js_get (activeUsers s) i = Some (co_active u)
     \<and> js_get (authenticationVersions s) i = Some (co_authenticationVersion u)"

definition session_ok :: "'a user_state_scheme \<Rightarrow> string \<Rightarrow> session_record \<Rightarrow> bool" where
  "session_ok s d r \<longleftrightarrow> (\<exists>n<draws s. d = sha256hex s (random_token s n))
     \<and> (\<exists>u. js_get (users s) (ses_userId r) = Some u
          \<and> ses_authenticationVersion r \<le> co_authenticationVersion u)"

text \<open>Identifiers and tokens are drawn at random: no draw repeats, no digest of a token collides.\<close>

definition supply_ok :: "'a host_scheme \<Rightarrow> bool" where
  "supply_ok s \<longleftrightarrow> inj (uuid s) \<and> inj (\<lambda>n. sha256hex s (random_token s n))"

definition accounts_ok :: "'a user_state_scheme \<Rightarrow> bool" where
  "accounts_ok s \<longleftrightarrow> (\<forall>i u. js_get (users s) i = Some u \<longrightarrow> user_ok s i u)"

definition emails_ok :: "'a user_state_scheme \<Rightarrow> bool" where
  "emails_ok s \<longleftrightarrow> (\<forall>i u j w. js_get (users s) i = Some u \<longrightarrow> js_get (users s) j = Some w
     \<longrightarrow> co_professionalEmail u = co_professionalEmail w \<longrightarrow> i = j)"

definition table_ok :: "'a user_state_scheme \<Rightarrow> bool" where
  "table_ok s \<longleftrightarrow> (\<forall>d r. js_get (sessions s) d = Some r \<longrightarrow> session_ok s d r)"

definition directory_ok :: "'a user_state_scheme \<Rightarrow> bool" where
  "directory_ok s \<longleftrightarrow> supply_ok s \<and> js_wf (users s) \<and> js_wf (sessions s) \<and> accounts_ok s \<and> emails_ok s \<and> table_ok s"

text \<open>Accounts and sessions only advance: a version never falls, a session is never reopened.\<close>

definition later_account :: "collaborator \<Rightarrow> collaborator \<Rightarrow> bool" where
  "later_account u w \<longleftrightarrow> co_professionalEmail w = co_professionalEmail u
     \<and> co_authenticationVersion u \<le> co_authenticationVersion w"

definition later_session :: "session_record \<Rightarrow> session_record \<Rightarrow> bool" where
  "later_session r q \<longleftrightarrow> ses_userId q = ses_userId r
     \<and> ses_authenticationVersion q = ses_authenticationVersion r \<and> (ses_active q \<longrightarrow> ses_active r)"

definition advances :: "'a user_state_scheme \<Rightarrow> 'a user_state_scheme \<Rightarrow> bool" where
  "advances s t \<longleftrightarrow> uuid t = uuid s \<and> random_token t = random_token s \<and> sha256hex t = sha256hex s
     \<and> draws s \<le> draws t
     \<and> (\<forall>i u. js_get (users s) i = Some u \<longrightarrow> (\<exists>w. js_get (users t) i = Some w \<and> later_account u w))
     \<and> (\<forall>d r. js_get (sessions s) d = Some r \<longrightarrow> (\<exists>q. js_get (sessions t) d = Some q \<and> later_session r q))"

definition has_super_admin :: "'a user_state_scheme \<Rightarrow> bool" where
  "has_super_admin s \<longleftrightarrow>
     (\<exists>i u. js_get (users s) i = Some u \<and> co_active u \<and> SUPER_ADMIN \<in> set (co_roles u))"

lemma later_refl [simp]: "later_account u u" "later_session r r"
  by (simp_all add: later_account_def later_session_def)

lemma later_trans:
  "later_account u v \<Longrightarrow> later_account v w \<Longrightarrow> later_account u w"
  "later_session r p \<Longrightarrow> later_session p q \<Longrightarrow> later_session r q"
  by (auto simp: later_account_def later_session_def)

lemma advances_refl [simp]: "advances s s"
  by (simp add: advances_def)

lemma advances_trans:
  assumes "advances s t" and "advances t u"
  shows "advances s u"
proof -
  have "\<exists>w. js_get (users u) i = Some w \<and> later_account v w" if v: "js_get (users s) i = Some v" for i v
  proof -
    from v assms(1) obtain w where "js_get (users t) i = Some w" "later_account v w"
      unfolding advances_def by blast
    moreover from this(1) assms(2) obtain x where "js_get (users u) i = Some x" "later_account w x"
      unfolding advances_def by blast
    ultimately show ?thesis using later_trans(1) by blast
  qed
  moreover have "\<exists>q. js_get (sessions u) d = Some q \<and> later_session r q" if r: "js_get (sessions s) d = Some r" for d r
  proof -
    from r assms(1) obtain p where "js_get (sessions t) d = Some p" "later_session r p"
      unfolding advances_def by blast
    moreover from this(1) assms(2) obtain q where "js_get (sessions u) d = Some q" "later_session p q"
      unfolding advances_def by blast
    ultimately show ?thesis using later_trans(2) by blast
  qed
  ultimately show ?thesis using assms by (simp add: advances_def)
qed

text \<open>One operation from \<open>s\<close> to \<open>t\<close> keeps the invariant and advances the state.\<close>

definition keeps :: "'a user_state_scheme \<Rightarrow> 'a user_state_scheme \<Rightarrow> bool" where
  "keeps s t \<longleftrightarrow> (directory_ok s \<longrightarrow> directory_ok t \<and> advances s t)"

lemma keeps_refl [simp]: "keeps s s"
  by (simp add: keeps_def)

lemma keeps_trans: "keeps s t \<Longrightarrow> keeps t u \<Longrightarrow> keeps s u"
  by (auto simp: keeps_def intro: advances_trans)

text \<open>Operations that leave the accounts and the sessions alone.\<close>

lemma keeps_same:
  assumes "uuid t = uuid s" "random_token t = random_token s" "sha256hex t = sha256hex s"
    "draws s \<le> draws t" "users t = users s" "sessions t = sessions s"
    "activeUsers t = activeUsers s" "authenticationVersions t = authenticationVersions s"
  shows "keeps s t"
proof -
  have "issued s \<subseteq> issued t" using assms(1,4) by (auto simp: issued_def)
  then have "user_ok s i u \<Longrightarrow> user_ok t i u" for i u
    using assms by (auto simp: user_ok_def)
  moreover have "session_ok s d r \<Longrightarrow> session_ok t d r" for d r
    using assms unfolding session_ok_def by (metis order_less_le_trans)
  ultimately show ?thesis
    using assms by (simp add: keeps_def directory_ok_def supply_ok_def accounts_ok_def emails_ok_def
        table_ok_def advances_def)
qed

lemma session_ok_later:
  assumes "session_ok s d r" and "sha256hex t = sha256hex s" and "random_token t = random_token s"
    and "draws s \<le> draws t" and users: "\<And>u. js_get (users s) (ses_userId r) = Some u \<Longrightarrow> js_get (users t) (ses_userId r) = Some u"
  shows "session_ok t d r"
proof -
  from assms(1) obtain n u where "n < draws s" "d = sha256hex s (random_token s n)"
    "js_get (users s) (ses_userId r) = Some u" "ses_authenticationVersion r \<le> co_authenticationVersion u"
    by (auto simp: session_ok_def)
  moreover from this(1) assms(4) have "n < draws t" by simp
  ultimately show ?thesis using assms(2,3) users by (auto simp: session_ok_def)
qed

lemma super_same: "users t = users s \<Longrightarrow> has_super_admin t = has_super_admin s"
  by (simp add: has_super_admin_def)

text \<open>Replacing an account by a later version of itself, announced to the sessions.\<close>

lemma keeps_bump:
  assumes u: "js_get (users s) i = Some u" and id: "co_id u' = co_id u" and later: "later_account u u'"
    and t: "t = updateIdentityState i (co_active u') (co_authenticationVersion u') (s\<lparr>users := js_set (users s) i u'\<rparr>)"
  shows "keeps s t"
  unfolding keeps_def
proof
  assume ok: "directory_ok s"
  then have acc: "user_ok s j v" if "js_get (users s) j = Some v" for j v
    using that by (simp add: directory_ok_def accounts_ok_def)
  have "accounts_ok t"
    using acc u id unfolding accounts_ok_def t user_ok_def
    by (auto simp: updateIdentityState_def issued_def split: if_splits)
  moreover have "emails_ok t"
  proof -
    have mail: "j = k" if "js_get (users s) j = Some v" "js_get (users s) k = Some w"
      "co_professionalEmail v = co_professionalEmail w" for j k v w
      using ok that unfolding directory_ok_def emails_ok_def by blast
    show ?thesis
      using mail u later unfolding emails_ok_def t later_account_def
      by (simp add: updateIdentityState_def) metis
  qed
  moreover have "table_ok t"
  proof -
    have "session_ok t d r" if r: "js_get (sessions s) d = Some r" for d r
    proof -
      from ok r have "session_ok s d r" by (simp add: directory_ok_def table_ok_def)
      then show ?thesis
        using u later unfolding session_ok_def t later_account_def
        by (auto simp: updateIdentityState_def)
    qed
    then show ?thesis by (simp add: table_ok_def t updateIdentityState_def)
  qed
  moreover have "supply_ok t" "js_wf (users t)" "js_wf (sessions t)"
    using ok by (simp_all add: directory_ok_def supply_ok_def t updateIdentityState_def)
  moreover have "advances s t"
    using u later by (simp add: advances_def t updateIdentityState_def)
  ultimately show "directory_ok t \<and> advances s t" by (simp add: directory_ok_def)
qed

lemma keeps_revokeUser: "keeps s (snd (revokeUser u s))"
proof -
  have users: "users (snd (revokeUser u s)) = users s"
    by (simp add: revokeUser_def)
  have "js_keys (sessions (snd (revokeUser u s))) = js_keys (sessions s)"
    by (simp add: revokeUser_def js_keys_def comp_def if_distrib cong: if_cong)
  then have wf: "js_wf (sessions s) \<Longrightarrow> js_wf (sessions (snd (revokeUser u s)))"
    by (simp add: js_wf_def)
  have closed: "session_ok (snd (revokeUser u s)) d
      (if ses_userId r = u \<and> ses_active r then r\<lparr>ses_active := False\<rparr> else r)"
    if "session_ok s d r" for d r
    using that by (auto simp: session_ok_def users)
  have "table_ok (snd (revokeUser u s))" if ok: "table_ok s"
    unfolding table_ok_def
  proof (intro allI impI)
    fix d q
    assume "js_get (sessions (snd (revokeUser u s))) d = Some q"
    then obtain r where "js_get (sessions s) d = Some r"
      and q: "q = (if ses_userId r = u \<and> ses_active r then r\<lparr>ses_active := False\<rparr> else r)"
      by (auto simp: revokeUser_get)
    with ok have "session_ok s d r" by (simp add: table_ok_def)
    from closed [OF this] q show "session_ok (snd (revokeUser u s)) d q" by simp
  qed
  moreover have "advances s (snd (revokeUser u s))"
    unfolding advances_def by (auto simp: users revokeUser_get later_session_def)
  ultimately show ?thesis
    by (simp add: keeps_def directory_ok_def supply_ok_def accounts_ok_def user_ok_def emails_ok_def
        users issued_def wf)
qed


section \<open>The operations\<close>

lemma user_frames [simp, frame_simps]:
  "users (drawn s) = users s" "sessions (drawn s) = sessions s"
  "users (snd (audit_record i s)) = users s" "users (audit_admin a c ty b f k s) = users s"
  "sessions (audit_admin a c ty b f k s) = sessions s"
  "activeUsers (audit_admin a c ty b f k s) = activeUsers s"
  "authenticationVersions (audit_admin a c ty b f k s) = authenticationVersions s"
  "now (audit_admin a c ty b f k s) = now s" "sha256hex (audit_admin a c ty b f k s) = sha256hex s"
  "attempts (audit_admin a c ty b f k s) = attempts s" "attempts (snd (revokeUser x s)) = attempts s"
  "attempts (updateIdentityState x act v s) = attempts s" "attempts (drawn s) = attempts s"
  "attempts (cred_persist sub dg sec m s) = attempts s"
  "users (snd (revokeUser x s)) = users s" "users (updateIdentityState x act v s) = users s"
  "users (cred_persist sub dg sec m s) = users s"
  by (simp_all add: audit_record_def audit_admin_def revokeUser_def updateIdentityState_def
      cred_persist_def cred_store_def Let_def drawn_def split: option.split)

lemma keeps_audit: "keeps s (snd (audit_record i s))"
  by (rule keeps_same) (simp_all add: draws_audit)

lemma keeps_audit_admin: "keeps s (audit_admin a c ty b f k s)"
  unfolding audit_admin_def by (rule keeps_audit)

lemma keeps_persist: "keeps s (cred_persist sub dg sec m s)"
  by (rule keeps_same) (simp_all add: cred_persist_def cred_store_def Let_def drawn_def)

lemma keeps_drawn: "keeps s (drawn s)"
  by (rule keeps_same) (simp_all add: drawn_def)

lemma keeps_assertAllowed: "keeps s (snd (assertAllowed key x limit w s))"
  by (rule keeps_same) (simp_all add: assertAllowed_def Let_def)

lemma keeps_then_audit: "keeps s t \<Longrightarrow> keeps s (audit_admin a c ty b f k t)"
  using keeps_audit_admin keeps_trans by blast

lemma keeps_then_revoke: "keeps s t \<Longrightarrow> keeps s (snd (revokeUser i t))"
  using keeps_revokeUser keeps_trans by blast

lemma keeps_setActive: "keeps s (snd (setActive i act actor cid s))"
proof (cases "js_get (users s) i")
  case None
  then show ?thesis by (simp add: setActive_def)
next
  case (Some u)
  let ?u = "u\<lparr>co_active := act, co_authenticationVersion := co_authenticationVersion u + 1\<rparr>"
  let ?t = "updateIdentityState i act (co_authenticationVersion u + 1) (s\<lparr>users := js_set (users s) i ?u\<rparr>)"
  have "keeps s ?t" by (rule keeps_bump [OF Some, of ?u]) (simp_all add: later_account_def)
  then show ?thesis
    using Some by (auto simp: setActive_def Let_def case_prod_unfold
        intro!: keeps_then_audit keeps_then_revoke)
qed

lemma keeps_updateAuthorization: "keeps s (snd (updateAuthorization i inp actor cid s))"
proof (cases "js_get (users s) i")
  case None
  then show ?thesis by (simp add: updateAuthorization_def)
next
  case (Some u)
  let ?u = "u\<lparr>co_roles := as_roles (ua_roles inp), co_campusId := ua_campusId inp,
              co_teamId := ua_teamId inp, co_authenticationVersion := co_authenticationVersion u + 1\<rparr>"
  let ?t = "updateIdentityState i (co_active u) (co_authenticationVersion u + 1) (s\<lparr>users := js_set (users s) i ?u\<rparr>)"
  have "keeps s ?t" by (rule keeps_bump [OF Some, of ?u]) (simp_all add: later_account_def)
  then show ?thesis
    using Some by (auto simp: updateAuthorization_def Let_def case_prod_unfold split: sum.split
        intro!: keeps_then_audit keeps_then_revoke)
qed

lemma keeps_issueTemporarySecret: "keeps s (snd (issueTemporarySecret i reason ok actor cid s))"
proof (cases "js_get (users s) i")
  case None
  then show ?thesis by (simp add: issueTemporarySecret_def)
next
  case (Some u)
  let ?u = "u\<lparr>co_firstLoginRequired := True, co_authenticationVersion := co_authenticationVersion u + 1\<rparr>"
  let ?s = "provisionTemporary i (''CrmYnov-'' @ fresh_token s @ ''!9'')
    (digestRecoveryValue s (co_professionalEmail u)) (drawn s)"
  let ?t = "updateIdentityState i (co_active ?u) (co_authenticationVersion ?u) (?s\<lparr>users := js_set (users ?s) i ?u\<rparr>)"
  have "keeps s ?s"
    unfolding provisionTemporary_def by (rule keeps_trans [OF keeps_drawn keeps_persist])
  moreover have "js_get (users ?s) i = Some u"
    using Some by (simp add: provisionTemporary_def drawn_def)
  then have "keeps ?s ?t"
    by (rule keeps_bump [of _ _ u ?u]) (simp_all add: later_account_def)
  ultimately have "keeps s ?t" by (rule keeps_trans)
  then show ?thesis
    using Some by (auto simp: issueTemporarySecret_def Let_def case_prod_unfold
        intro!: keeps_then_audit keeps_then_revoke)
qed

lemma keeps_completeFirstLogin: "keeps s (snd (completeFirstLogin i s))"
proof (cases "js_get (users s) i")
  case None
  then show ?thesis by (simp add: completeFirstLogin_def)
next
  case (Some u)
  let ?u = "u\<lparr>co_firstLoginRequired := False, co_authenticationVersion := co_authenticationVersion u + 1\<rparr>"
  have "keeps s (updateIdentityState i (co_active ?u) (co_authenticationVersion ?u) (s\<lparr>users := js_set (users s) i ?u\<rparr>))"
    by (rule keeps_bump [OF Some, of ?u]) (simp_all add: later_account_def)
  with Some show ?thesis by (simp add: completeFirstLogin_def Let_def)
qed

lemma keeps_replaceRequired: "keeps s (snd (replaceRequired k c n s))"
  by (auto simp: replaceRequired_def keeps_persist split: option.split)

lemma keeps_firstLogin_change: "keeps s (snd (firstLogin_change i c n cid s))"
proof (cases "replaceRequired i c n s")
  case (Pair ok s1)
  then have s1: "keeps s s1" using keeps_replaceRequired [of s i c n] by simp
  obtain r s2 where two: "completeFirstLogin i s1 = (r, s2)"
    by (cases "completeFirstLogin i s1") auto
  then have "keeps s1 s2" using keeps_completeFirstLogin [of s1 i] by simp
  with s1 have "keeps s s2" by (rule keeps_trans)
  then show ?thesis
    using s1 two Pair
    by (cases r) (auto simp: firstLogin_change_def case_prod_unfold Let_def split: bool.split
        intro!: keeps_trans [OF _ keeps_audit] keeps_then_revoke)
qed

lemma keeps_user_create: "keeps s (snd (user_create inp actor cid s))"
proof (cases "\<exists>name email. validateCreation inp = Inr (name, email)
    \<and> \<not> list_ex (\<lambda>u. co_professionalEmail u = email) (js_values (users s))")
  case False
  then show ?thesis by (auto simp: user_create_def split: sum.split prod.split)
next
  case True
  then obtain name email where v: "validateCreation inp = Inr (name, email)"
    and new: "\<not> list_ex (\<lambda>u. co_professionalEmail u = email) (js_values (users s))" by blast
  let ?i = "fresh_uuid s"
  let ?u = "\<lparr>co_id = ?i, co_professionalEmail = email,
       co_secondaryEmail = map_option js_lower (cc_secondaryEmail inp),
       co_roles = as_roles (cc_roles inp), co_campusId = cc_campusId inp, co_teamId = cc_teamId inp,
       co_active = True, co_authenticationVersion = 1, co_firstLoginRequired = True\<rparr>"
  let ?t = "updateIdentityState ?i True 1 (drawn s\<lparr>users := js_set (users s) ?i ?u\<rparr>)"
  have t: "users ?t = js_set (users s) ?i ?u" "sessions ?t = sessions s" "draws ?t = Suc (draws s)"
    "uuid ?t = uuid s" "random_token ?t = random_token s" "sha256hex ?t = sha256hex s"
    "issued ?t = insert ?i (issued s)"
    by (simp_all add: drawn_def updateIdentityState_def issued_def fresh_uuid_def lessThan_Suc)
  have "keeps s ?t"
    unfolding keeps_def
  proof
    assume ok: "directory_ok s"
    then have acc: "user_ok s j w" if "js_get (users s) j = Some w" for j w
      using that by (simp add: directory_ok_def accounts_ok_def)
    have fresh: "js_get (users s) ?i = None"
      using acc [of ?i] ok fresh_uuid_not_issued [of s]
      by (cases "js_get (users s) ?i") (auto simp: user_ok_def directory_ok_def supply_ok_def)
    have "user_ok ?t j w" if "js_get (users ?t) j = Some w" for j w
      using that acc [of j w] fresh unfolding user_ok_def t
      by (auto simp: updateIdentityState_def drawn_def split: if_splits)
    then have "accounts_ok ?t" by (simp add: accounts_ok_def)
    moreover
    have unused: "co_professionalEmail w \<noteq> email" if "js_get (users s) j = Some w" for j w
      using new js_get_in_values [OF that] by (auto simp: list_ex_iff)
    have "emails_ok ?t"
      using ok unused unused [THEN not_sym] unfolding emails_ok_def t directory_ok_def by auto
    moreover
    have "session_ok ?t d r" if "js_get (sessions s) d = Some r" for d r
    proof -
      from ok that have "session_ok s d r" by (simp add: directory_ok_def table_ok_def)
      then show ?thesis by (rule session_ok_later) (use fresh in \<open>auto simp: t\<close>)
    qed
    then have "table_ok ?t" unfolding table_ok_def t(2) by blast
    moreover have "advances s ?t" using fresh by (auto simp: advances_def t)
    ultimately show "directory_ok ?t \<and> advances s ?t"
      using ok by (simp add: directory_ok_def supply_ok_def t)
  qed
  then show ?thesis
    using v new by (simp add: user_create_def Let_def keeps_then_audit)
qed

lemma keeps_session_create:
  assumes u: "js_get (users s) i = Some u" and act: "co_active u"
  shows "keeps s (snd (session_create i rs scs life must (co_authenticationVersion u) s))"
    (is "keeps s ?t")
  unfolding keeps_def
proof
  assume ok: "directory_ok s"
  let ?d = "sha256hex s (random_token s (Suc (draws s)))"
  have t: "users ?t = users s" "draws ?t = Suc (Suc (draws s))" "uuid ?t = uuid s"
    "random_token ?t = random_token s" "sha256hex ?t = sha256hex s"
    "activeUsers ?t = js_set (activeUsers s) i True"
    "authenticationVersions ?t = js_set (authenticationVersions s) i (co_authenticationVersion u)"
    "\<exists>r. sessions ?t = js_set (sessions s) ?d r \<and> ses_userId r = i
       \<and> ses_authenticationVersion r = co_authenticationVersion u"
    by (auto simp: session_create_def Let_def drawn_def fresh_token_def digestToken_def)
  have "issued s \<subseteq> issued ?t" by (auto simp: issued_def t)
  then have "user_ok ?t j w" if "js_get (users s) j = Some w" for j w
    using ok that u act unfolding directory_ok_def accounts_ok_def user_ok_def t by (auto simp: t(1))
  then have "accounts_ok ?t" by (simp add: accounts_ok_def t)
  moreover from t(8) obtain r where r: "sessions ?t = js_set (sessions s) ?d r" "ses_userId r = i"
    "ses_authenticationVersion r = co_authenticationVersion u" by blast
  have new: "js_get (sessions s) ?d = None"
  proof (rule ccontr)
    assume "js_get (sessions s) ?d \<noteq> None"
    with ok obtain n where "n < draws s" "?d = sha256hex s (random_token s n)"
      unfolding directory_ok_def table_ok_def session_ok_def by fastforce
    with ok show False
      by (simp add: directory_ok_def supply_ok_def inj_def) (metis n_not_Suc_n not_less_iff_gr_or_eq order_less_trans lessI)
  qed
  have "session_ok ?t d q" if "js_get (sessions ?t) d = Some q" for d q
  proof (cases "d = ?d")
    case True
    with that r u show ?thesis by (auto simp: session_ok_def t intro!: exI [of _ "Suc (draws s)"])
  next
    case False
    with that r have "js_get (sessions s) d = Some q" by simp
    with ok have "session_ok s d q" by (simp add: directory_ok_def table_ok_def)
    then show ?thesis by (rule session_ok_later) (simp_all add: t)
  qed
  then have "table_ok ?t" by (simp add: table_ok_def)
  moreover have "advances s ?t" using new by (auto simp: advances_def t r)
  ultimately show "directory_ok ?t \<and> advances s ?t"
    using ok r(1) by (simp add: directory_ok_def supply_ok_def emails_ok_def t)
qed

lemma keeps_login: "keeps s (snd (login ip email password corr s))"
proof (cases "assertAllowed (case ip of None \<Rightarrow> ''unknown'' | Some a \<Rightarrow> a) (now s) 5 60000 s")
  case (Pair r s1)
  then have s1: "keeps s s1"
    using keeps_assertAllowed [of s "case ip of None \<Rightarrow> ''unknown'' | Some a \<Rightarrow> a" "now s" 5 60000] by simp
  show ?thesis
  proof (cases "directory_ok s1")
    case False
    with s1 show ?thesis by (auto simp: keeps_def)
  next
    case True
    then have id: "js_get (users s1) i = Some u \<Longrightarrow> co_id u = i" for i u
      by (simp add: directory_ok_def accounts_ok_def user_ok_def)
    show ?thesis
      using s1 Pair
      by (cases r) (auto simp: login_def Let_def user_findById_def case_prod_unfold split: option.split prod.split
        dest: id intro!: keeps_trans [OF _ keeps_audit] keeps_trans [OF s1 keeps_session_create])
  qed
qed

lemma keeps_session_revoke: "keeps s (snd (session_revoke sid s))"
proof (cases "find (\<lambda>e. ses_sessionId (snd e) = sid) (sessions s)")
  case None
  then show ?thesis by (simp add: session_revoke_def)
next
  case (Some e)
  let ?t = "s\<lparr>sessions := js_set (sessions s) (fst e) (snd e\<lparr>ses_active := False\<rparr>)\<rparr>"
  have "directory_ok ?t \<and> advances s ?t" if ok: "directory_ok s"
  proof -
    from ok have wf: "js_wf (sessions s)" by (simp add: directory_ok_def)
    with Some have e: "js_get (sessions s) (fst e) = Some (snd e)"
      using js_get_find [of "sessions s" "\<lambda>r. ses_sessionId r = sid" e] by simp
    have "session_ok ?t d r" if r: "js_get (sessions ?t) d = Some r" for d r
    proof -
      from r e obtain q where "js_get (sessions s) d = Some q" "ses_userId r = ses_userId q"
        "ses_authenticationVersion r = ses_authenticationVersion q"
        by (auto split: if_splits)
      with ok show ?thesis by (auto simp: directory_ok_def table_ok_def session_ok_def)
    qed
    then have "table_ok ?t" unfolding table_ok_def by blast
    moreover have "advances s ?t"
      using e by (auto simp: advances_def later_session_def)
    ultimately show ?thesis
      using ok wf by (simp add: directory_ok_def supply_ok_def accounts_ok_def emails_ok_def user_ok_def issued_def)
  qed
  with Some show ?thesis by (simp add: session_revoke_def keeps_def)
qed

lemma keeps_cred_replace: "keeps s (cred_replace k n s)"
  by (auto simp: cred_replace_def keeps_persist split: option.split)

lemma keeps_challenges:
  "keeps s (snd (challenge_issue sub path t life s))" "keeps s (snd (challenge_consume token path t s))"
  by (rule keeps_same; simp add: challenge_issue_def challenge_consume_def Let_def drawn_def split: option.split)+

lemma keeps_recovery_request: "keeps s (snd (recovery_request e p k t s))"
proof (cases "assertAllowed (''access-recovery:'' @ k) t 5 60000 s")
  case (Pair r s1)
  then have s1: "keeps s s1" using keeps_assertAllowed [of s "''access-recovery:'' @ k" t 5 60000] by simp
  then show ?thesis
    using Pair by (cases r) (auto simp: recovery_request_def split: sum.split option.split
        intro: keeps_trans keeps_challenges)
qed

lemma keeps_recovery_complete: "keeps s (snd (recovery_complete tok p sec t s))"
proof -
  have consumed: "keeps s s1" if "challenge_consume token path t s = (r, s1)" for token path r s1
    using that keeps_challenges(2) [of s token path t] by simp
  then show ?thesis
    by (auto simp: recovery_complete_def split: json.split sum.split option.split prod.split
        intro!: keeps_trans [OF _ keeps_cred_replace] dest: consumed)
qed


section \<open>An active super administrator stays\<close>

lemma js_keys_ids:
  assumes "js_wf m" and "\<And>i u. js_get m i = Some u \<Longrightarrow> co_id u = i"
  shows "map co_id (js_values m) = js_keys m"
  using assms by (auto simp: js_values_def js_keys_def js_wf_def js_get_def)

lemma another_super_admin:
  assumes ok: "directory_ok s" and u: "js_get (users s) i = Some u"
    and two: "\<not> length (active_super_admins s) \<le> 1"
  obtains j w where "j \<noteq> i" "js_get (users s) j = Some w" "co_active w" "SUPER_ADMIN \<in> set (co_roles w)"
proof -
  have id: "co_id w = j" if "js_get (users s) j = Some w" for j w
    using ok that by (simp add: directory_ok_def accounts_ok_def user_ok_def)
  have wf: "js_wf (users s)" using ok by (simp add: directory_ok_def)
  from js_keys_ids [OF wf id] wf have "distinct (map co_id (js_values (users s)))"
    by (simp add: js_wf_def)
  then have "distinct (active_super_admins s)"
    by (simp add: active_super_admins_def user_list_def distinct_map)
  with two have "\<not> set (active_super_admins s) \<subseteq> {u}"
    using card_mono [of "{u}" "set (active_super_admins s)"] by (auto simp: distinct_card)
  then obtain w where w: "w \<in> set (active_super_admins s)" "w \<noteq> u" by blast
  then have "w \<in> set (js_values (users s))" "co_active w" "SUPER_ADMIN \<in> set (co_roles w)"
    by (auto simp: active_super_admins_def user_list_def)
  with js_values_get [OF wf] obtain j where j: "js_get (users s) j = Some w" by blast
  with u w(2) have "j \<noteq> i" by auto
  with j that \<open>co_active w\<close> \<open>SUPER_ADMIN \<in> set (co_roles w)\<close> show ?thesis by blast
qed

lemma super_bump:
  assumes "directory_ok s" and super: "has_super_admin s" and u: "js_get (users s) i = Some u"
    and users: "users t = js_set (users s) i u'"
    and stays: "co_active u \<Longrightarrow> SUPER_ADMIN \<in> set (co_roles u) \<Longrightarrow> length (active_super_admins s) \<le> 1
        \<Longrightarrow> co_active u' \<and> SUPER_ADMIN \<in> set (co_roles u')"
  shows "has_super_admin t"
proof (cases "length (active_super_admins s) \<le> 1")
  case True
  from super obtain j w where w: "js_get (users s) j = Some w" "co_active w" "SUPER_ADMIN \<in> set (co_roles w)"
    by (auto simp: has_super_admin_def)
  show ?thesis
  proof (cases "j = i")
    case True
    with w u stays [OF _ _ \<open>length (active_super_admins s) \<le> 1\<close>] show ?thesis
      by (auto simp: has_super_admin_def users intro!: exI [of _ i])
  next
    case False
    with w show ?thesis by (auto simp: has_super_admin_def users intro!: exI [of _ j])
  qed
next
  case False
  from another_super_admin [OF assms(1) u False] obtain j w where "j \<noteq> i" "js_get (users s) j = Some w"
    "co_active w" "SUPER_ADMIN \<in> set (co_roles w)" by blast
  then show ?thesis by (auto simp: has_super_admin_def users intro!: exI [of _ j])
qed

lemma super_setActive:
  assumes "directory_ok s" "has_super_admin s"
  shows "has_super_admin (snd (setActive i act actor cid s))"
proof (cases "js_get (users s) i")
  case None
  with assms show ?thesis by (simp add: setActive_def)
next
  case (Some u)
  show ?thesis
  proof (cases "\<not> act \<and> co_active u \<and> SUPER_ADMIN \<in> set (co_roles u) \<and> length (active_super_admins s) \<le> 1")
    case True
    with Some assms show ?thesis by (simp add: setActive_def)
  next
    case False
    show ?thesis
      by (rule super_bump [OF assms Some, where u' = "u\<lparr>co_active := act,
            co_authenticationVersion := co_authenticationVersion u + 1\<rparr>"])
         (use Some False in \<open>auto simp: setActive_def Let_def case_prod_unfold\<close>)
  qed
qed

lemma super_updateAuthorization:
  assumes "directory_ok s" "has_super_admin s"
  shows "has_super_admin (snd (updateAuthorization i inp actor cid s))"
proof (cases "\<exists>u v. js_get (users s) i = Some u \<and> validateAuthorization inp = Inr v
    \<and> \<not> (co_active u \<and> SUPER_ADMIN \<in> set (co_roles u) \<and> role_name SUPER_ADMIN \<notin> set (ua_roles inp)
        \<and> length (active_super_admins s) \<le> 1)")
  case False
  with assms show ?thesis
    by (auto simp: updateAuthorization_def Let_def split: option.split sum.split)
next
  case True
  then obtain u v where u: "js_get (users s) i = Some u" and v: "validateAuthorization inp = Inr v"
    and allowed: "\<not> (co_active u \<and> SUPER_ADMIN \<in> set (co_roles u)
        \<and> role_name SUPER_ADMIN \<notin> set (ua_roles inp) \<and> length (active_super_admins s) \<le> 1)" by blast
  show ?thesis
    by (rule super_bump [OF assms u, where u' = "u\<lparr>co_roles := as_roles (ua_roles inp),
          co_campusId := ua_campusId inp, co_teamId := ua_teamId inp,
          co_authenticationVersion := co_authenticationVersion u + 1\<rparr>"])
       (use u v allowed in \<open>auto simp: updateAuthorization_def Let_def case_prod_unfold as_roles_mem\<close>)
qed

lemma super_same_role:
  assumes "directory_ok s" "has_super_admin s" "js_get (users s) i = Some u"
    "users t = js_set (users s) i u'" "co_active u' = co_active u" "co_roles u' = co_roles u"
  shows "has_super_admin t"
  by (rule super_bump [OF assms(1-4)]) (simp_all add: assms(5,6))

lemma super_issueTemporarySecret:
  assumes "directory_ok s" "has_super_admin s"
  shows "has_super_admin (snd (issueTemporarySecret i reason ok actor cid s))"
proof (cases "js_get (users s) i")
  case None
  with assms show ?thesis by (simp add: issueTemporarySecret_def)
next
  case (Some u)
  show ?thesis
    by (cases "\<not> co_active u \<or> \<not> ok \<or> reason \<notin> {''INITIAL_ACCESS'', ''CREDENTIAL_COMPROMISED'', ''USER_REQUEST''}")
       (use Some assms in \<open>auto simp: issueTemporarySecret_def Let_def case_prod_unfold provisionTemporary_def
          intro: super_same_role [OF assms Some]\<close>)
qed

lemma super_firstLogin_change:
  assumes "directory_ok s" "has_super_admin s"
  shows "has_super_admin (snd (firstLogin_change i c n cid s))"
proof -
  have rep: "users s1 = users s" if "replaceRequired i c n s = (ok, s1)" for ok s1
    using that by (auto simp: replaceRequired_def split: option.splits if_splits)
  have "has_super_admin (snd (completeFirstLogin i s1))" if "replaceRequired i c n s = (ok, s1)" for ok s1
  proof (cases "js_get (users s) i")
    case None
    with rep [OF that] assms(2) show ?thesis
      by (simp add: completeFirstLogin_def has_super_admin_def)
  next
    case (Some u)
    with rep [OF that] show ?thesis
      by (auto simp: completeFirstLogin_def Let_def intro!: super_same_role [OF assms Some])
  qed
  moreover obtain ok s1 where one: "replaceRequired i c n s = (ok, s1)"
    by (cases "replaceRequired i c n s") auto
  moreover obtain r s2 where two: "completeFirstLogin i s1 = (r, s2)"
    by (cases "completeFirstLogin i s1") auto
  ultimately have "has_super_admin s2" by fastforce
  moreover from this have "has_super_admin (snd (audit_record e (snd (revokeUser i s2))))" for e
    by (simp add: has_super_admin_def)
  ultimately show ?thesis
    using assms(2) one two super_same [OF rep [OF one]]
    by (cases r) (auto simp: firstLogin_change_def case_prod_unfold Let_def split: bool.split)
qed

lemma super_user_create:
  assumes "directory_ok s" "has_super_admin s"
  shows "has_super_admin (snd (user_create inp actor cid s))"
proof -
  from assms(2) obtain i u where u: "js_get (users s) i = Some u" "co_active u" "SUPER_ADMIN \<in> set (co_roles u)"
    by (auto simp: has_super_admin_def)
  then have "i \<noteq> fresh_uuid s"
    using assms(1) fresh_uuid_not_issued [of s]
    by (auto simp: directory_ok_def supply_ok_def accounts_ok_def user_ok_def)
  with u assms(2) show ?thesis
    by (auto simp: user_create_def Let_def has_super_admin_def split: sum.split prod.split)
qed


section \<open>Runs\<close>

text \<open>
  The operations that reach the directory and the session table from outside, and the passing
  of time; a run is any sequence of them, refused or not.
\<close>

inductive user_step :: "'a user_state_scheme \<Rightarrow> 'a user_state_scheme \<Rightarrow> bool" where
  create: "user_step s (snd (user_create inp actor cid s))"
| activity: "user_step s (snd (setActive i act actor cid s))"
| authorization: "user_step s (snd (updateAuthorization i upd actor cid s))"
| temporary: "user_step s (snd (issueTemporarySecret i reason ok actor cid s))"
| first_login: "user_step s (snd (firstLogin_change i c n cid s))"
| login: "user_step s (snd (login ip email password corr s))"
| logout: "user_step s (snd (session_revoke sid s))"
| ask_recovery: "user_step s (snd (recovery_request e p k t s))"
| end_recovery: "user_step s (snd (recovery_complete tok p sec t s))"
| time: "now s \<le> t \<Longrightarrow> user_step s (s\<lparr>now := t\<rparr>)"

lemma users_challenges [simp]:
  "users (snd (challenge_issue sub path t life s)) = users s"
  "users (snd (challenge_consume token path t s)) = users s"
  "users (snd (assertAllowed key t limit w s)) = users s"
  "users (snd (session_revoke sid s)) = users s" "users (cred_replace k n s) = users s"
  by (auto simp: challenge_issue_def challenge_consume_def assertAllowed_def session_revoke_def
      cred_replace_def Let_def split: option.split)

lemma users_recovery [simp]:
  "users (snd (recovery_request e p k t s)) = users s"
  "users (snd (recovery_complete tok p sec t s)) = users s"
proof -
  have "users s1 = users s" if "assertAllowed (''access-recovery:'' @ k) t 5 60000 s = (r, s1)" for r s1
    using that users_challenges(3) [of "''access-recovery:'' @ k" t 5 60000 s] by simp
  then show "users (snd (recovery_request e p k t s)) = users s"
    by (auto simp: recovery_request_def call_def split: prod.split sum.split option.split)
  have "users s1 = users s" if "challenge_consume token path t s = (r, s1)" for token path r s1
    using that users_challenges(2) [of token path t s] by simp
  then show "users (snd (recovery_complete tok p sec t s)) = users s"
    by (auto simp: recovery_complete_def split: json.split sum.split option.split prod.split)
qed

lemma users_login [simp]: "users (snd (login ip email password corr s)) = users s"
proof (cases "assertAllowed (case ip of None \<Rightarrow> ''unknown'' | Some a \<Rightarrow> a) (now s) 5 60000 s")
  case (Pair r s1)
  then have "users s1 = users s"
    using users_challenges(3) [of "case ip of None \<Rightarrow> ''unknown'' | Some a \<Rightarrow> a" "now s" 5 60000 s] by simp
  moreover have "users (snd (session_create u rs scs life m ver t)) = users t"
    for u rs scs life m ver and t :: "'a user_state_scheme"
    by (simp add: session_create_def Let_def)
  ultimately show ?thesis
    using Pair by (cases r) (simp_all add: login_def Let_def case_prod_unfold split: option.split)
qed

lemma keeps_time: "keeps s (s\<lparr>now := t\<rparr>)"
  by (rule keeps_same) simp_all

lemma user_step_keeps: "user_step s t \<Longrightarrow> keeps s t"
  by (induction rule: user_step.induct)
     (simp_all add: keeps_user_create keeps_setActive keeps_updateAuthorization keeps_issueTemporarySecret
       keeps_firstLogin_change keeps_login keeps_session_revoke keeps_recovery_request
       keeps_recovery_complete keeps_time)

lemma one_step: "user_step s t \<Longrightarrow> user_step\<^sup>*\<^sup>* s t"
  by (rule r_into_rtranclp)

lemma user_step_super: "user_step s t \<Longrightarrow> directory_ok s \<Longrightarrow> has_super_admin s \<Longrightarrow> has_super_admin t"
  by (induction rule: user_step.induct)
     (simp_all add: super_user_create super_setActive super_updateAuthorization super_issueTemporarySecret
       super_firstLogin_change, simp_all add: has_super_admin_def)

lemma run_keeps: "user_step\<^sup>*\<^sup>* s t \<Longrightarrow> directory_ok s \<Longrightarrow> directory_ok t \<and> advances s t"
proof (induction rule: rtranclp_induct)
  case base
  then show ?case by simp
next
  case (step t u)
  then show ?case
    using user_step_keeps [of t u] by (auto simp: keeps_def intro: advances_trans)
qed

lemma run_super:
  assumes "user_step\<^sup>*\<^sup>* s t" and "directory_ok s" and "has_super_admin s"
  shows "has_super_admin t"
  using assms
proof (induction rule: rtranclp_induct)
  case base
  then show ?case by simp
next
  case (step t u)
  with run_keeps [of s t] user_step_super [of t u] show ?case by simp
qed


section \<open>A small directory for the witnesses\<close>

definition demo_user :: "string \<Rightarrow> string \<Rightarrow> role list \<Rightarrow> collaborator" where
  "demo_user i email rs = \<lparr>co_id = i, co_professionalEmail = email, co_secondaryEmail = None, co_roles = rs,
     co_campusId = Some ''cm'', co_teamId = None, co_active = True, co_authenticationVersion = 1,
     co_firstLoginRequired = False\<rparr>"

definition demo_session :: "string \<Rightarrow> session_record" where
  "demo_session u = \<lparr>ses_userId = u, ses_roles = [ADMISSIONS], ses_scopes = [CampusScope ''cm''],
     ses_sessionId = ''s'', ses_mustChangeSecret = False, ses_tokenDigest = ''#tk-xx'', ses_active = True,
     ses_expiresAt = 5000, ses_authenticationVersion = 1\<rparr>"

definition user_demo :: "'a \<Rightarrow> 'a user_state_scheme" where
  "user_demo m = \<lparr>now = now demo_host, draws = 3, uuid = uuid demo_host, random_token = random_token demo_host,
     sha256hex = sha256hex demo_host, scrypt = scrypt demo_host, date_parse = date_parse demo_host,
     iso_string = iso_string demo_host, utc_year = utc_year demo_host, local_day = local_day demo_host,
     locale_cmp = locale_cmp demo_host, audit_events = [], sessions = [(''#tk-xx'', demo_session ''id-x'')],
     authenticationVersions = [(''id-'', 1), (''id-x'', 1)], activeUsers = [(''id-'', True), (''id-x'', True)],
     attempts = [], challenges = [], identities = [], credentials = [], identityToSubject = [],
     users = [(''id-'', demo_user ''id-'' ''a@b.fr'' [SUPER_ADMIN]),
              (''id-x'', demo_user ''id-x'' ''c@b.fr'' [ADMISSIONS])], \<dots> = m\<rparr>"

lemma demo_directory_ok: "directory_ok (user_demo m)"
proof -
  have "inj (\<lambda>n. ''#tk-'' @ replicate n CHR ''x'')"
    by (auto simp: inj_def dest: arg_cong [where f = length])
  moreover have "inj (\<lambda>n. ''id-'' @ replicate n CHR ''x'')"
    by (auto simp: inj_def dest: arg_cong [where f = length])
  ultimately have "supply_ok (user_demo m)"
    by (simp add: supply_ok_def user_demo_def demo_host_def)
  moreover have "{..<3::nat} = {0, 1, 2}" by auto
  then have ids: "{''id-'', ''id-x''} \<subseteq> issued (user_demo m)"
    by (simp add: issued_def user_demo_def demo_host_def)
  have "accounts_ok (user_demo m)"
    using ids by (auto simp: accounts_ok_def user_ok_def user_demo_def demo_user_def js_get_def split: if_splits)
  moreover have "emails_ok (user_demo m)"
    by (auto simp: emails_ok_def user_demo_def demo_user_def js_get_def split: if_splits)
  moreover have "table_ok (user_demo m)"
    by (auto simp: table_ok_def session_ok_def user_demo_def demo_user_def demo_session_def demo_host_def
        js_get_def intro!: exI [of _ 2] split: if_splits)
       (simp add: numeral_2_eq_2)
  ultimately show ?thesis
    by (simp add: directory_ok_def user_demo_def js_wf_def js_keys_def)
qed

section \<open>Properties\<close>

text \<open>
  C2: From a directory that has an active super administrator, no sequence of requests -
  creations, activations, authorization changes, temporary secrets, first logins, logins,
  logouts and recoveries, accepted or refused - leaves it without one.
\<close>

theorem last_super_admin_stays:
  assumes "user_step\<^sup>*\<^sup>* s t" and "directory_ok s" and "has_super_admin s"
  shows "has_super_admin t"
  using assms by (rule run_super)

theorem last_super_admin_stays_witness:
  "has_super_admin (snd (updateAuthorization ''id-'' \<lparr>ua_roles = [''ADMIN''], ua_campusId = None,
     ua_teamId = None, ua_reason = ''ACCESS_REVIEW'', ua_confirmed = True\<rparr> ''id-'' ''c'' (user_demo ())))"
  by (rule last_super_admin_stays [OF _ demo_directory_ok], rule r_into_rtranclp, rule user_step.authorization)
     (auto simp: has_super_admin_def user_demo_def demo_user_def js_get_def intro: exI [of _ "''id-''"])

text \<open>
  C39: Whatever is requested, two accounts never share a professional address, every account is
  filed under its own identifier, and the flag and version the sessions check against are
  those of the account.
\<close>

theorem directory_stays_consistent:
  assumes "user_step\<^sup>*\<^sup>* s t" and "directory_ok s"
    and "js_get (users t) i = Some u" and "js_get (users t) j = Some w"
  shows "co_id u = i \<and> js_get (activeUsers t) i = Some (co_active u)
    \<and> js_get (authenticationVersions t) i = Some (co_authenticationVersion u)
    \<and> (co_professionalEmail u = co_professionalEmail w \<longrightarrow> i = j)"
proof -
  from run_keeps [OF assms(1,2)] have "user_ok t i u" "emails_ok t"
    using assms(3) by (auto simp: directory_ok_def accounts_ok_def)
  with assms(3,4) show ?thesis unfolding user_ok_def emails_ok_def by blast
qed

theorem directory_stays_consistent_witness:
  "js_get (activeUsers (snd (setActive ''id-x'' False ''id-'' ''c'' (user_demo ())))) ''id-x'' = Some False"
proof -
  let ?t = "snd (setActive ''id-x'' False ''id-'' ''c'' (user_demo ()))"
  have u: "js_get (users ?t) ''id-x'' =
      Some (demo_user ''id-x'' ''c@b.fr'' [ADMISSIONS]\<lparr>co_active := False, co_authenticationVersion := 2\<rparr>)"
    by (simp add: setActive_def user_demo_def demo_user_def js_get_def Let_def case_prod_unfold js_set_def)
  have "user_step\<^sup>*\<^sup>* (user_demo ()) ?t" by (intro one_step user_step.activity)
  from directory_stays_consistent [OF this demo_directory_ok u u]
  show ?thesis by (simp add: demo_user_def)
qed

text \<open>
  The changes of an account that end its sessions: each is one accepted operation.
\<close>

inductive account_changed :: "string \<Rightarrow> 'a user_state_scheme \<Rightarrow> 'a user_state_scheme \<Rightarrow> bool" where
  "setActive i act actor cid s = (Inr u, t) \<Longrightarrow> account_changed i s t"
| "updateAuthorization i upd actor cid s = (Inr u, t) \<Longrightarrow> account_changed i s t"
| "issueTemporarySecret i reason ok actor cid s = (Inr x, t) \<Longrightarrow> account_changed i s t"
| "firstLogin_change i c n cid s = (Inr k, t) \<Longrightarrow> account_changed i s t"

lemma account_changed_step: "account_changed i s t \<Longrightarrow> user_step s t"
  by (induction rule: account_changed.induct) (metis snd_conv user_step.intros)+

definition version_up :: "string \<Rightarrow> 'a user_state_scheme \<Rightarrow> 'a user_state_scheme \<Rightarrow> bool" where
  "version_up i s t \<longleftrightarrow> (\<exists>u w. js_get (users s) i = Some u \<and> js_get (users t) i = Some w
     \<and> co_authenticationVersion u < co_authenticationVersion w)"

lemma version_up_firstLogin: "firstLogin_change i c n cid s = (Inr k, t) \<Longrightarrow> version_up i s t"
proof -
  assume run: "firstLogin_change i c n cid s = (Inr k, t)"
  obtain ok s1 where one: "replaceRequired i c n s = (ok, s1)"
    by (cases "replaceRequired i c n s") auto
  then have "users s1 = users s"
    by (auto simp: replaceRequired_def split: option.splits if_splits)
  with run one show ?thesis
    by (cases "js_get (users s) i")
       (auto simp: version_up_def firstLogin_change_def completeFirstLogin_def case_prod_unfold Let_def
         split: if_splits bool.splits)
qed

lemma account_changed_version: "account_changed i s t \<Longrightarrow> version_up i s t"
proof (induction rule: account_changed.induct)
  case (1 i act actor cid s u t)
  then show ?case
    by (auto simp: version_up_def setActive_def Let_def case_prod_unfold split: option.splits if_splits)
next
  case (2 i upd actor cid s u t)
  then show ?case
    by (auto simp: version_up_def updateAuthorization_def Let_def case_prod_unfold
        split: option.splits if_splits sum.splits)
next
  case (3 i reason ok actor cid s x t)
  then show ?case
    by (auto simp: version_up_def issueTemporarySecret_def provisionTemporary_def Let_def case_prod_unfold
        split: option.splits if_splits)
next
  case (4 i c n cid s k t)
  then show ?case by (rule version_up_firstLogin)
qed

lemma stale_session:
  assumes ok: "directory_ok t" and adv: "advances s t" and auth: "authenticate token s = Some p"
    and u: "js_get (users t) (userId p) = Some u"
    and newer: "\<And>r. js_get (sessions s) (sha256hex s token) = Some r \<Longrightarrow> ses_authenticationVersion r < co_authenticationVersion u"
  shows "authenticate token t = None"
proof (rule ccontr)
  assume "authenticate token t \<noteq> None"
  then obtain q where q: "authenticate token t = Some q" by blast
  from auth obtain r where r: "js_get (sessions s) (sha256hex s token) = Some r" "ses_userId r = userId p"
    by (auto simp: authenticate_Some)
  from adv have "sha256hex t = sha256hex s" by (simp add: advances_def)
  with adv r obtain r' where "js_get (sessions t) (sha256hex t token) = Some r'" "later_session r r'"
    unfolding advances_def by metis
  with q have v: "js_get (authenticationVersions t) (userId p) \<in> {None, Some (ses_authenticationVersion r)}"
    using r(2) by (auto simp: authenticate_Some later_session_def)
  from ok u have "js_get (authenticationVersions t) (userId p) = Some (co_authenticationVersion u)"
    by (simp add: directory_ok_def accounts_ok_def user_ok_def)
  with v newer [OF r(1)] show False by simp
qed

text \<open>
  C3: A session does not outlive a change of its account. Once an account was activated,
  deactivated, given other roles, given a temporary secret, or had its secret changed at first
  login, no token that opened a session of it before opens one later, however the directory
  goes on - in particular not after a reactivation.
\<close>

theorem account_change_ends_sessions:
  assumes "directory_ok s" and "authenticate token s = Some p" and "account_changed (userId p) s s1"
    and "user_step\<^sup>*\<^sup>* s1 t"
  shows "authenticate token t = None"
proof -
  from assms(3) have "user_step s s1" by (rule account_changed_step)
  with assms(1) have s1: "directory_ok s1" "advances s s1"
    using run_keeps [OF one_step] by blast+
  with run_keeps [OF assms(4)] have t: "directory_ok t" "advances s1 t" "advances s t"
    by (auto intro: advances_trans)
  from account_changed_version [OF assms(3)] obtain u w where u: "js_get (users s) (userId p) = Some u"
    and w: "js_get (users s1) (userId p) = Some w" "co_authenticationVersion u < co_authenticationVersion w"
    by (auto simp: version_up_def)
  from t(2) w(1) obtain x where x: "js_get (users t) (userId p) = Some x" "later_account w x"
    unfolding advances_def by blast
  show ?thesis
  proof (rule stale_session [OF t(1,3) assms(2) x(1)])
    fix r
    assume r: "js_get (sessions s) (sha256hex s token) = Some r"
    with assms(2) have "ses_userId r = userId p" by (auto simp: authenticate_Some)
    moreover from assms(1) r have "session_ok s (sha256hex s token) r"
      by (simp add: directory_ok_def table_ok_def)
    ultimately have "ses_authenticationVersion r \<le> co_authenticationVersion u"
      using u by (auto simp: session_ok_def)
    with w(2) x(2) show "ses_authenticationVersion r < co_authenticationVersion x"
      by (simp add: later_account_def)
  qed
qed

theorem account_change_ends_sessions_witness:
  "authenticate ''tk-xx'' (snd (setActive ''id-x'' True ''id-'' ''e''
     (snd (setActive ''id-x'' False ''id-'' ''c'' (user_demo ()))))) = None"
proof -
  let ?t = "snd (setActive ''id-x'' False ''id-'' ''c'' (user_demo ()))"
  let ?p = "\<lparr>userId = ''id-x'', p_roles = [ADMISSIONS], scopes = [CampusScope ''cm''], sessionId = ''s'',
    mustChangeSecret = Some False, permissionLeadIds = None\<rparr>"
  have auth: "authenticate ''tk-xx'' (user_demo ()) = Some ?p"
    by (simp add: authenticate_def digestToken_def user_demo_def demo_session_def demo_host_def js_get_def)
  obtain u where "setActive ''id-x'' False ''id-'' ''c'' (user_demo ()) = (Inr u, ?t)"
    by (simp add: setActive_def user_demo_def demo_user_def js_get_def Let_def case_prod_unfold)
  then have "account_changed (userId ?p) (user_demo ()) ?t" by (simp add: account_changed.intros)
  from account_change_ends_sessions [OF demo_directory_ok auth this one_step [OF user_step.activity]]
  show ?thesis .
qed


section \<open>Logging in\<close>

text \<open>
  The secret identifies an account: it is the stored one of the subject filed under the digest
  of the normalised address, and that subject is an active account of this address.
\<close>

definition identified :: "string \<Rightarrow> string \<Rightarrow> 'a user_state_scheme \<Rightarrow> collaborator \<Rightarrow> bool \<Rightarrow> bool" where
  "identified email password s u must \<longleftrightarrow>
     js_get (users s) (co_id u) = Some u \<and> co_active u
     \<and> co_professionalEmail u = js_lower (js_trim email)
     \<and> verifyIdentity (sha256hex s (js_lower (js_trim email))) password s = Some (co_id u, must)"

definition session_principal :: "collaborator \<Rightarrow> string \<Rightarrow> bool \<Rightarrow> principal" where
  "session_principal u sid must = \<lparr>userId = co_id u, p_roles = co_roles u, scopes = login_scopes u,
     sessionId = sid, mustChangeSecret = Some must, permissionLeadIds = None\<rparr>"

definition limiter_key :: "string option \<Rightarrow> string" where
  "limiter_key ip = (case ip of None \<Rightarrow> ''unknown'' | Some a \<Rightarrow> a)"

lemma identified_unique: "identified email password s u m \<Longrightarrow> identified email password s w n \<Longrightarrow> w = u \<and> n = m"
  by (auto simp: identified_def)

lemma verifyIdentity_cong:
  "credentials t = credentials s \<Longrightarrow> identityToSubject t = identityToSubject s \<Longrightarrow> scrypt t = scrypt s
     \<Longrightarrow> verifyIdentity d x t = verifyIdentity d x s"
  by (simp add: verifyIdentity_def cred_lookup_def cred_matches_def deriveSecret_def cong: option.case_cong)

lemma assertAllowed_frames:
  assumes "assertAllowed key x limit w s = (r, t)"
  shows "users t = users s" "sha256hex t = sha256hex s" "scrypt t = scrypt s" "now t = now s"
    "credentials t = credentials s" "identityToSubject t = identityToSubject s"
    "verifyIdentity d y t = verifyIdentity d y s"
  using assms by (auto simp: assertAllowed_def Let_def intro: verifyIdentity_cong split: if_splits)

lemma login_outcome:
  assumes ok: "directory_ok s"
  shows "case login ip email password corr s of
      (Inr (token, sid, change), t) \<Rightarrow> \<exists>u must. identified email password s u must \<and> login_scopes u \<noteq> []
         \<and> change = (must \<or> co_firstLoginRequired u) \<and> authenticate token t = Some (session_principal u sid change)
    | (Inl e, t) \<Rightarrow> fst (assertAllowed (limiter_key ip) (now s) 5 60000 s) = Inl e
         \<or> (e = Forbidden ''identity_invalid'' \<and> (\<nexists>u must. identified email password s u must))
         \<or> (e = Forbidden ''identity_scope_missing'' \<and> (\<exists>u must. identified email password s u must \<and> login_scopes u = []))"
proof (cases "assertAllowed (limiter_key ip) (now s) 5 60000 s")
  case (Pair r s1)
  note frames = assertAllowed_frames [OF Pair]
  let ?d = "sha256hex s (js_lower (js_trim email))"
  have id: "co_id u = i" if "js_get (users s) i = Some u" for i u
    using ok that by (simp add: directory_ok_def accounts_ok_def user_ok_def)
  show ?thesis
  proof (cases r)
    case (Inl e)
    with Pair show ?thesis by (simp add: login_def limiter_key_def)
  next
    case (Inr x)
    show ?thesis
    proof (cases "\<exists>u must. identified email password s u must")
      case False
      then have bad: "\<not> co_active u \<or> co_professionalEmail u \<noteq> js_lower (js_trim email)"
        if "verifyIdentity ?d password s = Some (i, m)" "js_get (users s) i = Some u" for i m u
        using that id [OF that(2)] unfolding identified_def by blast
      have "login ip email password corr s = (Inl (Forbidden ''identity_invalid''), s1)"
      proof (cases "verifyIdentity ?d password s")
        case None
        with Pair Inr frames show ?thesis
          by (simp add: login_def limiter_key_def Let_def digestRecoveryValue_def)
      next
        case (Some v)
        obtain i m where v: "v = (i, m)" by (cases v)
        show ?thesis
        proof (cases "js_get (users s) i")
          case None
          with Pair Inr frames Some v show ?thesis
            by (simp add: login_def limiter_key_def Let_def digestRecoveryValue_def user_findById_def)
        next
          case (Some u)
          with bad \<open>verifyIdentity ?d password s = Some v\<close> v
          have "\<not> co_active u \<or> co_professionalEmail u \<noteq> js_lower (js_trim email)" by blast
          with Some Pair Inr frames v \<open>verifyIdentity ?d password s = Some v\<close> show ?thesis
            by (simp add: login_def limiter_key_def Let_def digestRecoveryValue_def user_findById_def)
        qed
      qed
      with False show ?thesis by simp
    next
      case True
      then obtain u must where u: "identified email password s u must" by blast
      obtain token sid s2 where new: "session_create (co_id u) (co_roles u) (login_scopes u) 3600000
          (must \<or> co_firstLoginRequired u) (co_authenticationVersion u) s1 = ((token, sid), s2)"
        by (metis prod.collapse)
      from u have "js_get (users s1) (co_id u) = Some u"
        "verifyIdentity (sha256hex s1 (js_lower (js_trim email))) password s1 = Some (co_id u, must)"
        "co_active u" "co_professionalEmail u = js_lower (js_trim email)"
        by (simp_all add: identified_def frames)
      with Pair Inr new have "login ip email password corr s = (if login_scopes u = []
          then (Inl (Forbidden ''identity_scope_missing''), s1)
          else (Inr (token, sid, must \<or> co_firstLoginRequired u),
            snd (audit_record \<lparr>ai_eventType = ''SESSION_CREATED'', ai_actorId = Some (co_id u),
              ai_actorRoles = co_roles u, ai_ip = ip, ai_sessionId = Some sid,
              ai_correlationId = (case corr of None \<Rightarrow> ''generated'' | Some c \<Rightarrow> c), ai_before = JUndef,
              ai_after = JUndef, ai_result = SUCCESS, ai_idempotencyKey = ''session-created:'' @ sid\<rparr> s2)))"
        by (simp add: login_def limiter_key_def Let_def user_findById_def digestRecoveryValue_def)
      with u session_create_authenticates [OF new] show ?thesis
        by (auto simp: session_principal_def)
    qed
  qed
qed

text \<open>
  A login that succeeds is of an active account with the typed address and the typed
  secret, with at least one scope; the token it returns opens a session with exactly the roles
  and scopes of that account, marked for a secret change when the secret is temporary or the
  first login is pending.
\<close>

theorem login_opens_session:
  assumes "directory_ok s" and "login ip email password corr s = (Inr (token, sid, change), t)"
  shows "\<exists>u must. identified email password s u must \<and> login_scopes u \<noteq> []
    \<and> change = (must \<or> co_firstLoginRequired u) \<and> authenticate token t = Some (session_principal u sid change)"
  using login_outcome [OF assms(1), of ip email password corr] assms(2) by simp

definition demo_login :: "(string \<times> string \<times> bool) result \<times> user_state" where
  "demo_login = login None '' C@b.fr'' ''pw'' None
     (cred_store \<lparr>cr_subjectId = ''id-x'', cr_identityDigest = ''#c@b.fr'', cr_salt = ''s'',
        cr_digest = ''s$pw'', cr_mustChange = False\<rparr> (user_demo ()))"

lemma demo_store_ok: "directory_ok (cred_store c (user_demo m))"
proof -
  have "keeps (user_demo m) (cred_store c (user_demo m))"
    by (rule keeps_same) (simp_all add: cred_store_def)
  then show ?thesis by (simp add: keeps_def demo_directory_ok)
qed

lemma demo_login_done: "fst demo_login = Inr (''tk-xxxx'', ''id-xxx'', False)"
  by code_simp

theorem login_opens_session_witness:
  "\<exists>u must. co_active u \<and> login_scopes u \<noteq> []
     \<and> authenticate ''tk-xxxx'' (snd demo_login) = Some (session_principal u ''id-xxx'' must)"
proof -
  have run: "demo_login = (Inr (''tk-xxxx'', ''id-xxx'', False), snd demo_login)"
    using demo_login_done by (metis prod.collapse)
  from login_opens_session [OF demo_store_ok run [unfolded demo_login_def]] show ?thesis
    by (auto simp: identified_def demo_login_def)
qed

section \<open>The life of a temporary secret\<close>

lemma verifyIdentity_frames [simp]:
  "verifyIdentity d x (snd (audit_record i s)) = verifyIdentity d x s"
  "verifyIdentity d x (audit_admin a c ty b f k s) = verifyIdentity d x s"
  "verifyIdentity d x (snd (revokeUser u s)) = verifyIdentity d x s"
  "verifyIdentity d x (updateIdentityState u act v s) = verifyIdentity d x s"
  "verifyIdentity d x (s\<lparr>users := us\<rparr>) = verifyIdentity d x s"
  by (auto intro!: verifyIdentity_cong simp: audit_admin_def updateIdentityState_def)

lemma issued_secret:
  assumes u: "js_get (users s) i = Some u"
    and run: "issueTemporarySecret i reason conf actor cid s = (Inr (secret, n), t)"
  shows "co_active u" and "sha256hex t = sha256hex s"
    and "js_get (users t) i = Some (u\<lparr>co_firstLoginRequired := True,
           co_authenticationVersion := co_authenticationVersion u + 1\<rparr>)"
    and "verifyIdentity (sha256hex s (co_professionalEmail u)) secret t = Some (i, True)"
    and "attempts t = attempts s" and "now t = now s"
proof -
  from u run show "co_active u"
    by (auto simp: issueTemporarySecret_def split: if_splits)
  from u run show "sha256hex t = sha256hex s"
    by (auto simp: issueTemporarySecret_def Let_def case_prod_unfold provisionTemporary_def split: if_splits)
  from u run show "js_get (users t) i = Some (u\<lparr>co_firstLoginRequired := True,
      co_authenticationVersion := co_authenticationVersion u + 1\<rparr>)"
    by (auto simp: issueTemporarySecret_def Let_def case_prod_unfold provisionTemporary_def split: if_splits)
  from u run show "verifyIdentity (sha256hex s (co_professionalEmail u)) secret t = Some (i, True)"
    by (auto simp: issueTemporarySecret_def Let_def case_prod_unfold provisionTemporary_def
        verifyIdentity_persist digestRecoveryValue_def split: if_splits)
  from u run show "attempts t = attempts s"
    by (auto simp: issueTemporarySecret_def Let_def case_prod_unfold provisionTemporary_def split: if_splits)
  from u run show "now t = now s"
    by (auto simp: issueTemporarySecret_def Let_def case_prod_unfold provisionTemporary_def split: if_splits)
qed

text \<open>
  A temporary secret opens a session, from any address not rate limited, for the account it
  was issued to; and that session is good for nothing but changing the secret: the guard
  refuses it on every route, whatever roles the route asks for.
\<close>

theorem temporary_secret_only_changes:
  assumes "directory_ok s" and "js_get (users s) i = Some u"
    and "issueTemporarySecret i reason conf actor cid s = (Inr (secret, n), s1)"
    and "js_lower (js_trim email) = co_professionalEmail u" and "login_scopes u \<noteq> []"
    and "fst (assertAllowed (limiter_key ip) (now s1) 5 60000 s1) = Inr ()"
  shows "case login ip email secret corr s1 of
      (Inr (token, sid, change), t) \<Rightarrow> change \<and> (\<exists>p. authenticate token t = Some p \<and> userId p = i
         \<and> canActivate (Some p) need = Inl (Forbidden ''secret_change_required''))
    | (Inl e, t) \<Rightarrow> False"
proof -
  from keeps_issueTemporarySecret [of s i reason conf actor cid] assms(1,3) have ok: "directory_ok s1"
    by (simp add: keeps_def)
  note issued = issued_secret [OF assms(2,3)]
  let ?u = "u\<lparr>co_firstLoginRequired := True, co_authenticationVersion := co_authenticationVersion u + 1\<rparr>"
  have id: "co_id u = i"
    using assms(1,2) by (simp add: directory_ok_def accounts_ok_def user_ok_def)
  with issued assms(4) have who: "identified email secret s1 ?u True"
    by (simp add: identified_def)
  have scopes: "login_scopes ?u = login_scopes u" by (simp add: login_scopes_def)
  show ?thesis
  proof (cases "login ip email secret corr s1")
    case (Pair r t)
    show ?thesis
    proof (cases r)
      case (Inl e)
      have "False"
      proof -
        from login_outcome [OF ok, of ip email secret corr] Pair Inl
        consider "fst (assertAllowed (limiter_key ip) (now s1) 5 60000 s1) = Inl e"
          | "\<nexists>v m. identified email secret s1 v m"
          | "\<exists>v m. identified email secret s1 v m \<and> login_scopes v = []" by auto
        then show False
        proof cases
          case 1
          with assms(6) show False by simp
        next
          case 2
          with who show False by blast
        next
          case 3
          then obtain v m where "identified email secret s1 v m" "login_scopes v = []" by blast
          with identified_unique [OF who] scopes assms(5) show False by metis
        qed
      qed
      then show ?thesis ..
    next
      case (Inr x)
      obtain token sid change where x: "x = (token, sid, change)" by (cases x)
      from login_outcome [OF ok, of ip email secret corr] Pair Inr x obtain v must where
        v: "identified email secret s1 v must" "change = (must \<or> co_firstLoginRequired v)"
        "authenticate token t = Some (session_principal v sid change)" by auto
      from identified_unique [OF who v(1)] v(2) have "v = ?u" "change" by auto
      with v(3) Pair Inr x id show ?thesis
        by (simp add: session_principal_def canActivate_def)
    qed
  qed
qed

definition demo_issued :: "(string \<times> nat) result \<times> user_state" where
  "demo_issued = issueTemporarySecret ''id-x'' ''USER_REQUEST'' True ''id-'' ''c'' (user_demo ())"

lemma demo_issued_done: "fst demo_issued = Inr (''CrmYnov-tk-xxx!9'', 1)"
  by code_simp

theorem temporary_secret_only_changes_witness:
  "case login None ''c@b.fr'' ''CrmYnov-tk-xxx!9'' None (snd demo_issued) of
     (Inr (token, sid, change), t) \<Rightarrow> change | (Inl e, t) \<Rightarrow> False"
proof -
  have run: "issueTemporarySecret ''id-x'' ''USER_REQUEST'' True ''id-'' ''c'' (user_demo ()) =
      (Inr (''CrmYnov-tk-xxx!9'', 1), snd demo_issued)"
    using demo_issued_done unfolding demo_issued_def by (metis prod.collapse)
  have u: "js_get (users (user_demo ())) ''id-x'' = Some (demo_user ''id-x'' ''c@b.fr'' [ADMISSIONS])"
    by (simp add: user_demo_def js_get_def)
  have mail: "js_lower (js_trim ''c@b.fr'') = co_professionalEmail (demo_user ''id-x'' ''c@b.fr'' [ADMISSIONS])"
    and scopes: "login_scopes (demo_user ''id-x'' ''c@b.fr'' [ADMISSIONS]) \<noteq> []"
    by code_simp+
  have quiet: "fst (assertAllowed (limiter_key None) (now (snd demo_issued)) 5 60000 (snd demo_issued)) = Inr ()"
    using issued_secret(5,6) [OF u run] by (simp add: assertAllowed_def user_demo_def)
  from temporary_secret_only_changes [OF demo_directory_ok u run mail scopes quiet, of None None]
  show ?thesis by (auto split: prod.splits sum.splits)
qed

end
