(* ===== verification/Notifications.thy ===== *)
theory Notifications
  imports Directory
begin

text \<open>
  \<open>notifications/notification.service.ts\<close> without a database: the store of notifications,
  deduplicated by key, with creation instants that are strictly increasing even when the clock
  is not, and the feed each recipient reads.
\<close>

section \<open>State and operations\<close>

datatype notification_type =
    ASSIGNMENT | REASSIGNMENT_DECISION | CLOSURE_REQUEST | COLLABORATOR_REQUEST | FOLLOW_UP_DUE
  | IMPORT_REVIEW | CHAT_MENTION | BROADCAST | BROADCAST_CORRECTION | DOCUMENT_RECEIVED
  | DOCUMENT_VALIDATED | DOCUMENT_REFUSED | APPOINTMENT

fun notification_type_name :: "notification_type \<Rightarrow> string" where
  "notification_type_name ASSIGNMENT = ''ASSIGNMENT''"
| "notification_type_name REASSIGNMENT_DECISION = ''REASSIGNMENT_DECISION''"
| "notification_type_name CLOSURE_REQUEST = ''CLOSURE_REQUEST''"
| "notification_type_name COLLABORATOR_REQUEST = ''COLLABORATOR_REQUEST''"
| "notification_type_name FOLLOW_UP_DUE = ''FOLLOW_UP_DUE''"
| "notification_type_name IMPORT_REVIEW = ''IMPORT_REVIEW''"
| "notification_type_name CHAT_MENTION = ''CHAT_MENTION''"
| "notification_type_name BROADCAST = ''BROADCAST''"
| "notification_type_name BROADCAST_CORRECTION = ''BROADCAST_CORRECTION''"
| "notification_type_name DOCUMENT_RECEIVED = ''DOCUMENT_RECEIVED''"
| "notification_type_name DOCUMENT_VALIDATED = ''DOCUMENT_VALIDATED''"
| "notification_type_name DOCUMENT_REFUSED = ''DOCUMENT_REFUSED''"
| "notification_type_name APPOINTMENT = ''APPOINTMENT''"

datatype notification_priority = PrioLow | PrioNormal | PrioHigh

datatype notification_resource = ResLead | ResImport | ResChat | ResBroadcast | ResDocument | ResAppointment

record notification_input =
  ni_recipientId :: string
  ni_type :: notification_type
  ni_priority :: notification_priority
  ni_resourceType :: notification_resource
  ni_resourceId :: string
  ni_href :: string

record notification =
  nt_id :: string
  nt_input :: notification_input
  nt_createdAt :: int
  nt_readAt :: "int option"

abbreviation nt_recipientId :: "notification \<Rightarrow> string" where
  "nt_recipientId n \<equiv> ni_recipientId (nt_input n)"

record notification_page =
  np_items :: "notification list"
  np_page :: int
  np_pageSize :: int
  np_total :: nat
  np_unread :: nat

record notification_state = user_state +
  notifications :: "(string, notification) js_map"
  deduplication :: "(string, string) js_map"
  lastCreatedAtMs :: int

text \<open>\<open>[\p{L}\p{N}:._-]\<close> below code 256, and the two patterns of \<open>validate\<close>.\<close>

definition letter_or_number :: "char \<Rightarrow> bool" where
  "letter_or_number c = (is_alnum c \<or> code c \<in> {170, 178, 179, 181, 185, 186, 188, 189, 190}
     \<or> between 192 214 c \<or> between 216 246 c \<or> between 248 255 c)"

definition dedup_key_ok :: "string \<Rightarrow> bool" where
  "dedup_key_ok k = all_in (\<lambda>c. letter_or_number c \<or> c \<in> set '':._-'') 3 160 k"

definition href_ok :: "string \<Rightarrow> bool" where
  "href_ok h = (case js_split (CHR ''/'') h of
     [] # sect # ident # rest \<Rightarrow>
       sect \<in> {''leads'', ''imports'', ''chat'', ''broadcasts'', ''appointments''}
       \<and> ident \<noteq> [] \<and> list_all (\<lambda>c. is_alnum c \<or> c = CHR ''-'') ident
       \<and> list_all (list_all (\<lambda>c. c \<noteq> CHR ''?'' \<and> c \<noteq> CHR ''#'' \<and> \<not> is_space c)) rest
   | _ \<Rightarrow> False)"

definition notification_validate :: "notification_input \<Rightarrow> string \<Rightarrow> unit result" where
  "notification_validate i key =
     (if ni_recipientId i = [] \<or> ni_resourceId i = [] \<or> \<not> dedup_key_ok key \<or> \<not> href_ok (ni_href i)
      then Inl (BadRequest ''notification_invalid'') else Inr ())"

definition validatePagination :: "jsnum \<Rightarrow> jsnum \<Rightarrow> unit result" where
  "validatePagination page psz =
     (if \<not> is_integer page \<or> num_value page < 1 \<or> \<not> is_integer psz \<or> num_value psz < 1 \<or> 100 < num_value psz
      then Inl (BadRequest ''notification_pagination_invalid'') else Inr ())"

text \<open>
  A known key gives the stored notification back. The map holds every identifier the index
  names, so the branch where it does not is never taken.
\<close>

definition notification_create ::
  "notification_input \<Rightarrow> string \<Rightarrow> 'a notification_state_scheme \<Rightarrow> notification result \<times> 'a notification_state_scheme" where
  "notification_create i key s =
     (case notification_validate i key of
        Inl e \<Rightarrow> (Inl e, s)
      | Inr _ \<Rightarrow>
          (case js_get (deduplication s) key of
             Some known \<Rightarrow>
               (case js_get (notifications s) known of
                  Some n \<Rightarrow> (Inr n, s)
                | None \<Rightarrow> (Inl (Thrown ''notification_missing''), s))
           | None \<Rightarrow>
               (let at = max (now s) (lastCreatedAtMs s + 1);
                    n = \<lparr>nt_id = fresh_uuid s, nt_input = i, nt_createdAt = at, nt_readAt = None\<rparr>
                in (Inr n, drawn s\<lparr>lastCreatedAtMs := at,
                      notifications := js_set (notifications s) (nt_id n) n,
                      deduplication := js_set (deduplication s) key (nt_id n)\<rparr>))))"

definition own_notifications :: "principal \<Rightarrow> 'a notification_state_scheme \<Rightarrow> notification list" where
  "own_notifications p s = filter (\<lambda>n. nt_recipientId n = userId p) (js_values (notifications s))"

definition newest_first :: "'a host_scheme \<Rightarrow> notification \<Rightarrow> notification \<Rightarrow> int" where
  "newest_first s l r = cmp_or (cmp_int (nt_createdAt r) (nt_createdAt l)) (locale_cmp s (nt_id r) (nt_id l))"

definition notification_list ::
  "principal \<Rightarrow> jsnum \<Rightarrow> jsnum \<Rightarrow> 'a notification_state_scheme \<Rightarrow> notification_page result" where
  "notification_list p page psz s =
     (case validatePagination page psz of
        Inl e \<Rightarrow> Inl e
      | Inr _ \<Rightarrow>
          (let all = sort_by (newest_first s) (own_notifications p s)
           in Inr \<lparr>np_items = page_slice (num_value page) (num_value psz) all, np_page = num_value page,
                np_pageSize = num_value psz, np_total = length all,
                np_unread = length (filter (\<lambda>n. nt_readAt n = None) all)\<rparr>))"

definition markRead ::
  "string \<Rightarrow> principal \<Rightarrow> string \<Rightarrow> 'a notification_state_scheme \<Rightarrow> notification result \<times> 'a notification_state_scheme" where
  "markRead i p cid s =
     (case js_get (notifications s) i of
        None \<Rightarrow> (Inl (NotFound ''notification_not_found''), s)
      | Some n \<Rightarrow>
          if nt_recipientId n \<noteq> userId p then (Inl (NotFound ''notification_not_found''), s)
          else if nt_readAt n \<noteq> None then (Inr n, s)
          else (let n' = n\<lparr>nt_readAt := Some (now s)\<rparr>;
                    s1 = s\<lparr>notifications := js_set (notifications s) i n'\<rparr>
                in (Inr n', audit_by p cid ''NOTIFICATION_READ'' JUndef
                      (JObj [(''notificationId'', JStr i), (''type'', JStr (notification_type_name (ni_type (nt_input n))))])
                      SUCCESS (''notification-read:'' @ i) s1)))"

text \<open>The loop visits the stored objects in order and replaces the unread ones in place.\<close>

definition markAllRead :: "principal \<Rightarrow> string \<Rightarrow> 'a notification_state_scheme \<Rightarrow> nat \<times> 'a notification_state_scheme" where
  "markAllRead p cid s =
     (let mine = (\<lambda>n. nt_recipientId n = userId p \<and> nt_readAt n = None);
          updated = length (filter mine (js_values (notifications s)));
          s1 = s\<lparr>notifications := map (\<lambda>e. (fst e, if mine (snd e)
                 then snd e\<lparr>nt_readAt := Some (now s)\<rparr> else snd e)) (notifications s)\<rparr>
      in (updated, audit_by p cid ''NOTIFICATIONS_READ_ALL'' JUndef (JObj [(''updated'', JNat updated)]) SUCCESS
            (''notifications-read-all:'' @ userId p @ '':'' @ cid) s1))"

definition assertResourceAccess ::
  "string \<Rightarrow> principal \<Rightarrow> string list \<Rightarrow> 'a notification_state_scheme \<Rightarrow> string result" where
  "assertResourceAccess i p allowedLeadIds s =
     (case js_get (notifications s) i of
        None \<Rightarrow> Inl (NotFound ''notification_not_found'')
      | Some n \<Rightarrow>
          if nt_recipientId n \<noteq> userId p then Inl (NotFound ''notification_not_found'')
          else if ni_resourceType (nt_input n) = ResLead \<and> ni_resourceId (nt_input n) \<notin> set allowedLeadIds
          then Inl (Forbidden ''notification_resource_forbidden'')
          else Inr (ni_href (nt_input n)))"

section \<open>Invariant\<close>

definition notes_ok :: "'a notification_state_scheme \<Rightarrow> bool" where
  "notes_ok s \<longleftrightarrow> inj (uuid s) \<and> js_wf (notifications s)
     \<and> sorted_wrt (<) (map nt_createdAt (js_values (notifications s)))
     \<and> (\<forall>i n. js_get (notifications s) i = Some n \<longrightarrow> nt_id n = i \<and> i \<in> issued s \<and> nt_createdAt n \<le> lastCreatedAtMs s)
     \<and> (\<forall>k i. js_get (deduplication s) k = Some i \<longrightarrow> js_get (notifications s) i \<noteq> None)"

text \<open>What happens to a notification: it stays, and may become read.\<close>

definition later_note :: "notification \<Rightarrow> notification \<Rightarrow> bool" where
  "later_note n m \<longleftrightarrow> nt_id m = nt_id n \<and> nt_input m = nt_input n \<and> nt_createdAt m = nt_createdAt n
     \<and> (nt_readAt n \<noteq> None \<longrightarrow> nt_readAt m = nt_readAt n)"

definition notes_grow :: "'a notification_state_scheme \<Rightarrow> 'a notification_state_scheme \<Rightarrow> bool" where
  "notes_grow s t \<longleftrightarrow>
     (\<forall>i n. js_get (notifications s) i = Some n \<longrightarrow> (\<exists>m. js_get (notifications t) i = Some m \<and> later_note n m))
     \<and> (\<forall>k i. js_get (deduplication s) k = Some i \<longrightarrow> js_get (deduplication t) k = Some i)"

inductive notification_step :: "'a notification_state_scheme \<Rightarrow> 'a notification_state_scheme \<Rightarrow> bool" where
  create: "notification_step s (snd (notification_create i key s))"
| read: "notification_step s (snd (markRead n p cid s))"
| read_all: "notification_step s (snd (markAllRead p cid s))"
| time: "notification_step s (s\<lparr>now := t\<rparr>)"

lemma note_frames [simp, frame_simps]:
  "notifications (audit_by p c ty b a r k s) = notifications s"
  "deduplication (audit_by p c ty b a r k s) = deduplication s"
  "lastCreatedAtMs (audit_by p c ty b a r k s) = lastCreatedAtMs s"
  "notifications (drawn s) = notifications s" "deduplication (drawn s) = deduplication s"
  by (simp_all add: audit_by_def audit_record_def Let_def drawn_def split: option.split)

lemma later_note_refl [simp]: "later_note n n"
  by (simp add: later_note_def)

lemma later_note_trans: "later_note n m \<Longrightarrow> later_note m k \<Longrightarrow> later_note n k"
  by (auto simp: later_note_def)

lemma notes_grow_refl [simp]: "notes_grow s s"
  by (auto simp: notes_grow_def)

lemma notes_grow_trans:
  assumes "notes_grow s t" "notes_grow t u"
  shows "notes_grow s u"
  using assms unfolding notes_grow_def by (meson later_note_trans)

lemma create_new:
  assumes ok: "notes_ok s" and new: "js_get (deduplication s) key = None"
    and n: "n = \<lparr>nt_id = fresh_uuid s, nt_input = i, nt_createdAt = max (now s) (lastCreatedAtMs s + 1), nt_readAt = None\<rparr>"
    and t: "t = drawn s\<lparr>lastCreatedAtMs := max (now s) (lastCreatedAtMs s + 1),
              notifications := js_set (notifications s) (nt_id n) n,
              deduplication := js_set (deduplication s) key (nt_id n)\<rparr>"
  shows "notes_ok t \<and> notes_grow s t \<and> js_values (notifications t) = js_values (notifications s) @ [n]"
proof -
  from ok have stored: "nt_id m = j \<and> j \<in> issued s \<and> nt_createdAt m \<le> lastCreatedAtMs s"
    if "js_get (notifications s) j = Some m" for j m using that by (simp add: notes_ok_def)
  have fresh: "js_get (notifications s) (fresh_uuid s) = None"
  proof (cases "js_get (notifications s) (fresh_uuid s)")
    case (Some m)
    with stored fresh_uuid_not_issued [of s] ok show ?thesis by (auto simp: notes_ok_def)
  qed simp
  have id: "nt_id n = fresh_uuid s" by (simp add: n)
  have vals: "js_values (notifications t) = js_values (notifications s) @ [n]"
    using fresh by (simp add: t id js_values_set_fresh)
  have "sorted_wrt (<) (map nt_createdAt (js_values (notifications t)))"
  proof -
    have "nt_createdAt m < nt_createdAt n" if "m \<in> set (js_values (notifications s))" for m
    proof -
      from that ok obtain j where "js_get (notifications s) j = Some m"
        by (auto simp: notes_ok_def js_values_get)
      with stored have "nt_createdAt m \<le> lastCreatedAtMs s" by blast
      then show ?thesis by (simp add: n)
    qed
    then show ?thesis using ok unfolding vals by (auto simp: notes_ok_def sorted_wrt_append)
  qed
  moreover have "nt_id m = j \<and> j \<in> issued t \<and> nt_createdAt m \<le> lastCreatedAtMs t"
    if "js_get (notifications t) j = Some m" for j m
    using that stored [of j m] by (auto simp: t id n issued_def fresh_uuid_def lessThan_Suc drawn_def split: if_splits)
  ultimately have "notes_ok t"
    using ok by (auto simp: notes_ok_def t drawn_def id)
  moreover have "notes_grow s t"
    using fresh new by (auto simp: notes_grow_def t id)
  ultimately show ?thesis using vals by simp
qed

lemma notes_audit:
  "notes_ok s \<Longrightarrow> notes_ok (audit_by p c ty b a r k s) \<and> notes_grow s (audit_by p c ty b a r k s)"
  using issued_mono [OF same_host_audit_by [of s p c ty b a r k]]
  by (auto simp: notes_ok_def notes_grow_def)

lemma notes_read:
  assumes ok: "notes_ok s" and n: "js_get (notifications s) i = Some n" and later: "later_note n m"
    and t: "t = s\<lparr>notifications := js_set (notifications s) i m\<rparr>"
  shows "notes_ok t \<and> notes_grow s t"
proof -
  have "map nt_createdAt (js_values (notifications t)) = map nt_createdAt (js_values (notifications s))"
    using later unfolding t by (simp add: js_set_same_image [OF n] later_note_def)
  then have "notes_ok t"
    using ok n later by (auto simp: notes_ok_def t issued_def later_note_def split: if_splits)
  moreover have "notes_grow s t" using n later by (auto simp: notes_grow_def t)
  ultimately show ?thesis by simp
qed

lemma notes_map:
  assumes ok: "notes_ok s" and later: "\<And>n. later_note n (f n)"
    and t: "t = s\<lparr>notifications := map (\<lambda>e. (fst e, f (snd e))) (notifications s)\<rparr>"
  shows "notes_ok t \<and> notes_grow s t"
proof -
  have eqs: "nt_id (f n) = nt_id n" "nt_createdAt (f n) = nt_createdAt n" for n
    using later [of n] by (simp_all add: later_note_def)
  have "map nt_createdAt (js_values (notifications t)) = map nt_createdAt (js_values (notifications s))"
    by (simp add: t js_map_values eqs)
  with ok have "sorted_wrt (<) (map nt_createdAt (js_values (notifications t)))"
    by (simp add: notes_ok_def)
  then have "notes_ok t"
    using ok by (auto simp: notes_ok_def issued_def js_map_values eqs t)
  moreover have "notes_grow s t" using later by (auto simp: notes_grow_def t js_map_values)
  ultimately show ?thesis by simp
qed

lemma notification_step_ok: "notification_step s t \<Longrightarrow> notes_ok s \<Longrightarrow> notes_ok t \<and> notes_grow s t"
proof (induction rule: notification_step.induct)
  case (create s i key)
  then show ?case
    using create_new [of s key]
    by (auto simp: notification_create_def Let_def split: sum.split option.split)
next
  case (read s n p cid)
  show ?case
  proof (cases "\<exists>m. js_get (notifications s) n = Some m \<and> nt_recipientId m = userId p \<and> nt_readAt m = None")
    case False
    with read show ?thesis by (auto simp: markRead_def split: option.split)
  next
    case True
    then obtain m where m: "js_get (notifications s) n = Some m" "nt_recipientId m = userId p" "nt_readAt m = None"
      by blast
    let ?t = "s\<lparr>notifications := js_set (notifications s) n (m\<lparr>nt_readAt := Some (now s)\<rparr>)\<rparr>"
    from notes_read [OF read m(1), of "m\<lparr>nt_readAt := Some (now s)\<rparr>"] m(3)
    have t: "notes_ok ?t" "notes_grow s ?t" by (simp_all add: later_note_def)
    with m notes_audit [OF t(1)] show ?thesis by (auto simp: markRead_def Let_def intro: notes_grow_trans)
  qed
next
  case (read_all s p cid)
  let ?f = "\<lambda>n. if nt_recipientId n = userId p \<and> nt_readAt n = None then n\<lparr>nt_readAt := Some (now s)\<rparr> else n"
  let ?t = "s\<lparr>notifications := map (\<lambda>e. (fst e, ?f (snd e))) (notifications s)\<rparr>"
  have t: "notes_ok ?t \<and> notes_grow s ?t"
    by (rule notes_map [OF read_all, of ?f]) (auto simp: later_note_def)
  have all: "snd (markAllRead p cid s) = audit_by p cid ''NOTIFICATIONS_READ_ALL'' JUndef
      (JObj [(''updated'', JNat (fst (markAllRead p cid s)))]) SUCCESS
      (''notifications-read-all:'' @ userId p @ '':'' @ cid) ?t"
    by (simp add: markAllRead_def Let_def)
  from t show ?case unfolding all using notes_audit notes_grow_trans by blast
next
  case (time s t)
  then show ?case by (auto simp: notes_ok_def notes_grow_def issued_def)
qed

lemma notification_run_ok: "notification_step\<^sup>*\<^sup>* s t \<Longrightarrow> notes_ok s \<Longrightarrow> notes_ok t \<and> notes_grow s t"
proof (induction rule: rtranclp_induct)
  case base
  then show ?case by simp
next
  case (step t u)
  then show ?case using notification_step_ok [of t u] notes_grow_trans [of s t u] by simp
qed

section \<open>Properties\<close>

definition no_notifications :: "'a notification_state_scheme \<Rightarrow> bool" where
  "no_notifications s \<longleftrightarrow> inj (uuid s) \<and> notifications s = [] \<and> deduplication s = []"

lemma no_notifications_ok: "no_notifications s \<Longrightarrow> notes_ok s"
  by (simp add: no_notifications_def notes_ok_def js_values_def)

lemma list_newest_first:
  assumes "notes_ok s"
  shows "sort_by (newest_first s) (own_notifications p s) = rev (own_notifications p s)"
proof -
  have "sorted_wrt (\<lambda>n m. nt_createdAt n < nt_createdAt m) (own_notifications p s)"
    using assms unfolding notes_ok_def own_notifications_def by (simp add: sorted_wrt_map sorted_wrt_filter)
  then have "sorted_wrt (\<lambda>n m. 0 < newest_first s n m) (own_notifications p s)"
    by (rule sorted_wrt_mono_rel [rotated]) (simp add: newest_first_def cmp_or_def cmp_int_def)
  then show ?thesis by (rule sort_by_rev)
qed

text \<open>
  The feed shows a recipient exactly the notifications addressed to them, the latest
  first, in pages: whatever was created or read before, even with a clock that stands still or
  goes back, page k of size n is the k-th slice of the recipient's notifications in reverse
  order of creation.
\<close>

theorem feed_newest_first:
  assumes "no_notifications s0" and "notification_step\<^sup>*\<^sup>* s0 s" and "1 \<le> page" and "1 \<le> n" and "n \<le> 100"
  shows "notification_list p (JInt page) (JInt n) s = Inr
    \<lparr>np_items = page_slice page n (rev (filter (\<lambda>m. nt_recipientId m = userId p) (js_values (notifications s)))),
     np_page = page, np_pageSize = n, np_total = length (own_notifications p s),
     np_unread = length (filter (\<lambda>m. nt_readAt m = None) (own_notifications p s))\<rparr>"
proof -
  from assms(1,2) have ok: "notes_ok s"
    using notification_run_ok no_notifications_ok by blast
  from list_newest_first [OF ok] show ?thesis
    using assms(3-5)
    by (simp add: notification_list_def validatePagination_def Let_def own_notifications_def rev_filter [symmetric])
qed

definition note_demo :: "'a \<Rightarrow> 'a notification_state_scheme" where
  "note_demo m = user_demo (notification_state_ext [] [] 0 m)"

lemma note_demo_empty: "no_notifications (note_demo m)"
proof -
  have "inj (\<lambda>n. ''id-'' @ replicate n CHR ''x'')"
    by (auto simp: inj_def dest: arg_cong [where f = length])
  then show ?thesis by (simp add: no_notifications_def note_demo_def user_demo_def demo_host_def)
qed

definition demo_note_input :: "string \<Rightarrow> notification_input" where
  "demo_note_input u = \<lparr>ni_recipientId = u, ni_type = ASSIGNMENT, ni_priority = PrioNormal,
     ni_resourceType = ResLead, ni_resourceId = ''l1'', ni_href = ''/leads/l1''\<rparr>"

definition demo_feed :: notification_state where
  "demo_feed = snd (notification_create (demo_note_input ''u'') ''key-2''
     (snd (notification_create (demo_note_input ''u'') ''key-1'' (note_demo ()))))"

lemma demo_feed_run: "notification_step\<^sup>*\<^sup>* (note_demo ()) demo_feed"
  unfolding demo_feed_def
  by (rule rtranclp_trans [OF r_into_rtranclp r_into_rtranclp]; rule notification_step.create)

lemma demo_feed_own: "map nt_createdAt (own_notifications (demo_principal ''u'' []) demo_feed) = [1000, 1001]"
  by code_simp

theorem feed_newest_first_witness:
  "\<exists>pg. notification_list (demo_principal ''u'' []) (JInt 1) (JInt 1) demo_feed = Inr pg
     \<and> map nt_createdAt (np_items pg) = [1001] \<and> np_total pg = 2"
proof -
  note page = feed_newest_first [OF note_demo_empty demo_feed_run, of 1 1 "demo_principal ''u'' []"]
  have two: "length (own_notifications (demo_principal ''u'' []) demo_feed) = 2"
    using arg_cong [OF demo_feed_own, of length] by simp
  from demo_feed_own have "map nt_createdAt (page_slice 1 1 (rev (own_notifications (demo_principal ''u'' []) demo_feed))) = [1001]"
    by (simp add: page_slice_def take_map [symmetric] rev_map [symmetric])
  with page two show ?thesis by (simp add: own_notifications_def)
qed

text \<open>
  One event notifies once. After a notification was created under a key, creating one
  under that key again - however the feeds went on, with whatever content - creates nothing:
  it returns the first notification, at most marked as read since.
\<close>

theorem notification_created_once:
  assumes "no_notifications s0" and "notification_step\<^sup>*\<^sup>* s0 s"
    and "notification_create i key s = (Inr n, s1)" and "notification_step\<^sup>*\<^sup>* s1 t"
    and "notification_validate j key = Inr ()"
  shows "\<exists>m. notification_create j key t = (Inr m, t) \<and> later_note n m"
proof -
  from assms(1,2) have ok: "notes_ok s"
    using notification_run_ok no_notifications_ok by blast
  have "notification_step s s1" using assms(3) notification_step.create [of s i key] by simp
  with ok have ok1: "notes_ok s1" using notification_step_ok by blast
  have "\<exists>k. js_get (deduplication s1) key = Some k \<and> js_get (notifications s1) k = Some n"
    using assms(3) ok
    by (auto simp: notification_create_def Let_def notes_ok_def split: sum.splits option.splits)
  then obtain k where "js_get (deduplication s1) key = Some k" "js_get (notifications s1) k = Some n" by blast
  with notification_run_ok [OF assms(4) ok1] obtain m where "js_get (deduplication t) key = Some k"
    "js_get (notifications t) k = Some m" "later_note n m" unfolding notes_grow_def by blast
  with assms(5) show ?thesis by (simp add: notification_create_def)
qed

theorem notification_created_once_witness:
  "\<exists>m. notification_create (demo_note_input ''w'') ''key-2'' (snd (markAllRead (demo_principal ''u'' []) ''c'' demo_feed))
     = (Inr m, snd (markAllRead (demo_principal ''u'' []) ''c'' demo_feed))"
proof -
  let ?s = "snd (notification_create (demo_note_input ''u'') ''key-1'' (note_demo ()))"
  have run: "notification_step\<^sup>*\<^sup>* (note_demo ()) ?s"
    by (rule r_into_rtranclp) (rule notification_step.create)
  have "is_ok (fst (notification_create (demo_note_input ''u'') ''key-2'' ?s))" by code_simp
  then obtain n where n: "notification_create (demo_note_input ''u'') ''key-2'' ?s = (Inr n, demo_feed)"
    unfolding demo_feed_def by (metis is_ok.elims(2) prod.collapse)
  have valid: "notification_validate (demo_note_input ''w'') ''key-2'' = Inr ()" by code_simp
  have on: "notification_step\<^sup>*\<^sup>* demo_feed (snd (markAllRead (demo_principal ''u'' []) ''c'' demo_feed))"
    by (rule r_into_rtranclp) (rule notification_step.read_all)
  from notification_created_once [OF note_demo_empty run n on valid] show ?thesis by blast
qed

end
