(* ===== verification/LeadTypes.thy ===== *)
theory LeadTypes
  imports Notifications
begin

text \<open>
  The commercial rules on a lead that read no state: \<open>leads/commercial-progression.ts\<close> (what
  counts as a contact, the evidence a positive status needs), \<open>leads/lead-treatment.ts\<close> (first
  and last treatment from the activities and their corrections, the queues built on them),
  \<open>leads/first-treatment.ts\<close> (reception clock and the 24-hour limit) and the intent and
  needs rules of \<open>follow-up/next-action.contract.ts\<close>; with the records of \<open>lead.service.ts\<close>.
\<close>

section \<open>Types of a lead\<close>

datatype lead_status = PROSPECT | CONTACTED | QUALIFIED | ENROLLED | CLOSED_LOST

fun status_name :: "lead_status \<Rightarrow> string" where
  "status_name PROSPECT = ''PROSPECT''"
| "status_name CONTACTED = ''CONTACTED''"
| "status_name QUALIFIED = ''QUALIFIED''"
| "status_name ENROLLED = ''ENROLLED''"
| "status_name CLOSED_LOST = ''CLOSED_LOST''"

definition leadStatuses :: "lead_status list" where
  "leadStatuses = [PROSPECT, CONTACTED, QUALIFIED, ENROLLED, CLOSED_LOST]"

definition as_status :: "string \<Rightarrow> lead_status option" where
  "as_status v = find (\<lambda>x. status_name x = v) leadStatuses"

fun allowedTransitions :: "lead_status \<Rightarrow> lead_status list" where
  "allowedTransitions PROSPECT = [CONTACTED, ENROLLED, CLOSED_LOST]"
| "allowedTransitions CONTACTED = [QUALIFIED, ENROLLED, CLOSED_LOST]"
| "allowedTransitions QUALIFIED = [ENROLLED, CLOSED_LOST]"
| "allowedTransitions ENROLLED = []"
| "allowedTransitions CLOSED_LOST = []"

definition terminal_status :: "lead_status \<Rightarrow> bool" where
  "terminal_status x = (x = ENROLLED \<or> x = CLOSED_LOST)"

datatype activity_type =
    CRM_CALL | EXTERNAL_CALL | PHONE_CALL | PHYSICAL_VISIT | WHATSAPP | MANUAL_EMAIL | MEETING
  | COMMENT | CORRECTION | STATUS_CHANGED | LEAD_CREATED | ASSIGNMENT_CHANGED | REASSIGNMENT_REQUESTED
  | REASSIGNMENT_REJECTED | LEGACY_IMPORT | PROVENANCE_ATTACHED | TAGS_CHANGED

fun activity_name :: "activity_type \<Rightarrow> string" where
  "activity_name CRM_CALL = ''CRM_CALL''"
| "activity_name EXTERNAL_CALL = ''EXTERNAL_CALL''"
| "activity_name PHONE_CALL = ''PHONE_CALL''"
| "activity_name PHYSICAL_VISIT = ''PHYSICAL_VISIT''"
| "activity_name WHATSAPP = ''WHATSAPP''"
| "activity_name MANUAL_EMAIL = ''MANUAL_EMAIL''"
| "activity_name MEETING = ''MEETING''"
| "activity_name COMMENT = ''COMMENT''"
| "activity_name CORRECTION = ''CORRECTION''"
| "activity_name STATUS_CHANGED = ''STATUS_CHANGED''"
| "activity_name LEAD_CREATED = ''LEAD_CREATED''"
| "activity_name ASSIGNMENT_CHANGED = ''ASSIGNMENT_CHANGED''"
| "activity_name REASSIGNMENT_REQUESTED = ''REASSIGNMENT_REQUESTED''"
| "activity_name REASSIGNMENT_REJECTED = ''REASSIGNMENT_REJECTED''"
| "activity_name LEGACY_IMPORT = ''LEGACY_IMPORT''"
| "activity_name PROVENANCE_ATTACHED = ''PROVENANCE_ATTACHED''"
| "activity_name TAGS_CHANGED = ''TAGS_CHANGED''"

definition activityTypes :: "activity_type list" where
  "activityTypes = [CRM_CALL, EXTERNAL_CALL, PHONE_CALL, PHYSICAL_VISIT, WHATSAPP, MANUAL_EMAIL, MEETING,
     COMMENT, CORRECTION, STATUS_CHANGED, LEAD_CREATED, ASSIGNMENT_CHANGED, REASSIGNMENT_REQUESTED,
     REASSIGNMENT_REJECTED, LEGACY_IMPORT, PROVENANCE_ATTACHED]"

definition as_activity_type :: "string \<Rightarrow> activity_type option" where
  "as_activity_type v = find (\<lambda>x. activity_name x = v) activityTypes"

datatype temperature = UNEVALUATED | COLD | WARM | HOT

datatype temperature_source = HUMAN_QUALIFICATION | HISTORICAL_BASELINE | SourceUnevaluated

datatype acquisition_kind = AcqNew | AcqBaseline

datatype correction_operation = CORRECT | CANCEL

datatype correction_reason = WRONG_CHANNEL | WRONG_RESULT | WRONG_NEXT_ACTION | DUPLICATE_ENTRY | OTHER_CONTROLLED

fun reason_name :: "correction_reason \<Rightarrow> string" where
  "reason_name WRONG_CHANNEL = ''WRONG_CHANNEL''"
| "reason_name WRONG_RESULT = ''WRONG_RESULT''"
| "reason_name WRONG_NEXT_ACTION = ''WRONG_NEXT_ACTION''"
| "reason_name DUPLICATE_ENTRY = ''DUPLICATE_ENTRY''"
| "reason_name OTHER_CONTROLLED = ''OTHER_CONTROLLED''"

definition as_reason :: "string \<Rightarrow> correction_reason option" where
  "as_reason v = find (\<lambda>x. reason_name x = v)
     [WRONG_CHANNEL, WRONG_RESULT, WRONG_NEXT_ACTION, DUPLICATE_ENTRY, OTHER_CONTROLLED]"

fun operation_name :: "correction_operation \<Rightarrow> string" where
  "operation_name CORRECT = ''CORRECT''"
| "operation_name CANCEL = ''CANCEL''"

text \<open>A snapshot without the note: whether there was one is all that is kept of it.\<close>

record snapshot =
  sn_type :: activity_type
  sn_result :: string
  sn_noteRedacted :: bool
  sn_nextActionAt :: "string option"

record correction =
  cx_originalEventId :: string
  cx_operation :: correction_operation
  cx_reasonCode :: correction_reason
  cx_previous :: snapshot
  cx_replacement :: "snapshot option"

record activity =
  ac_id :: string
  ac_leadId :: string
  ac_type :: activity_type
  ac_result :: string
  ac_note :: "string option"
  ac_authorId :: string
  ac_nextActionAt :: "string option"
  ac_correlationId :: string
  ac_occurredAt :: int
  ac_correction :: "correction option"

section \<open>Commercial contact\<close>

text \<open>\<open>/^FOLLOW_UP_(?:SCHEDULED|POSTPONED?|COMPLETED?|CANCEL(?:LED)?|DUE)(?:_|$)/\<close>.\<close>

definition follow_up_marker :: "string \<Rightarrow> bool" where
  "follow_up_marker r = list_ex (\<lambda>w. r = ''FOLLOW_UP_'' @ w \<or> starts_with (''FOLLOW_UP_'' @ w @ ''_'') r)
     [''SCHEDULED'', ''POSTPONE'', ''POSTPONED'', ''COMPLETE'', ''COMPLETED'', ''CANCEL'', ''CANCELLED'', ''DUE'']"

definition isCommercialContact :: "activity_type \<Rightarrow> string \<Rightarrow> string option \<Rightarrow> bool" where
  "isCommercialContact ty res note =
     (let r = js_upper (js_trim res)
      in if follow_up_marker r then False
         else if ty \<in> {WHATSAPP, MANUAL_EMAIL, PHYSICAL_VISIT} then r \<noteq> []
         else if ty = COMMENT then js_trim (opt_text note) \<noteq> []
         else if ty = MEETING then
           r \<in> {''CONNECTED'', ''COMPLETED'', ''INFORMATION_RECORDED''} \<or> starts_with ''INTERVIEW_'' r
         else ty \<in> {CRM_CALL, EXTERNAL_CALL, PHONE_CALL}
           \<and> r \<in> {''CONNECTED'', ''ANSWERED'', ''NO_ANSWER'', ''COMPLETED'', ''FOLLOW_UP_REQUIRED'',
                  ''INFORMATION_RECORDED'', ''CALL_RINGING'', ''CALL_CONNECTED'', ''CALL_ENDED''})"

text \<open>
  The observations of a request body: the object as sent. \<open>positive_qualification\<close> is what
  \<open>positiveQualificationEvidence\<close> accepts: exactly the two flags, both \<open>true\<close>.
\<close>

definition positive_qualification :: "json \<Rightarrow> bool" where
  "positive_qualification q = (case q of
     JObj kvs \<Rightarrow> list_all (\<lambda>kv. fst kv \<in> {''interestConfirmed'', ''eligibilityConfirmed''}) kvs
        \<and> map_of kvs ''interestConfirmed'' = Some (JBool True)
        \<and> map_of kvs ''eligibilityConfirmed'' = Some (JBool True)
   | _ \<Rightarrow> False)"

text \<open>The em dash of the evidence text lies above code 255; its UTF-8 bytes stand for it.\<close>

definition em_dash :: string where
  "em_dash = [CHR 0xE2, CHR 0x80, CHR 0x94]"

definition e_acute :: char where
  "e_acute = CHR 0xE9"

definition evidence_text :: "string \<Rightarrow> string \<Rightarrow> string \<Rightarrow> string" where
  "evidence_text program level reason =
     ''Qualification commerciale v1 '' @ em_dash @ '' int'' @ [e_acute] @ ''r'' @ [CHR 0xEA] @ ''t confirm'' @ [e_acute]
       @ '' ; '' @ [e_acute] @ ''ligibilit'' @ [e_acute] @ '' v'' @ [e_acute] @ ''rifi'' @ [e_acute]
       @ ''e ; formation : '' @ program @ ''; niveau : '' @ level @ ''. '' @ reason"

definition positiveQualificationEvidence :: "string \<Rightarrow> string \<Rightarrow> json \<Rightarrow> json \<Rightarrow> string result" where
  "positiveQualificationEvidence program level q reason =
     (case reason of
        JStr r \<Rightarrow>
          if \<not> positive_qualification q \<or> js_blank program \<or> js_blank level
             \<or> length (js_trim r) < 8 \<or> 1000 < length (js_trim r)
          then Inl (BadRequest ''commercial_positive_qualification_required'')
          else Inr (evidence_text program level (js_trim r))
      | _ \<Rightarrow> Inl (BadRequest ''commercial_positive_qualification_required''))"

section \<open>Treatment\<close>

datatype treatment_state = DATED | UNKNOWN_DATE | NoTreatment

text \<open>
  \<open>Partial<TreatmentSummary>\<close>: the fields an object carries, each absent or present.
  \<open>treatmentSummary\<close> itself always sets the state and the flag.
\<close>

record treatment_summary =
  pt_first :: "int option"
  pt_last :: "int option"
  pt_state :: "treatment_state option"
  pt_undated :: "bool option"

definition correction_of :: "activity list \<Rightarrow> (string, correction) js_map" where
  "correction_of acts = fold (\<lambda>a m. case ac_correction a of None \<Rightarrow> m
     | Some c \<Rightarrow> js_set m (cx_originalEventId c) c) acts []"

text \<open>What an activity is evidence of, once corrected: \<open>None\<close> for a correction or a cancelled one.\<close>

definition evidence :: "(string, correction) js_map \<Rightarrow> activity \<Rightarrow> (activity_type \<times> string \<times> string option) option" where
  "evidence corrections a =
     (if ac_correction a \<noteq> None then None
      else (case js_get corrections (ac_id a) of
              None \<Rightarrow> Some (ac_type a, ac_result a, ac_note a)
            | Some c \<Rightarrow>
                if cx_operation c = CANCEL then None
                else (case cx_replacement c of
                        Some r \<Rightarrow> Some (sn_type r, sn_result r, ac_note a)
                      | None \<Rightarrow> Some (ac_type a, ac_result a, ac_note a))))"

definition treatment_date :: "(string, correction) js_map \<Rightarrow> activity \<Rightarrow> int option" where
  "treatment_date corrections a =
     (case evidence corrections a of
        None \<Rightarrow> None
      | Some (ty, res, note) \<Rightarrow>
          if isCommercialContact ty res note \<or> ty = STATUS_CHANGED then Some (ac_occurredAt a) else None)"

definition treatmentSummary :: "activity list \<Rightarrow> int option list \<Rightarrow> treatment_summary" where
  "treatmentSummary acts history =
     (let dates = sort_by (\<lambda>a b. a - b)
            (List.map_filter (\<lambda>h. h) history @ List.map_filter (treatment_date (correction_of acts)) acts);
          undated = (None \<in> set history)
      in \<lparr>pt_first = (if dates = [] then None else Some (hd dates)),
          pt_last = (if dates = [] then None else Some (last dates)),
          pt_state = Some (if undated then UNKNOWN_DATE else if dates \<noteq> [] then DATED else NoTreatment),
          pt_undated = Some undated\<rparr>)"

definition treatmentDay :: "'a host_scheme \<Rightarrow> int \<Rightarrow> string" where
  "treatmentDay s t = local_day s t"

text \<open>\<open>/^\d{4}-\d{2}-\d{2}$/\<close>.\<close>

definition day_shape :: "string \<Rightarrow> bool" where
  "day_shape v = (case js_split (CHR ''-'') v of
     [y, m, d] \<Rightarrow> all_in is_digit 4 4 y \<and> all_in is_digit 2 2 m \<and> all_in is_digit 2 2 d
   | _ \<Rightarrow> False)"

definition validateTreatmentDay :: "'a host_scheme \<Rightarrow> string option \<Rightarrow> string option result" where
  "validateTreatmentDay s value =
     (if \<not> truthy value then Inr None
      else (let v = opt_text value; midnight = v @ ''T00:00:00Z''
        in if \<not> day_shape v
              \<or> (case date_parse s midnight of None \<Rightarrow> True | Some t \<Rightarrow> take 10 (iso_string s t) \<noteq> v)
           then Inl (BadRequest ''lead_treatment_date_invalid'') else Inr (Some v)))"

record treatment_filters =
  tf_from :: "string option"
  tf_to :: "string option"
  tf_state :: "string option"

fun treatment_state_name :: "treatment_state \<Rightarrow> string" where
  "treatment_state_name DATED = ''DATED''"
| "treatment_state_name UNKNOWN_DATE = ''UNKNOWN_DATE''"
| "treatment_state_name NoTreatment = ''NONE''"

definition normalizeTreatmentFilters :: "'a host_scheme \<Rightarrow> treatment_filters \<Rightarrow> treatment_filters result" where
  "normalizeTreatmentFilters s q =
     (case validateTreatmentDay s (tf_from q) of
        Inl e \<Rightarrow> Inl e
      | Inr from \<Rightarrow>
          (case validateTreatmentDay s (tf_to q) of
             Inl e \<Rightarrow> Inl e
           | Inr to \<Rightarrow>
               if truthy from \<and> truthy to \<and> 0 < string_cmp (opt_text from) (opt_text to)
               then Inl (BadRequest ''lead_treatment_range_invalid'')
               else if truthy (tf_state q) \<and> opt_text (tf_state q) \<notin> {''DATED'', ''UNKNOWN_DATE'', ''NONE''}
               then Inl (BadRequest ''lead_treatment_state_invalid'')
               else Inr \<lparr>tf_from = (if truthy from then from else None), tf_to = (if truthy to then to else None),
                      tf_state = (if truthy (tf_state q) then tf_state q else None)\<rparr>))"

definition matchesTreatmentFilters :: "'a host_scheme \<Rightarrow> treatment_summary \<Rightarrow> treatment_filters \<Rightarrow> bool" where
  "matchesTreatmentFilters s t q =
     ((\<not> truthy (tf_state q) \<or> map_option treatment_state_name (pt_state t) = tf_state q)
      \<and> (\<not> truthy (tf_from q) \<or> (case pt_last t of None \<Rightarrow> False
           | Some l \<Rightarrow> 0 \<le> string_cmp (treatmentDay s l) (opt_text (tf_from q))))
      \<and> (\<not> truthy (tf_to q) \<or> (case pt_last t of None \<Rightarrow> False
           | Some l \<Rightarrow> string_cmp (treatmentDay s l) (opt_text (tf_to q)) \<le> 0)))"

definition isToContact :: "lead_status \<Rightarrow> treatment_summary \<Rightarrow> bool" where
  "isToContact status t =
     (status = PROSPECT \<and> pt_first t = None \<and> pt_last t = None \<and> pt_undated t \<noteq> Some True
      \<and> pt_state t \<noteq> Some DATED \<and> pt_state t \<noteq> Some UNKNOWN_DATE)"

definition isTreatmentInactive :: "lead_status \<Rightarrow> treatment_summary \<Rightarrow> int \<Rightarrow> bool" where
  "isTreatmentInactive status t before =
     (\<not> terminal_status status \<and> pt_state t = Some DATED \<and> pt_undated t = Some False
      \<and> (case pt_last t of None \<Rightarrow> False | Some l \<Rightarrow> l < before))"

text \<open>The boundary comes back as the instant its canonical text denotes.\<close>

definition inactiveTreatmentBoundary :: "'a host_scheme \<Rightarrow> string option \<Rightarrow> int option result" where
  "inactiveTreatmentBoundary s value =
     (case value of
        None \<Rightarrow> Inr None
      | Some v \<Rightarrow>
          (case date_parse s v of
             None \<Rightarrow> Inl (BadRequest ''lead_inactive_treatment_boundary_invalid'')
           | Some t \<Rightarrow> if iso_string s t \<noteq> v then Inl (BadRequest ''lead_inactive_treatment_boundary_invalid'')
                       else Inr (Some t)))"

section \<open>Reception and the 24-hour limit\<close>

datatype reception_origin = SOURCE_CONTRACT | CRM_OBSERVATION | CRM_OBSERVATION_BASELINE

definition FIRST_TREATMENT_LIMIT_HOURS :: int where
  "FIRST_TREATMENT_LIMIT_HOURS = 24"

definition limitMs :: int where
  "limitMs = FIRST_TREATMENT_LIMIT_HOURS * 3600000"

record first_reception =
  fr_batchId :: string
  fr_sourceType :: string
  fr_technicalSystem :: string
  fr_occurredAt :: "string option"

definition receptionSummary ::
  "'a host_scheme \<Rightarrow> int \<Rightarrow> acquisition_kind option \<Rightarrow> first_reception option \<Rightarrow> string option \<Rightarrow> int \<times> reception_origin" where
  "receptionSummary s createdAt kind first creationBatch =
     (let fallback = (createdAt, if kind = Some AcqBaseline then CRM_OBSERVATION_BASELINE else CRM_OBSERVATION)
      in case first of
           None \<Rightarrow> fallback
         | Some f \<Rightarrow>
             (case (if truthy (fr_occurredAt f) then parse_opt s (fr_occurredAt f) else None) of
                None \<Rightarrow> fallback
              | Some src \<Rightarrow>
                  if truthy creationBatch \<and> Some (fr_batchId f) = creationBatch \<and> kind \<noteq> Some AcqBaseline
                     \<and> fr_sourceType f = ''WEB_FORM'' \<and> fr_technicalSystem f = ''FORMINATOR_ZAPIER'' \<and> src \<le> createdAt
                  then (src, SOURCE_CONTRACT) else fallback))"

record first_treatment =
  ft_pending :: bool
  ft_overdue :: bool
  ft_ageMinutes :: "int option"
  ft_deadlineAt :: "int option"

text \<open>The third argument is \<open>Date.parse(lead.receivedAt ?? lead.createdAt)\<close>, \<open>None\<close> for \<open>NaN\<close>.\<close>

definition firstTreatmentState :: "lead_status \<Rightarrow> treatment_summary \<Rightarrow> int option \<Rightarrow> int \<Rightarrow> first_treatment" where
  "firstTreatmentState status t received at =
     (let pending = isToContact status t
      in case received of
           None \<Rightarrow> \<lparr>ft_pending = pending, ft_overdue = False, ft_ageMinutes = None, ft_deadlineAt = None\<rparr>
         | Some r \<Rightarrow>
             (let elapsed = at - r
              in \<lparr>ft_pending = pending, ft_overdue = (pending \<and> limitMs < elapsed),
                  ft_ageMinutes = (if pending then Some (max 0 (elapsed div 60000)) else None),
                  ft_deadlineAt = (if pending then Some (r + limitMs) else None)\<rparr>))"

section \<open>Next action\<close>

datatype next_action_intent =
    Schedule int string
  | Confirm string int int

text \<open>
  \<open>/^\d{4}-\d{2}-\d{2}T\d{2}:\d{2}:\d{2}(?:\.\d{1,3})?(?:Z|[+-]\d{2}:\d{2})$/\<close>: date, time,
  fraction and zone of the text, by position.
\<close>

definition zone_shape :: "string \<Rightarrow> bool" where
  "zone_shape z = (z = ''Z'' \<or> (case z of
     c # r \<Rightarrow> (c = CHR ''+'' \<or> c = CHR ''-'')
       \<and> (case js_split (CHR '':'') r of [h, m] \<Rightarrow> all_in is_digit 2 2 h \<and> all_in is_digit 2 2 m | _ \<Rightarrow> False)
   | [] \<Rightarrow> False))"

definition instant_shape :: "string \<Rightarrow> bool" where
  "instant_shape v =
     (day_shape (take 10 v) \<and> take 1 (drop 10 v) = ''T''
      \<and> (case js_split (CHR '':'') (take 8 (drop 11 v)) of
           [h, m, sec] \<Rightarrow> all_in is_digit 2 2 h \<and> all_in is_digit 2 2 m \<and> all_in is_digit 2 2 sec
         | _ \<Rightarrow> False)
      \<and> (let rest = drop 19 v
         in zone_shape rest
            \<or> (case rest of [] \<Rightarrow> False | c # r \<Rightarrow> c = CHR ''.''
                 \<and> list_ex (\<lambda>k. all_in is_digit 1 3 (take k r) \<and> zone_shape (drop k r)) [1, 2, 3])))"

definition uuid_shape :: "string \<Rightarrow> bool" where
  "uuid_shape v = (map length (js_split (CHR ''-'') v) = [8, 4, 4, 4, 12]
     \<and> list_all (\<lambda>c. is_digit c \<or> between 65 70 c \<or> between 97 102 c \<or> c = CHR ''-'') v)"

definition safe_integer :: "jsnum \<Rightarrow> bool" where
  "safe_integer n = (is_integer n \<and> \<bar>num_value n\<bar> < 2 ^ 53)"

definition field :: "(string \<times> json) list \<Rightarrow> string \<Rightarrow> json" where
  "field kvs k = (case map_of kvs k of None \<Rightarrow> JUndef | Some v \<Rightarrow> v)"

definition intent_invalid :: "'b result" where
  "intent_invalid = Inl (BadRequest ''next_action_intent_invalid'')"

definition parseNextActionIntent :: "'a host_scheme \<Rightarrow> json \<Rightarrow> next_action_intent result" where
  "parseNextActionIntent s v = (case v of
     JObj kvs \<Rightarrow>
       (let scheduling = (field kvs ''mode'' = JStr ''SCHEDULE'');
            allowed = (if scheduling then [''mode'', ''dueAt'', ''reason''] else [''mode'', ''id'', ''expectedVersion'', ''dueAt''])
        in if \<not> list_all (\<lambda>kv. fst kv \<in> set allowed) kvs then intent_invalid
           else (case field kvs ''dueAt'' of
             JStr due \<Rightarrow>
               (if \<not> instant_shape due then intent_invalid
                else (case date_parse s due of
                  None \<Rightarrow> intent_invalid
                | Some dueAt \<Rightarrow>
                    (case date_parse s (take 10 due @ ''T00:00:00Z'') of
                       None \<Rightarrow> Inl (Thrown ''RangeError'')
                     | Some day \<Rightarrow>
                         if take 10 (iso_string s day) \<noteq> take 10 due then intent_invalid
                         else if scheduling then
                           (case field kvs ''reason'' of
                              JStr r \<Rightarrow> if length (js_trim r) < 3 \<or> 1000 < length (js_trim r) then intent_invalid
                                        else Inr (Schedule dueAt (js_trim r))
                            | _ \<Rightarrow> intent_invalid)
                         else if field kvs ''mode'' \<noteq> JStr ''CONFIRM'' then intent_invalid
                         else (case (field kvs ''id'', field kvs ''expectedVersion'') of
                                 (JStr i, JNum n) \<Rightarrow>
                                   if \<not> uuid_shape i \<or> \<not> safe_integer n \<or> num_value n < 1 then intent_invalid
                                   else Inr (Confirm i (num_value n) dueAt)
                               | _ \<Rightarrow> intent_invalid))))
           | _ \<Rightarrow> intent_invalid))
   | _ \<Rightarrow> intent_invalid)"

text \<open>
  \<open>new Date(day).toISOString()\<close> of a text that is no date throws a \<open>RangeError\<close>, which no
  handler turns into a refusal.
\<close>

fun intent_due :: "next_action_intent \<Rightarrow> int" where
  "intent_due (Schedule d r) = d"
| "intent_due (Confirm i v d) = d"

definition assertFutureNextAction :: "next_action_intent \<Rightarrow> int \<Rightarrow> unit result" where
  "assertFutureNextAction intent at =
     (if intent_due intent \<le> at then Inl (BadRequest ''next_action_chronology_invalid'') else Inr ())"

definition needsNextAction :: "lead_status \<Rightarrow> treatment_summary \<Rightarrow> string option \<Rightarrow> bool option \<Rightarrow> bool" where
  "needsNextAction status t nextActionAt hasActive =
     (let treated = (status \<in> {CONTACTED, QUALIFIED} \<or> pt_state t = Some DATED \<or> pt_undated t = Some True);
          active = (case hasActive of Some b \<Rightarrow> b | None \<Rightarrow> truthy nextActionAt)
      in \<not> terminal_status status \<and> treated \<and> \<not> active)"

section \<open>Lemmas and properties\<close>

lemma as_status_name [simp]: "as_status (status_name x) = Some x"
  by (cases x) (simp_all add: as_status_def leadStatuses_def)

lemma as_status_Some: "as_status v = Some x \<Longrightarrow> status_name x = v"
  by (auto simp: as_status_def find_Some_iff)

lemma as_activity_Some:
  assumes "as_activity_type v = Some x"
  shows "activity_name x = v \<and> x \<noteq> TAGS_CHANGED"
proof -
  from assms have "activity_name x = v" "x \<in> set activityTypes"
    unfolding as_activity_type_def by (auto simp: find_Some_iff)
  then show ?thesis by (auto simp: activityTypes_def)
qed

lemma as_activity_name: "x \<noteq> TAGS_CHANGED \<Longrightarrow> as_activity_type (activity_name x) = Some x"
  by (cases x) (simp_all add: as_activity_type_def activityTypes_def)

interpretation by_difference: comparator "\<lambda>a b :: int. a - b"
  by unfold_locales auto

definition treatment_dates :: "activity list \<Rightarrow> int option list \<Rightarrow> int list" where
  "treatment_dates acts history =
     List.map_filter (\<lambda>h. h) history @ List.map_filter (treatment_date (correction_of acts)) acts"

lemma set_map_filter: "set (List.map_filter f xs) = {y. \<exists>x \<in> set xs. f x = Some y}"
  by (induction xs) (auto simp: List.map_filter_simps split: option.splits)

lemma sorted_hd_last:
  fixes xs :: "int list"
  assumes "sorted xs" and "xs \<noteq> []"
  shows "hd xs = Min (set xs)" and "last xs = Max (set xs)"
proof -
  from assms show "hd xs = Min (set xs)"
    by (cases xs) (auto intro!: Min_eqI [symmetric])
  from assms(2) obtain ys y where xs: "xs = ys @ [y]" by (metis rev_exhaust)
  with assms(1) have "\<And>x. x \<in> set xs \<Longrightarrow> x \<le> y" by (auto simp: sorted_append)
  then show "last xs = Max (set xs)" by (intro Max_eqI [symmetric]) (simp_all add: xs)
qed

lemma treatmentSummary_dates:
  "treatmentSummary acts history =
     (let ds = treatment_dates acts history
      in \<lparr>pt_first = (if ds = [] then None else Some (Min (set ds))),
          pt_last = (if ds = [] then None else Some (Max (set ds))),
          pt_state = Some (if None \<in> set history then UNKNOWN_DATE else if ds \<noteq> [] then DATED else NoTreatment),
          pt_undated = Some (None \<in> set history)\<rparr>)"
proof -
  let ?ds = "treatment_dates acts history"
  let ?s = "sort_by (\<lambda>a b. a - b) ?ds"
  have sorted: "sorted ?s"
    using by_difference.sorted_sort_by [of ?ds] by simp
  have empty: "?s = [] \<longleftrightarrow> ?ds = []"
    by (metis length_0_conv length_sort_by)
  have "?ds \<noteq> [] \<Longrightarrow> hd ?s = Min (set ?ds) \<and> last ?s = Max (set ?ds)"
    using sorted_hd_last [OF sorted] empty by simp
  then show ?thesis
    using empty by (simp add: treatmentSummary_def Let_def treatment_dates_def [symmetric])
qed

lemma treatment_dates_original:
  assumes "d \<in> set (treatment_dates acts history)"
  shows "Some d \<in> set history \<or> (\<exists>a \<in> set acts. ac_occurredAt a = d \<and> ac_correction a = None)"
  using assms
proof -
  have "ac_occurredAt a = x \<and> ac_correction a = None" if "treatment_date cs a = Some x" for cs a x
    using that by (auto simp: treatment_date_def evidence_def split: option.splits if_splits)
  with assms show ?thesis by (auto simp: treatment_dates_def set_map_filter)
qed

text \<open>
  The treatment dates of a lead are dates of its history and of its activities that are not
  corrections: the first is their least and the last their greatest, so recording a correction
  never makes a lead look treated later than its latest original exchange.
\<close>

theorem treatment_never_rejuvenated:
  assumes "pt_last (treatmentSummary acts history) = Some d"
  shows "(Some d \<in> set history \<or> (\<exists>a \<in> set acts. ac_occurredAt a = d \<and> ac_correction a = None))
    \<and> (\<exists>f. pt_first (treatmentSummary acts history) = Some f \<and> f \<le> d)
    \<and> pt_state (treatmentSummary acts history) \<noteq> Some NoTreatment"
proof -
  let ?ds = "treatment_dates acts history"
  from assms have ds: "?ds \<noteq> []" and d: "d = Max (set ?ds)"
    by (auto simp: treatmentSummary_dates Let_def split: if_splits)
  then have "d \<in> set ?ds" by simp
  then have "Min (set ?ds) \<le> d" by simp
  with ds treatment_dates_original [OF \<open>d \<in> set ?ds\<close>] show ?thesis
    by (simp add: treatmentSummary_dates Let_def)
qed

definition demo_activity :: "string \<Rightarrow> activity_type \<Rightarrow> string \<Rightarrow> int \<Rightarrow> activity" where
  "demo_activity i ty res t = \<lparr>ac_id = i, ac_leadId = ''l1'', ac_type = ty, ac_result = res, ac_note = None,
     ac_authorId = ''u'', ac_nextActionAt = None, ac_correlationId = ''c'', ac_occurredAt = t, ac_correction = None\<rparr>"

theorem treatment_never_rejuvenated_witness:
  "\<exists>f. pt_first (treatmentSummary [demo_activity ''a'' CRM_CALL ''connected'' 10, demo_activity ''b'' WHATSAPP ''x'' 30] [Some 5]) = Some f
     \<and> f \<le> 30"
proof -
  have "pt_last (treatmentSummary [demo_activity ''a'' CRM_CALL ''connected'' 10, demo_activity ''b'' WHATSAPP ''x'' 30] [Some 5]) = Some 30"
    by code_simp
  from treatment_never_rejuvenated [OF this] show ?thesis by blast
qed

text \<open>
  The first-treatment alarm: it rings exactly for a prospect without any known treatment
  whose reception is strictly more than 24 hours back, and it then keeps ringing until
  something is recorded - any dated exchange or undated history silences it for good.
\<close>

theorem first_treatment_alarm:
  "(ft_overdue (firstTreatmentState status (treatmentSummary acts history) (Some received) at) \<longleftrightarrow>
      status = PROSPECT \<and> treatment_dates acts history = [] \<and> None \<notin> set history
      \<and> received + 24 * 3600 * 1000 < at)
   \<and> (ft_overdue (firstTreatmentState status (treatmentSummary acts history) (Some received) at) \<longrightarrow>
      at \<le> later \<longrightarrow> ft_overdue (firstTreatmentState status (treatmentSummary acts history) (Some received) later)
        \<and> (\<exists>deadline. ft_deadlineAt (firstTreatmentState status (treatmentSummary acts history) (Some received) at) = Some deadline
             \<and> deadline < at))"
  by (auto simp: firstTreatmentState_def isToContact_def treatmentSummary_dates Let_def limitMs_def
      FIRST_TREATMENT_LIMIT_HOURS_def)

theorem first_treatment_alarm_witness:
  "ft_overdue (firstTreatmentState PROSPECT (treatmentSummary [] []) (Some 0) 86400001)
     \<and> \<not> ft_overdue (firstTreatmentState PROSPECT (treatmentSummary [] []) (Some 0) 86400000)"
  using first_treatment_alarm [of PROSPECT "[]" "[]" 0 86400001 0] first_treatment_alarm [of PROSPECT "[]" "[]" 0 86400000 0]
  by (simp add: treatment_dates_def List.map_filter_simps)

end
