(* ===== verification/Leads.thy ===== *)
theory Leads
  imports LeadTypes
begin

text \<open>
  \<open>leads/lead.service.ts\<close> without a database: the leads, their activities, the receipts of the
  API actions, and every operation on them. An absent optional service (persistence,
  references) is skipped by the code and by the model.
\<close>

section \<open>State\<close>

record initial_assignment =
  ia_assigned :: bool
  ia_reason :: string
  ia_configurationVersion :: int
  ia_ruleId :: "string option"

record lead =
  ld_id :: string
  ld_leadCode :: string
  ld_firstName :: string
  ld_lastName :: string
  ld_email :: "string option"
  ld_phone :: "string option"
  ld_campus :: string
  ld_campaign :: string
  ld_educationLevel :: string
  ld_program :: string
  ld_source :: string
  ld_status :: lead_status
  ld_assignedToId :: "string option"
  ld_collaboratorIds :: "string list option"
  ld_assignmentMode :: "string option"
  ld_importBatchId :: "string option"
  ld_acquisitionKind :: "acquisition_kind option"
  ld_assignedToLabel :: "string option"
  ld_nextActionAt :: "string option"
  ld_lastActivityAt :: "int option"
  ld_createdAt :: int
  ld_version :: "int option"
  ld_hasActiveNextAction :: "bool option"
  ld_temperature :: "temperature option"
  ld_temperatureLabel :: "string option"
  ld_qualificationVersion :: "int option"
  ld_temperatureSource :: "temperature_source option"
  ld_qualificationReason :: "string option"
  ld_qualificationComment :: "string option"
  ld_qualifiedAt :: "int option"
  ld_qualifiedBy :: "string option"
  ld_initialAssignment :: "initial_assignment option"
  ld_receivedAt :: "int option"
  ld_receptionOrigin :: "reception_origin option"

datatype receipt_result = LeadReceipt lead | ActivityReceipt activity

text \<open>
  A fingerprint is \<open>JSON.stringify({ actorId, input })\<close>: the actor and the fields of the body
  in their order.
\<close>

type_synonym fingerprint = "string \<times> (string \<times> json) list"

record lead_state = notification_state +
  leads :: "(string, lead) js_map"
  activities :: "activity list"
  historicalTreatments :: "(string \<times> int option) list"
  correctionReceipts :: "(string, activity) js_map"
  apiActionReceipts :: "(string, fingerprint \<times> receipt_result) js_map"

section \<open>Creation\<close>

text \<open>
  The fields of a creation body. \<open>ci_otherKeys\<close> are the keys it owns besides them, which
  \<open>strictBody\<close> refuses all and \<open>createLead\<close> refuses when they are derived ones.
\<close>

record create_lead_input =
  ci_firstName :: "string option"
  ci_lastName :: "string option"
  ci_email :: "string option"
  ci_phone :: "string option"
  ci_campus :: "string option"
  ci_campaign :: "string option"
  ci_educationLevel :: "string option"
  ci_program :: "string option"
  ci_source :: "string option"
  ci_nextActionAt :: "string option"
  ci_otherKeys :: "string list"

definition derived_fields :: "string list" where
  "derived_fields = [''createdAt'', ''acquisitionKind'', ''receivedAt'', ''receptionOrigin'', ''firstTreatmentAt'',
     ''lastTreatmentAt'', ''treatmentState'', ''hasUndatedHistory'', ''firstTreatmentPending'',
     ''firstTreatmentOverdue'', ''firstTreatmentAgeMinutes'', ''firstTreatmentDeadlineAt'']"

definition create_email_ok :: "string \<Rightarrow> bool" where
  "create_email_ok e =
     (let at = index_of (CHR ''@'') e; dot = last_index_of (CHR ''.'') e
      in \<not> (CHR '' '' \<in> set e \<or> at < 1 \<or> at \<noteq> last_index_of (CHR ''@'') e \<or> dot < at + 2
            \<or> dot = int (length e) - 1))"

definition registerLocalLead :: "lead \<Rightarrow> 'a lead_state_scheme \<Rightarrow> lead \<times> 'a lead_state_scheme" where
  "registerLocalLead l s = (l, s\<lparr>leads := js_set (leads s) (ld_id l) l\<rparr>)"

text \<open>A lead with the required fields alone.\<close>

definition blank_lead :: "string \<Rightarrow> string \<Rightarrow> int \<Rightarrow> lead" where
  "blank_lead i lc at = \<lparr>ld_id = i, ld_leadCode = lc, ld_firstName = [], ld_lastName = [], ld_email = None,
     ld_phone = None, ld_campus = [], ld_campaign = [], ld_educationLevel = [], ld_program = [], ld_source = [],
     ld_status = PROSPECT, ld_assignedToId = None, ld_collaboratorIds = None, ld_assignmentMode = None,
     ld_importBatchId = None, ld_acquisitionKind = None, ld_assignedToLabel = None, ld_nextActionAt = None,
     ld_lastActivityAt = None, ld_createdAt = at, ld_version = None, ld_hasActiveNextAction = None,
     ld_temperature = None, ld_temperatureLabel = None, ld_qualificationVersion = None,
     ld_temperatureSource = None, ld_qualificationReason = None, ld_qualificationComment = None,
     ld_qualifiedAt = None, ld_qualifiedBy = None, ld_initialAssignment = None, ld_receivedAt = None,
     ld_receptionOrigin = None\<rparr>"

definition new_lead_code :: "'a host_scheme \<Rightarrow> string" where
  "new_lead_code s = ''LD-'' @ show_int (utc_year s (now s)) @ ''-'' @ js_upper (take 8 (fresh_uuid s))"

definition same_contact :: "string option \<Rightarrow> string option \<Rightarrow> lead \<Rightarrow> bool" where
  "same_contact email phone l =
     ((truthy email \<and> ld_email l = email) \<or> (truthy phone \<and> ld_phone l = phone))"

definition add_to_timeline :: "activity \<Rightarrow> 'a lead_state_scheme \<Rightarrow> 'a lead_state_scheme" where
  "add_to_timeline a s = s\<lparr>activities := activities s @ [a]\<rparr>"

definition createLead ::
  "create_lead_input \<Rightarrow> principal \<Rightarrow> string \<Rightarrow> 'a lead_state_scheme
     \<Rightarrow> (lead \<times> string list) result \<times> 'a lead_state_scheme" where
  "createLead i p cid s =
     (if \<not> is_operational p then (Inl (Forbidden ''role_forbidden''), s)
      else if list_ex (\<lambda>k. k \<in> set (ci_otherKeys i)) derived_fields
      then (Inl (BadRequest ''lead_server_field_forbidden''), s)
      else if list_ex (\<lambda>v. js_blank (opt_text v)) [ci_firstName i, ci_lastName i, ci_campus i, ci_campaign i,
                ci_educationLevel i, ci_program i, ci_source i]
      then (Inl (BadRequest ''lead_required_field_missing''), s)
      else (let email = map_option (\<lambda>e. js_lower (js_trim e)) (ci_email i);
                phone = map_option phone_digits (ci_phone i)
        in if truthy email \<and> \<not> create_email_ok (opt_text email) then (Inl (BadRequest ''lead_email_invalid''), s)
           else if truthy phone \<and> \<not> phone_ok (opt_text phone) then (Inl (BadRequest ''lead_phone_invalid''), s)
           else (let dups = sort_by (locale_cmp s) (map ld_leadCode (filter (same_contact email phone) (js_values (leads s))));
                     lc = new_lead_code s; s1 = drawn s;
                     (l, s2) = registerLocalLead (blank_lead (fresh_uuid s1) lc (now s)
                       \<lparr>ld_acquisitionKind := Some AcqNew,
                        ld_firstName := js_trim (opt_text (ci_firstName i)), ld_lastName := js_trim (opt_text (ci_lastName i)),
                        ld_campus := js_trim (opt_text (ci_campus i)), ld_campaign := js_trim (opt_text (ci_campaign i)),
                        ld_educationLevel := js_trim (opt_text (ci_educationLevel i)),
                        ld_program := js_trim (opt_text (ci_program i)), ld_source := js_trim (opt_text (ci_source i)),
                        ld_email := (if truthy email then email else ci_email i),
                        ld_phone := (if truthy phone then phone else ci_phone i),
                        ld_nextActionAt := ci_nextActionAt i\<rparr>) (drawn s1);
                     a = \<lparr>ac_id = fresh_uuid s2, ac_leadId = ld_id l, ac_type = LEAD_CREATED, ac_result = ''PROSPECT'',
                          ac_note = None, ac_authorId = userId p, ac_nextActionAt = None, ac_correlationId = cid,
                          ac_occurredAt = ld_createdAt l, ac_correction = None\<rparr>;
                     s3 = add_to_timeline a (drawn s2);
                     l' = l\<lparr>ld_lastActivityAt := Some (ac_occurredAt a)\<rparr>;
                     s4 = s3\<lparr>leads := js_set (leads s3) (ld_id l) l'\<rparr>
                 in (Inr (l', dups),
                     audit_by p cid ''LEAD_CREATED'' JUndef
                       (JObj [(''leadId'', JStr (ld_id l)), (''leadCode'', JStr lc),
                              (''duplicateCandidateCount'', JNat (length dups))])
                       SUCCESS (''lead-created:'' @ ld_id l) s4))))"

definition createLeadForApi ::
  "create_lead_input \<Rightarrow> string option \<Rightarrow> principal \<Rightarrow> string \<Rightarrow> 'a lead_state_scheme
     \<Rightarrow> (lead \<times> string list) result \<times> 'a lead_state_scheme" where
  "createLeadForApi i key p cid s =
     (if ci_otherKeys i \<noteq> [] then (Inl (BadRequest ''reference_field_forbidden''), s)
      else if (case key of None \<Rightarrow> False | Some k \<Rightarrow> \<not> all_in word_colon 8 128 (js_trim k))
      then (Inl (BadRequest ''lead_create_idempotency_invalid''), s)
      else createLead i p cid s)"

section \<open>Update\<close>

text \<open>
  The string fields of an update body in their order; \<open>expectedVersion\<close> and the key apart.
\<close>

record update_lead_input =
  ul_fields :: "(string \<times> string) list"
  ul_expectedVersion :: "jsnum option"
  ul_idempotencyKey :: string

definition update_fields :: "string list" where
  "update_fields = [''firstName'', ''lastName'', ''campus'', ''campaign'', ''educationLevel'', ''program'', ''source'']"

definition mayPreserveBaselineUnknown :: "lead \<Rightarrow> string \<Rightarrow> bool" where
  "mayPreserveBaselineUnknown l f =
     (ld_acquisitionKind l = Some AcqBaseline
      \<and> (if f = ''program'' then js_blank (ld_program l) else js_blank (ld_educationLevel l)))"

definition set_lead_field :: "string \<Rightarrow> string \<Rightarrow> lead \<Rightarrow> lead" where
  "set_lead_field f v l =
     (if f = ''firstName'' then l\<lparr>ld_firstName := v\<rparr> else if f = ''lastName'' then l\<lparr>ld_lastName := v\<rparr>
      else if f = ''campus'' then l\<lparr>ld_campus := v\<rparr> else if f = ''campaign'' then l\<lparr>ld_campaign := v\<rparr>
      else if f = ''educationLevel'' then l\<lparr>ld_educationLevel := v\<rparr>
      else if f = ''program'' then l\<lparr>ld_program := v\<rparr> else if f = ''source'' then l\<lparr>ld_source := v\<rparr> else l)"

definition validLeadEmail :: "string \<Rightarrow> bool" where
  "validLeadEmail e =
     (let at = index_of (CHR ''@'') e; dot = index_of_at (CHR ''.'') e (at + 2)
      in 0 < at \<and> at = last_index_of (CHR ''@'') e \<and> at + 1 < dot \<and> dot < int (length e) - 1
         \<and> \<not> list_ex is_space e)"

definition normalizeLeadContacts :: "lead \<Rightarrow> (string \<times> string) list \<Rightarrow> lead result" where
  "normalizeLeadContacts l kvs =
     (let step_phone = (\<lambda>l'. case map_of kvs ''phone'' of
            None \<Rightarrow> Inr l'
          | Some raw \<Rightarrow>
              (let ph = phone_digits raw
               in if raw \<noteq> [] \<and> \<not> phone_ok ph then Inl (BadRequest ''lead_phone_invalid'')
                  else Inr (l'\<lparr>ld_phone := (if js_blank raw then None else Some ph)\<rparr>)))
      in case map_of kvs ''email'' of
           None \<Rightarrow> step_phone l
         | Some raw \<Rightarrow>
             (let e = js_lower (js_trim raw)
              in if e \<noteq> [] \<and> \<not> validLeadEmail e then Inl (BadRequest ''lead_email_invalid'')
                 else step_phone (l\<lparr>ld_email := (if e = [] then None else Some e)\<rparr>)))"

definition normalizeLeadUpdate :: "lead \<Rightarrow> (string \<times> string) list \<Rightarrow> lead result" where
  "normalizeLeadUpdate l kvs =
     (if list_ex (\<lambda>f. case map_of kvs f of None \<Rightarrow> False
          | Some v \<Rightarrow> js_blank v \<and> \<not> (f \<in> {''program'', ''educationLevel''} \<and> mayPreserveBaselineUnknown l f)) update_fields
      then Inl (BadRequest ''lead_required_field_missing'')
      else normalizeLeadContacts
        (fold (\<lambda>f l'. case map_of kvs f of None \<Rightarrow> l' | Some v \<Rightarrow> set_lead_field f (js_trim v) l') update_fields l) kvs)"

definition findIdentityMatches ::
  "string option \<Rightarrow> string option \<Rightarrow> 'a lead_state_scheme \<Rightarrow> string option \<times> string option" where
  "findIdentityMatches email phone s =
     (let e = map_option (\<lambda>x. js_lower (js_trim x)) email; ph = map_option phone_digits phone
      in (if truthy e then map_option ld_id (find (\<lambda>l. ld_email l = e) (js_values (leads s))) else None,
          if truthy ph then map_option ld_id (find (\<lambda>l. ld_phone l = ph) (js_values (leads s))) else None))"

definition updateLeadForApi ::
  "string \<Rightarrow> update_lead_input \<Rightarrow> principal \<Rightarrow> string \<Rightarrow> 'a lead_state_scheme \<Rightarrow> lead result \<times> 'a lead_state_scheme" where
  "updateLeadForApi i inp p cid s =
     (if \<not> list_all (\<lambda>kv. fst kv \<in> set (update_fields @ [''email'', ''phone''])) (ul_fields inp)
      then (Inl (BadRequest ''reference_field_forbidden''), s)
      else if \<not> is_operational p then (Inl (Forbidden ''role_forbidden''), s)
      else (case js_get (leads s) i of
              None \<Rightarrow> (Inl (NotFound ''lead_not_found''), s)
            | Some l \<Rightarrow>
                if \<not> reaches_campus p (ld_campus l) then (Inl (Forbidden ''lead_campus_forbidden''), s)
                else if \<not> is_manager p \<and> ld_assignedToId l \<noteq> Some (userId p)
                   \<and> (case ld_collaboratorIds l of None \<Rightarrow> True | Some cs \<Rightarrow> userId p \<notin> set cs)
                then (Inl (Forbidden ''lead_collaboration_required''), s)
                else if (case (ul_expectedVersion inp, ld_version l) of (Some e, Some v) \<Rightarrow> e \<noteq> JInt v | _ \<Rightarrow> False)
                then (Inl (Conflict ''lead_version_conflict''), s)
                else (case normalizeLeadUpdate l (ul_fields inp) of
                        Inl e \<Rightarrow> (Inl e, s)
                      | Inr l' \<Rightarrow>
                          (let (em, pm) = findIdentityMatches (ld_email l') (ld_phone l') s
                           in if (truthy em \<and> em \<noteq> Some i) \<or> (truthy pm \<and> pm \<noteq> Some i)
                              then (Inl (Conflict ''lead_contact_collision''), s)
                              else (Inr l', audit_by p cid ''LEAD_UPDATED'' JUndef
                                  (JObj [(''version'', case ld_version l' of None \<Rightarrow> JUndef | Some v \<Rightarrow> JNum (JInt v)),
                                         (''fields'', JArr (map (\<lambda>kv. JStr (fst kv)) (ul_fields inp)))])
                                  SUCCESS (''audit:lead:update:'' @ i @ '':'' @ ul_idempotencyKey inp)
                                  (s\<lparr>leads := js_set (leads s) i l'\<rparr>))))))"

section \<open>Activities and status\<close>

record activity_input =
  in_type :: string
  in_result :: string
  in_note :: "string option"
  in_nextActionAt :: "string option"
  in_clearNextAction :: bool

text \<open>The reason and the observations of a status body, as sent.\<close>

record status_input =
  si_status :: string
  si_reason :: json
  si_qualification :: json

text \<open>
  The note of a status change: the evidence of a positive decision, or the trimmed reason, with
  the refusals in the order of the code.
\<close>

definition status_note :: "lead \<Rightarrow> lead_status \<Rightarrow> status_input \<Rightarrow> string option result" where
  "status_note l st i =
     (if (case si_reason i of JUndef \<Rightarrow> False | JStr _ \<Rightarrow> False | _ \<Rightarrow> True)
      then Inl (BadRequest ''lead_status_invalid'')
      else if st = QUALIFIED \<or> (st = ENROLLED \<and> ld_status l \<noteq> QUALIFIED)
      then (case positiveQualificationEvidence (ld_program l) (ld_educationLevel l) (si_qualification i) (si_reason i) of
              Inl e \<Rightarrow> Inl e | Inr t \<Rightarrow> Inr (Some t))
      else Inr (case si_reason i of JStr r \<Rightarrow> Some (js_trim r) | _ \<Rightarrow> None))"

definition changeStatus ::
  "string \<Rightarrow> status_input \<Rightarrow> principal \<Rightarrow> string \<Rightarrow> 'a lead_state_scheme \<Rightarrow> lead result \<times> 'a lead_state_scheme" where
  "changeStatus i inp p cid s =
     (if \<not> is_operational p then (Inl (Forbidden ''role_forbidden''), s)
      else (case js_get (leads s) i of
        None \<Rightarrow> (Inl (NotFound ''lead_not_found''), s)
      | Some l \<Rightarrow>
          (case as_status (si_status inp) of
             None \<Rightarrow> (Inl (BadRequest ''lead_status_invalid''), s)
           | Some st \<Rightarrow>
               if st \<notin> set (allowedTransitions (ld_status l))
               then (Inl (BadRequest ''lead_status_transition_forbidden''), s)
               else if terminal_status st \<and> \<not> is_manager p
               then (Inl (Forbidden ''lead_closure_approval_required''), s)
               else (case status_note l st inp of
                       Inl e \<Rightarrow> (Inl e, s)
                     | Inr note \<Rightarrow>
                         if terminal_status st \<and> \<not> truthy note
                         then (Inl (BadRequest ''lead_closure_reason_required''), s)
                         else (let l' = l\<lparr>ld_status := st, ld_lastActivityAt := Some (now s),
                                     ld_nextActionAt := (if terminal_status st then None else ld_nextActionAt l)\<rparr>;
                                   s1 = s\<lparr>leads := js_set (leads s) i l'\<rparr>;
                                   a = \<lparr>ac_id = fresh_uuid s1, ac_leadId = i, ac_type = STATUS_CHANGED,
                                        ac_result = status_name (ld_status l) @ ''->'' @ status_name st,
                                        ac_note = (if truthy note then note else None), ac_authorId = userId p,
                                        ac_nextActionAt = None, ac_correlationId = cid, ac_occurredAt = now s,
                                        ac_correction = None\<rparr>
                               in (Inr l', audit_by p cid ''LEAD_STATUS_CHANGED''
                                     (JObj [(''leadId'', JStr i), (''status'', JStr (status_name (ld_status l)))])
                                     (JObj [(''leadId'', JStr i), (''status'', JStr (status_name st))])
                                     SUCCESS (''lead-status:'' @ ac_id a) (add_to_timeline a (drawn s1))))))))"

definition automatic_contact :: status_input where
  "automatic_contact = \<lparr>si_status = ''CONTACTED'',
     si_reason = JStr (''Premier traitement commercial enregistr'' @ [e_acute]), si_qualification = JUndef\<rparr>"

definition parse_next_action :: "'a host_scheme \<Rightarrow> string option \<Rightarrow> int option result" where
  "parse_next_action s v =
     (if \<not> truthy v then Inr None
      else (case parse_opt s v of None \<Rightarrow> Inl (BadRequest ''next_action_invalid'') | Some t \<Rightarrow> Inr (Some t)))"

definition addActivity ::
  "string \<Rightarrow> activity_input \<Rightarrow> principal \<Rightarrow> string \<Rightarrow> 'a lead_state_scheme \<Rightarrow> activity result \<times> 'a lead_state_scheme" where
  "addActivity i inp p cid s =
     (if \<not> is_operational p then (Inl (Forbidden ''role_forbidden''), s)
      else (case js_get (leads s) i of
        None \<Rightarrow> (Inl (NotFound ''lead_not_found''), s)
      | Some l \<Rightarrow>
          (case as_activity_type (in_type inp) of
             None \<Rightarrow> (Inl (BadRequest ''activity_invalid''), s)
           | Some ty \<Rightarrow>
               if js_blank (in_result inp) then (Inl (BadRequest ''activity_invalid''), s)
               else (case parse_next_action s (in_nextActionAt inp) of
                       Inl e \<Rightarrow> (Inl e, s)
                     | Inr na \<Rightarrow>
                         if (case na of None \<Rightarrow> False | Some t \<Rightarrow> t \<le> now s)
                         then (Inl (BadRequest ''next_action_chronology_invalid''), s)
                         else (let a = \<lparr>ac_id = fresh_uuid s, ac_leadId = i, ac_type = ty,
                                     ac_result = js_trim (in_result inp),
                                     ac_note = (if js_blank (opt_text (in_note inp)) then None
                                                else Some (js_trim (opt_text (in_note inp)))),
                                     ac_authorId = userId p, ac_nextActionAt = map_option (iso_string s) na,
                                     ac_correlationId = cid, ac_occurredAt = now s, ac_correction = None\<rparr>;
                                   s1 = add_to_timeline a (drawn s);
                                   l' = l\<lparr>ld_lastActivityAt := Some (now s),
                                     ld_nextActionAt := (if in_clearNextAction inp then None
                                       else case ac_nextActionAt a of None \<Rightarrow> ld_nextActionAt l | Some t \<Rightarrow> Some t)\<rparr>;
                                   s2 = s1\<lparr>leads := js_set (leads s1) i l'\<rparr>;
                                   s3 = audit_by p cid ''LEAD_ACTIVITY_ADDED'' JUndef
                                     (JObj [(''leadId'', JStr i), (''activityId'', JStr (ac_id a)),
                                            (''type'', JStr (activity_name ty))])
                                     SUCCESS (''lead-activity:'' @ ac_id a) s2
                               in if ld_status l = PROSPECT \<and> isCommercialContact ty (ac_result a) (ac_note a)
                                  then call (changeStatus i automatic_contact p cid s3) (\<lambda>_ s4. (Inr a, s4))
                                  else (Inr a, s3))))))"

section \<open>The API around them\<close>

text \<open>\<open>assertActionKey\<close>: absent, or a string of 8 to 128 word characters.\<close>

definition assertActionKey :: "json \<Rightarrow> unit result" where
  "assertActionKey k = (case k of
     JUndef \<Rightarrow> Inr ()
   | JStr t \<Rightarrow> if all_in word_colon 8 128 t then Inr () else Inl (BadRequest ''lead_action_idempotency_invalid'')
   | _ \<Rightarrow> Inl (BadRequest ''lead_action_idempotency_invalid''))"

definition strictBody :: "string list \<Rightarrow> (string \<times> json) list \<Rightarrow> unit result" where
  "strictBody keys kvs = (if list_all (\<lambda>kv. fst kv \<in> set keys) kvs then Inr ()
     else Inl (BadRequest ''reference_field_forbidden''))"

definition text_of :: "json \<Rightarrow> string option" where
  "text_of v = (case v of JStr t \<Rightarrow> Some t | _ \<Rightarrow> None)"

definition optional_text :: "json \<Rightarrow> nat \<Rightarrow> bool" where
  "optional_text v n = (case v of JUndef \<Rightarrow> True | JStr t \<Rightarrow> length t \<le> n | _ \<Rightarrow> False)"

definition key_or_correlation :: "json \<Rightarrow> string \<Rightarrow> string" where
  "key_or_correlation k cid = (case text_of k of None \<Rightarrow> cid | Some t \<Rightarrow> t)"

definition api_activity_types :: "activity_type list" where
  "api_activity_types = [CRM_CALL, EXTERNAL_CALL, PHONE_CALL, PHYSICAL_VISIT, WHATSAPP, MANUAL_EMAIL, MEETING, COMMENT]"

text \<open>
  The receipt of an action: replayed when the fingerprint is the recorded one, refused when it
  is another.
\<close>

definition with_receipt ::
  "string \<Rightarrow> fingerprint \<Rightarrow> (receipt_result \<Rightarrow> 'b) \<Rightarrow> ('b \<Rightarrow> receipt_result)
     \<Rightarrow> ('a lead_state_scheme \<Rightarrow> 'b result \<times> 'a lead_state_scheme)
     \<Rightarrow> 'a lead_state_scheme \<Rightarrow> 'b result \<times> 'a lead_state_scheme" where
  "with_receipt key fp unpack pack run s =
     (case js_get (apiActionReceipts s) key of
        Some (fp', r) \<Rightarrow> if fp' \<noteq> fp then (Inl (Conflict ''lead_idempotency_conflict''), s) else (Inr (unpack r), s)
      | None \<Rightarrow> call (run s) (\<lambda>r s1. (Inr r, s1\<lparr>apiActionReceipts := js_set (apiActionReceipts s1) key (fp, pack r)\<rparr>)))"

text \<open>
  The casts of a replayed result: the keys of activities and of status changes have different
  prefixes, so the branches for the other kind are never reached.
\<close>

fun receipt_activity :: "receipt_result \<Rightarrow> activity" where
  "receipt_activity (ActivityReceipt a) = a"
| "receipt_activity (LeadReceipt l) = \<lparr>ac_id = ld_id l, ac_leadId = ld_id l, ac_type = LEAD_CREATED, ac_result = [],
     ac_note = None, ac_authorId = [], ac_nextActionAt = None, ac_correlationId = [], ac_occurredAt = 0,
     ac_correction = None\<rparr>"

fun receipt_lead :: "receipt_result \<Rightarrow> lead" where
  "receipt_lead (LeadReceipt l) = l"
| "receipt_lead (ActivityReceipt a) = blank_lead (ac_leadId a) [] 0"

definition addActivityForApi ::
  "string \<Rightarrow> (string \<times> json) list \<Rightarrow> principal \<Rightarrow> string \<Rightarrow> 'a lead_state_scheme \<Rightarrow> activity result \<times> 'a lead_state_scheme" where
  "addActivityForApi i body p cid s =
     (case strictBody [''type'', ''result'', ''note'', ''nextActionAt'', ''idempotencyKey''] body of
        Inl e \<Rightarrow> (Inl e, s)
      | Inr _ \<Rightarrow>
          if field body ''type'' \<notin> set (map (\<lambda>x. JStr (activity_name x)) api_activity_types)
             \<or> (case field body ''result'' of JStr r \<Rightarrow> 1000 < length r | _ \<Rightarrow> True)
             \<or> \<not> optional_text (field body ''note'') 10000
             \<or> (case field body ''nextActionAt'' of JUndef \<Rightarrow> False | JStr _ \<Rightarrow> False | _ \<Rightarrow> True)
          then (Inl (BadRequest ''activity_invalid''), s)
          else (case assertActionKey (field body ''idempotencyKey'') of
                  Inl e \<Rightarrow> (Inl e, s)
                | Inr _ \<Rightarrow>
                    with_receipt (''lead:activity:'' @ i @ '':'' @ key_or_correlation (field body ''idempotencyKey'') cid)
                      (userId p, body) receipt_activity ActivityReceipt
                      (addActivity i \<lparr>in_type = opt_text (text_of (field body ''type'')),
                         in_result = opt_text (text_of (field body ''result'')), in_note = text_of (field body ''note''),
                         in_nextActionAt = text_of (field body ''nextActionAt''), in_clearNextAction = False\<rparr> p cid) s))"

definition changeStatusForApi ::
  "string \<Rightarrow> (string \<times> json) list \<Rightarrow> principal \<Rightarrow> string \<Rightarrow> 'a lead_state_scheme \<Rightarrow> lead result \<times> 'a lead_state_scheme" where
  "changeStatusForApi i body p cid s =
     (case strictBody [''status'', ''reason'', ''qualification'', ''idempotencyKey''] body of
        Inl e \<Rightarrow> (Inl e, s)
      | Inr _ \<Rightarrow>
          (case assertActionKey (field body ''idempotencyKey'') of
             Inl e \<Rightarrow> (Inl e, s)
           | Inr _ \<Rightarrow>
               if field body ''status'' = JStr ''ENROLLED'' \<or> field body ''status'' = JStr ''CLOSED_LOST''
               then (Inl (Forbidden ''lead_closure_approval_required''), s)
               else with_receipt (''lead:status:'' @ i @ '':'' @ key_or_correlation (field body ''idempotencyKey'') cid)
                      (userId p, body) receipt_lead LeadReceipt
                      (changeStatus i \<lparr>si_status = opt_text (text_of (field body ''status'')),
                         si_reason = field body ''reason'', si_qualification = field body ''qualification''\<rparr> p cid) s))"

section \<open>Corrections\<close>

record correction_input =
  cin_idempotencyKey :: string
  cin_expectedCorrectionCount :: jsnum
  cin_operation :: string
  cin_reasonCode :: string
  cin_replacement :: "(string \<times> string \<times> string option) option"

text \<open>\<open>/^[A-Z][A-Z0-9_]{1,63}$/\<close>.\<close>

definition code_shape :: "string \<Rightarrow> bool" where
  "code_shape r = (case r of [] \<Rightarrow> False
     | c # cs \<Rightarrow> is_upper c \<and> all_in (\<lambda>x. is_upper x \<or> is_digit x \<or> x = CHR ''_'') 1 63 cs)"

definition expurgatedSnapshot :: "activity \<Rightarrow> snapshot" where
  "expurgatedSnapshot a = \<lparr>sn_type = ac_type a,
     sn_result = (if code_shape (ac_result a) then ac_result a else ''[redacted]''),
     sn_noteRedacted = truthy (ac_note a),
     sn_nextActionAt = (if truthy (ac_nextActionAt a) then ac_nextActionAt a else None)\<rparr>"

definition validateCorrectionReplacement ::
  "'a host_scheme \<Rightarrow> string \<times> string \<times> string option \<Rightarrow> snapshot result" where
  "validateCorrectionReplacement s r =
     (case r of (ty, res, next_at) \<Rightarrow>
        (case as_activity_type ty of
           None \<Rightarrow> Inl (BadRequest ''interaction_correction_value_invalid'')
         | Some x \<Rightarrow>
             if x = CORRECTION \<or> \<not> code_shape res then Inl (BadRequest ''interaction_correction_value_invalid'')
             else if \<not> truthy next_at
             then Inr \<lparr>sn_type = x, sn_result = res, sn_noteRedacted = False, sn_nextActionAt = None\<rparr>
             else (case parse_opt s next_at of
                     None \<Rightarrow> Inl (BadRequest ''interaction_correction_next_action_invalid'')
                   | Some t \<Rightarrow> Inr \<lparr>sn_type = x, sn_result = res, sn_noteRedacted = False,
                                 sn_nextActionAt = Some (iso_string s t)\<rparr>)))"

definition corrects :: "string \<Rightarrow> activity \<Rightarrow> bool" where
  "corrects i a = (case ac_correction a of None \<Rightarrow> False | Some c \<Rightarrow> cx_originalEventId c = i)"

definition cancels :: "activity \<Rightarrow> bool" where
  "cancels a = (case ac_correction a of None \<Rightarrow> False | Some c \<Rightarrow> cx_operation c = CANCEL)"

definition correctActivity ::
  "string \<Rightarrow> string \<Rightarrow> correction_input \<Rightarrow> principal \<Rightarrow> string \<Rightarrow> 'a lead_state_scheme
     \<Rightarrow> activity result \<times> 'a lead_state_scheme" where
  "correctActivity i ev inp p cid s =
     (if \<not> is_manager p then (Inl (Forbidden ''interaction_correction_forbidden''), s)
      else (case js_get (leads s) i of
        None \<Rightarrow> (Inl (NotFound ''lead_not_found''), s)
      | Some l \<Rightarrow>
          if \<not> reaches_campus p (ld_campus l) then (Inl (NotFound ''lead_not_found''), s)
          else if \<not> all_in word_dash 8 128 (cin_idempotencyKey inp)
          then (Inl (BadRequest ''interaction_correction_idempotency_invalid''), s)
          else (case js_get (correctionReceipts s) (cin_idempotencyKey inp) of
            Some r \<Rightarrow> if \<not> corrects ev r \<or> ac_leadId r \<noteq> i
                      then (Inl (Conflict ''interaction_correction_idempotency_conflict''), s) else (Inr r, s)
          | None \<Rightarrow>
              (case find (\<lambda>a. ac_id a = ev \<and> ac_leadId a = i) (activities s) of
                 None \<Rightarrow> (Inl (NotFound ''interaction_not_found''), s)
               | Some orig \<Rightarrow>
                   if ac_type orig = CORRECTION then (Inl (NotFound ''interaction_not_found''), s)
                   else (let existing = filter (corrects ev) (activities s)
                     in if cin_expectedCorrectionCount inp \<noteq> JInt (int (length existing)) \<or> list_ex cancels existing
                        then (Inl (Conflict ''interaction_correction_concurrent''), s)
                        else if existing \<noteq> [] then (Inl (Conflict ''interaction_already_corrected''), s)
                        else (case as_reason (cin_reasonCode inp) of
                          None \<Rightarrow> (Inl (BadRequest ''interaction_correction_reason_invalid''), s)
                        | Some reason \<Rightarrow>
                            if cin_operation inp \<noteq> ''CORRECT'' \<and> cin_operation inp \<noteq> ''CANCEL''
                            then (Inl (BadRequest ''interaction_correction_operation_invalid''), s)
                            else if (cin_operation inp = ''CORRECT'') \<noteq> (cin_replacement inp \<noteq> None)
                            then (Inl (BadRequest ''interaction_correction_replacement_invalid''), s)
                            else (case (case cin_replacement inp of None \<Rightarrow> Inr None
                                    | Some r \<Rightarrow> map_sum id Some (validateCorrectionReplacement s r)) of
                              Inl e \<Rightarrow> (Inl e, s)
                            | Inr repl \<Rightarrow>
                                (let previous = expurgatedSnapshot orig;
                                     opn = (if cin_operation inp = ''CORRECT'' then CORRECT else CANCEL);
                                     c = \<lparr>cx_originalEventId = ev, cx_operation = opn, cx_reasonCode = reason,
                                          cx_previous = previous, cx_replacement = repl\<rparr>;
                                     a = \<lparr>ac_id = fresh_uuid s, ac_leadId = i, ac_type = CORRECTION,
                                          ac_result = cin_operation inp, ac_note = None, ac_authorId = userId p,
                                          ac_nextActionAt = None, ac_correlationId = cid, ac_occurredAt = now s,
                                          ac_correction = Some c\<rparr>;
                                     s1 = add_to_timeline a (drawn s);
                                     s2 = s1\<lparr>correctionReceipts := js_set (correctionReceipts s1) (cin_idempotencyKey inp) a\<rparr>
                                 in (Inr a, audit_by p cid ''LEAD_ACTIVITY_COMPENSATED''
                                       (JObj [(''leadId'', JStr i), (''activityId'', JStr ev),
                                              (''type'', JStr (activity_name (sn_type previous)))])
                                       (JObj [(''leadId'', JStr i), (''correctionId'', JStr (ac_id a)),
                                              (''operation'', JStr (cin_operation inp)),
                                              (''reasonCode'', JStr (cin_reasonCode inp)),
                                              (''replacementType'', case repl of None \<Rightarrow> JUndef
                                                 | Some r \<Rightarrow> JStr (activity_name (sn_type r)))])
                                       SUCCESS (''lead-activity-correction:'' @ cin_idempotencyKey inp) s2)))))))))"

section \<open>Assignment, follow-up and collaboration of a lead\<close>

definition assignLocalLead ::
  "string \<Rightarrow> string \<Rightarrow> principal \<Rightarrow> string \<Rightarrow> string \<Rightarrow> string \<Rightarrow> 'a lead_state_scheme \<Rightarrow> lead result \<times> 'a lead_state_scheme" where
  "assignLocalLead i target p cid reason mode s =
     (if \<not> is_manager p then (Inl (Forbidden ''assignment_role_forbidden''), s)
      else (case js_get (leads s) i of
        None \<Rightarrow> (Inl (NotFound ''lead_not_found''), s)
      | Some l \<Rightarrow>
          if truthy (ld_assignedToId l) then (Inl (Conflict ''lead_already_assigned''), s)
          else (let l' = l\<lparr>ld_assignedToLabel := None, ld_assignedToId := Some target,
                      ld_assignmentMode := Some mode, ld_lastActivityAt := Some (now s)\<rparr>;
                    s1 = s\<lparr>leads := js_set (leads s) i l'\<rparr>;
                    a = \<lparr>ac_id = fresh_uuid s1, ac_leadId = i, ac_type = ASSIGNMENT_CHANGED, ac_result = target,
                         ac_note = Some reason, ac_authorId = userId p, ac_nextActionAt = None,
                         ac_correlationId = cid, ac_occurredAt = now s, ac_correction = None\<rparr>
                in (Inr l', audit_by p cid ''LEAD_ASSIGNED''
                      (JObj [(''leadId'', JStr i), (''assignedToId'', JId (ld_assignedToId l))])
                      (JObj [(''leadId'', JStr i), (''assignedToId'', JStr target), (''reason'', JStr reason)])
                      SUCCESS (''lead-assigned:'' @ i @ '':'' @ cid) (add_to_timeline a (drawn s1))))))"

definition reassignLocalLead ::
  "string \<Rightarrow> string \<Rightarrow> string \<Rightarrow> principal \<Rightarrow> string \<Rightarrow> string \<Rightarrow> 'a lead_state_scheme \<Rightarrow> lead result \<times> 'a lead_state_scheme" where
  "reassignLocalLead i owner target p cid reason s =
     (if \<not> is_manager p then (Inl (Forbidden ''reassignment_approval_role_required''), s)
      else (case js_get (leads s) i of
        None \<Rightarrow> (Inl (NotFound ''lead_not_found''), s)
      | Some l \<Rightarrow>
          if ld_assignedToId l \<noteq> Some owner then (Inl (Conflict ''reassignment_owner_changed''), s)
          else if target = owner then (Inl (BadRequest ''reassignment_target_unchanged''), s)
          else (let l' = l\<lparr>ld_assignedToLabel := None, ld_assignedToId := Some target,
                      ld_assignmentMode := Some ''REASSIGNMENT'', ld_lastActivityAt := Some (now s)\<rparr>;
                    s1 = s\<lparr>leads := js_set (leads s) i l'\<rparr>;
                    a = \<lparr>ac_id = fresh_uuid s1, ac_leadId = i, ac_type = ASSIGNMENT_CHANGED,
                         ac_result = owner @ ''->'' @ target, ac_note = Some reason, ac_authorId = userId p,
                         ac_nextActionAt = None, ac_correlationId = cid, ac_occurredAt = now s, ac_correction = None\<rparr>
                in (Inr l', audit_by p cid ''LEAD_REASSIGNED''
                      (JObj [(''leadId'', JStr i), (''assignedToId'', JStr owner)])
                      (JObj [(''leadId'', JStr i), (''assignedToId'', JStr target), (''reason'', JStr reason)])
                      SUCCESS (''lead-reassigned:'' @ i @ '':'' @ cid) (add_to_timeline a (drawn s1))))))"

definition recordFollowUp ::
  "string \<Rightarrow> string option \<Rightarrow> principal \<Rightarrow> string \<Rightarrow> string \<Rightarrow> 'a lead_state_scheme \<Rightarrow> lead result \<times> 'a lead_state_scheme" where
  "recordFollowUp i nextAt p cid res s =
     (case js_get (leads s) i of
        None \<Rightarrow> (Inl (NotFound ''lead_not_found''), s)
      | Some l \<Rightarrow>
          (let na = (if truthy nextAt then nextAt else None);
               l' = l\<lparr>ld_nextActionAt := na, ld_lastActivityAt := Some (now s)\<rparr>;
               s1 = s\<lparr>leads := js_set (leads s) i l'\<rparr>;
               a = \<lparr>ac_id = fresh_uuid s1, ac_leadId = i, ac_type = COMMENT, ac_result = res, ac_note = None,
                    ac_authorId = userId p, ac_nextActionAt = na, ac_correlationId = cid,
                    ac_occurredAt = now s, ac_correction = None\<rparr>
           in (Inr l', add_to_timeline a (drawn s1))))"

datatype collaboration_action = AddCollaborator | RemoveCollaborator

fun action_name :: "collaboration_action \<Rightarrow> string" where
  "action_name AddCollaborator = ''ADD''"
| "action_name RemoveCollaborator = ''REMOVE''"

definition applyCollaborator ::
  "string \<Rightarrow> string \<Rightarrow> collaboration_action \<Rightarrow> string \<Rightarrow> principal \<Rightarrow> string \<Rightarrow> 'a lead_state_scheme
     \<Rightarrow> lead result \<times> 'a lead_state_scheme" where
  "applyCollaborator i target act role_text p cid s =
     (if \<not> is_manager p then (Inl (Forbidden ''collaboration_approval_forbidden''), s)
      else (case js_get (leads s) i of
        None \<Rightarrow> (Inl (NotFound ''lead_not_found''), s)
      | Some l \<Rightarrow>
          if ld_assignedToId l = Some target then (Inl (BadRequest ''primary_assignee_protected''), s)
          else (let cs = js_uniq (case ld_collaboratorIds l of None \<Rightarrow> [] | Some xs \<Rightarrow> xs); present = (target \<in> set cs)
            in if (act = AddCollaborator \<and> present) \<or> (act = RemoveCollaborator \<and> \<not> present)
               then (Inl (Conflict ''collaboration_state_conflict''), s)
               else (let cs' = (if act = AddCollaborator then cs @ [target] else filter (\<lambda>x. x \<noteq> target) cs);
                         l' = l\<lparr>ld_collaboratorIds := Some (sort_by (locale_cmp s) cs'), ld_lastActivityAt := Some (now s)\<rparr>;
                         s1 = s\<lparr>leads := js_set (leads s) i l'\<rparr>;
                         a = \<lparr>ac_id = fresh_uuid s1, ac_leadId = i, ac_type = COMMENT,
                              ac_result = ''COLLABORATOR_'' @ action_name act @ '':'' @ role_text, ac_note = None,
                              ac_authorId = userId p, ac_nextActionAt = None, ac_correlationId = cid,
                              ac_occurredAt = now s, ac_correction = None\<rparr>
                     in (Inr l', add_to_timeline a (drawn s1))))))"

definition appendIngestionActivity ::
  "string \<Rightarrow> activity_type \<Rightarrow> string \<Rightarrow> string option \<Rightarrow> principal \<Rightarrow> string \<Rightarrow> 'a lead_state_scheme
     \<Rightarrow> activity result \<times> 'a lead_state_scheme" where
  "appendIngestionActivity i ty res occurred p cid s =
     (case js_get (leads s) i of
        None \<Rightarrow> (Inl (NotFound ''lead_not_found''), s)
      | Some l \<Rightarrow>
          (case (if truthy occurred then parse_opt s occurred else Some (now s)) of
             None \<Rightarrow> (Inl (BadRequest ''ingestion_activity_date_invalid''), s)
           | Some at \<Rightarrow>
               (let a = \<lparr>ac_id = fresh_uuid s, ac_leadId = i, ac_type = ty, ac_result = res, ac_note = None,
                      ac_authorId = userId p, ac_nextActionAt = None, ac_correlationId = cid, ac_occurredAt = at,
                      ac_correction = None\<rparr>;
                    s1 = add_to_timeline a (drawn s);
                    s2 = s1\<lparr>leads := js_set (leads s1) i (l\<lparr>ld_lastActivityAt := Some at\<rparr>)\<rparr>
                in (Inr a, audit_by p cid (activity_name ty) JUndef
                      (JObj [(''leadId'', JStr i), (''activityId'', JStr (ac_id a)), (''historical'', JBool True),
                             (''type'', JStr (activity_name ty))])
                      SUCCESS (''ingestion-activity:'' @ ac_id a) s2))))"

definition timeline :: "string \<Rightarrow> principal \<Rightarrow> 'a lead_state_scheme \<Rightarrow> activity list result" where
  "timeline i p s =
     (if \<not> js_has (leads s) i then Inl (NotFound ''lead_not_found'')
      else if \<not> has_role p [ADMISSIONS, MANAGER, ADMIN, SUPER_ADMIN, AUDITOR] then Inl (Forbidden ''role_forbidden'')
      else Inr (sort_by (\<lambda>a b. cmp_or (cmp_int (ac_occurredAt b) (ac_occurredAt a)) (locale_cmp s (ac_id b) (ac_id a)))
                  (filter (\<lambda>a. ac_leadId a = i) (activities s))))"

end
