(* ===== verification/LeadViews.thy ===== *)
theory LeadViews
  imports Leads
begin

text \<open>
  The reading half of \<open>leads/lead.service.ts\<close>: what a reader sees of a lead, the filtered,
  sorted and paged listing, the identity lookups and the snapshots for assignment and
  reporting.
\<close>

section \<open>The visible lead\<close>

text \<open>
  A lead with the fields computed when it is read. \<open>lv_lead\<close> holds the fields of the record
  itself, with the defaults and the masking of \<open>visibleLead\<close>.
\<close>

record lead_view =
  lv_lead :: lead
  lv_treatment :: treatment_summary
  lv_receivedAt :: int
  lv_origin :: "reception_origin option"
  lv_first :: first_treatment

definition temperature_label :: "temperature \<Rightarrow> string" where
  "temperature_label t = (case t of
     UNEVALUATED \<Rightarrow> ''Non '' @ [e_acute] @ ''valu'' @ [e_acute] | COLD \<Rightarrow> ''Froid''
   | WARM \<Rightarrow> ''Ti'' @ [CHR 0xE8] @ ''de'' | HOT \<Rightarrow> ''Chaud'')"

fun temperature_name :: "temperature \<Rightarrow> string" where
  "temperature_name UNEVALUATED = ''UNEVALUATED''"
| "temperature_name COLD = ''COLD''"
| "temperature_name WARM = ''WARM''"
| "temperature_name HOT = ''HOT''"

definition lead_history :: "lead \<Rightarrow> 'a lead_state_scheme \<Rightarrow> int option list" where
  "lead_history l s =
     map snd (filter (\<lambda>n. fst n = ld_id l) (historicalTreatments s))
       @ (if ld_temperatureSource l = Some HUMAN_QUALIFICATION \<and> ld_qualifiedAt l \<noteq> None then [ld_qualifiedAt l] else [])"

definition lead_treatment :: "lead \<Rightarrow> 'a lead_state_scheme \<Rightarrow> treatment_summary" where
  "lead_treatment l s = treatmentSummary (filter (\<lambda>a. ac_leadId a = ld_id l) (activities s)) (lead_history l s)"

definition withTreatment :: "lead \<Rightarrow> int \<Rightarrow> 'a lead_state_scheme \<Rightarrow> lead_view" where
  "withTreatment l at s =
     (let t = lead_treatment l s;
          (received, origin) = (case ld_receivedAt l of
             Some r \<Rightarrow> (r, ld_receptionOrigin l)
           | None \<Rightarrow> (case receptionSummary s (ld_createdAt l) (ld_acquisitionKind l) None None of (r, x) \<Rightarrow> (r, Some x)))
      in \<lparr>lv_lead = l, lv_treatment = t, lv_receivedAt = received, lv_origin = origin,
          lv_first = firstTreatmentState (ld_status l) t (Some received) at\<rparr>)"

definition visibleLead :: "lead \<Rightarrow> principal \<Rightarrow> 'a lead_state_scheme \<Rightarrow> lead_view" where
  "visibleLead l p s =
     (let v = withTreatment l (now s) s;
          temp = (case ld_temperature l of None \<Rightarrow> UNEVALUATED | Some t \<Rightarrow> t);
          shown = l\<lparr>ld_temperature := Some temp,
            ld_temperatureLabel := Some (case ld_temperatureLabel l of None \<Rightarrow> temperature_label temp | Some x \<Rightarrow> x),
            ld_qualificationVersion := Some (case ld_qualificationVersion l of None \<Rightarrow> 0 | Some n \<Rightarrow> n)\<rparr>
      in if AUDITOR \<notin> set (p_roles p) \<or> has_role p [ADMIN, SUPER_ADMIN, ADMISSIONS, MANAGER] then v\<lparr>lv_lead := shown\<rparr>
         else v\<lparr>lv_lead := shown\<lparr>ld_email := Some ''***'', ld_phone := Some ''***''\<rparr>\<rparr>)"

definition can_read :: "principal \<Rightarrow> bool" where
  "can_read p = has_role p [ADMISSIONS, MANAGER, ADMIN, SUPER_ADMIN, AUDITOR]"

definition getLead :: "string \<Rightarrow> principal \<Rightarrow> string \<Rightarrow> 'a lead_state_scheme \<Rightarrow> lead_view result \<times> 'a lead_state_scheme" where
  "getLead i p cid s =
     (if \<not> can_read p then (Inl (Forbidden ''role_forbidden''), s)
      else (case js_get (leads s) i of
              None \<Rightarrow> (Inl (NotFound ''lead_not_found''), s)
            | Some l \<Rightarrow>
                (let s1 = audit_by p cid ''LEAD_VIEWED'' JUndef (JObj [(''leadId'', JStr i)]) SUCCESS
                            (''lead-viewed:'' @ fresh_uuid s) (drawn s)
                 in (Inr (visibleLead l p s1), s1))))"

definition findLocalLead :: "string \<Rightarrow> 'a lead_state_scheme \<Rightarrow> lead option" where
  "findLocalLead i s = js_get (leads s) i"

definition findLocalLeadByCode :: "string \<Rightarrow> 'a lead_state_scheme \<Rightarrow> lead option" where
  "findLocalLeadByCode c s = find (\<lambda>l. js_upper (ld_leadCode l) = js_upper (js_trim c)) (js_values (leads s))"

datatype matched_by = ByEmail | ByPhone

definition findIdentityCandidates ::
  "string option \<Rightarrow> string option \<Rightarrow> 'a lead_state_scheme \<Rightarrow> (string \<times> string \<times> matched_by list) list" where
  "findIdentityCandidates email phone s =
     (let e = map_option (\<lambda>x. js_lower (js_trim x)) email; ph = map_option phone_digits phone;
          hits = (\<lambda>l. (if truthy e \<and> ld_email l = e then [ByEmail] else [])
                    @ (if truthy ph \<and> ld_phone l = ph then [ByPhone] else []))
      in sort_by (\<lambda>a b. locale_cmp s (fst (snd a)) (fst (snd b)))
           (concat (map (\<lambda>l. if hits l = [] then [] else [(ld_id l, ld_leadCode l, hits l)]) (js_values (leads s)))))"

section \<open>The listing\<close>

record lead_query =
  lq_page :: jsnum
  lq_pageSize :: jsnum
  lq_search :: "string option"
  lq_assignedToId :: "string option"
  lq_collaboratorId :: "string option"
  lq_adviserId :: "string option"
  lq_status :: "string option"
  lq_source :: "string option"
  lq_channel :: "string option"
  lq_program :: "string option"
  lq_campaign :: "string option"
  lq_campus :: "string option"
  lq_createdFrom :: "string option"
  lq_createdTo :: "string option"
  lq_createdBefore :: "string option"
  lq_assignmentMode :: "string option"
  lq_importBatchId :: "string option"
  lq_view :: "string option"
  lq_sortBy :: "string option"
  lq_sortDirection :: "string option"
  lq_savedView :: "string option"
  lq_temperature :: "string option"
  lq_treatmentFrom :: "string option"
  lq_treatmentTo :: "string option"
  lq_treatmentState :: "string option"
  lq_inactiveTreatmentBefore :: "string option"
  lq_portfolioState :: "string option"
  lq_acquisitionKind :: "string option"

text \<open>\<open>Object.values(query).filter(defined).length - 2\<close>: the two page numbers are always given.\<close>

definition filter_count :: "lead_query \<Rightarrow> nat" where
  "filter_count q = length (filter (\<lambda>v. v \<noteq> None) [lq_search q, lq_assignedToId q, lq_collaboratorId q, lq_adviserId q,
     lq_status q, lq_source q, lq_channel q, lq_program q, lq_campaign q, lq_campus q, lq_createdFrom q,
     lq_createdTo q, lq_createdBefore q, lq_assignmentMode q, lq_importBatchId q, lq_view q, lq_sortBy q,
     lq_sortDirection q, lq_savedView q, lq_temperature q, lq_treatmentFrom q, lq_treatmentTo q,
     lq_treatmentState q, lq_inactiveTreatmentBefore q, lq_portfolioState q, lq_acquisitionKind q])"

record valid_query =
  vq_page :: int
  vq_pageSize :: int
  vq_status :: "string option"
  vq_temperature :: "string option"
  vq_sortBy :: string
  vq_sortDirection :: string
  vq_createdFrom :: "int option"
  vq_createdTo :: "int option"
  vq_createdBefore :: "int option"
  vq_search :: "string option"
  vq_view :: string
  vq_savedView :: "string option"
  vq_channel :: "string option"
  vq_acquisitionKind :: "string option"
  vq_treatment :: treatment_filters
  vq_inactiveTreatmentBefore :: "int option"
  vq_portfolioState :: "string option"

definition assertListPagination :: "jsnum \<Rightarrow> jsnum \<Rightarrow> unit result" where
  "assertListPagination page psz =
     (if is_integer page \<and> 1 \<le> num_value page \<and> is_integer psz \<and> 1 \<le> num_value psz \<and> num_value psz \<le> 100
      then Inr () else Inl (BadRequest ''lead_pagination_invalid''))"

definition normalizedOptionalChoice :: "string option \<Rightarrow> string list \<Rightarrow> string \<Rightarrow> string option result" where
  "normalizedOptionalChoice v allowed err =
     (let n = map_option js_upper v
      in if truthy n \<and> opt_text n \<notin> set allowed then Inl (BadRequest err) else Inr n)"

definition requiredChoice :: "string option \<Rightarrow> string \<Rightarrow> string list \<Rightarrow> string \<Rightarrow> string result" where
  "requiredChoice v fallback allowed err =
     (let r = (case v of None \<Rightarrow> fallback | Some x \<Rightarrow> x)
      in if r \<notin> set allowed then Inl (BadRequest err) else Inr r)"

definition parseBoundary :: "'a host_scheme \<Rightarrow> string option \<Rightarrow> string \<Rightarrow> int option result" where
  "parseBoundary s v err =
     (if \<not> truthy v then Inr None
      else (case parse_opt s v of None \<Rightarrow> Inl (BadRequest err) | Some t \<Rightarrow> Inr (Some t)))"

definition opt_less :: "('a \<Rightarrow> 'a \<Rightarrow> bool) \<Rightarrow> 'a option \<Rightarrow> 'a option \<Rightarrow> bool" where
  "opt_less rel a b = (case (a, b) of (Some x, Some y) \<Rightarrow> rel x y | _ \<Rightarrow> False)"

definition bind_result :: "'a result \<Rightarrow> ('a \<Rightarrow> 'b result) \<Rightarrow> 'b result" where
  "bind_result r k = (case r of Inl e \<Rightarrow> Inl e | Inr v \<Rightarrow> k v)"

definition require :: "bool \<Rightarrow> http_error \<Rightarrow> 'b result \<Rightarrow> 'b result" where
  "require ok e k = (if ok then k else Inl e)"

definition lead_views :: "string list" where
  "lead_views = [''ALL'', ''MINE'', ''NEW_RECEIVED'', ''TO_CONTACT'', ''FIRST_TREATMENT_OVERDUE'', ''FOLLOW_UP'',
     ''UNASSIGNED'', ''NO_ACTIVITY'', ''CLOSED'', ''NEXT_ACTION_MISSING'']"

definition leadSavedViews :: "string list" where
  "leadSavedViews = [''FORMINATOR_ZAPIER'', ''YNOV_MA_LEGACY'', ''YNOV_COM'', ''PHONE_CALLS'', ''PHYSICAL_VISITS'',
     ''JOBINTECH'', ''LEGACY_RELAUNCH'', ''UNCLASSIFIED_SOURCES'', ''INCOMPLETE'', ''IMPORT_ERRORS'']"

definition validateListQuery :: "'a host_scheme \<Rightarrow> lead_query \<Rightarrow> valid_query result" where
  "validateListQuery s q =
     bind_result (assertListPagination (lq_page q) (lq_pageSize q)) (\<lambda>_.
     bind_result (normalizedOptionalChoice (lq_status q) (map status_name leadStatuses) ''lead_status_filter_invalid'') (\<lambda>status.
     bind_result (normalizedOptionalChoice (lq_temperature q) (map temperature_name [UNEVALUATED, COLD, WARM, HOT])
       ''lead_temperature_filter_invalid'') (\<lambda>temp.
     bind_result (requiredChoice (lq_sortBy q) ''createdAt'' [''createdAt'', ''leadCode'', ''lastName'', ''status'',
       ''lastTreatmentAt''] ''lead_sort_invalid'') (\<lambda>sortBy.
     bind_result (requiredChoice (lq_sortDirection q) ''desc'' [''asc'', ''desc''] ''lead_sort_direction_invalid'') (\<lambda>sortDirection.
     bind_result (parseBoundary s (lq_createdFrom q) ''lead_created_from_invalid'') (\<lambda>createdFrom.
     bind_result (parseBoundary s (lq_createdTo q) ''lead_created_to_invalid'') (\<lambda>createdTo.
     bind_result (parseBoundary s (lq_createdBefore q) ''lead_created_before_invalid'') (\<lambda>createdBefore.
     require (\<not> opt_less (>) createdFrom createdTo) (BadRequest ''lead_date_range_invalid'') (
     require (\<not> opt_less (\<ge>) createdFrom createdBefore) (BadRequest ''lead_date_range_invalid'') (
     bind_result (requiredChoice (map_option js_upper (lq_view q)) ''ALL'' lead_views ''lead_view_invalid'') (\<lambda>view.
     bind_result (normalizedOptionalChoice (lq_acquisitionKind q) [''NEW'', ''BASELINE''] ''lead_acquisition_kind_invalid'') (\<lambda>kind.
     bind_result (validateTreatmentDay s (lq_treatmentFrom q)) (\<lambda>treatmentFrom.
     bind_result (validateTreatmentDay s (lq_treatmentTo q)) (\<lambda>treatmentTo.
     require (\<not> opt_less (\<lambda>a b. 0 < string_cmp a b) treatmentFrom treatmentTo) (BadRequest ''lead_date_range_invalid'') (
     bind_result (normalizedOptionalChoice (lq_treatmentState q) [''DATED'', ''UNKNOWN_DATE'', ''NONE'']
       ''lead_treatment_state_invalid'') (\<lambda>treatmentState.
     bind_result (inactiveTreatmentBoundary s (lq_inactiveTreatmentBefore q)) (\<lambda>inactive.
     require (lq_portfolioState q \<in> {None, Some ''OPEN'', Some ''CLOSED''}) (BadRequest ''lead_portfolio_state_invalid'') (
     bind_result (normalizedOptionalChoice (lq_savedView q) leadSavedViews ''lead_saved_view_invalid'') (\<lambda>savedView.
     bind_result (normalizedOptionalChoice (lq_channel q) [''DIGITAL'', ''PHONE'', ''IN_PERSON'', ''PARTNER'', ''OTHER'']
       ''lead_channel_filter_invalid'') (\<lambda>channel.
     Inr \<lparr>vq_page = num_value (lq_page q), vq_pageSize = num_value (lq_pageSize q), vq_status = status,
       vq_temperature = temp, vq_sortBy = (if view = ''NEW_RECEIVED'' then ''createdAt'' else sortBy),
       vq_sortDirection = (if view = ''NEW_RECEIVED'' then ''desc'' else sortDirection),
       vq_createdFrom = createdFrom, vq_createdTo = createdTo, vq_createdBefore = createdBefore,
       vq_search = map_option (\<lambda>x. js_lower (js_trim x)) (lq_search q), vq_view = view, vq_savedView = savedView,
       vq_channel = channel, vq_acquisitionKind = kind,
       vq_treatment = \<lparr>tf_from = treatmentFrom, tf_to = treatmentTo, tf_state = treatmentState\<rparr>,
       vq_inactiveTreatmentBefore = inactive, vq_portfolioState = lq_portfolioState q\<rparr>))))))))))))))))))))"

text \<open>
  \<open>pilotageReads\<close> is a set of principals during a reporting read; membership is an argument.
\<close>

definition hasPilotageReportingScope :: "bool \<Rightarrow> principal \<Rightarrow> bool" where
  "hasPilotageReportingScope pilotage p = (pilotage \<and> permissionLeadIds p \<noteq> None)"

text \<open>A listed lead: the record, its treatment and its first-treatment indicators.\<close>

record listed_lead =
  ll_lead :: lead
  ll_treatment :: treatment_summary
  ll_first :: first_treatment

definition listed :: "int \<Rightarrow> 'a lead_state_scheme \<Rightarrow> lead \<Rightarrow> listed_lead" where
  "listed at s l =
     (let t = lead_treatment l s
      in \<lparr>ll_lead = l, ll_treatment = t,
          ll_first = firstTreatmentState (ld_status l) t
            (Some (case ld_receivedAt l of None \<Rightarrow> ld_createdAt l | Some r \<Rightarrow> r)) at\<rparr>)"

definition follows :: "lead \<Rightarrow> principal \<Rightarrow> bool" where
  "follows l p = (ld_assignedToId l = Some (userId p)
     \<or> (case ld_collaboratorIds l of None \<Rightarrow> False | Some cs \<Rightarrow> userId p \<in> set cs))"

definition to_contact_view :: "bool \<Rightarrow> listed_lead \<Rightarrow> principal \<Rightarrow> bool" where
  "to_contact_view pilotage x p =
     (let elevated = (hasPilotageReportingScope pilotage p \<or> is_manager p)
      in isToContact (ld_status (ll_lead x)) (ll_treatment x) \<and> (elevated \<or> follows (ll_lead x) p))"

definition matchesView :: "'a host_scheme \<Rightarrow> bool \<Rightarrow> listed_lead \<Rightarrow> string \<Rightarrow> principal \<Rightarrow> int \<Rightarrow> bool" where
  "matchesView s pilotage x view p at =
     (let l = ll_lead x
      in if view = ''NEW_RECEIVED'' then ld_acquisitionKind l = Some AcqNew
         else if view = ''FIRST_TREATMENT_OVERDUE'' then
           ft_overdue (firstTreatmentState (ld_status l) (ll_treatment x)
             (Some (case ld_receivedAt l of None \<Rightarrow> ld_createdAt l | Some r \<Rightarrow> r)) at) \<and> to_contact_view pilotage x p
         else if view = ''NEXT_ACTION_MISSING'' then
           needsNextAction (ld_status l) (ll_treatment x) (ld_nextActionAt l) (ld_hasActiveNextAction l)
         else if view = ''TO_CONTACT'' then to_contact_view pilotage x p
         else if view = ''MINE'' then follows l p
         else if view = ''FOLLOW_UP'' then
           truthy (ld_nextActionAt l) \<and> string_cmp (opt_text (ld_nextActionAt l)) (iso_string s at) \<le> 0
             \<and> \<not> terminal_status (ld_status l)
         else if view = ''UNASSIGNED'' then \<not> truthy (ld_assignedToId l)
         else if view = ''NO_ACTIVITY'' then ld_lastActivityAt l = None
         else if view = ''CLOSED'' then terminal_status (ld_status l)
         else True)"

definition matchesSavedView :: "lead \<Rightarrow> string option \<Rightarrow> bool" where
  "matchesSavedView l sv =
     (if \<not> truthy sv then True
      else (let v = opt_text sv
        in if v = ''IMPORT_ERRORS'' then False
           else if v = ''INCOMPLETE'' then
             list_ex (\<lambda>x. js_blank x \<or> js_includes (''compl'' @ [e_acute] @ ''ter'') (js_lower x))
               [ld_campus l, ld_campaign l, ld_educationLevel l, ld_program l]
           else if v = ''UNCLASSIFIED_SOURCES'' then js_trim (ld_source l) = [] \<or> ld_source l = ''UNKNOWN''
           else if v = ''PHONE_CALLS'' then ld_source l \<in> {''PHONE'', ''PHONE_CALL''}
           else if v = ''PHYSICAL_VISITS'' then ld_source l \<in> {''IN_PERSON'', ''PHYSICAL_VISIT''}
           else if v = ''YNOV_MA_LEGACY'' then ld_source l = ''LEGACY_IMPORT''
           else ld_source l = v))"

definition sourceChannel :: "string \<Rightarrow> string" where
  "sourceChannel src =
     (if src \<in> {''PHONE'', ''PHONE_CALL''} then ''PHONE''
      else if src \<in> {''IN_PERSON'', ''PHYSICAL_VISIT'', ''EVENT''} then ''IN_PERSON''
      else if src \<in> {''DIGITAL'', ''SOCIAL_MEDIA'', ''WEB_FORM'', ''WEBSITE'', ''FORMINATOR_ZAPIER'', ''YNOV_COM''} then ''DIGITAL''
      else if src \<in> {''PARTNER'', ''JOBINTECH''} then ''PARTNER''
      else ''OTHER'')"

definition kind_name :: "acquisition_kind \<Rightarrow> string" where
  "kind_name k = (case k of AcqNew \<Rightarrow> ''NEW'' | AcqBaseline \<Rightarrow> ''BASELINE'')"

definition same_text :: "string option \<Rightarrow> string option \<Rightarrow> bool" where
  "same_text v expected = (\<not> truthy expected \<or> map_option js_lower v = Some (js_lower (js_trim (opt_text expected))))"

definition in_reach :: "principal \<Rightarrow> lead \<Rightarrow> bool" where
  "in_reach p l = (reaches_campus p (ld_campus l)
     \<and> (case permissionLeadIds p of None \<Rightarrow> True | Some ids \<Rightarrow> ld_id l \<in> set ids))"

definition matchesListFilters ::
  "'a host_scheme \<Rightarrow> bool \<Rightarrow> listed_lead \<Rightarrow> lead_query \<Rightarrow> valid_query \<Rightarrow> principal \<Rightarrow> int \<Rightarrow> bool" where
  "matchesListFilters s pilotage x q v p at =
     (let l = ll_lead x;
          searchable = map js_lower (ld_leadCode l # ld_firstName l # ld_lastName l # opt_text (ld_email l) # [opt_text (ld_phone l)])
      in in_reach p l
         \<and> (\<not> truthy (vq_search v) \<or> list_ex (js_includes (opt_text (vq_search v))) (filter (\<lambda>t. t \<noteq> []) searchable))
         \<and> matchesView s pilotage x (vq_view v) p at
         \<and> matchesSavedView l (vq_savedView v)
         \<and> (\<not> truthy (lq_assignedToId q) \<or> ld_assignedToId l = lq_assignedToId q)
         \<and> (\<not> truthy (lq_collaboratorId q) \<or> (case ld_collaboratorIds l of None \<Rightarrow> False | Some cs \<Rightarrow> opt_text (lq_collaboratorId q) \<in> set cs))
         \<and> (\<not> truthy (lq_adviserId q) \<or> ld_assignedToId l = lq_adviserId q
              \<or> (case ld_collaboratorIds l of None \<Rightarrow> False | Some cs \<Rightarrow> opt_text (lq_adviserId q) \<in> set cs))
         \<and> (\<not> truthy (vq_status v) \<or> Some (status_name (ld_status l)) = vq_status v)
         \<and> (\<not> truthy (vq_acquisitionKind v) \<or> map_option kind_name (ld_acquisitionKind l) = vq_acquisitionKind v)
         \<and> (\<not> truthy (vq_temperature v)
              \<or> Some (temperature_name (case ld_temperature l of None \<Rightarrow> UNEVALUATED | Some t \<Rightarrow> t)) = vq_temperature v)
         \<and> same_text (Some (ld_source l)) (lq_source q)
         \<and> (\<not> truthy (vq_channel v) \<or> Some (sourceChannel (ld_source l)) = vq_channel v)
         \<and> same_text (Some (ld_program l)) (lq_program q)
         \<and> same_text (Some (ld_campaign l)) (lq_campaign q)
         \<and> same_text (Some (ld_campus l)) (lq_campus q)
         \<and> same_text (ld_assignmentMode l) (lq_assignmentMode q)
         \<and> same_text (ld_importBatchId l) (lq_importBatchId q)
         \<and> (case vq_createdFrom v of None \<Rightarrow> True | Some t \<Rightarrow> t \<le> ld_createdAt l)
         \<and> (case vq_createdTo v of None \<Rightarrow> True | Some t \<Rightarrow> ld_createdAt l \<le> t)
         \<and> (case vq_createdBefore v of None \<Rightarrow> True | Some t \<Rightarrow> ld_createdAt l < t)
         \<and> matchesTreatmentFilters s (ll_treatment x) (vq_treatment v)
         \<and> (case vq_inactiveTreatmentBefore v of None \<Rightarrow> True | Some t \<Rightarrow> isTreatmentInactive (ld_status l) (ll_treatment x) t)
         \<and> (\<not> truthy (vq_portfolioState v) \<or> terminal_status (ld_status l) = (vq_portfolioState v = Some ''CLOSED'')))"

definition sort_text :: "string \<Rightarrow> lead \<Rightarrow> string" where
  "sort_text f l = (if f = ''leadCode'' then ld_leadCode l else if f = ''lastName'' then ld_lastName l
     else status_name (ld_status l))"

definition cmp_time :: "int option \<Rightarrow> int option \<Rightarrow> int" where
  "cmp_time a b = (case (a, b) of (None, None) \<Rightarrow> 0 | (None, Some _) \<Rightarrow> -1 | (Some _, None) \<Rightarrow> 1
     | (Some x, Some y) \<Rightarrow> cmp_int x y)"

definition compareListedLeads :: "'a host_scheme \<Rightarrow> valid_query \<Rightarrow> listed_lead \<Rightarrow> listed_lead \<Rightarrow> int" where
  "compareListedLeads s v x y =
     (let l = ll_lead x; r = ll_lead y; by_code = locale_cmp s (ld_leadCode l) (ld_leadCode r);
          tl = pt_last (ll_treatment x); tr = pt_last (ll_treatment y)
      in if vq_view v = ''NEW_RECEIVED'' then cmp_or (cmp_int (ld_createdAt r) (ld_createdAt l)) by_code
         else if vq_view v = ''FOLLOW_UP''
         then cmp_or (locale_cmp s (opt_text (ld_nextActionAt l)) (opt_text (ld_nextActionAt r))) by_code
         else (let direction = (if vq_sortDirection v = ''asc'' then 1 else - 1)
           in if vq_sortBy v = ''lastTreatmentAt'' \<and> (tl = None) \<noteq> (tr = None) then (if tl \<noteq> None then - 1 else 1)
              else cmp_or (direction *
                (if vq_sortBy v = ''createdAt'' then cmp_int (ld_createdAt l) (ld_createdAt r)
                 else if vq_sortBy v = ''lastTreatmentAt'' then cmp_time tl tr
                 else locale_cmp s (sort_text (vq_sortBy v) l) (sort_text (vq_sortBy v) r))) by_code))"

record lead_page =
  lp_items :: "lead_view list"
  lp_page :: int
  lp_pageSize :: int
  lp_total :: nat

definition matching_leads :: "bool \<Rightarrow> lead_query \<Rightarrow> valid_query \<Rightarrow> principal \<Rightarrow> 'a lead_state_scheme \<Rightarrow> listed_lead list" where
  "matching_leads pilotage q v p s =
     sort_by (compareListedLeads s v)
       (filter (\<lambda>x. matchesListFilters s pilotage x q v p (now s)) (map (listed (now s) s) (js_values (leads s))))"

definition listLeads ::
  "bool \<Rightarrow> lead_query \<Rightarrow> principal \<Rightarrow> string \<Rightarrow> 'a lead_state_scheme \<Rightarrow> lead_page result \<times> 'a lead_state_scheme" where
  "listLeads pilotage q p cid s =
     (if \<not> can_read p then (Inl (Forbidden ''role_forbidden''), s)
      else (case validateListQuery s q of
              Inl e \<Rightarrow> (Inl e, s)
            | Inr v \<Rightarrow>
                (let ordered = matching_leads pilotage q v p s;
                     items = map (\<lambda>x. visibleLead (ll_lead x) p s) (page_slice (vq_page v) (vq_pageSize v) ordered);
                     s1 = audit_by p cid ''LEADS_LISTED'' JUndef
                       (JObj [(''page'', JNum (lq_page q)), (''pageSize'', JNum (lq_pageSize q)),
                              (''resultCount'', JNat (length items)), (''filterCount'', JNat (filter_count q)),
                              (''sortBy'', JStr (vq_sortBy v)), (''sortDirection'', JStr (vq_sortDirection v))])
                       SUCCESS (''leads-listed:'' @ fresh_uuid s) (drawn s)
                 in (Inr \<lparr>lp_items = items, lp_page = vq_page v, lp_pageSize = vq_pageSize v,
                        lp_total = length ordered\<rparr>, s1))))"

section \<open>Snapshots\<close>

record assignment_snapshot =
  as_total :: nat
  as_assigned :: nat
  as_unassigned :: nat
  as_followUpDue :: nat
  as_byAdviser :: "(string \<times> nat) list"

definition count_adviser :: "lead \<Rightarrow> (string, nat) js_map \<Rightarrow> (string, nat) js_map" where
  "count_adviser l m = (if truthy (ld_assignedToId l)
     then js_set m (opt_text (ld_assignedToId l))
            ((case js_get m (opt_text (ld_assignedToId l)) of None \<Rightarrow> 0 | Some n \<Rightarrow> n) + 1)
     else m)"

definition assignmentSnapshot :: "principal \<Rightarrow> int \<Rightarrow> 'a lead_state_scheme \<Rightarrow> assignment_snapshot result" where
  "assignmentSnapshot p at s =
     (if \<not> is_manager p then Inl (Forbidden ''assignment_manager_required'')
      else (let ls = js_values (leads s)
        in Inr \<lparr>as_total = length ls, as_assigned = length (filter (\<lambda>l. truthy (ld_assignedToId l)) ls),
             as_unassigned = length (filter (\<lambda>l. \<not> truthy (ld_assignedToId l)) ls),
             as_followUpDue = length (filter (\<lambda>l. truthy (ld_nextActionAt l)
                \<and> string_cmp (opt_text (ld_nextActionAt l)) (iso_string s at) \<le> 0) ls),
             as_byAdviser = sort_by (\<lambda>a b. locale_cmp s (fst a) (fst b)) (fold count_adviser ls [])\<rparr>))"

text \<open>A row of the reporting snapshot: the view of the lead and its activities without their notes.\<close>

record reporting_row =
  rr_view :: lead_view
  rr_kind :: acquisition_kind
  rr_temperature :: temperature
  rr_collaboratorIds :: "string list"
  rr_activities :: "(activity_type \<times> string \<times> string \<times> int) list"

definition reporting_row_of :: "int \<Rightarrow> 'a lead_state_scheme \<Rightarrow> lead \<Rightarrow> reporting_row" where
  "reporting_row_of at s l =
     \<lparr>rr_view = withTreatment l at s,
      rr_kind = (case ld_acquisitionKind l of None \<Rightarrow> AcqNew | Some k \<Rightarrow> k),
      rr_temperature = (case ld_temperature l of None \<Rightarrow> UNEVALUATED | Some t \<Rightarrow> t),
      rr_collaboratorIds = (case ld_collaboratorIds l of None \<Rightarrow> [] | Some cs \<Rightarrow> cs),
      rr_activities = map (\<lambda>a. (ac_type a, ac_result a, ac_authorId a, ac_occurredAt a))
        (filter (\<lambda>a. ac_leadId a = ld_id l) (activities s))\<rparr>"

definition reportingSnapshot ::
  "bool \<Rightarrow> principal \<Rightarrow> int \<Rightarrow> 'a lead_state_scheme \<Rightarrow> reporting_row list result" where
  "reportingSnapshot pilotage p at s =
     (if \<not> hasPilotageReportingScope pilotage p \<and> \<not> is_operational p
      then Inl (Forbidden ''reporting_manager_required'')
      else (let adviserOnly = (\<not> hasPilotageReportingScope pilotage p \<and> ADMISSIONS \<in> set (p_roles p) \<and> \<not> is_manager p)
        in Inr (map (reporting_row_of at s)
             (filter (\<lambda>l. (case permissionLeadIds p of Some ids \<Rightarrow> ld_id l \<in> set ids
                           | None \<Rightarrow> reaches_campus p (ld_campus l))
                \<and> (\<not> adviserOnly \<or> follows l p)) (js_values (leads s))))))"

end
