(* ===== verification/Lifecycle.thy ===== *)
theory Lifecycle
  imports Prelude
begin

text \<open>
  The contract shared by everything in the system that has a status: requests, appointments,
  follow-ups, leads. A provider states which moves its table of transitions allows, that every
  operation either leaves the status of an item alone or follows the table, and which statuses
  are final; a run of operations then follows the table too, and a final status stays.
\<close>

locale lifecycle =
  fixes status :: "'s \<Rightarrow> 'k \<Rightarrow> 'st option"
    and moves :: "'st \<Rightarrow> 'st \<Rightarrow> bool"
    and final :: "'st \<Rightarrow> bool"
    and step :: "'s \<Rightarrow> 's \<Rightarrow> bool"
    and ok :: "'s \<Rightarrow> bool"
  assumes step_ok: "ok s \<Longrightarrow> step s t \<Longrightarrow> ok t"
    and step_moves: "ok s \<Longrightarrow> step s t \<Longrightarrow> status s k = Some a \<Longrightarrow> \<exists>b. status t k = Some b \<and> moves\<^sup>*\<^sup>* a b"
    and final_stuck: "final a \<Longrightarrow> \<not> moves a b"
begin

lemma run_ok: "step\<^sup>*\<^sup>* s t \<Longrightarrow> ok s \<Longrightarrow> ok t"
  by (induction rule: rtranclp_induct) (auto intro: step_ok)

lemma run_moves:
  "step\<^sup>*\<^sup>* s t \<Longrightarrow> ok s \<Longrightarrow> status s k = Some a \<Longrightarrow> \<exists>b. status t k = Some b \<and> moves\<^sup>*\<^sup>* a b"
proof (induction rule: rtranclp_induct)
  case base
  then show ?case by blast
next
  case (step t u)
  then obtain b where b: "status t k = Some b" "moves\<^sup>*\<^sup>* a b" by blast
  from step_moves [OF run_ok [OF step(1) step.prems(1)] step(2) b(1)] obtain c
    where "status u k = Some c" "moves\<^sup>*\<^sup>* b c" by blast
  with b(2) show ?case by (auto intro: rtranclp_trans)
qed

lemma final_run: "moves\<^sup>*\<^sup>* a b \<Longrightarrow> final a \<Longrightarrow> b = a"
  by (induction rule: rtranclp_induct) (auto dest: final_stuck)

lemma final_stays: "step\<^sup>*\<^sup>* s t \<Longrightarrow> ok s \<Longrightarrow> status s k = Some a \<Longrightarrow> final a \<Longrightarrow> status t k = Some a"
  using run_moves final_run by blast

end

end
