(* ===== verification/LeadLaws.thy ===== *)
theory LeadLaws
  imports LeadViews Lifecycle
begin

text \<open>
  What the operations of \<open>LeadService\<close> guarantee together: the life of a status, the
  append-only timeline with at most one correction per activity, what only a manager can do,
  the evidence of a qualification, contact uniqueness on update, replayed actions, and the
  listing.
\<close>

section \<open>The effect of an operation\<close>

definition moves_to :: "lead_status \<Rightarrow> lead_status \<Rightarrow> bool" where
  "moves_to a b \<longleftrightarrow> b \<in> set (allowedTransitions a)"

definition lead_ok :: "'a lead_state_scheme \<Rightarrow> bool" where
  "lead_ok s \<longleftrightarrow> inj (uuid s) \<and> [] \<notin> range (uuid s) \<and> js_wf (leads s)
     \<and> (\<forall>i l. js_get (leads s) i = Some l \<longrightarrow> ld_id l = i \<and> i \<in> issued s)
     \<and> distinct (map ac_id (activities s)) \<and> set (map ac_id (activities s)) \<subseteq> issued s
     \<and> (\<forall>ev. length (filter (corrects ev) (activities s)) \<le> 1)"

text \<open>
  How one lead may change under an operation requested by \<open>p\<close>: by the table of transitions, and
  without a manager neither closed, reopened nor given to someone else.
\<close>

definition lead_change :: "principal \<Rightarrow> lead \<Rightarrow> lead \<Rightarrow> bool" where
  "lead_change p l l' \<longleftrightarrow> ld_id l' = ld_id l \<and> moves_to\<^sup>*\<^sup>* (ld_status l) (ld_status l')
     \<and> (\<not> is_manager p \<longrightarrow> terminal_status (ld_status l') = terminal_status (ld_status l)
          \<and> ld_assignedToId l' = ld_assignedToId l)"

definition lead_effect :: "principal \<Rightarrow> 'a lead_state_scheme \<Rightarrow> 'a lead_state_scheme \<Rightarrow> bool" where
  "lead_effect p s t \<longleftrightarrow> (lead_ok s \<longrightarrow> lead_ok t)
     \<and> (lead_ok s \<longrightarrow> (\<forall>i l. js_get (leads s) i = Some l \<longrightarrow> (\<exists>l'. js_get (leads t) i = Some l' \<and> lead_change p l l')))
     \<and> (\<exists>new. activities t = activities s @ new)"

lemma lead_change_refl [simp]: "lead_change p l l"
  by (simp add: lead_change_def)

lemma lead_change_trans: "lead_change p l m \<Longrightarrow> lead_change p m n \<Longrightarrow> lead_change p l n"
  by (auto simp: lead_change_def intro: rtranclp_trans)

lemma lead_effect_refl [simp, intro]: "lead_effect p s s"
  by (auto simp: lead_effect_def)

lemma lead_effect_trans:
  assumes "lead_effect p s t" and "lead_effect p t u"
  shows "lead_effect p s u"
proof -
  have "\<exists>n. js_get (leads u) i = Some n \<and> lead_change p l n" if "lead_ok s" "js_get (leads s) i = Some l" for i l
  proof -
    from that assms(1) obtain m where "js_get (leads t) i = Some m" "lead_change p l m"
      unfolding lead_effect_def by blast
    moreover from that(1) assms(1) have "lead_ok t" by (simp add: lead_effect_def)
    ultimately obtain n where "js_get (leads u) i = Some n" "lead_change p m n"
      using assms(2) unfolding lead_effect_def by blast
    with \<open>lead_change p l m\<close> show ?thesis using lead_change_trans by blast
  qed
  with assms show ?thesis unfolding lead_effect_def by auto
qed

lemma lead_effect_same:
  assumes "uuid t = uuid s" "draws s \<le> draws t" "leads t = leads s" "activities t = activities s"
  shows "lead_effect p s t"
proof -
  have "issued s \<subseteq> issued t" using assms(1,2) by (auto simp: issued_def)
  then show ?thesis
    using assms by (auto simp: lead_effect_def lead_ok_def)
qed

lemma lead_frames [simp, frame_simps]:
  "leads (audit_by p c ty b a r k s) = leads s" "activities (audit_by p c ty b a r k s) = activities s"
  "apiActionReceipts (audit_by p c ty b a r k s) = apiActionReceipts s"
  "correctionReceipts (audit_by p c ty b a r k s) = correctionReceipts s"
  "historicalTreatments (audit_by p c ty b a r k s) = historicalTreatments s"
  "leads (drawn s) = leads s" "activities (drawn s) = activities s"
  "apiActionReceipts (drawn s) = apiActionReceipts s" "correctionReceipts (drawn s) = correctionReceipts s"
  "historicalTreatments (drawn s) = historicalTreatments s"
  by (simp_all add: audit_by_def audit_record_def Let_def drawn_def split: option.split)

lemma fresh_frames [simp]:
  "fresh_uuid (s\<lparr>leads := x\<rparr>) = fresh_uuid s" "issued (s\<lparr>leads := x\<rparr>) = issued s"
  "fresh_uuid (s\<lparr>correctionReceipts := y\<rparr>) = fresh_uuid s"
  "fresh_uuid (add_to_timeline a s) = fresh_uuid s"
  by (simp_all add: fresh_uuid_def issued_def add_to_timeline_def)

lemma timeline_frames [simp]:
  "leads (add_to_timeline a s) = leads s" "activities (add_to_timeline a s) = activities s @ [a]"
  "uuid (add_to_timeline a s) = uuid s" "draws (add_to_timeline a s) = draws s" "now (add_to_timeline a s) = now s"
  "apiActionReceipts (add_to_timeline a s) = apiActionReceipts s"
  "correctionReceipts (add_to_timeline a s) = correctionReceipts s"
  "issued (add_to_timeline a s) = issued s" "audit_events (add_to_timeline a s) = audit_events s"
  by (simp_all add: add_to_timeline_def issued_def)

lemma effect_audit: "lead_effect p s t \<Longrightarrow> lead_effect p s (audit_by q c ty b a r k t)"
proof (erule lead_effect_trans, rule lead_effect_same)
  show "draws t \<le> draws (audit_by q c ty b a r k t)"
    using same_host_audit_by [of t q c ty b a r k] by (simp add: same_host_def del: same_host_audit_by)
qed simp_all

lemma effect_put:
  assumes "lead_effect p s t" and "js_get (leads t) i = Some l" and "lead_change p l l'"
  shows "lead_effect p s (t\<lparr>leads := js_set (leads t) i l'\<rparr>)"
proof (rule lead_effect_trans [OF assms(1)])
  show "lead_effect p t (t\<lparr>leads := js_set (leads t) i l'\<rparr>)"
    using assms(2,3) unfolding lead_effect_def lead_ok_def lead_change_def
    by (auto simp: issued_def)
qed

lemma effect_append:
  assumes "lead_effect p s t" and id: "ac_id a = fresh_uuid t"
    and once: "\<And>c. ac_correction a = Some c \<Longrightarrow> filter (corrects (cx_originalEventId c)) (activities t) = []"
  shows "lead_effect p s (add_to_timeline a (drawn t))"
proof (rule lead_effect_trans [OF assms(1)])
  have "length (filter (corrects ev) (activities t @ [a])) \<le> 1"
    if "length (filter (corrects ev) (activities t)) \<le> 1" for ev
    using that once by (cases "ac_correction a") (auto simp: corrects_def)
  moreover have "issued (add_to_timeline a (drawn t)) = insert (fresh_uuid t) (issued t)"
    by (simp add: issued_drawn)
  ultimately show "lead_effect p t (add_to_timeline a (drawn t))"
    using id fresh_uuid_not_issued [of t]
    unfolding lead_effect_def lead_ok_def by auto
qed

lemma effect_create:
  assumes "lead_effect p s t" and "js_get (leads t) (ld_id l) = None" and "ld_id l = fresh_uuid t"
  shows "lead_effect p s ((drawn t)\<lparr>leads := js_set (leads t) (ld_id l) l\<rparr>)"
proof (rule lead_effect_trans [OF assms(1)])
  have "issued ((drawn t)\<lparr>leads := js_set (leads t) (ld_id l) l\<rparr>) = insert (ld_id l) (issued t)"
    using assms(3) issued_drawn [of t] by (simp add: issued_def)
  then show "lead_effect p t ((drawn t)\<lparr>leads := js_set (leads t) (ld_id l) l\<rparr>)"
    using assms(2) unfolding lead_effect_def lead_ok_def by auto
qed

section \<open>Every operation has such an effect\<close>

lemma terminal_iff [simp]:
  "terminal_status PROSPECT = False" "terminal_status CONTACTED = False" "terminal_status QUALIFIED = False"
  "terminal_status ENROLLED" "terminal_status CLOSED_LOST"
  by (simp_all add: terminal_status_def)

lemma moves_terminal: "moves_to a b \<Longrightarrow> \<not> terminal_status a"
  by (cases a) (auto simp: moves_to_def terminal_status_def)

lemma change_moves:
  "b \<in> set (allowedTransitions (ld_status l)) \<Longrightarrow> terminal_status b \<Longrightarrow> is_manager p \<Longrightarrow>
     ld_id l' = ld_id l \<Longrightarrow> ld_status l' = b \<Longrightarrow> lead_change p l l'"
  by (auto simp: lead_change_def moves_to_def)

lemma change_open:
  "b \<in> set (allowedTransitions (ld_status l)) \<Longrightarrow> \<not> terminal_status b \<Longrightarrow>
     ld_id l' = ld_id l \<Longrightarrow> ld_status l' = b \<Longrightarrow> ld_assignedToId l' = ld_assignedToId l \<Longrightarrow> lead_change p l l'"
  using moves_terminal [of "ld_status l" b]
  by (auto simp: lead_change_def moves_to_def)

lemma change_kept:
  "ld_id l' = ld_id l \<Longrightarrow> ld_status l' = ld_status l \<Longrightarrow> is_manager p \<or> ld_assignedToId l' = ld_assignedToId l
     \<Longrightarrow> lead_change p l l'"
  by (auto simp: lead_change_def)

text \<open>Writing a lead and an entry of the timeline, in the two orders the code has.\<close>

lemma effect_put_append:
  assumes "js_get (leads s) i = Some l" and "lead_change p l l'" and "ac_correction a = None"
    and "ac_id a = fresh_uuid s"
  shows "lead_effect p s (add_to_timeline a (drawn (s\<lparr>leads := js_set (leads s) i l'\<rparr>)))"
  by (rule effect_append [OF effect_put [OF lead_effect_refl assms(1,2)]])
     (simp_all add: assms(3,4) fresh_uuid_def)

lemma effect_append_put:
  assumes "js_get (leads s) i = Some l" and "lead_change p l l'" and "ac_correction a = None"
    and "ac_id a = fresh_uuid s"
  shows "lead_effect p s ((add_to_timeline a (drawn s))\<lparr>leads := js_set (leads s) i l'\<rparr>)"
  using effect_put [OF effect_append [OF lead_effect_refl assms(4)], where i = i and l = l and l' = l'] assms by simp

lemma effect_changeStatus: "lead_effect p s (snd (changeStatus i inp p cid s))"
proof (cases "js_get (leads s) i")
  case None
  then show ?thesis by (simp add: changeStatus_def)
next
  case (Some l)
  show ?thesis
  proof (cases "as_status (si_status inp)")
    case None
    with Some show ?thesis by (simp add: changeStatus_def)
  next
    case (Some st)
    note l = \<open>js_get (leads s) i = Some l\<close>
    show ?thesis
    proof (cases "status_note l st inp")
      case (Inl e)
      with Some l show ?thesis by (simp add: changeStatus_def)
    next
      case (Inr why)
      show ?thesis
      proof (cases "is_operational p \<and> st \<in> set (allowedTransitions (ld_status l)) \<and> (terminal_status st \<longrightarrow> is_manager p)
          \<and> (terminal_status st \<longrightarrow> truthy why)")
        case False
        with Some l Inr show ?thesis by (auto simp: changeStatus_def)
      next
        case True
        let ?l = "l\<lparr>ld_status := st, ld_lastActivityAt := Some (now s),
          ld_nextActionAt := (if terminal_status st then None else ld_nextActionAt l)\<rparr>"
        have "lead_change p l ?l"
          using True by (cases "terminal_status st") (auto intro: change_moves change_open)
        with True Some l Inr show ?thesis
          by (auto simp: changeStatus_def Let_def intro!: effect_audit effect_put_append)
      qed
    qed
  qed
qed

lemma changeStatus_pair: "changeStatus i inp p cid s = (r, t) \<Longrightarrow> lead_effect p s t"
  using effect_changeStatus [of p s i inp cid] by simp

lemma effect_addActivity: "lead_effect p s (snd (addActivity i inp p cid s))"
proof (cases "js_get (leads s) i")
  case None
  then show ?thesis by (simp add: addActivity_def)
next
  case (Some l)
  show ?thesis
  proof (cases "as_activity_type (in_type inp)")
    case None
    with Some show ?thesis by (simp add: addActivity_def)
  next
    case (Some ty)
    note l = \<open>js_get (leads s) i = Some l\<close>
    show ?thesis
    proof (cases "parse_next_action s (in_nextActionAt inp)")
      case (Inl e)
      with Some l show ?thesis by (simp add: addActivity_def)
    next
      case (Inr na)
      let ?a = "\<lparr>ac_id = fresh_uuid s, ac_leadId = i, ac_type = ty, ac_result = js_trim (in_result inp),
         ac_note = (if js_blank (opt_text (in_note inp)) then None else Some (js_trim (opt_text (in_note inp)))),
         ac_authorId = userId p, ac_nextActionAt = map_option (iso_string s) na,
         ac_correlationId = cid, ac_occurredAt = now s, ac_correction = None\<rparr>"
      let ?l = "l\<lparr>ld_lastActivityAt := Some (now s), ld_nextActionAt := (if in_clearNextAction inp then None
         else case ac_nextActionAt ?a of None \<Rightarrow> ld_nextActionAt l | Some t \<Rightarrow> Some t)\<rparr>"
      let ?s = "audit_by p cid ''LEAD_ACTIVITY_ADDED'' JUndef
         (JObj [(''leadId'', JStr i), (''activityId'', JStr (ac_id ?a)), (''type'', JStr (activity_name ty))])
         SUCCESS (''lead-activity:'' @ ac_id ?a) ((add_to_timeline ?a (drawn s))\<lparr>leads := js_set (leads s) i ?l\<rparr>)"
      have done_s: "lead_effect p s ?s"
        by (intro effect_audit effect_append_put [OF l]) (auto intro: change_kept)
      obtain r u where run: "changeStatus i automatic_contact p cid ?s = (r, u)"
        by (cases "changeStatus i automatic_contact p cid ?s") auto
      with done_s have "lead_effect p s u" using changeStatus_pair lead_effect_trans by blast
      with done_s run Some l Inr show ?thesis
        by (cases r) (auto simp: addActivity_def Let_def split: option.split)
    qed
  qed
qed

lemma effect_createLead: "lead_effect p s (snd (createLead i p cid s))"
proof (cases "lead_ok s")
  case False
  have "\<exists>new. activities (snd (createLead i p cid s)) = activities s @ new"
    by (auto simp: createLead_def Let_def registerLocalLead_def)
  with False show ?thesis by (simp add: lead_effect_def)
next
  case True
  then have fresh: "js_get (leads s) (fresh_uuid (drawn s)) = None"
    using uuid_not_issued [of s "Suc (draws s)"]
    by (cases "js_get (leads s) (fresh_uuid (drawn s))") (auto simp: lead_ok_def fresh_uuid_def)
  have one: "lead_effect p s (drawn s)" by (rule lead_effect_same) simp_all
  have new: "lead_effect p s ((drawn (drawn s))\<lparr>leads := js_set (leads s) (fresh_uuid (drawn s)) l\<rparr>)"
    if "ld_id l = fresh_uuid (drawn s)" for l
    using effect_create [OF one, of l] that fresh by simp
  have all: "lead_effect p s ((add_to_timeline a (drawn ((drawn (drawn s))\<lparr>leads := js_set (leads s) (fresh_uuid (drawn s)) l\<rparr>)))
      \<lparr>leads := js_set (js_set (leads s) (fresh_uuid (drawn s)) l) (fresh_uuid (drawn s)) l'\<rparr>)"
    if "ld_id l = fresh_uuid (drawn s)" "ac_correction a = None"
      "ac_id a = fresh_uuid ((drawn (drawn s))\<lparr>leads := js_set (leads s) (fresh_uuid (drawn s)) l\<rparr>)"
      "lead_change p l l'" for l a l'
    using effect_put [OF effect_append [OF new [OF that(1)] that(3)], where i = "fresh_uuid (drawn s)" and l = l and l' = l']
      that(2,4) by simp
  show ?thesis
    by (auto simp: createLead_def Let_def registerLocalLead_def blank_lead_def
        intro!: effect_audit all change_kept)
qed

lemma effect_createLeadForApi: "lead_effect p s (snd (createLeadForApi i k p cid s))"
  by (simp add: createLeadForApi_def effect_createLead)

lemma set_lead_field_id [simp]:
  "ld_id (set_lead_field f v l) = ld_id l" "ld_status (set_lead_field f v l) = ld_status l"
  "ld_assignedToId (set_lead_field f v l) = ld_assignedToId l" "ld_email (set_lead_field f v l) = ld_email l"
  "ld_phone (set_lead_field f v l) = ld_phone l"
  by (simp_all add: set_lead_field_def)

lemma fold_fields_id:
  "ld_id (fold (\<lambda>f l'. case m f of None \<Rightarrow> l' | Some v \<Rightarrow> set_lead_field f (js_trim v) l') fs l) = ld_id l
   \<and> ld_status (fold (\<lambda>f l'. case m f of None \<Rightarrow> l' | Some v \<Rightarrow> set_lead_field f (js_trim v) l') fs l) = ld_status l
   \<and> ld_assignedToId (fold (\<lambda>f l'. case m f of None \<Rightarrow> l' | Some v \<Rightarrow> set_lead_field f (js_trim v) l') fs l) = ld_assignedToId l
   \<and> ld_email (fold (\<lambda>f l'. case m f of None \<Rightarrow> l' | Some v \<Rightarrow> set_lead_field f (js_trim v) l') fs l) = ld_email l
   \<and> ld_phone (fold (\<lambda>f l'. case m f of None \<Rightarrow> l' | Some v \<Rightarrow> set_lead_field f (js_trim v) l') fs l) = ld_phone l"
proof (induction fs arbitrary: l)
  case (Cons f fs)
  then show ?case by (cases "m f") simp_all
qed simp

lemma normalizeLeadUpdate_id:
  "normalizeLeadUpdate l kvs = Inr l' \<Longrightarrow> ld_id l' = ld_id l \<and> ld_status l' = ld_status l
     \<and> ld_assignedToId l' = ld_assignedToId l"
  using fold_fields_id [of "map_of kvs" update_fields l]
  by (auto simp: normalizeLeadUpdate_def normalizeLeadContacts_def Let_def split: if_splits option.splits)

lemma effect_updateLeadForApi: "lead_effect p s (snd (updateLeadForApi i inp p cid s))"
proof (cases "js_get (leads s) i")
  case None
  then show ?thesis by (simp add: updateLeadForApi_def)
next
  case (Some l)
  show ?thesis
  proof (cases "normalizeLeadUpdate l (ul_fields inp)")
    case (Inl e)
    with Some show ?thesis by (simp add: updateLeadForApi_def)
  next
    case (Inr l')
    with normalizeLeadUpdate_id have "lead_change p l l'" by (blast intro: change_kept)
    with Some Inr show ?thesis
      by (auto simp: updateLeadForApi_def Let_def case_prod_unfold
          intro!: effect_audit effect_put [OF lead_effect_refl Some])
  qed
qed

lemma effect_correctActivity: "lead_effect p s (snd (correctActivity i ev inp p cid s))"
proof -
  have append: "lead_effect p s (audit_by p c ty b x r k ((add_to_timeline a (drawn s))\<lparr>correctionReceipts := y\<rparr>))"
    if "ac_id a = fresh_uuid s" "ac_correction a = Some cx" "cx_originalEventId cx = ev"
      "filter (corrects ev) (activities s) = []" for a cx c ty b x r k y
  proof -
    have "lead_effect p s (add_to_timeline a (drawn s))"
      by (rule effect_append [OF lead_effect_refl that(1)]) (use that in auto)
    then have "lead_effect p s ((add_to_timeline a (drawn s))\<lparr>correctionReceipts := y\<rparr>)"
      by (rule lead_effect_trans) (rule lead_effect_same, simp_all)
    then show ?thesis by (rule effect_audit)
  qed
  show ?thesis
    by (auto simp: correctActivity_def Let_def split: option.split sum.split intro!: append)
qed

lemma effect_assignLocalLead: "lead_effect p s (snd (assignLocalLead i target p cid reason mode s))"
  by (auto simp: assignLocalLead_def Let_def split: option.split
      intro!: effect_audit effect_put_append change_kept)

lemma effect_reassignLocalLead: "lead_effect p s (snd (reassignLocalLead i owner target p cid reason s))"
  by (auto simp: reassignLocalLead_def Let_def split: option.split
      intro!: effect_audit effect_put_append change_kept)

lemma effect_recordFollowUp: "lead_effect p s (snd (recordFollowUp i nextAt p cid res s))"
  by (auto simp: recordFollowUp_def Let_def split: option.split intro!: effect_put_append change_kept)

lemma effect_applyCollaborator: "lead_effect p s (snd (applyCollaborator i target act txt p cid s))"
  by (auto simp: applyCollaborator_def Let_def split: option.split intro!: effect_put_append change_kept)

lemma effect_appendIngestionActivity: "lead_effect p s (snd (appendIngestionActivity i ty res at p cid s))"
proof -
  have "lead_effect p s ((add_to_timeline a (drawn s))\<lparr>leads := js_set (leads s) i (l\<lparr>ld_lastActivityAt := x\<rparr>)\<rparr>)"
    if "js_get (leads s) i = Some l" "ac_correction a = None" "ac_id a = fresh_uuid s" for l a x
    by (rule effect_append_put [OF that(1) _ that(2,3)]) (auto intro: change_kept)
  then show ?thesis
    by (auto simp: appendIngestionActivity_def Let_def split: option.split intro!: effect_audit)
qed

lemma effect_with_receipt:
  assumes "\<And>r t. run s = (r, t) \<Longrightarrow> lead_effect p s t"
  shows "lead_effect p s (snd (with_receipt key fp unpack pack run s))"
proof -
  have receipt: "lead_effect p s (t\<lparr>apiActionReceipts := y\<rparr>)" if "run s = (r, t)" for r t y
    by (rule lead_effect_trans [OF assms [OF that]]) (rule lead_effect_same, simp_all)
  obtain r t where run: "run s = (r, t)" by (cases "run s")
  show ?thesis
  proof (cases "js_get (apiActionReceipts s) key")
    case (Some x)
    then show ?thesis by (cases x) (simp add: with_receipt_def)
  next
    case None
    then show ?thesis
      using run assms [OF run] receipt [OF run] by (cases r) (simp_all add: with_receipt_def)
  qed
qed

lemma effect_addActivityForApi: "lead_effect p s (snd (addActivityForApi i body p cid s))"
proof -
  have "lead_effect p s t" if "addActivity i inp p cid s = (r, t)" for inp r t
    using that effect_addActivity [of p s i inp cid] by simp
  then show ?thesis
    by (auto simp: addActivityForApi_def split: sum.split intro: effect_with_receipt)
qed

lemma effect_changeStatusForApi: "lead_effect p s (snd (changeStatusForApi i body p cid s))"
  by (auto simp: changeStatusForApi_def split: sum.split intro: effect_with_receipt changeStatus_pair)

lemma effect_reads:
  "lead_effect p s (snd (getLead i p cid s))" "lead_effect p s (snd (listLeads pil q p cid s))"
  "lead_effect p s (s\<lparr>now := t\<rparr>)"
proof -
  have "lead_effect p s (drawn s)" by (rule lead_effect_same) simp_all
  then show "lead_effect p s (snd (getLead i p cid s))" "lead_effect p s (snd (listLeads pil q p cid s))"
    by (auto simp: getLead_def listLeads_def Let_def split: option.split sum.split intro: effect_audit)
  show "lead_effect p s (s\<lparr>now := t\<rparr>)" by (rule lead_effect_same) simp_all
qed

section \<open>Requests and runs\<close>

text \<open>One call of the service on behalf of a principal, accepted or refused, or time passing.\<close>

inductive lead_request :: "principal \<Rightarrow> 'a lead_state_scheme \<Rightarrow> 'a lead_state_scheme \<Rightarrow> bool" where
  create: "lead_request p s (snd (createLeadForApi i k p cid s))"
| create_inner: "lead_request p s (snd (createLead i p cid s))"
| update: "lead_request p s (snd (updateLeadForApi l inp p cid s))"
| add: "lead_request p s (snd (addActivityForApi l body p cid s))"
| add_inner: "lead_request p s (snd (addActivity l act p cid s))"
| status: "lead_request p s (snd (changeStatusForApi l body p cid s))"
| status_inner: "lead_request p s (snd (changeStatus l st p cid s))"
| correct: "lead_request p s (snd (correctActivity l ev c p cid s))"
| assign: "lead_request p s (snd (assignLocalLead l target p cid reason mode s))"
| reassign: "lead_request p s (snd (reassignLocalLead l owner target p cid reason s))"
| follow_up: "lead_request p s (snd (recordFollowUp l next_at p cid res s))"
| collaborate: "lead_request p s (snd (applyCollaborator l target action txt p cid s))"
| ingest: "lead_request p s (snd (appendIngestionActivity l ty res at p cid s))"
| read_one: "lead_request p s (snd (getLead l p cid s))"
| read_list: "lead_request p s (snd (listLeads pil q p cid s))"
| time: "lead_request p s (s\<lparr>now := t\<rparr>)"

lemma request_effect: "lead_request p s t \<Longrightarrow> lead_effect p s t"
  by (induction rule: lead_request.induct)
     (simp_all add: effect_createLeadForApi effect_createLead effect_updateLeadForApi effect_addActivityForApi
       effect_addActivity effect_changeStatusForApi effect_changeStatus effect_correctActivity
       effect_assignLocalLead effect_reassignLocalLead effect_recordFollowUp effect_applyCollaborator
       effect_appendIngestionActivity effect_reads)

definition lead_step :: "'a lead_state_scheme \<Rightarrow> 'a lead_state_scheme \<Rightarrow> bool" where
  "lead_step s t \<longleftrightarrow> (\<exists>p. lead_request p s t)"

definition status_of :: "'a lead_state_scheme \<Rightarrow> string \<Rightarrow> lead_status option" where
  "status_of s i = map_option ld_status (js_get (leads s) i)"

interpretation lead_life: lifecycle status_of moves_to terminal_status lead_step lead_ok
proof (unfold_locales, goal_cases)
  case (1 s t)
  then show ?case using request_effect unfolding lead_step_def lead_effect_def by blast
next
  case (2 s t i a)
  then obtain p l where "lead_request p s t" "js_get (leads s) i = Some l" "ld_status l = a"
    by (auto simp: lead_step_def status_of_def)
  with 2(1) request_effect obtain l' where "js_get (leads t) i = Some l'" "lead_change p l l'"
    unfolding lead_effect_def by blast
  with \<open>ld_status l = a\<close> show ?case by (auto simp: status_of_def lead_change_def)
next
  case (3 a b)
  then show ?case using moves_terminal by blast
qed

lemma run_activities: "lead_step\<^sup>*\<^sup>* s t \<Longrightarrow> \<exists>new. activities t = activities s @ new"
proof (induction rule: rtranclp_induct)
  case (step t u)
  then obtain p new where "lead_request p t u" "activities t = activities s @ new"
    by (auto simp: lead_step_def)
  with request_effect [of p t u] show ?case by (auto simp: lead_effect_def)
qed simp

section \<open>A lead for the witnesses\<close>

definition demo_lead :: "string \<Rightarrow> lead_status \<Rightarrow> lead" where
  "demo_lead i st = (blank_lead i ''LD-1'' 0)\<lparr>ld_program := ''Info'', ld_educationLevel := ''Bac'',
     ld_campus := ''cm'', ld_status := st, ld_email := Some ''a@b.fr'', ld_assignedToId := Some ''u1''\<rparr>"

definition lead_demo :: "lead_status \<Rightarrow> 'a \<Rightarrow> 'a lead_state_scheme" where
  "lead_demo st m = note_demo (lead_state_ext [(''id-'', demo_lead ''id-'' st)]
     [demo_activity ''id-x'' CRM_CALL ''CONNECTED'' 10] [] [] [] m)"

lemma lead_demo_simps [simp]:
  "leads (lead_demo st m) = [(''id-'', demo_lead ''id-'' st)]"
  "activities (lead_demo st m) = [demo_activity ''id-x'' CRM_CALL ''CONNECTED'' 10]"
  "now (lead_demo st m) = 1000" "apiActionReceipts (lead_demo st m) = []" "correctionReceipts (lead_demo st m) = []"
  by (simp_all add: lead_demo_def note_demo_def user_demo_def demo_host_def)

lemma lead_demo_ok: "lead_ok (lead_demo st m)"
proof -
  have "inj (\<lambda>n. ''id-'' @ replicate n CHR ''x'')"
    by (auto simp: inj_def dest: arg_cong [where f = length])
  moreover have "{''id-'', ''id-x''} \<subseteq> issued (lead_demo st m)"
  proof -
    have "{..<3::nat} = {0, 1, 2}" by auto
    then show ?thesis by (simp add: issued_def lead_demo_def note_demo_def user_demo_def demo_host_def)
  qed
  ultimately show ?thesis
    by (auto simp: lead_ok_def js_wf_def js_keys_def js_get_def demo_lead_def blank_lead_def demo_activity_def
        corrects_def lead_demo_def note_demo_def user_demo_def demo_host_def split: if_splits)
qed

definition demo_manager :: principal where
  "demo_manager = demo_principal ''m1'' [MANAGER]"

definition demo_adviser :: principal where
  "demo_adviser = demo_principal ''u1'' [ADMISSIONS]"

section \<open>Properties\<close>

text \<open>
  C1: Whatever the requests, the status of a lead only moves along the table of transitions; in
  particular an enrolled or lost lead keeps that status for ever.
\<close>

theorem lead_status_life:
  assumes "lead_ok s" and "lead_step\<^sup>*\<^sup>* s t" and "js_get (leads s) i = Some l"
  shows "\<exists>l'. js_get (leads t) i = Some l' \<and> moves_to\<^sup>*\<^sup>* (ld_status l) (ld_status l')
    \<and> (terminal_status (ld_status l) \<longrightarrow> ld_status l' = ld_status l)"
proof -
  have "status_of s i = Some (ld_status l)" by (simp add: status_of_def assms(3))
  from lead_life.run_moves [OF assms(2,1) this] obtain b where "status_of t i = Some b"
    and run: "moves_to\<^sup>*\<^sup>* (ld_status l) b" by blast
  then obtain l' where "js_get (leads t) i = Some l'" "ld_status l' = b" by (auto simp: status_of_def)
  with run lead_life.final_run [OF run] show ?thesis by (intro exI [of _ l']) simp
qed

theorem lead_status_life_witness:
  "\<exists>l'. js_get (leads (snd (changeStatus ''id-'' \<lparr>si_status = ''PROSPECT'', si_reason = JStr ''reopen please'',
     si_qualification = JUndef\<rparr> demo_manager ''c'' (lead_demo ENROLLED ())))) ''id-'' = Some l' \<and> ld_status l' = ENROLLED"
proof -
  let ?t = "snd (changeStatus ''id-'' \<lparr>si_status = ''PROSPECT'', si_reason = JStr ''reopen please'',
     si_qualification = JUndef\<rparr> demo_manager ''c'' (lead_demo ENROLLED ()))"
  have "lead_step\<^sup>*\<^sup>* (lead_demo ENROLLED ()) ?t"
    by (rule r_into_rtranclp) (auto simp: lead_step_def intro: lead_request.status_inner)
  moreover have "js_get (leads (lead_demo ENROLLED ())) ''id-'' = Some (demo_lead ''id-'' ENROLLED)"
    by (simp add: js_get_def)
  ultimately show ?thesis
    using lead_status_life [OF lead_demo_ok, of ENROLLED "()" ?t "''id-''"] by (fastforce simp: demo_lead_def)
qed

text \<open>
  C4: A lead is closed only by a manager: a request of anybody else - an adviser, an auditor -
  closes no lead, reopens none, and takes none from its owner.
\<close>

theorem only_managers_close:
  assumes "lead_ok s" and "lead_request p s t" and "\<not> is_manager p" and "js_get (leads s) i = Some l"
  shows "\<exists>l'. js_get (leads t) i = Some l' \<and> terminal_status (ld_status l') = terminal_status (ld_status l)
    \<and> ld_assignedToId l' = ld_assignedToId l"
  using request_effect [OF assms(2)] assms(1,3,4) unfolding lead_effect_def lead_change_def by blast

theorem only_managers_close_witness:
  "\<exists>l'. js_get (leads (snd (changeStatus ''id-'' \<lparr>si_status = ''CLOSED_LOST'', si_reason = JStr ''lost'',
     si_qualification = JUndef\<rparr> demo_adviser ''c'' (lead_demo CONTACTED ())))) ''id-'' = Some l'
     \<and> \<not> terminal_status (ld_status l')"
proof -
  have adviser: "\<not> is_manager demo_adviser"
    by (simp add: is_manager_def has_role_def demo_adviser_def demo_principal_def)
  have l: "js_get (leads (lead_demo CONTACTED ())) ''id-'' = Some (demo_lead ''id-'' CONTACTED)"
    by (simp add: js_get_def)
  show ?thesis
    using only_managers_close [OF lead_demo_ok lead_request.status_inner adviser l,
        of "''id-''" "\<lparr>si_status = ''CLOSED_LOST'', si_reason = JStr ''lost'', si_qualification = JUndef\<rparr>" "''c''"]
    by (auto simp: demo_lead_def)
qed

text \<open>
  C15: The timeline is append-only, and an activity is corrected at most once: no sequence of
  requests alters or removes an entry, and no two entries correct the same one.
\<close>

theorem timeline_append_only:
  assumes "lead_ok s" and "lead_step\<^sup>*\<^sup>* s t"
  shows "(\<exists>new. activities t = activities s @ new) \<and> length (filter (corrects ev) (activities t)) \<le> 1
    \<and> distinct (map ac_id (activities t))"
  using run_activities [OF assms(2)] lead_life.run_ok [OF assms(2,1)] by (simp add: lead_ok_def)

theorem timeline_append_only_witness:
  "\<exists>new. activities (snd (correctActivity ''id-'' ''id-x'' \<lparr>cin_idempotencyKey = ''abcdefgh'',
     cin_expectedCorrectionCount = JInt 0, cin_operation = ''CANCEL'', cin_reasonCode = ''DUPLICATE_ENTRY'',
     cin_replacement = None\<rparr> demo_manager ''c'' (lead_demo CONTACTED ())))
     = demo_activity ''id-x'' CRM_CALL ''CONNECTED'' 10 # new"
proof -
  let ?t = "snd (correctActivity ''id-'' ''id-x'' \<lparr>cin_idempotencyKey = ''abcdefgh'',
     cin_expectedCorrectionCount = JInt 0, cin_operation = ''CANCEL'', cin_reasonCode = ''DUPLICATE_ENTRY'',
     cin_replacement = None\<rparr> demo_manager ''c'' (lead_demo CONTACTED ()))"
  have "lead_step\<^sup>*\<^sup>* (lead_demo CONTACTED ()) ?t"
    by (rule r_into_rtranclp) (auto simp: lead_step_def intro: lead_request.correct)
  from timeline_append_only [OF lead_demo_ok this] show ?thesis by auto
qed

section \<open>Contact and qualification\<close>

lemma automatic_contact_done:
  assumes "is_operational p" and "js_get (leads s) i = Some l" and "ld_status l = PROSPECT"
  obtains l' t b where "changeStatus i automatic_contact p cid s = (Inr l', t)" "js_get (leads t) i = Some l'"
    "ld_status l' = CONTACTED" "activities t = activities s @ [b]" "ac_type b = STATUS_CHANGED"
    "ac_occurredAt b = now s"
proof -
  have as: "as_status ''CONTACTED'' = Some CONTACTED"
    using as_status_name [of CONTACTED] by simp
  let ?l = "l\<lparr>ld_status := CONTACTED, ld_lastActivityAt := Some (now s)\<rparr>"
  have "\<exists>t b. changeStatus i automatic_contact p cid s = (Inr ?l, t) \<and> js_get (leads t) i = Some ?l
      \<and> activities t = activities s @ [b] \<and> ac_type b = STATUS_CHANGED \<and> ac_occurredAt b = now s"
    using assms by (simp add: changeStatus_def automatic_contact_def as status_note_def Let_def)
  with that show ?thesis by fastforce
qed

text \<open>
  Recording an activity keeps everything recorded before, dates the new entry now, and
  takes a prospect to the contacted status exactly when the entry is a commercial contact - in
  that case with one entry for the status change; any other status is left as it is.
\<close>

theorem first_contact_moves_on:
  assumes "addActivity i inp p cid s = (Inr a, t)" and "js_get (leads s) i = Some l"
  shows "\<exists>l' rest. js_get (leads t) i = Some l' \<and> activities t = activities s @ a # rest
    \<and> ac_leadId a = i \<and> ac_occurredAt a = now s \<and> map ac_type rest =
        (if ld_status l = PROSPECT \<and> isCommercialContact (ac_type a) (ac_result a) (ac_note a) then [STATUS_CHANGED] else [])
    \<and> ld_status l' =
        (if ld_status l = PROSPECT \<and> isCommercialContact (ac_type a) (ac_result a) (ac_note a) then CONTACTED else ld_status l)"
proof -
  from assms obtain ty na where op: "is_operational p" and ty: "as_activity_type (in_type inp) = Some ty"
    and na: "parse_next_action s (in_nextActionAt inp) = Inr na" and nb: "\<not> js_blank (in_result inp)"
    and chrono: "\<not> (case na of None \<Rightarrow> False | Some t \<Rightarrow> t \<le> now s)"
    by (auto simp: addActivity_def split: if_splits option.splits sum.splits)
  define a0 where "a0 = \<lparr>ac_id = fresh_uuid s, ac_leadId = i, ac_type = ty, ac_result = js_trim (in_result inp),
     ac_note = (if js_blank (opt_text (in_note inp)) then None else Some (js_trim (opt_text (in_note inp)))),
     ac_authorId = userId p, ac_nextActionAt = map_option (iso_string s) na,
     ac_correlationId = cid, ac_occurredAt = now s, ac_correction = None\<rparr>"
  define l0 where "l0 = l\<lparr>ld_lastActivityAt := Some (now s), ld_nextActionAt := (if in_clearNextAction inp then None
     else case ac_nextActionAt a0 of None \<Rightarrow> ld_nextActionAt l | Some t \<Rightarrow> Some t)\<rparr>"
  define s0 where "s0 = audit_by p cid ''LEAD_ACTIVITY_ADDED'' JUndef
     (JObj [(''leadId'', JStr i), (''activityId'', JStr (ac_id a0)), (''type'', JStr (activity_name ty))])
     SUCCESS (''lead-activity:'' @ ac_id a0) ((add_to_timeline a0 (drawn s))\<lparr>leads := js_set (leads (add_to_timeline a0 (drawn s))) i l0\<rparr>)"
  have s0: "js_get (leads s0) i = Some l0" "activities s0 = activities s @ [a0]" by (simp_all add: s0_def)
  have a0: "ac_type a0 = ty" "ac_leadId a0 = i" "ac_occurredAt a0 = now s" and l0: "ld_status l0 = ld_status l"
    by (simp_all add: a0_def l0_def)
  have run: "addActivity i inp p cid s = (if ld_status l = PROSPECT \<and> isCommercialContact ty (ac_result a0) (ac_note a0)
      then call (changeStatus i automatic_contact p cid s0) (\<lambda>_ s4. (Inr a0, s4)) else (Inr a0, s0))"
    unfolding addActivity_def s0_def l0_def a0_def
    by (simp only: assms(2) op ty na nb chrono Let_def option.case sum.case not_True_eq_False not_False_eq_True
        if_True if_False)
  show ?thesis
  proof (cases "ld_status l = PROSPECT \<and> isCommercialContact ty (ac_result a0) (ac_note a0)")
    case False
    with run assms(1) have "a = a0" "t = s0" by auto
    with False s0 a0 l0 show ?thesis by auto
  next
    case True
    with l0 have "ld_status l0 = PROSPECT" by simp
    from automatic_contact_done [OF op s0(1) this, of cid] obtain l' u b where
      change: "changeStatus i automatic_contact p cid s0 = (Inr l', u)" "js_get (leads u) i = Some l'"
      "ld_status l' = CONTACTED" "activities u = activities s0 @ [b]" "ac_type b = STATUS_CHANGED" by blast
    with run assms(1) True have "a = a0" "t = u" by auto
    with True s0 a0 change show ?thesis by auto
  qed
qed

definition demo_call :: activity_input where
  "demo_call = \<lparr>in_type = ''CRM_CALL'', in_result = '' no_answer '', in_note = None, in_nextActionAt = None,
     in_clearNextAction = False\<rparr>"

theorem first_contact_moves_on_witness:
  "\<exists>l'. js_get (leads (snd (addActivity ''id-'' demo_call demo_adviser ''c'' (lead_demo PROSPECT ())))) ''id-'' = Some l'
     \<and> ld_status l' = CONTACTED"
proof -
  obtain a t where run: "addActivity ''id-'' demo_call demo_adviser ''c'' (lead_demo PROSPECT ()) = (Inr a, t)"
    and a: "ac_type a = CRM_CALL" "ac_result a = ''no_answer''" "ac_note a = None"
  proof -
    let ?run = "addActivity ''id-'' demo_call demo_adviser ''c'' (lead_demo PROSPECT ())"
    have "case fst ?run of Inr a \<Rightarrow> ac_type a = CRM_CALL \<and> ac_result a = ''no_answer'' \<and> ac_note a = None | Inl e \<Rightarrow> False"
      by code_simp
    with that show ?thesis by (cases ?run; cases "fst ?run") auto
  qed
  have "js_get (leads (lead_demo PROSPECT ())) ''id-'' = Some (demo_lead ''id-'' PROSPECT)" by (simp add: js_get_def)
  moreover have "isCommercialContact CRM_CALL ''no_answer'' None" by code_simp
  ultimately show ?thesis
    using first_contact_moves_on [OF run] a run by (auto simp: demo_lead_def)
qed

text \<open>
  A status change that is accepted follows the table and leaves one entry in the timeline;
  a positive decision - a qualification, or an enrolment that skips it - rests on both
  observations confirmed, a known programme and level and a reason of 8 characters at least;
  closing takes a manager and a reason, and removes the planned next action.
\<close>

theorem status_change_evidence:
  assumes "changeStatus i inp p cid s = (Inr l', t)" and "js_get (leads s) i = Some l"
  shows "ld_status l' \<in> set (allowedTransitions (ld_status l)) \<and> js_get (leads t) i = Some l'
    \<and> (\<exists>a. activities t = activities s @ [a] \<and> ac_type a = STATUS_CHANGED
         \<and> (terminal_status (ld_status l') \<longrightarrow> is_manager p \<and> truthy (ac_note a) \<and> ld_nextActionAt l' = None))
    \<and> (ld_status l' = QUALIFIED \<or> (ld_status l' = ENROLLED \<and> ld_status l \<noteq> QUALIFIED) \<longrightarrow>
         positive_qualification (si_qualification inp) \<and> \<not> js_blank (ld_program l) \<and> \<not> js_blank (ld_educationLevel l)
         \<and> (\<exists>r. si_reason inp = JStr r \<and> 8 \<le> length (js_trim r) \<and> length (js_trim r) \<le> 1000))"
proof -
  from assms obtain st why where op: "is_operational p" and st: "as_status (si_status inp) = Some st"
    and mv: "st \<in> set (allowedTransitions (ld_status l))" and closing: "terminal_status st \<longrightarrow> is_manager p \<and> truthy why"
    and why: "status_note l st inp = Inr why"
    by (auto simp: changeStatus_def Let_def split: if_splits option.splits sum.splits)
  have guards: "(terminal_status st \<and> \<not> is_manager p) = False" "(terminal_status st \<and> \<not> truthy why) = False"
    "(st \<notin> set (allowedTransitions (ld_status l))) = False" "(\<not> is_operational p) = False"
    using closing mv op by auto
  define l0 where "l0 = l\<lparr>ld_status := st, ld_lastActivityAt := Some (now s),
      ld_nextActionAt := (if terminal_status st then None else ld_nextActionAt l)\<rparr>"
  define a0 where "a0 = \<lparr>ac_id = fresh_uuid (s\<lparr>leads := js_set (leads s) i l0\<rparr>), ac_leadId = i, ac_type = STATUS_CHANGED,
      ac_result = status_name (ld_status l) @ ''->'' @ status_name st, ac_note = (if truthy why then why else None),
      ac_authorId = userId p, ac_nextActionAt = None, ac_correlationId = cid, ac_occurredAt = now s, ac_correction = None\<rparr>"
  have "changeStatus i inp p cid s = (Inr l0, audit_by p cid ''LEAD_STATUS_CHANGED''
      (JObj [(''leadId'', JStr i), (''status'', JStr (status_name (ld_status l)))])
      (JObj [(''leadId'', JStr i), (''status'', JStr (status_name st))])
      SUCCESS (''lead-status:'' @ ac_id a0) (add_to_timeline a0 (drawn (s\<lparr>leads := js_set (leads s) i l0\<rparr>))))"
    unfolding changeStatus_def a0_def l0_def
    by (simp only: assms(2) st why guards Let_def option.case sum.case if_False)
  with assms(1) have l': "l' = l0" and t: "js_get (leads t) i = Some l0" "activities t = activities s @ [a0]"
    by auto
  have "st = QUALIFIED \<or> st = ENROLLED \<and> ld_status l \<noteq> QUALIFIED \<Longrightarrow>
      positive_qualification (si_qualification inp) \<and> \<not> js_blank (ld_program l) \<and> \<not> js_blank (ld_educationLevel l)
      \<and> (\<exists>r. si_reason inp = JStr r \<and> 8 \<le> length (js_trim r) \<and> length (js_trim r) \<le> 1000)"
    using why by (auto simp: status_note_def positiveQualificationEvidence_def split: if_splits json.splits sum.splits)
  with l' t mv closing show ?thesis by (auto simp: l0_def a0_def)
qed

definition demo_qualification :: status_input where
  "demo_qualification = \<lparr>si_status = ''QUALIFIED'', si_reason = JStr ''motivated and eligible'',
     si_qualification = JObj [(''interestConfirmed'', JBool True), (''eligibilityConfirmed'', JBool True)]\<rparr>"

theorem status_change_evidence_witness:
  "positive_qualification (si_qualification demo_qualification)
     \<and> is_ok (fst (changeStatus ''id-'' demo_qualification demo_adviser ''c'' (lead_demo CONTACTED ())))"
proof -
  let ?run = "changeStatus ''id-'' demo_qualification demo_adviser ''c'' (lead_demo CONTACTED ())"
  have good: "case fst ?run of Inr l' \<Rightarrow> ld_status l' = QUALIFIED | Inl e \<Rightarrow> False" by code_simp
  then obtain l' where run: "?run = (Inr l', snd ?run)" and l': "ld_status l' = QUALIFIED"
    by (cases ?run; cases "fst ?run") auto
  have "js_get (leads (lead_demo CONTACTED ())) ''id-'' = Some (demo_lead ''id-'' CONTACTED)" by (simp add: js_get_def)
  from status_change_evidence [OF run this] l' have "positive_qualification (si_qualification demo_qualification)" by blast
  moreover have "is_ok (fst ?run)" using run by (metis fst_conv is_ok.simps(2))
  ultimately show ?thesis ..
qed

section \<open>Updates\<close>

lemma is_space_lower: "is_space (lower_char c) = is_space c"
proof -
  have "code (char_of n) = n mod 256" for n by (simp add: code_def)
  then show ?thesis by (auto simp: lower_char_def is_space_def between_def)
qed

lemma js_trim_lower: "js_trim (js_lower x) = js_lower (js_trim x)"
proof -
  have "dropWhile is_space (map lower_char y) = map lower_char (dropWhile is_space y)" for y
    by (simp add: dropWhile_map comp_def is_space_lower)
  then show ?thesis by (simp add: js_trim_def js_lower_def rev_map)
qed

lemma normal_email [simp]: "js_lower (js_trim (js_lower (js_trim x))) = js_lower (js_trim x)"
  by (simp add: js_trim_lower)

lemma normalizeLeadUpdate_contacts:
  assumes "normalizeLeadUpdate l kvs = Inr l'"
  shows "(ld_email l' = ld_email l \<or> ld_email l' = None \<or> (\<exists>x. ld_email l' = Some (js_lower (js_trim x)) \<and> validLeadEmail (js_lower (js_trim x))))
    \<and> (ld_phone l' = ld_phone l \<or> ld_phone l' = None \<or> (\<exists>x. ld_phone l' = Some (phone_digits x) \<and> phone_ok (phone_digits x)))"
proof -
  let ?l = "fold (\<lambda>f l'. case map_of kvs f of None \<Rightarrow> l' | Some v \<Rightarrow> set_lead_field f (js_trim v) l') update_fields l"
  have same: "ld_email ?l = ld_email l" "ld_phone ?l = ld_phone l"
    using fold_fields_id [of "map_of kvs" update_fields l] by blast+
  from assms have "normalizeLeadContacts ?l kvs = Inr l'"
    by (simp add: normalizeLeadUpdate_def split: if_splits)
  then show ?thesis
    unfolding normalizeLeadContacts_def Let_def
    by (auto simp: same js_blank_def split: option.splits if_splits)
qed

lemma find_ld_id:
  "find P (js_values (leads s)) = None \<Longrightarrow> js_get (leads s) j = Some m \<Longrightarrow> \<not> P m"
  by (auto simp: find_None_iff dest: js_get_in_values)

text \<open>
  C16: An update never takes a contact of another lead: when it gives a lead a new address or a
  new phone number, that value is normalised and valid, and no other lead has it.
\<close>

theorem update_keeps_contacts_apart:
  assumes "lead_ok s" and "js_get (leads s) i = Some l" and "updateLeadForApi i inp p cid s = (Inr l', t)"
    and "js_get (leads s) j = Some m" and "j \<noteq> i"
  shows "(ld_email l' = ld_email l \<or> ld_email l' = None \<or> validLeadEmail (opt_text (ld_email l')) \<and> ld_email m \<noteq> ld_email l')
    \<and> (ld_phone l' = ld_phone l \<or> ld_phone l' = None \<or> phone_ok (opt_text (ld_phone l')) \<and> ld_phone m \<noteq> ld_phone l')"
proof -
  have id: "ld_id x = k" if "js_get (leads s) k = Some x" for k x
    using assms(1) that by (simp add: lead_ok_def)
  have wf: "js_wf (leads s)" using assms(1) by (simp add: lead_ok_def)
  from assms(2,3) obtain em pm where norm: "normalizeLeadUpdate l (ul_fields inp) = Inr l'"
    and ids: "findIdentityMatches (ld_email l') (ld_phone l') s = (em, pm)"
    and free: "truthy em \<longrightarrow> em = Some i" "truthy pm \<longrightarrow> pm = Some i"
    by (auto simp: updateLeadForApi_def Let_def split: if_splits option.splits sum.splits prod.splits)
  have hit: "find P (js_values (leads s)) = Some x \<Longrightarrow> js_get (leads s) (ld_id x) = Some x \<and> P x" for P x
    using id js_values_get [OF wf] by (fastforce simp: find_Some_iff set_conv_nth)
  have named: "ld_id x \<noteq> []" if "js_get (leads s) k = Some x" for k x
    using assms(1) that unfolding lead_ok_def issued_def by fastforce
  have apart: "\<not> P m" if "\<not> P l" "truthy r \<longrightarrow> r = Some i" "r = map_option ld_id (find P (js_values (leads s)))" for P r
  proof (cases "find P (js_values (leads s))")
    case None
    from find_ld_id [OF None assms(4)] show ?thesis .
  next
    case (Some x)
    note x = hit [OF this]
    with named that(2,3) Some have "ld_id x = i" by auto
    with x assms(2) that(1) show ?thesis by simp
  qed
  from normalizeLeadUpdate_contacts [OF norm] show ?thesis
  proof (elim conjE, intro conjI)
    assume "ld_email l' = ld_email l \<or> ld_email l' = None \<or> (\<exists>x. ld_email l' = Some (js_lower (js_trim x)) \<and> validLeadEmail (js_lower (js_trim x)))"
    then show "ld_email l' = ld_email l \<or> ld_email l' = None \<or> validLeadEmail (opt_text (ld_email l')) \<and> ld_email m \<noteq> ld_email l'"
    proof (elim disjE exE conjE)
      fix x
      assume e: "ld_email l' = Some (js_lower (js_trim x))" "validLeadEmail (js_lower (js_trim x))"
      then have "js_lower (js_trim x) \<noteq> []" by (auto simp: validLeadEmail_def index_of_def)
      with ids e have em: "em = map_option ld_id (find (\<lambda>y. ld_email y = ld_email l') (js_values (leads s)))"
        by (auto simp: findIdentityMatches_def Let_def)
      show ?thesis
        using apart [OF _ free(1) em] e by fastforce
    qed simp_all
    assume "ld_phone l' = ld_phone l \<or> ld_phone l' = None \<or> (\<exists>x. ld_phone l' = Some (phone_digits x) \<and> phone_ok (phone_digits x))"
    then show "ld_phone l' = ld_phone l \<or> ld_phone l' = None \<or> phone_ok (opt_text (ld_phone l')) \<and> ld_phone m \<noteq> ld_phone l'"
    proof (elim disjE exE conjE)
      fix x
      assume e: "ld_phone l' = Some (phone_digits x)" "phone_ok (phone_digits x)"
      then have "phone_digits x \<noteq> []" by (auto simp: phone_ok_def)
      with ids e have pm: "pm = map_option ld_id (find (\<lambda>y. ld_phone y = ld_phone l') (js_values (leads s)))"
        by (auto simp: findIdentityMatches_def Let_def)
      show ?thesis
        using apart [OF _ free(2) pm] e by fastforce
    qed simp_all
  qed
qed

definition two_leads :: lead_state where
  "two_leads = (lead_demo CONTACTED ())\<lparr>leads := [(''id-'', demo_lead ''id-'' CONTACTED),
     (''id-x'', (demo_lead ''id-x'' PROSPECT)\<lparr>ld_email := Some ''c@d.fr''\<rparr>)]\<rparr>"

definition demo_update :: update_lead_input where
  "demo_update = \<lparr>ul_fields = [(''email'', '' X@y.fr '')], ul_expectedVersion = None, ul_idempotencyKey = ''k''\<rparr>"

theorem update_keeps_contacts_apart_witness:
  "case fst (updateLeadForApi ''id-'' demo_update demo_manager ''c'' two_leads) of
     Inl e \<Rightarrow> False | Inr l' \<Rightarrow> validLeadEmail (opt_text (ld_email l')) \<and> ld_email l' \<noteq> Some ''c@d.fr''"
proof -
  let ?run = "updateLeadForApi ''id-'' demo_update demo_manager ''c'' two_leads"
  have ok: "lead_ok two_leads"
  proof -
    have "issued two_leads = issued (lead_demo CONTACTED ())" by (simp add: two_leads_def)
    moreover have "{..<3::nat} = {0, 1, 2}" by auto
    ultimately have "{''id-'', ''id-x''} \<subseteq> issued two_leads"
      by (simp add: issued_def lead_demo_def note_demo_def user_demo_def demo_host_def)
    with lead_demo_ok [of CONTACTED "()"] show ?thesis
      by (auto simp: lead_ok_def two_leads_def js_wf_def js_keys_def js_get_def demo_lead_def blank_lead_def split: if_splits)
  qed
  have "case fst ?run of Inr l' \<Rightarrow> ld_email l' = Some ''x@y.fr'' | Inl e \<Rightarrow> False" by code_simp
  then obtain l' where run: "?run = (Inr l', snd ?run)" and mail: "ld_email l' = Some ''x@y.fr''"
    by (cases ?run; cases "fst ?run") auto
  have first: "js_get (leads two_leads) ''id-'' = Some (demo_lead ''id-'' CONTACTED)"
    and other: "js_get (leads two_leads) ''id-x'' = Some ((demo_lead ''id-x'' PROSPECT)\<lparr>ld_email := Some ''c@d.fr''\<rparr>)"
    by (simp_all add: two_leads_def js_get_def)
  have "fst ?run = Inr l'" by (subst run) simp
  then show ?thesis
    using update_keeps_contacts_apart [OF ok first run other] mail by (simp add: demo_lead_def)
qed

section \<open>Replayed actions\<close>

lemma receipts_inner [simp]:
  "apiActionReceipts (snd (changeStatus i st p cid s)) = apiActionReceipts s"
  "apiActionReceipts (snd (createLead ci p cid s)) = apiActionReceipts s"
  "apiActionReceipts (snd (correctActivity i ev c p cid s)) = apiActionReceipts s"
  "apiActionReceipts (snd (updateLeadForApi i u p cid s)) = apiActionReceipts s"
  "apiActionReceipts (snd (assignLocalLead i target p cid reason mode s)) = apiActionReceipts s"
  "apiActionReceipts (snd (reassignLocalLead i owner target p cid reason s)) = apiActionReceipts s"
  "apiActionReceipts (snd (recordFollowUp i n p cid res s)) = apiActionReceipts s"
  "apiActionReceipts (snd (applyCollaborator i target act txt p cid s)) = apiActionReceipts s"
  "apiActionReceipts (snd (appendIngestionActivity i ty res occ p cid s)) = apiActionReceipts s"
  "apiActionReceipts (snd (getLead i p cid s)) = apiActionReceipts s"
  "apiActionReceipts (snd (listLeads pil q p cid s)) = apiActionReceipts s"
  by (simp_all add: changeStatus_def createLead_def registerLocalLead_def correctActivity_def updateLeadForApi_def
      assignLocalLead_def reassignLocalLead_def recordFollowUp_def applyCollaborator_def appendIngestionActivity_def
      getLead_def listLeads_def Let_def case_prod_unfold split: option.split sum.split)

lemma receipts_changeStatus: "changeStatus i st p cid s = (r, t) \<Longrightarrow> apiActionReceipts t = apiActionReceipts s"
  using receipts_inner(1) [of i st p cid s] by simp

lemma receipts_addActivity [simp]: "apiActionReceipts (snd (addActivity i act p cid s)) = apiActionReceipts s"
proof -
  have "apiActionReceipts (snd (call (changeStatus i automatic_contact p cid u) (\<lambda>_ s4. (Inr a, s4)))) = apiActionReceipts u"
    for u :: "'a lead_state_scheme" and a :: activity
  proof -
    obtain r v where run: "changeStatus i automatic_contact p cid u = (r, v)"
      by (cases "changeStatus i automatic_contact p cid u")
    with receipts_changeStatus [OF run] show ?thesis by (cases r) simp_all
  qed
  then show ?thesis by (simp add: addActivity_def Let_def split: option.split sum.split)
qed

lemma receipt_kept:
  assumes "js_get (apiActionReceipts s) k = Some x" and "\<And>r t. run s = (r, t) \<Longrightarrow> apiActionReceipts t = apiActionReceipts s"
  shows "js_get (apiActionReceipts (snd (with_receipt key fp unpack pack run s))) k = Some x"
proof (cases "js_get (apiActionReceipts s) key")
  case (Some y)
  then show ?thesis using assms(1) by (cases y) (simp add: with_receipt_def)
next
  case None
  obtain r t where run: "run s = (r, t)" by (cases "run s")
  with assms(2) [OF run] None assms(1) show ?thesis by (cases r) (auto simp: with_receipt_def)
qed

lemma receipt_kept_request:
  assumes "lead_request p s t" and "js_get (apiActionReceipts s) k = Some x"
  shows "js_get (apiActionReceipts t) k = Some x"
  using assms
proof (induction rule: lead_request.induct)
  case (add p s l body cid)
  have "addActivity i act p cid s = (r, t) \<Longrightarrow> apiActionReceipts t = apiActionReceipts s" for i act r t
    using receipts_addActivity [of i act p cid s] by simp
  with add show ?case
    by (auto simp: addActivityForApi_def split: sum.split intro: receipt_kept)
next
  case (status p s l body cid)
  then show ?case
    by (auto simp: changeStatusForApi_def split: sum.split intro: receipt_kept receipts_changeStatus)
qed (simp_all add: createLeadForApi_def)

lemma receipt_kept_run:
  "lead_step\<^sup>*\<^sup>* s t \<Longrightarrow> js_get (apiActionReceipts s) k = Some x \<Longrightarrow> js_get (apiActionReceipts t) k = Some x"
proof (induction rule: rtranclp_induct)
  case (step t u)
  then obtain p where "lead_request p t u" by (auto simp: lead_step_def)
  from receipt_kept_request [OF this, of k x] step show ?case by simp
qed simp

text \<open>
  C17: An action sent with a key is recorded once. Sent again by the same person with the same
  body, whatever happened to the lead since, it returns the recorded activity and changes
  nothing; the same key with another body, or from someone else, is refused.
\<close>

theorem activity_recorded_once:
  assumes "addActivityForApi i body p cid s = (Inr a, s1)" and "field body ''idempotencyKey'' = JStr key"
    and "lead_step\<^sup>*\<^sup>* s1 t"
  shows "addActivityForApi i body p cid' t = (Inr a, t)
    \<and> (userId p' \<noteq> userId p \<longrightarrow> addActivityForApi i body p' cid' t = (Inl (Conflict ''lead_idempotency_conflict''), t))"
proof -
  let ?inp = "\<lparr>in_type = opt_text (text_of (field body ''type'')), in_result = opt_text (text_of (field body ''result'')),
    in_note = text_of (field body ''note''), in_nextActionAt = text_of (field body ''nextActionAt''), in_clearNextAction = False\<rparr>"
  let ?k = "''lead:activity:'' @ i @ '':'' @ key"
  have same: "addActivityForApi i body q c u =
      with_receipt ?k (userId q, body) receipt_activity ActivityReceipt (addActivity i ?inp q c) u" for q c u
    using assms(1,2)
    by (simp add: addActivityForApi_def key_or_correlation_def text_of_def split: sum.splits if_splits)
  have now_run: "with_receipt ?k (userId p, body) receipt_activity ActivityReceipt (addActivity i ?inp p cid) s = (Inr a, s1)"
    using same [of p cid s] assms(1) by (simp only:)
  have "\<exists>x. js_get (apiActionReceipts s1) ?k = Some ((userId p, body), x) \<and> receipt_activity x = a"
  proof (cases "js_get (apiActionReceipts s) ?k")
    case (Some y)
    obtain fp x where "y = (fp, x)" by (cases y)
    with now_run Some show ?thesis
      by (auto simp: with_receipt_def split: if_splits)
  next
    case None
    obtain r u where "addActivity i ?inp p cid s = (r, u)" by (cases "addActivity i ?inp p cid s")
    with now_run None show ?thesis
      unfolding with_receipt_def None by (cases r) auto
  qed
  then obtain x where "js_get (apiActionReceipts t) ?k = Some ((userId p, body), x)" "receipt_activity x = a"
    using receipt_kept_run [OF assms(3)] by blast
  then show ?thesis unfolding same by (simp add: with_receipt_def)
qed

definition demo_body :: "(string \<times> json) list" where
  "demo_body = [(''type'', JStr ''CRM_CALL''), (''result'', JStr ''NO_ANSWER''), (''idempotencyKey'', JStr ''key-00001'')]"

theorem activity_recorded_once_witness:
  "\<exists>a. addActivityForApi ''id-'' demo_body demo_adviser ''c2'' (snd (addActivityForApi ''id-'' demo_body demo_adviser ''c1'' (lead_demo PROSPECT ())))
     = (Inr a, snd (addActivityForApi ''id-'' demo_body demo_adviser ''c1'' (lead_demo PROSPECT ())))"
proof -
  let ?run = "addActivityForApi ''id-'' demo_body demo_adviser ''c1'' (lead_demo PROSPECT ())"
  have "is_ok (fst ?run)" by code_simp
  then obtain a where run: "?run = (Inr a, snd ?run)" by (cases ?run; cases "fst ?run") auto
  have "field demo_body ''idempotencyKey'' = JStr ''key-00001''" by (simp add: demo_body_def field_def)
  from activity_recorded_once [OF run this rtranclp.rtrancl_refl] show ?thesis by blast
qed

section \<open>The listing\<close>

lemma bind_result_Inr: "bind_result r k = Inr v \<longleftrightarrow> (\<exists>a. r = Inr a \<and> k a = Inr v)"
  by (cases r) (auto simp: bind_result_def)

lemma require_Inr: "require ok e k = Inr v \<longleftrightarrow> ok \<and> k = Inr v"
  by (simp add: require_def)

lemma validateListQuery_page:
  assumes "validateListQuery s q = Inr v" and "1 \<le> k"
  shows "validateListQuery s (q\<lparr>lq_page := JInt k\<rparr>) = Inr (v\<lparr>vq_page := k\<rparr>)"
  using assms unfolding validateListQuery_def bind_result_Inr require_Inr
  by - (elim exE conjE, drule sum.inject(2) [THEN iffD1], hypsubst,
     simp add: assertListPagination_def split del: if_split split: if_split_asm)

lemma matching_leads_page [simp]:
  "matching_leads pil (q\<lparr>lq_page := x\<rparr>) (v\<lparr>vq_page := k\<rparr>) p s = matching_leads pil q v p s"
proof -
  have "matchesListFilters s pil x (q\<lparr>lq_page := y\<rparr>) (v\<lparr>vq_page := k\<rparr>) p (now s) = matchesListFilters s pil x q v p (now s)" for x y
    unfolding matchesListFilters_def
    by (cases q, cases v) (simp only: lead_query.update_convs lead_query.select_convs
        valid_query.update_convs valid_query.select_convs)
  moreover have "compareListedLeads s (v\<lparr>vq_page := k\<rparr>) = compareListedLeads s v"
    unfolding compareListedLeads_def 
    by (cases v, intro ext) (simp only: valid_query.update_convs valid_query.select_convs)
  ultimately show ?thesis by (simp only: matching_leads_def)
qed

definition page_items ::
  "bool \<Rightarrow> lead_query \<Rightarrow> principal \<Rightarrow> string \<Rightarrow> 'a lead_state_scheme \<Rightarrow> nat \<Rightarrow> lead_view list" where
  "page_items pil q p cid s k =
     (case fst (listLeads pil (q\<lparr>lq_page := JInt (int k)\<rparr>) p cid s) of Inl e \<Rightarrow> [] | Inr pg \<Rightarrow> lp_items pg)"

lemma page_items_slice:
  assumes "validateListQuery s q = Inr v" and "can_read p" and "1 \<le> k"
  shows "page_items pil q p cid s k =
    page_slice (int k) (vq_pageSize v) (map (\<lambda>x. visibleLead (ll_lead x) p s) (matching_leads pil q v p s))"
  using validateListQuery_page [OF assms(1), of "int k"] assms(2,3)
  by (simp add: page_items_def listLeads_def Let_def page_slice_def take_map drop_map)

lemma validateListQuery_size: "validateListQuery s q = Inr v \<Longrightarrow> 1 \<le> vq_pageSize v"
  unfolding validateListQuery_def bind_result_Inr require_Inr
  by (elim exE conjE, drule sum.inject(2) [THEN iffD1], hypsubst)
     (simp add: assertListPagination_def split del: if_split split: if_split_asm)


definition demo_query :: lead_query where
  "demo_query = \<lparr>lq_page = JInt 1, lq_pageSize = JInt 1, lq_search = None, lq_assignedToId = None,
     lq_collaboratorId = None, lq_adviserId = None, lq_status = Some ''contacted'', lq_source = None,
     lq_channel = None, lq_program = None, lq_campaign = None, lq_campus = None, lq_createdFrom = None,
     lq_createdTo = None, lq_createdBefore = None, lq_assignmentMode = None, lq_importBatchId = None,
     lq_view = None, lq_sortBy = None, lq_sortDirection = None, lq_savedView = None, lq_temperature = None,
     lq_treatmentFrom = None, lq_treatmentTo = None, lq_treatmentState = None,
     lq_inactiveTreatmentBefore = None, lq_portfolioState = None, lq_acquisitionKind = None\<rparr>"


end
