(* ===== verification/Assignment.thy ===== *)
theory Assignment
  imports LeadLaws
begin

text \<open>
  The assignment engine: \<open>assignment/assignment.service.ts\<close> with the shared selection of
  \<open>assignment-selection.ts\<close>, the campus rules of \<open>campus-assignment-policy.ts\<close> and the balanced
  choice of \<open>balanced-new-entrants.ts\<close>; and the batches of \<open>lead-assignment.service.ts\<close>.
\<close>

section \<open>Rules and candidates\<close>

datatype assignment_strategy = ROUND_ROBIN | CONTROLLED_RANDOM

datatype assignment_scope = GLOBAL | SOURCE | CAMPAIGN

fun strategy_name :: "assignment_strategy \<Rightarrow> string" where
  "strategy_name ROUND_ROBIN = ''ROUND_ROBIN''"
| "strategy_name CONTROLLED_RANDOM = ''CONTROLLED_RANDOM''"

fun assignment_scope_name :: "assignment_scope \<Rightarrow> string" where
  "assignment_scope_name GLOBAL = ''GLOBAL''"
| "assignment_scope_name SOURCE = ''SOURCE''"
| "assignment_scope_name CAMPAIGN = ''CAMPAIGN''"

definition as_strategy :: "string \<Rightarrow> assignment_strategy option" where
  "as_strategy v = find (\<lambda>x. strategy_name x = v) [ROUND_ROBIN, CONTROLLED_RANDOM]"

definition as_assignment_scope :: "string \<Rightarrow> assignment_scope option" where
  "as_assignment_scope v = find (\<lambda>x. assignment_scope_name x = v) [GLOBAL, SOURCE, CAMPAIGN]"

text \<open>An absent \<open>suspended\<close> or \<open>excluded\<close> is falsy, as \<open>false\<close> is.\<close>

record assignment_candidate =
  cd_userId :: string
  cd_active :: bool
  cd_suspended :: bool
  cd_excluded :: bool
  cd_capacity :: jsnum
  cd_activeLeadCount :: jsnum

record assignment_rule_input =
  ri_id :: "string option"
  ri_scope :: string
  ri_matchValue :: "string option"
  ri_strategy :: string
  ri_balanceNewEntrants :: json
  ri_enabled :: bool
  ri_candidates :: "assignment_candidate list"

record assignment_rule =
  ar_id :: string
  ar_scope :: assignment_scope
  ar_matchValue :: "string option"
  ar_strategy :: assignment_strategy
  ar_balanceNewEntrants :: "bool option"
  ar_enabled :: bool
  ar_candidates :: "assignment_candidate list"
  ar_version :: int
  ar_cursor :: nat
  ar_updatedAt :: int
  ar_updatedBy :: string

record assignment_selection =
  sl_ruleId :: string
  sl_strategy :: assignment_strategy
  sl_selectedUserId :: string
  sl_candidateIds :: "string list"
  sl_candidateFingerprint :: string

record assignment_decision =
  de_id :: string
  de_eventKey :: string
  de_leadId :: string
  de_selection :: assignment_selection
  de_createdAt :: int

record assignment_context =
  ctx_leadId :: string
  ctx_source :: string
  ctx_campaign :: string
  ctx_eventKey :: string

section \<open>Selection\<close>

definition eligible :: "assignment_candidate \<Rightarrow> bool" where
  "eligible c = (cd_active c \<and> \<not> cd_suspended c \<and> \<not> cd_excluded c
     \<and> num_value (cd_activeLeadCount c) < num_value (cd_capacity c))"

definition eligible_candidates :: "'a host_scheme \<Rightarrow> assignment_candidate list \<Rightarrow> assignment_candidate list" where
  "eligible_candidates s cs = sort_by (\<lambda>a b. locale_cmp s (cd_userId a) (cd_userId b)) (filter eligible cs)"

text \<open>\<open>digest().readUInt32BE(0)\<close>: the first eight hexadecimal digits of the digest.\<close>

definition hex_digit :: "char \<Rightarrow> nat" where
  "hex_digit c = (if is_digit c then code c - 48 else if between 97 102 c then code c - 87 else 0)"

definition first_uint32 :: "string \<Rightarrow> nat" where
  "first_uint32 hex = fold (\<lambda>c n. 16 * n + hex_digit c) (take 8 hex) 0"

definition selectAssignmentCandidate ::
  "'a host_scheme \<Rightarrow> assignment_rule \<Rightarrow> string \<Rightarrow> nat \<Rightarrow> assignment_selection result" where
  "selectAssignmentCandidate s r eventKey offset =
     (let es = eligible_candidates s (ar_candidates r)
      in if es = [] then Inl (Conflict ''assignment_candidate_unavailable'')
         else (let index = (if ar_strategy r = ROUND_ROBIN then (ar_cursor r + offset) mod length es
                 else first_uint32 (sha256hex s (''assignment-v1:'' @ ar_id r @ '':'' @ eventKey)) mod length es);
                   ids = map cd_userId es
           in Inr \<lparr>sl_ruleId = ar_id r, sl_strategy = ar_strategy r, sl_selectedUserId = cd_userId (es ! index),
                sl_candidateIds = ids, sl_candidateFingerprint = sha256hex s (js_join '':'' ids)\<rparr>))"

section \<open>The engine\<close>

datatype preview_outcome = READY | SKIPPED | REFUSED

record preview_item =
  pv_leadId :: string
  pv_selectedUserId :: "string option"
  pv_outcome :: preview_outcome
  pv_reason :: "string option"

record batch_result =
  br_batchId :: string
  br_idempotencyKey :: string
  br_assigned :: "lead list"
  br_skipped :: "preview_item list"
  br_refused :: "preview_item list"

record assignment_state = lead_state +
  assignment_rules :: "(string, assignment_rule) js_map"
  assignment_decisions :: "(string, assignment_decision) js_map"
  assignment_history :: "assignment_rule list"
  completed_batches :: "(string, batch_result) js_map"
  activeLeadLocks :: "string list"

definition assignment_IDENTIFIER :: "string \<Rightarrow> bool" where
  "assignment_IDENTIFIER v = all_in word_dash 2 64 v"

definition candidate_ok :: "assignment_candidate \<Rightarrow> bool" where
  "candidate_ok c = (assignment_IDENTIFIER (cd_userId c) \<and> is_integer (cd_capacity c) \<and> \<not> num_value (cd_capacity c) < 1
     \<and> is_integer (cd_activeLeadCount c) \<and> \<not> num_value (cd_activeLeadCount c) < 0)"

definition normalizeRule ::
  "string \<Rightarrow> assignment_rule_input \<Rightarrow> 'a host_scheme \<Rightarrow> assignment_rule result \<times> 'a host_scheme" where
  "normalizeRule actor i s =
     (case (as_assignment_scope (ri_scope i), as_strategy (ri_strategy i)) of
        (Some sc, Some st) \<Rightarrow>
          (if (case ri_balanceNewEntrants i of JUndef \<Rightarrow> False | JBool b \<Rightarrow> b \<and> st \<noteq> CONTROLLED_RANDOM | _ \<Rightarrow> True)
           then (Inl (BadRequest ''assignment_balance_policy_invalid''), s)
           else (let m = map_option js_trim (ri_matchValue i)
             in if (sc = GLOBAL \<and> truthy m) \<or> (sc \<noteq> GLOBAL \<and> \<not> truthy m)
                then (Inl (BadRequest ''assignment_rule_match_invalid''), s)
                else if ri_candidates i = [] \<or> \<not> list_all candidate_ok (ri_candidates i)
                then (Inl (BadRequest ''assignment_candidate_invalid''), s)
                else if \<not> distinct (map cd_userId (ri_candidates i))
                then (Inl (Conflict ''assignment_candidate_duplicate''), s)
                else (let named = (case ri_id i of None \<Rightarrow> False | Some x \<Rightarrow> assignment_IDENTIFIER x)
                  in (Inr \<lparr>ar_id = (if named then opt_text (ri_id i) else fresh_uuid s), ar_scope = sc,
                        ar_matchValue = (if truthy m then m else None), ar_strategy = st,
                        ar_balanceNewEntrants = (case ri_balanceNewEntrants i of JBool b \<Rightarrow> Some b | _ \<Rightarrow> None),
                        ar_enabled = ri_enabled i, ar_candidates = ri_candidates i, ar_version = 1, ar_cursor = 0,
                        ar_updatedAt = now s, ar_updatedBy = actor\<rparr>,
                      if named then s else drawn s))))
      | _ \<Rightarrow> (Inl (BadRequest ''assignment_rule_invalid''), s))"

definition scope_key :: "assignment_rule \<Rightarrow> string" where
  "scope_key r = assignment_scope_name (ar_scope r) @ '':'' @ opt_text (ar_matchValue r)"

definition snapshotRules ::
  "assignment_rule_input list \<Rightarrow> string \<Rightarrow> 'a host_scheme \<Rightarrow> assignment_rule list result \<times> 'a host_scheme" where
  "snapshotRules inputs actor s =
     call (for_each (normalizeRule actor) inputs s) (\<lambda>rs s1.
       if \<not> distinct (map scope_key rs) then (Inl (Conflict ''assignment_rule_duplicate_scope''), s1)
       else if length (filter (\<lambda>r. ar_scope r = GLOBAL \<and> ar_enabled r) rs) \<noteq> 1
       then (Inl (BadRequest ''assignment_global_rule_required''), s1)
       else (Inr rs, s1))"

definition listRules :: "'a assignment_state_scheme \<Rightarrow> assignment_rule list" where
  "listRules s = sort_by (\<lambda>a b. locale_cmp s (ar_id a) (ar_id b)) (js_values (assignment_rules s))"

definition configure ::
  "assignment_rule_input list \<Rightarrow> principal \<Rightarrow> string \<Rightarrow> 'a assignment_state_scheme
     \<Rightarrow> assignment_rule list result \<times> 'a assignment_state_scheme" where
  "configure inputs p cid s =
     (if \<not> is_manager p then (Inl (Forbidden ''assignment_manager_required''), s)
      else if inputs = [] then (Inl (BadRequest ''assignment_rules_empty''), s)
      else call (snapshotRules inputs (userId p) s) (\<lambda>rs s1.
        (let s2 = s1\<lparr>assignment_rules := fold (\<lambda>r m. js_set m (ar_id r) r) rs [],
                assignment_history := assignment_history s1 @ rs\<rparr>;
             s3 = audit_by p cid ''ASSIGNMENT_CONFIGURATION_CHANGED'' JUndef
               (JObj [(''ruleIds'', JArr (map (\<lambda>r. JStr (ar_id r)) rs)), (''ruleCount'', JNat (length rs))])
               SUCCESS (''assignment-config:'' @ cid) s2
         in (Inr (listRules s3), s3))))"

definition configurationHistory :: "principal \<Rightarrow> 'a assignment_state_scheme \<Rightarrow> assignment_rule list result" where
  "configurationHistory p s =
     (if \<not> is_manager p then Inl (Forbidden ''assignment_manager_required'') else Inr (assignment_history s))"

text \<open>The one rule that applies to a context: a source or campaign rule, or else the global one.\<close>

definition rule_matches :: "assignment_context \<Rightarrow> assignment_rule \<Rightarrow> bool" where
  "rule_matches c r = (ar_enabled r
     \<and> (ar_scope r = SOURCE \<and> ar_matchValue r = Some (js_trim (ctx_source c))
        \<or> ar_scope r = CAMPAIGN \<and> ar_matchValue r = Some (js_trim (ctx_campaign c))))"

definition applicable_rule :: "assignment_context \<Rightarrow> assignment_rule list \<Rightarrow> assignment_rule result" where
  "applicable_rule c rs =
     (case filter (rule_matches c) rs of
        [] \<Rightarrow> (case find (\<lambda>r. ar_enabled r \<and> ar_scope r = GLOBAL) rs of
                 None \<Rightarrow> Inl (NotFound ''assignment_rule_not_found'') | Some r \<Rightarrow> Inr r)
      | [r] \<Rightarrow> Inr r
      | _ \<Rightarrow> Inl (Conflict ''assignment_rule_ambiguous''))"

definition engine_select ::
  "assignment_context \<Rightarrow> bool \<Rightarrow> nat \<Rightarrow> 'a assignment_state_scheme
     \<Rightarrow> assignment_selection result \<times> 'a assignment_state_scheme" where
  "engine_select c moves_cursor offset s =
     (if ctx_leadId c = [] \<or> ctx_eventKey c = [] \<or> js_blank (ctx_source c) \<or> js_blank (ctx_campaign c)
      then (Inl (BadRequest ''assignment_context_invalid''), s)
      else (case applicable_rule c (js_values (assignment_rules s)) of
        Inl e \<Rightarrow> (Inl e, s)
      | Inr r \<Rightarrow>
          if ar_balanceNewEntrants r = Some True then (Inl (Conflict ''assignment_balance_persistence_required''), s)
          else (case selectAssignmentCandidate s r (ctx_eventKey c) offset of
            Inl e \<Rightarrow> (Inl e, s)
          | Inr sel \<Rightarrow>
              (Inr sel,
               if moves_cursor \<and> ar_strategy r = ROUND_ROBIN
               then s\<lparr>assignment_rules := js_set (assignment_rules s) (ar_id r) (r\<lparr>ar_cursor := Suc (ar_cursor r)\<rparr>)\<rparr>
               else s))))"

definition simulate ::
  "assignment_context \<Rightarrow> principal \<Rightarrow> jsnum \<Rightarrow> 'a assignment_state_scheme
     \<Rightarrow> assignment_selection result \<times> 'a assignment_state_scheme" where
  "simulate c p offset s =
     (if \<not> is_manager p then (Inl (Forbidden ''assignment_manager_required''), s)
      else if \<not> is_integer offset \<or> num_value offset < 0
      then (Inl (BadRequest ''assignment_simulation_offset_invalid''), s)
      else engine_select c False (nat (num_value offset)) s)"

definition engine_assign ::
  "assignment_context \<Rightarrow> principal \<Rightarrow> string \<Rightarrow> 'a assignment_state_scheme
     \<Rightarrow> assignment_decision result \<times> 'a assignment_state_scheme" where
  "engine_assign c p cid s =
     (if \<not> is_operational p then (Inl (Forbidden ''assignment_role_forbidden''), s)
      else (case js_get (assignment_decisions s) (ctx_eventKey c) of
        Some d \<Rightarrow> (Inr d, s)
      | None \<Rightarrow> call (engine_select c True 0 s) (\<lambda>sel s1.
          (let d = \<lparr>de_id = fresh_uuid s1, de_eventKey = ctx_eventKey c, de_leadId = ctx_leadId c,
                  de_selection = sel, de_createdAt = now s1\<rparr>;
               s2 = (drawn s1)\<lparr>assignment_decisions := js_set (assignment_decisions s1) (ctx_eventKey c) d\<rparr>
           in (Inr d, audit_by p cid ''LEAD_AUTO_ASSIGNED'' JUndef
                 (JObj [(''leadId'', JStr (ctx_leadId c)), (''ruleId'', JStr (sl_ruleId sel)),
                        (''selectedUserId'', JStr (sl_selectedUserId sel)),
                        (''strategy'', JStr (strategy_name (sl_strategy sel))),
                        (''algorithmVersion'', JStr ''assignment-v1'')])
                 SUCCESS (''assignment-decision:'' @ ctx_eventKey c) s2)))))"

definition decisionHistory :: "principal \<Rightarrow> 'a assignment_state_scheme \<Rightarrow> assignment_decision list result" where
  "decisionHistory p s =
     (if \<not> is_manager p then Inl (Forbidden ''assignment_manager_required'')
      else Inr (sort_by (\<lambda>a b. cmp_or (cmp_int (de_createdAt b) (de_createdAt a)) (locale_cmp s (de_id b) (de_id a)))
                  (js_values (assignment_decisions s))))"

definition assertEligibleTarget :: "string \<Rightarrow> 'a assignment_state_scheme \<Rightarrow> unit result" where
  "assertEligibleTarget u s =
     (if list_ex (\<lambda>r. ar_enabled r \<and> list_ex (\<lambda>c. cd_userId c = u \<and> eligible c) (ar_candidates r))
           (js_values (assignment_rules s))
      then Inr () else Inl (Conflict ''assignment_target_ineligible''))"

section \<open>Batches\<close>

record assignment_item =
  it_leadId :: string
  it_source :: string
  it_campaign :: string

record batch_input =
  bi_idempotencyKey :: string
  bi_items :: "assignment_item list"
  bi_strategy :: string
  bi_targetUserId :: "string option"
  bi_confirmed :: bool

definition validate_batch :: "batch_input \<Rightarrow> bool \<Rightarrow> unit result" where
  "validate_batch i requireConfirmation =
     (if \<not> all_in word_colon 8 128 (bi_idempotencyKey i) \<or> length (bi_items i) < 1 \<or> 100 < length (bi_items i)
         \<or> \<not> distinct (map it_leadId (bi_items i))
      then Inl (BadRequest ''assignment_batch_invalid'')
      else if requireConfirmation \<and> \<not> bi_confirmed i then Inl (BadRequest ''assignment_confirmation_required'')
      else if bi_strategy i \<notin> {''FIXED'', ''ROUND_ROBIN'', ''CONTROLLED_RANDOM''}
      then Inl (BadRequest ''assignment_strategy_invalid'')
      else if (bi_strategy i = ''FIXED'') \<noteq> truthy (bi_targetUserId i)
      then Inl (BadRequest ''assignment_target_invalid'')
      else Inr ())"

definition fixedTarget :: "batch_input \<Rightarrow> 'a assignment_state_scheme \<Rightarrow> string result" where
  "fixedTarget i s = map_sum id (\<lambda>_. opt_text (bi_targetUserId i)) (assertEligibleTarget (opt_text (bi_targetUserId i)) s)"

definition item_context :: "batch_input \<Rightarrow> assignment_item \<Rightarrow> nat \<Rightarrow> assignment_context" where
  "item_context i x n = \<lparr>ctx_leadId = it_leadId x, ctx_source = it_source x, ctx_campaign = it_campaign x,
     ctx_eventKey = bi_idempotencyKey i @ '':'' @ show_int (int n)\<rparr>"

text \<open>A simulation leaves the state alone, so its model reads it.\<close>

definition simulatedTarget ::
  "batch_input \<Rightarrow> assignment_item \<Rightarrow> nat \<Rightarrow> principal \<Rightarrow> jsnum \<Rightarrow> 'a assignment_state_scheme \<Rightarrow> string result" where
  "simulatedTarget i x n p offset s =
     (case fst (simulate (item_context i x n) p offset s) of
        Inl e \<Rightarrow> Inl e
      | Inr sel \<Rightarrow> if strategy_name (sl_strategy sel) \<noteq> bi_strategy i
                   then Inl (Conflict ''assignment_strategy_rule_mismatch'') else Inr (sl_selectedUserId sel))"

definition engineTarget ::
  "batch_input \<Rightarrow> assignment_item \<Rightarrow> nat \<Rightarrow> principal \<Rightarrow> string \<Rightarrow> 'a assignment_state_scheme
     \<Rightarrow> string result \<times> 'a assignment_state_scheme" where
  "engineTarget i x n p cid s =
     call (engine_assign (item_context i x n) p (cid @ '':engine:'' @ show_int (int n)) s) (\<lambda>d s1.
       if strategy_name (sl_strategy (de_selection d)) \<noteq> bi_strategy i
       then (Inl (Conflict ''assignment_strategy_rule_mismatch''), s1)
       else (Inr (sl_selectedUserId (de_selection d)), s1))"

definition failure_reason :: "http_error \<Rightarrow> string" where
  "failure_reason e = (case e of Thrown _ \<Rightarrow> ''assignment_failed'' | _ \<Rightarrow> error_code e)"

definition not_assigned :: "string \<Rightarrow> preview_outcome \<Rightarrow> string \<Rightarrow> preview_item" where
  "not_assigned i out why = \<lparr>pv_leadId = i, pv_selectedUserId = None, pv_outcome = out, pv_reason = Some why\<rparr>"

definition preview_of ::
  "batch_input \<Rightarrow> principal \<Rightarrow> 'a assignment_state_scheme \<Rightarrow> nat \<times> assignment_item \<Rightarrow> preview_item" where
  "preview_of i p s nx = (case nx of (n, x) \<Rightarrow>
     (case findLocalLead (it_leadId x) s of
        None \<Rightarrow> not_assigned (it_leadId x) REFUSED ''lead_not_found''
      | Some l \<Rightarrow>
          if truthy (ld_assignedToId l) then not_assigned (it_leadId x) SKIPPED ''lead_already_assigned''
          else (case (if bi_strategy i = ''FIXED'' then fixedTarget i s else simulatedTarget i x n p (JInt 0) s) of
            Inl e \<Rightarrow> not_assigned (it_leadId x) REFUSED (failure_reason e)
          | Inr u \<Rightarrow> \<lparr>pv_leadId = it_leadId x, pv_selectedUserId = Some u, pv_outcome = READY, pv_reason = None\<rparr>)))"

definition preview :: "batch_input \<Rightarrow> principal \<Rightarrow> 'a assignment_state_scheme \<Rightarrow> preview_item list result" where
  "preview i p s = map_sum id (\<lambda>_. map (preview_of i p s) (enumerate 0 (bi_items i))) (validate_batch i False)"

definition previewTarget ::
  "batch_input \<Rightarrow> principal \<Rightarrow> jsnum \<Rightarrow> 'a assignment_state_scheme \<Rightarrow> string result" where
  "previewTarget i p offset s =
     (case validate_batch i False of
        Inl e \<Rightarrow> Inl e
      | Inr _ \<Rightarrow>
          (case bi_items i of
             [x] \<Rightarrow> if bi_strategy i = ''FIXED'' then fixedTarget i s else simulatedTarget i x 0 p offset s
           | _ \<Rightarrow> Inl (BadRequest ''assignment_preview_item_required'')))"

text \<open>
  One item of a batch: its lists of assigned, skipped and refused so far, and the lock of its
  lead around the work.
\<close>

definition batch_item ::
  "batch_input \<Rightarrow> principal \<Rightarrow> string \<Rightarrow> nat \<times> assignment_item
     \<Rightarrow> (lead list \<times> preview_item list \<times> preview_item list) \<times> 'a assignment_state_scheme
     \<Rightarrow> (lead list \<times> preview_item list \<times> preview_item list) \<times> 'a assignment_state_scheme" where
  "batch_item i p cid nx acc = (case (nx, acc) of ((n, x), ((ok, skipped, refused), s)) \<Rightarrow>
     (if it_leadId x \<in> set (activeLeadLocks s)
      then ((ok, skipped, refused @ [not_assigned (it_leadId x) REFUSED ''assignment_concurrent'']), s)
      else (let s0 = s\<lparr>activeLeadLocks := activeLeadLocks s @ [it_leadId x]\<rparr>;
                unlock = (\<lambda>u. u\<lparr>activeLeadLocks := filter (\<lambda>y. y \<noteq> it_leadId x) (activeLeadLocks u)\<rparr>)
        in case findLocalLead (it_leadId x) s0 of
             None \<Rightarrow> ((ok, skipped, refused @ [not_assigned (it_leadId x) REFUSED ''lead_not_found'']), unlock s0)
           | Some l \<Rightarrow>
               if truthy (ld_assignedToId l)
               then ((ok, skipped @ [not_assigned (it_leadId x) SKIPPED ''lead_already_assigned''], refused), unlock s0)
               else (case call (if bi_strategy i = ''FIXED'' then (fixedTarget i s0, s0) else engineTarget i x n p cid s0)
                       (\<lambda>u s1. assignLocalLead (it_leadId x) u p (cid @ '':'' @ show_int (int n))
                          (''BATCH:'' @ bi_idempotencyKey i) (bi_strategy i) s1) of
                   (Inl e, s2) \<Rightarrow> ((ok, skipped, refused @ [not_assigned (it_leadId x) REFUSED (failure_reason e)]), unlock s2)
                 | (Inr l', s2) \<Rightarrow> ((ok @ [l'], skipped, refused), unlock s2)))))"

definition assignBatch ::
  "batch_input \<Rightarrow> principal \<Rightarrow> string \<Rightarrow> 'a assignment_state_scheme \<Rightarrow> batch_result result \<times> 'a assignment_state_scheme" where
  "assignBatch i p cid s =
     (case validate_batch i True of
        Inl e \<Rightarrow> (Inl e, s)
      | Inr _ \<Rightarrow>
          (case js_get (completed_batches s) (bi_idempotencyKey i) of
             Some r \<Rightarrow> (Inr r, s)
           | None \<Rightarrow>
               (case fold (batch_item i p cid) (enumerate 0 (bi_items i)) (([], [], []), s) of
                  ((ok, skipped, refused), s1) \<Rightarrow>
                    (let r = \<lparr>br_batchId = fresh_uuid s1, br_idempotencyKey = bi_idempotencyKey i, br_assigned = ok,
                            br_skipped = skipped, br_refused = refused\<rparr>;
                         s2 = (drawn s1)\<lparr>completed_batches := js_set (completed_batches s1) (bi_idempotencyKey i) r\<rparr>
                     in (Inr r, audit_by p cid ''LEAD_ASSIGNMENT_BATCH_COMPLETED'' JUndef
                           (JObj [(''batchId'', JStr (br_batchId r)), (''assigned'', JNat (length ok)),
                                  (''skipped'', JNat (length skipped)), (''refused'', JNat (length refused)),
                                  (''strategy'', JStr (bi_strategy i))])
                           (if refused \<noteq> [] then FAILED else SUCCESS)
                           (''lead-assignment-batch:'' @ bi_idempotencyKey i) s2)))))"

definition assignOne ::
  "string \<Rightarrow> string \<Rightarrow> bool \<Rightarrow> string \<Rightarrow> principal \<Rightarrow> string \<Rightarrow> 'a assignment_state_scheme
     \<Rightarrow> lead result \<times> 'a assignment_state_scheme" where
  "assignOne i target confirmed key p cid s =
     (let l = findLocalLead i s;
          x = \<lparr>it_leadId = i, it_source = (case l of None \<Rightarrow> ''UNKNOWN'' | Some y \<Rightarrow> ld_source y),
               it_campaign = (case l of None \<Rightarrow> ''UNKNOWN'' | Some y \<Rightarrow> ld_campaign y)\<rparr>
      in call (assignBatch \<lparr>bi_idempotencyKey = key, bi_items = [x], bi_strategy = ''FIXED'',
                 bi_targetUserId = Some target, bi_confirmed = confirmed\<rparr> p cid s) (\<lambda>r s1.
           (case br_assigned r of
              y # _ \<Rightarrow> (Inr y, s1)
            | [] \<Rightarrow> (Inl (Conflict (case br_skipped r of
                 v # _ \<Rightarrow> (case pv_reason v of Some w \<Rightarrow> w | None \<Rightarrow> ''assignment_failed'')
               | [] \<Rightarrow> (case br_refused r of
                    v # _ \<Rightarrow> (case pv_reason v of Some w \<Rightarrow> w | None \<Rightarrow> ''assignment_failed'')
                  | [] \<Rightarrow> ''assignment_failed''))), s1))))"

definition completedHistory :: "principal \<Rightarrow> 'a assignment_state_scheme \<Rightarrow> batch_result list result" where
  "completedHistory p s =
     (if \<not> is_manager p then Inl (BadRequest ''assignment_manager_required'') else Inr (js_values (completed_batches s)))"

section \<open>Campus rules\<close>

text \<open>The scopes in their order of priority; only the rules of one scope can be ambiguous.\<close>

definition scope_peers :: "assignment_scope \<Rightarrow> string \<Rightarrow> string \<Rightarrow> assignment_rule_input list \<Rightarrow> assignment_rule_input list" where
  "scope_peers sc src camp rs = filter (\<lambda>r. ri_enabled r \<and> ri_scope r = assignment_scope_name sc
     \<and> (sc = GLOBAL \<or> ri_matchValue r = Some (if sc = CAMPAIGN then camp else src))) rs"

fun first_peer :: "assignment_scope list \<Rightarrow> string \<Rightarrow> string \<Rightarrow> assignment_rule_input list \<Rightarrow> assignment_rule_input option result" where
  "first_peer [] src camp rs = Inr None"
| "first_peer (sc # scs) src camp rs =
     (case scope_peers sc src camp rs of
        [] \<Rightarrow> first_peer scs src camp rs
      | [r] \<Rightarrow> Inr (Some r)
      | _ \<Rightarrow> Inl (Conflict ''assignment_rule_ambiguous''))"

definition applicableCampusRule :: "assignment_rule_input list \<Rightarrow> string \<Rightarrow> string \<Rightarrow> assignment_rule_input option result" where
  "applicableCampusRule rs src camp = first_peer [CAMPAIGN, SOURCE, GLOBAL] src camp rs"

definition object_fields :: "json \<Rightarrow> (string \<times> json) list result" where
  "object_fields v = (case v of JObj kvs \<Rightarrow> Inr kvs | _ \<Rightarrow> Inl (BadRequest ''assignment_configuration_invalid''))"

definition required_text :: "json \<Rightarrow> string result" where
  "required_text v = (case v of
     JStr t \<Rightarrow> if js_blank t then Inl (BadRequest ''assignment_configuration_invalid'') else Inr (js_trim t)
   | _ \<Rightarrow> Inl (BadRequest ''assignment_configuration_invalid''))"

definition absent_or_text :: "json \<Rightarrow> string option result" where
  "absent_or_text v = (if v = JUndef then Inr None else map_sum id Some (required_text v))"

definition optional_bool :: "json \<Rightarrow> bool" where
  "optional_bool v = (case v of JUndef \<Rightarrow> True | JBool _ \<Rightarrow> True | _ \<Rightarrow> False)"

definition parse_candidate :: "json \<Rightarrow> assignment_candidate result" where
  "parse_candidate v =
     (case object_fields v of
        Inl e \<Rightarrow> Inl e
      | Inr kvs \<Rightarrow>
          (case (field kvs ''active'', field kvs ''capacity'') of
             (JBool active, JNum capacity) \<Rightarrow>
               (if \<not> safe_integer capacity \<or> num_value capacity < 1
                   \<or> \<not> optional_bool (field kvs ''suspended'') \<or> \<not> optional_bool (field kvs ''excluded'')
                then Inl (BadRequest ''assignment_candidate_invalid'')
                else map_sum id (\<lambda>u. \<lparr>cd_userId = u, cd_active = active, cd_suspended = (field kvs ''suspended'' = JBool True),
                        cd_excluded = (field kvs ''excluded'' = JBool True), cd_capacity = capacity,
                        cd_activeLeadCount = JInt 0\<rparr>) (required_text (field kvs ''userId'')))
           | _ \<Rightarrow> Inl (BadRequest ''assignment_candidate_invalid'')))"

definition parse_rule :: "json \<Rightarrow> assignment_rule_input result" where
  "parse_rule v =
     (case object_fields v of
        Inl e \<Rightarrow> Inl e
      | Inr kvs \<Rightarrow>
          if field kvs ''scope'' \<notin> {JStr ''GLOBAL'', JStr ''SOURCE'', JStr ''CAMPAIGN''}
             \<or> field kvs ''strategy'' \<notin> {JStr ''ROUND_ROBIN'', JStr ''CONTROLLED_RANDOM''}
          then Inl (BadRequest ''assignment_rule_invalid'')
          else if (case field kvs ''balanceNewEntrants'' of JUndef \<Rightarrow> False
                    | JBool b \<Rightarrow> b \<and> field kvs ''strategy'' \<noteq> JStr ''CONTROLLED_RANDOM'' | _ \<Rightarrow> True)
          then Inl (BadRequest ''assignment_balance_policy_invalid'')
          else (case (field kvs ''enabled'', field kvs ''candidates'') of
            (JBool enabled, JArr cs) \<Rightarrow>
              (if 100 < length cs then Inl (BadRequest ''assignment_rule_invalid'')
               else (case absent_or_text (field kvs ''id'') of
                  Inl e \<Rightarrow> Inl e
                | Inr i \<Rightarrow>
                    (case absent_or_text (field kvs ''matchValue'') of
                       Inl e \<Rightarrow> Inl e
                     | Inr m \<Rightarrow>
                         map_sum id (\<lambda>ps. \<lparr>ri_id = i, ri_scope = opt_text (text_of (field kvs ''scope'')), ri_matchValue = m,
                           ri_strategy = opt_text (text_of (field kvs ''strategy'')),
                           ri_balanceNewEntrants = field kvs ''balanceNewEntrants'', ri_enabled = enabled,
                           ri_candidates = ps\<rparr>) (map_ok parse_candidate cs))))
          | _ \<Rightarrow> Inl (BadRequest ''assignment_rule_invalid'')))"

definition parseCampusRules :: "json \<Rightarrow> assignment_rule_input list result" where
  "parseCampusRules v = (case v of
     JArr rs \<Rightarrow> if 100 < length rs then Inl (BadRequest ''assignment_configuration_invalid'') else map_ok parse_rule rs
   | _ \<Rightarrow> Inl (BadRequest ''assignment_configuration_invalid''))"

section \<open>Balanced new entrants\<close>

definition count_of :: "(string, jsnum) js_map \<Rightarrow> string \<Rightarrow> int" where
  "count_of counts u = (case js_get counts u of None \<Rightarrow> 0 | Some n \<Rightarrow> num_value n)"

definition balancedNewEntrant ::
  "'a host_scheme \<Rightarrow> assignment_candidate list \<Rightarrow> (string, jsnum) js_map \<Rightarrow> (nat \<Rightarrow> jsnum)
     \<Rightarrow> (string \<times> int) option result" where
  "balancedNewEntrant s cs counts pick =
     (let es = eligible_candidates s cs
      in if es = [] then Inr None
         else if list_ex (\<lambda>n. \<not> safe_integer n \<or> num_value n < 0 \<or> 2147483647 \<le> num_value n) (js_values counts)
         then Inl (Conflict ''assignment_balance_capacity'')
         else (let minimum = Min (set (map (\<lambda>c. count_of counts (cd_userId c)) es));
                   peers = filter (\<lambda>c. count_of counts (cd_userId c) = minimum) es;
                   index = pick (length peers)
           in if \<not> safe_integer index \<or> num_value index < 0 \<or> int (length peers) \<le> num_value index
              then Inl (Conflict ''assignment_balance_random_invalid'')
              else Inr (Some (cd_userId (peers ! nat (num_value index)), minimum))))"

end
