(* ===== verification/Reassignment.thy ===== *)
theory Reassignment
  imports Assignment
begin

text \<open>
  Reassignment requests without a database: \<open>assignment/reassignment.service.ts\<close> with the
  intent check and the decision fingerprint of \<open>reassignment-persistence.ts\<close>.
\<close>

section \<open>Requests\<close>

datatype reassignment_status = RPending | RApproved | RRejected

fun reassignment_status_name :: "reassignment_status \<Rightarrow> string" where
  "reassignment_status_name RPending = ''PENDING''"
| "reassignment_status_name RApproved = ''APPROVED''"
| "reassignment_status_name RRejected = ''REJECTED''"

record reassignment_request =
  rq_id :: string
  rq_leadId :: string
  rq_currentOwnerId :: string
  rq_targetUserId :: string
  rq_reason :: string
  rq_moveOpenTasks :: bool
  rq_requestedBy :: string
  rq_status :: reassignment_status
  rq_requestedAt :: int
  rq_decidedBy :: "string option"
  rq_decidedAt :: "int option"
  rq_decisionReason :: "string option"
  rq_version :: int

record create_reassignment =
  cr_targetUserId :: string
  cr_reason :: string
  cr_moveOpenTasks :: bool
  cr_idempotencyKey :: string

record decide_reassignment =
  dr_approved :: bool
  dr_reason :: string
  dr_expectedVersion :: "int option"
  dr_idempotencyKey :: "string option"

record reassignment_state = assignment_state +
  requests :: "(string, reassignment_request) js_map"
  request_keys :: "(string, string) js_map"
  request_decisions :: "(string, string) js_map"

definition reason_ok :: "string \<Rightarrow> bool" where
  "reason_ok r = (4 \<le> length (js_trim r) \<and> length (js_trim r) \<le> 500)"

text \<open>The validation of a body gives its typed fields.\<close>

definition validateRequest :: "(string \<times> json) list \<Rightarrow> create_reassignment result" where
  "validateRequest kvs =
     (case strictBody [''targetUserId'', ''reason'', ''moveOpenTasks'', ''idempotencyKey''] kvs of
        Inl e \<Rightarrow> Inl e
      | Inr _ \<Rightarrow>
          (case (field kvs ''idempotencyKey'', field kvs ''reason'', field kvs ''targetUserId'', field kvs ''moveOpenTasks'') of
             (JStr k, JStr r, JStr t, JBool m) \<Rightarrow>
               (if all_in word_colon 8 128 k \<and> reason_ok r \<and> \<not> js_blank t \<and> length t \<le> 128
                then Inr \<lparr>cr_targetUserId = t, cr_reason = r, cr_moveOpenTasks = m, cr_idempotencyKey = k\<rparr>
                else Inl (BadRequest ''reassignment_request_invalid''))
           | _ \<Rightarrow> Inl (BadRequest ''reassignment_request_invalid'')))"

definition optional_version :: "json \<Rightarrow> int option result" where
  "optional_version v = (case v of
     JUndef \<Rightarrow> Inr None
   | JNum n \<Rightarrow> if safe_integer n \<and> \<not> num_value n < 1 then Inr (Some (num_value n))
               else Inl (BadRequest ''reassignment_decision_invalid'')
   | _ \<Rightarrow> Inl (BadRequest ''reassignment_decision_invalid''))"

definition optional_decision_key :: "json \<Rightarrow> string option result" where
  "optional_decision_key v = (case v of
     JUndef \<Rightarrow> Inr None
   | JStr k \<Rightarrow> if all_in word_colon 8 128 k then Inr (Some k) else Inl (BadRequest ''reassignment_decision_invalid'')
   | _ \<Rightarrow> Inl (BadRequest ''reassignment_decision_invalid''))"

definition validateDecision :: "(string \<times> json) list \<Rightarrow> decide_reassignment result" where
  "validateDecision kvs =
     (case strictBody [''approved'', ''reason'', ''expectedVersion'', ''idempotencyKey''] kvs of
        Inl e \<Rightarrow> Inl e
      | Inr _ \<Rightarrow>
          (case (field kvs ''approved'', field kvs ''reason'') of
             (JBool b, JStr r) \<Rightarrow>
               (if \<not> reason_ok r then Inl (BadRequest ''reassignment_decision_invalid'')
                else (case (optional_version (field kvs ''expectedVersion''), optional_decision_key (field kvs ''idempotencyKey'')) of
                  (Inr v, Inr k) \<Rightarrow> Inr \<lparr>dr_approved = b, dr_reason = r, dr_expectedVersion = v, dr_idempotencyKey = k\<rparr>
                | _ \<Rightarrow> Inl (BadRequest ''reassignment_decision_invalid'')))
           | _ \<Rightarrow> Inl (BadRequest ''reassignment_decision_invalid'')))"

definition assertReassignmentIntent :: "reassignment_request \<Rightarrow> string \<Rightarrow> create_reassignment \<Rightarrow> string \<Rightarrow> unit result" where
  "assertReassignmentIntent r leadId i actor =
     (if rq_leadId r \<noteq> leadId \<or> rq_requestedBy r \<noteq> actor \<or> rq_targetUserId r \<noteq> cr_targetUserId i
         \<or> rq_reason r \<noteq> js_trim (cr_reason i) \<or> rq_moveOpenTasks r \<noteq> cr_moveOpenTasks i
      then Inl (Conflict ''reassignment_idempotency_conflict'') else Inr ())"

definition decisionFingerprint :: "'a host_scheme \<Rightarrow> string \<Rightarrow> decide_reassignment \<Rightarrow> string \<Rightarrow> string" where
  "decisionFingerprint s i d actor =
     sha256hex s (json_text (JObj [(''id'', JStr i), (''actorId'', JStr actor), (''approved'', JBool (dr_approved d)),
       (''reason'', JStr (js_trim (dr_reason d))),
       (''expectedVersion'', JNum (JInt (case dr_expectedVersion d of None \<Rightarrow> 1 | Some v \<Rightarrow> v))),
       (''idempotencyKey'', case dr_idempotencyKey d of None \<Rightarrow> JNull | Some k \<Rightarrow> JStr k)]))"

section \<open>Operations\<close>

definition comment_activity :: "activity_type \<Rightarrow> string \<Rightarrow> string \<Rightarrow> activity_input" where
  "comment_activity ty res why = \<lparr>in_type = activity_name ty, in_result = res, in_note = Some why,
     in_nextActionAt = None, in_clearNextAction = False\<rparr>"

definition pending_for :: "string \<Rightarrow> reassignment_request \<Rightarrow> bool" where
  "pending_for leadId r = (rq_leadId r = leadId \<and> rq_status r = RPending)"

text \<open>
  \<open>this.requests.get(replay)!\<close>: every recorded key names a recorded request, so the branch
  without one is never reached.
\<close>

definition requestValidated ::
  "string \<Rightarrow> (string \<times> json) list \<Rightarrow> principal \<Rightarrow> string \<Rightarrow> 'a reassignment_state_scheme
     \<Rightarrow> reassignment_request result \<times> 'a reassignment_state_scheme" where
  "requestValidated leadId body p cid s =
     (if \<not> is_operational p then (Inl (Forbidden ''reassignment_request_role_forbidden''), s)
      else (case validateRequest body of
        Inl e \<Rightarrow> (Inl e, s)
      | Inr i \<Rightarrow>
          (case js_get (request_keys s) (cr_idempotencyKey i) of
             Some k \<Rightarrow>
               (case js_get (requests s) k of
                  None \<Rightarrow> (Inl (Thrown ''TypeError''), s)
                | Some r \<Rightarrow> (map_sum id (\<lambda>_. r) (assertReassignmentIntent r leadId i (userId p)), s))
           | None \<Rightarrow>
               (case findLocalLead leadId s of
                  None \<Rightarrow> (Inl (NotFound ''lead_not_found''), s)
                | Some l \<Rightarrow>
                    if \<not> truthy (ld_assignedToId l) then (Inl (Conflict ''reassignment_current_owner_missing''), s)
                    else if ADMISSIONS \<in> set (p_roles p) \<and> ld_assignedToId l \<noteq> Some (userId p)
                    then (Inl (Forbidden ''reassignment_owner_required''), s)
                    else if ld_assignedToId l = Some (cr_targetUserId i)
                    then (Inl (BadRequest ''reassignment_target_unchanged''), s)
                    else (case assertEligibleTarget (cr_targetUserId i) s of
                      Inl e \<Rightarrow> (Inl e, s)
                    | Inr _ \<Rightarrow>
                        if list_ex (pending_for leadId) (js_values (requests s))
                        then (Inl (Conflict ''reassignment_pending_exists''), s)
                        else (let r = \<lparr>rq_id = fresh_uuid s, rq_leadId = leadId,
                                    rq_currentOwnerId = opt_text (ld_assignedToId l), rq_targetUserId = cr_targetUserId i,
                                    rq_reason = js_trim (cr_reason i), rq_moveOpenTasks = cr_moveOpenTasks i,
                                    rq_requestedBy = userId p, rq_status = RPending, rq_requestedAt = now s,
                                    rq_decidedBy = None, rq_decidedAt = None, rq_decisionReason = None, rq_version = 1\<rparr>;
                                  s1 = (drawn s)\<lparr>requests := js_set (requests s) (rq_id r) r,
                                    request_keys := js_set (request_keys s) (cr_idempotencyKey i) (rq_id r)\<rparr>
                              in call (addActivity leadId (comment_activity REASSIGNMENT_REQUESTED (rq_id r) (rq_reason r)) p cid s1)
                                (\<lambda>_ s2. (Inr r, audit_by p cid ''LEAD_REASSIGNMENT_REQUESTED'' JUndef
                                  (JObj [(''requestId'', JStr (rq_id r)), (''leadId'', JStr leadId),
                                         (''currentOwnerId'', JStr (rq_currentOwnerId r)),
                                         (''targetUserId'', JStr (rq_targetUserId r)),
                                         (''moveOpenTasks'', JBool (rq_moveOpenTasks r))])
                                  SUCCESS (''reassignment-request:'' @ cr_idempotencyKey i) s2))))))))"

definition decideValidated ::
  "string \<Rightarrow> (string \<times> json) list \<Rightarrow> principal \<Rightarrow> string \<Rightarrow> 'a reassignment_state_scheme
     \<Rightarrow> (reassignment_request \<times> lead option) result \<times> 'a reassignment_state_scheme" where
  "decideValidated i body p cid s =
     (if \<not> is_manager p then (Inl (Forbidden ''reassignment_approval_role_required''), s)
      else (case validateDecision body of
        Inl e \<Rightarrow> (Inl e, s)
      | Inr d \<Rightarrow>
          (case js_get (requests s) i of
             None \<Rightarrow> (Inl (NotFound ''reassignment_request_not_found''), s)
           | Some r \<Rightarrow>
               if rq_requestedBy r = userId p then (Inl (Forbidden ''reassignment_separation_of_duties''), s)
               else (let fp = decisionFingerprint s i d (userId p)
                 in if rq_status r \<noteq> RPending
                    then (if js_get (request_decisions s) i \<noteq> Some fp
                          then (Inl (Conflict ''reassignment_idempotency_conflict''), s)
                          else (Inr (r, if dr_approved d then findLocalLead (rq_leadId r) s else None), s))
                    else if (case dr_expectedVersion d of None \<Rightarrow> 1 | Some v \<Rightarrow> v) \<noteq> rq_version r
                    then (Inl (Conflict ''reassignment_version_conflict''), s)
                    else call
                      (if dr_approved d
                       then (case assertEligibleTarget (rq_targetUserId r) s of
                               Inl e \<Rightarrow> (Inl e, s)
                             | Inr _ \<Rightarrow> call (reassignLocalLead (rq_leadId r) (rq_currentOwnerId r) (rq_targetUserId r) p cid (rq_reason r) s)
                                 (\<lambda>l s1. (Inr (Some l), s1)))
                       else call (addActivity (rq_leadId r) (comment_activity REASSIGNMENT_REJECTED i (js_trim (dr_reason d))) p cid s)
                              (\<lambda>_ s1. (Inr None, s1)))
                      (\<lambda>lead s1.
                        (let r' = r\<lparr>rq_status := (if dr_approved d then RApproved else RRejected), rq_decidedBy := Some (userId p),
                                rq_decidedAt := Some (now s1), rq_decisionReason := Some (js_trim (dr_reason d)),
                                rq_version := rq_version r + 1\<rparr>;
                             s2 = s1\<lparr>requests := js_set (requests s1) i r',
                                request_decisions := js_set (request_decisions s1) i fp\<rparr>
                         in (Inr (r', lead), audit_by p cid
                               (if dr_approved d then ''LEAD_REASSIGNMENT_APPROVED'' else ''LEAD_REASSIGNMENT_REJECTED'')
                               (JObj [(''requestId'', JStr i), (''status'', JStr ''PENDING'')])
                               (JObj [(''requestId'', JStr i), (''status'', JStr (reassignment_status_name (rq_status r'))),
                                      (''moveOpenTasks'', JBool (rq_moveOpenTasks r'))])
                               SUCCESS (''reassignment-decision:'' @ i) s2)))))))"

definition listForLead :: "string \<Rightarrow> principal \<Rightarrow> 'a reassignment_state_scheme \<Rightarrow> reassignment_request list result" where
  "listForLead leadId p s =
     (case findLocalLead leadId s of
        None \<Rightarrow> Inl (NotFound ''lead_not_found'')
      | Some l \<Rightarrow>
          if \<not> is_manager p \<and> ld_assignedToId l \<noteq> Some (userId p) then Inl (Forbidden ''reassignment_owner_required'')
          else Inr (sort_by (\<lambda>a b. cmp_int (rq_requestedAt b) (rq_requestedAt a))
                      (filter (\<lambda>r. rq_leadId r = leadId) (js_values (requests s)))))"

definition pendingForManager :: "principal \<Rightarrow> 'a reassignment_state_scheme \<Rightarrow> reassignment_request list result" where
  "pendingForManager p s =
     (if \<not> is_manager p then Inl (Forbidden ''reassignment_approval_role_required'')
      else Inr (sort_by (\<lambda>a b. cmp_or (cmp_int (rq_requestedAt a) (rq_requestedAt b)) (locale_cmp s (rq_id a) (rq_id b)))
                  (filter (\<lambda>r. rq_status r = RPending) (js_values (requests s)))))"

definition requestsReporting ::
  "bool \<Rightarrow> principal \<Rightarrow> 'a reassignment_state_scheme \<Rightarrow> reassignment_request list result" where
  "requestsReporting pilotage p s =
     (if hasPilotageReportingScope pilotage p
      then Inr (filter (\<lambda>r. rq_leadId r \<in> set (case permissionLeadIds p of None \<Rightarrow> [] | Some ids \<Rightarrow> ids)) (js_values (requests s)))
      else if \<not> is_manager p \<and> ADMISSIONS \<notin> set (p_roles p) then Inl (Forbidden ''reporting_role_required'')
      else Inr (filter (\<lambda>r. is_manager p \<or> rq_requestedBy r = userId p) (js_values (requests s))))"

end
