(* ===== verification/Closure.thy ===== *)
theory Closure
  imports LeadLaws
begin

text \<open>
  Closure requests: the in-memory path of \<open>closure/closure.service.ts\<close>. A lead closes only on
  the decision of a manager other than the requester.
\<close>

section \<open>Requests\<close>

datatype closure_state = ClPending | ClApproved | ClRejected | ClCancelled

fun closure_state_name :: "closure_state \<Rightarrow> string" where
  "closure_state_name ClPending = ''PENDING''"
| "closure_state_name ClApproved = ''APPROVED''"
| "closure_state_name ClRejected = ''REJECTED''"
| "closure_state_name ClCancelled = ''CANCELLED''"

text \<open>A target is a lead status; the reasons accepted for each.\<close>

definition closureReasons :: "lead_status \<Rightarrow> string list" where
  "closureReasons t = (case t of
     ENROLLED \<Rightarrow> [''ADMISSION_CONFIRMED'', ''REGISTRATION_COMPLETE'']
   | CLOSED_LOST \<Rightarrow> [''NOT_INTERESTED'', ''UNREACHABLE'', ''OTHER_PROGRAM'']
   | _ \<Rightarrow> [''COMMERCIAL_STAGE_REVIEW''])"

definition finalTarget :: "lead_status \<Rightarrow> bool" where
  "finalTarget t = (t = ENROLLED \<or> t = CLOSED_LOST)"

record closure_request =
  cl_id :: string
  cl_leadId :: string
  cl_target :: lead_status
  cl_reason :: string
  cl_comment :: string
  cl_evidence :: "string list"
  cl_requesterId :: string
  cl_state :: closure_state
  cl_version :: int
  cl_createdAt :: int
  cl_decidedAt :: "int option"
  cl_decidedBy :: "string option"
  cl_decisionReason :: "string option"

record closure_service = lead_state +
  closures :: "(string, closure_request) js_map"

definition qualificationPrefix :: string where
  "qualificationPrefix = ''SERVER_POSITIVE_QUALIFICATION_V1:''"

definition server_evidence :: "string list \<Rightarrow> string option" where
  "server_evidence es = find (starts_with qualificationPrefix) es"

definition closure_audit ::
  "closure_request \<Rightarrow> principal \<Rightarrow> string \<Rightarrow> string \<Rightarrow> 'a closure_service_scheme \<Rightarrow> 'a closure_service_scheme" where
  "closure_audit r p cid ty s =
     audit_by p cid ty JUndef
       (JObj [(''requestId'', JStr (cl_id r)), (''leadId'', JStr (cl_leadId r)),
              (''target'', JStr (status_name (cl_target r))), (''state'', JStr (closure_state_name (cl_state r))),
              (''version'', JNum (JInt (cl_version r))), (''evidenceCount'', JNat (length (cl_evidence r)))])
       SUCCESS (ty @ '':'' @ cl_id r @ '':'' @ show_int (cl_version r)) s"

section \<open>Requesting\<close>

text \<open>The texts of the evidence field, when it is an array of texts the server can accept.\<close>

definition evidence_texts :: "json \<Rightarrow> string list option" where
  "evidence_texts v = (case v of
     JArr es \<Rightarrow>
       if list_all (\<lambda>e. case e of JStr t \<Rightarrow> length t \<le> 1000 \<and> \<not> starts_with qualificationPrefix (js_trim t) | _ \<Rightarrow> False) es
       then Some (filter (\<lambda>t. t \<noteq> []) (map (\<lambda>e. js_trim (opt_text (text_of e))) es)) else None
   | _ \<Rightarrow> None)"

definition closure_key_ok :: "json \<Rightarrow> bool" where
  "closure_key_ok k = (case k of JUndef \<Rightarrow> True | JStr t \<Rightarrow> all_in word_colon 8 128 t | _ \<Rightarrow> False)"

text \<open>The identifier of a keyed request is derived from the lead, the requester and the key.\<close>

definition closure_id :: "string \<Rightarrow> string \<Rightarrow> json \<Rightarrow> 'a host_scheme \<Rightarrow> string" where
  "closure_id leadId u key s = (case key of
     JStr k \<Rightarrow> (let h = take 32 (sha256hex s (json_text (JArr [JStr leadId, JStr u, JStr k])))
       in take 8 h @ ''-'' @ take 4 (drop 8 h) @ ''-'' @ take 4 (drop 12 h) @ ''-'' @ take 4 (drop 16 h) @ ''-'' @ drop 20 h)
   | _ \<Rightarrow> fresh_uuid s)"

text \<open>
  The evidence the server adds to an enrolment: the observed qualification of a lead that is not
  qualified yet, or the recorded one of a replay.
\<close>

definition closure_evidence ::
  "lead \<Rightarrow> lead_status \<Rightarrow> closure_request option \<Rightarrow> json \<Rightarrow> string \<Rightarrow> string list \<Rightarrow> string list result" where
  "closure_evidence l target replay q comment es =
     (if target = ENROLLED \<and> (case replay of Some r \<Rightarrow> server_evidence (cl_evidence r) \<noteq> None
                                | None \<Rightarrow> ld_status l \<noteq> QUALIFIED)
      then (case positiveQualificationEvidence (ld_program l) (ld_educationLevel l) q (JStr comment) of
              Inl e \<Rightarrow> Inl e
            | Inr observed \<Rightarrow> Inr (es @ [case replay of
                 Some r \<Rightarrow> opt_text (server_evidence (cl_evidence r)) | None \<Rightarrow> qualificationPrefix @ observed]))
      else Inr es)"

definition closure_request_op ::
  "string \<Rightarrow> (string \<times> json) list \<Rightarrow> principal \<Rightarrow> string \<Rightarrow> 'a closure_service_scheme
     \<Rightarrow> closure_request result \<times> 'a closure_service_scheme" where
  "closure_request_op leadId kvs p cid s =
     (if \<not> is_operational p then (Inl (Forbidden ''closure_request_forbidden''), s)
      else (case strictBody [''target'', ''reason'', ''comment'', ''evidence'', ''qualification'', ''idempotencyKey''] kvs of
        Inl e \<Rightarrow> (Inl e, s)
      | Inr _ \<Rightarrow>
          (case (field kvs ''comment'', evidence_texts (field kvs ''evidence'')) of
             (JStr raw, Some es) \<Rightarrow>
               call (getLead leadId p cid s) (\<lambda>v s1.
                 (let l = lv_lead v; comment = js_trim raw
                  in case find (\<lambda>t. finalTarget t \<and> field kvs ''target'' = JStr (status_name t)) leadStatuses of
                       None \<Rightarrow> (Inl (BadRequest ''commercial_stage_approval_retired''), s1)
                     | Some target \<Rightarrow>
                         if field kvs ''reason'' \<notin> set (map JStr (closureReasons target)) \<or> comment = []
                            \<or> 1000 < length comment \<or> es = [] \<or> 10 < length es
                         then (Inl (BadRequest ''closure_request_invalid''), s1)
                         else if \<not> closure_key_ok (field kvs ''idempotencyKey'')
                         then (Inl (BadRequest ''closure_idempotency_invalid''), s1)
                         else (let i = closure_id leadId (userId p) (field kvs ''idempotencyKey'') s1;
                                   s2 = (if field kvs ''idempotencyKey'' = JUndef then drawn s1 else s1);
                                   replay = js_get (closures s2) i;
                                   reason = opt_text (text_of (field kvs ''reason''))
                               in case closure_evidence l target replay (field kvs ''qualification'') comment es of
                                    Inl e \<Rightarrow> (Inl e, s2)
                                  | Inr evs \<Rightarrow>
                                      (case replay of
                                         Some r \<Rightarrow>
                                           (if cl_target r \<noteq> target \<or> cl_reason r \<noteq> reason \<or> cl_comment r \<noteq> comment
                                               \<or> cl_evidence r \<noteq> evs
                                            then (Inl (Conflict ''closure_idempotency_conflict''), s2) else (Inr r, s2))
                                       | None \<Rightarrow>
                                           if ld_status l \<notin> {PROSPECT, CONTACTED, QUALIFIED}
                                           then (Inl (BadRequest ''closure_source_status_invalid''), s2)
                                           else if list_ex (\<lambda>r. cl_leadId r = leadId \<and> cl_state r = ClPending) (js_values (closures s2))
                                           then (Inl (Conflict ''closure_pending''), s2)
                                           else (let r = \<lparr>cl_id = i, cl_leadId = leadId, cl_target = target, cl_reason = reason,
                                                       cl_comment = comment, cl_evidence = evs, cl_requesterId = userId p,
                                                       cl_state = ClPending, cl_version = 1, cl_createdAt = now s2,
                                                       cl_decidedAt = None, cl_decidedBy = None, cl_decisionReason = None\<rparr>
                                                 in (Inr r, closure_audit r p cid ''CLOSURE_REQUESTED''
                                                       (s2\<lparr>closures := js_set (closures s2) i r\<rparr>)))))))
           | _ \<Rightarrow> (Inl (BadRequest ''closure_request_invalid''), s))))"

section \<open>Deciding\<close>

definition both_confirmed :: json where
  "both_confirmed = JObj [(''interestConfirmed'', JBool True), (''eligibilityConfirmed'', JBool True)]"

text \<open>The qualification recorded with an enrolment must still be the one the lead shows.\<close>

definition check_qualification ::
  "closure_request \<Rightarrow> principal \<Rightarrow> string \<Rightarrow> 'a closure_service_scheme \<Rightarrow> unit result \<times> 'a closure_service_scheme" where
  "check_qualification r p cid s =
     (case server_evidence (cl_evidence r) of
        Some q \<Rightarrow>
          (if cl_target r = ENROLLED
           then call (getLead (cl_leadId r) p cid s) (\<lambda>v s1.
             (case positiveQualificationEvidence (ld_program (lv_lead v)) (ld_educationLevel (lv_lead v)) both_confirmed (JStr (cl_comment r)) of
                Inl e \<Rightarrow> (Inl e, s1)
              | Inr t \<Rightarrow> if q \<noteq> qualificationPrefix @ t then (Inl (Conflict ''closure_qualification_stale''), s1) else (Inr (), s1)))
           else (Inr (), s))
      | None \<Rightarrow> (Inr (), s))"

definition closure_decide ::
  "string \<Rightarrow> json \<Rightarrow> json \<Rightarrow> json \<Rightarrow> principal \<Rightarrow> string \<Rightarrow> 'a closure_service_scheme
     \<Rightarrow> closure_request result \<times> 'a closure_service_scheme" where
  "closure_decide i decision reason expected p cid s =
     (case js_get (closures s) i of
        None \<Rightarrow> (Inl (NotFound ''closure_request_not_found''), s)
      | Some r \<Rightarrow>
          if cl_requesterId r = userId p then (Inl (Forbidden ''closure_self_approval_forbidden''), s)
          else if \<not> is_manager p then (Inl (Forbidden ''closure_approval_forbidden''), s)
          else if cl_state r \<noteq> ClPending \<or> expected \<noteq> JNum (JInt (cl_version r))
          then (Inl (Conflict ''closure_concurrent_decision''), s)
          else if \<not> finalTarget (cl_target r) then (Inl (Conflict ''commercial_stage_approval_retired''), s)
          else (let why = js_trim (opt_text (text_of reason))
            in if decision \<notin> {JStr ''APPROVE'', JStr ''REJECT''} \<or> why = [] \<or> 1000 < length why
               then (Inl (BadRequest ''closure_decision_invalid''), s)
               else call
                 (if decision = JStr ''APPROVE''
                  then call (check_qualification r p cid s) (\<lambda>_ s1.
                    call (changeStatus (cl_leadId r) \<lparr>si_status = status_name (cl_target r), si_reason = JStr (cl_comment r),
                       si_qualification = (if server_evidence (cl_evidence r) \<noteq> None then both_confirmed else JUndef)\<rparr> p cid s1)
                      (\<lambda>_ s2. (Inr (), s2)))
                  else (Inr (), s)) (\<lambda>_ s1.
                   (let r' = r\<lparr>cl_state := (if decision = JStr ''APPROVE'' then ClApproved else ClRejected),
                           cl_version := cl_version r + 1, cl_decidedAt := Some (now s1), cl_decidedBy := Some (userId p),
                           cl_decisionReason := Some why\<rparr>
                    in call (notification_create \<lparr>ni_recipientId = cl_requesterId r, ni_type = CLOSURE_REQUEST,
                            ni_priority = PrioHigh, ni_resourceType = ResLead, ni_resourceId = cl_leadId r,
                            ni_href = ''/leads/'' @ cl_leadId r @ ''/closure''\<rparr> (''closure-decision:'' @ i)
                            (s1\<lparr>closures := js_set (closures s1) i r'\<rparr>)) (\<lambda>_ s2.
                         (Inr r', closure_audit r' p cid (''CLOSURE_'' @ closure_state_name (cl_state r')) s2))))))"

definition closure_decideForApi ::
  "string \<Rightarrow> (string \<times> json) list \<Rightarrow> principal \<Rightarrow> string \<Rightarrow> 'a closure_service_scheme
     \<Rightarrow> closure_request result \<times> 'a closure_service_scheme" where
  "closure_decideForApi i kvs p cid s =
     (case strictBody [''decision'', ''reason'', ''expectedVersion''] kvs of
        Inl e \<Rightarrow> (Inl e, s)
      | Inr _ \<Rightarrow>
          if text_of (field kvs ''reason'') = None \<or> field kvs ''decision'' \<notin> {JStr ''APPROVE'', JStr ''REJECT''}
          then (Inl (BadRequest ''closure_decision_invalid''), s)
          else closure_decide i (field kvs ''decision'') (field kvs ''reason'') (field kvs ''expectedVersion'') p cid s)"

definition closure_cancel ::
  "string \<Rightarrow> principal \<Rightarrow> string \<Rightarrow> bool \<Rightarrow> 'a closure_service_scheme \<Rightarrow> closure_request result \<times> 'a closure_service_scheme" where
  "closure_cancel i p cid retireStage s =
     (case js_get (closures s) i of
        None \<Rightarrow> (Inl (NotFound ''closure_request_not_found''), s)
      | Some r \<Rightarrow>
          if retireStage \<and> (finalTarget (cl_target r) \<or> \<not> is_manager p) then (Inl (Forbidden ''closure_retirement_forbidden''), s)
          else if \<not> retireStage \<and> cl_requesterId r \<noteq> userId p then (Inl (Forbidden ''closure_cancel_forbidden''), s)
          else if cl_state r = ClCancelled \<and> cl_decidedBy r = Some (userId p) then (Inr r, s)
          else if cl_state r \<noteq> ClPending then (Inl (Conflict ''closure_concurrent_decision''), s)
          else (let r' = r\<lparr>cl_state := ClCancelled, cl_version := cl_version r + 1, cl_decidedAt := Some (now s),
                      cl_decidedBy := Some (userId p),
                      cl_decisionReason := Some (if finalTarget (cl_target r) then ''REQUESTER_CANCELLED''
                                                 else ''COMMERCIAL_STAGE_WORKFLOW_RETIRED_V1'')\<rparr>
                in (Inr r', closure_audit r' p cid ''CLOSURE_CANCELLED'' (s\<lparr>closures := js_set (closures s) i r'\<rparr>))))"

text \<open>A listed request with what the reader may do: decide, cancel, retire.\<close>

definition closure_list :: "principal \<Rightarrow> 'a closure_service_scheme \<Rightarrow> (closure_request \<times> bool \<times> bool \<times> bool) list" where
  "closure_list p s =
     map (\<lambda>r. (r, is_manager p \<and> cl_requesterId r \<noteq> userId p \<and> cl_state r = ClPending \<and> finalTarget (cl_target r),
               cl_requesterId r = userId p \<and> cl_state r = ClPending,
               is_manager p \<and> \<not> finalTarget (cl_target r) \<and> cl_state r = ClPending))
       (sort_by (\<lambda>a b. cmp_or (cmp_int (cl_createdAt b) (cl_createdAt a)) (locale_cmp s (cl_id b) (cl_id a)))
         (filter (\<lambda>r. (case permissionLeadIds p of None \<Rightarrow> True | Some ids \<Rightarrow> cl_leadId r \<in> set ids)
                    \<and> (is_manager p \<or> cl_requesterId r = userId p)) (js_values (closures s))))"

definition closure_reporting :: "bool \<Rightarrow> principal \<Rightarrow> 'a closure_service_scheme \<Rightarrow> closure_request list" where
  "closure_reporting pilotage p s =
     (if \<not> hasPilotageReportingScope pilotage p then map fst (closure_list p s)
      else filter (\<lambda>r. cl_leadId r \<in> set (case permissionLeadIds p of None \<Rightarrow> [] | Some ids \<Rightarrow> ids)) (js_values (closures s)))"

end
