(* ===== verification/Collaboration.thy ===== *)
theory Collaboration
  imports LeadLaws
begin

text \<open>
  Requests to add or remove a collaborator of a lead: the in-memory path of
  \<open>collaboration/lead-collaboration.service.ts\<close>.
\<close>

section \<open>Requests\<close>

datatype collaboration_state = CoPending | CoApproved | CoRejected | CoCancelled

fun collaboration_state_name :: "collaboration_state \<Rightarrow> string" where
  "collaboration_state_name CoPending = ''PENDING''"
| "collaboration_state_name CoApproved = ''APPROVED''"
| "collaboration_state_name CoRejected = ''REJECTED''"
| "collaboration_state_name CoCancelled = ''CANCELLED''"

datatype collaboration_role = ADVISER | ADMISSIONS_SUPPORT | ENROLLMENT_CONTRIBUTOR

fun collaboration_role_name :: "collaboration_role \<Rightarrow> string" where
  "collaboration_role_name ADVISER = ''ADVISER''"
| "collaboration_role_name ADMISSIONS_SUPPORT = ''ADMISSIONS_SUPPORT''"
| "collaboration_role_name ENROLLMENT_CONTRIBUTOR = ''ENROLLMENT_CONTRIBUTOR''"

definition as_collaboration_role :: "string option \<Rightarrow> collaboration_role option" where
  "as_collaboration_role v =
     find (\<lambda>r. v = Some (collaboration_role_name r)) [ADVISER, ADMISSIONS_SUPPORT, ENROLLMENT_CONTRIBUTOR]"

definition as_collaboration_action :: "string option \<Rightarrow> collaboration_action option" where
  "as_collaboration_action v = find (\<lambda>a. v = Some (action_name a)) [AddCollaborator, RemoveCollaborator]"

record collaboration_request =
  cq_id :: string
  cq_leadId :: string
  cq_targetUserId :: string
  cq_action :: collaboration_action
  cq_role :: collaboration_role
  cq_justification :: string
  cq_requesterId :: string
  cq_state :: collaboration_state
  cq_version :: int
  cq_createdAt :: int
  cq_decidedAt :: "int option"
  cq_decidedBy :: "string option"
  cq_decisionReason :: "string option"

record collaboration_service = lead_state +
  collaborations :: "(string, collaboration_request) js_map"

record collaboration_input =
  ki_targetUserId :: "string option"
  ki_action :: "string option"
  ki_role :: "string option"
  ki_justification :: "string option"

record decision_input =
  di_decision :: "string option"
  di_reason :: "string option"
  di_expectedVersion :: "int option"

definition collaboration_audit ::
  "collaboration_request \<Rightarrow> principal \<Rightarrow> string \<Rightarrow> string \<Rightarrow> 'a collaboration_service_scheme \<Rightarrow> 'a collaboration_service_scheme" where
  "collaboration_audit r p cid ty s =
     audit_by p cid ty JUndef
       (JObj [(''requestId'', JStr (cq_id r)), (''leadId'', JStr (cq_leadId r)),
              (''targetUserId'', JStr (cq_targetUserId r)), (''action'', JStr (action_name (cq_action r))),
              (''role'', JStr (collaboration_role_name (cq_role r))),
              (''state'', JStr (collaboration_state_name (cq_state r))), (''version'', JNum (JInt (cq_version r)))])
       SUCCESS (ty @ '':'' @ cq_id r @ '':'' @ show_int (cq_version r)) s"

definition collaboration_note :: "string \<Rightarrow> string \<Rightarrow> string \<Rightarrow> notification_input" where
  "collaboration_note recipient leadId href = \<lparr>ni_recipientId = recipient, ni_type = COLLABORATOR_REQUEST,
     ni_priority = PrioNormal, ni_resourceType = ResLead, ni_resourceId = leadId, ni_href = href\<rparr>"

section \<open>Operations\<close>

definition collaboration_request_op ::
  "string \<Rightarrow> collaboration_input \<Rightarrow> principal \<Rightarrow> string \<Rightarrow> 'a collaboration_service_scheme
     \<Rightarrow> collaboration_request result \<times> 'a collaboration_service_scheme" where
  "collaboration_request_op leadId i p cid s =
     call (getLead leadId p cid s) (\<lambda>v s1.
       (let l = lv_lead v; target = js_trim (opt_text (ki_targetUserId i)); why = js_trim (opt_text (ki_justification i))
        in if ld_assignedToId l \<noteq> Some (userId p) \<and> \<not> is_manager p
           then (Inl (Forbidden ''collaboration_request_forbidden''), s1)
           else (case (as_collaboration_action (ki_action i), as_collaboration_role (ki_role i)) of
             (Some act, Some role) \<Rightarrow>
               (if target = [] \<or> why = [] \<or> 500 < length why then (Inl (BadRequest ''collaboration_request_invalid''), s1)
                else if Some target = ld_assignedToId l then (Inl (BadRequest ''primary_assignee_protected''), s1)
                else (let present = (case ld_collaboratorIds l of None \<Rightarrow> False | Some cs \<Rightarrow> target \<in> set cs)
                  in if (act = AddCollaborator \<and> present) \<or> (act = RemoveCollaborator \<and> \<not> present)
                     then (Inl (Conflict ''collaboration_state_conflict''), s1)
                     else if list_ex (\<lambda>r. cq_leadId r = leadId \<and> cq_targetUserId r = target \<and> cq_state r = CoPending)
                               (js_values (collaborations s1))
                     then (Inl (Conflict ''collaboration_pending''), s1)
                     else (let r = \<lparr>cq_id = fresh_uuid s1, cq_leadId = leadId, cq_targetUserId = target, cq_action = act,
                                 cq_role = role, cq_justification = why, cq_requesterId = userId p, cq_state = CoPending,
                                 cq_version = 1, cq_createdAt = now s1, cq_decidedAt = None, cq_decidedBy = None,
                                 cq_decisionReason = None\<rparr>;
                               s2 = (drawn s1)\<lparr>collaborations := js_set (collaborations s1) (cq_id r) r\<rparr>
                           in call (notification_create (collaboration_note ''manager-queue'' leadId
                                 (''/leads/'' @ leadId @ ''/collaborators'')) (''collaboration-request:'' @ cq_id r) s2)
                                (\<lambda>_ s3. (Inr r, collaboration_audit r p cid ''COLLABORATION_REQUESTED'' s3)))))
           | _ \<Rightarrow> (Inl (BadRequest ''collaboration_request_invalid''), s1))))"

definition collaboration_decide ::
  "string \<Rightarrow> decision_input \<Rightarrow> principal \<Rightarrow> string \<Rightarrow> 'a collaboration_service_scheme
     \<Rightarrow> collaboration_request result \<times> 'a collaboration_service_scheme" where
  "collaboration_decide i d p cid s =
     (case js_get (collaborations s) i of
        None \<Rightarrow> (Inl (NotFound ''collaboration_request_not_found''), s)
      | Some r \<Rightarrow>
          if cq_requesterId r = userId p then (Inl (Forbidden ''collaboration_self_approval_forbidden''), s)
          else if \<not> is_manager p then (Inl (Forbidden ''collaboration_approval_forbidden''), s)
          else if cq_state r \<noteq> CoPending \<or> Some (cq_version r) \<noteq> di_expectedVersion d
          then (Inl (Conflict ''collaboration_concurrent_decision''), s)
          else (let reason = js_trim (opt_text (di_reason d))
            in if \<not> truthy (di_decision d) \<or> reason = [] then (Inl (BadRequest ''collaboration_decision_invalid''), s)
               else (let approve = (di_decision d = Some ''APPROVE'')
                 in call (if approve
                          then call (applyCollaborator (cq_leadId r) (cq_targetUserId r) (cq_action r)
                                 (collaboration_role_name (cq_role r)) p cid s) (\<lambda>_ s1. (Inr (), s1))
                          else (Inr (), s)) (\<lambda>_ s1.
                      (let r' = r\<lparr>cq_state := (if approve then CoApproved else CoRejected), cq_version := cq_version r + 1,
                              cq_decidedAt := Some (now s1), cq_decidedBy := Some (userId p), cq_decisionReason := Some reason\<rparr>;
                           s2 = s1\<lparr>collaborations := js_set (collaborations s1) i r'\<rparr>
                       in call (notification_create (collaboration_note (cq_requesterId r) (cq_leadId r)
                                  (''/leads/'' @ cq_leadId r @ ''/collaborators''))
                                (''collaboration-decision:'' @ i @ '':requester'') s2) (\<lambda>_ s3.
                            call (if approve
                                  then call (notification_create (collaboration_note (cq_targetUserId r) (cq_leadId r)
                                         (''/leads/'' @ cq_leadId r)) (''collaboration-decision:'' @ i @ '':target'') s3)
                                         (\<lambda>_ s4. (Inr (), s4))
                                  else (Inr (), s3)) (\<lambda>_ s4.
                              (Inr r', collaboration_audit r' p cid
                                 (''COLLABORATION_'' @ collaboration_state_name (cq_state r')) s4))))))))"

definition collaboration_list :: "principal \<Rightarrow> 'a collaboration_service_scheme \<Rightarrow> collaboration_request list" where
  "collaboration_list p s =
     sort_by (\<lambda>a b. cmp_or (cmp_int (cq_createdAt b) (cq_createdAt a)) (locale_cmp s (cq_id b) (cq_id a)))
       (filter (\<lambda>r. is_manager p \<or> cq_requesterId r = userId p \<or> cq_targetUserId r = userId p)
          (js_values (collaborations s)))"

end
