(* ===== verification/Frames.thy ===== *)
theory Frames
  imports LeadLaws
begin

text \<open>
  What the shared services leave alone. A service that works on leads keeps its own tables in a
  record that extends \<open>lead_state\<close>; the operations of \<open>LeadService\<close>, of the trail and of the
  notifications touch none of them, whatever the extension is. Stated once for the \<open>more\<close> part
  of the record, it gives the frame of every service.
\<close>

named_theorems service_frames \<open>the extension of a state that a shared operation leaves alone\<close>

lemma more_audit [simp, service_frames]:
  "lead_state.more (audit_by p c ty b a r k s) = lead_state.more s"
  "lead_state.more (drawn t) = lead_state.more t"
  "lead_state.more (add_to_timeline x u) = lead_state.more u"
  by (simp_all add: audit_by_def audit_record_def Let_def drawn_def add_to_timeline_def split: option.split)

lemma more_lead_operations [simp, service_frames]:
  "lead_state.more (snd (changeStatus i st p cid s)) = lead_state.more s"
  "lead_state.more (snd (assignLocalLead i target p cid reason mode s)) = lead_state.more s"
  "lead_state.more (snd (reassignLocalLead i owner target p cid reason s)) = lead_state.more s"
  "lead_state.more (snd (recordFollowUp i n p cid res s)) = lead_state.more s"
  "lead_state.more (snd (applyCollaborator i target act role p cid s)) = lead_state.more s"
  "lead_state.more (snd (appendIngestionActivity i ty res occ p cid s)) = lead_state.more s"
  "lead_state.more (snd (getLead i p cid s)) = lead_state.more s"
  "lead_state.more (snd (registerLocalLead l s)) = lead_state.more s"
  by (simp_all add: changeStatus_def registerLocalLead_def
      assignLocalLead_def reassignLocalLead_def recordFollowUp_def applyCollaborator_def appendIngestionActivity_def
      getLead_def Let_def case_prod_unfold split: option.split sum.split)

lemma more_call: "lead_state.more (snd m) = x \<Longrightarrow> (\<And>a s. lead_state.more s = x \<Longrightarrow> lead_state.more (snd (k a s)) = x)
    \<Longrightarrow> lead_state.more (snd (call m k)) = x"
  by (cases m; cases "fst m") auto

lemma more_addActivity [simp, service_frames]: "lead_state.more (snd (addActivity i act p cid s)) = lead_state.more s"
proof -
  have "lead_state.more (snd (call (changeStatus i automatic_contact p cid u) (\<lambda>_ s4. (Inr a, s4)))) = lead_state.more u"
    for u :: "'a lead_state_scheme" and a :: activity
    by (rule more_call) simp_all
  then show ?thesis by (simp add: addActivity_def Let_def split: option.split sum.split)
qed

lemma notification_create_fields [simp, service_frames]:
  "notification_state.more (snd (notification_create i k s)) = notification_state.more s"
  "uuid (snd (notification_create i k s)) = uuid s" "draws s \<le> draws (snd (notification_create i k s))"
  "now (snd (notification_create i k s)) = now s" "sha256hex (snd (notification_create i k s)) = sha256hex s"
  "audit_events (snd (notification_create i k s)) = audit_events s"
  by (simp_all add: notification_create_def Let_def drawn_def split: option.split sum.split)

lemma lead_fields_more:
  "notification_state.more s = notification_state.more t \<Longrightarrow> leads s = leads t"
  "notification_state.more s = notification_state.more t \<Longrightarrow> activities s = activities t"
  "notification_state.more s = notification_state.more t \<Longrightarrow> lead_state.more s = lead_state.more t"
  by (cases s; cases t; simp)+

lemma notification_create_leads [simp, service_frames]:
  "leads (snd (notification_create i k s)) = leads s"
  "activities (snd (notification_create i k s)) = activities s"
  "lead_state.more (snd (notification_create i k s)) = lead_state.more s"
  by (rule lead_fields_more, simp)+

lemma effect_notification: "lead_effect p s t \<Longrightarrow> lead_effect p s (snd (notification_create i k t))"
  by (erule lead_effect_trans, rule lead_effect_same) simp_all

lemma effect_call:
  assumes "lead_effect p s (snd m)" and "\<And>a t. m = (Inr a, t) \<Longrightarrow> lead_effect p s t \<Longrightarrow> lead_effect p s (snd (k a t))"
  shows "lead_effect p s (snd (call m k))"
  using assms by (cases m; cases "fst m") auto

section \<open>The trail\<close>

lemma same_host_trail: "same_host s (audit_by p c ty b a r k s)"
  by (rule same_host_audit_by)

lemma audit_locale [simp]: "locale_cmp (audit_by p c ty b a r k s) = locale_cmp s"
  using same_host_trail [of s p c ty b a r k] by (simp add: same_host_def)

lemma audit_supply [simp]:
  "uuid (audit_by p c ty b a r k s) = uuid s" "draws s \<le> draws (audit_by p c ty b a r k s)"
  "now (audit_by p c ty b a r k s) = now s"
  using same_host_trail [of s p c ty b a r k] by (simp_all add: same_host_def)

lemma audit_supply_le: "draws s \<le> draws t \<Longrightarrow> draws s \<le> draws (audit_by p c ty b a r k t)"
  using audit_supply(2) [of t p c ty b a r k] by linarith

section \<open>Maps and lists\<close>

lemma js_get_Cons: "js_get ((k, v) # m) k' = (if k' = k then Some v else js_get m k')"
  by (simp add: js_get_def)

lemma js_wf_Cons: "js_wf ((k, v) # m) \<longleftrightarrow> k \<notin> fst ` set m \<and> js_wf m"
  by (simp add: js_wf_def js_keys_def)

lemma keyed_Cons:
  assumes "js_wf ((k, v) # m)" and "js.keyed key ((k, v) # m)"
  shows "key v = k \<and> js_wf m \<and> js.keyed key m \<and> k \<notin> fst ` set m"
proof -
  from assms(1) have m: "k \<notin> fst ` set m" "js_wf m" by (simp_all add: js_wf_Cons)
  from assms(2) have get: "js_get ((k, v) # m) k' = Some w \<Longrightarrow> key w = k'" for k' w
    by (simp add: js.keyed_def)
  have "key w = k'" if "js_get m k' = Some w" for k' w
  proof (rule get)
    from that have "k' \<in> fst ` set m" by (force simp: js_get_def dest: map_of_SomeD)
    with m(1) that show "js_get ((k, v) # m) k' = Some w" by (auto simp: js_get_Cons)
  qed
  with m get [of k v] show ?thesis by (simp add: js.keyed_def js_get_Cons)
qed

lemma keyed_not_in:
  assumes "js.keyed key m" and "js_wf m" and "k \<notin> fst ` set m" and "v \<in> snd ` set m"
  shows "key v \<noteq> k"
proof -
  from assms(4) obtain k' where "(k', v) \<in> set m" by auto
  moreover from this assms(2) have "js_get m k' = Some v" by (simp add: js_get_def js_wf_def js_keys_def)
  ultimately show ?thesis using assms(1,3) by (force simp: js.keyed_def)
qed

lemma list_all2_source: "list_all2 P xs ys \<Longrightarrow> y \<in> set ys \<Longrightarrow> \<exists>x. P x y"
  by (induction rule: list_all2_induct) auto

lemma map_sum_Inr: "map_sum id f r = Inr y \<longleftrightarrow> (\<exists>x. r = Inr x \<and> y = f x)"
  by (cases r) auto

section \<open>Operations of the lead service\<close>

text \<open>Operations in the form in which a service meets them: the pair they return.\<close>

lemma operation_pairs:
  "getLead i p cid s = (r, t) \<Longrightarrow> lead_effect p s t \<and> lead_state.more t = lead_state.more s"
  "addActivity i act p cid s = (ra, t) \<Longrightarrow> lead_effect p s t \<and> lead_state.more t = lead_state.more s"
  "changeStatus i st p cid s = (rl, t) \<Longrightarrow> lead_effect p s t \<and> lead_state.more t = lead_state.more s"
  "recordFollowUp i nx p cid res s = (ru, t) \<Longrightarrow> lead_effect p s t \<and> lead_state.more t = lead_state.more s"
  "applyCollaborator i target ac role p cid s = (rc, t) \<Longrightarrow> lead_effect p s t \<and> lead_state.more t = lead_state.more s"
  "reassignLocalLead i owner target p cid reason s = (rr, t) \<Longrightarrow> lead_effect p s t \<and> lead_state.more t = lead_state.more s"
  "assignLocalLead i target p cid reason mode s = (rs, t) \<Longrightarrow> lead_effect p s t \<and> lead_state.more t = lead_state.more s"
  "notification_create ni k s = (rn, t) \<Longrightarrow> lead_effect p s t \<and> lead_state.more t = lead_state.more s"
  using effect_reads(1) [of p s i cid] effect_addActivity [of p s i act cid] effect_changeStatus [of p s i st cid]
    effect_recordFollowUp [of p s i nx cid res] effect_applyCollaborator [of p s i target ac role cid]
    effect_reassignLocalLead [of p s i owner target cid reason] effect_assignLocalLead [of p s i target cid reason mode]
    effect_notification [OF lead_effect_refl, of p s ni k]
    more_lead_operations more_addActivity notification_create_leads(3)
  by (metis snd_conv)+

end
