(* ===== verification/LeadRequests.thy ===== *)
theory LeadRequests
  imports Frames
begin

text \<open>
  The requests on leads, taken together, leave the tables of every other service alone: the
  frame of the services that have steps of their own beside them.
\<close>

lemma more_lead_requests [simp, service_frames]:
  "lead_state.more (snd (createLead ci p cid s)) = lead_state.more s"
  "lead_state.more (snd (correctActivity i ev c p cid s)) = lead_state.more s"
  "lead_state.more (snd (updateLeadForApi i u p cid s)) = lead_state.more s"
  "lead_state.more (snd (listLeads pil q p cid s)) = lead_state.more s"
  by (simp_all add: createLead_def registerLocalLead_def correctActivity_def updateLeadForApi_def
      listLeads_def Let_def case_prod_unfold split: option.split sum.split)

lemma more_with_receipt:
  assumes "\<And>r t. run s = (r, t) \<Longrightarrow> lead_state.more t = lead_state.more s"
  shows "lead_state.more (snd (with_receipt key fp unpack pack run s)) = lead_state.more s"
proof -
  obtain r t where run: "run s = (r, t)" by (cases "run s")
  show ?thesis
  proof (cases "js_get (apiActionReceipts s) key")
    case (Some x)
    then show ?thesis by (cases x) (simp add: with_receipt_def)
  next
    case None
    then show ?thesis using run assms [OF run] by (cases r) (simp_all add: with_receipt_def)
  qed
qed

lemma more_request: "lead_request p s t \<Longrightarrow> lead_state.more t = lead_state.more s"
proof (induction rule: lead_request.induct)
  case (add p s l body cid)
  have "addActivity i act p cid s = (r, t) \<Longrightarrow> lead_state.more t = lead_state.more s" for i act r t
    using more_addActivity [of i act p cid s] by simp
  then show ?case by (auto simp: addActivityForApi_def split: sum.split intro: more_with_receipt)
next
  case (status p s l body cid)
  have "changeStatus i st p cid s = (r, t) \<Longrightarrow> lead_state.more t = lead_state.more s" for i st r t
    using more_lead_operations(1) [of i st p cid s] by simp
  then show ?case by (auto simp: changeStatusForApi_def split: sum.split intro: more_with_receipt)
qed (simp_all add: createLeadForApi_def)

section \<open>The supply of identifiers\<close>

text \<open>Identifiers are drawn and never given back.\<close>

definition grows :: "'a host_scheme \<Rightarrow> 'a host_scheme \<Rightarrow> bool" where
  "grows s t \<longleftrightarrow> uuid t = uuid s \<and> draws s \<le> draws t"

lemma supply_refl [simp]: "grows s s"
  by (simp add: grows_def)

lemma supply_trans: "grows s t \<Longrightarrow> grows t u \<Longrightarrow> grows s u"
  by (auto simp: grows_def)

lemma supply_issued: "grows s t \<Longrightarrow> issued s \<subseteq> issued t"
  by (auto simp: grows_def issued_def)

lemma supply_audit: "grows s t \<Longrightarrow> grows s (audit_by p c ty b a r k t)"
  by (auto simp: grows_def intro: audit_supply_le)

lemma supply_drawn: "grows s t \<Longrightarrow> grows s (drawn t)"
  by (auto simp: grows_def)

lemma supply_timeline: "grows s t \<Longrightarrow> grows s (add_to_timeline x t)"
  by (auto simp: grows_def)

lemma supply_update:
  "grows s t \<Longrightarrow> grows s (t\<lparr>leads := ls\<rparr>)" "grows s t \<Longrightarrow> grows s (t\<lparr>correctionReceipts := cs\<rparr>)"
  "grows s t \<Longrightarrow> grows s (t\<lparr>apiActionReceipts := as\<rparr>)" "grows s t \<Longrightarrow> grows s (t\<lparr>now := n\<rparr>)"
  by (simp_all add: grows_def)

lemmas supply_intros = supply_audit supply_drawn supply_timeline supply_update

lemma supply_operations:
  "grows s (snd (changeStatus i st p cid s))" "grows s (snd (assignLocalLead i target p cid reason mode s))"
  "grows s (snd (reassignLocalLead i owner target p cid reason s))" "grows s (snd (recordFollowUp i n p cid res s))"
  "grows s (snd (applyCollaborator i target act role p cid s))"
  "grows s (snd (appendIngestionActivity i ty res occ p cid s))" "grows s (snd (getLead i p cid s))"
  "grows s (snd (createLead ci p cid s))" "grows s (snd (correctActivity i ev c p cid s))"
  "grows s (snd (updateLeadForApi i u p cid s))" "grows s (snd (listLeads pil q p cid s))"
  "grows s (snd (registerLocalLead l s))"
  by (auto simp: changeStatus_def registerLocalLead_def assignLocalLead_def reassignLocalLead_def recordFollowUp_def
      applyCollaborator_def appendIngestionActivity_def getLead_def createLead_def correctActivity_def updateLeadForApi_def
      listLeads_def Let_def case_prod_unfold split: option.split sum.split intro!: supply_intros)

lemma supply_addActivity: "grows s (snd (addActivity i act p cid s))"
proof -
  have contact: "grows s (snd (call (changeStatus i automatic_contact p cid u) (\<lambda>_. Pair (Inr a))))" if "grows s u" for u a
    using supply_trans [OF that supply_operations(1) [of u i automatic_contact p cid]]
    by (cases "changeStatus i automatic_contact p cid u"; cases "fst (changeStatus i automatic_contact p cid u)") auto
  then show ?thesis
    by (auto simp: addActivity_def Let_def split: option.split sum.split intro!: contact supply_intros)
qed

lemma supply_notification: "grows s (snd (notification_create i k s))"
  by (simp add: grows_def)

lemma supply_with_receipt:
  assumes "\<And>r t. run s = (r, t) \<Longrightarrow> grows s t"
  shows "grows s (snd (with_receipt key fp unpack pack run s))"
proof -
  obtain r t where run: "run s = (r, t)" by (cases "run s")
  show ?thesis
  proof (cases "js_get (apiActionReceipts s) key")
    case (Some x)
    then show ?thesis by (cases x) (simp add: with_receipt_def)
  next
    case None
    then show ?thesis using run assms [OF run] by (cases r) (simp_all add: with_receipt_def supply_intros)
  qed
qed

lemma supply_request: "lead_request p s t \<Longrightarrow> grows s t"
proof (induction rule: lead_request.induct)
  case (add p s l body cid)
  have "addActivity i act p cid s = (r, t) \<Longrightarrow> grows s t" for i act r t
    using supply_addActivity [of s i act p cid] by simp
  then show ?case by (auto simp: addActivityForApi_def split: sum.split intro: supply_with_receipt)
next
  case (status p s l body cid)
  have "changeStatus i st p cid s = (r, t) \<Longrightarrow> grows s t" for i st r t
    using supply_operations(1) [of s i st p cid] by simp
  then show ?case by (auto simp: changeStatusForApi_def split: sum.split intro: supply_with_receipt)
qed (simp_all add: createLeadForApi_def supply_operations supply_addActivity supply_intros)

end
