(* ===== verification/AssignmentLaws.thy ===== *)
theory AssignmentLaws
  imports Assignment Frames
begin

text \<open>
  What the assignment engine promises: the round robin serves its candidates as a rotating
  queue does, so that consecutive leads go to everyone in turn; a batch accounts for each of its
  items and takes no lead from anybody; new entrants are spread evenly; the rules of a campus
  are well formed when the parser accepts them.
\<close>

section \<open>The rules of the engine\<close>

text \<open>Every rule is filed under its own identifier, as \<open>configure\<close> does.\<close>

definition rules_ok :: "'a assignment_state_scheme \<Rightarrow> bool" where
  "rules_ok s \<longleftrightarrow> js_wf (assignment_rules s) \<and> js.keyed ar_id (assignment_rules s)"

lemma rules_ok_put: "rules_ok s \<Longrightarrow> rules_ok (s\<lparr>assignment_rules := js_set (assignment_rules s) (ar_id r) r\<rparr>)"
  by (simp add: rules_ok_def js.keyed_put)

text \<open>Replacing a record by one that the same filter accepts replaces it in the filtered values.\<close>

lemma filter_values_set:
  assumes "js_wf m" and "js.keyed key m" and "js_get m k = Some v" and "P w = P v" and "key w = k"
  shows "filter P (js_values (js_set m k w)) = map (\<lambda>x. if key x = k then w else x) (filter P (js_values m))"
  using assms
proof (induction m)
  case (Cons e m)
  obtain k0 v0 where e: "e = (k0, v0)" by (cases e)
  note head = keyed_Cons [OF Cons.prems(1,2) [unfolded e]]
  show ?case
  proof (cases "k0 = k")
    case True
    with Cons.prems(3) e have "v0 = v" by (simp add: js_get_def)
    moreover from head True have "key x \<noteq> k" if "x \<in> snd ` set m" for x
      using that keyed_not_in by fast
    then have "map (\<lambda>x. if key x = k then w else x) (filter P (map snd m)) = filter P (map snd m)"
      by (intro map_idI) auto
    ultimately show ?thesis using True e head Cons.prems(4) by (simp add: js_set_def js_values_def)
  next
    case False
    with Cons.prems(3) e have "js_get m k = Some v" by (simp add: js_get_def)
    with Cons.IH head Cons.prems(4,5) have "filter P (js_values (js_set m k w)) = map (\<lambda>x. if key x = k then w else x) (filter P (js_values m))"
      by blast
    with False e head show ?thesis by (simp add: js_set_def js_values_def)
  qed
qed (simp add: js_get_def)

lemma find_filter: "find P xs = (case filter P xs of [] \<Rightarrow> None | x # _ \<Rightarrow> Some x)"
  by (induction xs) auto

lemma applicable_values:
  assumes "applicable_rule c (js_values m) = Inr r"
  shows "r \<in> set (js_values m)"
proof -
  from assms have "filter (rule_matches c) (js_values m) = [r] \<or> find (\<lambda>r. ar_enabled r \<and> ar_scope r = GLOBAL) (js_values m) = Some r"
    by (simp add: applicable_rule_def split: list.splits option.splits)
  then have "r \<in> set (filter (rule_matches c) (js_values m)) \<or> find (\<lambda>r. ar_enabled r \<and> ar_scope r = GLOBAL) (js_values m) = Some r"
    by (metis list.set_intros(1))
  then show ?thesis
  proof
    assume "r \<in> set (filter (rule_matches c) (js_values m))"
    then show ?thesis unfolding set_filter by (elim CollectE conjE)
  next
    assume "find (\<lambda>r. ar_enabled r \<and> ar_scope r = GLOBAL) (js_values m) = Some r"
    then show ?thesis by (auto simp: find_Some_iff)
  qed
qed

text \<open>Moving the cursor of a rule on does not change which rule applies to a context.\<close>

lemma applicable_moved:
  assumes "js_wf m" and "js.keyed ar_id m" and "js_get m (ar_id r) = Some r" and "applicable_rule c (js_values m) = Inr q"
  shows "applicable_rule c (js_values (js_set m (ar_id r) (r\<lparr>ar_cursor := n\<rparr>)))
    = Inr (if ar_id q = ar_id r then r\<lparr>ar_cursor := n\<rparr> else q)"
proof -
  note swap = filter_values_set [OF assms(1,2,3), where w = "r\<lparr>ar_cursor := n\<rparr>"]
  have matches: "filter (rule_matches c) (js_values (js_set m (ar_id r) (r\<lparr>ar_cursor := n\<rparr>)))
      = map (\<lambda>x. if ar_id x = ar_id r then r\<lparr>ar_cursor := n\<rparr> else x) (filter (rule_matches c) (js_values m))"
    by (rule swap) (simp_all add: rule_matches_def)
  have globals: "filter (\<lambda>x. ar_enabled x \<and> ar_scope x = GLOBAL) (js_values (js_set m (ar_id r) (r\<lparr>ar_cursor := n\<rparr>)))
      = map (\<lambda>x. if ar_id x = ar_id r then r\<lparr>ar_cursor := n\<rparr> else x) (filter (\<lambda>x. ar_enabled x \<and> ar_scope x = GLOBAL) (js_values m))"
    by (rule swap) simp_all
  from assms(4) show ?thesis
    unfolding applicable_rule_def find_filter matches globals
    by (auto split: list.splits if_splits)
qed

section \<open>The round robin\<close>

text \<open>
  The abstract service: a queue of the eligible candidates in the order of their identifiers,
  turned as many times as the cursor says; serving takes the head to the back.
\<close>

definition rr_queue :: "'a host_scheme \<Rightarrow> assignment_rule \<Rightarrow> string list" where
  "rr_queue s r = rotate (ar_cursor r) (map cd_userId (eligible_candidates s (ar_candidates r)))"

lemma rotate_head: "xs \<noteq> [] \<Longrightarrow> hd (rotate n xs) = xs ! (n mod length xs)"
  by (simp add: hd_rotate_conv_nth)

lemma select_head:
  assumes "selectAssignmentCandidate s r k 0 = Inr sel" and "ar_strategy r = ROUND_ROBIN"
  shows "rr_queue s r \<noteq> [] \<and> sl_selectedUserId sel = hd (rr_queue s r) \<and> sl_ruleId sel = ar_id r"
  using assms by (auto simp: selectAssignmentCandidate_def Let_def rr_queue_def rotate_head split: if_splits)

lemma queue_turns: "rr_queue s (r\<lparr>ar_cursor := Suc (ar_cursor r)\<rparr>) = rotate1 (rr_queue s r)"
  by (simp add: rr_queue_def)

lemma rr_queue_host: "locale_cmp t = locale_cmp s \<Longrightarrow> rr_queue t r = rr_queue s r"
  by (simp add: rr_queue_def eligible_candidates_def)

lemma mset_rotate1 [simp]: "mset (rotate1 xs) = mset xs"
  by (cases xs) auto

lemma mset_rotate [simp]: "mset (rotate n xs) = mset xs"
  by (induction n) auto

lemma mset_rr_queue: "mset (rr_queue s r) = mset (map cd_userId (filter eligible (ar_candidates r)))"
  by (simp add: rr_queue_def eligible_candidates_def)

lemma assignment_fields_more:
  "lead_state.more s = lead_state.more t \<Longrightarrow> assignment_rules s = assignment_rules t"
  "lead_state.more s = lead_state.more t \<Longrightarrow> assignment_decisions s = assignment_decisions t"
  "lead_state.more s = lead_state.more t \<Longrightarrow> completed_batches s = completed_batches t"
  "lead_state.more s = lead_state.more t \<Longrightarrow> activeLeadLocks s = activeLeadLocks t"
  by (cases s; cases t; simp)+

lemma assignment_audit [simp, service_frames]:
  "assignment_rules (audit_by p c ty b a r k s) = assignment_rules s"
  "assignment_decisions (audit_by p c ty b a r k s) = assignment_decisions s"
  "completed_batches (audit_by p c ty b a r k s) = completed_batches s"
  "activeLeadLocks (audit_by p c ty b a r k s) = activeLeadLocks s"
  by (rule assignment_fields_more, simp)+

lemma assignment_drawn [simp, service_frames]:
  "assignment_rules (drawn s) = assignment_rules s" "assignment_decisions (drawn s) = assignment_decisions s"
  "completed_batches (drawn s) = completed_batches s" "activeLeadLocks (drawn s) = activeLeadLocks s"
  by (rule assignment_fields_more, simp)+

text \<open>A new decision of the engine: the selection it stores and the rules it leaves.\<close>

lemma engine_assign_new:
  assumes "engine_assign c p cid s = (Inr d, t)" and "js_get (assignment_decisions s) (ctx_eventKey c) = None"
    and "applicable_rule c (js_values (assignment_rules s)) = Inr r" and "ar_strategy r = ROUND_ROBIN"
  shows "selectAssignmentCandidate s r (ctx_eventKey c) 0 = Inr (de_selection d)
    \<and> assignment_rules t = js_set (assignment_rules s) (ar_id r) (r\<lparr>ar_cursor := Suc (ar_cursor r)\<rparr>)
    \<and> js_get (assignment_decisions t) (ctx_eventKey c) = Some d \<and> locale_cmp t = locale_cmp s"
  using assms unfolding engine_assign_def engine_select_def Let_def
  by (auto split: if_splits sum.splits)

lemma engine_assign_decisions:
  assumes "engine_assign c p cid s = (Inr d, t)" and "js_get (assignment_decisions s) (ctx_eventKey c) = None"
  shows "js_get (assignment_decisions t) k = (if k = ctx_eventKey c then Some d else js_get (assignment_decisions s) k)"
  using assms unfolding engine_assign_def engine_select_def Let_def
  by (auto split: if_splits sum.splits)

text \<open>
  C11: The round robin refines a rotating queue: a new decision under a round-robin rule selects
  the head of the queue of its eligible candidates and leaves the rule with the queue turned by
  one, so the candidate just served comes last.
\<close>

theorem round_robin_refines_queue:
  assumes "engine_assign c p cid s = (Inr d, t)" and "js_get (assignment_decisions s) (ctx_eventKey c) = None"
    and "applicable_rule c (js_values (assignment_rules s)) = Inr r" and "ar_strategy r = ROUND_ROBIN"
  shows "\<exists>r'. js_get (assignment_rules t) (ar_id r) = Some r' \<and> rr_queue s r \<noteq> []
    \<and> sl_selectedUserId (de_selection d) = hd (rr_queue s r) \<and> rr_queue t r' = rotate1 (rr_queue s r)"
proof -
  note new = engine_assign_new [OF assms]
  then have sel: "selectAssignmentCandidate s r (ctx_eventKey c) 0 = Inr (de_selection d)" by blast
  show ?thesis
    by (intro exI [of _ "r\<lparr>ar_cursor := Suc (ar_cursor r)\<rparr>"])
       (use new select_head [OF sel assms(4)] queue_turns [of t r] rr_queue_host [of t s] in auto)
qed

text \<open>A run of new decisions under one rule, in any mix of leads and sources it applies to.\<close>

lemma round_robin_run:
  assumes "rules_ok s" and "js_get (assignment_rules s) (ar_id r) = Some r" and "ar_strategy r = ROUND_ROBIN"
    and "\<And>c. c \<in> set cs \<Longrightarrow> applicable_rule c (js_values (assignment_rules s)) = Inr r"
    and "\<And>c. c \<in> set cs \<Longrightarrow> js_get (assignment_decisions s) (ctx_eventKey c) = None"
    and "distinct (map ctx_eventKey cs)" and "for_each (\<lambda>c. engine_assign c p cid) cs s = (Inr ds, t)"
  shows "map (\<lambda>d. sl_selectedUserId (de_selection d)) ds = map (\<lambda>k. hd (rotate k (rr_queue s r))) [0..<length cs]"
  using assms
proof (induction cs arbitrary: s r ds)
  case (Cons c cs)
  from Cons.prems(7) obtain d s1 ds' where run: "engine_assign c p cid s = (Inr d, s1)"
    and rest: "for_each (\<lambda>c. engine_assign c p cid) cs s1 = (Inr ds', t)" and ds: "ds = d # ds'"
    by (auto simp: call_Inr)
  let ?r = "r\<lparr>ar_cursor := Suc (ar_cursor r)\<rparr>"
  have c: "applicable_rule c (js_values (assignment_rules s)) = Inr r" "js_get (assignment_decisions s) (ctx_eventKey c) = None"
    using Cons.prems(4,5) by simp_all
  note new = engine_assign_new [OF run c(2,1) Cons.prems(3)]
  have rules: "assignment_rules s1 = js_set (assignment_rules s) (ar_id r) ?r" using new by blast
  have known: "js_get (assignment_decisions s1) k = (if k = ctx_eventKey c then Some d else js_get (assignment_decisions s) k)" for k
    by (rule engine_assign_decisions [OF run c(2)])
  have ok: "rules_ok s1" "js_get (assignment_rules s1) (ar_id ?r) = Some ?r"
    using Cons.prems(1) rules by (simp_all add: rules_ok_def js.keyed_put)
  have "applicable_rule c' (js_values (assignment_rules s1)) = Inr ?r" if "c' \<in> set cs" for c'
    unfolding rules using applicable_moved [OF _ _ Cons.prems(2), of c' r "Suc (ar_cursor r)"] Cons.prems(1,4) that
    by (simp add: rules_ok_def)
  moreover have "js_get (assignment_decisions s1) (ctx_eventKey c') = None" if "c' \<in> set cs" for c'
  proof -
    from Cons.prems(6) that have "ctx_eventKey c' \<noteq> ctx_eventKey c" by (metis distinct.simps(2) image_eqI list.set_map list.simps(9))
    with Cons.prems(5) [of c'] that show ?thesis by (simp add: known)
  qed
  ultimately have "map (\<lambda>d. sl_selectedUserId (de_selection d)) ds' = map (\<lambda>k. hd (rotate k (rr_queue s1 ?r))) [0..<length cs]"
    using Cons.prems(3,6) rest by (intro Cons.IH [OF ok]) simp_all
  moreover have "rr_queue s1 ?r = rotate1 (rr_queue s r)"
    using queue_turns [of s1 r] rr_queue_host [of s1 s] new by simp
  moreover have "sl_selectedUserId (de_selection d) = hd (rr_queue s r)"
    using new select_head [OF _ Cons.prems(3)] by blast
  ultimately show ?case
    unfolding ds by (simp add: upt_conv_Cons rotate1_rotate_swap map_Suc_upt [symmetric] del: upt_Suc)
qed simp

text \<open>
  The round robin is fair: of as many consecutive new decisions under one rule as it has
  eligible candidates, every eligible candidate gets exactly one, whatever the leads are.
\<close>

theorem round_robin_fair:
  assumes "rules_ok s" and "js_get (assignment_rules s) (ar_id r) = Some r" and "ar_strategy r = ROUND_ROBIN"
    and "\<And>c. c \<in> set cs \<Longrightarrow> applicable_rule c (js_values (assignment_rules s)) = Inr r"
    and "\<And>c. c \<in> set cs \<Longrightarrow> js_get (assignment_decisions s) (ctx_eventKey c) = None"
    and "distinct (map ctx_eventKey cs)" and "for_each (\<lambda>c. engine_assign c p cid) cs s = (Inr ds, t)"
    and "length cs = length (filter eligible (ar_candidates r))"
  shows "mset (map (\<lambda>d. sl_selectedUserId (de_selection d)) ds) = mset (map cd_userId (filter eligible (ar_candidates r)))"
proof -
  have len: "length (rr_queue s r) = length cs" by (simp add: rr_queue_def eligible_candidates_def assms(8))
  have "map (\<lambda>k. hd (rotate k (rr_queue s r))) [0..<length cs] = map ((!) (rr_queue s r)) [0..<length cs]"
    by (rule map_cong [OF refl]) (use len in \<open>subst rotate_head; force\<close>)
  also have "\<dots> = rr_queue s r" by (metis len map_nth)
  finally show ?thesis by (simp add: round_robin_run [OF assms(1-7)] mset_rr_queue)
qed

section \<open>Rules for the witnesses\<close>

definition demo_candidate :: "string \<Rightarrow> assignment_candidate" where
  "demo_candidate u = \<lparr>cd_userId = u, cd_active = True, cd_suspended = False, cd_excluded = False,
     cd_capacity = JInt 9, cd_activeLeadCount = JInt 0\<rparr>"

definition demo_rule :: "nat \<Rightarrow> assignment_rule" where
  "demo_rule n = \<lparr>ar_id = ''r1'', ar_scope = GLOBAL, ar_matchValue = None, ar_strategy = ROUND_ROBIN,
     ar_balanceNewEntrants = None, ar_enabled = True, ar_candidates = [demo_candidate ''u2'', demo_candidate ''u1''],
     ar_version = 1, ar_cursor = n, ar_updatedAt = 0, ar_updatedBy = ''m1''\<rparr>"

definition demo_context :: "string \<Rightarrow> assignment_context" where
  "demo_context k = \<lparr>ctx_leadId = ''id-'', ctx_source = ''WEB'', ctx_campaign = ''rentree'', ctx_eventKey = k\<rparr>"

definition assignment_demo :: "nat \<Rightarrow> assignment_state" where
  "assignment_demo n = lead_demo PROSPECT (assignment_state_ext [(''r1'', demo_rule n)] [] [] [] [] ())"

lemma assignment_demo_simps [simp]:
  "assignment_rules (assignment_demo n) = [(''r1'', demo_rule n)]" "assignment_decisions (assignment_demo n) = []"
  "completed_batches (assignment_demo n) = []" "activeLeadLocks (assignment_demo n) = []"
  by (simp_all add: assignment_demo_def lead_demo_def note_demo_def user_demo_def demo_host_def)

lemma demo_rule_applies: "applicable_rule (demo_context k) (js_values (assignment_rules (assignment_demo n))) = Inr (demo_rule n)"
  by (simp add: js_values_def applicable_rule_def rule_matches_def demo_rule_def)

theorem round_robin_refines_queue_witness:
  "rr_queue (assignment_demo 0) (demo_rule 0) = [''u1'', ''u2'']
     \<and> (\<exists>d t. engine_assign (demo_context ''k1'') demo_manager ''c'' (assignment_demo 0) = (Inr d, t)
           \<and> sl_selectedUserId (de_selection d) = ''u1'')"
proof -
  have queue: "rr_queue (assignment_demo 0) (demo_rule 0) = [''u1'', ''u2'']" by code_simp
  let ?run = "engine_assign (demo_context ''k1'') demo_manager ''c'' (assignment_demo 0)"
  have "is_ok (fst ?run)" by code_simp
  then obtain d t where run: "?run = (Inr d, t)" by (cases ?run; cases "fst ?run") auto
  have "js_get (assignment_decisions (assignment_demo 0)) (ctx_eventKey (demo_context ''k1'')) = None" by simp
  moreover have "ar_strategy (demo_rule 0) = ROUND_ROBIN" by (simp add: demo_rule_def)
  ultimately have "sl_selectedUserId (de_selection d) = hd (rr_queue (assignment_demo 0) (demo_rule 0))"
    using round_robin_refines_queue [OF run _ demo_rule_applies] by blast
  with queue run show ?thesis by auto
qed

theorem round_robin_fair_witness:
  "\<exists>ds t. for_each (\<lambda>c. engine_assign c demo_manager ''c'') [demo_context ''k1'', demo_context ''k2''] (assignment_demo 5) = (Inr ds, t)
     \<and> mset (map (\<lambda>d. sl_selectedUserId (de_selection d)) ds) = {#''u1'', ''u2''#}"
proof -
  let ?run = "for_each (\<lambda>c. engine_assign c demo_manager ''c'') [demo_context ''k1'', demo_context ''k2''] (assignment_demo 5)"
  have "is_ok (fst ?run)" by code_simp
  then obtain ds t where run: "?run = (Inr ds, t)" by (cases ?run; cases "fst ?run") auto
  have ok: "rules_ok (assignment_demo 5)"
    by (simp add: rules_ok_def js_wf_def js_keys_def js.keyed_def js_get_def demo_rule_def)
  have who: "map cd_userId (filter eligible (ar_candidates (demo_rule 5))) = [''u2'', ''u1'']" by code_simp
  then have two: "length (filter eligible (ar_candidates (demo_rule 5))) = 2" by (metis length_map length_Cons list.size(3) numeral_2_eq_2)
  have "mset (map (\<lambda>d. sl_selectedUserId (de_selection d)) ds) = mset (map cd_userId (filter eligible (ar_candidates (demo_rule 5))))"
  proof (rule round_robin_fair [OF ok _ _ _ _ _ run])
    show "js_get (assignment_rules (assignment_demo 5)) (ar_id (demo_rule 5)) = Some (demo_rule 5)"
      and "ar_strategy (demo_rule 5) = ROUND_ROBIN"
      by (simp_all add: js_get_def demo_rule_def)
    show "distinct (map ctx_eventKey [demo_context ''k1'', demo_context ''k2''])" by (simp add: demo_context_def)
    show "applicable_rule c (js_values (assignment_rules (assignment_demo 5))) = Inr (demo_rule 5)"
      if "c \<in> set [demo_context ''k1'', demo_context ''k2'']" for c
      using that demo_rule_applies by (auto simp del: assignment_demo_simps)
  qed (simp_all add: two)
  with who run show ?thesis by (auto simp: add_mset_commute)
qed

section \<open>Batches\<close>

lemma engine_select_leads:
  "leads (snd (engine_select c b n s)) = leads s" "activities (snd (engine_select c b n s)) = activities s"
  "uuid (snd (engine_select c b n s)) = uuid s" "draws (snd (engine_select c b n s)) = draws s"
  "activeLeadLocks (snd (engine_select c b n s)) = activeLeadLocks s"
  "completed_batches (snd (engine_select c b n s)) = completed_batches s"
  by (simp_all add: engine_select_def split: sum.split)

definition engine_frame :: "'a assignment_state_scheme \<Rightarrow> 'a assignment_state_scheme \<Rightarrow> bool" where
  "engine_frame s t \<longleftrightarrow> leads t = leads s \<and> activities t = activities s \<and> uuid t = uuid s \<and> draws s \<le> draws t
     \<and> activeLeadLocks t = activeLeadLocks s \<and> completed_batches t = completed_batches s"

lemma engine_target_frame: "engineTarget i x n p cid s = (r, t) \<Longrightarrow> engine_frame s t"
proof -
  have "engine_frame s (snd (engine_assign c p e s))" for c e
  proof (cases "is_operational p \<and> js_get (assignment_decisions s) (ctx_eventKey c) = None")
    case False
    then show ?thesis by (auto simp: engine_assign_def engine_frame_def)
  next
    case True
    obtain q u where sel: "engine_select c True 0 s = (q, u)" by fastforce
    with engine_select_leads [of c True 0 s] have u: "engine_frame s u" by (simp add: engine_frame_def)
    show ?thesis
      using True sel u
      by (cases q) (auto simp: engine_assign_def engine_frame_def Let_def intro!: audit_supply_le)
  qed
  moreover assume "engineTarget i x n p cid s = (r, t)"
  ultimately show ?thesis
    by (auto simp: engineTarget_def call_def split: prod.splits sum.splits if_splits) (metis snd_conv)+
qed

lemma frame_effect: "engine_frame s t \<Longrightarrow> lead_effect p s t"
  by (auto simp: engine_frame_def intro: lead_effect_same)

text \<open>What one item does: it is listed once, and only an unowned lead is written, as reported.\<close>

definition item_done ::
  "principal \<Rightarrow> string \<Rightarrow> (lead list \<times> preview_item list \<times> preview_item list) \<times> 'a assignment_state_scheme
     \<Rightarrow> (lead list \<times> preview_item list \<times> preview_item list) \<times> 'a assignment_state_scheme \<Rightarrow> bool" where
  "item_done p k before after \<longleftrightarrow> (case (before, after) of (((ok, sk, rf), s), ((ok', sk', rf'), t)) \<Rightarrow>
     lead_effect p s t \<and> activeLeadLocks t = activeLeadLocks s \<and> completed_batches t = completed_batches s
     \<and> ((\<exists>l l'. ok' = ok @ [l'] \<and> sk' = sk \<and> rf' = rf \<and> js_get (leads s) k = Some l \<and> \<not> truthy (ld_assignedToId l)
            \<and> ld_id l' = ld_id l \<and> ld_assignedToId l' \<noteq> None \<and> is_manager p \<and> leads t = js_set (leads s) k l')
       \<or> (\<exists>v. pv_leadId v = k \<and> leads t = leads s \<and> ok' = ok \<and> (sk' = sk @ [v] \<and> rf' = rf \<or> sk' = sk \<and> rf' = rf @ [v]))))"

lemma not_assigned_id [simp]: "pv_leadId (not_assigned k oc why) = k"
  by (simp add: not_assigned_def)

lemma assignLocalLead_leads:
  assumes "assignLocalLead k u p cid reason mode s = (q, t)"
  shows "lead_effect p s t \<and> activeLeadLocks t = activeLeadLocks s \<and> completed_batches t = completed_batches s
    \<and> (case q of Inl e \<Rightarrow> leads t = leads s
        | Inr l' \<Rightarrow> \<exists>l. js_get (leads s) k = Some l \<and> \<not> truthy (ld_assignedToId l) \<and> ld_id l' = ld_id l
            \<and> ld_assignedToId l' \<noteq> None \<and> is_manager p \<and> leads t = js_set (leads s) k l')"
proof -
  have "lead_effect p s t \<and> lead_state.more t = lead_state.more s" by (rule operation_pairs(7) [OF assms])
  moreover from this have "activeLeadLocks t = activeLeadLocks s" "completed_batches t = completed_batches s"
    using assignment_fields_more by blast+
  ultimately show ?thesis
    using assms by (auto simp: assignLocalLead_def Let_def split: if_splits option.splits sum.splits)
qed

lemma unlock_simps:
  "lead_effect p s (t\<lparr>activeLeadLocks := ys\<rparr>) \<longleftrightarrow> lead_effect p s t"
  "engine_frame (s\<lparr>activeLeadLocks := ys\<rparr>) t \<Longrightarrow> activeLeadLocks t = ys"
  by (auto simp: lead_effect_def lead_ok_def issued_def engine_frame_def)

lemma lock_filter: "filter (\<lambda>y. y \<noteq> k) (ks @ [k]) = filter (\<lambda>y. y \<noteq> k) ks"
  by simp

lemma batch_item_done:
  assumes "it_leadId x \<notin> set (activeLeadLocks s)"
  shows "item_done p (it_leadId x) (acc, s) (batch_item i p cid (n, x) (acc, s))"
proof -
  obtain ok sk rf where acc: "acc = (ok, sk, rf)" by (cases acc)
  let ?k = "it_leadId x"
  define s0 where "s0 = s\<lparr>activeLeadLocks := activeLeadLocks s @ [?k]\<rparr>"
  have s0: "leads s0 = leads s" "lead_effect p s s0" "completed_batches s0 = completed_batches s"
    "activeLeadLocks s0 = activeLeadLocks s @ [?k]"
    by (simp_all add: s0_def unlock_simps)
  have unlock: "filter (\<lambda>y. y \<noteq> ?k) (activeLeadLocks s) = activeLeadLocks s"
    using assms by (auto simp: filter_id_conv)
  define m where "m = (if bi_strategy i = ''FIXED'' then (fixedTarget i s0, s0) else engineTarget i x n p cid s0)"
  have m: "engine_frame s0 (snd m)"
    using engine_target_frame [of i x n p cid s0] by (cases "engineTarget i x n p cid s0") (simp add: m_def engine_frame_def)
  note eff = lead_effect_trans [OF s0(2) frame_effect [OF m]]
  from m have frame: "leads (snd m) = leads s" "activeLeadLocks (snd m) = activeLeadLocks s @ [?k]"
    "completed_batches (snd m) = completed_batches s"
    by (simp_all add: engine_frame_def s0)
  show ?thesis
  proof (cases "findLocalLead ?k s0")
    case None
    with acc assms show ?thesis
      by (simp add: batch_item_def item_done_def s0_def [symmetric] s0 unlock unlock_simps Let_def)
  next
    case (Some l)
    note l = \<open>findLocalLead ?k s0 = Some l\<close>
    show ?thesis
    proof (cases "truthy (ld_assignedToId l)")
      case True
      with acc l assms show ?thesis
        by (simp add: batch_item_def item_done_def s0_def [symmetric] s0 unlock unlock_simps Let_def)
    next
      case False
      have step: "batch_item i p cid (n, x) (acc, s) = (case call m (\<lambda>u. assignLocalLead ?k u p (cid @ '':'' @ show_int (int n))
              (''BATCH:'' @ bi_idempotencyKey i) (bi_strategy i)) of
          (Inl e, s2) \<Rightarrow> ((ok, sk, rf @ [not_assigned ?k REFUSED (failure_reason e)]),
             s2\<lparr>activeLeadLocks := filter (\<lambda>y. y \<noteq> ?k) (activeLeadLocks s2)\<rparr>)
        | (Inr l', s2) \<Rightarrow> ((ok @ [l'], sk, rf), s2\<lparr>activeLeadLocks := filter (\<lambda>y. y \<noteq> ?k) (activeLeadLocks s2)\<rparr>))"
        using acc assms l False by (simp add: batch_item_def s0_def m_def Let_def)
      show ?thesis
      proof (cases "fst m")
        case (Inl e)
        then have "call m f = (Inl e, snd m)" for f :: "string \<Rightarrow> 'a assignment_state_scheme \<Rightarrow> lead result \<times> 'a assignment_state_scheme"
          by (cases m) simp
        with acc have "batch_item i p cid (n, x) (acc, s) =
            ((ok, sk, rf @ [not_assigned ?k REFUSED (failure_reason e)]), (snd m)\<lparr>activeLeadLocks := activeLeadLocks s\<rparr>)"
          unfolding step by (simp only: prod.case sum.case frame(2) unlock lock_filter)
        with acc eff frame show ?thesis by (simp add: item_done_def unlock_simps)
      next
        case (Inr u)
        obtain q t where run: "assignLocalLead ?k u p (cid @ '':'' @ show_int (int n))
              (''BATCH:'' @ bi_idempotencyKey i) (bi_strategy i) (snd m) = (q, t)" by fastforce
        note done_t = assignLocalLead_leads [OF run]
        with eff have effect: "lead_effect p s t" using lead_effect_trans by blast
        from Inr run have "call m (\<lambda>u. assignLocalLead ?k u p (cid @ '':'' @ show_int (int n))
              (''BATCH:'' @ bi_idempotencyKey i) (bi_strategy i)) = (q, t)"
          by (cases m) simp
        with acc have item: "batch_item i p cid (n, x) (acc, s) = (case q of
            Inl e \<Rightarrow> ((ok, sk, rf @ [not_assigned ?k REFUSED (failure_reason e)]), t\<lparr>activeLeadLocks := activeLeadLocks s\<rparr>)
          | Inr l' \<Rightarrow> ((ok @ [l'], sk, rf), t\<lparr>activeLeadLocks := activeLeadLocks s\<rparr>))"
          unfolding step using done_t frame(2) unlock by (cases q) simp_all
        show ?thesis
        proof (cases q)
          case (Inl e)
          with item acc effect done_t frame show ?thesis by (simp add: item_done_def unlock_simps)
        next
          case (Inr l')
          with done_t frame obtain l0 where "js_get (leads s) ?k = Some l0" "\<not> truthy (ld_assignedToId l0)" "ld_id l' = ld_id l0"
            "ld_assignedToId l' \<noteq> None" "is_manager p" "leads t = js_set (leads s) ?k l'" by auto
          with Inr item acc effect done_t frame show ?thesis
            unfolding item_done_def by (simp add: unlock_simps)
        qed
      qed
    qed
  qed
qed

definition listed_ids :: "lead list \<times> preview_item list \<times> preview_item list \<Rightarrow> string multiset" where
  "listed_ids acc = (case acc of (ok, sk, rf) \<Rightarrow> mset (map ld_id ok) + mset (map pv_leadId sk) + mset (map pv_leadId rf))"

text \<open>The whole batch: the items of a list with distinct leads, none of them locked.\<close>

lemma batch_items_done:
  assumes "lead_ok s" and "distinct (map (it_leadId \<circ> snd) nxs)" and "activeLeadLocks s = []"
    and "fold (batch_item i p cid) nxs (acc, s) = (acc', t)"
  shows "lead_ok t \<and> activeLeadLocks t = [] \<and> completed_batches t = completed_batches s
    \<and> listed_ids acc' = listed_ids acc + mset (map (it_leadId \<circ> snd) nxs) \<and> set (fst acc) \<subseteq> set (fst acc')
    \<and> (\<forall>k l. js_get (leads s) k = Some l \<longrightarrow> js_get (leads t) k = Some l
         \<or> (k \<in> (it_leadId \<circ> snd) ` set nxs \<and> \<not> truthy (ld_assignedToId l) \<and> is_manager p
            \<and> (\<exists>l' \<in> set (fst acc'). js_get (leads t) k = Some l' \<and> ld_id l' = k \<and> ld_assignedToId l' \<noteq> None)))"
  using assms
proof (induction nxs arbitrary: s acc)
  case (Cons nx nxs)
  obtain n x where nx: "nx = (n, x)" by (cases nx)
  obtain acc1 s1 where step: "batch_item i p cid (n, x) (acc, s) = (acc1, s1)" by fastforce
  have one: "item_done p (it_leadId x) (acc, s) (acc1, s1)"
    using batch_item_done [of x s p acc i cid n] Cons.prems(3) step by simp
  obtain ok sk rf where acc: "acc = (ok, sk, rf)" by (cases acc)
  obtain ok1 sk1 rf1 where acc1: "acc1 = (ok1, sk1, rf1)" by (cases acc1)
  have keyed: "js_get (leads s) k = Some l \<Longrightarrow> ld_id l = k" for k l
    using Cons.prems(1) by (simp add: lead_ok_def)
  from one Cons.prems(1,3) have s1: "lead_ok s1" "activeLeadLocks s1 = []" "completed_batches s1 = completed_batches s"
    by (auto simp: item_done_def acc acc1 lead_effect_def)
  have ids: "listed_ids acc1 = add_mset (it_leadId x) (listed_ids acc)" and grow: "set (fst acc) \<subseteq> set (fst acc1)"
    using one keyed by (auto simp: item_done_def acc acc1 listed_ids_def)
  have here: "js_get (leads s1) k = Some l
      \<or> (k = it_leadId x \<and> \<not> truthy (ld_assignedToId l) \<and> is_manager p
         \<and> (\<exists>l' \<in> set (fst acc1). js_get (leads s1) k = Some l' \<and> ld_id l' = k \<and> ld_assignedToId l' \<noteq> None))"
    if "js_get (leads s) k = Some l" for k l
  proof (cases "k = it_leadId x")
    case True
    with one that keyed [OF that] show ?thesis by (auto simp: item_done_def acc acc1)
  next
    case False
    with one that show ?thesis by (auto simp: item_done_def acc acc1)
  qed
  from Cons.prems(2) nx have rest: "distinct (map (it_leadId \<circ> snd) nxs)" "it_leadId x \<notin> (it_leadId \<circ> snd) ` set nxs"
    by (simp_all add: comp_def)
  from Cons.prems(4) nx step have "fold (batch_item i p cid) nxs (acc1, s1) = (acc', t)" by simp
  note IH = Cons.IH [OF s1(1) rest(1) s1(2) this]
  have "js_get (leads t) k = Some l
      \<or> (k \<in> (it_leadId \<circ> snd) ` set (nx # nxs) \<and> \<not> truthy (ld_assignedToId l) \<and> is_manager p
         \<and> (\<exists>l' \<in> set (fst acc'). js_get (leads t) k = Some l' \<and> ld_id l' = k \<and> ld_assignedToId l' \<noteq> None))"
    if "js_get (leads s) k = Some l" for k l
    using here [OF that]
  proof
    assume "js_get (leads s1) k = Some l"
    with IH nx show ?thesis by auto
  next
    assume new: "k = it_leadId x \<and> \<not> truthy (ld_assignedToId l) \<and> is_manager p
         \<and> (\<exists>l' \<in> set (fst acc1). js_get (leads s1) k = Some l' \<and> ld_id l' = k \<and> ld_assignedToId l' \<noteq> None)"
    then obtain l' where "l' \<in> set (fst acc1)" "js_get (leads s1) k = Some l'" "ld_id l' = k" "ld_assignedToId l' \<noteq> None"
      by blast
    moreover from \<open>js_get (leads s1) k = Some l'\<close> new rest(2) have "js_get (leads t) k = Some l'"
      using IH [THEN conjunct2, THEN conjunct2, THEN conjunct2, THEN conjunct2, THEN conjunct2, rule_format, of k l']
      by fastforce
    moreover from calculation(1) IH have "l' \<in> set (fst acc')" by blast
    ultimately show ?thesis using new nx by (intro disjI2) auto
  qed
  with IH s1 ids grow nx show ?case by auto
qed simp

lemma batch_runs:
  assumes "validate_batch i True = Inr ()" and "js_get (completed_batches s) (bi_idempotencyKey i) = None"
  obtains acc u where "fold (batch_item i p cid) (enumerate 0 (bi_items i)) (([], [], []), s) = (acc, u)"
    "fst (assignBatch i p cid s) = Inr \<lparr>br_batchId = fresh_uuid u, br_idempotencyKey = bi_idempotencyKey i,
       br_assigned = fst acc, br_skipped = fst (snd acc), br_refused = snd (snd acc)\<rparr>"
    "leads (snd (assignBatch i p cid s)) = leads u" "activeLeadLocks (snd (assignBatch i p cid s)) = activeLeadLocks u"
    "js_get (completed_batches (snd (assignBatch i p cid s))) (bi_idempotencyKey i) = Some \<lparr>br_batchId = fresh_uuid u,
       br_idempotencyKey = bi_idempotencyKey i, br_assigned = fst acc, br_skipped = fst (snd acc), br_refused = snd (snd acc)\<rparr>"
proof -
  obtain acc u where run: "fold (batch_item i p cid) (enumerate 0 (bi_items i)) (([], [], []), s) = (acc, u)" by fastforce
  obtain ok sk rf where acc: "acc = (ok, sk, rf)" by (cases acc)
  show ?thesis
    by (rule that [OF run]) (use assms run acc in \<open>simp_all add: assignBatch_def Let_def\<close>)
qed

lemma batch_items: "validate_batch i True = Inr () \<Longrightarrow> distinct (map (it_leadId \<circ> snd) (enumerate 0 (bi_items i)))"
  by (simp add: validate_batch_def split: if_splits flip: map_map)

text \<open>
  C19: A confirmed batch always completes, whatever its items run into: every item is listed
  exactly once as assigned, skipped or refused, every lock is released, and the batch sent again
  gives the same answer and does nothing.
\<close>

theorem batch_accounts_for_items:
  assumes "lead_ok s" and "activeLeadLocks s = []" and "validate_batch i True = Inr ()"
    and "js_get (completed_batches s) (bi_idempotencyKey i) = None"
  shows "\<exists>r t. assignBatch i p cid s = (Inr r, t) \<and> activeLeadLocks t = []
    \<and> mset (map ld_id (br_assigned r)) + mset (map pv_leadId (br_skipped r)) + mset (map pv_leadId (br_refused r))
        = mset (map it_leadId (bi_items i))
    \<and> assignBatch i q cid' t = (Inr r, t)"
proof -
  obtain acc u where run: "fold (batch_item i p cid) (enumerate 0 (bi_items i)) (([], [], []), s) = (acc, u)"
    and res: "fst (assignBatch i p cid s) = Inr \<lparr>br_batchId = fresh_uuid u, br_idempotencyKey = bi_idempotencyKey i,
       br_assigned = fst acc, br_skipped = fst (snd acc), br_refused = snd (snd acc)\<rparr>"
    and locks: "activeLeadLocks (snd (assignBatch i p cid s)) = activeLeadLocks u"
    and kept: "js_get (completed_batches (snd (assignBatch i p cid s))) (bi_idempotencyKey i) = Some \<lparr>br_batchId = fresh_uuid u,
       br_idempotencyKey = bi_idempotencyKey i, br_assigned = fst acc, br_skipped = fst (snd acc), br_refused = snd (snd acc)\<rparr>"
    by (rule batch_runs [OF assms(3,4), of p cid])
  note items = batch_items_done [OF assms(1) batch_items [OF assms(3)] assms(2) run]
  from items have "listed_ids acc = mset (map it_leadId (bi_items i))"
    by (simp add: listed_ids_def flip: map_map)
  then have ids: "mset (map ld_id (fst acc)) + mset (map pv_leadId (fst (snd acc))) + mset (map pv_leadId (snd (snd acc)))
      = mset (map it_leadId (bi_items i))"
    by (simp add: listed_ids_def case_prod_beta)
  have again: "assignBatch i q cid' (snd (assignBatch i p cid s)) = (fst (assignBatch i p cid s), snd (assignBatch i p cid s))"
    using kept res assms(3) by (simp add: assignBatch_def)
  show ?thesis
    by (intro exI [of _ "\<lparr>br_batchId = fresh_uuid u, br_idempotencyKey = bi_idempotencyKey i,
         br_assigned = fst acc, br_skipped = fst (snd acc), br_refused = snd (snd acc)\<rparr>"]
         exI [of _ "snd (assignBatch i p cid s)"] conjI)
       (use res locks items ids again in \<open>simp_all add: prod_eq_iff\<close>)
qed

text \<open>
  A batch takes no lead from anybody: a lead is either left exactly as it was, or it had no
  owner, the batch was a manager's, the lead is listed as assigned, and it is now what the batch
  reports of it.
\<close>

theorem batch_takes_no_lead:
  assumes "lead_ok s" and "activeLeadLocks s = []" and "assignBatch i p cid s = (Inr r, t)"
    and "js_get (completed_batches s) (bi_idempotencyKey i) = None" and "js_get (leads s) k = Some l"
  shows "js_get (leads t) k = Some l
    \<or> (\<not> truthy (ld_assignedToId l) \<and> is_manager p \<and> k \<in> set (map it_leadId (bi_items i))
       \<and> (\<exists>l' \<in> set (br_assigned r). js_get (leads t) k = Some l' \<and> ld_id l' = k \<and> ld_assignedToId l' \<noteq> None))"
proof -
  have valid: "validate_batch i True = Inr ()"
    using assms(3) by (cases "validate_batch i True") (auto simp: assignBatch_def)
  obtain acc u where run: "fold (batch_item i p cid) (enumerate 0 (bi_items i)) (([], [], []), s) = (acc, u)"
    and res: "fst (assignBatch i p cid s) = Inr \<lparr>br_batchId = fresh_uuid u, br_idempotencyKey = bi_idempotencyKey i,
       br_assigned = fst acc, br_skipped = fst (snd acc), br_refused = snd (snd acc)\<rparr>"
    and after: "leads (snd (assignBatch i p cid s)) = leads u"
    by (rule batch_runs [OF valid assms(4), of p cid])
  have ids: "(it_leadId \<circ> snd) ` set (enumerate 0 (bi_items i)) = set (map it_leadId (bi_items i))"
    by (metis image_image image_set map_snd_enumerate o_apply image_comp list.set_map)
  from res assms(3) have "br_assigned r = fst acc" by auto
  moreover from after assms(3) have "leads t = leads u" by simp
  ultimately show ?thesis
    using batch_items_done [OF assms(1) batch_items [OF valid] assms(2) run] assms(5) unfolding ids by auto
qed

definition unowned_demo :: assignment_state where
  "unowned_demo = (assignment_demo 0)\<lparr>leads := [(''id-'', (demo_lead ''id-'' PROSPECT)\<lparr>ld_assignedToId := None\<rparr>)]\<rparr>"

definition demo_batch :: batch_input where
  "demo_batch = \<lparr>bi_idempotencyKey = ''batch-0001'', bi_items = [\<lparr>it_leadId = ''id-'', it_source = ''WEB'', it_campaign = ''c''\<rparr>,
     \<lparr>it_leadId = ''gone'', it_source = ''WEB'', it_campaign = ''c''\<rparr>], bi_strategy = ''ROUND_ROBIN'', bi_targetUserId = None,
     bi_confirmed = True\<rparr>"

lemma unowned_ok: "lead_ok unowned_demo"
  using lead_demo_ok [of PROSPECT "assignment_state_ext [(''r1'', demo_rule 0)] [] [] [] [] ()"]
  by (auto simp: unowned_demo_def assignment_demo_def lead_ok_def js_wf_def js_keys_def js_get_def demo_lead_def blank_lead_def
      issued_def split: if_splits)

lemma demo_batch_ready:
  "activeLeadLocks unowned_demo = []" "js_get (completed_batches unowned_demo) (bi_idempotencyKey demo_batch) = None"
  "js_get (leads unowned_demo) ''id-'' = Some ((demo_lead ''id-'' PROSPECT)\<lparr>ld_assignedToId := None\<rparr>)"
  "validate_batch demo_batch True = Inr ()"
  by (simp_all add: unowned_demo_def js_get_def) code_simp

theorem batch_accounts_for_items_witness:
  "\<exists>r t. assignBatch demo_batch demo_manager ''c'' unowned_demo = (Inr r, t) \<and> activeLeadLocks t = []
     \<and> mset (map ld_id (br_assigned r)) + mset (map pv_leadId (br_skipped r)) + mset (map pv_leadId (br_refused r))
         = {#''id-'', ''gone''#}"
proof -
  have items: "mset (map it_leadId (bi_items demo_batch)) = {#''id-'', ''gone''#}" by (simp add: demo_batch_def)
  from batch_accounts_for_items [OF unowned_ok demo_batch_ready(1,4,2), of demo_manager "''c''" demo_manager "''c''"]
  show ?thesis unfolding items by blast
qed

theorem batch_takes_no_lead_witness:
  "\<exists>l'. js_get (leads (snd (assignBatch demo_batch demo_manager ''c'' unowned_demo))) ''id-'' = Some l' \<and> ld_assignedToId l' = Some ''u1''"
proof -
  let ?run = "assignBatch demo_batch demo_manager ''c'' unowned_demo"
  have "case fst ?run of Inr r \<Rightarrow> map ld_assignedToId (br_assigned r) = [Some ''u1''] | Inl e \<Rightarrow> False" by code_simp
  then obtain r t where run: "?run = (Inr r, t)" and one: "map ld_assignedToId (br_assigned r) = [Some ''u1'']"
    by (cases ?run; cases "fst ?run") auto
  have "js_get (leads t) ''id-'' \<noteq> Some ((demo_lead ''id-'' PROSPECT)\<lparr>ld_assignedToId := None\<rparr>)"
  proof -
    have "case js_get (leads (snd ?run)) ''id-'' of Some l \<Rightarrow> ld_assignedToId l \<noteq> None | None \<Rightarrow> False" by code_simp
    with run show ?thesis by (auto split: option.splits)
  qed
  with batch_takes_no_lead [OF unowned_ok demo_batch_ready(1) run demo_batch_ready(2,3)]
  obtain l' where "l' \<in> set (br_assigned r)" "js_get (leads t) ''id-'' = Some l'" by blast
  with one run show ?thesis by (cases "br_assigned r") auto
qed

section \<open>New entrants\<close>

text \<open>
  Reservations one after the other with the counter of the chosen candidate incremented: the
  counters after \<open>n\<close> new entrants, whatever the random choices were.
\<close>

inductive entrants :: "'a host_scheme \<Rightarrow> assignment_candidate list \<Rightarrow> (string, jsnum) js_map \<Rightarrow> nat \<Rightarrow> bool"
  for s :: "'a host_scheme" and cs :: "assignment_candidate list" where
  none: "entrants s cs [] 0"
| one_more: "entrants s cs counts n \<Longrightarrow> balancedNewEntrant s cs counts pick = Inr (Some (u, k)) \<Longrightarrow>
    entrants s cs (js_set counts u (JInt (k + 1))) (Suc n)"

definition pool :: "assignment_candidate list \<Rightarrow> string set" where
  "pool cs = cd_userId ` set (filter eligible cs)"

lemma set_eligible: "set (eligible_candidates s cs) = set (filter eligible cs)"
  by (simp add: eligible_candidates_def)

lemma balanced_choice:
  assumes "balancedNewEntrant s cs counts pick = Inr (Some (u, k))"
  shows "u \<in> pool cs \<and> count_of counts u = k \<and> (\<forall>v \<in> pool cs. k \<le> count_of counts v)"
proof -
  let ?es = "eligible_candidates s cs"
  let ?min = "Min (set (map (\<lambda>c. count_of counts (cd_userId c)) ?es))"
  let ?peers = "filter (\<lambda>c. count_of counts (cd_userId c) = ?min) ?es"
  from assms have k: "k = ?min" and u: "u = cd_userId (?peers ! nat (num_value (pick (length ?peers))))"
    and le: "nat (num_value (pick (length ?peers))) < length ?peers"
    by (auto simp: balancedNewEntrant_def Let_def split: if_splits)
  from nth_mem [OF le] u have "\<exists>c \<in> set ?es. u = cd_userId c \<and> count_of counts (cd_userId c) = ?min" by auto
  moreover have "?min \<le> count_of counts (cd_userId c)" if "c \<in> set ?es" for c
    using that by (intro Min_le) auto
  ultimately show ?thesis unfolding k pool_def set_eligible [of s cs, symmetric] by auto
qed

lemma count_of_set: "count_of (js_set counts u (JInt x)) v = (if v = u then x else count_of counts v)"
  by (simp add: count_of_def)

text \<open>
  New entrants are spread evenly: at any time two eligible candidates differ by one entrant
  at most, and every entrant is counted once.
\<close>

theorem entrants_spread_evenly:
  assumes "entrants s cs counts n" and "a \<in> pool cs" and "b \<in> pool cs"
  shows "count_of counts a \<le> count_of counts b + 1 \<and> (\<Sum>u \<in> pool cs. count_of counts u) = int n"
proof -
  have "(\<forall>a \<in> pool cs. \<forall>b \<in> pool cs. count_of counts a \<le> count_of counts b + 1) \<and> (\<Sum>u \<in> pool cs. count_of counts u) = int n"
    using assms(1)
  proof induction
    case none
    then show ?case by (simp add: count_of_def)
  next
    case (one_more counts n pick u k)
    note choice = balanced_choice [OF one_more(2)]
    have fin: "finite (pool cs)" by (simp add: pool_def)
    have "(\<Sum>v \<in> pool cs. count_of (js_set counts u (JInt (k + 1))) v) = (\<Sum>v \<in> pool cs. count_of counts v + (if v = u then 1 else 0))"
      by (rule sum.cong [OF refl]) (use choice in \<open>simp add: count_of_set\<close>)
    also have "\<dots> = int n + 1" using one_more.IH choice fin by (simp add: sum.distrib sum.delta)
    finally show ?case using one_more.IH choice by (fastforce simp: count_of_set)
  qed
  with assms(2,3) show ?thesis by blast
qed

theorem entrants_spread_evenly_witness:
  "\<exists>counts. entrants demo_host [demo_candidate ''u1'', demo_candidate ''u2''] counts 1
     \<and> count_of counts ''u2'' \<le> count_of counts ''u1'' + 1"
proof -
  let ?cs = "[demo_candidate ''u1'', demo_candidate ''u2'']"
  have "balancedNewEntrant demo_host ?cs [] (\<lambda>n. JInt (int n - 1)) = Inr (Some (''u2'', 0))" by code_simp
  from entrants.one_more [OF entrants.none this]
  have run: "entrants demo_host ?cs (js_set [] ''u2'' (JInt (0 + 1))) (Suc 0)" .
  have "pool ?cs = {''u1'', ''u2''}" by (simp add: pool_def eligible_def demo_candidate_def)
  with entrants_spread_evenly [OF run, of "''u2''" "''u1''"] run show ?thesis by (intro exI conjI) auto
qed

section \<open>Rules of a campus\<close>

lemma safe_integer_is: "safe_integer n \<Longrightarrow> is_integer n"
  by (cases n) (simp_all add: safe_integer_def)

lemma required_text_Inr: "required_text v = Inr t \<Longrightarrow> \<not> js_blank t \<and> js_trim t = t"
  by (auto simp: required_text_def js_blank_def split: json.splits if_splits)

lemma parse_rule_Inr:
  assumes "parse_rule (JObj kvs) = Inr r"
  shows "field kvs ''scope'' \<in> {JStr ''GLOBAL'', JStr ''SOURCE'', JStr ''CAMPAIGN''}
    \<and> field kvs ''strategy'' \<in> {JStr ''ROUND_ROBIN'', JStr ''CONTROLLED_RANDOM''}
    \<and> ri_scope r = opt_text (text_of (field kvs ''scope'')) \<and> ri_strategy r = opt_text (text_of (field kvs ''strategy''))
    \<and> ri_balanceNewEntrants r = field kvs ''balanceNewEntrants''
    \<and> (field kvs ''balanceNewEntrants'' = JBool True \<longrightarrow> field kvs ''strategy'' = JStr ''CONTROLLED_RANDOM'')
    \<and> (\<exists>cs. length cs \<le> 100 \<and> map_ok parse_candidate cs = Inr (ri_candidates r))"
proof -
  from assms have known: "field kvs ''scope'' \<in> {JStr ''GLOBAL'', JStr ''SOURCE'', JStr ''CAMPAIGN''}"
    "field kvs ''strategy'' \<in> {JStr ''ROUND_ROBIN'', JStr ''CONTROLLED_RANDOM''}"
    and balance: "\<not> (case field kvs ''balanceNewEntrants'' of JUndef \<Rightarrow> False
        | JBool b \<Rightarrow> b \<and> field kvs ''strategy'' \<noteq> JStr ''CONTROLLED_RANDOM'' | _ \<Rightarrow> True)"
    by (simp_all add: parse_rule_def object_fields_def split: if_split_asm)
  from assms known balance have rest: "(case (field kvs ''enabled'', field kvs ''candidates'') of
      (JBool enabled, JArr cs) \<Rightarrow>
        (if 100 < length cs then Inl (BadRequest ''assignment_rule_invalid'')
         else (case absent_or_text (field kvs ''id'') of
            Inl e \<Rightarrow> Inl e
          | Inr i \<Rightarrow>
              (case absent_or_text (field kvs ''matchValue'') of
                 Inl e \<Rightarrow> Inl e
               | Inr m \<Rightarrow>
                   map_sum id (\<lambda>ps. \<lparr>ri_id = i, ri_scope = opt_text (text_of (field kvs ''scope'')), ri_matchValue = m,
                     ri_strategy = opt_text (text_of (field kvs ''strategy'')),
                     ri_balanceNewEntrants = field kvs ''balanceNewEntrants'', ri_enabled = enabled,
                     ri_candidates = ps\<rparr>) (map_ok parse_candidate cs))))
    | _ \<Rightarrow> Inl (BadRequest ''assignment_rule_invalid'')) = Inr r"
    unfolding parse_rule_def object_fields_def by (simp only: json.case sum.case if_False simp_thms)
  then obtain enabled cs where fields: "field kvs ''enabled'' = JBool enabled" "field kvs ''candidates'' = JArr cs"
    by (cases "field kvs ''enabled''"; cases "field kvs ''candidates''") simp_all
  with rest known balance show ?thesis
    by (auto simp: map_sum_Inr simp del: insert_iff split: if_split_asm sum.split_asm intro!: exI [of _ cs])
qed

lemma parse_rule_object: "parse_rule w = Inr r \<Longrightarrow> \<exists>kvs. w = JObj kvs"
  by (cases w) (simp_all add: parse_rule_def object_fields_def)

lemma parse_candidate_Inr:
  "parse_candidate v = Inr c \<Longrightarrow> \<not> js_blank (cd_userId c) \<and> js_trim (cd_userId c) = cd_userId c \<and> is_integer (cd_capacity c)
     \<and> 1 \<le> num_value (cd_capacity c) \<and> cd_activeLeadCount c = JInt 0"
  unfolding parse_candidate_def
  by (auto simp: map_sum_Inr safe_integer_is dest: required_text_Inr split: sum.splits json.splits if_splits)

text \<open>
  What the parser of campus rules accepts is well formed, whatever JSON it was given: known
  scopes and strategies, a balancing policy only with the random strategy, at most 100 rules and
  100 candidates each, and candidates with a trimmed name and a capacity of one at least.
\<close>

theorem parsed_rules_well_formed:
  assumes "parseCampusRules v = Inr rs" and "r \<in> set rs"
  shows "length rs \<le> 100 \<and> as_assignment_scope (ri_scope r) \<noteq> None \<and> as_strategy (ri_strategy r) \<noteq> None
    \<and> (ri_balanceNewEntrants r = JBool True \<longrightarrow> ri_strategy r = ''CONTROLLED_RANDOM'') \<and> length (ri_candidates r) \<le> 100
    \<and> (\<forall>c \<in> set (ri_candidates r). \<not> js_blank (cd_userId c) \<and> js_trim (cd_userId c) = cd_userId c
         \<and> is_integer (cd_capacity c) \<and> 1 \<le> num_value (cd_capacity c) \<and> cd_activeLeadCount c = JInt 0)"
proof -
  from assms(1) obtain ws where ws: "v = JArr ws" "length ws \<le> 100" "list_all2 (\<lambda>w x. parse_rule w = Inr x) ws rs"
    by (auto simp: parseCampusRules_def map_ok_Inr split: json.splits if_splits)
  then have "length rs \<le> 100" using list_all2_lengthD by fastforce
  moreover from ws(3) assms(2) obtain w where "parse_rule w = Inr r" using list_all2_source [OF ws(3) assms(2)] by blast
  then obtain kvs where "parse_rule (JObj kvs) = Inr r"
    using parse_rule_object by blast
  note rule = parse_rule_Inr [OF this]
  then obtain cs where kvs: "length cs \<le> 100" "map_ok parse_candidate cs = Inr (ri_candidates r)" by blast
  from kvs(2) have pairs: "list_all2 (\<lambda>w c. parse_candidate w = Inr c) cs (ri_candidates r)" by (simp add: map_ok_Inr)
  moreover have "length (ri_candidates r) = length cs" using list_all2_lengthD [OF pairs] by simp
  moreover have "as_assignment_scope (ri_scope r) \<noteq> None" "as_strategy (ri_strategy r) \<noteq> None"
    using rule by (auto simp: as_assignment_scope_def as_strategy_def text_of_def)
  moreover have "ri_balanceNewEntrants r = JBool True \<longrightarrow> ri_strategy r = ''CONTROLLED_RANDOM''"
    using rule by (auto simp: text_of_def)
  moreover have "\<forall>c \<in> set (ri_candidates r). \<not> js_blank (cd_userId c) \<and> js_trim (cd_userId c) = cd_userId c
      \<and> is_integer (cd_capacity c) \<and> 1 \<le> num_value (cd_capacity c) \<and> cd_activeLeadCount c = JInt 0"
    using list_all2_source [OF pairs] parse_candidate_Inr by blast
  ultimately show ?thesis using kvs(1) by simp
qed

definition demo_campus_rules :: json where
  "demo_campus_rules = JArr [JObj [(''scope'', JStr ''GLOBAL''), (''strategy'', JStr ''ROUND_ROBIN''), (''enabled'', JBool True),
     (''candidates'', JArr [JObj [(''userId'', JStr '' u1 ''), (''active'', JBool True), (''capacity'', JNat 5)]])]]"

theorem parsed_rules_well_formed_witness:
  "\<exists>r. parseCampusRules demo_campus_rules = Inr [r] \<and> as_strategy (ri_strategy r) \<noteq> None"
proof -
  have "case parseCampusRules demo_campus_rules of Inr rs \<Rightarrow> length rs = 1 | Inl e \<Rightarrow> False" by code_simp
  then obtain r where run: "parseCampusRules demo_campus_rules = Inr [r]"
    by (cases "parseCampusRules demo_campus_rules") (auto simp: length_Suc_conv)
  with parsed_rules_well_formed [OF run, of r] show ?thesis by simp
qed

end
