(* ===== verification/RequestLaws.thy ===== *)
theory RequestLaws
  imports Reassignment Closure Collaboration LeadRequests AssignmentLaws
begin

text \<open>
  Requests that a second person decides: the reassignment of a lead, its closure, a change of
  its collaborators. Each is filed by one person, decided once by a manager who is someone else,
  and stays as decided for ever; the contract is the one of \<open>Lifecycle\<close>, with the record of the
  request as its status.
\<close>

section \<open>Reassignments\<close>

lemma reassignment_fields_more:
  "lead_state.more s = lead_state.more t \<Longrightarrow> requests s = requests t"
  "lead_state.more s = lead_state.more t \<Longrightarrow> request_decisions s = request_decisions t"
  "lead_state.more s = lead_state.more t \<Longrightarrow> request_keys s = request_keys t"
  by (cases s; cases t; simp)+

lemma requests_audit [simp]:
  "requests (audit_by p c ty b a r k s) = requests s" "request_decisions (audit_by p c ty b a r k s) = request_decisions s"
  by (rule reassignment_fields_more, simp)+

lemma requests_drawn [simp]: "requests (drawn s) = requests s"
  by (rule reassignment_fields_more) simp

definition decided_request :: "principal \<Rightarrow> reassignment_request \<Rightarrow> reassignment_request \<Rightarrow> bool" where
  "decided_request p r r' \<longleftrightarrow> rq_status r = RPending \<and> rq_status r' \<noteq> RPending \<and> is_manager p \<and> rq_requestedBy r \<noteq> userId p
     \<and> rq_decidedBy r' = Some (userId p) \<and> rq_version r' = rq_version r + 1 \<and> rq_leadId r' = rq_leadId r
     \<and> rq_targetUserId r' = rq_targetUserId r \<and> rq_requestedBy r' = rq_requestedBy r \<and> rq_reason r' = rq_reason r"

text \<open>A decision on a pending request, in the order of the code.\<close>

definition decide_effect ::
  "reassignment_request \<Rightarrow> string \<Rightarrow> decide_reassignment \<Rightarrow> principal \<Rightarrow> string \<Rightarrow> 'a reassignment_state_scheme
     \<Rightarrow> lead option result \<times> 'a reassignment_state_scheme" where
  "decide_effect r i d p cid s =
     (if dr_approved d
      then (case assertEligibleTarget (rq_targetUserId r) s of
              Inl e \<Rightarrow> (Inl e, s)
            | Inr _ \<Rightarrow> call (reassignLocalLead (rq_leadId r) (rq_currentOwnerId r) (rq_targetUserId r) p cid (rq_reason r) s)
                (\<lambda>l s1. (Inr (Some l), s1)))
      else call (addActivity (rq_leadId r) (comment_activity REASSIGNMENT_REJECTED i (js_trim (dr_reason d))) p cid s)
             (\<lambda>_ s1. (Inr None, s1)))"

lemma decide_effect_frame:
  assumes "decide_effect r i d p cid s = (q, t)"
  shows "lead_effect p s t \<and> lead_state.more t = lead_state.more s \<and> grows s t"
proof -
  obtain rl t1 where re: "reassignLocalLead (rq_leadId r) (rq_currentOwnerId r) (rq_targetUserId r) p cid (rq_reason r) s = (rl, t1)"
    by fastforce
  obtain ra t2 where ad: "addActivity (rq_leadId r) (comment_activity REASSIGNMENT_REJECTED i (js_trim (dr_reason d))) p cid s = (ra, t2)"
    by fastforce
  have "grows s t1" "grows s t2"
    using supply_operations(3) supply_addActivity re ad by (metis snd_conv)+
  with operation_pairs(6) [OF re] operation_pairs(2) [OF ad] assms show ?thesis
    unfolding decide_effect_def re ad
    by (cases rl; cases ra) (auto split: if_splits sum.splits)
qed

lemma decide_cases:
  assumes "decideValidated i body p cid s = (res, t)"
  obtains "t = s" "\<And>x. res = Inr x \<Longrightarrow> js_get (requests s) i = Some (fst x) \<and> rq_status (fst x) \<noteq> RPending"
  | r d e where "js_get (requests s) i = Some r" "decide_effect r i d p cid s = (Inl e, t)" "res = Inl e"
  | r d lead s1 r' where "js_get (requests s) i = Some r" "decide_effect r i d p cid s = (Inr lead, s1)" "res = Inr (r', lead)"
      "decided_request p r r'" "rq_status r' = (if dr_approved d then RApproved else RRejected)"
      "leads t = leads s1" "requests t = js_set (requests s) i r'" "lead_effect p s t" "grows s t"
proof -
  show ?thesis
  proof (cases "\<exists>d r. is_manager p \<and> validateDecision body = Inr d \<and> js_get (requests s) i = Some r \<and> rq_requestedBy r \<noteq> userId p
      \<and> rq_status r = RPending \<and> (case dr_expectedVersion d of None \<Rightarrow> 1 | Some v \<Rightarrow> v) = rq_version r")
    case False
    then show ?thesis
      using assms that(1) unfolding decideValidated_def Let_def
      by (auto split: if_splits sum.splits option.splits)
  next
    case True
    then obtain d r where g: "is_manager p" "validateDecision body = Inr d" "js_get (requests s) i = Some r"
      "rq_requestedBy r \<noteq> userId p" "rq_status r = RPending" "(case dr_expectedVersion d of None \<Rightarrow> 1 | Some v \<Rightarrow> v) = rq_version r"
      by blast
    obtain q s1 where eff: "decide_effect r i d p cid s = (q, s1)" by fastforce
    note frame = decide_effect_frame [OF eff]
    from frame have same: "requests s1 = requests s" using reassignment_fields_more(1) by blast
    define r' where "r' = r\<lparr>rq_status := (if dr_approved d then RApproved else RRejected), rq_decidedBy := Some (userId p),
       rq_decidedAt := Some (now s1), rq_decisionReason := Some (js_trim (dr_reason d)), rq_version := rq_version r + 1\<rparr>"
    define u where "u = s1\<lparr>requests := js_set (requests s1) i r',
       request_decisions := js_set (request_decisions s1) i (decisionFingerprint s i d (userId p))\<rparr>"
    have run: "decideValidated i body p cid s = call (q, s1) (\<lambda>lead _. (Inr (r', lead), audit_by p cid
        (if dr_approved d then ''LEAD_REASSIGNMENT_APPROVED'' else ''LEAD_REASSIGNMENT_REJECTED'')
        (JObj [(''requestId'', JStr i), (''status'', JStr ''PENDING'')])
        (JObj [(''requestId'', JStr i), (''status'', JStr (reassignment_status_name (rq_status r'))),
               (''moveOpenTasks'', JBool (rq_moveOpenTasks r'))])
        SUCCESS (''reassignment-decision:'' @ i) u))"
      using g eff [unfolded decide_effect_def]
      by (cases q) (simp_all add: decideValidated_def Let_def r'_def u_def)
    show ?thesis
    proof (cases q)
      case (Inl e)
      with run assms eff g(3) show ?thesis by (intro that(2) [of r d e]) simp_all
    next
      case (Inr lead)
      have "lead_effect p s1 u" by (rule lead_effect_same) (simp_all add: u_def)
      with frame have "lead_effect p s u" using lead_effect_trans by blast
      moreover from frame have "grows s u" by (simp add: grows_def u_def)
      moreover have "decided_request p r r'" using g by (simp add: decided_request_def r'_def)
      ultimately show ?thesis
        using run assms eff g(3) Inr same
        by (intro that(3) [of r d lead s1 r']) (auto simp: u_def r'_def intro: effect_audit supply_audit)
    qed
  qed
qed

lemma request_fresh:
  assumes "requestValidated leadId body p cid s = (res, t)"
  shows "lead_effect p s t \<and> grows s t \<and> (requests t = requests s \<or> (\<exists>r. rq_id r = fresh_uuid s \<and> rq_status r = RPending
    \<and> rq_version r = 1 \<and> requests t = js_set (requests s) (fresh_uuid s) r \<and> fresh_uuid s \<in> issued t))"
proof (cases "\<exists>i l. is_operational p \<and> validateRequest body = Inr i \<and> js_get (request_keys s) (cr_idempotencyKey i) = None
    \<and> findLocalLead leadId s = Some l \<and> truthy (ld_assignedToId l) \<and> \<not> (ADMISSIONS \<in> set (p_roles p) \<and> ld_assignedToId l \<noteq> Some (userId p))
    \<and> ld_assignedToId l \<noteq> Some (cr_targetUserId i) \<and> assertEligibleTarget (cr_targetUserId i) s = Inr ()
    \<and> \<not> list_ex (pending_for leadId) (js_values (requests s))")
  case False
  have "t = s"
    using assms False unfolding requestValidated_def Let_def
    by (auto split: if_splits sum.splits option.splits)
  then show ?thesis by simp
next
  case True
  then obtain i l where g: "is_operational p" "validateRequest body = Inr i" "js_get (request_keys s) (cr_idempotencyKey i) = None"
    "findLocalLead leadId s = Some l" "truthy (ld_assignedToId l)" "\<not> (ADMISSIONS \<in> set (p_roles p) \<and> ld_assignedToId l \<noteq> Some (userId p))"
    "ld_assignedToId l \<noteq> Some (cr_targetUserId i)" "assertEligibleTarget (cr_targetUserId i) s = Inr ()"
    "\<not> list_ex (pending_for leadId) (js_values (requests s))" by blast
  define r where "r = \<lparr>rq_id = fresh_uuid s, rq_leadId = leadId,
     rq_currentOwnerId = opt_text (ld_assignedToId l), rq_targetUserId = cr_targetUserId i,
     rq_reason = js_trim (cr_reason i), rq_moveOpenTasks = cr_moveOpenTasks i,
     rq_requestedBy = userId p, rq_status = RPending, rq_requestedAt = now s,
     rq_decidedBy = None, rq_decidedAt = None, rq_decisionReason = None, rq_version = 1\<rparr>"
  define s1 where "s1 = (drawn s)\<lparr>requests := js_set (requests s) (rq_id r) r,
     request_keys := js_set (request_keys s) (cr_idempotencyKey i) (rq_id r)\<rparr>"
  obtain ra u where add: "addActivity leadId (comment_activity REASSIGNMENT_REQUESTED (rq_id r) (rq_reason r)) p cid s1 = (ra, u)"
    by fastforce
  note frame = operation_pairs(2) [OF add]
  then have u: "requests u = requests s1" using reassignment_fields_more(1) by blast
  have run: "snd (requestValidated leadId body p cid s) = snd (call (ra, u) (\<lambda>_ s2. (Inr r, audit_by p cid ''LEAD_REASSIGNMENT_REQUESTED'' JUndef
     (JObj [(''requestId'', JStr (rq_id r)), (''leadId'', JStr leadId), (''currentOwnerId'', JStr (rq_currentOwnerId r)),
        (''targetUserId'', JStr (rq_targetUserId r)), (''moveOpenTasks'', JBool (rq_moveOpenTasks r))])
     SUCCESS (''reassignment-request:'' @ cr_idempotencyKey i) s2)))"
    unfolding requestValidated_def Let_def
    by (simp only: g(1-5,7-9) g(6) simp_thms if_True if_False if_not_P sum.case option.case r_def [symmetric] s1_def [symmetric] add)
  have "lead_effect p s s1" by (rule lead_effect_same) (simp_all add: s1_def)
  with frame have eff: "lead_effect p s u" using lead_effect_trans by blast
  have more: "requests t = js_set (requests s) (fresh_uuid s) r"
    using run assms u by (cases ra) (simp_all add: s1_def r_def)
  have eff_t: "lead_effect p s t" using run assms eff by (cases ra) (auto intro: effect_audit)
  have "draws s < draws t \<and> uuid t = uuid s"
  proof -
    have "grows s1 u" using supply_addActivity add by (metis snd_conv)
    then have "draws s < draws u" "uuid u = uuid s" by (auto simp: grows_def s1_def)
    with run assms show ?thesis by (cases ra) (auto intro: less_le_trans audit_supply(2))
  qed
  then have "fresh_uuid s \<in> issued t" by (auto simp: issued_def fresh_uuid_def)
  moreover have "grows s t" using \<open>draws s < draws t \<and> uuid t = uuid s\<close> by (simp add: grows_def)
  ultimately show ?thesis using more eff_t by (intro conjI disjI2 exI [of _ r]) (simp_all add: r_def)
qed

lemma reassigned_lead:
  assumes "reassignLocalLead i owner target p cid reason s = (Inr l', t)"
  shows "\<exists>l. js_get (leads s) i = Some l \<and> ld_assignedToId l = Some owner \<and> target \<noteq> owner \<and> ld_assignedToId l' = Some target
    \<and> ld_id l' = ld_id l \<and> ld_status l' = ld_status l \<and> leads t = js_set (leads s) i l'"
  using assms by (auto simp: reassignLocalLead_def Let_def split: if_splits option.splits)

text \<open>An activity, and the automatic contact it may record, leave every owner.\<close>

definition owners_kept :: "'a lead_state_scheme \<Rightarrow> 'a lead_state_scheme \<Rightarrow> bool" where
  "owners_kept s t \<longleftrightarrow> (\<forall>k l. js_get (leads s) k = Some l \<longrightarrow>
     (\<exists>l'. js_get (leads t) k = Some l' \<and> ld_assignedToId l' = ld_assignedToId l))"

lemma owners_kept_refl [simp]: "owners_kept s s"
  by (simp add: owners_kept_def)

lemma owners_kept_trans: "owners_kept s t \<Longrightarrow> owners_kept t u \<Longrightarrow> owners_kept s u"
  unfolding owners_kept_def by (metis (no_types, lifting))

lemma owners_kept_put:
  assumes "js_get (leads s) i = Some l" and "leads t = js_set (leads s) i l'" and "ld_assignedToId l' = ld_assignedToId l"
  shows "owners_kept s t"
  using assms by (simp add: owners_kept_def)

lemma owners_kept_changeStatus: "owners_kept s (snd (changeStatus i st p cid s))"
proof (cases "js_get (leads s) i")
  case None
  then show ?thesis by (simp add: changeStatus_def)
next
  case (Some l)
  then show ?thesis
    by (auto simp: changeStatus_def Let_def split: option.split sum.split intro!: owners_kept_put [OF Some])
qed

lemma owners_kept_addActivity: "owners_kept s (snd (addActivity i inp p cid s))"
proof (cases "js_get (leads s) i")
  case None
  then show ?thesis by (simp add: addActivity_def)
next
  case (Some l)
  show ?thesis
  proof (cases "as_activity_type (in_type inp)")
    case None
    with Some show ?thesis by (simp add: addActivity_def)
  next
    case (Some ty)
    note l = \<open>js_get (leads s) i = Some l\<close>
    show ?thesis
    proof (cases "parse_next_action s (in_nextActionAt inp)")
      case (Inl e)
      with Some l show ?thesis by (simp add: addActivity_def)
    next
      case (Inr na)
      let ?a = "\<lparr>ac_id = fresh_uuid s, ac_leadId = i, ac_type = ty, ac_result = js_trim (in_result inp),
         ac_note = (if js_blank (opt_text (in_note inp)) then None else Some (js_trim (opt_text (in_note inp)))),
         ac_authorId = userId p, ac_nextActionAt = map_option (iso_string s) na,
         ac_correlationId = cid, ac_occurredAt = now s, ac_correction = None\<rparr>"
      let ?l = "l\<lparr>ld_lastActivityAt := Some (now s), ld_nextActionAt := (if in_clearNextAction inp then None
         else case ac_nextActionAt ?a of None \<Rightarrow> ld_nextActionAt l | Some t \<Rightarrow> Some t)\<rparr>"
      let ?s = "audit_by p cid ''LEAD_ACTIVITY_ADDED'' JUndef
         (JObj [(''leadId'', JStr i), (''activityId'', JStr (ac_id ?a)), (''type'', JStr (activity_name ty))])
         SUCCESS (''lead-activity:'' @ ac_id ?a) ((add_to_timeline ?a (drawn s))\<lparr>leads := js_set (leads s) i ?l\<rparr>)"
      have done_s: "owners_kept s ?s"
        by (rule owners_kept_put [OF l, where l' = ?l]) simp_all
      obtain r u where run: "changeStatus i automatic_contact p cid ?s = (r, u)"
        by (cases "changeStatus i automatic_contact p cid ?s") auto
      have "owners_kept ?s u"
        using owners_kept_changeStatus [of ?s i automatic_contact p cid] unfolding run snd_conv .
      with done_s have "owners_kept s u" by (rule owners_kept_trans)
      with done_s run Some l Inr show ?thesis
        by (cases r) (auto simp: addActivity_def Let_def split: option.split)
    qed
  qed
qed

text \<open>
  C5: A reassignment takes two persons: a pending request is decided by a manager other than
  the one who made it; approved, the lead goes from the owner recorded in the request to the
  target, who must be an eligible candidate at that moment; rejected, every lead keeps its owner.
\<close>

theorem reassignment_takes_two:
  assumes "decideValidated i body p cid s = (Inr (r', lead), t)" and "js_get (requests s) i = Some r"
    and "rq_status r = RPending"
  shows "is_manager p \<and> rq_requestedBy r \<noteq> userId p \<and> rq_decidedBy r' = Some (userId p) \<and> js_get (requests t) i = Some r'
    \<and> (case rq_status r' of
         RPending \<Rightarrow> False
       | RApproved \<Rightarrow> assertEligibleTarget (rq_targetUserId r) s = Inr () \<and>
           (\<exists>l l'. js_get (leads s) (rq_leadId r) = Some l \<and> ld_assignedToId l = Some (rq_currentOwnerId r)
              \<and> leads t = js_set (leads s) (rq_leadId r) l' \<and> ld_assignedToId l' = Some (rq_targetUserId r))
       | RRejected \<Rightarrow> owners_kept s t)"
proof (rule decide_cases [OF assms(1)])
  fix r0 d lead0 s1 r1
  assume r0: "js_get (requests s) i = Some r0" and eff: "decide_effect r0 i d p cid s = (Inr lead0, s1)"
    and res: "Inr (r', lead) = Inr (r1, lead0)" and dec: "decided_request p r0 r1"
    and st: "rq_status r1 = (if dr_approved d then RApproved else RRejected)"
    and t: "leads t = leads s1" "requests t = js_set (requests s) i r1"
  from r0 assms(2) res have same: "r0 = r" "r1 = r'" by auto
  show ?thesis
  proof (cases "dr_approved d")
    case True
    with eff same obtain l where "assertEligibleTarget (rq_targetUserId r) s = Inr ()"
      "reassignLocalLead (rq_leadId r) (rq_currentOwnerId r) (rq_targetUserId r) p cid (rq_reason r) s = (Inr l, s1)"
      by (auto simp: decide_effect_def call_Inr split: sum.splits)
    with reassigned_lead [OF this(2)] True st dec t same show ?thesis by (auto simp: decided_request_def)
  next
    case False
    with eff same obtain a where
      "addActivity (rq_leadId r) (comment_activity REASSIGNMENT_REJECTED i (js_trim (dr_reason d))) p cid s = (Inr a, s1)"
      by (auto simp: decide_effect_def call_Inr)
    with owners_kept_addActivity [of s "rq_leadId r" "comment_activity REASSIGNMENT_REJECTED i (js_trim (dr_reason d))" p cid]
    have "owners_kept s s1" by simp
    with t(1) have "owners_kept s t" by (simp add: owners_kept_def)
    with False st dec t same show ?thesis by (simp add: decided_request_def)
  qed
qed (use assms(2,3) in auto)

section \<open>The life of a reassignment\<close>

definition reassignment_ok :: "'a reassignment_state_scheme \<Rightarrow> bool" where
  "reassignment_ok s \<longleftrightarrow> inj (uuid s) \<and> (\<forall>k r. js_get (requests s) k = Some r \<longrightarrow> k \<in> issued s)"

inductive reassignment_step :: "'a reassignment_state_scheme \<Rightarrow> 'a reassignment_state_scheme \<Rightarrow> bool" where
  ask: "reassignment_step s (snd (requestValidated leadId body p cid s))"
| answer: "reassignment_step s (snd (decideValidated i body p cid s))"
| other: "lead_request p s t \<Longrightarrow> reassignment_step s t"

definition reassignment_moves :: "reassignment_request \<Rightarrow> reassignment_request \<Rightarrow> bool" where
  "reassignment_moves r r' \<longleftrightarrow> (\<exists>p. decided_request p r r')"

lemma reassignment_ok_decided:
  assumes "reassignment_ok s" and "grows s t" and "requests t = requests s \<or> (\<exists>r r'. js_get (requests s) i = Some r \<and> requests t = js_set (requests s) i r')"
  shows "reassignment_ok t"
  using assms supply_issued [OF assms(2)] unfolding reassignment_ok_def
  by (auto simp: grows_def split: if_splits)

interpretation reassignment_life: lifecycle "\<lambda>s k. js_get (requests s) k" reassignment_moves "\<lambda>r. rq_status r \<noteq> RPending"
  reassignment_step reassignment_ok
proof (unfold_locales, goal_cases)
  case (1 s t)
  from 1(2) show ?case
  proof cases
    case (ask leadId body p cid)
    obtain res where run: "requestValidated leadId body p cid s = (res, t)" using ask by (metis prod.collapse)
    from request_fresh [OF run] 1(1) supply_issued show ?thesis
      unfolding reassignment_ok_def by (fastforce simp: grows_def split: if_splits)
  next
    case (answer i body p cid)
    obtain res where run: "decideValidated i body p cid s = (res, t)" using answer by (metis prod.collapse)
    show ?thesis
    proof (rule decide_cases [OF run])
      fix r d e
      assume "decide_effect r i d p cid s = (Inl e, t)"
      note frame = decide_effect_frame [OF this]
      then have "requests t = requests s" using reassignment_fields_more(1) by blast
      with frame show ?thesis using reassignment_ok_decided [OF 1(1)] by blast
    next
      fix r d lead s1 r'
      assume "js_get (requests s) i = Some r" "requests t = js_set (requests s) i r'" "grows s t"
      then show ?thesis using reassignment_ok_decided [OF 1(1), of t i] by blast
    qed (use 1(1) in simp)
  next
    case (other p)
    then have "requests t = requests s" using more_request reassignment_fields_more(1) by blast
    with supply_request [OF other] show ?thesis using reassignment_ok_decided [OF 1(1)] by blast
  qed
next
  case (2 s t k a)
  from 2(2) show ?case
  proof cases
    case (ask leadId body p cid)
    obtain res where run: "requestValidated leadId body p cid s = (res, t)" using ask by (metis prod.collapse)
    from 2(1,3) fresh_uuid_not_issued [of s] have "k \<noteq> fresh_uuid s" by (auto simp: reassignment_ok_def)
    with request_fresh [OF run] 2(3) have "js_get (requests t) k = Some a" by auto
    then show ?thesis by blast
  next
    case (answer i body p cid)
    obtain res where run: "decideValidated i body p cid s = (res, t)" using answer by (metis prod.collapse)
    show ?thesis
    proof (rule decide_cases [OF run])
      fix r d e
      assume "decide_effect r i d p cid s = (Inl e, t)"
      then have "requests t = requests s" using decide_effect_frame reassignment_fields_more(1) by blast
      with 2(3) show ?thesis by auto
    next
      fix r d lead s1 r'
      assume "js_get (requests s) i = Some r" "decided_request p r r'" "requests t = js_set (requests s) i r'"
      with 2(3) show ?thesis by (cases "k = i") (auto simp: reassignment_moves_def intro!: r_into_rtranclp)
    qed (use 2(3) in auto)
  next
    case (other p)
    then have "requests t = requests s" using more_request reassignment_fields_more(1) by blast
    with 2(3) show ?thesis by auto
  qed
next
  case (3 a b)
  then show ?case by (auto simp: reassignment_moves_def decided_request_def)
qed

text \<open>
  A reassignment request is decided once: whatever is asked, answered or done to the leads
  afterwards, it is either still as it was filed, or decided by one manager who did not file it,
  and a decided request never changes again.
\<close>

theorem reassignment_decided_once:
  assumes "reassignment_ok s" and "reassignment_step\<^sup>*\<^sup>* s t" and "js_get (requests s) k = Some r"
  shows "\<exists>r'. js_get (requests t) k = Some r' \<and> (r' = r \<or> rq_status r = RPending \<and> (\<exists>p. decided_request p r r'))"
proof -
  from reassignment_life.run_moves [OF assms(2,1,3)] obtain r'
    where r': "js_get (requests t) k = Some r'" "reassignment_moves\<^sup>*\<^sup>* r r'" by blast
  from r'(2) have "r' = r \<or> reassignment_moves r r'"
  proof (cases rule: converse_rtranclpE)
    case (step y)
    then have "rq_status y \<noteq> RPending" by (auto simp: reassignment_moves_def decided_request_def)
    with step reassignment_life.final_run show ?thesis by blast
  qed simp
  with r'(1) show ?thesis by (auto simp: reassignment_moves_def decided_request_def)
qed

definition demo_request :: reassignment_request where
  "demo_request = \<lparr>rq_id = ''id-'', rq_leadId = ''id-'', rq_currentOwnerId = ''u1'', rq_targetUserId = ''u2'',
     rq_reason = ''moves away'', rq_moveOpenTasks = False, rq_requestedBy = ''u1'', rq_status = RPending, rq_requestedAt = 5,
     rq_decidedBy = None, rq_decidedAt = None, rq_decisionReason = None, rq_version = 1\<rparr>"

definition reassignment_demo :: reassignment_state where
  "reassignment_demo = lead_demo CONTACTED (assignment_state_ext [(''r1'', demo_rule 0)] [] [] [] []
     (reassignment_state_ext [(''id-'', demo_request)] [(''key-0001'', ''id-'')] [] ()))"

definition demo_approval :: "(string \<times> json) list" where
  "demo_approval = [(''approved'', JBool True), (''reason'', JStr ''agreed today'')]"

lemma reassignment_demo_requests: "requests reassignment_demo = [(''id-'', demo_request)]"
  by (simp add: reassignment_demo_def lead_demo_def note_demo_def user_demo_def demo_host_def)

lemma reassignment_demo_run:
  obtains r' lead t where "decideValidated ''id-'' demo_approval demo_manager ''c'' reassignment_demo = (Inr (r', lead), t)"
    and "rq_status r' = RApproved"
proof -
  let ?run = "decideValidated ''id-'' demo_approval demo_manager ''c'' reassignment_demo"
  have "case fst ?run of Inr (r', lead) \<Rightarrow> rq_status r' = RApproved | Inl e \<Rightarrow> False" by code_simp
  with that show ?thesis by (cases ?run; cases "fst ?run") auto
qed

theorem reassignment_takes_two_witness:
  "\<exists>l'. js_get (leads (snd (decideValidated ''id-'' demo_approval demo_manager ''c'' reassignment_demo))) ''id-'' = Some l'
     \<and> ld_assignedToId l' = Some ''u2''"
proof -
  obtain r' lead t where run: "decideValidated ''id-'' demo_approval demo_manager ''c'' reassignment_demo = (Inr (r', lead), t)"
    and st: "rq_status r' = RApproved" by (rule reassignment_demo_run)
  have known: "js_get (requests reassignment_demo) ''id-'' = Some demo_request" by (simp add: reassignment_demo_requests js_get_def)
  have pending: "rq_status demo_request = RPending" and target: "rq_leadId demo_request = ''id-''" "rq_targetUserId demo_request = ''u2''"
    by (simp_all add: demo_request_def)
  have "\<exists>l'. leads t = js_set (leads reassignment_demo) ''id-'' l' \<and> ld_assignedToId l' = Some ''u2''"
    using reassignment_takes_two [OF run known pending] unfolding st target reassignment_status.case by blast
  then show ?thesis unfolding run snd_conv by (elim exE) simp
qed

theorem reassignment_decided_once_witness:
  "\<exists>r'. js_get (requests (snd (decideValidated ''id-'' demo_approval demo_manager ''c'' reassignment_demo))) ''id-'' = Some r'
     \<and> rq_reason r' = ''moves away''"
proof -
  have "{..<3::nat} = {0, 1, 2}" by auto
  then have "''id-'' \<in> issued reassignment_demo"
    by (simp add: issued_def reassignment_demo_def lead_demo_def note_demo_def user_demo_def demo_host_def)
  moreover have "lead_ok reassignment_demo" unfolding reassignment_demo_def by (rule lead_demo_ok)
  then have "inj (uuid reassignment_demo)" by (simp add: lead_ok_def)
  ultimately have ok: "reassignment_ok reassignment_demo"
    by (simp add: reassignment_ok_def reassignment_demo_requests js_get_def)
  have known: "js_get (requests reassignment_demo) ''id-'' = Some demo_request" by (simp add: reassignment_demo_requests js_get_def)
  have "reassignment_step\<^sup>*\<^sup>* reassignment_demo (snd (decideValidated ''id-'' demo_approval demo_manager ''c'' reassignment_demo))"
    by (rule r_into_rtranclp) (rule reassignment_step.answer)
  from reassignment_decided_once [OF ok this known] show ?thesis
    by (auto simp: decided_request_def demo_request_def)
qed

end
