(* ===== verification/ClosureLaws.thy ===== *)
theory ClosureLaws
  imports Closure LeadRequests
begin

text \<open>
  What a closure promises: a lead is enrolled or lost by two persons, one asking and a manager
  deciding, on the evidence of the request; a decided or cancelled request stays so.
\<close>

lemma closures_more: "lead_state.more s = lead_state.more t \<Longrightarrow> closures s = closures t"
  by (cases s; cases t; simp)

lemma closures_frames [simp]:
  "closures (audit_by p c ty b a r k s) = closures s" "closures (drawn s) = closures s"
  "closures (snd (notification_create ni nk s)) = closures s"
  by (rule closures_more, simp)+

lemma closure_audit_frames [simp]:
  "closures (closure_audit r p cid ty s) = closures s" "leads (closure_audit r p cid ty s) = leads s"
  by (simp_all add: closure_audit_def)

lemma changed_lead:
  assumes "changeStatus i inp p cid s = (Inr l', t)"
  shows "\<exists>l st. js_get (leads s) i = Some l \<and> as_status (si_status inp) = Some st \<and> st \<in> set (allowedTransitions (ld_status l))
    \<and> ld_status l' = st \<and> leads t = js_set (leads s) i l'"
  using assms by (auto simp: changeStatus_def Let_def split: if_splits option.splits sum.splits)

lemma getLead_leads [simp]: "leads (snd (getLead i p cid s)) = leads s"
  by (simp add: getLead_def Let_def split: option.split)

lemma pair_closures:
  "getLead i p cid s = (q, t) \<Longrightarrow> closures t = closures s \<and> leads t = leads s"
  "changeStatus i st p cid s = (ql, t) \<Longrightarrow> closures t = closures s"
  using closures_more more_lead_operations getLead_leads by (metis snd_conv)+

lemma check_qualification_frames:
  assumes "check_qualification r p cid s = (q, t)"
  shows "closures t = closures s \<and> leads t = leads s"
proof -
  obtain v u where read: "getLead (cl_leadId r) p cid s = (v, u)" by fastforce
  from pair_closures(1) [OF read] assms read show ?thesis
    by (cases v) (auto simp: check_qualification_def split: option.splits sum.splits if_splits)
qed

text \<open>What an approval does before the request is written.\<close>

definition approval ::
  "closure_request \<Rightarrow> json \<Rightarrow> principal \<Rightarrow> string \<Rightarrow> 'a closure_service_scheme \<Rightarrow> unit result \<times> 'a closure_service_scheme" where
  "approval r decision p cid s =
     (if decision = JStr ''APPROVE''
      then call (check_qualification r p cid s) (\<lambda>_ s1.
        call (changeStatus (cl_leadId r) \<lparr>si_status = status_name (cl_target r), si_reason = JStr (cl_comment r),
           si_qualification = (if server_evidence (cl_evidence r) \<noteq> None then both_confirmed else JUndef)\<rparr> p cid s1)
          (\<lambda>_ s2. (Inr (), s2)))
      else (Inr (), s))"

definition closed_lead :: "closure_request \<Rightarrow> 'a closure_service_scheme \<Rightarrow> 'a closure_service_scheme \<Rightarrow> bool" where
  "closed_lead r s t \<longleftrightarrow> (\<exists>l l'. js_get (leads s) (cl_leadId r) = Some l \<and> cl_target r \<in> set (allowedTransitions (ld_status l))
     \<and> ld_status l' = cl_target r \<and> leads t = js_set (leads s) (cl_leadId r) l')"

lemma approval_done:
  assumes "approval r decision p cid s = (q, t)"
  shows "closures t = closures s \<and> (q = Inr () \<longrightarrow> (if decision = JStr ''APPROVE'' then closed_lead r s t else leads t = leads s))"
proof (cases "decision = JStr ''APPROVE''")
  case False
  with assms show ?thesis by (simp add: approval_def)
next
  case True
  obtain c s1 where check: "check_qualification r p cid s = (c, s1)" by fastforce
  note c = check_qualification_frames [OF check]
  obtain cl s2 where change: "changeStatus (cl_leadId r) \<lparr>si_status = status_name (cl_target r), si_reason = JStr (cl_comment r),
           si_qualification = (if server_evidence (cl_evidence r) \<noteq> None then both_confirmed else JUndef)\<rparr> p cid s1 = (cl, s2)"
    by fastforce
  note frame = pair_closures(2) [OF change]
  show ?thesis
  proof (cases c)
    case (Inl e)
    with True check c assms show ?thesis by (auto simp: approval_def)
  next
    case (Inr x)
    have "closed_lead r s s2" if cl: "cl = Inr l'" for l'
      using changed_lead [OF change [unfolded cl]] c by (auto simp: closed_lead_def)
    with True check change Inr c frame assms show ?thesis
      unfolding approval_def by (cases cl) auto
  qed
qed

definition closure_moves :: "closure_request \<Rightarrow> closure_request \<Rightarrow> bool" where
  "closure_moves r r' \<longleftrightarrow> cl_state r = ClPending \<and> cl_state r' \<noteq> ClPending \<and> cl_version r' = cl_version r + 1
     \<and> cl_leadId r' = cl_leadId r \<and> cl_target r' = cl_target r \<and> cl_requesterId r' = cl_requesterId r \<and> cl_evidence r' = cl_evidence r
     \<and> (\<exists>p. cl_decidedBy r' = Some (userId p) \<and> (cl_state r' \<noteq> ClCancelled \<longrightarrow> is_manager p \<and> cl_requesterId r \<noteq> userId p))"

lemma closure_decide_cases:
  assumes "closure_decide i decision reason expected p cid s = (res, t)"
  obtains "closures t = closures s" "\<And>x. res \<noteq> Inr x"
  | r r' s1 where "js_get (closures s) i = Some r" "approval r decision p cid s = (Inr (), s1)" "is_manager p"
      "cl_requesterId r \<noteq> userId p" "expected = JNum (JInt (cl_version r))" "closure_moves r r'"
      "cl_decidedBy r' = Some (userId p)" "cl_state r' = (if decision = JStr ''APPROVE'' then ClApproved else ClRejected)"
      "finalTarget (cl_target r)" "closures t = js_set (closures s) i r'" "leads t = leads s1" "\<And>x. res = Inr x \<Longrightarrow> x = r'"
proof (cases "\<exists>r. js_get (closures s) i = Some r \<and> cl_requesterId r \<noteq> userId p \<and> is_manager p \<and> cl_state r = ClPending
    \<and> expected = JNum (JInt (cl_version r)) \<and> finalTarget (cl_target r) \<and> decision \<in> {JStr ''APPROVE'', JStr ''REJECT''}
    \<and> js_trim (opt_text (text_of reason)) \<noteq> [] \<and> \<not> 1000 < length (js_trim (opt_text (text_of reason)))")
  case False
  then show ?thesis
    using assms that(1) unfolding closure_decide_def Let_def
    by (auto split: if_splits option.splits)
next
  case True
  then obtain r where g: "js_get (closures s) i = Some r" "cl_requesterId r \<noteq> userId p" "is_manager p" "cl_state r = ClPending"
    "expected = JNum (JInt (cl_version r))" "finalTarget (cl_target r)" "(decision \<notin> {JStr ''APPROVE'', JStr ''REJECT''}) = False"
    "(js_trim (opt_text (text_of reason)) = []) = False" "(1000 < length (js_trim (opt_text (text_of reason)))) = False"
    by blast
  obtain q s1 where appr: "approval r decision p cid s = (q, s1)" by fastforce
  note a = approval_done [OF appr]
  define r' where "r' = r\<lparr>cl_state := (if decision = JStr ''APPROVE'' then ClApproved else ClRejected),
     cl_version := cl_version r + 1, cl_decidedAt := Some (now s1), cl_decidedBy := Some (userId p),
     cl_decisionReason := Some (js_trim (opt_text (text_of reason)))\<rparr>"
  obtain n u where note_run: "notification_create \<lparr>ni_recipientId = cl_requesterId r, ni_type = CLOSURE_REQUEST,
          ni_priority = PrioHigh, ni_resourceType = ResLead, ni_resourceId = cl_leadId r,
          ni_href = ''/leads/'' @ cl_leadId r @ ''/closure''\<rparr> (''closure-decision:'' @ i)
          (s1\<lparr>closures := js_set (closures s1) i r'\<rparr>) = (n, u)" by fastforce
  have u: "closures u = js_set (closures s1) i r'" "leads u = leads s1"
    using arg_cong [OF note_run, of "\<lambda>m. closures (snd m)"] arg_cong [OF note_run, of "\<lambda>m. leads (snd m)"] by simp_all
  have run: "closure_decide i decision reason expected p cid s = call (q, s1) (\<lambda>_ _. call (n, u) (\<lambda>_ s2.
      (Inr r', closure_audit r' p cid (''CLOSURE_'' @ closure_state_name (cl_state r')) s2)))"
    by (cases q) (simp_all only: closure_decide_def Let_def g option.case if_False if_True simp_thms
        approval_def [symmetric] appr call_simps r'_def [symmetric] note_run)
  show ?thesis
  proof (cases q)
    case (Inl e)
    with run assms a show ?thesis by (intro that(1)) auto
  next
    case (Inr x)
    have "closure_moves r r'" using g(2-4) by (auto simp: closure_moves_def r'_def)
    moreover have "cl_decidedBy r' = Some (userId p)" "cl_state r' = (if decision = JStr ''APPROVE'' then ClApproved else ClRejected)"
      by (simp_all add: r'_def)
    moreover have "closures t = js_set (closures s) i r'" "leads t = leads s1" "\<And>x. res = Inr x \<Longrightarrow> x = r'"
      using run assms Inr a u by (cases n; auto)+
    ultimately show ?thesis using g appr Inr by (intro that(2) [of r s1 r']) auto
  qed
qed

text \<open>
  C6: A lead is closed by two persons: an approved closure was pending in the version the
  decider had seen, was asked by someone else, is decided by a manager, and takes the lead along
  its table of transitions to the target of the request; a rejected one leaves every lead alone.
\<close>

theorem closure_takes_two:
  assumes "closure_decide i decision reason expected p cid s = (Inr r', t)" and "js_get (closures s) i = Some r"
  shows "is_manager p \<and> cl_requesterId r \<noteq> userId p \<and> cl_state r = ClPending \<and> expected = JNum (JInt (cl_version r))
    \<and> js_get (closures t) i = Some r' \<and> cl_decidedBy r' = Some (userId p) \<and> cl_version r' = cl_version r + 1
    \<and> (if cl_state r' = ClApproved
       then (\<exists>l l'. js_get (leads s) (cl_leadId r) = Some l \<and> cl_target r \<in> {ENROLLED, CLOSED_LOST}
               \<and> cl_target r \<in> set (allowedTransitions (ld_status l)) \<and> ld_status l' = cl_target r
               \<and> leads t = js_set (leads s) (cl_leadId r) l')
       else cl_state r' = ClRejected \<and> leads t = leads s)"
proof (rule closure_decide_cases [OF assms(1)])
  fix r0 r1 s1
  assume r0: "js_get (closures s) i = Some r0" and appr: "approval r0 decision p cid s = (Inr (), s1)"
    and who: "is_manager p" "cl_requesterId r0 \<noteq> userId p" "expected = JNum (JInt (cl_version r0))"
    and moved: "closure_moves r0 r1" "cl_decidedBy r1 = Some (userId p)"
      "cl_state r1 = (if decision = JStr ''APPROVE'' then ClApproved else ClRejected)"
    and final: "finalTarget (cl_target r0)" and t: "closures t = js_set (closures s) i r1" "leads t = leads s1"
    and res: "\<And>x. Inr r' = Inr x \<Longrightarrow> x = r1"
  have same: "r0 = r" "r1 = r'" using r0 assms(2) res [OF refl] by auto
  note a = approval_done [OF appr]
  show ?thesis
  proof (cases "decision = JStr ''APPROVE''")
    case True
    with a have "closed_lead r0 s s1" by simp
    with True who moved final t same show ?thesis
      by (auto simp: closed_lead_def closure_moves_def finalTarget_def)
  next
    case False
    with a who moved t same show ?thesis by (auto simp: closure_moves_def)
  qed
qed blast

section \<open>The life of a closure\<close>

inductive closure_step :: "'a closure_service_scheme \<Rightarrow> 'a closure_service_scheme \<Rightarrow> bool" where
  ask: "closure_step s (snd (closure_request_op leadId body p cid s))"
| answer: "closure_step s (snd (closure_decideForApi i body p cid s))"
| withdraw: "closure_step s (snd (closure_cancel i p cid False s))"
| other: "lead_request p s t \<Longrightarrow> closure_step s t"

lemma closure_asked:
  assumes "closure_request_op leadId body p cid s = (res, t)" and "js_get (closures s) k = Some r"
  shows "js_get (closures t) k = Some r"
proof -
  obtain q u where read: "getLead leadId p cid s = (q, u)" by fastforce
  note pair_closures(1) [OF read]
  with assms read show ?thesis
    unfolding closure_request_op_def Let_def
    by (cases q) (auto split: if_splits option.splits sum.splits json.splits)
qed

lemma closure_cancelled:
  assumes "closure_cancel i p cid False s = (res, t)"
  shows "closures t = closures s \<or> (\<exists>r r'. js_get (closures s) i = Some r \<and> closure_moves r r' \<and> closures t = js_set (closures s) i r')"
proof (cases "\<exists>r. js_get (closures s) i = Some r \<and> cl_requesterId r = userId p \<and> cl_state r = ClPending")
  case False
  with assms show ?thesis by (auto simp: closure_cancel_def Let_def split: if_splits option.splits)
next
  case True
  then obtain r where r: "js_get (closures s) i = Some r" "cl_requesterId r = userId p" "cl_state r = ClPending" by blast
  define r' where "r' = r\<lparr>cl_state := ClCancelled, cl_version := cl_version r + 1, cl_decidedAt := Some (now s),
     cl_decidedBy := Some (userId p), cl_decisionReason := Some (if finalTarget (cl_target r) then ''REQUESTER_CANCELLED''
       else ''COMMERCIAL_STAGE_WORKFLOW_RETIRED_V1'')\<rparr>"
  have "closure_moves r r'" using r by (auto simp: closure_moves_def r'_def)
  moreover from assms r have "closures t = js_set (closures s) i r'"
    by (auto simp: closure_cancel_def Let_def simp flip: r'_def)
  ultimately show ?thesis using r(1) by blast
qed

lemma closure_answered:
  assumes "closure_decideForApi i body p cid s = (res, t)"
  shows "closures t = closures s \<or> (\<exists>r r'. js_get (closures s) i = Some r \<and> closure_moves r r' \<and> closures t = js_set (closures s) i r')"
proof -
  have "closures (snd (closure_decide i d w e p cid s)) = closures s
      \<or> (\<exists>r r'. js_get (closures s) i = Some r \<and> closure_moves r r' \<and> closures (snd (closure_decide i d w e p cid s)) = js_set (closures s) i r')"
    for d w e
    by (rule closure_decide_cases [of i d w e p cid s "fst (closure_decide i d w e p cid s)" "snd (closure_decide i d w e p cid s)"]) auto
  with assms show ?thesis
    unfolding closure_decideForApi_def by (auto split: sum.splits if_splits) (metis snd_conv)+
qed

interpretation closure_life: lifecycle "\<lambda>s k. js_get (closures s) k" closure_moves "\<lambda>r. cl_state r \<noteq> ClPending" closure_step "\<lambda>_. True"
proof (unfold_locales, goal_cases)
  case (2 s t k a)
  have moved: ?case if "closures t = closures s \<or> (\<exists>r r'. js_get (closures s) i = Some r \<and> closure_moves r r' \<and> closures t = js_set (closures s) i r')" for i
    using that 2(3) by (cases "k = i") (auto intro!: r_into_rtranclp)
  from 2(2) show ?case
  proof cases
    case (ask leadId body p cid)
    then obtain res where "closure_request_op leadId body p cid s = (res, t)" by (metis prod.collapse)
    from closure_asked [OF this 2(3)] show ?thesis by blast
  next
    case (answer i body p cid)
    then obtain res where "closure_decideForApi i body p cid s = (res, t)" by (metis prod.collapse)
    from moved [OF closure_answered [OF this]] show ?thesis .
  next
    case (withdraw i p cid)
    then obtain res where "closure_cancel i p cid False s = (res, t)" by (metis prod.collapse)
    from moved [OF closure_cancelled [OF this]] show ?thesis .
  next
    case (other p)
    then have "closures t = closures s" using more_request closures_more by blast
    with 2(3) show ?thesis by auto
  qed
next
  case (3 a b)
  then show ?case by (simp add: closure_moves_def)
qed simp


definition demo_closure :: closure_request where
  "demo_closure = \<lparr>cl_id = ''c1'', cl_leadId = ''id-'', cl_target = CLOSED_LOST, cl_reason = ''UNREACHABLE'',
     cl_comment = ''never answers'', cl_evidence = [''five calls''], cl_requesterId = ''u1'', cl_state = ClPending, cl_version = 1,
     cl_createdAt = 5, cl_decidedAt = None, cl_decidedBy = None, cl_decisionReason = None\<rparr>"

definition closure_demo :: closure_service where
  "closure_demo = lead_demo CONTACTED (closure_service_ext [(''c1'', demo_closure)] ())"

lemma closure_demo_get: "js_get (closures closure_demo) ''c1'' = Some demo_closure"
  by (simp add: closure_demo_def lead_demo_def note_demo_def user_demo_def demo_host_def js_get_def)

definition demo_answer :: "(string \<times> json) list" where
  "demo_answer = [(''decision'', JStr ''APPROVE''), (''reason'', JStr ''confirmed''), (''expectedVersion'', JNat 1)]"

theorem closure_takes_two_witness:
  "\<exists>l'. js_get (leads (snd (closure_decide ''c1'' (JStr ''APPROVE'') (JStr ''confirmed'') (JNat 1) demo_manager ''c'' closure_demo))) ''id-'' = Some l'
     \<and> ld_status l' = CLOSED_LOST"
proof -
  let ?run = "closure_decide ''c1'' (JStr ''APPROVE'') (JStr ''confirmed'') (JNat 1) demo_manager ''c'' closure_demo"
  have "case fst ?run of Inr r' \<Rightarrow> cl_state r' = ClApproved | Inl e \<Rightarrow> False" by code_simp
  then obtain r' t where run: "?run = (Inr r', t)" and st: "cl_state r' = ClApproved"
    by (cases ?run; cases "fst ?run") auto
  have about: "cl_leadId demo_closure = ''id-''" "cl_target demo_closure = CLOSED_LOST" by (simp_all add: demo_closure_def)
  have "\<exists>l'. leads t = js_set (leads closure_demo) ''id-'' l' \<and> ld_status l' = CLOSED_LOST"
    using closure_takes_two [OF run closure_demo_get] unfolding about if_P [OF st] by blast
  then show ?thesis unfolding run snd_conv by (elim exE) simp
qed


end
