(* ===== verification/FollowUps.thy ===== *)
theory FollowUps
  imports LeadLaws
begin

text \<open>
  Follow-ups without a database: \<open>follow-up/follow-up.service.ts\<close>, with the confirmation check of
  \<open>next-action.contract.ts\<close>. An awaited call of the in-memory path completes before the next
  statement; the lock per lead keeps a second interaction out in between.
\<close>

section \<open>State\<close>

datatype follow_up_state = FuScheduled | FuDue | FuCompleted | FuCancelled

fun follow_up_state_name :: "follow_up_state \<Rightarrow> string" where
  "follow_up_state_name FuScheduled = ''SCHEDULED''"
| "follow_up_state_name FuDue = ''DUE''"
| "follow_up_state_name FuCompleted = ''COMPLETED''"
| "follow_up_state_name FuCancelled = ''CANCELLED''"

datatype follow_up_action = POSTPONE | COMPLETE | CANCEL_FOLLOW_UP

fun follow_up_action_name :: "follow_up_action \<Rightarrow> string" where
  "follow_up_action_name POSTPONE = ''POSTPONE''"
| "follow_up_action_name COMPLETE = ''COMPLETE''"
| "follow_up_action_name CANCEL_FOLLOW_UP = ''CANCEL''"

definition as_follow_up_action :: "json \<Rightarrow> follow_up_action option" where
  "as_follow_up_action v = find (\<lambda>a. v = JStr (follow_up_action_name a)) [POSTPONE, COMPLETE, CANCEL_FOLLOW_UP]"

fun followUpDecisionStates :: "follow_up_action \<Rightarrow> follow_up_state" where
  "followUpDecisionStates POSTPONE = FuScheduled"
| "followUpDecisionStates COMPLETE = FuCompleted"
| "followUpDecisionStates CANCEL_FOLLOW_UP = FuCancelled"

record follow_up =
  fu_id :: string
  fu_leadId :: string
  fu_ownerId :: string
  fu_dueAt :: int
  fu_state :: follow_up_state
  fu_reason :: string
  fu_version :: int
  fu_createdAt :: int
  fu_updatedAt :: int

record follow_up_service = lead_state +
  follow_ups :: "(string, follow_up) js_map"
  interactionReceipts :: "(string, fingerprint \<times> activity) js_map"
  interactionLocks :: "string list"
  completionReceipts :: "(string, string \<times> follow_up) js_map"

definition pending_state :: "follow_up_state \<Rightarrow> bool" where
  "pending_state st = (st = FuScheduled \<or> st = FuDue)"

text \<open>\<open>Boolean(value)\<close> of a value of a body.\<close>

definition json_truthy :: "json \<Rightarrow> bool" where
  "json_truthy v = (case v of JUndef \<Rightarrow> False | JNull \<Rightarrow> False | JBool b \<Rightarrow> b | JStr t \<Rightarrow> t \<noteq> []
     | JNum n \<Rightarrow> n \<noteq> JInt 0 | _ \<Rightarrow> True)"

definition follow_up_audit ::
  "follow_up \<Rightarrow> principal \<Rightarrow> string \<Rightarrow> string \<Rightarrow> 'a follow_up_service_scheme \<Rightarrow> 'a follow_up_service_scheme" where
  "follow_up_audit f p cid ty s =
     audit_by p cid ty JUndef
       (JObj [(''followUpId'', JStr (fu_id f)), (''leadId'', JStr (fu_leadId f)),
              (''state'', JStr (follow_up_state_name (fu_state f))), (''dueAt'', JStr (iso_string s (fu_dueAt f))),
              (''version'', JNum (JInt (fu_version f)))])
       SUCCESS (ty @ '':'' @ fu_id f @ '':'' @ show_int (fu_version f)) s"

section \<open>Scheduling\<close>

record schedule_input =
  fs_dueAt :: "string option"
  fs_reason :: "string option"
  fs_ownerId :: "string option"

definition buildSchedule ::
  "string \<Rightarrow> schedule_input \<Rightarrow> string option \<Rightarrow> principal \<Rightarrow> 'a follow_up_service_scheme
     \<Rightarrow> follow_up result \<times> 'a follow_up_service_scheme" where
  "buildSchedule leadId i assigned p s =
     (let due = parse_opt s (fs_dueAt i); reason = js_trim (opt_text (fs_reason i));
          owner = (case fs_ownerId i of None \<Rightarrow> assigned | Some u \<Rightarrow> Some u)
      in case due of
           None \<Rightarrow> (Inl (BadRequest ''follow_up_invalid''), s)
         | Some at \<Rightarrow>
             if at \<le> now s \<or> reason = [] \<or> \<not> truthy owner then (Inl (BadRequest ''follow_up_invalid''), s)
             else if assigned \<noteq> Some (userId p) \<and> \<not> is_manager p then (Inl (Forbidden ''follow_up_forbidden''), s)
             else if list_ex (\<lambda>f. fu_leadId f = leadId \<and> pending_state (fu_state f)) (js_values (follow_ups s))
             then (Inl (Conflict ''follow_up_pending''), s)
             else (Inr \<lparr>fu_id = fresh_uuid s, fu_leadId = leadId, fu_ownerId = opt_text owner, fu_dueAt = at,
                      fu_state = FuScheduled, fu_reason = reason, fu_version = 1, fu_createdAt = now s,
                      fu_updatedAt = now s\<rparr>, drawn s))"

definition keep_schedule ::
  "follow_up \<Rightarrow> principal \<Rightarrow> string \<Rightarrow> 'a follow_up_service_scheme \<Rightarrow> follow_up result \<times> 'a follow_up_service_scheme" where
  "keep_schedule f p cid s =
     call (recordFollowUp (fu_leadId f) (Some (iso_string s (fu_dueAt f))) p cid ''FOLLOW_UP_SCHEDULED''
             (s\<lparr>follow_ups := js_set (follow_ups s) (fu_id f) f\<rparr>))
       (\<lambda>_ s1. (Inr f, follow_up_audit f p cid ''FOLLOW_UP_SCHEDULED'' s1))"

definition schedule ::
  "string \<Rightarrow> schedule_input \<Rightarrow> principal \<Rightarrow> string \<Rightarrow> 'a follow_up_service_scheme
     \<Rightarrow> follow_up result \<times> 'a follow_up_service_scheme" where
  "schedule leadId i p cid s =
     call (getLead leadId p cid s) (\<lambda>v s1.
       if terminal_status (ld_status (lv_lead v)) then (Inl (BadRequest ''next_action_closed_lead''), s1)
       else call (buildSchedule leadId i (ld_assignedToId (lv_lead v)) p s1) (\<lambda>f s2. keep_schedule f p cid s2))"

text \<open>
  The sweep of due follow-ups: the items in their order, each marked and notified at its new
  version; the map keeps the positions, so the sweep visits each item once.
\<close>

definition due_note_input :: "follow_up \<Rightarrow> notification_input" where
  "due_note_input f = \<lparr>ni_recipientId = fu_ownerId f, ni_type = FOLLOW_UP_DUE, ni_priority = PrioHigh,
     ni_resourceType = ResLead, ni_resourceId = fu_leadId f,
     ni_href = ''/leads/'' @ fu_leadId f @ ''/follow-ups''\<rparr>"

definition notify_one ::
  "int \<Rightarrow> follow_up \<Rightarrow> 'a follow_up_service_scheme \<Rightarrow> nat result \<times> 'a follow_up_service_scheme" where
  "notify_one at f s =
     (if fu_state f = FuScheduled \<and> fu_dueAt f \<le> at
      then (let f' = f\<lparr>fu_state := FuDue, fu_version := fu_version f + 1, fu_updatedAt := at\<rparr>;
                s1 = s\<lparr>follow_ups := js_set (follow_ups s) (fu_id f) f'\<rparr>
            in call (notification_create (due_note_input f)
                  (''follow-up-due:'' @ fu_id f @ '':v'' @ show_int (fu_version f')) s1) (\<lambda>_ s2. (Inr 1, s2)))
      else (Inr 0, s))"

definition notifyDue :: "int \<Rightarrow> 'a follow_up_service_scheme \<Rightarrow> nat result \<times> 'a follow_up_service_scheme" where
  "notifyDue at s =
     call (for_each (notify_one at) (js_values (follow_ups s)) s) (\<lambda>ns s1. (Inr (sum_list ns), s1))"

section \<open>Decisions\<close>

definition validateFollowUpDecision ::
  "'a host_scheme \<Rightarrow> (string \<times> json) list \<Rightarrow> (follow_up_action \<times> string \<times> int option) result" where
  "validateFollowUpDecision s kvs =
     (let reason = js_trim (opt_text (text_of (field kvs ''reason'')))
      in case as_follow_up_action (field kvs ''action'') of
           None \<Rightarrow> Inl (BadRequest ''follow_up_decision_invalid'')
         | Some a \<Rightarrow>
             if reason = [] \<or> 1000 < length reason then Inl (BadRequest ''follow_up_decision_invalid'')
             else if a \<noteq> POSTPONE then Inr (a, reason, None)
             else (case parse_opt s (text_of (field kvs ''dueAt'')) of
                     None \<Rightarrow> Inl (BadRequest ''follow_up_due_invalid'')
                   | Some due \<Rightarrow> if due \<le> now s then Inl (BadRequest ''follow_up_due_invalid'')
                                 else Inr (a, reason, Some due)))"

definition assertDecisionAccess :: "follow_up \<Rightarrow> principal \<Rightarrow> unit result" where
  "assertDecisionAccess f p =
     (if fu_ownerId f \<noteq> userId p \<and> \<not> is_manager p then Inl (Forbidden ''follow_up_forbidden'') else Inr ())"

text \<open>
  \<open>decide\<close>, reached with a body \<open>validateDecision\<close> accepted. The reporting snapshot says which
  leads the principal sees; \<open>pilotage\<close> is the flag of its reporting scope.
\<close>

definition follow_up_decide ::
  "bool \<Rightarrow> string \<Rightarrow> (string \<times> json) list \<Rightarrow> principal \<Rightarrow> string \<Rightarrow> 'a follow_up_service_scheme
     \<Rightarrow> follow_up result \<times> 'a follow_up_service_scheme" where
  "follow_up_decide pilotage i kvs p cid s =
     (case js_get (follow_ups s) i of
        None \<Rightarrow> (Inl (NotFound ''follow_up_not_found''), s)
      | Some f \<Rightarrow>
          (case assertDecisionAccess f p of
             Inl e \<Rightarrow> (Inl e, s)
           | Inr _ \<Rightarrow>
               (case reportingSnapshot pilotage p (now s) s of
                  Inl e \<Rightarrow> (Inl e, s)
                | Inr rows \<Rightarrow>
                    if fu_leadId f \<notin> set (map (\<lambda>r. ld_id (lv_lead (rr_view r))) rows)
                    then (Inl (Forbidden ''follow_up_forbidden''), s)
                    else if field kvs ''expectedVersion'' \<noteq> JNum (JInt (fu_version f)) \<or> \<not> pending_state (fu_state f)
                    then (Inl (Conflict ''follow_up_concurrent''), s)
                    else (case as_follow_up_action (field kvs ''action'') of
                      None \<Rightarrow> (Inl (BadRequest ''follow_up_decision_invalid''), s)
                    | Some a \<Rightarrow>
                        (let reason = js_trim (opt_text (text_of (field kvs ''reason'')));
                             due = (if a = POSTPONE then parse_opt s (text_of (field kvs ''dueAt'')) else None)
                         in if reason = [] then (Inl (BadRequest ''follow_up_decision_invalid''), s)
                            else if a = POSTPONE \<and> (case due of None \<Rightarrow> True | Some t \<Rightarrow> t \<le> now s)
                            then (Inl (BadRequest ''follow_up_due_invalid''), s)
                            else (let f' = f\<lparr>fu_state := followUpDecisionStates a,
                                        fu_dueAt := (case due of None \<Rightarrow> fu_dueAt f | Some t \<Rightarrow> t),
                                        fu_reason := reason, fu_version := fu_version f + 1, fu_updatedAt := now s\<rparr>;
                                      s1 = s\<lparr>follow_ups := js_set (follow_ups s) i f'\<rparr>
                                  in call (recordFollowUp (fu_leadId f) (map_option (iso_string s) due) p cid
                                             (''FOLLOW_UP_'' @ follow_up_action_name a) s1)
                                       (\<lambda>_ s2. (Inr f', follow_up_audit f' p cid
                                          (''FOLLOW_UP_'' @ follow_up_action_name a) s2))))))))"

definition follow_up_mutationKey :: "string \<Rightarrow> string \<Rightarrow> string \<Rightarrow> string result" where
  "follow_up_mutationKey op target raw =
     (if all_in word_colon 8 96 raw then Inr (''follow-up:'' @ op @ '':'' @ target @ '':'' @ raw)
      else Inl (BadRequest ''follow_up_idempotency_invalid''))"

definition follow_up_fingerprint :: "'a host_scheme \<Rightarrow> string \<Rightarrow> (string \<times> json) list \<Rightarrow> principal \<Rightarrow> string" where
  "follow_up_fingerprint s i kvs p =
     json_text (JObj ([(''id'', JStr i), (''action'', field kvs ''action''),
       (''dueAt'', if field kvs ''action'' = JStr ''POSTPONE''
          then (case parse_opt s (text_of (field kvs ''dueAt'')) of None \<Rightarrow> JUndef | Some t \<Rightarrow> JStr (iso_string s t)) else JUndef),
       (''reason'', case field kvs ''reason'' of JStr r \<Rightarrow> JStr (js_trim r) | v \<Rightarrow> v),
       (''expectedVersion'', field kvs ''expectedVersion'')]
       @ (if json_truthy (field kvs ''nextAction'')
          then [(''nextAction'', field kvs ''nextAction''), (''actorId'', JStr (userId p))] else [])))"

definition completeAndPlan ::
  "bool \<Rightarrow> string \<Rightarrow> (string \<times> json) list \<Rightarrow> principal \<Rightarrow> string \<Rightarrow> 'a follow_up_service_scheme
     \<Rightarrow> follow_up result \<times> 'a follow_up_service_scheme" where
  "completeAndPlan pilotage i kvs p cid s =
     (case field kvs ''idempotencyKey'' of
        JStr raw \<Rightarrow>
          (if \<not> all_in word_colon 8 64 raw then (Inl (BadRequest ''follow_up_idempotency_invalid''), s)
           else (case follow_up_mutationKey ''decide'' i raw of
             Inl e \<Rightarrow> (Inl e, s)
           | Inr key \<Rightarrow>
               (let fp = follow_up_fingerprint s i kvs p
                in case js_get (completionReceipts s) key of
                     Some (fp', f) \<Rightarrow> if fp' \<noteq> fp then (Inl (Conflict ''follow_up_idempotency_conflict''), s) else (Inr f, s)
                   | None \<Rightarrow>
                       (case parseNextActionIntent s (field kvs ''nextAction'') of
                          Inl e \<Rightarrow> (Inl e, s)
                        | Inr (Confirm _ _ _) \<Rightarrow> (Inl (BadRequest ''next_action_required''), s)
                        | Inr (Schedule due reason) \<Rightarrow>
                            (case assertFutureNextAction (Schedule due reason) (now s) of
                               Inl e \<Rightarrow> (Inl e, s)
                             | Inr _ \<Rightarrow>
                                 (case js_get (follow_ups s) i of
                                    None \<Rightarrow> (Inl (NotFound ''follow_up_not_found''), s)
                                  | Some f \<Rightarrow>
                                      (case assertDecisionAccess f p of
                                         Inl e \<Rightarrow> (Inl e, s)
                                       | Inr _ \<Rightarrow>
                                           call (getLead (fu_leadId f) p cid s) (\<lambda>v s1.
                                             if terminal_status (ld_status (lv_lead v))
                                             then (Inl (BadRequest ''next_action_closed_lead''), s1)
                                             else if ld_assignedToId (lv_lead v) \<noteq> Some (userId p) \<and> \<not> is_manager p
                                             then (Inl (Forbidden ''follow_up_forbidden''), s1)
                                             else call (follow_up_decide pilotage i kvs p cid s1) (\<lambda>completed s2.
                                               call (schedule (ld_id (lv_lead v))
                                                 \<lparr>fs_dueAt = Some (iso_string s2 due), fs_reason = Some reason,
                                                  fs_ownerId = Some (case ld_assignedToId (lv_lead v) of None \<Rightarrow> userId p | Some u \<Rightarrow> u)\<rparr>
                                                 p cid s2) (\<lambda>_ s3.
                                                   (Inr completed, s3\<lparr>completionReceipts :=
                                                      js_set (completionReceipts s3) key (fp, completed)\<rparr>)))))))))))
      | _ \<Rightarrow> (Inl (BadRequest ''follow_up_idempotency_invalid''), s))"

definition decideFollowUpForApi ::
  "bool \<Rightarrow> string \<Rightarrow> (string \<times> json) list \<Rightarrow> principal \<Rightarrow> string \<Rightarrow> 'a follow_up_service_scheme
     \<Rightarrow> follow_up result \<times> 'a follow_up_service_scheme" where
  "decideFollowUpForApi pilotage i kvs p cid s =
     (case strictBody [''action'', ''dueAt'', ''reason'', ''expectedVersion'', ''idempotencyKey'', ''nextAction''] kvs of
        Inl e \<Rightarrow> (Inl e, s)
      | Inr _ \<Rightarrow>
          if field kvs ''nextAction'' \<noteq> JUndef \<and> field kvs ''action'' \<noteq> JStr ''COMPLETE''
          then (Inl (BadRequest ''next_action_intent_invalid''), s)
          else (case validateFollowUpDecision s kvs of
                  Inl e \<Rightarrow> (Inl e, s)
                | Inr _ \<Rightarrow> if field kvs ''action'' = JStr ''COMPLETE'' then completeAndPlan pilotage i kvs p cid s
                           else follow_up_decide pilotage i kvs p cid s))"

section \<open>The interaction with its next action\<close>

definition assertConfirmedNextAction ::
  "next_action_intent \<Rightarrow> follow_up option \<Rightarrow> string \<Rightarrow> int \<Rightarrow> unit result" where
  "assertConfirmedNextAction intent r leadId at =
     (case (intent, r) of
        (Confirm i v due, Some f) \<Rightarrow>
          (if fu_id f \<noteq> i \<or> fu_leadId f \<noteq> leadId \<or> fu_version f \<noteq> v \<or> \<not> pending_state (fu_state f) \<or> fu_dueAt f \<noteq> due
           then Inl (Conflict ''next_action_confirmation_stale'') else assertFutureNextAction intent at)
      | _ \<Rightarrow> Inl (Conflict ''next_action_confirmation_stale''))"

text \<open>
  The plan of an interaction, checked before anything is recorded: the parsed intent, and the
  follow-up to keep when it schedules one.
\<close>

definition plan_interaction ::
  "string \<Rightarrow> (string \<times> json) list \<Rightarrow> lead \<Rightarrow> principal \<Rightarrow> 'a follow_up_service_scheme
     \<Rightarrow> (next_action_intent option \<times> follow_up option) result \<times> 'a follow_up_service_scheme" where
  "plan_interaction leadId kvs l p s =
     (let isopen = (\<not> terminal_status (ld_status l)); na = field kvs ''nextAction''; at = field kvs ''nextActionAt''
      in if isopen \<and> \<not> json_truthy na then (Inl (BadRequest ''next_action_required''), s)
         else if \<not> isopen \<and> (json_truthy na \<or> json_truthy at) then (Inl (BadRequest ''next_action_closed_lead''), s)
         else (case (if json_truthy na then map_sum id Some (parseNextActionIntent s na) else Inr None) of
           Inl e \<Rightarrow> (Inl e, s)
         | Inr intent \<Rightarrow>
             if json_truthy at \<and> Some at \<noteq> map_option (\<lambda>x. JStr (iso_string s (intent_due x))) intent
             then (Inl (BadRequest ''next_action_intent_invalid''), s)
             else (case intent of
               None \<Rightarrow> (Inr (None, None), s)
             | Some x \<Rightarrow>
                 (case assertFutureNextAction x (now s) of
                    Inl e \<Rightarrow> (Inl e, s)
                  | Inr _ \<Rightarrow>
                      if ld_assignedToId l \<noteq> Some (userId p) \<and> \<not> is_manager p
                      then (Inl (Forbidden ''follow_up_forbidden''), s)
                      else (case x of
                        Confirm i _ _ \<Rightarrow>
                          (case assertConfirmedNextAction x (js_get (follow_ups s) i) leadId (now s) of
                             Inl e \<Rightarrow> (Inl e, s) | Inr _ \<Rightarrow> (Inr (intent, None), s))
                      | Schedule due reason \<Rightarrow>
                          call (buildSchedule leadId \<lparr>fs_dueAt = Some (iso_string s due), fs_reason = Some reason,
                              fs_ownerId = Some (case ld_assignedToId l of None \<Rightarrow> userId p | Some u \<Rightarrow> u)\<rparr>
                              (ld_assignedToId l) p s)
                            (\<lambda>f s1. (Inr (intent, Some f), s1)))))))"

definition interaction_body ::
  "(string \<times> json) list \<Rightarrow> next_action_intent option \<Rightarrow> string \<Rightarrow> 'a host_scheme \<Rightarrow> (string \<times> json) list" where
  "interaction_body kvs intent raw s =
     [(''type'', field kvs ''type''), (''result'', field kvs ''result'')]
       @ (if field kvs ''note'' \<noteq> JUndef then [(''note'', field kvs ''note'')] else [])
       @ (case intent of None \<Rightarrow> [] | Some x \<Rightarrow> [(''nextActionAt'', JStr (iso_string s (intent_due x)))])
       @ [(''idempotencyKey'', JStr raw)]"

definition perform_interaction ::
  "string \<Rightarrow> (string \<times> json) list \<Rightarrow> string \<Rightarrow> principal \<Rightarrow> string \<Rightarrow> 'a follow_up_service_scheme
     \<Rightarrow> activity result \<times> 'a follow_up_service_scheme" where
  "perform_interaction leadId kvs raw p cid s =
     (let key = ''commercial-interaction:'' @ leadId @ '':'' @ raw
      in case js_get (interactionReceipts s) key of
           Some (fp, r) \<Rightarrow> if fp \<noteq> (userId p, kvs) then (Inl (Conflict ''lead_idempotency_conflict''), s) else (Inr r, s)
         | None \<Rightarrow>
             call (getLead leadId p cid s) (\<lambda>v s1.
               call (plan_interaction leadId kvs (lv_lead v) p s1) (\<lambda>(intent, prepared) s2.
                 call (addActivityForApi leadId (interaction_body kvs intent raw s2) p cid s2) (\<lambda>a s3.
                   call (case prepared of None \<Rightarrow> (Inr (), s3)
                         | Some f \<Rightarrow> call (keep_schedule f p cid s3) (\<lambda>_ s4. (Inr (), s4)))
                     (\<lambda>_ s4. (Inr a, s4\<lparr>interactionReceipts := js_set (interactionReceipts s4) key ((userId p, kvs), a)\<rparr>))))))"

definition addManualActivityForApi ::
  "string \<Rightarrow> (string \<times> json) list \<Rightarrow> principal \<Rightarrow> string \<Rightarrow> 'a follow_up_service_scheme
     \<Rightarrow> activity result \<times> 'a follow_up_service_scheme" where
  "addManualActivityForApi leadId kvs p cid s =
     (case strictBody [''type'', ''result'', ''note'', ''nextAction'', ''nextActionAt'', ''idempotencyKey''] kvs of
        Inl e \<Rightarrow> (Inl e, s)
      | Inr _ \<Rightarrow>
          (case field kvs ''idempotencyKey'' of
             JStr raw \<Rightarrow>
               (if \<not> all_in word_colon 8 64 raw then (Inl (BadRequest ''lead_action_idempotency_invalid''), s)
                else if leadId \<in> set (interactionLocks s) then (Inl (Conflict ''lead_concurrent_mutation''), s)
                else (let (r, s1) = perform_interaction leadId kvs raw p cid (s\<lparr>interactionLocks := interactionLocks s @ [leadId]\<rparr>)
                      in (r, s1\<lparr>interactionLocks := filter (\<lambda>x. x \<noteq> leadId) (interactionLocks s1)\<rparr>)))
           | _ \<Rightarrow> (Inl (BadRequest ''lead_action_idempotency_invalid''), s)))"

section \<open>Reading\<close>

definition follow_up_list ::
  "bool \<Rightarrow> principal \<Rightarrow> 'a follow_up_service_scheme \<Rightarrow> follow_up list result" where
  "follow_up_list pilotage p s =
     map_sum id (\<lambda>rows. sort_by (\<lambda>a b. cmp_or (cmp_int (fu_dueAt a) (fu_dueAt b)) (locale_cmp s (fu_id a) (fu_id b)))
         (filter (\<lambda>f. fu_leadId f \<in> set (map (\<lambda>r. ld_id (lv_lead (rr_view r))) rows)
                    \<and> (fu_ownerId f = userId p \<or> is_manager p)) (js_values (follow_ups s))))
       (reportingSnapshot pilotage p (now s) s)"

definition follow_up_reporting ::
  "bool \<Rightarrow> principal \<Rightarrow> 'a follow_up_service_scheme \<Rightarrow> follow_up list result" where
  "follow_up_reporting pilotage p s =
     (if hasPilotageReportingScope pilotage p
      then Inr (filter (\<lambda>f. fu_leadId f \<in> set (case permissionLeadIds p of None \<Rightarrow> [] | Some ids \<Rightarrow> ids)) (js_values (follow_ups s)))
      else if \<not> is_manager p \<and> ADMISSIONS \<notin> set (p_roles p) then Inl (Forbidden ''reporting_role_required'')
      else Inr (filter (\<lambda>f. is_manager p \<or> fu_ownerId f = userId p) (js_values (follow_ups s))))"

definition permissionLeadId :: "string \<Rightarrow> 'a follow_up_service_scheme \<Rightarrow> string result" where
  "permissionLeadId i s =
     (case js_get (follow_ups s) i of None \<Rightarrow> Inl (NotFound ''follow_up_not_found'') | Some f \<Rightarrow> Inr (fu_leadId f))"

end
