(* ===== verification/FollowUpLaws.thy ===== *)
theory FollowUpLaws
  imports FollowUps LeadRequests
begin

text \<open>
  What the follow-ups promise: a lead never has two of them pending, completing one plans the
  next in the same request, and a sweep leaves no follow-up past its date without a notice.
\<close>

section \<open>One pending follow-up per lead\<close>

definition follow_map_ok :: "(string, follow_up) js_map \<Rightarrow> bool" where
  "follow_map_ok m \<longleftrightarrow> js_wf m \<and> js.keyed fu_id m
     \<and> (\<forall>j k f g. js_get m j = Some f \<longrightarrow> js_get m k = Some g \<longrightarrow> fu_leadId f = fu_leadId g
          \<longrightarrow> pending_state (fu_state f) \<longrightarrow> pending_state (fu_state g) \<longrightarrow> j = k)"

abbreviation follow_ok :: "'a follow_up_service_scheme \<Rightarrow> bool" where
  "follow_ok s \<equiv> follow_map_ok (follow_ups s)"

lemma follow_ok_new:
  assumes "follow_map_ok m" and "\<not> list_ex (\<lambda>g. fu_leadId g = fu_leadId f \<and> pending_state (fu_state g)) (js_values m)"
  shows "follow_map_ok (js_set m (fu_id f) f)"
proof -
  have "\<not> pending_state (fu_state g)" if "js_get m k = Some g" "fu_leadId g = fu_leadId f" for k g
    using assms(2) js_get_in_values [OF that(1)] that(2) by (auto simp: list_ex_iff)
  with assms(1) show ?thesis
    unfolding follow_map_ok_def by (auto simp: js.keyed_put)
qed

lemma follow_ok_put:
  assumes "follow_map_ok m" and "js_get m k = Some f" and "pending_state (fu_state f)"
    and "fu_leadId f' = fu_leadId f" and "fu_id f' = fu_id f"
  shows "follow_map_ok (js_set m k f')"
proof -
  from assms(1,2,5) have "fu_id f' = k" by (simp add: follow_map_ok_def js.keyed_def)
  moreover have "pending_state (fu_state g) \<Longrightarrow> fu_leadId g = fu_leadId f' \<Longrightarrow> js_get m j = Some g \<Longrightarrow> j = k" for j g
    using assms unfolding follow_map_ok_def by metis
  ultimately show ?thesis
    using assms(1) unfolding follow_map_ok_def by (auto simp: js.keyed_put)
qed

lemma follow_ups_more: "lead_state.more s = lead_state.more t \<Longrightarrow> follow_ups s = follow_ups t"
  by (cases s; cases t; simp)

lemma follow_ups_frames [simp]:
  "follow_ups (audit_by p c ty b a r k s) = follow_ups s" "follow_ups (drawn s) = follow_ups s"
  "follow_ups (snd (recordFollowUp i n p cid res s)) = follow_ups s" "follow_ups (snd (getLead i p cid s)) = follow_ups s"
  "follow_ups (snd (notification_create ni nk s)) = follow_ups s" "follow_ups (follow_up_audit f p cid ty s) = follow_ups s"
  by (rule follow_ups_more, simp add: follow_up_audit_def)+

lemma follow_ups_addActivityForApi [simp]: "follow_ups (snd (addActivityForApi i body p cid s)) = follow_ups s"
  by (rule follow_ups_more, rule more_request, rule lead_request.add)

lemma ok_call:
  assumes "follow_ok (snd m)" and "\<And>a u. m = (Inr a, u) \<Longrightarrow> follow_ok u \<Longrightarrow> follow_ok (snd (k a u))"
  shows "follow_ok (snd (call m k))"
  using assms by (cases m; cases "fst m") auto

lemma follow_ups_call:
  assumes "follow_ups (snd m) = x" and "\<And>a u. m = (Inr a, u) \<Longrightarrow> follow_ups u = x \<Longrightarrow> follow_ups (snd (k a u)) = x"
  shows "follow_ups (snd (call m k)) = x"
  using assms by (cases m; cases "fst m") auto

lemma buildSchedule_spec:
  "follow_ups (snd (buildSchedule leadId i assigned p s)) = follow_ups s"
  "buildSchedule leadId i assigned p s = (Inr f, t) \<Longrightarrow> fu_leadId f = leadId \<and> fu_state f = FuScheduled \<and> now s < fu_dueAt f
     \<and> \<not> list_ex (\<lambda>g. fu_leadId g = leadId \<and> pending_state (fu_state g)) (js_values (follow_ups s))"
  by (auto simp: buildSchedule_def Let_def split: if_splits option.splits)

lemma follow_ups_keep [simp]: "follow_ups (snd (keep_schedule f p cid s)) = js_set (follow_ups s) (fu_id f) f"
  unfolding keep_schedule_def by (rule follow_ups_call) simp_all

lemma schedule_ok: "follow_ok s \<Longrightarrow> follow_ok (snd (schedule leadId i p cid s))"
  unfolding schedule_def
proof (rule ok_call)
  fix v u
  assume read: "follow_ok u"
  show "follow_ok (snd (if terminal_status (ld_status (lv_lead v)) then (Inl (BadRequest ''next_action_closed_lead''), u)
      else call (buildSchedule leadId i (ld_assignedToId (lv_lead v)) p u) (\<lambda>f s2. keep_schedule f p cid s2)))"
  proof (cases "terminal_status (ld_status (lv_lead v))")
    case False
    have "follow_ok (snd (call (buildSchedule leadId i (ld_assignedToId (lv_lead v)) p u) (\<lambda>f s2. keep_schedule f p cid s2)))"
    proof (rule ok_call)
      fix f w
      assume "buildSchedule leadId i (ld_assignedToId (lv_lead v)) p u = (Inr f, w)"
      with buildSchedule_spec [of leadId i "ld_assignedToId (lv_lead v)" p u] read
      show "follow_ok (snd (keep_schedule f p cid w))" by (auto intro!: follow_ok_new)
    qed (use read in \<open>simp add: buildSchedule_spec\<close>)
    with False show ?thesis by simp
  qed (use read in simp)
qed simp

text \<open>A decision replaces its follow-up, at its key, with the next version in its new state.\<close>

lemma decide_spec:
  assumes "follow_up_decide pilotage i kvs p cid s = (res, t)"
  shows "(follow_ups t = follow_ups s \<and> (\<forall>x. res \<noteq> Inr x)) \<or> (\<exists>f f' a. js_get (follow_ups s) i = Some f \<and> pending_state (fu_state f)
     \<and> fu_id f' = fu_id f \<and> fu_leadId f' = fu_leadId f \<and> fu_version f' = fu_version f + 1
     \<and> as_follow_up_action (field kvs ''action'') = Some a \<and> fu_state f' = followUpDecisionStates a
     \<and> follow_ups t = js_set (follow_ups s) i f' \<and> (\<forall>x. res = Inr x \<longrightarrow> x = f'))"
proof -
  have store: "follow_ups (snd (call (recordFollowUp l n p cid r (s\<lparr>follow_ups := m\<rparr>)) (\<lambda>_ s2. (Inr f', follow_up_audit f' p cid ty s2)))) = m
      \<and> (\<forall>x. fst (call (recordFollowUp l n p cid r (s\<lparr>follow_ups := m\<rparr>)) (\<lambda>_ s2. (Inr f', follow_up_audit f' p cid ty s2))) = Inr x \<longrightarrow> x = f')"
    for l n r m f' ty
    using follow_ups_frames(3) [of l n p cid r "s\<lparr>follow_ups := m\<rparr>"]
    by (cases "recordFollowUp l n p cid r (s\<lparr>follow_ups := m\<rparr>)";
        cases "fst (recordFollowUp l n p cid r (s\<lparr>follow_ups := m\<rparr>))") auto
  show ?thesis
  proof (cases "\<exists>f rows a. js_get (follow_ups s) i = Some f \<and> assertDecisionAccess f p = Inr () \<and> reportingSnapshot pilotage p (now s) s = Inr rows
      \<and> fu_leadId f \<in> set (map (\<lambda>r. ld_id (lv_lead (rr_view r))) rows) \<and> field kvs ''expectedVersion'' = JNum (JInt (fu_version f))
      \<and> pending_state (fu_state f) \<and> as_follow_up_action (field kvs ''action'') = Some a \<and> js_trim (opt_text (text_of (field kvs ''reason''))) \<noteq> []
      \<and> \<not> (a = POSTPONE \<and> (case (if a = POSTPONE then parse_opt s (text_of (field kvs ''dueAt'')) else None) of None \<Rightarrow> True | Some t \<Rightarrow> t \<le> now s))")
    case False
    have "follow_ups t = follow_ups s \<and> (\<forall>x. res \<noteq> Inr x)"
      using assms False unfolding follow_up_decide_def Let_def
      by (simp split: option.split_asm sum.split_asm if_split_asm) auto
    then show ?thesis ..
  next
    case True
    then obtain f rows a where g: "js_get (follow_ups s) i = Some f" "assertDecisionAccess f p = Inr ()" "reportingSnapshot pilotage p (now s) s = Inr rows"
      "(fu_leadId f \<notin> set (map (\<lambda>r. ld_id (lv_lead (rr_view r))) rows)) = False" "field kvs ''expectedVersion'' = JNum (JInt (fu_version f))"
      "pending_state (fu_state f)" "as_follow_up_action (field kvs ''action'') = Some a" "(js_trim (opt_text (text_of (field kvs ''reason''))) = []) = False"
      "(a = POSTPONE \<and> (case (if a = POSTPONE then parse_opt s (text_of (field kvs ''dueAt'')) else None) of None \<Rightarrow> True | Some t \<Rightarrow> t \<le> now s)) = False"
      by blast
    define f' where "f' = f\<lparr>fu_state := followUpDecisionStates a,
        fu_dueAt := (case (if a = POSTPONE then parse_opt s (text_of (field kvs ''dueAt'')) else None) of None \<Rightarrow> fu_dueAt f | Some t \<Rightarrow> t),
        fu_reason := js_trim (opt_text (text_of (field kvs ''reason''))), fu_version := fu_version f + 1, fu_updatedAt := now s\<rparr>"
    have run: "follow_up_decide pilotage i kvs p cid s = call (recordFollowUp (fu_leadId f)
        (map_option (iso_string s) (if a = POSTPONE then parse_opt s (text_of (field kvs ''dueAt'')) else None)) p cid
        (''FOLLOW_UP_'' @ follow_up_action_name a) (s\<lparr>follow_ups := js_set (follow_ups s) i f'\<rparr>))
        (\<lambda>_ s2. (Inr f', follow_up_audit f' p cid (''FOLLOW_UP_'' @ follow_up_action_name a) s2))"
      unfolding follow_up_decide_def Let_def
      by (simp only: g option.case sum.case if_False simp_thms f'_def [symmetric])
    have "fu_id f' = fu_id f" "fu_leadId f' = fu_leadId f" "fu_version f' = fu_version f + 1" "fu_state f' = followUpDecisionStates a"
      by (simp_all add: f'_def)
    moreover have "follow_ups t = js_set (follow_ups s) i f'" "\<forall>x. res = Inr x \<longrightarrow> x = f'"
      using store assms unfolding run by (metis fst_conv snd_conv)+
    ultimately show ?thesis using g(1,6,7) by blast
  qed
qed

lemma decide_ok: "follow_ok s \<Longrightarrow> follow_ok (snd (follow_up_decide pilotage i kvs p cid s))"
  using decide_spec [of pilotage i kvs p cid s "fst (follow_up_decide pilotage i kvs p cid s)" "snd (follow_up_decide pilotage i kvs p cid s)"]
    follow_ok_put by fastforce

lemma completeAndPlan_ok:
  assumes "follow_ok s"
  shows "follow_ok (snd (completeAndPlan pilotage i kvs p cid s))"
proof -
  have finish: "follow_ok (snd (call (schedule l si p cid u) (\<lambda>_ s3. (Inr x, s3\<lparr>completionReceipts := R s3\<rparr>))))"
    if "follow_ok u" for l si u x R
    by (rule ok_call) (simp_all add: schedule_ok that)
  have plan: "follow_ok (snd (call (follow_up_decide pilotage i kvs p cid u) (\<lambda>x s2. call (schedule l (S s2) p cid s2)
      (\<lambda>_ s3. (Inr x, s3\<lparr>completionReceipts := R x s3\<rparr>)))))" if "follow_ok u" for l u S R
    by (rule ok_call) (simp_all add: decide_ok that finish)
  have read: "follow_ok (snd (call (getLead j p cid s) k))" if "\<And>v u. follow_ok u \<Longrightarrow> follow_ok (snd (k v u))"
    for j and k :: "lead_view \<Rightarrow> 'a follow_up_service_scheme \<Rightarrow> follow_up result \<times> 'a follow_up_service_scheme"
    by (rule ok_call) (simp_all add: assms that)
  show ?thesis
    unfolding completeAndPlan_def Let_def
    by (auto simp: assms split: json.split sum.split option.split next_action_intent.split intro!: read plan)
qed

lemma plan_interaction_spec:
  "follow_ups (snd (plan_interaction leadId kvs l p s)) = follow_ups s"
  "plan_interaction leadId kvs l p s = (Inr (intent, Some f), t) \<Longrightarrow> fu_leadId f = leadId
     \<and> \<not> list_ex (\<lambda>g. fu_leadId g = leadId \<and> pending_state (fu_state g)) (js_values (follow_ups s))"
proof -
  have build: "follow_ups (snd (call (buildSchedule leadId i a p s) (\<lambda>f s1. (Inr (x, Some f), s1)))) = follow_ups s" for i a x
    by (rule follow_ups_call) (simp_all add: buildSchedule_spec)
  show "follow_ups (snd (plan_interaction leadId kvs l p s)) = follow_ups s"
    unfolding plan_interaction_def Let_def
    by (auto split: sum.split option.split next_action_intent.split simp: build)
  assume "plan_interaction leadId kvs l p s = (Inr (intent, Some f), t)"
  then obtain i a where "buildSchedule leadId i a p s = (Inr f, t)"
    unfolding plan_interaction_def Let_def
    by (auto simp: call_Inr split: sum.splits option.splits next_action_intent.splits if_splits)
  from buildSchedule_spec(2) [OF this] show "fu_leadId f = leadId
     \<and> \<not> list_ex (\<lambda>g. fu_leadId g = leadId \<and> pending_state (fu_state g)) (js_values (follow_ups s))" by blast
qed

lemma perform_interaction_ok:
  assumes "follow_ok s"
  shows "follow_ok (snd (perform_interaction leadId kvs raw p cid s))"
proof -
  have keep: "follow_ok (snd (call (case prepared of None \<Rightarrow> (Inr (), s3)
         | Some f \<Rightarrow> call (keep_schedule f p cid s3) (\<lambda>_ s4. (Inr (), s4)))
       (\<lambda>_ s4. (Inr a, s4\<lparr>interactionReceipts := R s4\<rparr>))))"
    if "follow_ok s3" "\<And>f. prepared = Some f \<Longrightarrow>
      \<not> list_ex (\<lambda>g. fu_leadId g = fu_leadId f \<and> pending_state (fu_state g)) (js_values (follow_ups s3))" for prepared s3 a R
    using that
    by (intro ok_call) (auto split: option.split intro!: ok_call follow_ok_new)
  have act: "follow_ok (snd (call (addActivityForApi leadId b p cid s2) (\<lambda>a s3.
        call (case prepared of None \<Rightarrow> (Inr (), s3)
              | Some f \<Rightarrow> call (keep_schedule f p cid s3) (\<lambda>_ s4. (Inr (), s4)))
             (\<lambda>_ s4. (Inr a, s4\<lparr>interactionReceipts := R a s4\<rparr>)))))"
    if "follow_ok s2" "\<And>f. prepared = Some f \<Longrightarrow>
      \<not> list_ex (\<lambda>g. fu_leadId g = fu_leadId f \<and> pending_state (fu_state g)) (js_values (follow_ups s2))" for b s2 prepared R
  proof (rule ok_call)
    fix a u
    assume run: "addActivityForApi leadId b p cid s2 = (Inr a, u)"
    then have "follow_ups u = follow_ups s2" using follow_ups_addActivityForApi [of leadId b p cid s2] by simp
    with that show "follow_ok (snd (call (case prepared of None \<Rightarrow> (Inr (), u)
              | Some f \<Rightarrow> call (keep_schedule f p cid u) (\<lambda>_ s4. (Inr (), s4)))
             (\<lambda>_ s4. (Inr a, s4\<lparr>interactionReceipts := R a s4\<rparr>))))" by (intro keep) simp_all
  qed (use that in simp)
  have plan: "follow_ok (snd (call (plan_interaction leadId kvs l p s1) (\<lambda>(intent, prepared) s2.
        call (addActivityForApi leadId (B intent s2) p cid s2) (\<lambda>a s3.
          call (case prepared of None \<Rightarrow> (Inr (), s3)
                | Some f \<Rightarrow> call (keep_schedule f p cid s3) (\<lambda>_ s4. (Inr (), s4)))
               (\<lambda>_ s4. (Inr a, s4\<lparr>interactionReceipts := R a s4\<rparr>))))))"
    if "follow_ok s1" for l s1 B R
  proof (rule ok_call)
    fix x u
    assume run: "plan_interaction leadId kvs l p s1 = (Inr x, u)"
    obtain intent prepared where x: "x = (intent, prepared)" by (cases x)
    have u: "follow_ups u = follow_ups s1" using plan_interaction_spec(1) [of leadId kvs l p s1] run by simp
    have "\<not> list_ex (\<lambda>g. fu_leadId g = fu_leadId f \<and> pending_state (fu_state g)) (js_values (follow_ups u))" if "prepared = Some f" for f
      using plan_interaction_spec(2) [of leadId kvs l p s1 intent f u] run that x u by simp
    with u that show "follow_ok (snd ((case x of (intent, prepared) \<Rightarrow> \<lambda>s2.
        call (addActivityForApi leadId (B intent s2) p cid s2) (\<lambda>a s3.
          call (case prepared of None \<Rightarrow> (Inr (), s3)
                | Some f \<Rightarrow> call (keep_schedule f p cid s3) (\<lambda>_ s4. (Inr (), s4)))
               (\<lambda>_ s4. (Inr a, s4\<lparr>interactionReceipts := R a s4\<rparr>)))) u))"
      unfolding x prod.case by (intro act) simp_all
  qed (use that in \<open>simp add: plan_interaction_spec\<close>)
  show ?thesis
  proof (cases "js_get (interactionReceipts s) (''commercial-interaction:'' @ leadId @ '':'' @ raw)")
    case (Some e)
    with assms show ?thesis by (cases e) (simp add: perform_interaction_def Let_def)
  next
    case None
    then have run: "perform_interaction leadId kvs raw p cid s = call (getLead leadId p cid s) (\<lambda>v s1.
        call (plan_interaction leadId kvs (lv_lead v) p s1) (\<lambda>(intent, prepared) s2.
          call (addActivityForApi leadId (interaction_body kvs intent raw s2) p cid s2) (\<lambda>a s3.
            call (case prepared of None \<Rightarrow> (Inr (), s3)
                  | Some f \<Rightarrow> call (keep_schedule f p cid s3) (\<lambda>_ s4. (Inr (), s4)))
              (\<lambda>_ s4. (Inr a, s4\<lparr>interactionReceipts := js_set (interactionReceipts s4)
                 (''commercial-interaction:'' @ leadId @ '':'' @ raw) ((userId p, kvs), a)\<rparr>)))))"
      by (simp add: perform_interaction_def Let_def)
    show ?thesis
      unfolding run by (rule ok_call) (auto simp: assms intro: plan)
  qed
qed

section \<open>The sweep\<close>

definition due_by :: "int \<Rightarrow> follow_up \<Rightarrow> bool" where
  "due_by at f \<longleftrightarrow> fu_state f = FuScheduled \<and> fu_dueAt f \<le> at"

definition noticed :: "int \<Rightarrow> follow_up \<Rightarrow> follow_up" where
  "noticed at f = (if due_by at f then f\<lparr>fu_state := FuDue, fu_version := fu_version f + 1, fu_updatedAt := at\<rparr> else f)"

lemma noticed_same [simp]: "fu_id (noticed at f) = fu_id f" "fu_leadId (noticed at f) = fu_leadId f" "\<not> due_by at (noticed at f)"
  by (simp_all add: noticed_def due_by_def)

lemma notify_one_map:
  "follow_ups (snd (notify_one at f s)) = (if due_by at f then js_set (follow_ups s) (fu_id f) (noticed at f) else follow_ups s)"
  "notify_one at f s = (Inr n, t) \<Longrightarrow> n = (if due_by at f then 1 else 0)"
proof -
  let ?s = "s\<lparr>follow_ups := js_set (follow_ups s) (fu_id f) (noticed at f)\<rparr>"
  let ?m = "notification_create (due_note_input f) (''follow-up-due:'' @ fu_id f @ '':v'' @ show_int (fu_version (noticed at f))) ?s"
  have due: "notify_one at f s = call ?m (\<lambda>_ s2. (Inr 1, s2))" if "due_by at f"
    using that by (simp add: notify_one_def due_by_def noticed_def Let_def)
  have kept: "notify_one at f s = (Inr 0, s)" if "\<not> due_by at f"
    using that by (auto simp: notify_one_def due_by_def)
  have "follow_ups (snd (call ?m (\<lambda>_ s2. (Inr 1 :: nat result, s2)))) = js_set (follow_ups s) (fu_id f) (noticed at f)"
    by (rule follow_ups_call) simp_all
  with due kept show "follow_ups (snd (notify_one at f s)) = (if due_by at f then js_set (follow_ups s) (fu_id f) (noticed at f) else follow_ups s)"
    by (cases "due_by at f") (simp_all only: if_True if_False snd_conv simp_thms)
  show "notify_one at f s = (Inr n, t) \<Longrightarrow> n = (if due_by at f then 1 else 0)"
    using due kept by (cases "due_by at f") (auto simp: call_Inr)
qed

lemma sweep:
  assumes "follow_ok s" and "distinct (map fu_id fs)" and "\<And>f. f \<in> set fs \<Longrightarrow> js_get (follow_ups s) (fu_id f) = Some f"
    and "for_each (notify_one at) fs s = (res, t)"
  shows "follow_ok t \<and> (\<forall>ns. res = Inr ns \<longrightarrow> sum_list ns = length (filter (due_by at) fs)
    \<and> (\<forall>k. js_get (follow_ups t) k = (if k \<in> fu_id ` set fs then map_option (noticed at) (js_get (follow_ups s) k) else js_get (follow_ups s) k)))"
  using assms
proof (induction fs arbitrary: s res)
  case (Cons f fs)
  obtain r u where one: "notify_one at f s = (r, u)" by fastforce
  have f: "js_get (follow_ups s) (fu_id f) = Some f" using Cons.prems(3) by simp
  have u: "follow_ups u = (if due_by at f then js_set (follow_ups s) (fu_id f) (noticed at f) else follow_ups s)"
    using notify_one_map(1) [of at f s] one by simp
  have get_u: "js_get (follow_ups u) k = (if k = fu_id f then Some (noticed at f) else js_get (follow_ups s) k)" for k
    using u f by (simp add: noticed_def)
  have "follow_ok u"
    using u Cons.prems(1) f follow_ok_put [OF Cons.prems(1) f, of "noticed at f"]
    by (simp add: due_by_def pending_state_def)
  show ?case
  proof (cases r)
    case (Inl e)
    with one Cons.prems(4) \<open>follow_ok u\<close> show ?thesis by auto
  next
    case (Inr n)
    obtain q v where rest: "for_each (notify_one at) fs u = (q, v)" by fastforce
    have other: "g \<in> set fs \<Longrightarrow> fu_id g \<noteq> fu_id f" for g using Cons.prems(2) by (metis distinct.simps(2) image_eqI list.set_map list.simps(9))
    have current: "js_get (follow_ups u) (fu_id g) = Some g" if "g \<in> set fs" for g
      using Cons.prems(3) that other [OF that] get_u by simp
    have dist: "distinct (map fu_id fs)" using Cons.prems(2) by simp
    from one Inr rest Cons.prems(4) have t: "t = v" by (cases q) auto
    from Cons.IH [OF \<open>follow_ok u\<close> dist current rest [folded t]]
    have IH: "follow_ok t" "\<And>ns. q = Inr ns \<Longrightarrow> sum_list ns = length (filter (due_by at) fs)"
      "\<And>ns k. q = Inr ns \<Longrightarrow> js_get (follow_ups t) k
         = (if k \<in> fu_id ` set fs then map_option (noticed at) (js_get (follow_ups u) k) else js_get (follow_ups u) k)" by auto
    have "n = (if due_by at f then 1 else 0)" using notify_one_map(2) one Inr by blast
    moreover have "fu_id f \<notin> fu_id ` set fs" using Cons.prems(2) by simp
    moreover have "res = (case q of Inl e \<Rightarrow> Inl e | Inr ns \<Rightarrow> Inr (n # ns))"
      using one Inr rest Cons.prems(4) by (cases q) auto
    ultimately show ?thesis using IH f get_u by (cases q) auto
  qed
qed auto

lemma sweep_start:
  assumes "follow_ok s"
  shows "distinct (map fu_id (js_values (follow_ups s)))" "f \<in> set (js_values (follow_ups s)) \<Longrightarrow> js_get (follow_ups s) (fu_id f) = Some f"
proof -
  have wf: "js_wf (follow_ups s)" and key: "js.keyed fu_id (follow_ups s)" using assms by (simp_all add: follow_map_ok_def)
  show get: "f \<in> set (js_values (follow_ups s)) \<Longrightarrow> js_get (follow_ups s) (fu_id f) = Some f" for f
    using wf key by (auto simp: js_values_get js.keyed_def)
  have "map fu_id (js_values (follow_ups s)) = js_keys (follow_ups s)"
    using wf key unfolding js_values_def js_keys_def js.keyed_def js_get_def js_wf_def
    by (auto intro!: map_cong simp: js_keys_def map_of_is_SomeI)
  then show "distinct (map fu_id (js_values (follow_ups s)))" using wf by (simp add: js_wf_def)
qed

lemmas sweep_all = sweep [OF _ sweep_start(1) sweep_start(2)]

lemma notifyDue_ok:
  assumes "follow_ok s"
  shows "follow_ok (snd (notifyDue at s))"
proof -
  obtain res t where run: "for_each (notify_one at) (js_values (follow_ups s)) s = (res, t)" by fastforce
  from sweep_all [OF assms assms assms _ run] run show ?thesis
    unfolding notifyDue_def by (cases res) simp_all
qed


section \<open>Runs of the service\<close>

inductive follow_up_step :: "'a follow_up_service_scheme \<Rightarrow> 'a follow_up_service_scheme \<Rightarrow> bool" where
  plan: "follow_up_step s (snd (schedule leadId i p cid s))"
| settle: "follow_up_step s (snd (decideFollowUpForApi pilotage k kvs p cid s))"
| interact: "follow_up_step s (snd (addManualActivityForApi leadId kvs p cid s))"
| tick: "follow_up_step s (snd (notifyDue at s))"
| other: "lead_request p s t \<Longrightarrow> follow_up_step s t"

lemma addManual_ok: "follow_ok s \<Longrightarrow> follow_ok (snd (addManualActivityForApi leadId kvs p cid s))"
  using perform_interaction_ok [of "s\<lparr>interactionLocks := interactionLocks s @ [leadId]\<rparr>" leadId kvs _ p cid]
  by (auto simp: addManualActivityForApi_def Let_def case_prod_unfold split: sum.split json.split)

lemma step_ok: "follow_up_step s t \<Longrightarrow> follow_ok s \<Longrightarrow> follow_ok t"
proof (induction rule: follow_up_step.induct)
  case (settle s pilotage k kvs p cid)
  then show ?case
    by (auto simp: decideFollowUpForApi_def split: sum.split intro: completeAndPlan_ok decide_ok)
next
  case (other p s t)
  then have "follow_ups t = follow_ups s" using more_request follow_ups_more by blast
  with other show ?case by simp
qed (simp_all add: schedule_ok notifyDue_ok addManual_ok)

text \<open>
  C10: A lead never has two pending follow-ups: from a state without two, no sequence of
  plannings, decisions, interactions, sweeps and requests on leads makes a second one.
\<close>

theorem one_pending_follow_up:
  assumes "follow_ok s" and "follow_up_step\<^sup>*\<^sup>* s t" and "js_get (follow_ups t) j = Some f" and "js_get (follow_ups t) k = Some g"
    and "fu_leadId f = fu_leadId g" and "pending_state (fu_state f)" and "pending_state (fu_state g)"
  shows "j = k \<and> f = g"
proof -
  from assms(2) have "follow_ok t" using assms(1) by (induction rule: rtranclp_induct) (auto intro: step_ok)
  with assms(3-7) have "j = k" unfolding follow_map_ok_def by blast
  with assms(3,4) show ?thesis by simp
qed

section \<open>Completing\<close>

lemma now_frames [simp]:
  "now (snd (getLead i p cid s)) = now s" "now (snd (recordFollowUp i n p cid res s)) = now s"
  "now (follow_up_audit f p cid ty s) = now s" "now (snd (buildSchedule l si a p u)) = now u"
  by (auto simp: getLead_def recordFollowUp_def follow_up_audit_def buildSchedule_def Let_def split: option.split)

lemma now_call:
  assumes "now (snd m) = x" and "\<And>a u. m = (Inr a, u) \<Longrightarrow> now u = x \<Longrightarrow> now (snd (k a u)) = x"
  shows "now (snd (call m k)) = x"
  using assms by (cases m; cases "fst m") auto

lemma now_keep [simp]: "now (snd (keep_schedule f p cid s)) = now s"
  unfolding keep_schedule_def by (rule now_call) simp_all

lemma now_decide [simp]: "now (snd (follow_up_decide pilotage i kvs p cid s)) = now s"
proof -
  have "now (snd (call (recordFollowUp l n p cid r (s\<lparr>follow_ups := m\<rparr>)) (\<lambda>_ s2. (Inr f', follow_up_audit f' p cid ty s2)))) = now s"
    for l n r m f' ty
    by (rule now_call) simp_all
  then show ?thesis
    unfolding follow_up_decide_def Let_def by (simp split: option.split sum.split)
qed

lemma scheduled:
  assumes "schedule leadId i p cid s = (Inr f, t)"
  shows "fu_leadId f = leadId \<and> fu_state f = FuScheduled \<and> now t < fu_dueAt f \<and> follow_ups t = js_set (follow_ups s) (fu_id f) f
    \<and> now t = now s"
proof -
  from assms obtain v u w where read: "getLead leadId p cid s = (Inr v, u)"
    and build: "buildSchedule leadId i (ld_assignedToId (lv_lead v)) p u = (Inr f, w)" and keep: "keep_schedule f p cid w = (Inr f, t)"
    unfolding schedule_def by (auto simp: call_Inr keep_schedule_def split: if_splits)
  have "follow_ups u = follow_ups s" "now u = now s"
    using follow_ups_frames(4) [of leadId p cid s] now_frames(1) [of leadId p cid s] read by simp_all
  moreover have "follow_ups w = follow_ups u" "now w = now u"
    using buildSchedule_spec(1) [of leadId i "ld_assignedToId (lv_lead v)" p u] now_frames(4) [of leadId i "ld_assignedToId (lv_lead v)" p u] build by simp_all
  moreover have "follow_ups t = js_set (follow_ups w) (fu_id f) f" "now t = now w"
    using follow_ups_keep [of f p cid w] now_keep [of f p cid w] keep by simp_all
  ultimately show ?thesis using buildSchedule_spec(2) [OF build] by simp
qed

lemma shown_id: "ld_id (lv_lead (visibleLead l p s)) = ld_id l"
  by (simp add: visibleLead_def withTreatment_def Let_def case_prod_unfold)

text \<open>
  Completing a follow-up plans the next one: when a completion is accepted for the first
  time, the follow-up was pending and is completed, and its lead has a new follow-up scheduled
  in the future.
\<close>

theorem completing_plans_the_next:
  assumes "decideFollowUpForApi pilotage i kvs p cid s = (Inr f', t)" and "field kvs ''action'' = JStr ''COMPLETE''"
    and "js_get (completionReceipts s) (''follow-up:decide:'' @ i @ '':'' @ opt_text (text_of (field kvs ''idempotencyKey''))) = None"
    and "lead_ok s"
  shows "\<exists>f k g. js_get (follow_ups s) i = Some f \<and> pending_state (fu_state f) \<and> fu_state f' = FuCompleted \<and> fu_leadId f' = fu_leadId f
    \<and> js_get (follow_ups t) k = Some g \<and> fu_leadId g = fu_leadId f \<and> fu_state g = FuScheduled \<and> now t < fu_dueAt g
    \<and> (k \<noteq> i \<longrightarrow> js_get (follow_ups t) i = Some f')"
proof -
  from assms(1,2) have run: "completeAndPlan pilotage i kvs p cid s = (Inr f', t)"
    by (auto simp: decideFollowUpForApi_def split: sum.splits if_splits)
  from run obtain raw where raw: "field kvs ''idempotencyKey'' = JStr raw" "all_in word_colon 8 64 raw"
    by (auto simp: completeAndPlan_def split: json.splits if_splits)
  from run raw obtain key where key: "follow_up_mutationKey ''decide'' i raw = Inr key"
    by (auto simp: completeAndPlan_def split: sum.splits)
  then have none: "js_get (completionReceipts s) key = None"
    using assms(3) raw(1) by (auto simp: follow_up_mutationKey_def text_of_def split: if_splits)
  from run obtain f v s1 s2 n s3 si where known: "js_get (follow_ups s) i = Some f"
    and read: "getLead (fu_leadId f) p cid s = (Inr v, s1)"
    and dec: "follow_up_decide pilotage i kvs p cid s1 = (Inr f', s2)"
    and sch: "schedule (ld_id (lv_lead v)) si p cid s2 = (Inr n, s3)" and t: "follow_ups t = follow_ups s3" "now t = now s3"
    unfolding completeAndPlan_def Let_def raw json.case key sum.case none option.case
    using raw(2) by (auto simp: call_Inr split: if_splits sum.splits option.splits next_action_intent.splits)
  have s1: "follow_ups s1 = follow_ups s" using follow_ups_frames(4) [of "fu_leadId f" p cid s] read by simp
  have lead: "ld_id (lv_lead v) = fu_leadId f"
    using read assms(4) by (auto simp: getLead_def Let_def lead_ok_def shown_id split: if_splits option.splits)
  from decide_spec [OF dec] known s1 obtain a where d: "pending_state (fu_state f)" "fu_leadId f' = fu_leadId f"
    "as_follow_up_action (field kvs ''action'') = Some a" "fu_state f' = followUpDecisionStates a" "follow_ups s2 = js_set (follow_ups s) i f'"
    by auto
  from d(3) assms(2) have "a = COMPLETE" by (auto simp: as_follow_up_action_def split: if_splits)
  then show ?thesis
    using scheduled [OF sch] known d t lead by (intro exI [of _ f] exI [of _ "fu_id n"] exI [of _ n]) auto
qed

section \<open>A run\<close>

definition demo_follow_up :: follow_up where
  "demo_follow_up = \<lparr>fu_id = ''f1'', fu_leadId = ''id-'', fu_ownerId = ''u1'', fu_dueAt = 900, fu_state = FuScheduled,
     fu_reason = ''call back'', fu_version = 1, fu_createdAt = 5, fu_updatedAt = 5\<rparr>"

text \<open>The host of the run reads every date as the instant 5000 and writes that one for every instant.\<close>

definition demo_day :: string where
  "demo_day = ''2026-01-01T10:00:00Z''"

definition follow_up_demo :: follow_up_service where
  "follow_up_demo = (lead_demo CONTACTED (follow_up_service_ext [(''f1'', demo_follow_up)] [] [] [] ()))
     \<lparr>date_parse := (\<lambda>_. Some 5000), iso_string := (\<lambda>_. demo_day)\<rparr>"

lemma follow_up_demo_ok: "lead_ok follow_up_demo" "follow_ok follow_up_demo" "follow_ups follow_up_demo = [(''f1'', demo_follow_up)]"
    "completionReceipts follow_up_demo = []"
proof -
  have "lead_ok follow_up_demo = lead_ok (lead_demo CONTACTED (follow_up_service_ext [(''f1'', demo_follow_up)] [] [] [] ()))"
    by (simp add: lead_ok_def follow_up_demo_def issued_def)
  then show "lead_ok follow_up_demo" by (simp only: lead_demo_ok)
  show fu: "follow_ups follow_up_demo = [(''f1'', demo_follow_up)]"
    by (simp add: follow_up_demo_def lead_demo_def note_demo_def user_demo_def demo_host_def)
  show "follow_ok follow_up_demo"
    by (auto simp: fu follow_map_ok_def js_wf_def js_keys_def js_get_def js.keyed_def demo_follow_up_def split: if_splits)
  show "completionReceipts follow_up_demo = []"
    by (simp add: follow_up_demo_def lead_demo_def note_demo_def user_demo_def demo_host_def)
qed

definition demo_completion :: "(string \<times> json) list" where
  "demo_completion = [(''action'', JStr ''COMPLETE''), (''reason'', JStr ''reached''), (''expectedVersion'', JNat 1),
     (''idempotencyKey'', JStr ''key-00001''),
     (''nextAction'', JObj [(''mode'', JStr ''SCHEDULE''), (''dueAt'', JStr demo_day), (''reason'', JStr ''send the file'')])]"


theorem one_pending_follow_up_witness:
  "\<exists>!k. \<exists>g. js_get (follow_ups (snd (notifyDue 1000 follow_up_demo))) k = Some g
     \<and> fu_leadId g = ''id-'' \<and> pending_state (fu_state g)"
proof -
  have run: "follow_up_step\<^sup>*\<^sup>* follow_up_demo (snd (notifyDue 1000 follow_up_demo))"
    by (rule r_into_rtranclp) (rule follow_up_step.tick)
  have "case js_get (follow_ups (snd (notifyDue 1000 follow_up_demo))) ''f1'' of None \<Rightarrow> False
     | Some g \<Rightarrow> fu_leadId g = ''id-'' \<and> pending_state (fu_state g)" by code_simp
  then obtain g where "js_get (follow_ups (snd (notifyDue 1000 follow_up_demo))) ''f1'' = Some g"
    "fu_leadId g = ''id-''" "pending_state (fu_state g)" by (auto split: option.splits)
  then show ?thesis using one_pending_follow_up [OF follow_up_demo_ok(2) run] by (metis (no_types))
qed

theorem completing_plans_the_next_witness:
  "\<exists>k g. js_get (follow_ups (snd (decideFollowUpForApi False ''f1'' demo_completion demo_manager ''c'' follow_up_demo))) k = Some g
     \<and> fu_leadId g = ''id-'' \<and> fu_state g = FuScheduled"
proof -
  let ?run = "decideFollowUpForApi False ''f1'' demo_completion demo_manager ''c'' follow_up_demo"
  have "case fst ?run of Inr f' \<Rightarrow> fu_leadId f' = ''id-'' | Inl e \<Rightarrow> False" by code_simp
  then obtain f' t where run: "?run = (Inr f', t)" and lead: "fu_leadId f' = ''id-''"
    by (cases ?run; cases "fst ?run") auto
  have act: "field demo_completion ''action'' = JStr ''COMPLETE''" by code_simp
  from completing_plans_the_next [OF run act _ follow_up_demo_ok(1)] lead show ?thesis
    unfolding run snd_conv follow_up_demo_ok(4) by (simp add: js_get_def) metis
qed

end
