(* ===== verification/Chat.thy ===== *)
theory Chat
  imports LeadLaws
begin

text \<open>
  The internal chat of \<open>chat/chat.service.ts\<close>: conversations between active collaborators,
  versioned messages, read receipts, and the conversion of a message into an activity of the
  linked lead. The collation \<open>localeCompare(_, "en")\<close> is the one of the host.
\<close>

section \<open>State\<close>

definition CHAT_EDIT_WINDOW_MS :: int where
  "CHAT_EDIT_WINDOW_MS = 60 * 60 * 1000"

definition CHAT_RETENTION_MONTHS :: int where
  "CHAT_RETENTION_MONTHS = 12"

datatype conversation_type = DIRECT | TEAM

fun conversation_type_name :: "conversation_type \<Rightarrow> string" where
  "conversation_type_name DIRECT = ''DIRECT''"
| "conversation_type_name TEAM = ''TEAM''"

record conversation =
  cv_id :: string
  cv_type :: conversation_type
  cv_title :: "string option"
  cv_leadId :: "string option"
  cv_leadCode :: "string option"
  cv_participantIds :: "string list"
  cv_createdById :: string
  cv_createdAt :: int
  cv_updatedAt :: int
  cv_retentionUntil :: int

datatype message_state = MsgActive | MsgEdited | MsgDeleted

fun message_state_name :: "message_state \<Rightarrow> string" where
  "message_state_name MsgActive = ''ACTIVE''"
| "message_state_name MsgEdited = ''EDITED''"
| "message_state_name MsgDeleted = ''DELETED''"

record chat_message =
  ms_id :: string
  ms_conversationId :: string
  ms_authorId :: string
  ms_content :: "string option"
  ms_version :: int
  ms_state :: message_state
  ms_createdAt :: int
  ms_editedAt :: "int option"
  ms_deletedAt :: "int option"
  ms_mentionUserIds :: "string list"

datatype message_change = Edit | Delete

record message_version =
  mv_version :: int
  mv_content :: "string option"
  mv_changedBy :: string
  mv_change :: message_change
  mv_reason :: "string option"
  mv_createdAt :: int

record chat_state = lead_state +
  conversations :: "(string, conversation) js_map"
  chat_messages :: "(string, chat_message) js_map"
  conversationMessages :: "(string, string list) js_map"
  directConversations :: "(string, string) js_map"
  messageVersions :: "(string, message_version list) js_map"
  messageIdempotency :: "(string, string) js_map"
  readReceipts :: "(string, string \<times> int) js_map"
  convertedMessages :: "(string, string) js_map"

text \<open>
  \<open>setUTCMonth(getUTCMonth() + months)\<close> in the proleptic Gregorian calendar: the day of the era
  of a civil date, the civil date of a day, and the day an overflowing date falls on.
\<close>

definition day_of_civil :: "int \<Rightarrow> int \<Rightarrow> int \<Rightarrow> int" where
  "day_of_civil y m d =
     (let y' = (if m \<le> 2 then y - 1 else y); mp = (if 2 < m then m - 3 else m + 9)
      in 365 * y' + y' div 4 - y' div 100 + y' div 400 + (153 * mp + 2) div 5 + d - 1 - 719468)"

definition civil_of_day :: "int \<Rightarrow> int \<times> int \<times> int" where
  "civil_of_day z0 =
     (let z = z0 + 719468; era = z div 146097; doe = z mod 146097;
          yoe = (doe - doe div 1460 + doe div 36524 - doe div 146096) div 365;
          doy = doe - (365 * yoe + yoe div 4 - yoe div 100); mp = (5 * doy + 2) div 153;
          d = doy - (153 * mp + 2) div 5 + 1; m = (if mp < 10 then mp + 3 else mp - 9)
      in (yoe + era * 400 + (if m \<le> 2 then 1 else 0), m, d))"

definition add_utc_months :: "int \<Rightarrow> int \<Rightarrow> int" where
  "add_utc_months at n =
     (let day = at div 86400000; (y, m, d) = civil_of_day day; k = m - 1 + n
      in at + (day_of_civil (y + k div 12) (k mod 12 + 1) d - day) * 86400000)"

section \<open>Checks\<close>

definition assertActiveCollaborator :: "string \<Rightarrow> 'a user_state_scheme \<Rightarrow> unit result" where
  "assertActiveCollaborator u s =
     (case find (\<lambda>c. co_id c = u) (user_list (Some True) None None s) of
        None \<Rightarrow> Inl (Forbidden ''chat_collaborator_required'') | Some _ \<Rightarrow> Inr ())"

definition assertMember :: "string \<Rightarrow> principal \<Rightarrow> 'a chat_state_scheme \<Rightarrow> conversation result" where
  "assertMember i p s =
     (case js_get (conversations s) i of
        None \<Rightarrow> Inl (NotFound ''chat_conversation_not_found'')
      | Some c \<Rightarrow>
          if userId p \<notin> set (cv_participantIds c) then Inl (NotFound ''chat_conversation_not_found'')
          else map_sum id (\<lambda>_. c) (assertActiveCollaborator (userId p) s))"

definition assertMessageMember :: "string \<Rightarrow> principal \<Rightarrow> 'a chat_state_scheme \<Rightarrow> chat_message result" where
  "assertMessageMember i p s =
     (case js_get (chat_messages s) i of
        None \<Rightarrow> Inl (NotFound ''chat_message_not_found'')
      | Some m \<Rightarrow> map_sum id (\<lambda>_. m) (assertMember (ms_conversationId m) p s))"

definition assertWithinEditWindow :: "chat_message \<Rightarrow> int \<Rightarrow> unit result" where
  "assertWithinEditWindow m at =
     (if at - ms_createdAt m > CHAT_EDIT_WINDOW_MS then Inl (Conflict ''chat_edit_window_expired'') else Inr ())"

definition assertExpectedVersion :: "chat_message \<Rightarrow> jsnum option \<Rightarrow> unit result" where
  "assertExpectedVersion m v =
     (if v = Some (JInt (ms_version m)) then Inr () else Inl (Conflict ''chat_message_version_conflict''))"

definition chat_assertPagination :: "jsnum \<Rightarrow> jsnum \<Rightarrow> unit result" where
  "chat_assertPagination page psz =
     (if \<not> is_integer page \<or> num_value page < 1 \<or> \<not> is_integer psz \<or> num_value psz < 1 \<or> 100 < num_value psz
      then Inl (BadRequest ''chat_pagination_invalid'') else Inr ())"

definition validateContent :: "string option \<Rightarrow> string result" where
  "validateContent v =
     (let c = js_trim (opt_text v)
      in if c = [] \<or> 2000 < length c \<or> CHR 0x00 \<in> set c then Inl (BadRequest ''chat_content_invalid'') else Inr c)"

definition appendVersion ::
  "chat_message \<Rightarrow> string \<Rightarrow> message_change \<Rightarrow> int \<Rightarrow> string option \<Rightarrow> 'a chat_state_scheme \<Rightarrow> 'a chat_state_scheme" where
  "appendVersion m by ch at reason s =
     s\<lparr>messageVersions := js_set (messageVersions s) (ms_id m)
        ((case js_get (messageVersions s) (ms_id m) of None \<Rightarrow> [] | Some vs \<Rightarrow> vs)
          @ [\<lparr>mv_version = ms_version m, mv_content = ms_content m, mv_changedBy = by, mv_change = ch,
              mv_reason = reason, mv_createdAt = at\<rparr>])\<rparr>"

definition message_audit ::
  "string \<Rightarrow> chat_message \<Rightarrow> principal \<Rightarrow> string \<Rightarrow> string option \<Rightarrow> 'a chat_state_scheme \<Rightarrow> 'a chat_state_scheme" where
  "message_audit ty m p cid reason s =
     audit_by p cid ty JUndef
       (JObj [(''conversationId'', JStr (ms_conversationId m)), (''messageId'', JStr (ms_id m)),
              (''version'', JNum (JInt (ms_version m))), (''state'', JStr (message_state_name (ms_state m))),
              (''reason'', JId reason)])
       SUCCESS (js_lower ty @ '':'' @ ms_id m @ '':'' @ show_int (ms_version m)) s"

text \<open>\<open>/^LD-\d{4}-[A-Z0-9]{4,32}$/\<close>.\<close>

definition lead_code_shape :: "string \<Rightarrow> bool" where
  "lead_code_shape c = (starts_with ''LD-'' c \<and> all_in is_digit 4 4 (take 4 (drop 3 c)) \<and> take 1 (drop 7 c) = ''-''
     \<and> all_in (\<lambda>x. is_upper x \<or> is_digit x) 4 32 (drop 8 c))"

definition resolveLead ::
  "string \<Rightarrow> principal \<Rightarrow> string \<Rightarrow> 'a chat_state_scheme \<Rightarrow> (string \<times> string) result \<times> 'a chat_state_scheme" where
  "resolveLead c p cid s =
     (if \<not> lead_code_shape (js_upper (js_trim c)) then (Inl (BadRequest ''chat_lead_code_invalid''), s)
      else (case findLocalLeadByCode c s of
              None \<Rightarrow> (Inl (NotFound ''lead_not_found''), s)
            | Some l \<Rightarrow> call (getLead (ld_id l) p cid s) (\<lambda>v s1. (Inr (ld_id (lv_lead v), ld_leadCode (lv_lead v)), s1))))"

section \<open>Conversations\<close>

record conversation_input =
  vi_type :: "string option"
  vi_title :: "string option"
  vi_participantIds :: "string list option"
  vi_leadCode :: "string option"
  vi_attachments :: nat

definition first_error :: "unit result list \<Rightarrow> unit result" where
  "first_error rs = (case find (\<lambda>r. \<not> is_ok r) rs of None \<Rightarrow> Inr () | Some r \<Rightarrow> r)"

definition createConversation ::
  "principal \<Rightarrow> conversation_input \<Rightarrow> string \<Rightarrow> 'a chat_state_scheme \<Rightarrow> conversation result \<times> 'a chat_state_scheme" where
  "createConversation p i cid s =
     (case assertActiveCollaborator (userId p) s of
        Inl e \<Rightarrow> (Inl e, s)
      | Inr _ \<Rightarrow>
          if 0 < vi_attachments i then (Inl (BadRequest ''chat_attachments_deferred''), s)
          else (case find (\<lambda>t. vi_type i = Some (conversation_type_name t)) [DIRECT, TEAM] of
            None \<Rightarrow> (Inl (BadRequest ''chat_type_invalid''), s)
          | Some ty \<Rightarrow>
              (let ps = sort_by (locale_cmp s) (js_uniq (userId p # (case vi_participantIds i of None \<Rightarrow> [] | Some us \<Rightarrow> us)));
                   title = map_option js_trim (vi_title i)
               in if length ps < 2 \<or> 50 < length ps then (Inl (BadRequest ''chat_participants_invalid''), s)
                  else (case first_error (map (\<lambda>u. assertActiveCollaborator u s) ps) of
                    Inl e \<Rightarrow> (Inl e, s)
                  | Inr _ \<Rightarrow>
                      if ty = DIRECT \<and> length ps \<noteq> 2 then (Inl (BadRequest ''chat_direct_participants_invalid''), s)
                      else if ty = TEAM \<and> (length (opt_text title) < 2 \<or> 120 < length (opt_text title))
                      then (Inl (BadRequest ''chat_title_invalid''), s)
                      else call (if truthy (vi_leadCode i)
                                 then call (resolveLead (opt_text (vi_leadCode i)) p cid s) (\<lambda>x s1. (Inr (Some x), s1))
                                 else (Inr None, s)) (\<lambda>linked s1.
                        (let key = js_join '':'' ps @ '':'' @ (case linked of None \<Rightarrow> ''unlinked'' | Some x \<Rightarrow> fst x)
                         in case (if ty = DIRECT then js_get (directConversations s1) key else None) of
                              Some k \<Rightarrow>
                                (case js_get (conversations s1) k of
                                   None \<Rightarrow> (Inl (Thrown ''TypeError''), s1) | Some c \<Rightarrow> (Inr c, s1))
                            | None \<Rightarrow>
                                (let c = \<lparr>cv_id = fresh_uuid s1, cv_type = ty, cv_title = (if ty = TEAM then title else None),
                                       cv_leadId = map_option fst linked, cv_leadCode = map_option snd linked,
                                       cv_participantIds = ps, cv_createdById = userId p, cv_createdAt = now s1,
                                       cv_updatedAt = now s1,
                                       cv_retentionUntil = add_utc_months (now s1) CHAT_RETENTION_MONTHS\<rparr>;
                                     s2 = (drawn s1)\<lparr>conversations := js_set (conversations s1) (cv_id c) c,
                                       conversationMessages := js_set (conversationMessages s1) (cv_id c) [],
                                       directConversations := (if ty = DIRECT
                                          then js_set (directConversations s1) key (cv_id c) else directConversations s1)\<rparr>
                                 in (Inr c, audit_by p cid ''CHAT_CONVERSATION_CREATED'' JUndef
                                       (JObj [(''conversationId'', JStr (cv_id c)), (''type'', JStr (conversation_type_name ty)),
                                              (''participantCount'', JNat (length ps)), (''leadId'', JId (cv_leadId c))])
                                       SUCCESS (''chat-conversation-created:'' @ cv_id c) s2))))))))"

record conversation_page =
  cp_items :: "conversation list"
  cp_page :: int
  cp_pageSize :: int
  cp_total :: nat

definition listConversations ::
  "principal \<Rightarrow> jsnum \<Rightarrow> jsnum \<Rightarrow> 'a chat_state_scheme \<Rightarrow> conversation_page result" where
  "listConversations p page psz s =
     (case chat_assertPagination page psz of
        Inl e \<Rightarrow> Inl e
      | Inr _ \<Rightarrow>
          (case assertActiveCollaborator (userId p) s of
             Inl e \<Rightarrow> Inl e
           | Inr _ \<Rightarrow>
               (let rs = sort_by (\<lambda>a b. cmp_or (cmp_int (cv_updatedAt b) (cv_updatedAt a)) (locale_cmp s (cv_id b) (cv_id a)))
                      (filter (\<lambda>c. userId p \<in> set (cv_participantIds c)) (js_values (conversations s)))
                in Inr \<lparr>cp_items = page_slice (num_value page) (num_value psz) rs, cp_page = num_value page,
                     cp_pageSize = num_value psz, cp_total = length rs\<rparr>)))"

section \<open>Messages\<close>

record message_input =
  mi_content :: "string option"
  mi_clientMessageId :: "string option"
  mi_mentionUserIds :: "string list option"
  mi_attachments :: nat

definition mention_note :: "string \<Rightarrow> string \<Rightarrow> notification_input" where
  "mention_note conv u = \<lparr>ni_recipientId = u, ni_type = CHAT_MENTION, ni_priority = PrioNormal,
     ni_resourceType = ResChat, ni_resourceId = conv, ni_href = ''/chat/'' @ conv\<rparr>"

definition mention_ok :: "principal \<Rightarrow> conversation \<Rightarrow> 'a chat_state_scheme \<Rightarrow> string \<Rightarrow> unit result" where
  "mention_ok p c s u =
     (if u = userId p \<or> u \<notin> set (cv_participantIds c) then Inl (BadRequest ''chat_mention_invalid'')
      else assertActiveCollaborator u s)"

definition postMessage ::
  "string \<Rightarrow> principal \<Rightarrow> message_input \<Rightarrow> string \<Rightarrow> 'a chat_state_scheme \<Rightarrow> chat_message result \<times> 'a chat_state_scheme" where
  "postMessage conv p i cid s =
     (case assertMember conv p s of
        Inl e \<Rightarrow> (Inl e, s)
      | Inr c \<Rightarrow>
          if 0 < mi_attachments i then (Inl (BadRequest ''chat_attachments_deferred''), s)
          else (case validateContent (mi_content i) of
            Inl e \<Rightarrow> (Inl e, s)
          | Inr content \<Rightarrow>
              if \<not> all_in word_dash 8 80 (opt_text (mi_clientMessageId i))
              then (Inl (BadRequest ''chat_message_idempotency_invalid''), s)
              else (let key = conv @ '':'' @ opt_text (mi_clientMessageId i)
                in case js_get (messageIdempotency s) key of
                     Some k \<Rightarrow>
                       (case js_get (chat_messages s) k of None \<Rightarrow> (Inl (Thrown ''TypeError''), s) | Some m \<Rightarrow> (Inr m, s))
                   | None \<Rightarrow>
                       (let mentions = sort_by (locale_cmp s) (js_uniq (case mi_mentionUserIds i of None \<Rightarrow> [] | Some us \<Rightarrow> us))
                        in case first_error (map (mention_ok p c s) mentions) of
                             Inl e \<Rightarrow> (Inl e, s)
                           | Inr _ \<Rightarrow>
                               (let m = \<lparr>ms_id = fresh_uuid s, ms_conversationId = conv, ms_authorId = userId p,
                                      ms_content = Some content, ms_version = 1, ms_state = MsgActive, ms_createdAt = now s,
                                      ms_editedAt = None, ms_deletedAt = None, ms_mentionUserIds = mentions\<rparr>;
                                    s1 = (drawn s)\<lparr>chat_messages := js_set (chat_messages s) (ms_id m) m\<rparr>
                                in case js_get (conversationMessages s1) conv of
                                     None \<Rightarrow> (Inl (Thrown ''TypeError''), s1)
                                   | Some ids \<Rightarrow>
                                       (let s2 = s1\<lparr>conversationMessages := js_set (conversationMessages s1) conv (ids @ [ms_id m]),
                                              messageIdempotency := js_set (messageIdempotency s1) key (ms_id m),
                                              conversations := js_set (conversations s1) conv (c\<lparr>cv_updatedAt := now s\<rparr>)\<rparr>
                                        in call (for_each (\<lambda>u. notification_create (mention_note conv u)
                                                   (''chat-mention:'' @ ms_id m @ '':'' @ u)) mentions s2)
                                             (\<lambda>_ s3. (Inr m, message_audit ''CHAT_MESSAGE_CREATED'' m p cid None s3))))))))"

record message_page =
  mp_items :: "chat_message list"
  mp_page :: int
  mp_pageSize :: int
  mp_total :: nat

definition stored_messages :: "string \<Rightarrow> 'a chat_state_scheme \<Rightarrow> chat_message list" where
  "stored_messages conv s =
     List.map_filter (js_get (chat_messages s))
       (case js_get (conversationMessages s) conv of None \<Rightarrow> [] | Some ids \<Rightarrow> ids)"

definition listMessages ::
  "string \<Rightarrow> principal \<Rightarrow> jsnum \<Rightarrow> jsnum \<Rightarrow> 'a chat_state_scheme \<Rightarrow> message_page result" where
  "listMessages conv p page psz s =
     (case chat_assertPagination page psz of
        Inl e \<Rightarrow> Inl e
      | Inr _ \<Rightarrow>
          (case assertMember conv p s of
             Inl e \<Rightarrow> Inl e
           | Inr _ \<Rightarrow>
               (let rs = sort_by (\<lambda>a b. cmp_or (cmp_int (ms_createdAt a) (ms_createdAt b)) (locale_cmp s (ms_id a) (ms_id b)))
                      (stored_messages conv s)
                in Inr \<lparr>mp_items = page_slice (num_value page) (num_value psz) rs, mp_page = num_value page,
                     mp_pageSize = num_value psz, mp_total = length rs\<rparr>)))"

definition editMessage ::
  "string \<Rightarrow> principal \<Rightarrow> string option \<Rightarrow> jsnum option \<Rightarrow> string \<Rightarrow> 'a chat_state_scheme
     \<Rightarrow> chat_message result \<times> 'a chat_state_scheme" where
  "editMessage i p content expected cid s =
     (case assertMessageMember i p s of
        Inl e \<Rightarrow> (Inl e, s)
      | Inr m \<Rightarrow>
          if ms_authorId m \<noteq> userId p then (Inl (NotFound ''chat_message_not_found''), s)
          else (case assertExpectedVersion m expected of
            Inl e \<Rightarrow> (Inl e, s)
          | Inr _ \<Rightarrow>
              (case assertWithinEditWindow m (now s) of
                 Inl e \<Rightarrow> (Inl e, s)
               | Inr _ \<Rightarrow>
                   if ms_state m = MsgDeleted then (Inl (Conflict ''chat_message_deleted''), s)
                   else (case validateContent content of
                     Inl e \<Rightarrow> (Inl e, s)
                   | Inr t \<Rightarrow>
                       (let s1 = appendVersion m (userId p) Edit (now s) None s;
                            m' = m\<lparr>ms_content := Some t, ms_version := ms_version m + 1, ms_state := MsgEdited,
                                   ms_editedAt := Some (now s)\<rparr>
                        in (Inr m', message_audit ''CHAT_MESSAGE_EDITED'' m' p cid None
                              (s1\<lparr>chat_messages := js_set (chat_messages s1) i m'\<rparr>)))))))"

definition deleteMessage ::
  "string \<Rightarrow> principal \<Rightarrow> string option \<Rightarrow> jsnum option \<Rightarrow> string \<Rightarrow> 'a chat_state_scheme
     \<Rightarrow> chat_message result \<times> 'a chat_state_scheme" where
  "deleteMessage i p why expected cid s =
     (case assertMessageMember i p s of
        Inl e \<Rightarrow> (Inl e, s)
      | Inr m \<Rightarrow>
          (case assertExpectedVersion m expected of
             Inl e \<Rightarrow> (Inl e, s)
           | Inr _ \<Rightarrow>
               if ms_state m = MsgDeleted then (Inr m, s)
               else if \<not> is_manager p \<and> ms_authorId m \<noteq> userId p then (Inl (NotFound ''chat_message_not_found''), s)
               else (case (if is_manager p then Inr () else assertWithinEditWindow m (now s)) of
                 Inl e \<Rightarrow> (Inl e, s)
               | Inr _ \<Rightarrow>
                   (let reason = js_trim (opt_text why)
                    in if length reason < 3 \<or> 240 < length reason
                       then (Inl (BadRequest ''chat_deletion_reason_invalid''), s)
                       else (let s1 = appendVersion m (userId p) Delete (now s) (Some reason) s;
                                 m' = m\<lparr>ms_content := None, ms_version := ms_version m + 1, ms_state := MsgDeleted,
                                        ms_deletedAt := Some (now s)\<rparr>
                             in (Inr m', message_audit ''CHAT_MESSAGE_DELETED'' m' p cid (Some reason)
                                   (s1\<lparr>chat_messages := js_set (chat_messages s1) i m'\<rparr>)))))))"

section \<open>Reading and conversion\<close>

definition chat_markRead ::
  "string \<Rightarrow> string \<Rightarrow> principal \<Rightarrow> string \<Rightarrow> 'a chat_state_scheme \<Rightarrow> (string \<times> int) result \<times> 'a chat_state_scheme" where
  "chat_markRead conv i p cid s =
     (case assertMember conv p s of
        Inl e \<Rightarrow> (Inl e, s)
      | Inr _ \<Rightarrow>
          (case js_get (chat_messages s) i of
             None \<Rightarrow> (Inl (NotFound ''chat_message_not_found''), s)
           | Some m \<Rightarrow>
               if ms_conversationId m \<noteq> conv then (Inl (NotFound ''chat_message_not_found''), s)
               else (let key = conv @ '':'' @ userId p; receipt = (i, now s);
                         fresh = (Inr receipt, audit_by p cid ''CHAT_READ_RECEIPT_UPDATED'' JUndef
                           (JObj [(''conversationId'', JStr conv), (''messageId'', JStr i)]) SUCCESS
                           (''chat-read:'' @ conv @ '':'' @ userId p @ '':'' @ i)
                           (s\<lparr>readReceipts := js_set (readReceipts s) key receipt\<rparr>))
                     in case js_get (readReceipts s) key of
                          Some r \<Rightarrow> if fst r = i then (Inr r, s) else fresh
                        | None \<Rightarrow> fresh)))"

definition chat_permissionLeadId :: "string \<Rightarrow> principal \<Rightarrow> 'a chat_state_scheme \<Rightarrow> string result" where
  "chat_permissionLeadId i p s =
     (case assertMessageMember i p s of
        Inl e \<Rightarrow> Inl e
      | Inr m \<Rightarrow>
          (case js_get (conversations s) (ms_conversationId m) of
             None \<Rightarrow> Inl (Conflict ''chat_lead_context_required'')
           | Some c \<Rightarrow> if truthy (cv_leadId c) then Inr (opt_text (cv_leadId c))
                       else Inl (Conflict ''chat_lead_context_required'')))"

record convert_input =
  vc_type :: string
  vc_result :: "string option"
  vc_includeMessageAsNote :: bool

definition convertMessageToActivity ::
  "string \<Rightarrow> principal \<Rightarrow> convert_input \<Rightarrow> string \<Rightarrow> 'a chat_state_scheme \<Rightarrow> activity result \<times> 'a chat_state_scheme" where
  "convertMessageToActivity i p inp cid s =
     (case assertMessageMember i p s of
        Inl e \<Rightarrow> (Inl e, s)
      | Inr m \<Rightarrow>
          (case js_get (conversations s) (ms_conversationId m) of
             None \<Rightarrow> (Inl (Thrown ''TypeError''), s)
           | Some c \<Rightarrow>
               if \<not> truthy (cv_leadId c) then (Inl (Conflict ''chat_lead_context_required''), s)
               else (let lead = opt_text (cv_leadId c)
                 in call (getLead lead p cid s) (\<lambda>v s1.
                   (let l = lv_lead v
                    in if \<not> (ld_assignedToId l = Some (userId p)
                              \<or> (case ld_collaboratorIds l of None \<Rightarrow> False | Some cs \<Rightarrow> userId p \<in> set cs) \<or> is_manager p)
                       then (Inl (Forbidden ''chat_lead_mutation_forbidden''), s1)
                       else if ms_state m = MsgDeleted then (Inl (Conflict ''chat_message_deleted''), s1)
                       else if truthy (js_get (convertedMessages s1) i)
                       then (Inl (Conflict ''chat_message_already_converted''), s1)
                       else call (addActivity lead \<lparr>in_type = vc_type inp, in_result = opt_text (vc_result inp),
                               in_note = (if vc_includeMessageAsNote inp \<and> truthy (ms_content m) then ms_content m else None),
                               in_nextActionAt = None, in_clearNextAction = False\<rparr> p cid s1)
                         (\<lambda>a s2. (Inr a, audit_by p cid ''CHAT_MESSAGE_CONVERTED_TO_ACTIVITY'' JUndef
                            (JObj [(''conversationId'', JStr (cv_id c)), (''messageId'', JStr i), (''leadId'', JStr lead),
                                   (''activityId'', JStr (ac_id a)), (''type'', JStr (activity_name (ac_type a)))])
                            SUCCESS (''chat-message-converted:'' @ i)
                            (s2\<lparr>convertedMessages := js_set (convertedMessages s2) i (ac_id a)\<rparr>))))))))"

definition getVersionsForAudit :: "string \<Rightarrow> 'a chat_state_scheme \<Rightarrow> message_version list" where
  "getVersionsForAudit i s = (case js_get (messageVersions s) i of None \<Rightarrow> [] | Some vs \<Rightarrow> vs)"

end
