(* ===== verification/ChatLaws.thy ===== *)
theory ChatLaws
  imports Chat LeadRequests Lifecycle
begin

text \<open>
  What the chat promises of its messages: nothing that was written is lost. Each edit and the
  deletion archive the former content under its version number, and a deleted message stays as
  it is; the contract is the one of \<open>Lifecycle\<close>, with a message and its archive as its status.
\<close>

section \<open>Frames\<close>

lemma chat_fields_more:
  "lead_state.more s = lead_state.more t \<Longrightarrow> chat_messages s = chat_messages t"
  "lead_state.more s = lead_state.more t \<Longrightarrow> messageVersions s = messageVersions t"
  by (cases s; cases t; simp)+

lemma chat_audit [simp]:
  "chat_messages (audit_by p c ty b a r k s) = chat_messages s" "messageVersions (audit_by p c ty b a r k s) = messageVersions s"
  "chat_messages (message_audit ev m p c why s) = chat_messages s" "messageVersions (message_audit ev m p c why s) = messageVersions s"
  "chat_messages (drawn s) = chat_messages s" "messageVersions (drawn s) = messageVersions s"
  by (auto simp: message_audit_def intro: chat_fields_more)

lemma mentions_frame:
  "lead_state.more (snd (for_each (\<lambda>u. notification_create (n u) (k u)) us s)) = lead_state.more s
     \<and> grows s (snd (for_each (\<lambda>u. notification_create (n u) (k u)) us s))"
proof (induction us arbitrary: s)
  case (Cons u us)
  obtain r t where one: "notification_create (n u) (k u) s = (r, t)" by fastforce
  have t: "lead_state.more t = lead_state.more s" "grows s t"
    using notification_create_leads(3) [of "n u" "k u" s] supply_notification [of s "n u" "k u"] one by simp_all
  obtain q v where rest: "for_each (\<lambda>u. notification_create (n u) (k u)) us t = (q, v)" by fastforce
  from Cons [of t] t rest have "lead_state.more v = lead_state.more s" "grows s v"
    by (auto intro: supply_trans)
  with one rest t show ?case by (cases r; cases q) simp_all
qed simp

section \<open>A message and its archive\<close>

type_synonym kept_message = "chat_message \<times> message_version list"

definition kept_message :: "'a chat_state_scheme \<Rightarrow> string \<Rightarrow> kept_message option" where
  "kept_message s i = map_option (\<lambda>m. (m, getVersionsForAudit i s)) (js_get (chat_messages s) i)"

definition rewritten_to :: "kept_message \<Rightarrow> kept_message \<Rightarrow> bool" where
  "rewritten_to a b \<longleftrightarrow> ms_state (fst a) \<noteq> MsgDeleted \<and> ms_state (fst b) \<noteq> MsgActive
     \<and> (ms_state (fst b) = MsgDeleted \<longrightarrow> ms_content (fst b) = None)
     \<and> ms_id (fst b) = ms_id (fst a) \<and> ms_conversationId (fst b) = ms_conversationId (fst a)
     \<and> ms_authorId (fst b) = ms_authorId (fst a) \<and> ms_createdAt (fst b) = ms_createdAt (fst a)
     \<and> ms_version (fst b) = ms_version (fst a) + 1
     \<and> (\<exists>v. snd b = snd a @ [v] \<and> mv_version v = ms_version (fst a) \<and> mv_content v = ms_content (fst a))"

definition chat_ok :: "'a chat_state_scheme \<Rightarrow> bool" where
  "chat_ok s \<longleftrightarrow> inj (uuid s)
     \<and> (\<forall>k m. js_get (chat_messages s) k = Some m \<longrightarrow> ms_id m = k \<and> k \<in> issued s
          \<and> map mv_version (getVersionsForAudit k s) = [1..ms_version m - 1] \<and> 1 \<le> ms_version m)
     \<and> (\<forall>k. js_get (chat_messages s) k = None \<longrightarrow> getVersionsForAudit k s = [])"

text \<open>What an operation of the chat does to the messages.\<close>

inductive message_effect :: "'a chat_state_scheme \<Rightarrow> 'a chat_state_scheme \<Rightarrow> bool" where
  kept: "chat_messages t = chat_messages s \<Longrightarrow> messageVersions t = messageVersions s \<Longrightarrow> grows s t \<Longrightarrow> message_effect s t"
| posted: "chat_messages t = js_set (chat_messages s) (fresh_uuid s) m \<Longrightarrow> messageVersions t = messageVersions s
    \<Longrightarrow> ms_id m = fresh_uuid s \<Longrightarrow> ms_version m = 1 \<Longrightarrow> grows (drawn s) t \<Longrightarrow> message_effect s t"
| rewritten: "js_get (chat_messages s) i = Some m \<Longrightarrow> chat_messages t = js_set (chat_messages s) i m'
    \<Longrightarrow> messageVersions t = js_set (messageVersions s) i (getVersionsForAudit i s @ [v])
    \<Longrightarrow> rewritten_to (m, getVersionsForAudit i s) (m', getVersionsForAudit i s @ [v]) \<Longrightarrow> grows s t \<Longrightarrow> message_effect s t"

lemma versions_update:
  "messageVersions t = messageVersions s \<Longrightarrow> getVersionsForAudit k t = getVersionsForAudit k s"
  "messageVersions t = js_set (messageVersions s) i vs \<Longrightarrow> getVersionsForAudit k t = (if k = i then vs else getVersionsForAudit k s)"
  by (simp_all add: getVersionsForAudit_def)

lemma fresh_message:
  assumes "chat_ok s"
  shows "js_get (chat_messages s) (fresh_uuid s) = None"
proof (cases "js_get (chat_messages s) (fresh_uuid s)")
  case (Some m)
  with assms have "fresh_uuid s \<in> issued s" "inj (uuid s)" unfolding chat_ok_def by blast+
  then show ?thesis by (auto simp: issued_def fresh_uuid_def dest: injD)
qed

lemma effect_keeps:
  assumes "chat_ok s" and "message_effect s t"
  shows "chat_ok t"
  using assms(2)
proof (cases rule: message_effect.cases)
  case kept
  then show ?thesis
    using assms(1) supply_issued [of s t] by (auto simp: chat_ok_def versions_update(1) [of t s] grows_def)
next
  case (posted m)
  have "uuid t = uuid s" "issued s \<subseteq> issued t" "fresh_uuid s \<in> issued t"
    using posted(5) by (auto simp: grows_def issued_def drawn_def fresh_uuid_def)
  with posted fresh_message [OF assms(1)] assms(1) show ?thesis
    unfolding chat_ok_def by (auto simp: versions_update(1) [of t s])
next
  case (rewritten i m m' v)
  have "uuid t = uuid s" "issued s \<subseteq> issued t"
    using rewritten(5) supply_issued by (auto simp: grows_def)
  moreover from assms(1) rewritten(1) have old: "ms_id m = i" "i \<in> issued s"
    "map mv_version (getVersionsForAudit i s) = [1..ms_version m - 1]" "1 \<le> ms_version m"
    by (simp_all add: chat_ok_def)
  moreover from old(3,4) rewritten(4) have "map mv_version (getVersionsForAudit i s @ [v]) = [1..ms_version m' - 1]"
    by (simp add: rewritten_to_def upto_rec2)
  moreover from old(4) have "0 \<le> ms_version m" by simp
  ultimately show ?thesis
    using rewritten assms(1) unfolding chat_ok_def
    by (simp add: versions_update(2) [of t s] rewritten_to_def subset_iff)
qed

lemma effect_moves:
  assumes "chat_ok s" and "message_effect s t" and "kept_message s k = Some a"
  shows "\<exists>b. kept_message t k = Some b \<and> rewritten_to\<^sup>*\<^sup>* a b"
  using assms(2)
proof (cases rule: message_effect.cases)
  case kept
  with assms(3) show ?thesis by (auto simp: kept_message_def versions_update(1) [of t s])
next
  case (posted m)
  with assms(3) fresh_message [OF assms(1)] show ?thesis
    by (auto simp: kept_message_def versions_update(1) [of t s])
next
  case (rewritten i m m' v)
  with assms(3) show ?thesis
    by (cases "k = i") (auto simp: kept_message_def versions_update(2) [of t s])
qed

section \<open>The operations\<close>

lemma effect_more: "lead_state.more t = lead_state.more s \<Longrightarrow> grows s t \<Longrightarrow> message_effect s t"
  by (rule message_effect.kept) (auto intro: chat_fields_more)

lemma effect_same [simp]: "message_effect s s"
  by (rule effect_more) simp_all

lemma effect_then_call:
  assumes "message_effect s (snd m)" and "\<And>a u. m = (Inr a, u) \<Longrightarrow> message_effect s (snd (k a u))"
  shows "message_effect s (snd (call m k))"
  using assms by (cases m; cases "fst m") auto

lemma effect_audit_kept:
  assumes "chat_messages t = chat_messages s" and "messageVersions t = messageVersions s" and "grows s t"
  shows "message_effect s (audit_by p c ty b a r k t)"
  by (rule message_effect.kept) (simp_all add: assms supply_audit)

lemma read_lead:
  "chat_messages (snd (getLead i p cid s)) = chat_messages s" "messageVersions (snd (getLead i p cid s)) = messageVersions s"
  by (rule chat_fields_more, simp)+

lemma resolved_lead:
  "chat_messages (snd (resolveLead c p cid s)) = chat_messages s \<and> messageVersions (snd (resolveLead c p cid s)) = messageVersions s
     \<and> grows s (snd (resolveLead c p cid s))"
proof -
  have "lead_state.more (snd (resolveLead c p cid s)) = lead_state.more s \<and> grows s (snd (resolveLead c p cid s))"
  proof (cases "findLocalLeadByCode c s")
    case (Some l)
    obtain r t where run: "getLead (ld_id l) p cid s = (r, t)" by fastforce
    then have "lead_state.more t = lead_state.more s" "grows s t"
      using more_lead_operations(7) [of "ld_id l" p cid s] supply_operations(7) [of s "ld_id l" p cid] by simp_all
    with Some run show ?thesis by (cases r) (auto simp: resolveLead_def)
  qed (simp add: resolveLead_def)
  then show ?thesis using chat_fields_more by blast
qed

text \<open>The effect of a computation is that of its branches.\<close>

lemma effect_branches:
  "message_effect s t \<Longrightarrow> message_effect s (snd (r, t))"
  "message_effect s (snd x) \<Longrightarrow> message_effect s (snd y) \<Longrightarrow> message_effect s (snd (if c then x else y))"
  "(\<And>e. message_effect s (snd (f e))) \<Longrightarrow> (\<And>a. message_effect s (snd (g a))) \<Longrightarrow> message_effect s (snd (case q of Inl e \<Rightarrow> f e | Inr a \<Rightarrow> g a))"
  "message_effect s (snd z) \<Longrightarrow> (\<And>a. message_effect s (snd (h a))) \<Longrightarrow> message_effect s (snd (case o' of None \<Rightarrow> z | Some a \<Rightarrow> h a))"
  by (simp_all split: sum.split option.split)

lemma linked_effect:
  assumes "\<And>x u. chat_messages u = chat_messages s \<Longrightarrow> messageVersions u = messageVersions s \<Longrightarrow> grows s u \<Longrightarrow> message_effect s (snd (k x u))"
  shows "message_effect s (snd (call (if b then call (resolveLead c p cid s) (\<lambda>x s1. (Inr (Some x), s1)) else (Inr None, s)) k))"
proof -
  obtain r u where run: "resolveLead c p cid s = (r, u)" by fastforce
  then have u: "chat_messages u = chat_messages s" "messageVersions u = messageVersions s" "grows s u"
    using resolved_lead [of c p cid s] by simp_all
  with assms [OF u] assms [OF refl refl supply_refl] run show ?thesis
    by (cases r) (auto intro: message_effect.kept)
qed

lemma create_effect: "message_effect s (snd (createConversation p i cid s))"
  unfolding createConversation_def Let_def
  by (intro effect_branches effect_same linked_effect effect_audit_kept; (rule message_effect.kept)?) (simp_all add: grows_def)

definition archived :: "chat_message \<Rightarrow> message_version \<Rightarrow> bool" where
  "archived m v \<longleftrightarrow> mv_version v = ms_version m \<and> mv_content v = ms_content m"

lemma effect_archive:
  assumes "js_get (chat_messages s) i = Some m" and "chat_ok s"
    and "rewritten_to (m, []) (m', [\<lparr>mv_version = ms_version m, mv_content = ms_content m, mv_changedBy = by, mv_change = ch,
              mv_reason = why, mv_createdAt = at\<rparr>])"
  shows "message_effect s (message_audit ty m' p cid why'
     ((appendVersion m by ch at why s)\<lparr>chat_messages := js_set (chat_messages (appendVersion m by ch at why s)) i m'\<rparr>))"
proof (rule message_effect.rewritten)
  let ?v = "\<lparr>mv_version = ms_version m, mv_content = ms_content m, mv_changedBy = by, mv_change = ch, mv_reason = why, mv_createdAt = at\<rparr>"
  from assms(1,2) have i: "ms_id m = i" by (auto simp: chat_ok_def)
  show "js_get (chat_messages s) i = Some m" by (fact assms(1))
  show "rewritten_to (m, getVersionsForAudit i s) (m', getVersionsForAudit i s @ [?v])"
    using assms(3) by (simp add: rewritten_to_def)
qed (use assms in \<open>auto simp: chat_ok_def appendVersion_def getVersionsForAudit_def message_audit_def grows_def
    intro!: audit_supply_le\<close>)

lemma member_message:
  "assertMessageMember i p s = Inr m \<Longrightarrow> js_get (chat_messages s) i = Some m"
  by (auto simp: assertMessageMember_def map_sum_Inr split: option.splits)

lemma edit_effect: "chat_ok s \<Longrightarrow> message_effect s (snd (editMessage i p content v cid s))"
  unfolding editMessage_def Let_def
  by (auto split: sum.split intro!: effect_archive dest!: member_message simp: rewritten_to_def)

lemma delete_effect: "chat_ok s \<Longrightarrow> message_effect s (snd (deleteMessage i p why v cid s))"
  unfolding deleteMessage_def Let_def
  by (auto split: sum.split intro!: effect_archive dest!: member_message simp: rewritten_to_def)

lemma read_effect: "message_effect s (snd (chat_markRead conv i p cid s))"
  unfolding chat_markRead_def Let_def
  by (intro effect_branches effect_same effect_audit_kept) (simp_all add: grows_def)

lemma post_effect: "message_effect s (snd (postMessage conv p i cid s))"
proof -
  have sent: "message_effect s (snd (call (for_each (\<lambda>u. notification_create (n u) (k u)) us u) (\<lambda>_ s3. (Inr m, message_audit ty m p cid None s3))))"
    if "chat_messages u = js_set (chat_messages s) (fresh_uuid s) m" "messageVersions u = messageVersions s"
      "ms_id m = fresh_uuid s" "ms_version m = 1" "grows (drawn s) u" for n k us u m ty
  proof -
    obtain r w where run: "for_each (\<lambda>u. notification_create (n u) (k u)) us u = (r, w)" by fastforce
    then have "lead_state.more w = lead_state.more u" "grows u w"
      using mentions_frame [of n k us u] by simp_all
    then have w: "chat_messages w = chat_messages u" "messageVersions w = messageVersions u" "grows (drawn s) w"
      using that(5) by (auto intro: chat_fields_more supply_trans)
    have "message_effect s (message_audit ty m p cid None w)" "message_effect s w"
      by (rule message_effect.posted [where m = m]; simp add: that w message_audit_def supply_audit)+
    with run show ?thesis by (cases r) simp_all
  qed
  show ?thesis
    unfolding postMessage_def Let_def
    by (intro effect_branches effect_same sent) (auto intro!: message_effect.posted simp: grows_def fresh_uuid_def drawn_def)
qed

lemma convert_effect: "message_effect s (snd (convertMessageToActivity i p inp cid s))"
proof -
  have act: "message_effect s (snd (call (addActivity l act p cid u) (\<lambda>a s2. (Inr a, audit_by p cid ty b (after a) r k (s2\<lparr>convertedMessages := cm a s2\<rparr>)))))"
    if "lead_state.more u = lead_state.more s" "grows s u" for l act u ty b after r k cm
  proof -
    obtain q w where run: "addActivity l act p cid u = (q, w)" by fastforce
    then have w: "lead_state.more w = lead_state.more s" "grows s w"
      using that more_addActivity [of l act p cid u] supply_addActivity [of u l act p cid] by (auto intro: supply_trans)
    then have "chat_messages w = chat_messages s" "messageVersions w = messageVersions s" by (auto intro: chat_fields_more)
    with run w show ?thesis
      by (cases q) (auto intro: effect_more effect_audit_kept simp: grows_def)
  qed
  have read: "message_effect s (snd (call (getLead l p cid s) k))"
    if "\<And>v u. lead_state.more u = lead_state.more s \<Longrightarrow> grows s u \<Longrightarrow> message_effect s (snd (k v u))"
    for l and k :: "lead_view \<Rightarrow> 'a chat_state_scheme \<Rightarrow> activity result \<times> 'a chat_state_scheme"
  proof -
    obtain q w where run: "getLead l p cid s = (q, w)" by fastforce
    then have "lead_state.more w = lead_state.more s" "grows s w"
      using more_lead_operations(7) [of l p cid s] supply_operations(7) [of s l p cid] by simp_all
    with that run show ?thesis by (cases q) (auto intro: effect_more)
  qed
  show ?thesis
    unfolding convertMessageToActivity_def Let_def
    by (intro effect_branches effect_same read act) (auto intro: effect_more)
qed

section \<open>Runs\<close>

inductive chat_step :: "'a chat_state_scheme \<Rightarrow> 'a chat_state_scheme \<Rightarrow> bool" where
  converse: "chat_step s (snd (createConversation p i cid s))"
| post: "chat_step s (snd (postMessage conv p m cid s))"
| edit: "chat_step s (snd (editMessage k p content v cid s))"
| delete: "chat_step s (snd (deleteMessage k p why v cid s))"
| read: "chat_step s (snd (chat_markRead conv k p cid s))"
| convert: "chat_step s (snd (convertMessageToActivity k p c cid s))"
| other: "lead_request p s t \<Longrightarrow> chat_step s t"

lemma chat_step_effect: "chat_step s t \<Longrightarrow> chat_ok s \<Longrightarrow> message_effect s t"
  by (induction rule: chat_step.induct)
    (auto intro: create_effect post_effect edit_effect delete_effect read_effect convert_effect effect_more more_request supply_request)

interpretation message_life: lifecycle kept_message rewritten_to "\<lambda>a. ms_state (fst a) = MsgDeleted" chat_step chat_ok
proof unfold_locales
  fix s t :: "'a chat_state_scheme" and k a
  assume ok: "chat_ok s" and step: "chat_step s t"
  from effect_keeps [OF ok chat_step_effect [OF step ok]] show "chat_ok t" .
  assume "kept_message s k = Some a"
  from effect_moves [OF ok chat_step_effect [OF step ok] this]
  show "\<exists>b. kept_message t k = Some b \<and> rewritten_to\<^sup>*\<^sup>* a b" .
qed (simp add: rewritten_to_def)

lemma rewritten_history:
  "rewritten_to\<^sup>*\<^sup>* a b \<Longrightarrow> ms_authorId (fst b) = ms_authorId (fst a) \<and> ms_conversationId (fst b) = ms_conversationId (fst a)
     \<and> ms_createdAt (fst b) = ms_createdAt (fst a) \<and> (\<exists>vs. snd b = snd a @ vs \<and> ms_version (fst b) = ms_version (fst a) + int (length vs)
     \<and> (b = a \<or> (\<exists>v. v \<in> set vs \<and> mv_version v = ms_version (fst a) \<and> mv_content v = ms_content (fst a))))"
proof (induction rule: rtranclp_induct)
  case (step y z)
  then show ?case by (fastforce simp: rewritten_to_def)
qed simp

text \<open>
  C12: Nothing written in the chat is lost: whatever is done afterwards, a message keeps its
  author, conversation and date; its archive only grows, holds one entry per former version in
  order, and holds the present content as soon as the message changes; a deleted message stays
  as it is.
\<close>

theorem message_history_kept:
  assumes "chat_ok s" and "chat_step\<^sup>*\<^sup>* s t" and "js_get (chat_messages s) i = Some m"
  shows "\<exists>m' vs. js_get (chat_messages t) i = Some m' \<and> getVersionsForAudit i t = getVersionsForAudit i s @ vs
    \<and> ms_authorId m' = ms_authorId m \<and> ms_conversationId m' = ms_conversationId m \<and> ms_createdAt m' = ms_createdAt m
    \<and> map mv_version (getVersionsForAudit i t) = [1..ms_version m' - 1]
    \<and> (m' \<noteq> m \<longrightarrow> (\<exists>v\<in>set vs. mv_version v = ms_version m \<and> mv_content v = ms_content m))
    \<and> (ms_state m = MsgDeleted \<longrightarrow> m' = m \<and> vs = [])"
proof -
  have a: "kept_message s i = Some (m, getVersionsForAudit i s)" by (simp add: kept_message_def assms(3))
  from message_life.run_moves [OF assms(2,1) a] obtain b
    where b: "kept_message t i = Some b" "rewritten_to\<^sup>*\<^sup>* (m, getVersionsForAudit i s) b" by blast
  then obtain m' where m': "js_get (chat_messages t) i = Some m'" "b = (m', getVersionsForAudit i t)"
    by (auto simp: kept_message_def)
  have "map mv_version (getVersionsForAudit i t) = [1..ms_version m' - 1]"
    using message_life.run_ok [OF assms(2,1)] m'(1) by (simp add: chat_ok_def)
  moreover have "ms_state m = MsgDeleted \<longrightarrow> b = (m, getVersionsForAudit i s)"
    using message_life.final_run [OF b(2)] by simp
  ultimately show ?thesis using rewritten_history [OF b(2)] m' by auto
qed

section \<open>Refusals\<close>

text \<open>
  C22: An edit either is refused and changes nothing at all, or is made by the author, a member
  of the conversation, on the version it names, within the hour, of a message that is not
  deleted; it is refused for lateness only after that hour, and the content it stores is the
  trimmed text, never empty and never longer than 2000 characters.
\<close>

theorem edit_refused_unchanged:
  assumes "editMessage i p content v cid s = (res, t)"
  shows "case res of
      Inl e \<Rightarrow> t = s \<and> (error_code e = ''chat_edit_window_expired'' \<longrightarrow>
        (\<exists>m. js_get (chat_messages s) i = Some m \<and> ms_authorId m = userId p \<and> CHAT_EDIT_WINDOW_MS < now s - ms_createdAt m))
    | Inr m' \<Rightarrow> \<exists>m. js_get (chat_messages s) i = Some m \<and> ms_authorId m = userId p \<and> v = Some (JInt (ms_version m))
        \<and> (\<exists>c. assertMember (ms_conversationId m) p s = Inr c) \<and> now s - ms_createdAt m \<le> CHAT_EDIT_WINDOW_MS
        \<and> ms_state m \<noteq> MsgDeleted \<and> ms_content m' = Some (js_trim (opt_text content))
        \<and> js_trim (opt_text content) \<noteq> [] \<and> length (js_trim (opt_text content)) \<le> 2000
        \<and> js_get (chat_messages t) i = Some m'"
proof -
  have codes: "error_code e \<noteq> ''chat_edit_window_expired''"
    if "assertMessageMember i p s = Inl e \<or> assertExpectedVersion m v = Inl e \<or> validateContent content = Inl e" for e m
    using that by (auto simp: assertMessageMember_def assertMember_def assertActiveCollaborator_def assertExpectedVersion_def
        validateContent_def Let_def split: option.splits if_splits sum.splits)
  show ?thesis
  proof (cases "assertMessageMember i p s")
    case (Inl e)
    with assms have "res = Inl e" "t = s" by (simp_all add: editMessage_def)
    with codes Inl show ?thesis by simp
  next
    case (Inr m)
    note m = member_message [OF Inr]
    have member: "\<exists>c. assertMember (ms_conversationId m) p s = Inr c"
      using Inr m by (auto simp: assertMessageMember_def map_sum_Inr)
    show ?thesis
    proof (cases "ms_authorId m = userId p \<and> assertExpectedVersion m v = Inr () \<and> assertWithinEditWindow m (now s) = Inr ()
        \<and> ms_state m \<noteq> MsgDeleted \<and> (\<exists>c. validateContent content = Inr c)")
      case True
      then show ?thesis
        using assms Inr m member unfolding editMessage_def Let_def
        by (auto simp: assertExpectedVersion_def assertWithinEditWindow_def validateContent_def Let_def split: if_splits)
    next
      case False
      obtain e where "res = Inl e" "t = s" "error_code e = ''chat_edit_window_expired'' \<longrightarrow> ms_authorId m = userId p
          \<and> CHAT_EDIT_WINDOW_MS < now s - ms_createdAt m"
        using assms Inr False codes unfolding editMessage_def Let_def
        by (auto simp: assertWithinEditWindow_def split: sum.splits if_splits)
      with m show ?thesis by auto
    qed
  qed
qed

section \<open>A run\<close>

definition demo_conversation :: conversation where
  "demo_conversation = \<lparr>cv_id = ''c1'', cv_type = DIRECT, cv_title = None, cv_leadId = None, cv_leadCode = None,
     cv_participantIds = [''id-'', ''id-x''], cv_createdById = ''id-'', cv_createdAt = 5, cv_updatedAt = 5,
     cv_retentionUntil = 31536000005\<rparr>"

definition demo_message :: chat_message where
  "demo_message = \<lparr>ms_id = ''id-x'', ms_conversationId = ''c1'', ms_authorId = ''id-x'', ms_content = Some ''helo'', ms_version = 1,
     ms_state = MsgActive, ms_createdAt = 900, ms_editedAt = None, ms_deletedAt = None, ms_mentionUserIds = []\<rparr>"

definition chat_demo :: chat_state where
  "chat_demo = lead_demo CONTACTED (chat_state_ext [(''c1'', demo_conversation)] [(''id-x'', demo_message)] [(''c1'', [''id-x''])]
     [] [] [] [] [] ())"

lemma chat_demo_simps: "chat_messages chat_demo = [(''id-x'', demo_message)]" "messageVersions chat_demo = []"
    "uuid chat_demo = uuid demo_host" "draws chat_demo = 3"
  by (simp_all add: chat_demo_def lead_demo_def note_demo_def user_demo_def demo_host_def)

lemma chat_demo_ok: "chat_ok chat_demo"
proof -
  have "''id-x'' \<in> issued chat_demo"
    by (auto simp: issued_def chat_demo_simps demo_host_def intro!: image_eqI [of _ _ "1 :: nat"])
  then show ?thesis
    by (simp add: chat_ok_def chat_demo_simps inj_demo_uuid getVersionsForAudit_def js_get_Cons demo_message_def)
qed

definition demo_author :: principal where
  "demo_author = demo_principal ''id-x'' [ADMISSIONS]"

theorem message_history_kept_witness:
  "map mv_content (getVersionsForAudit ''id-x''
     (snd (editMessage ''id-x'' demo_author (Some '' hello '') (Some (JInt 1)) ''c'' chat_demo))) = [Some ''helo'']"
proof -
  let ?run = "editMessage ''id-x'' demo_author (Some '' hello '') (Some (JInt 1)) ''c'' chat_demo"
  have get: "js_get (chat_messages chat_demo) ''id-x'' = Some demo_message" by (simp add: chat_demo_simps js_get_Cons)
  have new: "map_option ms_version (js_get (chat_messages (snd ?run)) ''id-x'') = Some 2" by code_simp
  have run: "chat_step\<^sup>*\<^sup>* chat_demo (snd ?run)" by (rule r_into_rtranclp) (rule chat_step.edit)
  have none: "getVersionsForAudit ''id-x'' chat_demo = []" by (simp add: getVersionsForAudit_def chat_demo_simps)
  from message_history_kept [OF chat_demo_ok run get] obtain m' vs
    where m': "js_get (chat_messages (snd ?run)) ''id-x'' = Some m'"
      "getVersionsForAudit ''id-x'' (snd ?run) = getVersionsForAudit ''id-x'' chat_demo @ vs"
      "map mv_version (getVersionsForAudit ''id-x'' (snd ?run)) = [1..ms_version m' - 1]"
      "m' \<noteq> demo_message \<longrightarrow> (\<exists>v\<in>set vs. mv_version v = ms_version demo_message \<and> mv_content v = ms_content demo_message)"
    by (elim exE conjE) (rule that; assumption)
  note archive = m'(2) [unfolded none append_Nil]
  from new m'(1) have v2: "ms_version m' = 2" by simp
  then have "map mv_version vs = [1]" using m'(3) unfolding archive by simp
  then obtain v where vs: "vs = [v]" by auto
  have "m' \<noteq> demo_message" using v2 by (auto simp: demo_message_def)
  with m'(4) vs have "mv_content v = ms_content demo_message" by simp
  then show ?thesis unfolding archive vs by (simp add: demo_message_def)
qed

theorem edit_refused_unchanged_witness:
  "snd (editMessage ''id-x'' demo_author (Some '' hello '') (Some (JInt 2)) ''c'' chat_demo) = chat_demo"
proof -
  let ?run = "editMessage ''id-x'' demo_author (Some '' hello '') (Some (JInt 2)) ''c'' chat_demo"
  have "\<not> is_ok (fst ?run)" by code_simp
  then obtain e t where run: "?run = (Inl e, t)" by (cases ?run; cases "fst ?run") auto
  from edit_refused_unchanged [OF run] show ?thesis by (simp add: run)
qed

end
