(* ===== verification/Ingestion.thy ===== *)
theory Ingestion
  imports Assignment
begin

text \<open>
  The ingestion of prospect records: \<open>ingestion/ingestion.service.ts\<close> without a database. A batch
  creates a lead per new identity, attaches provenance to a known one, and sends what it cannot
  decide to a manual review; a dry run predicts the outcomes and changes nothing.
\<close>

section \<open>Records and results\<close>

definition ingestionSources :: "string list" where
  "ingestionSources = [''WEB_FORM'', ''PHONE_CALL'', ''PHYSICAL_VISIT'', ''WEBSITE'', ''EVENT'', ''PARTNER'', ''JOBINTECH'',
     ''LEGACY_IMPORT'', ''MANUAL_ENTRY'', ''OTHER_CONTROLLED'']"

record historical_activity =
  ha_type :: activity_type
  ha_result :: string
  ha_occurredAt :: string

record ingestion_record =
  ir_lineNumber :: int
  ir_firstName :: string
  ir_lastName :: string
  ir_email :: "string option"
  ir_phone :: "string option"
  ir_campus :: "string option"
  ir_campaign :: "string option"
  ir_educationLevel :: "string option"
  ir_program :: "string option"
  ir_source :: string
  ir_technicalSystem :: string
  ir_originalSource :: string
  ir_recentSource :: "string option"
  ir_externalId :: "string option"
  ir_historicalStatus :: "string option"
  ir_structuredPriorContact :: bool
  ir_occurredAt :: "string option"
  ir_historicalActivities :: "historical_activity list"

record ingestion_batch =
  ib_idempotencyKey :: string
  ib_profile :: string
  ib_confirmed :: bool
  ib_strategy :: string
  ib_targetUserId :: "string option"
  ib_records :: "ingestion_record list"

datatype ingestion_outcome = CREATED | PROVENANCE_ATTACHED_LINE | MANUAL_REVIEW | INVALID

record ingestion_line =
  il_lineNumber :: int
  il_outcome :: ingestion_outcome
  il_reason :: "string option"
  il_leadId :: "string option"

record ingestion_result =
  ix_batchId :: string
  ix_idempotencyKey :: string
  ix_total :: nat
  ix_created :: nat
  ix_attached :: nat
  ix_manualReview :: nat
  ix_invalid :: nat
  ix_assigned :: nat
  ix_unassigned :: int
  ix_lines :: "ingestion_line list"

datatype dry_outcome = DryValid | DryDuplicate | DryManualReview | DryInvalid | DryIgnored

record dry_line =
  dl_lineNumber :: int
  dl_outcome :: dry_outcome
  dl_reason :: "string option"
  dl_matchedLeadId :: "string option"
  dl_proposedAssigneeId :: "string option"

record dry_result =
  dx_idempotencyKey :: string
  dx_total :: nat
  dx_valid :: nat
  dx_duplicates :: nat
  dx_manualReview :: nat
  dx_invalid :: nat
  dx_ignored :: nat
  dx_assigned :: nat
  dx_unassigned :: int
  dx_distribution :: "(string \<times> nat) list"
  dx_lines :: "dry_line list"

record occurrence =
  oc_leadId :: "string option"
  oc_source :: string
  oc_profile :: string
  oc_campaign :: "string option"
  oc_campus :: "string option"
  oc_program :: "string option"
  oc_outcome :: ingestion_outcome
  oc_reason :: "string option"
  oc_receivedAt :: int
  oc_assigned :: bool

record provenance =
  pr_leadId :: string
  pr_source :: string
  pr_technicalSystem :: string
  pr_originalSource :: string
  pr_recentSource :: string
  pr_campaign :: "string option"
  pr_externalId :: "string option"
  pr_rawStatus :: "string option"
  pr_batchId :: string
  pr_importedAt :: int

record ingestion_state = assignment_state +
  ingestion_batches :: "(string, ingestion_result) js_map"
  provenanceByExternalId :: "(string, provenance) js_map"
  provenances :: "provenance list"
  reportingOccurrences :: "occurrence list"

section \<open>Normalising a record\<close>

definition present :: "string option \<Rightarrow> string option" where
  "present v = (if js_blank (opt_text v) then None else Some (js_trim (opt_text v)))"

definition ingestion_email_ok :: "string \<Rightarrow> bool" where
  "ingestion_email_ok e =
     (if 254 < length e \<or> list_ex (\<lambda>c. code c \<in> {32, 9, 13, 10}) e then False
      else (let at = index_of (CHR ''@'') e
        in if at < 1 \<or> at \<noteq> last_index_of (CHR ''@'') e then False
           else (let domain = drop (nat at + 1) e; dot = last_index_of (CHR ''.'') domain
             in 0 < dot \<and> dot < int (length domain) - 1 \<and> \<not> starts_with ''.'' domain \<and> \<not> starts_with ''.'' (rev domain))))"

definition ingestion_normalize :: "'a host_scheme \<Rightarrow> ingestion_record \<Rightarrow> string + (string option \<times> string option)" where
  "ingestion_normalize s r =
     (let email = map_option (\<lambda>e. js_lower (js_trim e)) (ir_email r); phone = map_option phone_digits (ir_phone r)
      in if ir_lineNumber r < 1 \<or> js_blank (ir_firstName r) \<or> js_blank (ir_lastName r) then Inl ''identity_required''
         else if ir_source r \<notin> set ingestionSources \<or> js_blank (ir_technicalSystem r) \<or> js_blank (ir_originalSource r)
         then Inl ''source_invalid''
         else if truthy email \<and> \<not> ingestion_email_ok (opt_text email) then Inl ''email_invalid''
         else if truthy phone \<and> \<not> phone_ok (opt_text phone) then Inl ''phone_invalid''
         else if \<not> truthy email \<and> \<not> truthy phone \<and> present (ir_externalId r) = None then Inl ''stable_identity_missing''
         else if truthy (ir_occurredAt r) \<and> parse_opt s (ir_occurredAt r) = None then Inl ''occurred_at_invalid''
         else if list_ex (\<lambda>a. js_blank (ha_result a) \<or> date_parse s (ha_occurredAt a) = None) (ir_historicalActivities r)
         then Inl ''historical_activity_invalid''
         else Inr (if truthy email then email else None, if truthy phone then phone else None))"

datatype historical_status = KnownStatus lead_status | DuplicateStatus | UnknownStatus

definition status_words :: "(string \<times> lead_status) list" where
  "status_words = [(''A CONTACTER'', PROSPECT), (''A QUALIFIER'', PROSPECT), (''CONTACTE'', CONTACTED),
     (''RDV PLANIFIE'', CONTACTED), (''RDV EFFECTUE'', QUALIFIED), (''DOSSIER OUVERT'', QUALIFIED),
     (''INSCRIT'', ENROLLED), (''SANS SUITE'', CLOSED_LOST), (''INJOIGNABLE'', PROSPECT),
     (''INJOIGNABLE / A RELANCER'', PROSPECT)]"

definition mapHistoricalStatus :: "string option \<Rightarrow> bool \<Rightarrow> historical_status" where
  "mapHistoricalStatus raw priorContact =
     (case present raw of
        None \<Rightarrow> KnownStatus PROSPECT
      | Some t \<Rightarrow>
          (let v = js_upper (map strip_accent t)
           in if v = ''DOUBLON'' then DuplicateStatus
              else if v = ''A RELANCER'' then KnownStatus (if priorContact then CONTACTED else PROSPECT)
              else (case map_of status_words v of Some st \<Rightarrow> KnownStatus st | None \<Rightarrow> UnknownStatus)))"

definition external_key :: "ingestion_record \<Rightarrow> string option" where
  "external_key r = map_option (\<lambda>x. js_trim (ir_technicalSystem r) @ '':'' @ x) (present (ir_externalId r))"

text \<open>The leads the three identities of a record name.\<close>

definition identity_matches ::
  "ingestion_record \<Rightarrow> string option \<times> string option \<Rightarrow> 'a ingestion_state_scheme \<Rightarrow> string list" where
  "identity_matches r ep s =
     (let ext = (case external_key r of None \<Rightarrow> None | Some k \<Rightarrow> map_option pr_leadId (js_get (provenanceByExternalId s) k));
          ids = findIdentityMatches (fst ep) (snd ep) s
      in js_uniq (map the (filter truthy [ext, fst ids, snd ids])))"

definition mapped_fields_missing :: "ingestion_record \<Rightarrow> bool" where
  "mapped_fields_missing r = list_ex (\<lambda>v. present v = None) [ir_campus r, ir_campaign r, ir_educationLevel r, ir_program r]"

section \<open>Batches\<close>

definition attachProvenance ::
  "string \<Rightarrow> ingestion_record \<Rightarrow> string \<Rightarrow> string option \<Rightarrow> principal \<Rightarrow> string \<Rightarrow> 'a ingestion_state_scheme
     \<Rightarrow> unit result \<times> 'a ingestion_state_scheme" where
  "attachProvenance leadId r batchId key p cid s =
     (if (case key of None \<Rightarrow> False | Some k \<Rightarrow> js_has (provenanceByExternalId s) k) then (Inr (), s)
      else (let pv = \<lparr>pr_leadId = leadId, pr_source = ir_source r, pr_technicalSystem = js_trim (ir_technicalSystem r),
                  pr_originalSource = js_trim (ir_originalSource r),
                  pr_recentSource = (case present (ir_recentSource r) of None \<Rightarrow> js_trim (ir_originalSource r) | Some x \<Rightarrow> x),
                  pr_campaign = present (ir_campaign r), pr_externalId = present (ir_externalId r),
                  pr_rawStatus = present (ir_historicalStatus r), pr_batchId = batchId, pr_importedAt = now s\<rparr>;
                s1 = s\<lparr>provenanceByExternalId := (case key of None \<Rightarrow> provenanceByExternalId s
                         | Some k \<Rightarrow> js_set (provenanceByExternalId s) k pv),
                       provenances := provenances s @ [pv]\<rparr>
            in call (appendIngestionActivity leadId
                 (if ir_source r = ''LEGACY_IMPORT'' then LEGACY_IMPORT else PROVENANCE_ATTACHED) (ir_source r)
                 (if truthy (ir_occurredAt r) then ir_occurredAt r else None) p cid s1) (\<lambda>_ s2.
               call (for_each (\<lambda>(n, a). appendIngestionActivity leadId (ha_type a) (ha_result a) (Some (ha_occurredAt a)) p
                       (cid @ '':historical:'' @ show_int (int n))) (enumerate 0 (ir_historicalActivities r)) s2)
                 (\<lambda>_ s3. (Inr (), s3)))))"

definition review_line :: "int \<Rightarrow> string \<Rightarrow> ingestion_line" where
  "review_line n why = \<lparr>il_lineNumber = n, il_outcome = MANUAL_REVIEW, il_reason = Some why, il_leadId = None\<rparr>"

definition imported_lead ::
  "ingestion_record \<Rightarrow> string option \<times> string option \<Rightarrow> lead_status \<Rightarrow> string \<Rightarrow> string \<Rightarrow> string \<Rightarrow> int \<Rightarrow> lead" where
  "imported_lead r ep st batchId i lc at = (blank_lead i lc at)
     \<lparr>ld_firstName := js_trim (ir_firstName r), ld_lastName := js_trim (ir_lastName r), ld_email := fst ep, ld_phone := snd ep,
      ld_campus := js_trim (opt_text (ir_campus r)), ld_campaign := js_trim (opt_text (ir_campaign r)),
      ld_educationLevel := js_trim (opt_text (ir_educationLevel r)), ld_program := js_trim (opt_text (ir_program r)),
      ld_source := ir_source r, ld_importBatchId := Some batchId, ld_status := st\<rparr>"

definition ingestOne ::
  "ingestion_record \<Rightarrow> string \<Rightarrow> principal \<Rightarrow> string \<Rightarrow> 'a ingestion_state_scheme
     \<Rightarrow> ingestion_line result \<times> 'a ingestion_state_scheme" where
  "ingestOne r batchId p cid s =
     (case ingestion_normalize s r of
        Inl why \<Rightarrow> (Inr \<lparr>il_lineNumber = ir_lineNumber r, il_outcome = INVALID, il_reason = Some why, il_leadId = None\<rparr>, s)
      | Inr ep \<Rightarrow>
          (let st = mapHistoricalStatus (ir_historicalStatus r) (ir_structuredPriorContact r);
               key = external_key r; matches = identity_matches r ep s
           in if st = UnknownStatus then (Inr (review_line (ir_lineNumber r) ''historical_status_unknown''), s)
              else if 1 < length matches then (Inr (review_line (ir_lineNumber r) ''identity_collision''), s)
              else (case matches of
                m # _ \<Rightarrow> call (attachProvenance m r batchId key p cid s) (\<lambda>_ s1.
                  (Inr \<lparr>il_lineNumber = ir_lineNumber r, il_outcome = PROVENANCE_ATTACHED_LINE, il_reason = None,
                        il_leadId = Some m\<rparr>, s1))
              | [] \<Rightarrow>
                  if st = DuplicateStatus then (Inr (review_line (ir_lineNumber r) ''duplicate_without_reliable_match''), s)
                  else if mapped_fields_missing r then (Inr (review_line (ir_lineNumber r) ''required_mapping_missing''), s)
                  else (let lc = new_lead_code s; s1 = drawn s;
                            l = imported_lead r ep (case st of KnownStatus x \<Rightarrow> x | _ \<Rightarrow> PROSPECT) batchId (fresh_uuid s1) lc (now s);
                            (l', s2) = registerLocalLead l (drawn s1)
                        in call (attachProvenance (ld_id l') r batchId key p cid s2) (\<lambda>_ s3.
                             (Inr \<lparr>il_lineNumber = ir_lineNumber r, il_outcome = CREATED, il_reason = None,
                                   il_leadId = Some (ld_id l')\<rparr>, s3))))))"

definition assignCreated ::
  "string \<Rightarrow> ingestion_record \<Rightarrow> ingestion_batch \<Rightarrow> principal \<Rightarrow> string \<Rightarrow> 'a ingestion_state_scheme \<Rightarrow> bool \<times> 'a ingestion_state_scheme" where
  "assignCreated leadId r b p cid s =
     (case assignBatch \<lparr>bi_idempotencyKey = ib_idempotencyKey b @ '':'' @ show_int (ir_lineNumber r),
             bi_items = [\<lparr>it_leadId = leadId, it_source = ir_source r,
                it_campaign = (case ir_campaign r of None \<Rightarrow> ''UNMAPPED'' | Some c \<Rightarrow> c)\<rparr>],
             bi_strategy = ib_strategy b,
             bi_targetUserId = (if ib_strategy b = ''FIXED'' \<and> truthy (ib_targetUserId b) then ib_targetUserId b else None),
             bi_confirmed = True\<rparr> p cid s of
        (Inl e, s1) \<Rightarrow> (False, s1)
      | (Inr x, s1) \<Rightarrow> (length (br_assigned x) = 1, s1))"

definition occurrence_of :: "ingestion_record \<Rightarrow> ingestion_batch \<Rightarrow> ingestion_line \<Rightarrow> int \<Rightarrow> bool \<Rightarrow> occurrence" where
  "occurrence_of r b line at assigned = \<lparr>oc_leadId = il_leadId line, oc_source = ir_source r, oc_profile = ib_profile b,
     oc_campaign = present (ir_campaign r), oc_campus = present (ir_campus r), oc_program = present (ir_program r),
     oc_outcome = il_outcome line, oc_reason = il_reason line, oc_receivedAt = at, oc_assigned = assigned\<rparr>"

definition ingest_line ::
  "ingestion_batch \<Rightarrow> string \<Rightarrow> principal \<Rightarrow> string \<Rightarrow> ingestion_record \<Rightarrow> 'a ingestion_state_scheme
     \<Rightarrow> (ingestion_line \<times> bool) result \<times> 'a ingestion_state_scheme" where
  "ingest_line b batchId p cid r s =
     call (ingestOne r batchId p (cid @ '':'' @ show_int (ir_lineNumber r)) s) (\<lambda>line s1.
       (let (assigned, s2) =
          (if il_outcome line = CREATED \<and> truthy (il_leadId line) \<and> ib_strategy b \<noteq> ''UNASSIGNED''
           then assignCreated (opt_text (il_leadId line)) r b p (cid @ '':assignment:'' @ show_int (ir_lineNumber r)) s1
           else (False, s1))
        in (Inr (line, assigned),
            s2\<lparr>reportingOccurrences := reportingOccurrences s2 @ [occurrence_of r b line (now s2) assigned]\<rparr>)))"

definition validateBatch :: "ingestion_batch \<Rightarrow> unit result" where
  "validateBatch b =
     (if \<not> all_in word_colon 8 128 (ib_idempotencyKey b) \<or> \<not> ib_confirmed b \<or> length (ib_records b) < 1
         \<or> 100 < length (ib_records b)
      then Inl (BadRequest ''ingestion_batch_invalid'')
      else if ib_profile b = [] \<or> ib_strategy b \<notin> {''UNASSIGNED'', ''FIXED'', ''ROUND_ROBIN'', ''CONTROLLED_RANDOM''}
      then Inl (BadRequest ''ingestion_strategy_invalid'')
      else if (ib_strategy b = ''FIXED'') \<noteq> truthy (ib_targetUserId b)
      then Inl (BadRequest ''ingestion_assignment_target_invalid'')
      else if \<not> distinct (map ir_lineNumber (ib_records b)) then Inl (BadRequest ''ingestion_line_duplicate'')
      else Inr ())"

definition outcome_count :: "ingestion_outcome \<Rightarrow> ingestion_line list \<Rightarrow> nat" where
  "outcome_count x ls = length (filter (\<lambda>l. il_outcome l = x) ls)"

definition ingest ::
  "ingestion_batch \<Rightarrow> principal \<Rightarrow> string \<Rightarrow> 'a ingestion_state_scheme \<Rightarrow> ingestion_result result \<times> 'a ingestion_state_scheme" where
  "ingest b p cid s =
     (if \<not> is_manager p then (Inl (Forbidden ''ingestion_role_forbidden''), s)
      else (case validateBatch b of
        Inl e \<Rightarrow> (Inl e, s)
      | Inr _ \<Rightarrow>
          (case js_get (ingestion_batches s) (ib_idempotencyKey b) of
             Some x \<Rightarrow> (Inr x, s)
           | None \<Rightarrow>
               (let batchId = fresh_uuid s
                in call (for_each (ingest_line b batchId p cid) (ib_records b) (drawn s)) (\<lambda>las s1.
                  (let ls = map fst las; assigned = length (filter snd las); created = outcome_count CREATED ls;
                       x = \<lparr>ix_batchId = batchId, ix_idempotencyKey = ib_idempotencyKey b, ix_total = length ls,
                            ix_created = created, ix_attached = outcome_count PROVENANCE_ATTACHED_LINE ls,
                            ix_manualReview = outcome_count MANUAL_REVIEW ls, ix_invalid = outcome_count INVALID ls,
                            ix_assigned = assigned, ix_unassigned = int created - int assigned, ix_lines = ls\<rparr>
                   in (Inr x, audit_by p cid ''LEAD_INGESTION_COMPLETED'' JUndef
                         (JObj [(''batchId'', JStr batchId), (''profile'', JStr (ib_profile b)), (''total'', JNat (ix_total x)),
                                (''created'', JNat created), (''attached'', JNat (ix_attached x)),
                                (''manualReview'', JNat (ix_manualReview x)), (''invalid'', JNat (ix_invalid x)),
                                (''assigned'', JNat assigned)])
                         (if ix_invalid x \<noteq> 0 \<or> ix_manualReview x \<noteq> 0 then FAILED else SUCCESS)
                         (''lead-ingestion:'' @ ib_idempotencyKey b)
                         (s1\<lparr>ingestion_batches := js_set (ingestion_batches s1) (ib_idempotencyKey b) x\<rparr>))))))))"

section \<open>Dry runs\<close>

text \<open>The identities of the valid lines so far, each with its line.\<close>

record file_identities =
  fi_externalIds :: "(string, int) js_map"
  fi_emails :: "(string, int) js_map"
  fi_phones :: "(string, int) js_map"

definition dry :: "int \<Rightarrow> dry_outcome \<Rightarrow> string option \<Rightarrow> string option \<Rightarrow> dry_line" where
  "dry n out why m = \<lparr>dl_lineNumber = n, dl_outcome = out, dl_reason = why, dl_matchedLeadId = m, dl_proposedAssigneeId = None\<rparr>"

definition lookup_opt :: "(string, 'v) js_map \<Rightarrow> string option \<Rightarrow> 'v option" where
  "lookup_opt m k = (if truthy k then js_get m (opt_text k) else None)"

definition internal_rows :: "ingestion_record \<Rightarrow> string option \<times> string option \<Rightarrow> file_identities \<Rightarrow> int list" where
  "internal_rows r ep f = js_uniq (List.map_filter id
     [lookup_opt (fi_externalIds f) (external_key r), lookup_opt (fi_emails f) (fst ep), lookup_opt (fi_phones f) (snd ep)])"

definition previewOne ::
  "ingestion_record \<Rightarrow> ingestion_batch \<Rightarrow> file_identities \<Rightarrow> principal \<Rightarrow> 'a ingestion_state_scheme \<Rightarrow> dry_line" where
  "previewOne r b f p s =
     (let n = ir_lineNumber r in
      case ingestion_normalize s r of
        Inl why \<Rightarrow> dry n DryInvalid (Some why) None
      | Inr ep \<Rightarrow>
          (let st = mapHistoricalStatus (ir_historicalStatus r) (ir_structuredPriorContact r);
               matches = identity_matches r ep s; rows = internal_rows r ep f
           in if st = UnknownStatus then dry n DryManualReview (Some ''historical_status_unknown'') None
              else if 1 < length matches then dry n DryManualReview (Some ''identity_collision'') None
              else if 1 < length rows then dry n DryManualReview (Some ''file_identity_collision'') None
              else if st = DuplicateStatus then
                (case matches of
                   m # _ \<Rightarrow> dry n DryDuplicate (Some ''historical_duplicate'') (Some m)
                 | [] \<Rightarrow> if length rows = 1 then dry n DryIgnored (Some ''historical_duplicate_in_file'') None
                         else dry n DryManualReview (Some ''duplicate_without_reliable_match'') None)
              else (case matches of
                m # _ \<Rightarrow> dry n DryDuplicate (Some ''existing_lead_match'') (Some m)
              | [] \<Rightarrow>
                  if length rows = 1 then dry n DryDuplicate (Some ''file_duplicate'') None
                  else if mapped_fields_missing r then dry n DryManualReview (Some ''required_mapping_missing'') None
                  else if ib_profile b = [] \<or> userId p = [] then dry n DryInvalid (Some ''dry_run_context_invalid'') None
                  else dry n DryValid None None)))"

definition rememberIdentity :: "ingestion_record \<Rightarrow> file_identities \<Rightarrow> file_identities" where
  "rememberIdentity r f =
     (let n = ir_lineNumber r; email = map_option (\<lambda>e. js_lower (js_trim e)) (ir_email r);
          phone = map_option phone_digits (ir_phone r)
      in f\<lparr>fi_externalIds := (case external_key r of None \<Rightarrow> fi_externalIds f | Some k \<Rightarrow> js_set (fi_externalIds f) k n),
           fi_emails := (if truthy email then js_set (fi_emails f) (opt_text email) n else fi_emails f),
           fi_phones := (if truthy phone then js_set (fi_phones f) (opt_text phone) n else fi_phones f)\<rparr>)"

definition previewAssignment ::
  "ingestion_record \<Rightarrow> ingestion_batch \<Rightarrow> principal \<Rightarrow> nat \<Rightarrow> 'a ingestion_state_scheme \<Rightarrow> string option" where
  "previewAssignment r b p offset s =
     (if ib_strategy b = ''UNASSIGNED'' \<or> (ib_strategy b = ''FIXED'' \<and> \<not> truthy (ib_targetUserId b)) then None
      else (case previewTarget \<lparr>bi_idempotencyKey = ib_idempotencyKey b @ '':'' @ show_int (ir_lineNumber r),
               bi_items = [\<lparr>it_leadId = ''dry-run-'' @ show_int (ir_lineNumber r), it_source = ir_source r,
                  it_campaign = (case ir_campaign r of None \<Rightarrow> ''UNMAPPED'' | Some c \<Rightarrow> c)\<rparr>],
               bi_strategy = ib_strategy b, bi_targetUserId = (if ib_strategy b = ''FIXED'' then ib_targetUserId b else None),
               bi_confirmed = False\<rparr> p (JInt (int offset)) s of
              Inl e \<Rightarrow> None | Inr u \<Rightarrow> Some u))"

text \<open>The pass over the records: the lines so far, the assignment ordinal and the identities seen.\<close>

definition dry_step ::
  "ingestion_batch \<Rightarrow> principal \<Rightarrow> 'a ingestion_state_scheme \<Rightarrow> ingestion_record
     \<Rightarrow> dry_line list \<times> nat \<times> file_identities \<Rightarrow> dry_line list \<times> nat \<times> file_identities" where
  "dry_step b p s r acc = (case acc of (ls, k, f) \<Rightarrow>
     (let line = previewOne r b f p s
      in if dl_outcome line = DryValid
         then (ls @ [line\<lparr>dl_proposedAssigneeId := (case previewAssignment r b p k s of
                 None \<Rightarrow> None | Some u \<Rightarrow> if u = [] then None else Some u)\<rparr>],
               Suc k, rememberIdentity r f)
         else (ls @ [line], k, f)))"

definition dry_lines :: "ingestion_batch \<Rightarrow> principal \<Rightarrow> 'a ingestion_state_scheme \<Rightarrow> dry_line list" where
  "dry_lines b p s = fst (fold (dry_step b p s) (ib_records b)
     ([], 0, \<lparr>fi_externalIds = [], fi_emails = [], fi_phones = []\<rparr>))"

definition dry_count :: "dry_outcome \<Rightarrow> dry_line list \<Rightarrow> nat" where
  "dry_count x ls = length (filter (\<lambda>l. dl_outcome l = x) ls)"

definition count_user :: "dry_line \<Rightarrow> (string, nat) js_map \<Rightarrow> (string, nat) js_map" where
  "count_user l m = (case dl_proposedAssigneeId l of None \<Rightarrow> m
     | Some u \<Rightarrow> js_set m u ((case js_get m u of None \<Rightarrow> 0 | Some n \<Rightarrow> n) + 1))"

definition buildDryRun :: "ingestion_batch \<Rightarrow> principal \<Rightarrow> 'a ingestion_state_scheme \<Rightarrow> dry_result result" where
  "buildDryRun b p s =
     (if \<not> is_manager p then Inl (Forbidden ''ingestion_role_forbidden'')
      else (case validateBatch (b\<lparr>ib_confirmed := True\<rparr>) of
        Inl e \<Rightarrow> Inl e
      | Inr _ \<Rightarrow>
          (let ls = dry_lines b p s; valid = dry_count DryValid ls;
               assigned = length (filter (\<lambda>l. dl_outcome l = DryValid \<and> truthy (dl_proposedAssigneeId l)) ls)
           in Inr \<lparr>dx_idempotencyKey = ib_idempotencyKey b, dx_total = length ls, dx_valid = valid,
                dx_duplicates = dry_count DryDuplicate ls, dx_manualReview = dry_count DryManualReview ls,
                dx_invalid = dry_count DryInvalid ls, dx_ignored = dry_count DryIgnored ls, dx_assigned = assigned,
                dx_unassigned = int valid - int assigned,
                dx_distribution = sort_by (\<lambda>a b. locale_cmp s (fst a) (fst b)) (fold count_user ls []), dx_lines = ls\<rparr>)))"

definition recordDryRunAudit ::
  "ingestion_batch \<Rightarrow> principal \<Rightarrow> string \<Rightarrow> dry_result \<Rightarrow> 'a ingestion_state_scheme \<Rightarrow> 'a ingestion_state_scheme" where
  "recordDryRunAudit b p cid x s =
     audit_by p cid ''LEAD_IMPORT_DRY_RUN_COMPLETED'' JUndef
       (JObj [(''profile'', JStr (ib_profile b)), (''total'', JNat (dx_total x)), (''valid'', JNat (dx_valid x)),
              (''duplicates'', JNat (dx_duplicates x)), (''manualReview'', JNat (dx_manualReview x)),
              (''invalid'', JNat (dx_invalid x)), (''ignored'', JNat (dx_ignored x)),
              (''assigned'', JNat (dx_assigned x)), (''mutated'', JBool False)])
       (if dx_invalid x \<noteq> 0 \<or> dx_manualReview x \<noteq> 0 then FAILED else SUCCESS)
       (''lead-import-dry-run:'' @ ib_idempotencyKey b) s"

definition dryRun ::
  "ingestion_batch \<Rightarrow> principal \<Rightarrow> string \<Rightarrow> 'a ingestion_state_scheme \<Rightarrow> dry_result result \<times> 'a ingestion_state_scheme" where
  "dryRun b p cid s = (case buildDryRun b p s of Inl e \<Rightarrow> (Inl e, s) | Inr x \<Rightarrow> (Inr x, recordDryRunAudit b p cid x s))"

section \<open>Provenance and reporting\<close>

text \<open>A provenance without its external identifier, and whether it has one.\<close>

definition listProvenance ::
  "string \<Rightarrow> principal \<Rightarrow> 'a ingestion_state_scheme \<Rightarrow> (provenance \<times> bool) list result" where
  "listProvenance leadId p s =
     (if \<not> is_manager p then Inl (Forbidden ''ingestion_role_forbidden'')
      else Inr (map (\<lambda>x. (x\<lparr>pr_externalId := None\<rparr>, truthy (pr_externalId x)))
                  (filter (\<lambda>x. pr_leadId x = leadId) (provenances s))))"

definition getBatch :: "string \<Rightarrow> 'a ingestion_state_scheme \<Rightarrow> ingestion_result option" where
  "getBatch i s = find (\<lambda>x. ix_batchId x = i) (js_values (ingestion_batches s))"

definition ingestion_reporting :: "principal \<Rightarrow> 'a ingestion_state_scheme \<Rightarrow> occurrence list result" where
  "ingestion_reporting p s =
     (if \<not> is_manager p then Inl (Forbidden ''ingestion_role_forbidden'')
      else Inr (filter (\<lambda>x. global_scope p \<or> (truthy (oc_campus x) \<and> campus_scope p (opt_text (oc_campus x))))
                  (reportingOccurrences s)))"

definition attachOperationalProvenance ::
  "string \<Rightarrow> string \<Rightarrow> string \<Rightarrow> string option \<Rightarrow> principal \<Rightarrow> string \<Rightarrow> 'a ingestion_state_scheme
     \<Rightarrow> (bool \<times> string) result \<times> 'a ingestion_state_scheme" where
  "attachOperationalProvenance leadId src key campaign p cid s =
     (if \<not> is_operational p then (Inl (Forbidden ''operational_provenance_role_forbidden''), s)
      else if \<not> all_in word_colon 8 128 key then (Inl (BadRequest ''operational_provenance_idempotency_invalid''), s)
      else (let ext = ''MANUAL_ENTRY:'' @ key
        in case js_get (provenanceByExternalId s) ext of
             Some x \<Rightarrow> if pr_leadId x \<noteq> [] \<and> pr_leadId x \<noteq> leadId then (Inl (Conflict ''operational_provenance_conflict''), s)
                       else (Inr (True, pr_batchId x), s)
           | None \<Rightarrow>
               (let batchId = ''manual-'' @ fresh_uuid s
                in call (attachProvenance leadId
                     \<lparr>ir_lineNumber = 1, ir_firstName = ''not-stored'', ir_lastName = ''not-stored'', ir_email = None,
                      ir_phone = None, ir_campus = None, ir_campaign = present campaign, ir_educationLevel = None,
                      ir_program = None, ir_source = src, ir_technicalSystem = ''MANUAL_ENTRY'', ir_originalSource = src,
                      ir_recentSource = Some src, ir_externalId = Some key, ir_historicalStatus = None,
                      ir_structuredPriorContact = False, ir_occurredAt = None, ir_historicalActivities = []\<rparr>
                     batchId (Some ext) p cid (drawn s)) (\<lambda>_ s1. (Inr (False, batchId), s1)))))"

end
