(* ===== verification/ImportMapping.thy ===== *)
theory ImportMapping
  imports Ingestion
begin

text \<open>
  Import mappings: \<open>import-mapping/import-mapping.service.ts\<close>. A mapping says how the columns of a
  file become the fields of an ingestion record; its versions form a chain, and a dry run under
  one version feeds the ingestion. The fields of a column are serialised in the order of their
  declaration.
\<close>

section \<open>Mappings\<close>

definition crmImportTargets :: "string list" where
  "crmImportTargets = [''firstName'', ''lastName'', ''email'', ''phone'', ''educationLevel'', ''program'', ''campus'',
     ''campaign'', ''externalId'', ''historicalStatus'', ''occurredAt'', ''comment'']"

record mapping_column =
  mc_sourceColumn :: string
  mc_targetField :: "string option"
  mc_action :: string
  mc_required :: "bool option"
  mc_reason :: "string option"

record save_mapping =
  sm_mappingKey :: string
  sm_name :: string
  sm_profile :: string
  sm_expectedVersion :: jsnum
  sm_columns :: "mapping_column list"

record mapping_template =
  mt_id :: string
  mt_mappingKey :: string
  mt_name :: string
  mt_profile :: string
  mt_version :: int
  mt_columns :: "mapping_column list"
  mt_builtIn :: bool
  mt_createdAt :: string
  mt_createdBy :: string

record dry_context =
  dc_source :: string
  dc_technicalSystem :: string
  dc_originalSource :: string
  dc_recentSource :: "string option"
  dc_campus :: "string option"
  dc_campaign :: "string option"
  dc_educationLevel :: "string option"
  dc_program :: "string option"

text \<open>A row is an object: its keys are distinct.\<close>

record mapped_dry_run =
  md_idempotencyKey :: string
  md_mappingKey :: string
  md_mappingVersion :: jsnum
  md_sourceColumns :: "string list"
  md_rows :: "(string \<times> json) list list"
  md_context :: dry_context
  md_strategy :: string
  md_targetUserId :: "string option"

record mapping_state = ingestion_state +
  mappings :: "(string, mapping_template list) js_map"

text \<open>\<open>/^[a-z][a-z0-9-]{2,63}$/\<close>.\<close>

definition MAPPING_KEY :: "string \<Rightarrow> bool" where
  "MAPPING_KEY k = (case k of [] \<Rightarrow> False
     | c # cs \<Rightarrow> is_lower c \<and> all_in (\<lambda>x. is_lower x \<or> is_digit x \<or> x = CHR ''-'') 2 63 cs)"

definition column :: "string \<Rightarrow> string option \<Rightarrow> string \<Rightarrow> bool option \<Rightarrow> string option \<Rightarrow> mapping_column" where
  "column c t a req why = \<lparr>mc_sourceColumn = c, mc_targetField = t, mc_action = a, mc_required = req, mc_reason = why\<rparr>"

definition FORM_COLUMNS :: "mapping_column list" where
  "FORM_COLUMNS =
    [column ''Submission ID'' (Some ''externalId'') ''TRIM'' (Some True) None,
     column ''Submission Time'' (Some ''occurredAt'') ''DATE'' (Some True) None,
     column (''Nom - Pr'' @ [e_acute] @ ''nom'') (Some ''firstName'') ''TRIM'' (Some True) None,
     column ''Nom - Nom'' (Some ''lastName'') ''TRIM'' (Some True) None,
     column (''Adresse '' @ [e_acute] @ ''l'' @ [e_acute] @ ''ctronique'') (Some ''email'') ''LOWERCASE'' None None,
     column (''Num'' @ [e_acute] @ ''ro de t'' @ [e_acute] @ ''l'' @ [e_acute] @ ''phone'') (Some ''phone'') ''PHONE'' None None,
     column (''Niveau d'' @ [CHR 0x27, e_acute] @ ''tude'') (Some ''educationLevel'') ''TRIM'' (Some True) None,
     column ''Formation choisie'' (Some ''program'') ''TRIM'' (Some True) None,
     column ''Webhook Info'' None ''METADATA'' None (Some ''technical_provenance_only'')]"

definition E_acute :: char where
  "E_acute = CHR 0xC9"

definition LEGACY_COLUMNS :: "mapping_column list" where
  "LEGACY_COLUMNS =
    [column ''NOM'' (Some ''lastName'') ''TRIM'' (Some True) None,
     column (''PR'' @ [E_acute] @ ''NOM'') (Some ''firstName'') ''TRIM'' (Some True) None,
     column (''T'' @ [E_acute] @ ''L'' @ [E_acute] @ ''PHONE'') (Some ''phone'') ''PHONE'' None None,
     column ''EMAIL'' (Some ''email'') ''LOWERCASE'' None None,
     column ''NIVEAU'' (Some ''educationLevel'') ''TRIM'' (Some True) None,
     column (''SP'' @ [E_acute] @ ''CIALIT'' @ [E_acute]) None ''METADATA'' None (Some ''legacy_provenance_only''),
     column (''FORMATION SOUHAIT'' @ [E_acute] @ ''E'') (Some ''program'') ''TRIM'' (Some True) None,
     column (''DATE R'' @ [E_acute] @ ''CEPTION'') (Some ''occurredAt'') ''DATE'' None None,
     column ''DATE TRAITEMENT'' None ''METADATA'' None (Some ''legacy_provenance_only''),
     column (''D'' @ [E_acute] @ ''LAI (jours)'') None ''METADATA'' None (Some ''derived_legacy_value''),
     column ''SOURCE'' None ''METADATA'' None (Some ''raw_source_preserved_in_provenance''),
     column ''STATUT'' (Some ''historicalStatus'') ''TRIM'' None None,
     column ''COMMENTAIRE 1'' (Some ''comment'') ''TRIM'' None None,
     column ''QUALIFICATION'' None ''METADATA'' None (Some ''legacy_provenance_only''),
     column ''COMMENTAIRE 2'' None ''METADATA'' None (Some ''legacy_provenance_only''),
     column ''rdv'' None ''METADATA'' None (Some ''requires_structured_activity_date''),
     column ''PROCHAINE ACTION'' None ''METADATA'' None (Some ''legacy_provenance_only''),
     column ''RESPONSABLE'' None ''METADATA'' None (Some ''canonical_owner_must_not_be_overwritten''),
     column ''PAYS'' None ''METADATA'' None (Some ''legacy_provenance_only''),
     column ''Part 1er (%)'' None ''METADATA'' None (Some ''derived_legacy_value''),
     column ''Lien WhatsApp'' None ''IGNORE'' None (Some ''external_link_not_imported''),
     column ''VILLE'' None ''METADATA'' None (Some ''legacy_provenance_only'')]"

section \<open>Identifiers\<close>

definition column_json :: "mapping_column \<Rightarrow> json" where
  "column_json c = JObj [(''sourceColumn'', JStr (mc_sourceColumn c)), (''targetField'', JId (mc_targetField c)),
     (''action'', JStr (mc_action c)), (''required'', case mc_required c of None \<Rightarrow> JUndef | Some b \<Rightarrow> JBool b),
     (''reason'', JId (mc_reason c))]"

definition mappingId :: "'a host_scheme \<Rightarrow> string \<Rightarrow> int \<Rightarrow> mapping_column list \<Rightarrow> string" where
  "mappingId s key v cs = ''mapping-'' @ take 24 (sha256hex s (json_text (JObj [(''mappingKey'', JStr key),
     (''version'', JNum (JInt v)), (''columns'', JArr (map column_json cs))])))"

definition builtIn :: "'a host_scheme \<Rightarrow> string \<Rightarrow> string \<Rightarrow> string \<Rightarrow> mapping_column list \<Rightarrow> mapping_template" where
  "builtIn s key name profile cs = \<lparr>mt_id = mappingId s key 1 cs, mt_mappingKey = key, mt_name = name, mt_profile = profile,
     mt_version = 1, mt_columns = cs, mt_builtIn = True, mt_createdAt = ''2026-08-23T00:00:00.000Z'', mt_createdBy = ''SYSTEM''\<rparr>"

definition initial_mappings :: "'a host_scheme \<Rightarrow> (string, mapping_template list) js_map" where
  "initial_mappings s =
     [(''forminator-zapier-v1'', [builtIn s ''forminator-zapier-v1'' ''Forminator / Zapier'' ''FORMINATOR_ZAPIER'' FORM_COLUMNS]),
      (''legacy-crm-canonical-v1'', [builtIn s ''legacy-crm-canonical-v1'' ''LEADS YNOV.MA canonique'' ''LEGACY_CRM'' LEGACY_COLUMNS])]"

section \<open>Validation\<close>

definition import_profiles :: "string list" where
  "import_profiles = [''LEGACY_CRM'', ''FORMINATOR_ZAPIER'', ''YNOV_COM'', ''JOBINTECH'', ''LEGACY_RELAUNCH'',
     ''OTHER_CAMPAIGN'', ''CUSTOM'']"

definition mapping_targets :: "mapping_column list \<Rightarrow> string list" where
  "mapping_targets cs = map (\<lambda>c. opt_text (mc_targetField c)) (filter (\<lambda>c. truthy (mc_targetField c)) cs)"

definition column_ok :: "mapping_column \<Rightarrow> unit result" where
  "column_ok c =
     (let nonImport = (mc_action c = ''IGNORE'' \<or> mc_action c = ''METADATA'')
      in if mc_action c \<notin> {''DIRECT'', ''TRIM'', ''LOWERCASE'', ''PHONE'', ''DATE'', ''METADATA'', ''IGNORE''}
         then Inl (BadRequest ''mapping_action_invalid'')
         else if nonImport = truthy (mc_targetField c) \<or> (nonImport \<and> js_blank (opt_text (mc_reason c)))
         then Inl (BadRequest ''mapping_action_target_invalid'') else Inr ())"

definition validateMapping :: "save_mapping \<Rightarrow> unit result" where
  "validateMapping i =
     (let sources = map (\<lambda>c. js_trim (mc_sourceColumn c)) (sm_columns i); targets = mapping_targets (sm_columns i)
      in if \<not> MAPPING_KEY (sm_mappingKey i) \<or> js_blank (sm_name i) \<or> 100 < length (js_trim (sm_name i))
         then Inl (BadRequest ''mapping_identity_invalid'')
         else if sm_profile i \<notin> set import_profiles then Inl (BadRequest ''mapping_profile_invalid'')
         else if \<not> is_integer (sm_expectedVersion i) \<or> num_value (sm_expectedVersion i) < 0
         then Inl (BadRequest ''mapping_expected_version_invalid'')
         else if sm_columns i = [] \<or> 100 < length (sm_columns i) then Inl (BadRequest ''mapping_columns_invalid'')
         else if list_ex (\<lambda>x. x = [] \<or> 200 < length x) sources \<or> \<not> distinct sources
         then Inl (BadRequest ''mapping_source_column_invalid'')
         else if \<not> distinct targets \<or> \<not> list_all (\<lambda>t. t \<in> set crmImportTargets) targets
         then Inl (BadRequest ''mapping_target_duplicate_or_invalid'')
         else (case find (\<lambda>r. \<not> is_ok r) (map column_ok (sm_columns i)) of
           Some e \<Rightarrow> e
         | None \<Rightarrow>
             if ''firstName'' \<notin> set targets \<or> ''lastName'' \<notin> set targets
             then Inl (BadRequest ''mapping_required_target_missing'')
             else if \<not> list_ex (\<lambda>t. t \<in> set targets) [''email'', ''phone'', ''externalId'']
             then Inl (BadRequest ''mapping_identity_target_missing'') else Inr ()))"

definition looksLikeFormula :: "string \<Rightarrow> bool" where
  "looksLikeFormula v = (take 1 (js_trim_start v) \<in> {''='', ''+'', ''-'', ''@''})"

text \<open>\<open>/^\+?[\d\s().-]*$/\<close>.\<close>

definition phone_cell :: "string \<Rightarrow> bool" where
  "phone_cell v = list_all (\<lambda>c. is_digit c \<or> is_space c \<or> c \<in> {CHR ''('', CHR '')'', CHR ''.'', CHR ''-''})
     (case v of CHR ''+'' # t \<Rightarrow> t | _ \<Rightarrow> v)"

definition cell_ok :: "mapping_column \<Rightarrow> (string \<times> json) list \<Rightarrow> bool" where
  "cell_ok c row = (case field row (mc_sourceColumn c) of
     JStr v \<Rightarrow> length v \<le> 4000 \<and> \<not> (looksLikeFormula v \<and> \<not> (mc_action c = ''PHONE'' \<and> phone_cell v))
   | _ \<Rightarrow> False)"

definition row_ok :: "mapping_template \<Rightarrow> (string \<times> json) list \<Rightarrow> unit result" where
  "row_ok m row =
     (let expected = map mc_sourceColumn (mt_columns m)
      in if length row \<noteq> length expected \<or> \<not> list_all (\<lambda>kv. fst kv \<in> set expected) row
         then Inl (BadRequest ''dry_run_unknown_column'')
         else if \<not> list_all (\<lambda>c. cell_ok c row) (mt_columns m) then Inl (BadRequest ''dry_run_cell_refused'') else Inr ())"

definition validateDryRun :: "mapped_dry_run \<Rightarrow> mapping_template \<Rightarrow> unit result" where
  "validateDryRun i m =
     (if md_rows i = [] \<or> 100 < length (md_rows i) then Inl (BadRequest ''dry_run_rows_invalid'')
      else if md_sourceColumns i \<noteq> map mc_sourceColumn (mt_columns m) then Inl (BadRequest ''dry_run_columns_mismatch'')
      else (case find (\<lambda>r. \<not> is_ok r) (map (row_ok m) (md_rows i)) of Some e \<Rightarrow> e | None \<Rightarrow> Inr ()))"

section \<open>Records\<close>

definition transform :: "'a host_scheme \<Rightarrow> string \<Rightarrow> string \<Rightarrow> string" where
  "transform s v action =
     (if action = ''LOWERCASE'' then js_lower (js_trim v)
      else if action = ''PHONE'' then phone_digits v
      else if action = ''DATE'' then (case date_parse s (js_trim v) of None \<Rightarrow> js_trim v | Some t \<Rightarrow> iso_string s t)
      else js_trim v)"

definition row_values :: "'a host_scheme \<Rightarrow> mapping_template \<Rightarrow> (string \<times> json) list \<Rightarrow> (string, string) js_map" where
  "row_values s m row = fold (\<lambda>c vs.
     (if \<not> truthy (mc_targetField c) then vs
      else (let raw = opt_text (text_of (field row (mc_sourceColumn c)))
        in js_set vs (opt_text (mc_targetField c))
             (if mc_required c = Some True \<and> js_blank raw then [] else transform s raw (mc_action c))))) (mt_columns m) []"

definition given :: "(string, string) js_map \<Rightarrow> string \<Rightarrow> string option" where
  "given vs k = (if truthy (js_get vs k) then js_get vs k else None)"

definition given_or :: "(string, string) js_map \<Rightarrow> string \<Rightarrow> string option \<Rightarrow> string option" where
  "given_or vs k d = (case given vs k of Some v \<Rightarrow> Some v | None \<Rightarrow> d)"

definition toRecord ::
  "'a host_scheme \<Rightarrow> (string \<times> json) list \<Rightarrow> nat \<Rightarrow> mapping_template \<Rightarrow> mapped_dry_run \<Rightarrow> ingestion_record" where
  "toRecord s row n m i =
     (let vs = row_values s m row; c = md_context i
      in \<lparr>ir_lineNumber = int n, ir_firstName = opt_text (js_get vs ''firstName''),
          ir_lastName = opt_text (js_get vs ''lastName''), ir_email = given vs ''email'', ir_phone = given vs ''phone'',
          ir_campus = given_or vs ''campus'' (dc_campus c), ir_campaign = given_or vs ''campaign'' (dc_campaign c),
          ir_educationLevel = given_or vs ''educationLevel'' (dc_educationLevel c),
          ir_program = given_or vs ''program'' (dc_program c), ir_source = dc_source c,
          ir_technicalSystem = dc_technicalSystem c, ir_originalSource = dc_originalSource c,
          ir_recentSource = (if truthy (dc_recentSource c) then dc_recentSource c else None),
          ir_externalId = given vs ''externalId'', ir_historicalStatus = given vs ''historicalStatus'',
          ir_structuredPriorContact = False, ir_occurredAt = given vs ''occurredAt'', ir_historicalActivities = []\<rparr>)"

definition toRecords :: "'a host_scheme \<Rightarrow> mapping_template \<Rightarrow> mapped_dry_run \<Rightarrow> ingestion_record list" where
  "toRecords s m i = map (\<lambda>(n, row). toRecord s row n m i) (enumerate 1 (md_rows i))"

section \<open>Operations\<close>

definition mapping_list :: "principal \<Rightarrow> 'a mapping_state_scheme \<Rightarrow> mapping_template list result" where
  "mapping_list p s =
     (if \<not> is_manager p then Inl (Forbidden ''import_mapping_role_forbidden'')
      else Inr (concat (map (\<lambda>vs. if vs = [] then [] else [last vs]) (js_values (mappings s)))))"

definition mapping_save ::
  "save_mapping \<Rightarrow> principal \<Rightarrow> string \<Rightarrow> 'a mapping_state_scheme \<Rightarrow> mapping_template result \<times> 'a mapping_state_scheme" where
  "mapping_save i p cid s =
     (if \<not> is_manager p then (Inl (Forbidden ''import_mapping_role_forbidden''), s)
      else (case validateMapping i of
        Inl e \<Rightarrow> (Inl e, s)
      | Inr _ \<Rightarrow>
          (let versions = (case js_get (mappings s) (sm_mappingKey i) of None \<Rightarrow> [] | Some vs \<Rightarrow> vs);
               current = (if versions = [] then 0 else mt_version (last versions))
           in if list_ex mt_builtIn versions then (Inl (Conflict ''mapping_builtin_immutable''), s)
              else if sm_expectedVersion i \<noteq> JInt current then (Inl (Conflict ''mapping_version_conflict''), s)
              else (let m = \<lparr>mt_id = mappingId s (sm_mappingKey i) (current + 1) (sm_columns i),
                          mt_mappingKey = sm_mappingKey i, mt_name = js_trim (sm_name i), mt_profile = sm_profile i,
                          mt_version = current + 1, mt_columns = sm_columns i, mt_builtIn = False,
                          mt_createdAt = iso_string s (now s), mt_createdBy = userId p\<rparr>
                    in (Inr m, audit_by p cid ''LEAD_IMPORT_MAPPING_VERSION_CREATED'' JUndef
                          (JObj [(''mappingId'', JStr (mt_id m)), (''mappingKey'', JStr (mt_mappingKey m)),
                                 (''version'', JNum (JInt (mt_version m))), (''profile'', JStr (mt_profile m)),
                                 (''columnCount'', JNat (length (mt_columns m)))])
                          SUCCESS (''lead-import-mapping:'' @ mt_id m)
                          (s\<lparr>mappings := js_set (mappings s) (sm_mappingKey i) (versions @ [m])\<rparr>))))))"

definition getVersion :: "string \<Rightarrow> jsnum \<Rightarrow> 'a mapping_state_scheme \<Rightarrow> mapping_template result" where
  "getVersion key v s =
     (case (case js_get (mappings s) key of None \<Rightarrow> None | Some vs \<Rightarrow> find (\<lambda>m. v = JInt (mt_version m)) vs) of
        None \<Rightarrow> Inl (NotFound ''mapping_version_not_found'') | Some m \<Rightarrow> Inr m)"

definition mapped_dryRun ::
  "mapped_dry_run \<Rightarrow> principal \<Rightarrow> string \<Rightarrow> 'a mapping_state_scheme
     \<Rightarrow> (dry_result \<times> string \<times> int) result \<times> 'a mapping_state_scheme" where
  "mapped_dryRun i p cid s =
     (if \<not> is_manager p then (Inl (Forbidden ''import_mapping_role_forbidden''), s)
      else (case getVersion (md_mappingKey i) (md_mappingVersion i) s of
        Inl e \<Rightarrow> (Inl e, s)
      | Inr m \<Rightarrow>
          (case validateDryRun i m of
             Inl e \<Rightarrow> (Inl e, s)
           | Inr _ \<Rightarrow>
               call (dryRun \<lparr>ib_idempotencyKey = md_idempotencyKey i, ib_profile = mt_profile m, ib_confirmed = False,
                       ib_strategy = md_strategy i, ib_targetUserId = md_targetUserId i, ib_records = toRecords s m i\<rparr> p cid s)
                 (\<lambda>x s1. (Inr (x, mt_id m, mt_version m), s1)))))"

definition describeVersion :: "string \<Rightarrow> int \<Rightarrow> 'a mapping_state_scheme \<Rightarrow> mapping_template option" where
  "describeVersion i v s = find (\<lambda>m. mt_id m = i \<and> mt_version m = v) (concat (js_values (mappings s)))"

definition mapping_snapshot :: "'a host_scheme \<Rightarrow> save_mapping \<Rightarrow> string \<Rightarrow> string \<Rightarrow> mapping_template result" where
  "mapping_snapshot s i actor created =
     (case validateMapping i of
        Inl e \<Rightarrow> Inl e
      | Inr _ \<Rightarrow>
          if actor = [] \<or> date_parse s created = None then Inl (BadRequest ''mapping_snapshot_invalid'')
          else (let v = num_value (sm_expectedVersion i) + 1
            in Inr \<lparr>mt_id = mappingId s (sm_mappingKey i) v (sm_columns i), mt_mappingKey = sm_mappingKey i,
                 mt_name = js_trim (sm_name i), mt_profile = sm_profile i, mt_version = v, mt_columns = sm_columns i,
                 mt_builtIn = False, mt_createdAt = created, mt_createdBy = actor\<rparr>))"

definition recordsFromSnapshot :: "'a host_scheme \<Rightarrow> mapping_template \<Rightarrow> mapped_dry_run \<Rightarrow> ingestion_record list result" where
  "recordsFromSnapshot s m i =
     (case validateMapping \<lparr>sm_mappingKey = mt_mappingKey m, sm_name = mt_name m, sm_profile = mt_profile m,
             sm_expectedVersion = JInt (mt_version m - 1), sm_columns = mt_columns m\<rparr> of
        Inl e \<Rightarrow> Inl e
      | Inr _ \<Rightarrow>
          if mt_id m \<noteq> mappingId s (mt_mappingKey m) (mt_version m) (mt_columns m)
             \<or> md_mappingKey i \<noteq> mt_mappingKey m \<or> md_mappingVersion i \<noteq> JInt (mt_version m)
          then Inl (BadRequest ''mapping_snapshot_invalid'')
          else map_sum id (\<lambda>_. toRecords s m i) (validateDryRun i m))"

end
