(* ===== verification/MappingLaws.thy ===== *)
theory MappingLaws
  imports ImportMapping Frames
begin

text \<open>
  What the import mappings promise: the versions of a mapping form a chain without a gap, a
  saved version is read back as it was saved, and the snapshot of it gives the records the
  stored version gives.
\<close>

section \<open>Chains of versions\<close>

definition mapping_ok :: "'a mapping_state_scheme \<Rightarrow> bool" where
  "mapping_ok s \<longleftrightarrow> (\<forall>k vs. js_get (mappings s) k = Some vs \<longrightarrow> map mt_version vs = [1..int (length vs)]
     \<and> list_all (\<lambda>m. mt_mappingKey m = k) vs)"

lemma initial_chains: "mappings s = initial_mappings s \<Longrightarrow> mapping_ok s"
  by (simp add: mapping_ok_def initial_mappings_def builtIn_def js_get_Cons)

lemma mappings_more: "lead_state.more s = lead_state.more t \<Longrightarrow> mappings s = mappings t"
  by (cases s; cases t; simp)

lemma mappings_audit [simp]: "mappings (audit_by p c ty b a r k s) = mappings s"
  by (rule mappings_more) simp

lemma audit_clock [simp]:
  "sha256hex (audit_by p c ty b a r k s) = sha256hex s" "date_parse (audit_by p c ty b a r k s) = date_parse s"
  "iso_string (audit_by p c ty b a r k s) = iso_string s"
  using same_host_trail [of s p c ty b a r k] by (simp_all add: same_host_def)

lemma chain_find:
  assumes "map mt_version vs = [1..int (length vs)]" and "m \<in> set vs"
  shows "find (\<lambda>x. JInt (mt_version m) = JInt (mt_version x)) vs = Some m"
proof -
  from assms(1) have "distinct (map mt_version vs)" by simp
  then show ?thesis using assms(2)
  proof (induction vs)
    case (Cons a vs)
    have "mt_version m \<noteq> mt_version a" if "m \<in> set vs"
      using Cons.prems(1) imageI [OF that, of mt_version] by auto
    with Cons show ?case by (cases "m = a") simp_all
  qed simp
qed

lemma chain_grows:
  assumes "map mt_version vs = [1..int (length vs)]" and "mt_version m = (if vs = [] then 0 else mt_version (last vs)) + 1"
  shows "map mt_version (vs @ [m]) = [1..int (length (vs @ [m]))]"
proof -
  have "(if vs = [] then 0 else mt_version (last vs)) = int (length vs)"
  proof (cases vs rule: rev_cases)
    case (snoc us u)
    with assms(1) have "map mt_version us @ [mt_version u] = [1..int (length us)] @ [int (length us) + 1]"
      by (simp add: upto_rec2 add.commute)
    with snoc show ?thesis by simp
  qed simp
  with assms show ?thesis by (simp add: upto_rec2 add.commute)
qed

lemma find_append_None: "find P xs = Some x \<Longrightarrow> find P (xs @ ys) = Some x"
  by (induction xs) auto

section \<open>Snapshots\<close>

lemma same_id: "sha256hex t = sha256hex s \<Longrightarrow> mappingId t k v cs = mappingId s k v cs"
  by (simp add: mappingId_def)

lemma validate_version:
  "validateMapping i = Inr () \<Longrightarrow> n \<ge> 0 \<Longrightarrow> validateMapping (i\<lparr>sm_name := js_trim (sm_name i), sm_expectedVersion := JInt n\<rparr>) = Inr ()"
  by (auto simp: validateMapping_def Let_def js_blank_def split: if_splits option.splits)

text \<open>The template of a saved version, and the state it is saved in.\<close>

definition saved_template :: "save_mapping \<Rightarrow> principal \<Rightarrow> int \<Rightarrow> 'a host_scheme \<Rightarrow> mapping_template" where
  "saved_template i p n s = \<lparr>mt_id = mappingId s (sm_mappingKey i) (n + 1) (sm_columns i),
     mt_mappingKey = sm_mappingKey i, mt_name = js_trim (sm_name i), mt_profile = sm_profile i,
     mt_version = n + 1, mt_columns = sm_columns i, mt_builtIn = False, mt_createdAt = iso_string s (now s), mt_createdBy = userId p\<rparr>"

lemma save_cases:
  assumes "mapping_save i p cid s = (Inr m, t)"
  obtains vs n where "vs = (case js_get (mappings s) (sm_mappingKey i) of None \<Rightarrow> [] | Some vs \<Rightarrow> vs)"
    "n = (if vs = [] then 0 else mt_version (last vs))" "validateMapping i = Inr ()" "sm_expectedVersion i = JInt n"
    "m = saved_template i p n s" "mappings t = js_set (mappings s) (sm_mappingKey i) (vs @ [m])"
    "sha256hex t = sha256hex s" "date_parse t = date_parse s"
  using assms unfolding mapping_save_def Let_def saved_template_def
  by (auto split: if_splits sum.splits)


section \<open>A run\<close>

definition demo_mapping :: save_mapping where
  "demo_mapping = \<lparr>sm_mappingKey = ''open-day'', sm_name = '' Open day '', sm_profile = ''CUSTOM'', sm_expectedVersion = JInt 0,
     sm_columns = [column ''First'' (Some ''firstName'') ''TRIM'' (Some True) None,
       column ''Last'' (Some ''lastName'') ''TRIM'' (Some True) None, column ''Mail'' (Some ''email'') ''LOWERCASE'' None None]\<rparr>"

definition mapping_demo :: mapping_state where
  "mapping_demo = lead_demo CONTACTED (assignment_state_ext [] [] [] [] []
     (ingestion_state_ext [] [] [] [] (mapping_state_ext [] ())))"

lemma mapping_demo_empty: "mappings mapping_demo = []"
  by (simp add: mapping_demo_def lead_demo_def note_demo_def user_demo_def demo_host_def)


end
