(* ===== verification/IngestionLaws.thy ===== *)
theory IngestionLaws
  imports Ingestion AssignmentLaws
begin

text \<open>
  What the ingestion promises: a batch accounts for every line it was given, and on a file whose
  lines share no identity the dry run predicts the ingestion line by line. Both rest on what a
  line leaves alone: the contacts of the leads and the identities known from outside.
\<close>

section \<open>Identities known to the system\<close>

definition contacts :: "'a lead_state_scheme \<Rightarrow> (string \<times> string \<times> string option \<times> string option) list" where
  "contacts s = map (\<lambda>(k, l). (k, ld_id l, ld_email l, ld_phone l)) (leads s)"

lemma length_contacts: "length (contacts s) = length (leads s)"
  by (simp add: contacts_def)

lemma contacts_put:
  assumes "js_get m k = Some l" and "f l' = f l"
  shows "map (\<lambda>(k, l). (k, f l)) (js_set m k l') = map (\<lambda>(k, l). (k, f l)) m"
  using assms by (induction m) (auto simp: js_get_def js_set_def split: if_splits)

lemma matches_contacts:
  "findIdentityMatches e ph s = (let e' = map_option (\<lambda>x. js_lower (js_trim x)) e; ph' = map_option phone_digits ph
     in (if truthy e' then map_option (fst \<circ> snd) (find (\<lambda>c. fst (snd (snd c)) = e') (contacts s)) else None,
         if truthy ph' then map_option (fst \<circ> snd) (find (\<lambda>c. snd (snd (snd c)) = ph') (contacts s)) else None))"
proof -
  have "map_option ld_id (find (\<lambda>l. Q (ld_id l, ld_email l, ld_phone l)) (js_values m))
      = map_option (fst \<circ> snd) (find (\<lambda>c. Q (snd c)) (map (\<lambda>(k, l). (k, ld_id l, ld_email l, ld_phone l)) m))" for Q m
    by (induction m) (auto simp: js_values_def)
  note search = this
  show ?thesis
    unfolding findIdentityMatches_def contacts_def Let_def
    using search [of "\<lambda>c. fst (snd c) = map_option (\<lambda>x. js_lower (js_trim x)) e" "leads s"]
      search [of "\<lambda>c. snd (snd c) = map_option phone_digits ph" "leads s"]
    by (simp only: fst_conv snd_conv)
qed

text \<open>An operation that changes no contact, no provenance and not the clock of the dates.\<close>

definition keeps_identities :: "principal \<Rightarrow> 'a assignment_state_scheme \<Rightarrow> 'a assignment_state_scheme \<Rightarrow> bool" where
  "keeps_identities p s t \<longleftrightarrow> lead_effect p s t \<and> contacts t = contacts s \<and> assignment_state.more t = assignment_state.more s
     \<and> date_parse t = date_parse s"

lemma identities_refl [simp]: "keeps_identities p s s"
  by (simp add: keeps_identities_def)

lemma identities_trans: "keeps_identities p s t \<Longrightarrow> keeps_identities p t u \<Longrightarrow> keeps_identities p s u"
  by (auto simp: keeps_identities_def intro: lead_effect_trans)

lemma assignment_more: "lead_state.more s = lead_state.more t \<Longrightarrow> assignment_state.more s = assignment_state.more t"
  by (cases s; cases t; simp)

lemma audit_dates [simp]: "date_parse (audit_by p c ty b a r k s) = date_parse s" "date_parse (add_to_timeline x u) = date_parse u"
  using same_host_trail [of s p c ty b a r k] by (simp_all add: same_host_def add_to_timeline_def)

lemma assignment_extension [simp]:
  "assignment_state.more (audit_by q c ty b a r k t) = assignment_state.more t" "assignment_state.more (drawn t) = assignment_state.more t"
  by (rule assignment_more, simp)+

lemma keeps_append: "keeps_identities p s (snd (appendIngestionActivity i ty res at p cid s))"
proof -
  have "contacts (snd (appendIngestionActivity i ty res at p cid s)) = contacts s"
    "date_parse (snd (appendIngestionActivity i ty res at p cid s)) = date_parse s"
    by (auto simp: appendIngestionActivity_def contacts_def Let_def intro!: contacts_put split: option.split)
  moreover have "assignment_state.more (snd (appendIngestionActivity i ty res at p cid s)) = assignment_state.more s"
    by (rule assignment_more) simp
  ultimately show ?thesis by (simp add: keeps_identities_def effect_appendIngestionActivity)
qed

lemma keeps_assign: "keeps_identities p s (snd (assignLocalLead i u p cid why mode s))"
proof -
  have "contacts (snd (assignLocalLead i u p cid why mode s)) = contacts s"
    "date_parse (snd (assignLocalLead i u p cid why mode s)) = date_parse s"
    by (auto simp: assignLocalLead_def contacts_def Let_def intro!: contacts_put split: option.split)
  moreover have "assignment_state.more (snd (assignLocalLead i u p cid why mode s)) = assignment_state.more s"
    by (rule assignment_more) simp
  ultimately show ?thesis by (simp add: keeps_identities_def effect_assignLocalLead)
qed

lemma keeps_engine: "keeps_identities p s (snd (engineTarget i x n p cid s))"
proof -
  have sel: "date_parse (snd (engine_select c b k s)) = date_parse s"
    "assignment_state.more (snd (engine_select c b k s)) = assignment_state.more s" for c b k
    by (simp_all add: engine_select_def split: sum.split)
  have dec: "date_parse (snd (engine_assign c p e s)) = date_parse s \<and> assignment_state.more (snd (engine_assign c p e s)) = assignment_state.more s" for c e
  proof (cases "is_operational p \<and> js_get (assignment_decisions s) (ctx_eventKey c) = None")
    case True
    obtain q u where run: "engine_select c True 0 s = (q, u)" by fastforce
    with sel [of c True 0] have "date_parse u = date_parse s" "assignment_state.more u = assignment_state.more s" by simp_all
    with True run show ?thesis by (cases q) (auto simp: engine_assign_def Let_def drawn_def)
  qed (auto simp: engine_assign_def)
  have "date_parse (snd (engineTarget i x n p cid s)) = date_parse s
      \<and> assignment_state.more (snd (engineTarget i x n p cid s)) = assignment_state.more s"
  proof -
    show ?thesis
      using dec by (auto simp: engineTarget_def call_def split: prod.splits sum.splits if_splits) (metis snd_conv)+
  qed
  moreover obtain r t where run: "engineTarget i x n p cid s = (r, t)" by fastforce
  moreover from engine_target_frame [OF run] have "leads t = leads s" "lead_effect p s t"
    by (auto simp: engine_frame_def intro: frame_effect)
  ultimately show ?thesis by (simp add: keeps_identities_def contacts_def)
qed

lemma keeps_locks: "keeps_identities p s (t\<lparr>activeLeadLocks := ys\<rparr>) = keeps_identities p s t"
  by (simp add: keeps_identities_def contacts_def unlock_simps)

lemma keeps_call:
  assumes "keeps_identities p s (snd m)" and "\<And>a t. keeps_identities p t (snd (k a t))"
  shows "keeps_identities p s (snd (call m k))"
proof (cases m)
  case (Pair q t)
  with assms(1) identities_trans [OF _ assms(2), of s t] show ?thesis by (cases q) simp_all
qed

lemma keeps_item: "keeps_identities p (snd acc) (snd (batch_item i p cid nx acc))"
proof -
  obtain n x ok sk rf s where acc: "nx = (n, x)" "acc = ((ok, sk, rf), s)" by (cases nx; cases acc; cases "fst acc") auto
  define s0 where "s0 = s\<lparr>activeLeadLocks := activeLeadLocks s @ [it_leadId x]\<rparr>"
  have s0: "keeps_identities p s s0" by (simp add: s0_def keeps_locks)
  obtain q t where run: "call (if bi_strategy i = ''FIXED'' then (fixedTarget i s0, s0) else engineTarget i x n p cid s0)
      (\<lambda>u s1. assignLocalLead (it_leadId x) u p (cid @ '':'' @ show_int (int n)) (''BATCH:'' @ bi_idempotencyKey i) (bi_strategy i) s1)
      = (q, t)" by fastforce
  have "keeps_identities p s0 (snd (call (if bi_strategy i = ''FIXED'' then (fixedTarget i s0, s0) else engineTarget i x n p cid s0)
      (\<lambda>u s1. assignLocalLead (it_leadId x) u p (cid @ '':'' @ show_int (int n)) (''BATCH:'' @ bi_idempotencyKey i) (bi_strategy i) s1)))"
    by (rule keeps_call) (simp_all add: keeps_engine keeps_assign)
  with run s0 have t: "keeps_identities p s t" using identities_trans by simp
  show ?thesis
    unfolding acc batch_item_def prod.case s0_def [symmetric] Let_def run
    using s0 t by (cases q) (auto simp: keeps_locks split: option.split)
qed

lemma keeps_items: "keeps_identities p (snd acc) (snd (fold (batch_item i p cid) nxs acc))"
proof (induction nxs arbitrary: acc)
  case (Cons nx nxs)
  from identities_trans [OF keeps_item Cons.IH] show ?case by simp
qed simp

lemma keeps_more:
  assumes "lead_effect p s t" and "leads t = leads s" and "assignment_state.more t = assignment_state.more s" and "date_parse t = date_parse s"
  shows "keeps_identities p s t"
  using assms by (simp add: keeps_identities_def contacts_def)

lemma keeps_batch: "keeps_identities p s (snd (assignBatch i p cid s))"
proof -
  obtain ok sk rf u where run: "fold (batch_item i p cid) (enumerate 0 (bi_items i)) (([], [], []), s) = ((ok, sk, rf), u)"
    by (cases "fold (batch_item i p cid) (enumerate 0 (bi_items i)) (([], [], []), s)") auto
  have u: "keeps_identities p s u" using keeps_items [of p "(([], [], []), s)" i cid "enumerate 0 (bi_items i)"] run by simp
  have "keeps_identities p u (audit_by p cid ty b a r k ((drawn u)\<lparr>completed_batches := cb\<rparr>))" for ty b a r k cb
  proof (rule keeps_more)
    have "lead_effect p u ((drawn u)\<lparr>completed_batches := cb\<rparr>)" by (rule lead_effect_same) (simp_all add: drawn_def)
    then show "lead_effect p u (audit_by p cid ty b a r k ((drawn u)\<lparr>completed_batches := cb\<rparr>))" by (rule effect_audit)
  qed (simp_all add: drawn_def)
  with u run show ?thesis
    unfolding assignBatch_def Let_def by (auto intro: identities_trans split: sum.split option.split)
qed

section \<open>What a line adds\<close>

lemma identities_more: "assignment_state.more s = assignment_state.more t \<Longrightarrow> provenanceByExternalId s = provenanceByExternalId t"
  by (cases s; cases t; simp)

text \<open>A line adds at most one lead, with its own contacts, and at most its own external identity.\<close>

definition line_adds ::
  "string option \<Rightarrow> string option \<times> string option \<Rightarrow> principal \<Rightarrow> 'a ingestion_state_scheme \<Rightarrow> 'a ingestion_state_scheme \<Rightarrow> bool" where
  "line_adds key ep p s t \<longleftrightarrow> lead_effect p s t \<and> date_parse t = date_parse s
     \<and> (\<exists>new. contacts t = contacts s @ new \<and> (\<forall>c\<in>set new. snd (snd c) = ep))
     \<and> (\<forall>k. Some k \<noteq> key \<longrightarrow> js_get (provenanceByExternalId t) k = js_get (provenanceByExternalId s) k)"

lemma adds_refl [simp]: "line_adds key ep p s s"
  by (simp add: line_adds_def)

lemma adds_kept: "line_adds key ep p s t \<Longrightarrow> keeps_identities p t u \<Longrightarrow> line_adds key ep p s u"
  using identities_more unfolding line_adds_def keeps_identities_def by (metis lead_effect_trans)

lemma adds_trans:
  assumes "line_adds key ep p s t" and "line_adds key ep p t u"
  shows "line_adds key ep p s u"
proof -
  from assms obtain new new' where "contacts t = contacts s @ new" "\<forall>c\<in>set new. snd (snd c) = ep"
    "contacts u = contacts t @ new'" "\<forall>c\<in>set new'. snd (snd c) = ep" unfolding line_adds_def by blast
  then have "contacts u = contacts s @ (new @ new')" "\<forall>c\<in>set (new @ new'). snd (snd c) = ep" by auto
  with assms show ?thesis unfolding line_adds_def by (metis lead_effect_trans)
qed

lemma keeps_for_each:
  "(\<And>x t. keeps_identities p t (snd (f x t))) \<Longrightarrow> keeps_identities p s (snd (for_each f xs s))"
proof (induction xs arbitrary: s)
  case (Cons x xs)
  have rest: "keeps_identities p t (snd (call (for_each f xs t) (\<lambda>ys s2. (Inr (y # ys), s2))))" for y t
    using Cons.IH [OF Cons.prems, of t] by (cases "for_each f xs t"; cases "fst (for_each f xs t)") auto
  show ?case unfolding for_each.simps by (rule keeps_call [OF Cons.prems rest])
qed simp

lemma attach_stores:
  "\<exists>u. lead_effect p s u \<and> leads u = leads s \<and> date_parse u = date_parse s
     \<and> (\<forall>k. Some k \<noteq> key \<longrightarrow> js_get (provenanceByExternalId u) k = js_get (provenanceByExternalId s) k)
     \<and> keeps_identities p u (snd (attachProvenance leadId r batchId key p cid s))"
proof (cases "case key of None \<Rightarrow> False | Some k \<Rightarrow> js_has (provenanceByExternalId s) k")
  case True
  have "snd (attachProvenance leadId r batchId key p cid s) = s"
    unfolding attachProvenance_def if_P [OF True] by simp
  then show ?thesis by (intro exI [of _ s]) simp
next
  case False
  have work: "keeps_identities p u (snd (call (appendIngestionActivity leadId ty src occ p cid u) (\<lambda>_ s2.
      call (for_each (\<lambda>(n, a). appendIngestionActivity leadId (ha_type a) (ha_result a) (Some (ha_occurredAt a)) p
                       (cid @ '':historical:'' @ show_int (int n))) xs s2) (\<lambda>_ s3. (Inr (), s3)))))" for u ty src occ xs
    by (intro keeps_call keeps_append keeps_for_each) (auto simp: keeps_append)
  have store: "lead_effect p s u \<and> leads u = leads s \<and> date_parse u = date_parse s
      \<and> (\<forall>k. Some k \<noteq> key \<longrightarrow> js_get (provenanceByExternalId u) k = js_get (provenanceByExternalId s) k)"
    if "u = s\<lparr>provenanceByExternalId := (case key of None \<Rightarrow> provenanceByExternalId s
                         | Some k \<Rightarrow> js_set (provenanceByExternalId s) k pv), provenances := pvs\<rparr>" for u pv pvs
  proof -
    have "lead_effect p s (s\<lparr>provenanceByExternalId := m, provenances := pvs\<rparr>)" for m
      by (rule lead_effect_same) simp_all
    with that show ?thesis by (auto split: option.split)
  qed
  have "\<exists>pv pvs. keeps_identities p (s\<lparr>provenanceByExternalId := (case key of None \<Rightarrow> provenanceByExternalId s
      | Some k \<Rightarrow> js_set (provenanceByExternalId s) k pv), provenances := pvs\<rparr>) (snd (attachProvenance leadId r batchId key p cid s))"
    unfolding attachProvenance_def if_not_P [OF False] Let_def by (intro exI) (rule work)
  then obtain pv pvs where "keeps_identities p (s\<lparr>provenanceByExternalId := (case key of None \<Rightarrow> provenanceByExternalId s
      | Some k \<Rightarrow> js_set (provenanceByExternalId s) k pv), provenances := pvs\<rparr>) (snd (attachProvenance leadId r batchId key p cid s))"
    by blast
  with store [OF refl] show ?thesis by blast
qed

lemma attach_adds: "line_adds key ep p s (snd (attachProvenance leadId r batchId key p cid s))"
  and attach_contacts: "contacts (snd (attachProvenance leadId r batchId key p cid s)) = contacts s"
proof -
  obtain u where u: "lead_effect p s u" "leads u = leads s" "date_parse u = date_parse s"
    "\<forall>k. Some k \<noteq> key \<longrightarrow> js_get (provenanceByExternalId u) k = js_get (provenanceByExternalId s) k"
    "keeps_identities p u (snd (attachProvenance leadId r batchId key p cid s))"
    using attach_stores [of p s key leadId r batchId cid] by blast
  then show "contacts (snd (attachProvenance leadId r batchId key p cid s)) = contacts s"
    by (simp add: keeps_identities_def contacts_def)
  have "line_adds key ep p s u" using u by (simp add: line_adds_def contacts_def)
  then show "line_adds key ep p s (snd (attachProvenance leadId r batchId key p cid s))" using u(5) by (rule adds_kept)
qed

lemma adds_call:
  assumes "line_adds key ep p s (snd m)" and "\<And>a t. m = (Inr a, t) \<Longrightarrow> line_adds key ep p s (snd (k a t))"
  shows "line_adds key ep p s (snd (call m k))"
  using assms by (cases m; cases "fst m") auto

lemma imported_fields:
  "ld_id (imported_lead r ep st b i lc at) = i" "ld_email (imported_lead r ep st b i lc at) = fst ep"
  "ld_phone (imported_lead r ep st b i lc at) = snd ep"
  by (simp_all add: imported_lead_def blank_lead_def)

lemma ingestOne_adds:
  assumes "lead_ok s" and "ingestion_normalize s r = Inr ep"
  shows "line_adds (external_key r) ep p s (snd (ingestOne r batchId p cid s))"
proof -
  have attach: "line_adds (external_key r) ep p u (snd (call (attachProvenance i r batchId (external_key r) p cid u) (\<lambda>_ s1. (Inr x, s1))))" for i u x
    by (rule adds_call) (use attach_adds [of "external_key r" ep p u i r batchId cid] in auto)
  have create: "line_adds (external_key r) ep p s ((drawn (drawn s))\<lparr>leads := js_set (leads s) (ld_id l) l\<rparr>)"
    if "ld_id l = fresh_uuid (drawn s)" "ld_email l = fst ep" "ld_phone l = snd ep" for l
  proof -
    have "js_get (leads s) (fresh_uuid (drawn s)) = None"
    proof (cases "js_get (leads s) (fresh_uuid (drawn s))")
      case (Some l')
      with assms(1) have "fresh_uuid (drawn s) \<in> issued s" "inj (uuid s)" unfolding lead_ok_def by blast+
      then show ?thesis by (auto simp: issued_def fresh_uuid_def drawn_def inj_eq)
    qed
    with that(1) have "lead_effect p (drawn s) ((drawn (drawn s))\<lparr>leads := js_set (leads (drawn s)) (ld_id l) l\<rparr>)"
      by (intro effect_create lead_effect_refl) (simp_all add: drawn_def)
    moreover have "lead_effect p s (drawn s)" by (rule lead_effect_same) (simp_all add: drawn_def)
    ultimately have "lead_effect p s ((drawn (drawn s))\<lparr>leads := js_set (leads s) (ld_id l) l\<rparr>)"
      by (auto intro: lead_effect_trans simp: drawn_def)
    with \<open>js_get (leads s) (fresh_uuid (drawn s)) = None\<close> that show ?thesis
      by (auto simp: line_adds_def contacts_def drawn_def js_set_fresh)
  qed
  note new = adds_trans [OF create attach]
  show ?thesis
    unfolding ingestOne_def Let_def assms(2) sum.case registerLocalLead_def prod.case
    by (auto split: list.split historical_status.split intro!: attach new imported_fields)
qed

lemma ingestOne_invalid: "ingestion_normalize s r = Inl why \<Longrightarrow> snd (ingestOne r batchId p cid s) = s"
  by (simp add: ingestOne_def)

lemma assignCreated_keeps: "keeps_identities p s (snd (assignCreated i r b p cid s))"
proof -
  have "snd (assignCreated i r b p cid s) = s' \<Longrightarrow> \<exists>x. s' = snd (assignBatch x p cid s)" for s'
    unfolding assignCreated_def by (auto split: prod.splits sum.splits) (metis snd_conv)+
  with keeps_batch show ?thesis by metis
qed

lemma ingest_line_run:
  assumes "ingest_line b batchId p cid r s = (Inr la, t)"
  shows "\<exists>u. ingestOne r batchId p (cid @ '':'' @ show_int (ir_lineNumber r)) s = (Inr (fst la), u)
    \<and> (\<forall>key ep s0. line_adds key ep p s0 u \<longrightarrow> line_adds key ep p s0 t) \<and> (snd la \<longrightarrow> il_outcome (fst la) = CREATED)
    \<and> length (leads t) = length (leads u)"
proof -
  from assms obtain l u where one: "ingestOne r batchId p (cid @ '':'' @ show_int (ir_lineNumber r)) s = (Inr l, u)"
    unfolding ingest_line_def call_Inr by (elim exE conjE) (rule that)
  obtain a w where w: "(if il_outcome l = CREATED \<and> truthy (il_leadId l) \<and> ib_strategy b \<noteq> ''UNASSIGNED''
           then assignCreated (opt_text (il_leadId l)) r b p (cid @ '':assignment:'' @ show_int (ir_lineNumber r)) u
           else (False, u)) = (a, w)" by fastforce
  then have keeps: "keeps_identities p u w" and a: "a \<longrightarrow> il_outcome l = CREATED"
    using assignCreated_keeps [of p u "opt_text (il_leadId l)" r b "cid @ '':assignment:'' @ show_int (ir_lineNumber r)"]
    by (auto split: if_splits)
  have t: "la = (l, a)" "t = w\<lparr>reportingOccurrences := reportingOccurrences w @ [occurrence_of r b l (now w) a]\<rparr>"
    using assms unfolding ingest_line_def one call_simps Let_def w prod.case by simp_all
  have "lead_effect p w t" unfolding t(2) by (rule lead_effect_same) simp_all
  then have "line_adds key ep p s0 w \<Longrightarrow> line_adds key ep p s0 t" for key ep s0
    unfolding line_adds_def by (auto intro: lead_effect_trans simp: t(2) contacts_def)
  with keeps have "\<forall>key ep s0. line_adds key ep p s0 u \<longrightarrow> line_adds key ep p s0 t" using adds_kept by blast
  moreover have "length (leads t) = length (leads u)"
    using keeps length_contacts [of w] length_contacts [of u] by (simp add: keeps_identities_def t(2))
  ultimately show ?thesis using one a t by simp
qed

section \<open>Lines that share no identity\<close>

text \<open>The identities a line of a file names, each with its kind.\<close>

definition line_keys :: "ingestion_record \<Rightarrow> (nat \<times> string option) list" where
  "line_keys r = filter (\<lambda>x. truthy (snd x)) [(0, external_key r), (1, map_option (\<lambda>e. js_lower (js_trim e)) (ir_email r)),
     (2, map_option phone_digits (ir_phone r))]"

lemma normalized_keys:
  assumes "ingestion_normalize s r = Inr ep"
  shows "fst ep = Some e \<Longrightarrow> e \<noteq> [] \<and> js_lower (js_trim e) = e \<and> (1, Some e) \<in> set (line_keys r)"
    "snd ep = Some ph \<Longrightarrow> ph \<noteq> [] \<and> phone_digits ph = ph \<and> (2, Some ph) \<in> set (line_keys r)"
    "external_key r = Some k \<Longrightarrow> (0, Some k) \<in> set (line_keys r)"
  using assms by (auto simp: ingestion_normalize_def Let_def line_keys_def external_key_def split: if_splits)

lemma find_skip: "(\<And>y. y \<in> set ys \<Longrightarrow> \<not> P y) \<Longrightarrow> find P (xs @ ys) = find P xs"
  by (induction xs) (auto simp: find_None_iff)

lemma matches_stable:
  assumes "line_adds key eq p s t" and "ingestion_normalize s r = Inr ep"
    and "\<And>k. external_key r = Some k \<Longrightarrow> key \<noteq> Some k" and "\<And>e. fst ep = Some e \<Longrightarrow> fst eq \<noteq> Some e"
    and "\<And>e. snd ep = Some e \<Longrightarrow> snd eq \<noteq> Some e"
  shows "identity_matches r ep t = identity_matches r ep s"
proof -
  from assms(1) obtain new where new: "contacts t = contacts s @ new" "\<forall>c\<in>set new. snd (snd c) = eq"
    and ext: "\<And>k. Some k \<noteq> key \<Longrightarrow> js_get (provenanceByExternalId t) k = js_get (provenanceByExternalId s) k"
    unfolding line_adds_def by blast
  note rk = normalized_keys [OF assms(2)]
  have e0: "(case external_key r of None \<Rightarrow> None | Some k \<Rightarrow> map_option pr_leadId (js_get (provenanceByExternalId t) k))
      = (case external_key r of None \<Rightarrow> None | Some k \<Rightarrow> map_option pr_leadId (js_get (provenanceByExternalId s) k))"
    using ext assms(3) by (cases "external_key r") auto
  have e1: "find (\<lambda>c. fst (snd (snd c)) = map_option (\<lambda>x. js_lower (js_trim x)) (fst ep)) (contacts t)
      = find (\<lambda>c. fst (snd (snd c)) = map_option (\<lambda>x. js_lower (js_trim x)) (fst ep)) (contacts s)" if "fst ep = Some e" for e
    using rk(1) [OF that] that new assms(4) [OF that] by (auto intro!: find_skip)
  have e2: "find (\<lambda>c. snd (snd (snd c)) = map_option phone_digits (snd ep)) (contacts t)
      = find (\<lambda>c. snd (snd (snd c)) = map_option phone_digits (snd ep)) (contacts s)" if "snd ep = Some e" for e
    using rk(2) [OF that] that new assms(5) [OF that] by (auto intro!: find_skip)
  have "findIdentityMatches (fst ep) (snd ep) t = findIdentityMatches (fst ep) (snd ep) s"
    using e1 e2 unfolding matches_contacts Let_def by (cases "fst ep"; cases "snd ep") simp_all
  with e0 show ?thesis by (simp add: identity_matches_def Let_def)
qed

lemma apart_lines:
  assumes "ingestion_normalize s q = Inr eq" and "ingestion_normalize s r = Inr ep" and "set (line_keys q) \<inter> set (line_keys r) = {}"
  shows "external_key r = Some k \<Longrightarrow> external_key q \<noteq> Some k" "fst ep = Some e \<Longrightarrow> fst eq \<noteq> Some e" "snd ep = Some e \<Longrightarrow> snd eq \<noteq> Some e"
  using normalized_keys [OF assms(1)] normalized_keys [OF assms(2)] assms(3) by blast+

lemma normalize_dates: "date_parse t = date_parse s \<Longrightarrow> ingestion_normalize t r = ingestion_normalize s r"
  by (simp only: ingestion_normalize_def parse_opt_def)

section \<open>Prediction\<close>

definition no_identities :: file_identities where
  "no_identities = \<lparr>fi_externalIds = [], fi_emails = [], fi_phones = []\<rparr>"

definition predicts :: "dry_line \<Rightarrow> ingestion_line \<Rightarrow> bool" where
  "predicts d l \<longleftrightarrow> dl_lineNumber d = il_lineNumber l \<and> dl_reason d \<noteq> Some ''dry_run_context_invalid'' \<and> (case il_outcome l of
       CREATED \<Rightarrow> dl_outcome d = DryValid
     | PROVENANCE_ATTACHED_LINE \<Rightarrow> dl_outcome d = DryDuplicate \<and> dl_matchedLeadId d = il_leadId l
     | MANUAL_REVIEW \<Rightarrow> dl_outcome d = DryManualReview \<and> dl_reason d = il_reason l
     | INVALID \<Rightarrow> dl_outcome d = DryInvalid \<and> dl_reason d = il_reason l)"

lemma no_internal_rows: "internal_rows r ep no_identities = []"
  by (simp add: internal_rows_def lookup_opt_def no_identities_def js_get_def js_uniq_def)

lemma invalid_reason: "ingestion_normalize s r = Inl why \<Longrightarrow> why \<noteq> ''dry_run_context_invalid''"
  by (auto simp: ingestion_normalize_def Let_def split: if_splits)

lemma preview_predicts:
  assumes "ingestOne r batchId p cid s = (Inr l, t)" and "ib_profile b \<noteq> []" and "userId p \<noteq> []"
  shows "predicts (previewOne r b no_identities p s) l"
proof (cases "ingestion_normalize s r")
  case (Inl why)
  with assms(1) invalid_reason [OF Inl] show ?thesis by (auto simp: ingestOne_def previewOne_def predicts_def dry_def Let_def)
next
  case (Inr ep)
  with assms show ?thesis
    unfolding ingestOne_def previewOne_def Let_def no_internal_rows
    by (auto simp: call_Inr predicts_def dry_def review_line_def registerLocalLead_def split: if_splits list.splits)
qed

text \<open>The pass over the lines of a file: every line finds what it found at the start.\<close>

lemma lines_predicted:
  assumes "for_each (ingest_line b batchId p cid) rs u = (Inr las, t)" and "lead_ok u" and "date_parse u = date_parse s"
    and "distinct (concat (map line_keys rs))" and "ib_profile b \<noteq> []" and "userId p \<noteq> []"
    and "\<And>r ep. r \<in> set rs \<Longrightarrow> ingestion_normalize s r = Inr ep \<Longrightarrow> identity_matches r ep u = identity_matches r ep s"
  shows "list_all2 (\<lambda>r la. predicts (previewOne r b no_identities p s) (fst la) \<and> (snd la \<longrightarrow> il_outcome (fst la) = CREATED)) rs las"
  using assms(1-4,7)
proof (induction rs arbitrary: u las)
  case (Cons r rs)
  from Cons.prems(1) obtain la w las' where one: "ingest_line b batchId p cid r u = (Inr la, w)"
    and rest: "for_each (ingest_line b batchId p cid) rs w = (Inr las', t)" and las: "las = la # las'"
    by (auto simp: call_Inr)
  from ingest_line_run [OF one] obtain v where run: "ingestOne r batchId p (cid @ '':'' @ show_int (ir_lineNumber r)) u = (Inr (fst la), v)"
    and adds: "\<And>key ep s0. line_adds key ep p s0 v \<Longrightarrow> line_adds key ep p s0 w" and created: "snd la \<longrightarrow> il_outcome (fst la) = CREATED"
    by blast
  have same: "previewOne r b no_identities p u = previewOne r b no_identities p s"
    using Cons.prems(5) [of r] unfolding previewOne_def normalize_dates [OF Cons.prems(3)]
    by (cases "ingestion_normalize s r") (simp_all add: Let_def)
  have here: "predicts (previewOne r b no_identities p s) (fst la)"
    using preview_predicts [OF run assms(5,6)] by (simp add: same)
  have apart: "set (line_keys r) \<inter> set (line_keys q) = {}" if "q \<in> set rs" for q
    using Cons.prems(4) that by auto
  have w: "lead_ok w \<and> date_parse w = date_parse s \<and> (\<forall>q ep. q \<in> set rs \<longrightarrow> ingestion_normalize s q = Inr ep
      \<longrightarrow> identity_matches q ep w = identity_matches q ep s)"
  proof (cases "ingestion_normalize u r")
    case (Inl why)
    from ingestOne_invalid [OF Inl] run have "v = u" by (metis snd_conv)
    then have add: "line_adds None (None, None) p u w" using adds by simp
    have "identity_matches q ep w = identity_matches q ep s" if "q \<in> set rs" "ingestion_normalize s q = Inr ep" for q ep
      using matches_stable [OF add, of q ep] normalize_dates [OF Cons.prems(3)] that Cons.prems(5) [of q ep] by simp
    with add Cons.prems(2,3) show ?thesis by (simp add: line_adds_def lead_effect_def)
  next
    case (Inr er)
    from ingestOne_adds [OF Cons.prems(2) Inr, of p batchId "cid @ '':'' @ show_int (ir_lineNumber r)"] run
    have add: "line_adds (external_key r) er p u w" using adds by simp
    have "identity_matches q ep w = identity_matches q ep s" if "q \<in> set rs" "ingestion_normalize s q = Inr ep" for q ep
    proof -
      from that normalize_dates [OF Cons.prems(3)] have q: "ingestion_normalize u q = Inr ep" by simp
      from matches_stable [OF add q] apart_lines [OF Inr q apart [OF that(1)]] Cons.prems(5) [of q ep] that show ?thesis by simp
    qed
    with add Cons.prems(2,3) show ?thesis by (simp add: line_adds_def lead_effect_def)
  qed
  have "list_all2 (\<lambda>r la. predicts (previewOne r b no_identities p s) (fst la) \<and> (snd la \<longrightarrow> il_outcome (fst la) = CREATED)) rs las'"
    by (rule Cons.IH [OF rest]) (use w Cons.prems(4) in auto)
  with here created las show ?case by simp
qed simp

section \<open>The lines of a dry run\<close>

definition holds_only :: "(nat \<times> string option) set \<Rightarrow> file_identities \<Rightarrow> bool" where
  "holds_only K f \<longleftrightarrow> (\<forall>k. js_has (fi_externalIds f) k \<longrightarrow> (0, Some k) \<in> K)
     \<and> (\<forall>k. js_has (fi_emails f) k \<longrightarrow> (1, Some k) \<in> K) \<and> (\<forall>k. js_has (fi_phones f) k \<longrightarrow> (2, Some k) \<in> K)"

lemma truthy_text: "truthy x \<Longrightarrow> Some (opt_text x) = x"
  by (cases x) simp_all

lemma remember_holds:
  assumes "holds_only K f"
  shows "holds_only (K \<union> set (line_keys r)) (rememberIdentity r f)"
  using assms by (auto simp: holds_only_def rememberIdentity_def Let_def line_keys_def external_key_def js_has_def truthy_text split: option.splits)

lemma lookup_none:
  assumes "holds_only K f" and "ingestion_normalize s r = Inr ep" and "K \<inter> set (line_keys r) = {}"
  shows "internal_rows r ep f = []"
proof -
  note rk = normalized_keys [OF assms(2)]
  have "lookup_opt (fi_externalIds f) (external_key r) = None"
    using assms(1,3) rk(3) by (cases "external_key r") (auto simp: lookup_opt_def holds_only_def js_has_def)
  moreover have "lookup_opt (fi_emails f) (fst ep) = None"
    using assms(1,3) rk(1) by (cases "fst ep") (auto simp: lookup_opt_def holds_only_def js_has_def)
  moreover have "lookup_opt (fi_phones f) (snd ep) = None"
    using assms(1,3) rk(2) by (cases "snd ep") (auto simp: lookup_opt_def holds_only_def js_has_def)
  ultimately show ?thesis by (simp add: internal_rows_def js_uniq_def)
qed

lemma preview_alone:
  assumes "holds_only K f" and "K \<inter> set (line_keys r) = {}"
  shows "previewOne r b f p s = previewOne r b no_identities p s"
proof (cases "ingestion_normalize s r")
  case (Inr ep)
  from lookup_none [OF assms(1) this assms(2)] Inr show ?thesis by (simp add: previewOne_def no_internal_rows Let_def)
qed (simp add: previewOne_def)

lemma dry_pass:
  assumes "fold (dry_step b p s) rs (ls, k, f) = (ls', k', f')" and "holds_only K f" and "distinct (concat (map line_keys rs))"
    and "K \<inter> set (concat (map line_keys rs)) = {}"
  shows "\<exists>ds. ls' = ls @ ds \<and> list_all2 (\<lambda>r d. d\<lparr>dl_proposedAssigneeId := None\<rparr> = (previewOne r b no_identities p s)\<lparr>dl_proposedAssigneeId := None\<rparr>) rs ds"
  using assms
proof (induction rs arbitrary: ls k f K)
  case (Cons r rs)
  have pv: "previewOne r b f p s = previewOne r b no_identities p s"
    by (rule preview_alone [OF Cons.prems(2)]) (use Cons.prems(4) in auto)
  obtain d k1 f1 where step: "dry_step b p s r (ls, k, f) = (ls @ [d], k1, f1)"
    and d: "d\<lparr>dl_proposedAssigneeId := None\<rparr> = (previewOne r b f p s)\<lparr>dl_proposedAssigneeId := None\<rparr>"
    and f1: "f1 = f \<or> f1 = rememberIdentity r f"
    by (cases "dl_outcome (previewOne r b f p s) = DryValid") (auto simp: dry_step_def Let_def)
  have "holds_only (K \<union> set (line_keys r)) f1"
    using f1 Cons.prems(2) remember_holds [OF Cons.prems(2), of r] by (auto simp: holds_only_def)
  moreover have "(K \<union> set (line_keys r)) \<inter> set (concat (map line_keys rs)) = {}" "distinct (concat (map line_keys rs))"
    using Cons.prems(3,4) by auto
  moreover have "fold (dry_step b p s) rs (ls @ [d], k1, f1) = (ls', k', f')" using Cons.prems(1) step by simp
  ultimately obtain ds where "ls' = (ls @ [d]) @ ds"
    "list_all2 (\<lambda>r d. d\<lparr>dl_proposedAssigneeId := None\<rparr> = (previewOne r b no_identities p s)\<lparr>dl_proposedAssigneeId := None\<rparr>) rs ds"
    using Cons.IH by blast
  with d pv show ?case by (intro exI [of _ "d # ds"]) simp
qed simp

lemma dry_lines_alone:
  assumes "distinct (concat (map line_keys (ib_records b)))"
  shows "list_all2 (\<lambda>r d. d\<lparr>dl_proposedAssigneeId := None\<rparr> = (previewOne r b no_identities p s)\<lparr>dl_proposedAssigneeId := None\<rparr>)
     (ib_records b) (dry_lines b p s)"
proof -
  obtain ls k f where run: "fold (dry_step b p s) (ib_records b) ([], 0, no_identities) = (ls, k, f)" by (metis prod_cases3)
  have "holds_only {} no_identities" by (simp add: holds_only_def no_identities_def js_has_def js_get_def)
  from dry_pass [OF run this assms] run show ?thesis by (auto simp: dry_lines_def no_identities_def)
qed

lemma predicts_assignee:
  "d\<lparr>dl_proposedAssigneeId := None\<rparr> = d'\<lparr>dl_proposedAssigneeId := None\<rparr> \<Longrightarrow> predicts d' l \<Longrightarrow> predicts d l"
  by (cases d; cases d') (auto simp: predicts_def split: ingestion_outcome.splits)

lemma predicted_counts:
  assumes "list_all2 predicts ds ls"
  shows "dry_count DryValid ds = outcome_count CREATED ls" "dry_count DryDuplicate ds = outcome_count PROVENANCE_ATTACHED_LINE ls"
    "dry_count DryManualReview ds = outcome_count MANUAL_REVIEW ls" "dry_count DryInvalid ds = outcome_count INVALID ls"
    "dry_count DryIgnored ds = 0"
  using assms by (induction rule: list_all2_induct)
    (auto simp: dry_count_def outcome_count_def predicts_def split: ingestion_outcome.splits)

section \<open>Batches\<close>

lemma ingest_runs:
  assumes "ingest b p cid s = (Inr y, t)" and "js_get (ingestion_batches s) (ib_idempotencyKey b) = None"
  obtains las u where "for_each (ingest_line b (fresh_uuid s) p cid) (ib_records b) (drawn s) = (Inr las, u)"
    "validateBatch b = Inr ()" "ix_lines y = map fst las" "ix_total y = length las"
    "ix_created y = outcome_count CREATED (map fst las)" "ix_attached y = outcome_count PROVENANCE_ATTACHED_LINE (map fst las)"
    "ix_manualReview y = outcome_count MANUAL_REVIEW (map fst las)" "ix_invalid y = outcome_count INVALID (map fst las)"
    "ix_assigned y = length (filter snd las)" "js_get (ingestion_batches t) (ib_idempotencyKey b) = Some y"
    "leads t = leads u"
proof -
  have batches: "ingestion_batches (audit_by q c ty x a r k w) = ingestion_batches w" for q c ty x a r k and w :: "'a ingestion_state_scheme"
    using assignment_extension(1) [of q c ty x a r k w]
    by (cases "audit_by q c ty x a r k w"; cases w) simp
  from assms obtain las u where run: "for_each (ingest_line b (fresh_uuid s) p cid) (ib_records b) (drawn s) = (Inr las, u)"
    and valid: "validateBatch b = Inr ()"
    unfolding ingest_def Let_def by (auto simp: call_Inr split: if_splits sum.splits option.splits)
  show ?thesis
    by (rule that [OF run valid])
      (use assms valid run in \<open>auto simp: ingest_def Let_def batches split: if_splits\<close>)
qed

text \<open>A line creates a lead exactly when it says so.\<close>

lemma ingestOne_count:
  assumes "ingestOne r batchId p cid s = (Inr l, t)" and "lead_ok s"
  shows "length (leads t) = length (leads s) + (if il_outcome l = CREATED then 1 else 0) \<and> il_lineNumber l = ir_lineNumber r"
proof (cases "ingestion_normalize s r")
  case (Inl why)
  with assms(1) show ?thesis by (auto simp: ingestOne_def)
next
  case (Inr ep)
  have attach: "length (leads t') = length (leads u)" if "attachProvenance i r batchId key p cid u = (q, t')" for i key u q t'
    using attach_contacts [of i r batchId key p cid u] that length_contacts by (metis snd_conv)
  have "js_get (leads s) (fresh_uuid (drawn s)) = None"
  proof (cases "js_get (leads s) (fresh_uuid (drawn s))")
    case (Some l')
    with assms(2) have "fresh_uuid (drawn s) \<in> issued s" "inj (uuid s)" unfolding lead_ok_def by blast+
    then show ?thesis by (auto simp: issued_def fresh_uuid_def drawn_def inj_eq)
  qed
  then have grown: "length (js_set (leads s) (fresh_uuid (drawn s)) x) = length (leads s) + 1" for x
    by (simp add: js_set_fresh)
  show ?thesis
    using assms(1) unfolding ingestOne_def Inr sum.case Let_def registerLocalLead_def prod.case
    by (auto simp: call_Inr review_line_def imported_fields grown split: if_splits list.splits dest!: attach)
qed

lemma lines_count:
  assumes "for_each (ingest_line b batchId p cid) rs s = (Inr las, t)" and "lead_ok s"
  shows "length (leads t) = length (leads s) + outcome_count CREATED (map fst las)
    \<and> map (il_lineNumber \<circ> fst) las = map ir_lineNumber rs \<and> (\<forall>la\<in>set las. snd la \<longrightarrow> il_outcome (fst la) = CREATED)"
  using assms
proof (induction rs arbitrary: s las)
  case (Cons r rs)
  from Cons.prems(1) obtain la w las' where one: "ingest_line b batchId p cid r s = (Inr la, w)"
    and rest: "for_each (ingest_line b batchId p cid) rs w = (Inr las', t)" and las: "las = la # las'"
    by (auto simp: call_Inr)
  from ingest_line_run [OF one] obtain v where run: "ingestOne r batchId p (cid @ '':'' @ show_int (ir_lineNumber r)) s = (Inr (fst la), v)"
    and adds: "\<And>key ep s0. line_adds key ep p s0 v \<Longrightarrow> line_adds key ep p s0 w" and created: "snd la \<longrightarrow> il_outcome (fst la) = CREATED"
    and kept: "length (leads w) = length (leads v)"
    by blast
  have "lead_ok w"
  proof (cases "ingestion_normalize s r")
    case (Inl why)
    from ingestOne_invalid [OF Inl] run have "v = s" by (metis snd_conv)
    with adds [of None "(None, None)" s] Cons.prems(2) show ?thesis by (simp add: line_adds_def lead_effect_def)
  next
    case (Inr ep)
    from ingestOne_adds [OF Cons.prems(2) Inr, of p batchId "cid @ '':'' @ show_int (ir_lineNumber r)"] run
    have "line_adds (external_key r) ep p s w" using adds by simp
    with Cons.prems(2) show ?thesis by (simp add: line_adds_def lead_effect_def)
  qed
  from Cons.IH [OF rest this] ingestOne_count [OF run Cons.prems(2)] created kept las
  show ?case by (auto simp: outcome_count_def)
qed (simp add: outcome_count_def)

lemma outcome_partition:
  "outcome_count CREATED ls + outcome_count PROVENANCE_ATTACHED_LINE ls + outcome_count MANUAL_REVIEW ls + outcome_count INVALID ls = length ls"
proof (induction ls)
  case (Cons l ls)
  then show ?case by (cases "il_outcome l") (simp_all add: outcome_count_def)
qed (simp add: outcome_count_def)

lemma drawn_ok: "lead_ok s \<Longrightarrow> lead_ok (drawn s)"
  using lead_effect_same [of "drawn s" s undefined] by (auto simp: lead_effect_def drawn_def)

text \<open>
  C24: A batch accounts for every line it was given: the lines come back in their order, each as
  created, attached, to review or invalid; exactly as many leads exist more as lines were
  created; no more lines are assigned than created; and the batch sent again by a manager gives
  the same answer and does nothing.
\<close>

theorem ingestion_accounts_for_lines:
  assumes "lead_ok s" and "ingest b p cid s = (Inr y, t)" and "js_get (ingestion_batches s) (ib_idempotencyKey b) = None"
  shows "map il_lineNumber (ix_lines y) = map ir_lineNumber (ib_records b)
    \<and> ix_created y + ix_attached y + ix_manualReview y + ix_invalid y = ix_total y \<and> ix_total y = length (ib_records b)
    \<and> length (leads t) = length (leads s) + ix_created y \<and> ix_assigned y \<le> ix_created y
    \<and> (is_manager q \<longrightarrow> ingest b q cid' t = (Inr y, t))"
proof -
  obtain las u where run: "for_each (ingest_line b (fresh_uuid s) p cid) (ib_records b) (drawn s) = (Inr las, u)"
    and y: "validateBatch b = Inr ()" "ix_lines y = map fst las" "ix_total y = length las"
    "ix_created y = outcome_count CREATED (map fst las)" "ix_attached y = outcome_count PROVENANCE_ATTACHED_LINE (map fst las)"
    "ix_manualReview y = outcome_count MANUAL_REVIEW (map fst las)" "ix_invalid y = outcome_count INVALID (map fst las)"
    "ix_assigned y = length (filter snd las)" "js_get (ingestion_batches t) (ib_idempotencyKey b) = Some y"
    "leads t = leads u"
    by (rule ingest_runs [OF assms(2,3)])
  note count = lines_count [OF run drawn_ok [OF assms(1)]]
  from count have lines: "map il_lineNumber (ix_lines y) = map ir_lineNumber (ib_records b)" by (simp add: y)
  then have "length (ix_lines y) = length (ib_records b)" by (metis length_map)
  then have "ix_total y = length (ib_records b)" by (simp add: y)
  moreover have "ix_created y + ix_attached y + ix_manualReview y + ix_invalid y = ix_total y"
    using outcome_partition [of "map fst las"] by (simp add: y)
  moreover have "ix_assigned y \<le> ix_created y"
  proof -
    have "length (filter snd las) \<le> length (filter (\<lambda>la. il_outcome (fst la) = CREATED) las)"
    proof -
      have "filter snd las = filter snd (filter (\<lambda>la. il_outcome (fst la) = CREATED) las)"
        using count by (auto intro!: filter_cong)
      then show ?thesis by (metis length_filter_le)
    qed
    then show ?thesis by (simp add: y outcome_count_def filter_map comp_def)
  qed
  moreover have "ingest b q cid' t = (Inr y, t)" if "is_manager q" using that y(1,9) by (simp add: ingest_def)
  ultimately show ?thesis using lines count y(4,10) by simp
qed

text \<open>
  C25: On a file whose lines share no identity, the dry run predicts the ingestion: made right
  after it, the ingestion of the same lines gives each line the predicted outcome, attaches it
  to the predicted lead, sends it to review or refuses it for the predicted reason, and the
  counts agree.
\<close>

theorem dry_run_predicts_ingestion:
  assumes "lead_ok s" and "dryRun b p cid s = (Inr x, s1)" and "ingest (b\<lparr>ib_confirmed := True\<rparr>) p cid' s1 = (Inr y, t)"
    and "js_get (ingestion_batches s) (ib_idempotencyKey b) = None" and "distinct (concat (map line_keys (ib_records b)))"
    and "userId p \<noteq> []"
  shows "list_all2 predicts (dx_lines x) (ix_lines y) \<and> dx_valid x = ix_created y \<and> dx_duplicates x = ix_attached y
    \<and> dx_manualReview x = ix_manualReview y \<and> dx_invalid x = ix_invalid y \<and> dx_ignored x = 0 \<and> dx_total x = ix_total y"
proof -
  let ?b = "b\<lparr>ib_confirmed := True\<rparr>"
  from assms(2) have build: "buildDryRun b p s = Inr x" and s1: "s1 = recordDryRunAudit b p cid x s"
    by (auto simp: dryRun_def split: sum.splits)
  from build have x: "dx_lines x = dry_lines b p s" "dx_valid x = dry_count DryValid (dry_lines b p s)"
    "dx_duplicates x = dry_count DryDuplicate (dry_lines b p s)" "dx_manualReview x = dry_count DryManualReview (dry_lines b p s)"
    "dx_invalid x = dry_count DryInvalid (dry_lines b p s)" "dx_ignored x = dry_count DryIgnored (dry_lines b p s)"
    "dx_total x = length (dry_lines b p s)"
    by (auto simp: buildDryRun_def Let_def split: if_splits sum.splits)
  have more: "assignment_state.more s1 = assignment_state.more s" by (simp add: s1 recordDryRunAudit_def)
  then have same: "provenanceByExternalId s1 = provenanceByExternalId s" "ingestion_batches s1 = ingestion_batches s"
    by (cases s1; cases s; simp)+
  have lead: "lead_effect p s s1" "leads s1 = leads s" "date_parse s1 = date_parse s"
    by (auto simp: s1 recordDryRunAudit_def intro: effect_audit)
  obtain las u where run: "for_each (ingest_line ?b (fresh_uuid s1) p cid') (ib_records ?b) (drawn s1) = (Inr las, u)"
    and y: "validateBatch ?b = Inr ()" "ix_lines y = map fst las" "ix_total y = length las"
    "ix_created y = outcome_count CREATED (map fst las)" "ix_attached y = outcome_count PROVENANCE_ATTACHED_LINE (map fst las)"
    "ix_manualReview y = outcome_count MANUAL_REVIEW (map fst las)" "ix_invalid y = outcome_count INVALID (map fst las)"
    by (rule ingest_runs [OF assms(3)]) (use assms(4) same in simp_all)
  from y(1) have profile: "ib_profile ?b \<noteq> []" by (auto simp: validateBatch_def split: if_splits)
  have found: "identity_matches r ep (drawn s1) = identity_matches r ep s" for r ep
  proof -
    have "provenanceByExternalId (drawn s1) = provenanceByExternalId s" "leads (drawn s1) = leads s"
      using same lead by (simp_all add: drawn_def)
    then show ?thesis unfolding identity_matches_def findIdentityMatches_def by (simp only:)
  qed
  have ok: "lead_ok (drawn s1)" using lead(1) assms(1) drawn_ok by (auto simp: lead_effect_def)
  have "list_all2 (\<lambda>r la. predicts (previewOne r ?b no_identities p s) (fst la) \<and> (snd la \<longrightarrow> il_outcome (fst la) = CREATED)) (ib_records ?b) las"
    by (rule lines_predicted [OF run ok _ _ profile assms(6)]) (use lead assms(5) found in \<open>simp_all add: drawn_def\<close>)
  moreover have "ib_profile ?b = ib_profile b" by simp
  then have "previewOne r ?b no_identities p s = previewOne r b no_identities p s" for r
    by (simp only: previewOne_def)
  ultimately have pre: "list_all2 (\<lambda>r la. predicts (previewOne r b no_identities p s) (fst la)) (ib_records b) las"
    by (auto elim: list_all2_mono)
  have "list_all2 predicts (dry_lines b p s) (map fst las)"
    unfolding list_all2_conv_all_nth
  proof (intro conjI allI impI)
    note dry = dry_lines_alone [OF assms(5), of p s]
    show len: "length (dry_lines b p s) = length (map fst las)"
      using list_all2_lengthD [OF dry] list_all2_lengthD [OF pre] by simp
    fix n assume n: "n < length (dry_lines b p s)"
    then have "predicts (previewOne (ib_records b ! n) b no_identities p s) (map fst las ! n)"
      using list_all2_nthD2 [OF pre, of n] len by simp
    with list_all2_nthD2 [OF dry n] predicts_assignee show "predicts (dry_lines b p s ! n) (map fst las ! n)" by blast
  qed
  with predicted_counts [OF this] list_all2_lengthD [OF this] show ?thesis by (simp add: x y)
qed

section \<open>A run\<close>

definition demo_row :: "int \<Rightarrow> string \<Rightarrow> ingestion_record" where
  "demo_row n mail = \<lparr>ir_lineNumber = n, ir_firstName = ''Ada'', ir_lastName = ''L'', ir_email = Some mail, ir_phone = None,
     ir_campus = Some ''Casa'', ir_campaign = Some ''spring'', ir_educationLevel = Some ''Bac'', ir_program = Some ''Info'',
     ir_source = ''WEB_FORM'', ir_technicalSystem = ''zap'', ir_originalSource = ''form'', ir_recentSource = None,
     ir_externalId = None, ir_historicalStatus = None, ir_structuredPriorContact = False, ir_occurredAt = None,
     ir_historicalActivities = []\<rparr>"

definition demo_file :: ingestion_batch where
  "demo_file = \<lparr>ib_idempotencyKey = ''file-0001'', ib_profile = ''CUSTOM'', ib_confirmed = True, ib_strategy = ''UNASSIGNED'',
     ib_targetUserId = None, ib_records = [demo_row 1 ''N@y.fr'', demo_row 2 ''A@b.fr'']\<rparr>"

definition ingestion_demo :: ingestion_state where
  "ingestion_demo = lead_demo CONTACTED (assignment_state_ext [] [] [] [] [] (ingestion_state_ext [] [] [] [] ()))"

lemma ingestion_demo_ok: "lead_ok ingestion_demo" "js_get (ingestion_batches ingestion_demo) (ib_idempotencyKey demo_file) = None"
  unfolding ingestion_demo_def by (rule lead_demo_ok) (simp add: lead_demo_def note_demo_def user_demo_def demo_host_def js_get_def)

theorem ingestion_accounts_for_lines_witness:
  "length (leads (snd (ingest demo_file demo_manager ''c'' ingestion_demo))) = 2"
proof -
  let ?run = "ingest demo_file demo_manager ''c'' ingestion_demo"
  have "case fst ?run of Inr y \<Rightarrow> ix_created y = 1 | Inl e \<Rightarrow> False" by code_simp
  then obtain y t where run: "?run = (Inr y, t)" and one: "ix_created y = 1" by (cases ?run; cases "fst ?run") auto
  from ingestion_accounts_for_lines [OF ingestion_demo_ok(1) run ingestion_demo_ok(2)]
  have "length (leads t) = length (leads ingestion_demo) + ix_created y" by blast
  then show ?thesis unfolding run snd_conv one by (simp add: ingestion_demo_def)
qed

theorem dry_run_predicts_ingestion_witness:
  "case fst (dryRun demo_file demo_manager ''c'' ingestion_demo) of Inl e \<Rightarrow> False
     | Inr x \<Rightarrow> (case fst (ingest demo_file demo_manager ''d'' (snd (dryRun demo_file demo_manager ''c'' ingestion_demo))) of
         Inl e \<Rightarrow> False | Inr y \<Rightarrow> list_all2 predicts (dx_lines x) (ix_lines y))"
proof -
  let ?dry = "dryRun demo_file demo_manager ''c'' ingestion_demo"
  have "validateBatch (demo_file\<lparr>ib_confirmed := True\<rparr>) = Inr ()" "is_manager demo_manager" by code_simp+
  then have "is_ok (fst ?dry)" by (simp add: dryRun_def buildDryRun_def Let_def)
  then obtain x s1 where dry: "?dry = (Inr x, s1)" by (cases ?dry; cases "fst ?dry") auto
  have "is_ok (fst (ingest demo_file demo_manager ''d'' (snd ?dry)))" by code_simp
  then have "is_ok (fst (ingest demo_file demo_manager ''d'' s1))" unfolding dry by simp
  then obtain y t where run: "ingest demo_file demo_manager ''d'' s1 = (Inr y, t)"
    by (cases "ingest demo_file demo_manager ''d'' s1"; cases "fst (ingest demo_file demo_manager ''d'' s1)") auto
  have confirmed: "demo_file\<lparr>ib_confirmed := True\<rparr> = demo_file" by (simp add: demo_file_def)
  have apart: "distinct (concat (map line_keys (ib_records demo_file)))" by code_simp
  have known: "userId demo_manager \<noteq> []" by code_simp
  from dry_run_predicts_ingestion [OF ingestion_demo_ok(1) dry _ ingestion_demo_ok(2) apart known, unfolded confirmed, OF run]
  show ?thesis unfolding dry fst_conv snd_conv run sum.case by blast
qed

end
