(* ===== verification/SavedViews.thy ===== *)
theory SavedViews
  imports Notifications
begin

text \<open>
  Saved list views of a user without a database: \<open>leads/saved-lead-view.service.ts\<close>.
\<close>

section \<open>Views\<close>

definition allowedKeys :: "string list" where
  "allowedKeys = [''search'', ''assignedToId'', ''collaboratorId'', ''adviserId'', ''status'', ''temperature'', ''source'',
     ''channel'', ''program'', ''campaign'', ''campus'', ''assignmentMode'', ''importBatchId'', ''acquisitionKind'',
     ''createdFrom'', ''createdTo'', ''createdBefore'', ''treatmentFrom'', ''treatmentTo'', ''treatmentState'', ''view'',
     ''savedView'', ''sortBy'', ''sortDirection'', ''pageSize'']"

record saved_view =
  sv_id :: string
  sv_ownerId :: string
  sv_name :: string
  sv_filters :: "(string \<times> string) list"
  sv_version :: int
  sv_createdAt :: int
  sv_updatedAt :: int

record saved_view_input =
  svi_name :: string
  svi_filters :: json
  svi_expectedVersion :: "jsnum option"

record saved_view_state = audit_state +
  saved_views :: "(string, saved_view) js_map"

definition view_readAllowed :: "principal \<Rightarrow> bool" where
  "view_readAllowed p = has_role p [ADMISSIONS, MANAGER, ADMIN, SUPER_ADMIN, AUDITOR]"

text \<open>\<open>/^[\p{L}\p{N} .,'()_-]+$/u\<close> of a trimmed name.\<close>

definition view_name :: "string \<Rightarrow> string result" where
  "view_name v =
     (let n = js_trim v
      in if n = [] \<or> 80 < length n
            \<or> \<not> list_all (\<lambda>c. letter_or_number c
                 \<or> c \<in> {CHR '' '', CHR ''.'', CHR '','', CHR 0x27, CHR ''('', CHR '')'', CHR ''_'', CHR ''-''}) n
         then Inl (BadRequest ''saved_view_name_invalid'') else Inr n)"

definition filter_entry_ok :: "string \<times> json \<Rightarrow> bool" where
  "filter_entry_ok kv = (fst kv \<in> set allowedKeys \<and> (case snd kv of JStr t \<Rightarrow> length t \<le> 120 | _ \<Rightarrow> False))"

definition entry_text :: "json \<Rightarrow> string" where
  "entry_text v = (case v of JStr t \<Rightarrow> js_trim t | _ \<Rightarrow> [])"

definition view_filters :: "json \<Rightarrow> principal \<Rightarrow> (string \<times> string) list result" where
  "view_filters v p = (case v of
     JObj kvs \<Rightarrow>
       (if \<not> list_all filter_entry_ok kvs then Inl (BadRequest ''saved_view_filter_forbidden'')
        else (let fs = map (\<lambda>kv. (fst kv, entry_text (snd kv))) kvs
          in if truthy (map_of fs ''campus'') \<and> \<not> reaches_campus p (opt_text (map_of fs ''campus''))
             then Inl (Forbidden ''saved_view_campus_forbidden'') else Inr fs))
   | _ \<Rightarrow> Inl (BadRequest ''saved_view_filters_invalid''))"

definition view_audited ::
  "string \<Rightarrow> saved_view \<Rightarrow> principal \<Rightarrow> string \<Rightarrow> 'a saved_view_state_scheme \<Rightarrow> 'a saved_view_state_scheme" where
  "view_audited ty v p cid s =
     audit_by p cid ty JUndef
       (JObj [(''viewId'', JStr (sv_id v)), (''name'', JStr (sv_name v)),
              (''filterKeys'', JArr (map (\<lambda>kv. JStr (fst kv)) (sv_filters v)))])
       SUCCESS (''audit:'' @ ty @ '':'' @ sv_id v @ '':'' @ show_int (sv_version v)) s"

section \<open>Operations\<close>

definition own_views :: "principal \<Rightarrow> 'a saved_view_state_scheme \<Rightarrow> saved_view list" where
  "own_views p s = filter (\<lambda>v. sv_ownerId v = userId p) (js_values (saved_views s))"

definition view_list :: "principal \<Rightarrow> 'a saved_view_state_scheme \<Rightarrow> saved_view list result" where
  "view_list p s =
     (if \<not> view_readAllowed p then Inl (Forbidden ''saved_view_role_forbidden'')
      else Inr (sort_by (\<lambda>a b. cmp_or (cmp_int (sv_updatedAt b) (sv_updatedAt a)) (locale_cmp s (sv_id a) (sv_id b)))
                  (own_views p s)))"

definition view_create ::
  "saved_view_input \<Rightarrow> principal \<Rightarrow> string \<Rightarrow> 'a saved_view_state_scheme \<Rightarrow> saved_view result \<times> 'a saved_view_state_scheme" where
  "view_create i p cid s =
     (if \<not> is_operational p then (Inl (Forbidden ''saved_view_role_forbidden''), s)
      else (case (view_name (svi_name i), view_filters (svi_filters i) p) of
        (Inl e, _) \<Rightarrow> (Inl e, s)
      | (Inr _, Inl e) \<Rightarrow> (Inl e, s)
      | (Inr name, Inr fs) \<Rightarrow>
          (case view_list p s of
             Inl e \<Rightarrow> (Inl e, s)
           | Inr vs \<Rightarrow>
               if 25 \<le> length vs then (Inl (BadRequest ''saved_view_limit_reached''), s)
               else if list_ex (\<lambda>v. sv_ownerId v = userId p \<and> js_lower (sv_name v) = js_lower name) (js_values (saved_views s))
               then (Inl (Conflict ''saved_view_name_conflict''), s)
               else (let v = \<lparr>sv_id = fresh_uuid s, sv_ownerId = userId p, sv_name = name, sv_filters = fs, sv_version = 1,
                           sv_createdAt = now s, sv_updatedAt = now s\<rparr>
                     in (Inr v, view_audited ''SAVED_LEAD_VIEW_CREATED'' v p cid
                           ((drawn s)\<lparr>saved_views := js_set (saved_views s) (sv_id v) v\<rparr>))))))"

definition view_owned :: "string \<Rightarrow> principal \<Rightarrow> 'a saved_view_state_scheme \<Rightarrow> saved_view result" where
  "view_owned i p s =
     (case js_get (saved_views s) i of
        None \<Rightarrow> Inl (NotFound ''saved_view_not_found'')
      | Some v \<Rightarrow> if sv_ownerId v \<noteq> userId p then Inl (Forbidden ''saved_view_owner_forbidden'') else Inr v)"

definition view_update ::
  "string \<Rightarrow> saved_view_input \<Rightarrow> principal \<Rightarrow> string \<Rightarrow> 'a saved_view_state_scheme
     \<Rightarrow> saved_view result \<times> 'a saved_view_state_scheme" where
  "view_update i inp p cid s =
     (if \<not> is_operational p then (Inl (Forbidden ''saved_view_role_forbidden''), s)
      else (case view_owned i p s of
        Inl e \<Rightarrow> (Inl e, s)
      | Inr v \<Rightarrow>
          if (case svi_expectedVersion inp of None \<Rightarrow> False | Some n \<Rightarrow> n \<noteq> JInt (sv_version v))
          then (Inl (Conflict ''saved_view_version_conflict''), s)
          else (case (view_name (svi_name inp), view_filters (svi_filters inp) p) of
            (Inl e, _) \<Rightarrow> (Inl e, s)
          | (Inr _, Inl e) \<Rightarrow> (Inl e, s)
          | (Inr name, Inr fs) \<Rightarrow>
              (let v' = v\<lparr>sv_name := name, sv_filters := fs, sv_version := sv_version v + 1, sv_updatedAt := now s\<rparr>
               in (Inr v', view_audited ''SAVED_LEAD_VIEW_UPDATED'' v' p cid
                     (s\<lparr>saved_views := js_set (saved_views s) i v'\<rparr>))))))"

definition view_remove ::
  "string \<Rightarrow> principal \<Rightarrow> string \<Rightarrow> 'a saved_view_state_scheme \<Rightarrow> unit result \<times> 'a saved_view_state_scheme" where
  "view_remove i p cid s =
     (if \<not> is_operational p then (Inl (Forbidden ''saved_view_role_forbidden''), s)
      else (case view_owned i p s of
        Inl e \<Rightarrow> (Inl e, s)
      | Inr v \<Rightarrow> (Inr (), view_audited ''SAVED_LEAD_VIEW_DELETED'' v p cid
                   (s\<lparr>saved_views := js_remove (saved_views s) i\<rparr>))))"

end
