(* ===== verification/Broadcasts.thy ===== *)
theory Broadcasts
  imports Notifications
begin

text \<open>
  Internal broadcasts: \<open>broadcast/broadcast.service.ts\<close> and its publisher
  \<open>broadcast.publisher.ts\<close>, which notifies the frozen recipients.
\<close>

section \<open>Broadcasts\<close>

datatype broadcast_status = BcDraft | BcCancelled | BcConfirmed

fun broadcast_status_name :: "broadcast_status \<Rightarrow> string" where
  "broadcast_status_name BcDraft = ''DRAFT''"
| "broadcast_status_name BcCancelled = ''CANCELLED''"
| "broadcast_status_name BcConfirmed = ''CONFIRMED''"

record audience =
  au_campusIds :: "string list"
  au_teamIds :: "string list"
  au_roles :: "string list"
  au_explicitRecipientIds :: "string list"

record broadcast =
  bc_id :: string
  bc_title :: string
  bc_content :: string
  bc_internalLink :: "string option"
  bc_authorId :: string
  bc_audience :: audience
  bc_state :: broadcast_status
  bc_version :: int
  bc_recipientCount :: nat
  bc_recipientIds :: "string list"
  bc_createdAt :: int
  bc_confirmedAt :: "int option"
  bc_cancelledAt :: "int option"
  bc_correctionOf :: "string option"

record create_broadcast =
  bi_title :: "string option"
  bi_content :: "string option"
  bi_internalLink :: "string option"
  bi_audience :: "audience option"
  bi_clientRequestId :: "string option"

record broadcast_service = notification_state +
  broadcasts :: "(string, broadcast) js_map"
  broadcast_requests :: "(string, string) js_map"

text \<open>\<open>/^\/(?:leads|chat|notifications)(?:\/[a-zA-Z0-9-]+)*$/\<close>.\<close>

definition INTERNAL_LINK :: "string \<Rightarrow> bool" where
  "INTERNAL_LINK v = (case js_split (CHR ''/'') v of
     [] # w # ws \<Rightarrow> w \<in> {''leads'', ''chat'', ''notifications''}
        \<and> list_all (\<lambda>x. x \<noteq> [] \<and> list_all (\<lambda>c. is_alnum c \<or> c = CHR ''-'') x) ws
   | _ \<Rightarrow> False)"

definition criteriaCount :: "audience \<Rightarrow> nat" where
  "criteriaCount a = length (au_campusIds a) + length (au_teamIds a) + length (au_roles a) + length (au_explicitRecipientIds a)"

definition normalizeAudience :: "'a host_scheme \<Rightarrow> audience option \<Rightarrow> audience result" where
  "normalizeAudience s i =
     (let tidy = (\<lambda>f. sort_by (locale_cmp s) (js_uniq (case i of None \<Rightarrow> [] | Some a \<Rightarrow> f a)));
          a = \<lparr>au_campusIds = tidy au_campusIds, au_teamIds = tidy au_teamIds, au_roles = tidy au_roles,
               au_explicitRecipientIds = tidy au_explicitRecipientIds\<rparr>
      in if criteriaCount a = 0 then Inl (BadRequest ''broadcast_audience_empty'')
         else if \<not> list_all (all_in word_dash 2 64) (au_campusIds a @ au_teamIds a @ au_explicitRecipientIds a)
                 \<or> \<not> list_all isRole (au_roles a)
         then Inl (BadRequest ''broadcast_audience_invalid'') else Inr a)"

definition assertAudienceScope :: "principal \<Rightarrow> audience \<Rightarrow> unit result" where
  "assertAudienceScope p a =
     (if is_admin p then Inr ()
      else if MANAGER \<notin> set (p_roles p) \<or> list_ex (\<lambda>r. r = ''ADMIN'' \<or> r = ''SUPER_ADMIN'') (au_roles a)
      then Inl (Forbidden ''broadcast_audience_out_of_scope'')
      else if \<not> global_scope p \<and> (list_ex (\<lambda>i. CampusScope i \<notin> set (scopes p)) (au_campusIds a)
                                  \<or> list_ex (\<lambda>i. TeamScope i \<notin> set (scopes p)) (au_teamIds a))
      then Inl (Forbidden ''broadcast_audience_out_of_scope'') else Inr ())"

definition userInScope :: "principal \<Rightarrow> collaborator \<Rightarrow> bool" where
  "userInScope p u = (is_admin p \<or> global_scope p
     \<or> list_ex (\<lambda>sc. case sc of CampusScope i \<Rightarrow> Some i = co_campusId u | TeamScope i \<Rightarrow> Some i = co_teamId u
                     | GlobalScope \<Rightarrow> False) (scopes p))"

definition in_audience :: "audience \<Rightarrow> collaborator \<Rightarrow> bool" where
  "in_audience a u =
     ((au_campusIds a = [] \<or> (case co_campusId u of None \<Rightarrow> False | Some c \<Rightarrow> c \<in> set (au_campusIds a)))
      \<and> (au_teamIds a = [] \<or> (case co_teamId u of None \<Rightarrow> False | Some t \<Rightarrow> t \<in> set (au_teamIds a)))
      \<and> (au_roles a = [] \<or> list_ex (\<lambda>r. role_name r \<in> set (au_roles a)) (co_roles u))
      \<and> (au_explicitRecipientIds a = [] \<or> co_id u \<in> set (au_explicitRecipientIds a)))"

definition resolveAudience :: "principal \<Rightarrow> audience \<Rightarrow> 'a user_state_scheme \<Rightarrow> collaborator list result" where
  "resolveAudience p a s =
     (case assertAudienceScope p a of
        Inl e \<Rightarrow> Inl e
      | Inr _ \<Rightarrow>
          (let us = filter (\<lambda>u. in_audience a u \<and> userInScope p u) (user_list (Some True) None None s)
           in if us = [] then Inl (BadRequest ''broadcast_audience_empty'')
              else if \<not> list_all (\<lambda>i. i \<in> set (map co_id us)) (au_explicitRecipientIds a)
              then Inl (Forbidden ''broadcast_audience_out_of_scope'') else Inr us))"

text \<open>\<open>LocalBroadcastPublisher.publish\<close>: one notification per recipient.\<close>

definition broadcast_note :: "string \<Rightarrow> bool \<Rightarrow> string \<Rightarrow> notification_input" where
  "broadcast_note i correction u = \<lparr>ni_recipientId = u, ni_type = (if correction then BROADCAST_CORRECTION else BROADCAST),
     ni_priority = PrioNormal, ni_resourceType = ResBroadcast, ni_resourceId = i, ni_href = ''/broadcasts/'' @ i\<rparr>"

definition publish ::
  "string \<Rightarrow> string list \<Rightarrow> bool \<Rightarrow> 'a broadcast_service_scheme \<Rightarrow> nat result \<times> 'a broadcast_service_scheme" where
  "publish i recipients correction s =
     call (for_each (\<lambda>u. notification_create (broadcast_note i correction u) (''broadcast:'' @ i @ '':recipient:'' @ u)) recipients s)
       (\<lambda>_ s1. (Inr (length recipients), s1))"

section \<open>Operations\<close>

definition text_between :: "nat \<Rightarrow> nat \<Rightarrow> string \<Rightarrow> bool" where
  "text_between lo hi t = (lo \<le> length t \<and> length t \<le> hi)"

definition broadcast_create ::
  "principal \<Rightarrow> create_broadcast \<Rightarrow> string \<Rightarrow> 'a broadcast_service_scheme \<Rightarrow> broadcast result \<times> 'a broadcast_service_scheme" where
  "broadcast_create p i cid s =
     (if \<not> is_manager p then (Inl (Forbidden ''broadcast_author_forbidden''), s)
      else (let title = js_trim (opt_text (bi_title i)); content = js_trim (opt_text (bi_content i));
                req = js_trim (opt_text (bi_clientRequestId i))
        in if \<not> text_between 3 120 title \<or> \<not> text_between 3 4000 content \<or> \<not> all_in word_colon 8 128 req
           then (Inl (BadRequest ''broadcast_content_invalid''), s)
           else if truthy (bi_internalLink i) \<and> \<not> INTERNAL_LINK (opt_text (bi_internalLink i))
           then (Inl (BadRequest ''broadcast_link_invalid''), s)
           else (case normalizeAudience s (bi_audience i) of
             Inl e \<Rightarrow> (Inl e, s)
           | Inr a \<Rightarrow>
               (case resolveAudience p a s of
                  Inl e \<Rightarrow> (Inl e, s)
                | Inr _ \<Rightarrow>
                    (let key = userId p @ '':'' @ req
                     in case js_get (broadcast_requests s) key of
                          Some k \<Rightarrow> (case js_get (broadcasts s) k of None \<Rightarrow> (Inl (Thrown ''TypeError''), s) | Some b \<Rightarrow> (Inr b, s))
                        | None \<Rightarrow>
                            (let b = \<lparr>bc_id = fresh_uuid s, bc_title = title, bc_content = content,
                                   bc_internalLink = (if truthy (bi_internalLink i) then bi_internalLink i else None),
                                   bc_authorId = userId p, bc_audience = a, bc_state = BcDraft, bc_version = 1,
                                   bc_recipientCount = 0, bc_recipientIds = [], bc_createdAt = now s, bc_confirmedAt = None,
                                   bc_cancelledAt = None, bc_correctionOf = None\<rparr>;
                                 s1 = (drawn s)\<lparr>broadcasts := js_set (broadcasts s) (bc_id b) b,
                                   broadcast_requests := js_set (broadcast_requests s) key (bc_id b)\<rparr>
                             in (Inr b, audit_by p cid ''BROADCAST_DRAFT_CREATED'' JUndef
                                   (JObj [(''broadcastId'', JStr (bc_id b)), (''state'', JStr (broadcast_status_name BcDraft)),
                                          (''audienceCriteriaCount'', JNat (criteriaCount a))])
                                   SUCCESS (''broadcast-draft:'' @ bc_id b) s1)))))))"

definition ownedDraft :: "string \<Rightarrow> principal \<Rightarrow> 'a broadcast_service_scheme \<Rightarrow> broadcast result" where
  "ownedDraft i p s =
     (if \<not> is_manager p then Inl (Forbidden ''broadcast_author_forbidden'')
      else (case js_get (broadcasts s) i of
        None \<Rightarrow> Inl (NotFound ''broadcast_not_found'')
      | Some b \<Rightarrow> if bc_authorId b \<noteq> userId p then Inl (NotFound ''broadcast_not_found'')
                  else if bc_state b \<noteq> BcDraft then Inl (Conflict ''broadcast_immutable'') else Inr b))"

definition broadcast_preview :: "string \<Rightarrow> principal \<Rightarrow> 'a broadcast_service_scheme \<Rightarrow> (int \<times> nat) result" where
  "broadcast_preview i p s =
     (case ownedDraft i p s of
        Inl e \<Rightarrow> Inl e
      | Inr b \<Rightarrow> map_sum id (\<lambda>us. (bc_version b, length us)) (resolveAudience p (bc_audience b) s))"

record confirm_broadcast =
  fb_confirmed :: bool
  fb_expectedVersion :: "jsnum option"
  fb_expectedRecipientCount :: "jsnum option"
  fb_idempotencyKey :: "string option"

definition broadcast_confirm ::
  "string \<Rightarrow> principal \<Rightarrow> confirm_broadcast \<Rightarrow> string \<Rightarrow> 'a broadcast_service_scheme
     \<Rightarrow> broadcast result \<times> 'a broadcast_service_scheme" where
  "broadcast_confirm i p inp cid s =
     (if \<not> is_manager p then (Inl (Forbidden ''broadcast_author_forbidden''), s)
      else (case js_get (broadcasts s) i of
        None \<Rightarrow> (Inl (NotFound ''broadcast_not_found''), s)
      | Some b \<Rightarrow>
          if bc_authorId b \<noteq> userId p then (Inl (NotFound ''broadcast_not_found''), s)
          else (let key = ''confirm:'' @ opt_text (fb_idempotencyKey inp)
            in if bc_state b = BcConfirmed
               then (if truthy (fb_idempotencyKey inp) \<and> js_get (broadcast_requests s) key = Some i then (Inr b, s)
                     else (Inl (Conflict ''broadcast_already_confirmed''), s))
               else if bc_state b \<noteq> BcDraft \<or> \<not> fb_confirmed inp \<or> fb_expectedVersion inp \<noteq> Some (JInt (bc_version b))
                       \<or> \<not> all_in word_colon 8 128 (opt_text (fb_idempotencyKey inp))
               then (Inl (Conflict ''broadcast_confirmation_invalid''), s)
               else (case resolveAudience p (bc_audience b) s of
                 Inl e \<Rightarrow> (Inl e, s)
               | Inr us \<Rightarrow>
                   (let ids = sort_by (locale_cmp s) (map co_id us)
                    in if fb_expectedRecipientCount inp \<noteq> Some (JInt (int (length ids)))
                       then (Inl (Conflict ''broadcast_audience_changed''), s)
                       else (let b' = b\<lparr>bc_state := BcConfirmed, bc_version := bc_version b + 1,
                                   bc_recipientCount := length ids, bc_recipientIds := ids, bc_confirmedAt := Some (now s)\<rparr>;
                                 s1 = s\<lparr>broadcasts := js_set (broadcasts s) i b',
                                   broadcast_requests := js_set (broadcast_requests s) key i\<rparr>
                             in call (publish i ids False s1) (\<lambda>delivered s2.
                               (Inr b', audit_by p cid ''BROADCAST_CONFIRMED'' JUndef
                                 (JObj [(''broadcastId'', JStr i), (''recipientCount'', JNat delivered),
                                        (''snapshotFrozen'', JBool True)])
                                 SUCCESS (''broadcast-confirm:'' @ i) s2))))))))"

definition broadcast_cancel ::
  "string \<Rightarrow> principal \<Rightarrow> string option \<Rightarrow> jsnum option \<Rightarrow> string \<Rightarrow> 'a broadcast_service_scheme
     \<Rightarrow> broadcast result \<times> 'a broadcast_service_scheme" where
  "broadcast_cancel i p why expected cid s =
     (case ownedDraft i p s of
        Inl e \<Rightarrow> (Inl e, s)
      | Inr b \<Rightarrow>
          if \<not> text_between 3 500 (js_trim (opt_text why)) \<or> expected \<noteq> Some (JInt (bc_version b))
          then (Inl (BadRequest ''broadcast_cancellation_invalid''), s)
          else (let b' = b\<lparr>bc_state := BcCancelled, bc_version := bc_version b + 1, bc_cancelledAt := Some (now s)\<rparr>
                in (Inr b', audit_by p cid ''BROADCAST_CANCELLED'' JUndef
                      (JObj [(''broadcastId'', JStr i), (''reasonCode'', JStr ''AUTHOR_CANCELLED'')])
                      SUCCESS (''broadcast-cancel:'' @ i) (s\<lparr>broadcasts := js_set (broadcasts s) i b'\<rparr>))))"

record correct_broadcast =
  xb_title :: "string option"
  xb_content :: "string option"
  xb_reason :: "string option"
  xb_clientRequestId :: "string option"

definition broadcast_correct ::
  "string \<Rightarrow> principal \<Rightarrow> correct_broadcast \<Rightarrow> string \<Rightarrow> 'a broadcast_service_scheme
     \<Rightarrow> broadcast result \<times> 'a broadcast_service_scheme" where
  "broadcast_correct i p inp cid s =
     (if \<not> is_manager p then (Inl (Forbidden ''broadcast_author_forbidden''), s)
      else (case js_get (broadcasts s) i of
        None \<Rightarrow> (Inl (NotFound ''broadcast_not_found''), s)
      | Some orig \<Rightarrow>
          if bc_state orig \<noteq> BcConfirmed \<or> (\<not> is_admin p \<and> bc_authorId orig \<noteq> userId p)
          then (Inl (NotFound ''broadcast_not_found''), s)
          else (let title = js_trim (opt_text (xb_title inp)); content = js_trim (opt_text (xb_content inp));
                    req = js_trim (opt_text (xb_clientRequestId inp))
            in if \<not> text_between 3 500 (js_trim (opt_text (xb_reason inp))) \<or> \<not> text_between 3 120 title
                  \<or> \<not> text_between 3 4000 content \<or> \<not> all_in word_colon 8 128 req
               then (Inl (BadRequest ''broadcast_correction_invalid''), s)
               else (let key = ''correction:'' @ i @ '':'' @ req
                 in case js_get (broadcast_requests s) key of
                      Some k \<Rightarrow> (case js_get (broadcasts s) k of None \<Rightarrow> (Inl (Thrown ''TypeError''), s) | Some b \<Rightarrow> (Inr b, s))
                    | None \<Rightarrow>
                        (let b = \<lparr>bc_id = fresh_uuid s, bc_title = title, bc_content = content, bc_internalLink = None,
                               bc_authorId = userId p, bc_audience = bc_audience orig, bc_state = BcConfirmed, bc_version = 1,
                               bc_recipientCount = bc_recipientCount orig, bc_recipientIds = bc_recipientIds orig,
                               bc_createdAt = now s, bc_confirmedAt = Some (now s), bc_cancelledAt = None,
                               bc_correctionOf = Some i\<rparr>;
                             s1 = (drawn s)\<lparr>broadcasts := js_set (broadcasts s) (bc_id b) b,
                               broadcast_requests := js_set (broadcast_requests s) key (bc_id b)\<rparr>
                         in call (publish (bc_id b) (bc_recipientIds orig) True s1) (\<lambda>_ s2.
                              (Inr b, audit_by p cid ''BROADCAST_CORRECTION_EMITTED'' JUndef
                                (JObj [(''broadcastId'', JStr (bc_id b)), (''correctionOf'', JStr i),
                                       (''recipientCount'', JNat (bc_recipientCount b)), (''reasonProvided'', JBool True)])
                                SUCCESS (''broadcast-correction:'' @ bc_id b) s2)))))))"

record broadcast_page =
  bp_items :: "broadcast list"
  bp_page :: int
  bp_pageSize :: int
  bp_total :: nat

definition broadcast_list ::
  "principal \<Rightarrow> jsnum \<Rightarrow> jsnum \<Rightarrow> 'a broadcast_service_scheme \<Rightarrow> broadcast_page result" where
  "broadcast_list p page psz s =
     (if \<not> is_manager p then Inl (Forbidden ''broadcast_author_forbidden'')
      else if \<not> is_integer page \<or> num_value page < 1 \<or> \<not> is_integer psz \<or> num_value psz < 1 \<or> 100 < num_value psz
      then Inl (BadRequest ''broadcast_pagination_invalid'')
      else (let bs = sort_by (\<lambda>a b. cmp_or (cmp_int (bc_createdAt b) (bc_createdAt a)) (locale_cmp s (bc_id b) (bc_id a)))
                  (filter (\<lambda>b. is_admin p \<or> bc_authorId b = userId p) (js_values (broadcasts s)))
            in Inr \<lparr>bp_items = page_slice (num_value page) (num_value psz) bs, bp_page = num_value page,
                 bp_pageSize = num_value psz, bp_total = length bs\<rparr>))"

definition recipientSnapshot :: "string \<Rightarrow> principal \<Rightarrow> 'a broadcast_service_scheme \<Rightarrow> string list result" where
  "recipientSnapshot i p s =
     (if \<not> is_admin p then Inl (Forbidden ''broadcast_recipients_forbidden'')
      else (case js_get (broadcasts s) i of None \<Rightarrow> Inl (NotFound ''broadcast_not_found'') | Some b \<Rightarrow> Inr (bc_recipientIds b)))"

end
