(* ===== verification/Appointments.thy ===== *)
theory Appointments
  imports LeadLaws
begin

text \<open>
  Appointments with prospects: \<open>appointments/appointment.service.ts\<close> without a database, and the
  signature of a creation (\<open>appointment-creation-signature.ts\<close>). An instant stands for the text
  \<open>toISOString\<close> prints of it; where two such texts are ordered by \<open>localeCompare\<close>, the collation is
  the one of the host.
\<close>

section \<open>State\<close>

datatype appointment_type = APPEL_INFORMATION | VISITE_CAMPUS | ENTRETIEN_ADMISSION | ENTRETIEN_MOTIVATION
  | TEST_ADMISSION | RENDEZ_VOUS_DIRECTION | RENDEZ_VOUS_LIBRE

fun appointment_type_name :: "appointment_type \<Rightarrow> string" where
  "appointment_type_name APPEL_INFORMATION = ''APPEL_INFORMATION''"
| "appointment_type_name VISITE_CAMPUS = ''VISITE_CAMPUS''"
| "appointment_type_name ENTRETIEN_ADMISSION = ''ENTRETIEN_ADMISSION''"
| "appointment_type_name ENTRETIEN_MOTIVATION = ''ENTRETIEN_MOTIVATION''"
| "appointment_type_name TEST_ADMISSION = ''TEST_ADMISSION''"
| "appointment_type_name RENDEZ_VOUS_DIRECTION = ''RENDEZ_VOUS_DIRECTION''"
| "appointment_type_name RENDEZ_VOUS_LIBRE = ''RENDEZ_VOUS_LIBRE''"

definition appointmentTypes :: "appointment_type list" where
  "appointmentTypes = [APPEL_INFORMATION, VISITE_CAMPUS, ENTRETIEN_ADMISSION, ENTRETIEN_MOTIVATION, TEST_ADMISSION,
     RENDEZ_VOUS_DIRECTION, RENDEZ_VOUS_LIBRE]"

datatype appointment_mode = SUR_SITE | TELEPHONE | DISTANCIEL_NON_CONNECTE

fun appointment_mode_name :: "appointment_mode \<Rightarrow> string" where
  "appointment_mode_name SUR_SITE = ''SUR_SITE''"
| "appointment_mode_name TELEPHONE = ''TELEPHONE''"
| "appointment_mode_name DISTANCIEL_NON_CONNECTE = ''DISTANCIEL_NON_CONNECTE''"

definition appointmentModes :: "appointment_mode list" where
  "appointmentModes = [SUR_SITE, TELEPHONE, DISTANCIEL_NON_CONNECTE]"

datatype appointment_state = BROUILLON | PLANIFIE | CONFIRME | REPORTE | ANNULE | REALISE | ABSENT | REFUSE

fun appointment_state_name :: "appointment_state \<Rightarrow> string" where
  "appointment_state_name BROUILLON = ''BROUILLON''"
| "appointment_state_name PLANIFIE = ''PLANIFIE''"
| "appointment_state_name CONFIRME = ''CONFIRME''"
| "appointment_state_name REPORTE = ''REPORTE''"
| "appointment_state_name ANNULE = ''ANNULE''"
| "appointment_state_name REALISE = ''REALISE''"
| "appointment_state_name ABSENT = ''ABSENT''"
| "appointment_state_name REFUSE = ''REFUSE''"

definition appointmentStates :: "appointment_state list" where
  "appointmentStates = [BROUILLON, PLANIFIE, CONFIRME, REPORTE, ANNULE, REALISE, ABSENT, REFUSE]"

datatype interview_result = FAVORABLE | FAVORABLE_SOUS_CONDITION | A_COMPLETER | DEFAVORABLE | NON_DECIDE

fun interview_result_name :: "interview_result \<Rightarrow> string" where
  "interview_result_name FAVORABLE = ''FAVORABLE''"
| "interview_result_name FAVORABLE_SOUS_CONDITION = ''FAVORABLE_SOUS_CONDITION''"
| "interview_result_name A_COMPLETER = ''A_COMPLETER''"
| "interview_result_name DEFAVORABLE = ''DEFAVORABLE''"
| "interview_result_name NON_DECIDE = ''NON_DECIDE''"

definition interviewResults :: "interview_result list" where
  "interviewResults = [FAVORABLE, FAVORABLE_SOUS_CONDITION, A_COMPLETER, DEFAVORABLE, NON_DECIDE]"

text \<open>\<open>(names as const).includes(value)\<close>: the member an untyped text names.\<close>

definition named :: "('e \<Rightarrow> string) \<Rightarrow> 'e list \<Rightarrow> string option \<Rightarrow> 'e option" where
  "named name es v = find (\<lambda>e. v = Some (name e)) es"

definition appointment_finalStates :: "appointment_state list" where
  "appointment_finalStates = [ANNULE, REALISE, ABSENT, REFUSE]"

fun appointment_transitions :: "appointment_state \<Rightarrow> appointment_state list" where
  "appointment_transitions BROUILLON = [PLANIFIE, ANNULE]"
| "appointment_transitions PLANIFIE = [CONFIRME, REPORTE, ANNULE, ABSENT, REFUSE]"
| "appointment_transitions CONFIRME = [REPORTE, ANNULE, REALISE, ABSENT, REFUSE]"
| "appointment_transitions REPORTE = [CONFIRME, ANNULE, ABSENT, REFUSE]"
| "appointment_transitions ANNULE = []"
| "appointment_transitions REALISE = []"
| "appointment_transitions ABSENT = []"
| "appointment_transitions REFUSE = []"

record appointment =
  ap_id :: string
  ap_leadId :: string
  ap_type :: appointment_type
  ap_mode :: appointment_mode
  ap_state :: appointment_state
  ap_startsAt :: int
  ap_durationMinutes :: int
  ap_campus :: "string option"
  ap_adviserId :: string
  ap_organizerId :: string
  ap_evaluatorId :: "string option"
  ap_participantIds :: "string list"
  ap_version :: int
  ap_createdAt :: int
  ap_updatedAt :: int
  ap_conflictWarning :: bool
  ap_overloadWarning :: bool

record appointment_event =
  ev_id :: string
  ev_appointmentId :: string
  ev_type :: string
  ev_fromState :: "appointment_state option"
  ev_toState :: "appointment_state option"
  ev_actorId :: string
  ev_reasonCode :: "string option"
  ev_occurredAt :: int
  ev_idempotencyKey :: string
  ev_compensatesEventId :: "string option"

record interview_report =
  rp_id :: string
  rp_appointmentId :: string
  rp_result :: interview_result
  rp_comment :: string
  rp_missingPoints :: "string option"
  rp_nextAction :: "string option"
  rp_followUpAt :: "int option"
  rp_recommendation :: string
  rp_validatedAt :: int
  rp_validatedBy :: string

record appointment_service = lead_state +
  appointments :: "(string, appointment) js_map"
  appointment_events :: "appointment_event list"
  interview_reports :: "(string, interview_report) js_map"
  appointment_receipts :: "(string, string \<times> string) js_map"

section \<open>Helpers\<close>

definition involved :: "appointment \<Rightarrow> string list" where
  "involved a = js_uniq ([ap_organizerId a, ap_adviserId a] @ ap_participantIds a
     @ (if truthy (ap_evaluatorId a) then [opt_text (ap_evaluatorId a)] else []))"

definition overlaps :: "int \<Rightarrow> int \<Rightarrow> appointment \<Rightarrow> bool" where
  "overlaps start fin a = (start < ap_startsAt a + ap_durationMinutes a * 60000 \<and> fin > ap_startsAt a)"

definition appointment_canAccess :: "appointment \<Rightarrow> principal \<Rightarrow> bool" where
  "appointment_canAccess a p =
     ((global_scope p \<or> (case ap_campus a of None \<Rightarrow> False | Some c \<Rightarrow> campus_scope p c))
       \<and> (is_manager p \<or> userId p \<in> set (involved a)))"

definition appointment_key_ok :: "string \<Rightarrow> bool" where
  "appointment_key_ok k = all_in word_dash 8 128 k"

definition is_final :: "appointment \<Rightarrow> bool" where
  "is_final a = (ap_state a \<in> set appointment_finalStates)"

definition authorized ::
  "string \<Rightarrow> principal \<Rightarrow> string \<Rightarrow> 'a appointment_service_scheme \<Rightarrow> appointment result \<times> 'a appointment_service_scheme" where
  "authorized i p cid s =
     (case js_get (appointments s) i of
        None \<Rightarrow> (Inl (NotFound ''appointment_not_found''), s)
      | Some a \<Rightarrow>
          if \<not> appointment_canAccess a p then (Inl (NotFound ''appointment_not_found''), s)
          else call (getLead (ap_leadId a) p cid s) (\<lambda>_ s1. (Inr a, s1)))"

definition appendEvent ::
  "appointment \<Rightarrow> string \<Rightarrow> principal \<Rightarrow> string \<Rightarrow> appointment_state option \<Rightarrow> appointment_state option \<Rightarrow> string option
     \<Rightarrow> 'a appointment_service_scheme \<Rightarrow> 'a appointment_service_scheme" where
  "appendEvent a ty p key st0 st1 reason s =
     (drawn s)\<lparr>appointment_events := appointment_events s @ [\<lparr>ev_id = fresh_uuid s, ev_appointmentId = ap_id a, ev_type = ty,
        ev_fromState = st0, ev_toState = st1, ev_actorId = userId p,
        ev_reasonCode = (if truthy reason then reason else None), ev_occurredAt = now s, ev_idempotencyKey = key,
        ev_compensatesEventId = None\<rparr>]\<rparr>"

definition appointment_note :: "appointment \<Rightarrow> string \<Rightarrow> string \<Rightarrow> notification_input" where
  "appointment_note a ev u = \<lparr>ni_recipientId = u, ni_type = APPOINTMENT,
     ni_priority = (if js_includes ''CANCEL'' ev \<or> js_includes ''ABSENT'' ev then PrioHigh else PrioNormal),
     ni_resourceType = ResAppointment, ni_resourceId = ap_id a, ni_href = ''/appointments/'' @ ap_id a\<rparr>"

definition appointment_notify ::
  "appointment \<Rightarrow> string \<Rightarrow> string list \<Rightarrow> string \<Rightarrow> 'a appointment_service_scheme
     \<Rightarrow> notification list result \<times> 'a appointment_service_scheme" where
  "appointment_notify a ev us key s =
     for_each (\<lambda>u. notification_create (appointment_note a ev u)
       (''appointment:'' @ ev @ '':'' @ key @ '':'' @ u)) (js_uniq us) s"

definition appointment_audit ::
  "appointment \<Rightarrow> principal \<Rightarrow> string \<Rightarrow> string \<Rightarrow> 'a appointment_service_scheme \<Rightarrow> 'a appointment_service_scheme" where
  "appointment_audit a p cid ty s =
     audit_by p cid ty JUndef
       (JObj [(''appointmentId'', JStr (ap_id a)), (''leadId'', JStr (ap_leadId a)),
              (''type'', JStr (appointment_type_name (ap_type a))), (''mode'', JStr (appointment_mode_name (ap_mode a))),
              (''state'', JStr (appointment_state_name (ap_state a))), (''startsAt'', JStr (iso_string s (ap_startsAt a))),
              (''durationMinutes'', JNum (JInt (ap_durationMinutes a))), (''campus'', JId (ap_campus a)),
              (''version'', JNum (JInt (ap_version a)))])
       SUCCESS (ty @ '':'' @ ap_id a @ '':'' @ show_int (ap_version a)) s"

section \<open>Creation\<close>

record create_appointment =
  ca_type :: "string option"
  ca_mode :: "string option"
  ca_startsAt :: "string option"
  ca_durationMinutes :: "jsnum option"
  ca_campus :: "string option"
  ca_adviserId :: "string option"
  ca_evaluatorId :: "string option"
  ca_participantIds :: "string list option"
  ca_state :: "string option"
  ca_idempotencyKey :: "string option"

definition appointmentCreationSignature ::
  "string \<Rightarrow> appointment_type \<Rightarrow> appointment_mode \<Rightarrow> int \<Rightarrow> int \<Rightarrow> string option \<Rightarrow> string \<Rightarrow> string option \<Rightarrow> string list
     \<Rightarrow> appointment_state \<Rightarrow> 'a host_scheme \<Rightarrow> string" where
  "appointmentCreationSignature leadId ty mode start dur campus adviser evaluator ps st s =
     sha256hex s (json_text (JObj [(''leadId'', JStr leadId), (''type'', JStr (appointment_type_name ty)),
       (''mode'', JStr (appointment_mode_name mode)), (''startsAt'', JStr (iso_string s start)),
       (''duration'', JNum (JInt dur)), (''campus'', JId campus), (''adviserId'', JStr adviser),
       (''evaluatorId'', JId evaluator), (''participantIds'', JArr (map JStr (sort_by (locale_cmp s) ps))),
       (''state'', JStr (appointment_state_name st))]))"

text \<open>The activity an appointment writes into the timeline of its lead.\<close>

definition meeting :: "string \<Rightarrow> string option \<Rightarrow> bool \<Rightarrow> activity_input" where
  "meeting result next_at clear = \<lparr>in_type = ''MEETING'', in_result = result, in_note = None, in_nextActionAt = next_at,
     in_clearNextAction = clear\<rparr>"

definition conflicts :: "string list \<Rightarrow> int \<Rightarrow> int \<Rightarrow> appointment list \<Rightarrow> bool" where
  "conflicts us start fin as = list_ex (\<lambda>a. \<not> is_final a \<and> list_ex (\<lambda>u. u \<in> set us) (involved a) \<and> overlaps start fin a) as"

definition overload :: "string \<Rightarrow> int \<Rightarrow> 'a appointment_service_scheme \<Rightarrow> bool" where
  "overload adviser start s = (7 \<le> length (filter (\<lambda>a. ap_adviserId a = adviser
     \<and> local_day s (ap_startsAt a) = local_day s start \<and> \<not> is_final a) (js_values (appointments s))))"

definition appointment_create ::
  "string \<Rightarrow> create_appointment \<Rightarrow> principal \<Rightarrow> string \<Rightarrow> 'a appointment_service_scheme
     \<Rightarrow> appointment result \<times> 'a appointment_service_scheme" where
  "appointment_create leadId i p cid s =
     (if \<not> is_operational p then (Inl (Forbidden ''appointment_role_forbidden''), s)
      else call (getLead leadId p cid s) (\<lambda>v s1.
        (let l = lv_lead v; key = opt_text (ca_idempotencyKey i);
             st = (case ca_state i of None \<Rightarrow> Some PLANIFIE | Some t \<Rightarrow> named appointment_state_name [BROUILLON, PLANIFIE] (Some t));
             dur = (case ca_durationMinutes i of None \<Rightarrow> JInt 0 | Some n \<Rightarrow> n)
         in if \<not> reaches_campus p (ld_campus l) then (Inl (NotFound ''lead_not_found''), s1)
            else (case (named appointment_type_name appointmentTypes (ca_type i),
                        named appointment_mode_name appointmentModes (ca_mode i), st, parse_opt s1 (ca_startsAt i)) of
              (Some ty, Some mode, Some st0, Some start) \<Rightarrow>
                if \<not> is_integer dur \<or> num_value dur < 15 \<or> 480 < num_value dur \<or> \<not> appointment_key_ok key
                then (Inl (BadRequest ''appointment_invalid''), s1)
                else (let asked = map_option js_trim (ca_campus i)
                  in if mode = SUR_SITE \<and> (\<not> truthy asked \<or> asked \<noteq> Some (ld_campus l))
                     then (Inl (BadRequest ''appointment_campus_required''), s1)
                     else (let campus = (case asked of None \<Rightarrow> ld_campus l | Some c \<Rightarrow> c);
                               adviser = (case ca_adviserId i of Some u \<Rightarrow> u
                                 | None \<Rightarrow> (case ld_assignedToId l of Some u \<Rightarrow> u | None \<Rightarrow> userId p));
                               ps = sort_by (locale_cmp s1) (js_uniq (filter (\<lambda>u. u \<noteq> [])
                                 (case ca_participantIds i of None \<Rightarrow> [] | Some us \<Rightarrow> us)));
                               evaluator = (if truthy (ca_evaluatorId i) then ca_evaluatorId i else None);
                               signature = appointmentCreationSignature leadId ty mode start (num_value dur) (Some campus)
                                 adviser evaluator ps st0 s1
                       in case js_get (appointment_receipts s1) key of
                            Some (sig, k) \<Rightarrow>
                              (if sig \<noteq> signature then (Inl (Conflict ''appointment_idempotency_conflict''), s1)
                               else (case js_get (appointments s1) k of
                                 None \<Rightarrow> (Inl (Thrown ''TypeError''), s1) | Some a \<Rightarrow> (Inr a, s1)))
                          | None \<Rightarrow>
                              if start \<le> now s1 then (Inl (BadRequest ''appointment_invalid''), s1)
                              else (let us = js_uniq (adviser # ps @ (case evaluator of None \<Rightarrow> [] | Some u \<Rightarrow> [u]));
                                        a = \<lparr>ap_id = fresh_uuid s1, ap_leadId = leadId, ap_type = ty, ap_mode = mode,
                                             ap_state = st0, ap_startsAt = start, ap_durationMinutes = num_value dur,
                                             ap_campus = (if campus = [] then None else Some campus), ap_adviserId = adviser,
                                             ap_organizerId = userId p, ap_evaluatorId = evaluator, ap_participantIds = ps,
                                             ap_version = 1, ap_createdAt = now s1, ap_updatedAt = now s1,
                                             ap_conflictWarning = conflicts us start (start + num_value dur * 60000)
                                               (js_values (appointments s1)),
                                             ap_overloadWarning = overload adviser start s1\<rparr>;
                                        s2 = (drawn s1)\<lparr>appointments := js_set (appointments s1) (ap_id a) a,
                                               appointment_receipts := js_set (appointment_receipts s1) key (signature, ap_id a)\<rparr>;
                                        s3 = appendEvent a ''APPOINTMENT_CREATED'' p key None (Some st0) None s2
                                in call (addActivity leadId (meeting (''APPOINTMENT_'' @ appointment_state_name st0)
                                       (if st0 = PLANIFIE then Some (iso_string s3 start) else None) False) p cid s3) (\<lambda>_ s4.
                                     call (appointment_notify a ''APPOINTMENT_CREATED'' us key s4) (\<lambda>_ s5.
                                       (Inr a, appointment_audit a p cid ''APPOINTMENT_CREATED'' s5))))))
            | _ \<Rightarrow> (Inl (BadRequest ''appointment_invalid''), s1)))))"

section \<open>Transitions\<close>

record transition_input =
  ti_state :: "string option"
  ti_reason :: "string option"
  ti_expectedVersion :: "jsnum option"
  ti_idempotencyKey :: "string option"
  ti_startsAt :: "string option"

definition appointment_transition ::
  "string \<Rightarrow> transition_input \<Rightarrow> principal \<Rightarrow> string \<Rightarrow> 'a appointment_service_scheme
     \<Rightarrow> appointment result \<times> 'a appointment_service_scheme" where
  "appointment_transition i inp p cid s =
     call (authorized i p cid s) (\<lambda>a s1.
       (let key = opt_text (ti_idempotencyKey inp); reason = map_option js_trim (ti_reason inp);
            signature = i @ '':'' @ (case ti_state inp of None \<Rightarrow> ''undefined'' | Some t \<Rightarrow> t)
        in if \<not> appointment_key_ok key then (Inl (Conflict ''appointment_transition_refused''), s1)
           else (case js_get (appointment_receipts s1) key of
             Some (sig, k) \<Rightarrow>
               (if k \<noteq> i \<or> sig \<noteq> signature then (Inl (Conflict ''appointment_idempotency_conflict''), s1)
                else (case js_get (appointments s1) k of
                  None \<Rightarrow> (Inl (Thrown ''TypeError''), s1) | Some x \<Rightarrow> (Inr x, s1)))
           | None \<Rightarrow>
               (case named appointment_state_name appointmentStates (ti_state inp) of
                  None \<Rightarrow> (Inl (Conflict ''appointment_transition_refused''), s1)
                | Some st \<Rightarrow>
                    if st \<notin> set (appointment_transitions (ap_state a)) \<or> ti_expectedVersion inp \<noteq> Some (JInt (ap_version a))
                    then (Inl (Conflict ''appointment_transition_refused''), s1)
                    else if st \<in> {REPORTE, ANNULE, ABSENT, REFUSE} \<and> (\<not> truthy reason \<or> 500 < length (opt_text reason))
                    then (Inl (BadRequest ''appointment_reason_required''), s1)
                    else if st \<in> {REALISE, ABSENT} \<and> now s1 < ap_startsAt a + ap_durationMinutes a * 60000
                    then (Inl (BadRequest ''appointment_outcome_too_early''), s1)
                    else (case (if st = REPORTE then parse_opt s1 (ti_startsAt inp) else Some (ap_startsAt a)) of
                      None \<Rightarrow> (Inl (BadRequest ''appointment_reschedule_invalid''), s1)
                    | Some start \<Rightarrow>
                        if st = REPORTE \<and> start \<le> now s1 then (Inl (BadRequest ''appointment_reschedule_invalid''), s1)
                        else (let a' = a\<lparr>ap_state := st, ap_startsAt := start, ap_version := ap_version a + 1, ap_updatedAt := now s1\<rparr>;
                                  ev = ''APPOINTMENT_'' @ appointment_state_name st;
                                  s2 = s1\<lparr>appointments := js_set (appointments s1) i a',
                                        appointment_receipts := js_set (appointment_receipts s1) key (signature, i)\<rparr>
                              in call (getLead (ap_leadId a) p cid s2) (\<lambda>v s3.
                                (let clear = (ld_nextActionAt (lv_lead v) = Some (iso_string s3 (ap_startsAt a)));
                                     keeps = (st \<in> {PLANIFIE, CONFIRME, REPORTE});
                                     s4 = appendEvent a' ev p key (Some (ap_state a)) (Some st) reason s3
                                 in call (addActivity (ap_leadId a) (meeting ev
                                        (if keeps then Some (iso_string s4 start) else None) (\<not> keeps \<and> clear)) p cid s4) (\<lambda>_ s5.
                                      call (appointment_notify a' ev (involved a') key s5) (\<lambda>_ s6.
                                        (Inr a', appointment_audit a' p cid ev s6)))))))))))"

section \<open>Compensations and reports\<close>

definition appointment_compensate ::
  "string \<Rightarrow> string option \<Rightarrow> string option \<Rightarrow> string option \<Rightarrow> principal \<Rightarrow> string \<Rightarrow> 'a appointment_service_scheme
     \<Rightarrow> appointment_event result \<times> 'a appointment_service_scheme" where
  "appointment_compensate i original why k p cid s =
     call (authorized i p cid s) (\<lambda>a s1.
       if \<not> is_manager p then (Inl (Forbidden ''appointment_compensation_forbidden''), s1)
       else (let reason = map_option js_trim why; key = opt_text k
         in case find (\<lambda>e. Some (ev_id e) = original \<and> ev_appointmentId e = i) (appointment_events s1) of
              None \<Rightarrow> (Inl (BadRequest ''appointment_compensation_invalid''), s1)
            | Some e \<Rightarrow>
                if \<not> truthy reason \<or> \<not> appointment_key_ok key
                then (Inl (BadRequest ''appointment_compensation_invalid''), s1)
                else (case find (\<lambda>x. ev_idempotencyKey x = key) (appointment_events s1) of
                  Some x \<Rightarrow> (Inr x, s1)
                | None \<Rightarrow>
                    (let x = \<lparr>ev_id = fresh_uuid s1, ev_appointmentId = i, ev_type = ''APPOINTMENT_COMPENSATION'',
                           ev_fromState = None, ev_toState = None, ev_actorId = userId p, ev_reasonCode = reason,
                           ev_occurredAt = now s1, ev_idempotencyKey = key, ev_compensatesEventId = Some (ev_id e)\<rparr>
                     in (Inr x, appointment_audit a p cid ''APPOINTMENT_COMPENSATED''
                           ((drawn s1)\<lparr>appointment_events := appointment_events s1 @ [x]\<rparr>))))))"

record report_input =
  ri_result :: "string option"
  ri_comment :: "string option"
  ri_missingPoints :: "string option"
  ri_nextAction :: "string option"
  ri_followUpAt :: "string option"
  ri_recommendation :: "string option"
  ri_expectedVersion :: "jsnum option"

definition trimmed :: "string option \<Rightarrow> string" where
  "trimmed v = js_trim (opt_text v)"

definition validateReport ::
  "string \<Rightarrow> report_input \<Rightarrow> principal \<Rightarrow> string \<Rightarrow> 'a appointment_service_scheme
     \<Rightarrow> interview_report result \<times> 'a appointment_service_scheme" where
  "validateReport i inp p cid s =
     call (authorized i p cid s) (\<lambda>a s1.
       if ap_state a \<noteq> REALISE \<or> ap_evaluatorId a \<noteq> Some (userId p) \<or> ri_expectedVersion inp \<noteq> Some (JInt (ap_version a))
          \<or> js_has (interview_reports s1) i
       then (Inl (Conflict ''interview_report_refused''), s1)
       else (let followUp = (if truthy (ri_followUpAt inp) then parse_opt s1 (ri_followUpAt inp) else None);
                 comment = trimmed (ri_comment inp); recommendation = trimmed (ri_recommendation inp)
         in case named interview_result_name interviewResults (ri_result inp) of
              None \<Rightarrow> (Inl (BadRequest ''interview_report_invalid''), s1)
            | Some res \<Rightarrow>
                if comment = [] \<or> 2000 < length comment \<or> recommendation = [] \<or> 1000 < length recommendation
                   \<or> (truthy (ri_followUpAt inp) \<and> followUp = None)
                then (Inl (BadRequest ''interview_report_invalid''), s1)
                else (let r = \<lparr>rp_id = fresh_uuid s1, rp_appointmentId = i, rp_result = res, rp_comment = ''[REDACTED]'',
                            rp_missingPoints = (if trimmed (ri_missingPoints inp) \<noteq> [] then Some ''[REDACTED]'' else None),
                            rp_nextAction = (if trimmed (ri_nextAction inp) \<noteq> [] then Some (take 120 (trimmed (ri_nextAction inp))) else None),
                            rp_followUpAt = followUp, rp_recommendation = ''[REDACTED]'', rp_validatedAt = now s1,
                            rp_validatedBy = userId p\<rparr>;
                          s2 = (drawn s1)\<lparr>interview_reports := js_set (interview_reports s1) i r\<rparr>
                      in call (addActivity (ap_leadId a) (meeting (''INTERVIEW_'' @ interview_result_name res)
                             (map_option (iso_string s2) followUp) False) p cid s2) (\<lambda>_ s3.
                           call (appointment_notify a ''INTERVIEW_RESULT_AVAILABLE'' (involved a) (''report:'' @ rp_id r) s3) (\<lambda>_ s4.
                             (Inr r, appointment_audit a p cid ''INTERVIEW_REPORT_VALIDATED'' s4))))))"

section \<open>Reading\<close>

definition appointment_permissionLeadId :: "string \<Rightarrow> 'a appointment_service_scheme \<Rightarrow> string result" where
  "appointment_permissionLeadId i s =
     (case js_get (appointments s) i of
        None \<Rightarrow> Inl (NotFound ''appointment_not_found'') | Some a \<Rightarrow> Inr (ap_leadId a))"

record appointment_query =
  aq_page :: "jsnum option"
  aq_pageSize :: "jsnum option"
  aq_campus :: "string option"
  aq_adviserId :: "string option"
  aq_type :: "string option"
  aq_state :: "string option"
  aq_from :: "string option"
  aq_to :: "string option"

record appointment_page =
  apg_items :: "appointment list"
  apg_page :: int
  apg_pageSize :: int
  apg_total :: nat

definition matches_query :: "appointment_query \<Rightarrow> int option \<Rightarrow> int option \<Rightarrow> principal \<Rightarrow> appointment \<Rightarrow> bool" where
  "matches_query q from_at to_at p a =
     (appointment_canAccess a p \<and> (\<not> truthy (aq_campus q) \<or> ap_campus a = aq_campus q)
       \<and> (\<not> truthy (aq_adviserId q) \<or> Some (ap_adviserId a) = aq_adviserId q)
       \<and> (\<not> truthy (aq_type q) \<or> Some (appointment_type_name (ap_type a)) = aq_type q)
       \<and> (\<not> truthy (aq_state q) \<or> Some (appointment_state_name (ap_state a)) = aq_state q)
       \<and> (case from_at of None \<Rightarrow> True | Some t \<Rightarrow> t \<le> ap_startsAt a)
       \<and> (case to_at of None \<Rightarrow> True | Some t \<Rightarrow> ap_startsAt a \<le> t))"

definition appointment_list ::
  "appointment_query \<Rightarrow> principal \<Rightarrow> 'a appointment_service_scheme \<Rightarrow> appointment_page result" where
  "appointment_list q p s =
     (if \<not> is_operational p then Inl (Forbidden ''appointment_role_forbidden'')
      else (let page = (case aq_page q of None \<Rightarrow> JInt 1 | Some n \<Rightarrow> n); psz = (case aq_pageSize q of None \<Rightarrow> JInt 25 | Some n \<Rightarrow> n);
                from_at = (if truthy (aq_from q) then parse_opt s (aq_from q) else None);
                to_at = (if truthy (aq_to q) then parse_opt s (aq_to q) else None)
        in if \<not> is_integer page \<or> num_value page < 1 \<or> \<not> is_integer psz \<or> num_value psz < 1 \<or> 100 < num_value psz
           then Inl (BadRequest ''appointment_pagination_invalid'')
           else if (truthy (aq_from q) \<and> from_at = None) \<or> (truthy (aq_to q) \<and> to_at = None)
           then Inl (BadRequest ''appointment_period_invalid'')
           else (let rs = sort_by (\<lambda>a b. cmp_or (locale_cmp s (iso_string s (ap_startsAt a)) (iso_string s (ap_startsAt b)))
                        (locale_cmp s (ap_id a) (ap_id b)))
                      (filter (matches_query q from_at to_at p) (js_values (appointments s)))
             in Inr \<lparr>apg_items = page_slice (num_value page) (num_value psz) rs, apg_page = num_value page,
                  apg_pageSize = num_value psz, apg_total = length rs\<rparr>)))"

definition appointment_detail ::
  "string \<Rightarrow> principal \<Rightarrow> string \<Rightarrow> 'a appointment_service_scheme
     \<Rightarrow> (appointment \<times> appointment_event list \<times> interview_report option) result \<times> 'a appointment_service_scheme" where
  "appointment_detail i p cid s =
     call (authorized i p cid s) (\<lambda>a s1.
       (Inr (a, filter (\<lambda>e. ev_appointmentId e = i) (appointment_events s1), js_get (interview_reports s1) i), s1))"

text \<open>The busy ranges of each user: the start and the end of each appointment.\<close>

definition availability ::
  "string list \<Rightarrow> string \<Rightarrow> string \<Rightarrow> principal \<Rightarrow> 'a appointment_service_scheme
     \<Rightarrow> (string \<times> (int \<times> int) list) list result" where
  "availability us from_text to_text p s =
     (if \<not> is_operational p then Inl (Forbidden ''appointment_role_forbidden'')
      else (case (date_parse s from_text, date_parse s to_text) of
        (Some start, Some fin) \<Rightarrow>
          if start \<ge> fin \<or> fin - start > 7 * 86400000 then Inl (BadRequest ''availability_period_invalid'')
          else Inr (map (\<lambda>u. (u, map (\<lambda>a. (ap_startsAt a, ap_startsAt a + ap_durationMinutes a * 60000))
                 (filter (\<lambda>a. appointment_canAccess a p \<and> u \<in> set (involved a) \<and> \<not> is_final a \<and> overlaps start fin a)
                    (js_values (appointments s))))) (take 20 (js_uniq us)))
      | _ \<Rightarrow> Inl (BadRequest ''availability_period_invalid'')))"

text \<open>
  The indicators: the two numbers of each rate (the rate is their quotient, a double), delays in
  milliseconds, of which the code adds the hours.
\<close>

record appointment_kpis =
  kp_counts :: "(appointment_state \<times> nat) list"
  kp_attended :: nat
  kp_attendable :: nat
  kp_delayMs :: int
  kp_delayCount :: nat
  kp_results :: "(interview_result \<times> nat) list"
  kp_workload :: "((string \<times> string) \<times> nat) list"

definition count_workload :: "appointment \<Rightarrow> (string, (string \<times> string) \<times> nat) js_map \<Rightarrow> (string, (string \<times> string) \<times> nat) js_map" where
  "count_workload a m =
     (let campus = (case ap_campus a of None \<Rightarrow> ''DISTANT'' | Some c \<Rightarrow> c); key = ap_adviserId a @ '':'' @ campus
      in js_set m key (case js_get m key of None \<Rightarrow> ((ap_adviserId a, campus), 1) | Some (w, n) \<Rightarrow> (w, n + 1)))"

definition kpis :: "principal \<Rightarrow> 'a appointment_service_scheme \<Rightarrow> appointment_kpis" where
  "kpis p s =
     (let as = filter (\<lambda>a. appointment_canAccess a p) (js_values (appointments s));
          rs = filter (\<lambda>r. rp_appointmentId r \<in> set (map ap_id as)) (js_values (interview_reports s));
          count = (\<lambda>st. length (filter (\<lambda>a. ap_state a = st) as));
          delays = filter (\<lambda>d. 0 \<le> d) (map (\<lambda>a. ap_startsAt a - ap_createdAt a) as)
      in \<lparr>kp_counts = map (\<lambda>st. (st, count st)) appointmentStates, kp_attended = count REALISE,
          kp_attendable = count REALISE + count ABSENT, kp_delayMs = sum_list delays, kp_delayCount = length delays,
          kp_results = map (\<lambda>x. (x, length (filter (\<lambda>r. rp_result r = x) rs))) interviewResults,
          kp_workload = sort_by (\<lambda>x y. cmp_or (locale_cmp s (fst (fst x)) (fst (fst y))) (locale_cmp s (snd (fst x)) (snd (fst y))))
            (js_values (fold count_workload as []))\<rparr>)"

end
