(* ===== verification/Effects.thy ===== *)
theory Effects
  imports Prelude
begin

text \<open>
  What an operation does to a state, as a reflexive and transitive relation (the invariant is kept,
  items only move along their table, histories only grow), and the rules that take an operation apart
  into the steps that change something: one for each construct of the model. A service gives the
  relation; its operations are then proved by \<open>intro\<close>, piece by piece.
\<close>

locale effect_order =
  fixes eff :: "'s \<Rightarrow> 's \<Rightarrow> bool"
  assumes eff_refl [simp]: "eff s s"
    and eff_trans: "eff s t \<Longrightarrow> eff t u \<Longrightarrow> eff s u"
begin

lemma eff_pair: "eff s t \<Longrightarrow> eff s (snd (r, t))"
  by simp

lemma eff_if: "(b \<Longrightarrow> eff s (snd x)) \<Longrightarrow> (\<not> b \<Longrightarrow> eff s (snd y)) \<Longrightarrow> eff s (snd (if b then x else y))"
  by simp

lemma eff_option:
  "(v = None \<Longrightarrow> eff s (snd x)) \<Longrightarrow> (\<And>a. v = Some a \<Longrightarrow> eff s (snd (f a))) \<Longrightarrow>
     eff s (snd (case v of None \<Rightarrow> x | Some a \<Rightarrow> f a))"
  by (cases v) simp_all

lemma eff_sum:
  "(\<And>e. v = Inl e \<Longrightarrow> eff s (snd (f e))) \<Longrightarrow> (\<And>a. v = Inr a \<Longrightarrow> eff s (snd (g a))) \<Longrightarrow>
     eff s (snd (case v of Inl e \<Rightarrow> f e | Inr a \<Rightarrow> g a))"
  by (cases v) simp_all

lemma eff_prod: "(\<And>a b. v = (a, b) \<Longrightarrow> eff s (snd (f a b))) \<Longrightarrow> eff s (snd (case v of (a, b) \<Rightarrow> f a b))"
  by (cases v) simp

lemma eff_sequence:
  assumes "eff s (snd m)" and "\<And>a u. m = (Inr a, u) \<Longrightarrow> eff u (snd (k a u))"
  shows "eff s (snd (call m k))"
proof (cases m)
  case (Pair q t)
  with assms eff_trans [of s t] show ?thesis by (cases q) simp_all
qed

text \<open>A call made in a state that already differs.\<close>

lemma eff_after:
  assumes "eff t (snd (m t))" and "eff s t" and "\<And>a u. m t = (Inr a, u) \<Longrightarrow> eff u (snd (k a u))"
  shows "eff s (snd (call (m t) k))"
  using assms eff_sequence eff_trans by blast

lemma eff_for_each:
  assumes "\<And>x t. eff t (snd (f x t))"
  shows "eff s (snd (for_each f xs s))"
proof (induction xs arbitrary: s)
  case (Cons x xs)
  have "eff t (snd (call (for_each f xs t) (\<lambda>ys u. (Inr (y # ys), u))))" for y t
    by (rule eff_sequence [OF Cons.IH]) simp
  then show ?case by (auto intro: eff_sequence assms)
qed simp

lemma eff_unless: "eff s t \<Longrightarrow> eff s u \<Longrightarrow> eff s (if b then t else u)"
  by simp

lemmas eff_rules = eff_if eff_option eff_sum eff_pair eff_refl

lemma eff_run:
  assumes "step\<^sup>*\<^sup>* s t" and "\<And>s t. step s t \<Longrightarrow> eff s t"
  shows "eff s t"
  using assms(1) by (induction rule: rtranclp_induct) (auto dest: assms(2) intro: eff_trans)

end

end
