(* ===== verification/AppointmentLaws.thy ===== *)
theory AppointmentLaws
  imports Appointments LeadRequests Lifecycle Effects
begin

text \<open>
  What the appointments promise: an appointment keeps everything but its state, its start and its
  version, moves along its table, and a version names one content; a report is written once, of an
  appointment that was held, by its evaluator, and its texts never reach the store.
\<close>

section \<open>The effect of an operation\<close>

definition appointment_moves :: "appointment \<Rightarrow> appointment \<Rightarrow> bool" where
  "appointment_moves a b \<longleftrightarrow> (\<exists>st start n.
     b = a\<lparr>ap_state := st, ap_startsAt := start, ap_version := ap_version a + 1, ap_updatedAt := n\<rparr>
     \<and> st \<in> set (appointment_transitions (ap_state a)) \<and> (start = ap_startsAt a \<or> st = REPORTE))"

definition report_ok :: "(string, appointment) js_map \<Rightarrow> string \<Rightarrow> interview_report \<Rightarrow> bool" where
  "report_ok as k r \<longleftrightarrow> rp_appointmentId r = k \<and> rp_comment r = ''[REDACTED]'' \<and> rp_recommendation r = ''[REDACTED]''
     \<and> (\<exists>a. js_get as k = Some a \<and> ap_state a = REALISE \<and> ap_evaluatorId a = Some (rp_validatedBy r))"

definition appointments_ok :: "'a appointment_service_scheme \<Rightarrow> bool" where
  "appointments_ok s \<longleftrightarrow> inj (uuid s)
     \<and> (\<forall>k a. js_get (appointments s) k = Some a \<longrightarrow> ap_id a = k \<and> k \<in> issued s \<and> 15 \<le> ap_durationMinutes a \<and> ap_durationMinutes a \<le> 480)
     \<and> (\<forall>k r. js_get (interview_reports s) k = Some r \<longrightarrow> report_ok (appointments s) k r)"

definition appointment_effect :: "'a appointment_service_scheme \<Rightarrow> 'a appointment_service_scheme \<Rightarrow> bool" where
  "appointment_effect s t \<longleftrightarrow> grows s t \<and> (appointments_ok s \<longrightarrow> appointments_ok t
     \<and> (\<forall>k a. js_get (appointments s) k = Some a \<longrightarrow> (\<exists>b. js_get (appointments t) k = Some b \<and> appointment_moves\<^sup>*\<^sup>* a b))
     \<and> (\<exists>es. appointment_events t = appointment_events s @ es)
     \<and> (\<forall>k r. js_get (interview_reports s) k = Some r \<longrightarrow> js_get (interview_reports t) k = Some r))"

lemma appointment_effect_refl: "appointment_effect s s"
  by (auto simp: appointment_effect_def)

lemma appointment_effect_trans:
  assumes "appointment_effect s t" and "appointment_effect t u"
  shows "appointment_effect s u"
proof -
  have grow: "grows s u" using assms supply_trans unfolding appointment_effect_def by blast
  have "appointments_ok s \<Longrightarrow> \<exists>es. appointment_events u = appointment_events s @ es"
    using assms unfolding appointment_effect_def by fastforce
  moreover have "\<exists>b. js_get (appointments u) k = Some b \<and> appointment_moves\<^sup>*\<^sup>* a b"
    if "appointments_ok s" "js_get (appointments s) k = Some a" for k a
    using assms that unfolding appointment_effect_def by (meson rtranclp_trans)
  ultimately show ?thesis using grow assms unfolding appointment_effect_def by blast
qed

interpretation apt: effect_order appointment_effect
  by unfold_locales (rule appointment_effect_refl, rule appointment_effect_trans)

section \<open>Pieces\<close>

lemma apt_fields_more:
  "lead_state.more s = lead_state.more t \<Longrightarrow> appointments s = appointments t"
  "lead_state.more s = lead_state.more t \<Longrightarrow> interview_reports s = interview_reports t"
  "lead_state.more s = lead_state.more t \<Longrightarrow> appointment_events s = appointment_events t"
  by (cases s; cases t; simp)+

lemma apt_drawn [simp]:
  "appointments (drawn s) = appointments s" "interview_reports (drawn s) = interview_reports s"
  "appointment_events (drawn s) = appointment_events s"
  by (simp_all add: drawn_def)

lemma report_kept:
  assumes "report_ok as k r" and "\<And>a. js_get as k = Some a \<Longrightarrow> ap_state a = REALISE \<Longrightarrow> js_get as' k = Some a"
  shows "report_ok as' k r"
  using assms by (auto simp: report_ok_def)

lemma apt_tables:
  assumes "appointments t = appointments s" and "interview_reports t = interview_reports s"
    and "appointment_events t = appointment_events s @ es" and "grows s t"
  shows "appointment_effect s t"
  using assms supply_issued [OF assms(4)] by (auto simp: appointment_effect_def appointments_ok_def grows_def)

lemma apt_elsewhere: "lead_state.more t = lead_state.more s \<Longrightarrow> grows s t \<Longrightarrow> appointment_effect s t"
  by (rule apt_tables [where es = "[]"]) (auto dest: apt_fields_more)

lemma apt_audit: "appointment_effect s t \<Longrightarrow> appointment_effect s (appointment_audit a p cid ty t)"
  unfolding appointment_audit_def by (erule apt.eff_trans) (simp add: apt_elsewhere supply_audit)

lemma apt_getLead: "appointment_effect s (snd (getLead i p cid s))"
  by (rule apt_elsewhere) (simp_all add: supply_operations)

lemma apt_addActivity: "appointment_effect s (snd (addActivity i act p cid s))"
  by (rule apt_elsewhere) (simp_all add: supply_addActivity)

lemma apt_notify: "appointment_effect s (snd (appointment_notify a ev us key s))"
  unfolding appointment_notify_def
  by (rule apt.eff_for_each, rule apt_elsewhere) (simp_all add: supply_notification)

lemma apt_append: "appointment_effect s t \<Longrightarrow> appointment_effect s (appendEvent a ty p key st0 st1 reason t)"
  by (erule apt.eff_trans) (auto simp: appendEvent_def grows_def intro!: apt_tables)

lemma apt_after_activity:
  "appointment_effect s t \<Longrightarrow> (\<And>a u. appointment_effect u (snd (k a u))) \<Longrightarrow> appointment_effect s (snd (call (addActivity i act p cid t) k))"
  by (rule apt.eff_after [where m = "addActivity i act p cid", OF apt_addActivity])

lemma apt_after_notify:
  "appointment_effect s t \<Longrightarrow> (\<And>a u. appointment_effect u (snd (k a u))) \<Longrightarrow> appointment_effect s (snd (call (appointment_notify a ev us key t) k))"
  by (rule apt.eff_after [where m = "appointment_notify a ev us key", OF apt_notify])

lemma authorized_stored:
  assumes "authorized i p cid s = (Inr a, t)"
  shows "js_get (appointments t) i = Some a \<and> appointments t = appointments s"
proof -
  have "appointments (snd (getLead l p cid s)) = appointments s" for l
    by (rule apt_fields_more) simp
  then show ?thesis using assms by (auto simp: authorized_def call_Inr split: option.splits if_splits) (metis snd_conv)+
qed

lemma apt_authorized: "appointment_effect s (snd (authorized i p cid s))"
proof -
  have "appointment_effect s (snd (call (getLead l p cid s) (\<lambda>_ s1. (Inr a, s1))))" for l and a :: appointment
    by (rule apt.eff_sequence [OF apt_getLead]) simp
  then show ?thesis by (simp add: authorized_def split: option.split)
qed

lemma apt_on_appointment:
  assumes "\<And>a t. js_get (appointments t) i = Some a \<Longrightarrow> appointment_effect t (snd (k a t))"
  shows "appointment_effect s (snd (call (authorized i p cid s) k))"
  by (rule apt.eff_sequence [OF apt_authorized]) (use assms authorized_stored in blast)

section \<open>The operations that write\<close>

lemma appointments_okI:
  assumes "inj (uuid s)" and "\<And>k a. js_get (appointments s) k = Some a \<Longrightarrow>
      ap_id a = k \<and> k \<in> issued s \<and> 15 \<le> ap_durationMinutes a \<and> ap_durationMinutes a \<le> 480"
    and "\<And>k r. js_get (interview_reports s) k = Some r \<Longrightarrow> report_ok (appointments s) k r"
  shows "appointments_ok s"
  using assms unfolding appointments_ok_def by blast

lemma apt_created:
  assumes "ap_id a = fresh_uuid s" and "15 \<le> ap_durationMinutes a" and "ap_durationMinutes a \<le> 480"
  shows "appointment_effect s ((drawn s)\<lparr>appointments := js_set (appointments s) (ap_id a) a, appointment_receipts := rs\<rparr>)"
    (is "appointment_effect s ?t")
proof -
  have grow: "grows s ?t" by (simp add: grows_def)
  have mine: "ap_id a \<in> issued ?t" using assms(1) by (simp add: issued_def fresh_uuid_def)
  have sub: "issued s \<subseteq> issued ?t" by (rule supply_issued [OF grow])
  have tabs: "appointments ?t = js_set (appointments s) (ap_id a) a" "interview_reports ?t = interview_reports s"
    "appointment_events ?t = appointment_events s" "uuid ?t = uuid s"
    by (simp_all add: drawn_def)
  have new: "js_get (appointments s) (ap_id a) = None" if "appointments_ok s"
    using that fresh_uuid_not_issued [of s] assms(1)
    by (cases "js_get (appointments s) (ap_id a)") (auto simp: appointments_ok_def)
  have keep: "js_get (appointments ?t) k = Some x" if "appointments_ok s" "js_get (appointments s) k = Some x" for k x
    using that new tabs(1) by auto
  have "appointments_ok ?t" if ok: "appointments_ok s"
  proof -
    have reports: "report_ok (appointments ?t) k r" if "js_get (interview_reports ?t) k = Some r" for k r
    proof (rule report_kept)
      show "report_ok (appointments s) k r" using ok that tabs(2) by (simp add: appointments_ok_def)
    qed (rule keep [OF ok])
    from ok assms mine sub tabs have entries: "js_get (appointments ?t) k = Some x \<Longrightarrow>
        ap_id x = k \<and> k \<in> issued ?t \<and> 15 \<le> ap_durationMinutes x \<and> ap_durationMinutes x \<le> 480" for k x
      unfolding tabs(1) js_get_set by (auto simp: appointments_ok_def split: if_splits)
    from ok have "inj (uuid ?t)" unfolding tabs(4) appointments_ok_def by blast
    from appointments_okI [OF this entries reports] show ?thesis .
  qed
  with grow tabs keep show ?thesis by (auto simp: appointment_effect_def)
qed

lemma apt_changed:
  assumes "js_get (appointments s) i = Some a" and "appointment_moves a b"
  shows "appointment_effect s (s\<lparr>appointments := js_set (appointments s) i b, appointment_receipts := rs\<rparr>)"
    (is "appointment_effect s ?t")
proof -
  have same: "issued ?t = issued s" "grows s ?t" by (simp_all add: issued_def grows_def)
  have field: "ap_id b = ap_id a" "ap_durationMinutes b = ap_durationMinutes a" "ap_state a \<noteq> REALISE"
    using assms(2) by (auto simp: appointment_moves_def)
  have tabs: "appointments ?t = js_set (appointments s) i b" "interview_reports ?t = interview_reports s"
    "appointment_events ?t = appointment_events s" "uuid ?t = uuid s" by simp_all
  have "appointments_ok ?t" if ok: "appointments_ok s"
  proof -
    have kept: "js_get (appointments ?t) k = Some x" if "js_get (appointments s) k = Some x" "ap_state x = REALISE" for k x
      using that assms(1) field(3) tabs(1) by auto
    have reports: "report_ok (appointments ?t) k r" if "js_get (interview_reports ?t) k = Some r" for k r
    proof (rule report_kept)
      show "report_ok (appointments s) k r" using ok that tabs(2) by (simp add: appointments_ok_def)
    qed (rule kept)
    from ok assms(1) field have entries: "js_get (appointments ?t) k = Some x \<Longrightarrow>
        ap_id x = k \<and> k \<in> issued ?t \<and> 15 \<le> ap_durationMinutes x \<and> ap_durationMinutes x \<le> 480" for k x
      unfolding tabs(1) js_get_set same(1) by (auto simp: appointments_ok_def split: if_splits)
    from ok have "inj (uuid ?t)" unfolding tabs(4) appointments_ok_def by blast
    from appointments_okI [OF this entries reports] show ?thesis .
  qed
  moreover have "\<exists>y. js_get (appointments ?t) k = Some y \<and> appointment_moves\<^sup>*\<^sup>* x y" if "js_get (appointments s) k = Some x" for k x
    using that assms by (cases "k = i") auto
  ultimately show ?thesis using same by (auto simp: appointment_effect_def)
qed

lemma apt_reported:
  assumes "js_get (appointments s) i = Some a" and "ap_state a = REALISE" and "ap_evaluatorId a = Some (rp_validatedBy r)"
    and "rp_appointmentId r = i" and "rp_comment r = ''[REDACTED]''" and "rp_recommendation r = ''[REDACTED]''" and "\<not> js_has (interview_reports s) i"
  shows "appointment_effect s ((drawn s)\<lparr>interview_reports := js_set (interview_reports s) i r\<rparr>)" (is "appointment_effect s ?t")
proof -
  have grow: "grows s ?t" by (simp add: grows_def)
  have tabs: "appointments ?t = appointments s" "interview_reports ?t = js_set (interview_reports s) i r"
    "appointment_events ?t = appointment_events s" "uuid ?t = uuid s"
    by (simp_all add: drawn_def)
  have "report_ok (appointments s) i r" using assms(1-6) by (auto simp: report_ok_def)
  with tabs supply_issued [OF grow] have "appointments_ok s \<Longrightarrow> appointments_ok ?t"
    by (fastforce simp: appointments_ok_def split: if_splits)
  moreover have "js_get (interview_reports ?t) k = Some x" if "js_get (interview_reports s) k = Some x" for k x
    using that assms(7) tabs by (auto simp: js_has_def)
  ultimately show ?thesis using grow tabs by (auto simp: appointment_effect_def)
qed

lemma apt_create: "appointment_effect s (snd (appointment_create leadId i p cid s))"
proof -
  have store: "appointment_effect t ((drawn t)\<lparr>appointments := js_set (appointments t) (ap_id a) a, appointment_receipts := rs\<rparr>)"
    if "\<not> (\<not> is_integer d \<or> num_value d < 15 \<or> 480 < num_value d \<or> x)" and "ap_id a = fresh_uuid t" and "ap_durationMinutes a = num_value d"
    for a d x rs and t :: "'a appointment_service_scheme"
    by (rule apt_created) (use that in auto)
  show ?thesis
    unfolding appointment_create_def Let_def prod.case
    by (intro apt.eff_rules apt.eff_sequence [OF apt_getLead] apt.eff_prod apt_after_activity apt_after_notify apt_append apt_audit)
      (erule store, simp, simp)
qed

lemma apt_after_lead:
  "appointment_effect s t \<Longrightarrow> (\<And>v u. appointment_effect u (snd (k v u))) \<Longrightarrow> appointment_effect s (snd (call (getLead i p cid t) k))"
  by (rule apt.eff_after [where m = "getLead i p cid", OF apt_getLead])

lemma transition_moves:
  assumes "st \<in> set (appointment_transitions (ap_state a))" and "(if st = REPORTE then v else Some (ap_startsAt a)) = Some start"
  shows "appointment_moves a (a\<lparr>ap_state := st, ap_startsAt := start, ap_version := ap_version a + 1, ap_updatedAt := n\<rparr>)"
  using assms by (auto simp: appointment_moves_def split: if_splits)

lemma apt_transition: "appointment_effect s (snd (appointment_transition i inp p cid s))"
proof -
  have change: "appointment_effect t (t\<lparr>appointments := js_set (appointments t) i
      (a\<lparr>ap_state := st, ap_startsAt := start, ap_version := ap_version a + 1, ap_updatedAt := n\<rparr>), appointment_receipts := rs\<rparr>)"
    if "js_get (appointments t) i = Some a" and "\<not> (st \<notin> set (appointment_transitions (ap_state a)) \<or> x)"
      and "(if st = REPORTE then v else Some (ap_startsAt a)) = Some start"
    for a st start n rs x v and t :: "'a appointment_service_scheme"
    by (rule apt_changed [OF that(1) transition_moves [OF _ that(3)]]) (use that(2) in blast)
  show ?thesis
    unfolding appointment_transition_def Let_def
    by (intro apt.eff_rules apt_on_appointment apt.eff_prod apt_after_lead apt_after_activity apt_after_notify apt_append apt_audit)
      (rule change; assumption)
qed

lemma apt_compensate: "appointment_effect s (snd (appointment_compensate i original why k p cid s))"
proof -
  have store: "appointment_effect t ((drawn t)\<lparr>appointment_events := appointment_events t @ [x]\<rparr>)"
    for x and t :: "'a appointment_service_scheme"
    by (rule apt_tables [where es = "[x]"]) (simp_all add: drawn_def grows_def)
  show ?thesis
    unfolding appointment_compensate_def Let_def by (intro apt.eff_rules apt_on_appointment apt_audit store)
qed

lemma apt_report: "appointment_effect s (snd (validateReport i inp p cid s))"
proof -
  have store: "appointment_effect t ((drawn t)\<lparr>interview_reports := js_set (interview_reports t) i r\<rparr>)"
    if "js_get (appointments t) i = Some a" and "\<not> (ap_state a \<noteq> REALISE \<or> ap_evaluatorId a \<noteq> Some u \<or> y \<or> js_has (interview_reports t) i)"
      and "rp_appointmentId r = i \<and> rp_comment r = ''[REDACTED]'' \<and> rp_recommendation r = ''[REDACTED]'' \<and> rp_validatedBy r = u"
    for a u y r and t :: "'a appointment_service_scheme"
    by (rule apt_reported [OF that(1)]) (use that(2,3) in auto)
  show ?thesis
    unfolding validateReport_def Let_def
    by (intro apt.eff_rules apt_on_appointment apt_after_activity apt_after_notify apt_audit) (erule store, assumption, simp)
qed

lemma apt_detail: "appointment_effect s (snd (appointment_detail i p cid s))"
  unfolding appointment_detail_def by (intro apt.eff_rules apt_on_appointment)

section \<open>Runs\<close>

text \<open>The requests of the appointments, and any operation of another service.\<close>

inductive appointment_step :: "'a appointment_service_scheme \<Rightarrow> 'a appointment_service_scheme \<Rightarrow> bool" where
  create: "appointment_step s (snd (appointment_create l i p cid s))"
| transition: "appointment_step s (snd (appointment_transition i inp p cid s))"
| compensate: "appointment_step s (snd (appointment_compensate i original why k p cid s))"
| report: "appointment_step s (snd (validateReport i ri p cid s))"
| detail: "appointment_step s (snd (appointment_detail i p cid s))"
| other: "lead_state.more t = lead_state.more s \<Longrightarrow> grows s t \<Longrightarrow> appointment_step s t"

lemma appointment_step_effect: "appointment_step s t \<Longrightarrow> appointment_effect s t"
  by (induction rule: appointment_step.induct)
    (simp_all add: apt_create apt_transition apt_compensate apt_report apt_detail apt_elsewhere)

lemma appointment_run_effect: "appointment_step\<^sup>*\<^sup>* s t \<Longrightarrow> appointment_effect s t"
  by (erule apt.eff_run) (rule appointment_step_effect)

definition appointment_status :: "'a appointment_service_scheme \<Rightarrow> string \<Rightarrow> appointment_state option" where
  "appointment_status s k = map_option ap_state (js_get (appointments s) k)"

definition appointment_walks :: "appointment_state \<Rightarrow> appointment_state \<Rightarrow> bool" where
  "appointment_walks a b \<longleftrightarrow> b \<in> set (appointment_transitions a)"

lemma moves_walk_states: "appointment_moves\<^sup>*\<^sup>* a b \<Longrightarrow> appointment_walks\<^sup>*\<^sup>* (ap_state a) (ap_state b)"
proof (induction rule: rtranclp_induct)
  case (step b c)
  then have "appointment_walks (ap_state b) (ap_state c)" by (auto simp: appointment_moves_def appointment_walks_def)
  with step.IH show ?case by simp
qed simp

interpretation appointment_life: lifecycle appointment_status appointment_walks "\<lambda>st. st \<in> set appointment_finalStates"
  appointment_step appointments_ok
proof (unfold_locales, goal_cases)
  case (1 s t)
  then show ?case using appointment_step_effect unfolding appointment_effect_def by blast
next
  case (2 s t k a)
  then obtain x where x: "js_get (appointments s) k = Some x" "ap_state x = a" by (auto simp: appointment_status_def)
  from 2 appointment_step_effect have "appointment_effect s t" by blast
  with 2(1) x(1) obtain y where "js_get (appointments t) k = Some y" "appointment_moves\<^sup>*\<^sup>* x y"
    unfolding appointment_effect_def by blast
  with x(2) moves_walk_states show ?case by (auto simp: appointment_status_def)
next
  case (3 a b)
  then show ?case by (auto simp: appointment_finalStates_def appointment_walks_def)
qed

text \<open>Every move counts: the version is the number of moves, so a version names one content.\<close>

lemma moves_version: "appointment_moves\<^sup>*\<^sup>* a b \<Longrightarrow> ap_version a \<le> ap_version b \<and> (ap_version b = ap_version a \<longrightarrow> b = a)"
proof (induction rule: rtranclp_induct)
  case (step b c)
  then have "ap_version c = ap_version b + 1" by (auto simp: appointment_moves_def)
  with step.IH show ?case by auto
qed simp

lemma moves_identity:
  "appointment_moves\<^sup>*\<^sup>* a b \<Longrightarrow> ap_leadId b = ap_leadId a \<and> ap_adviserId b = ap_adviserId a \<and> ap_organizerId b = ap_organizerId a
     \<and> ap_evaluatorId b = ap_evaluatorId a \<and> ap_participantIds b = ap_participantIds a \<and> ap_campus b = ap_campus a"
proof (induction rule: rtranclp_induct)
  case (step b c)
  from step.hyps(2) obtain st start v n where "c = b\<lparr>ap_state := st, ap_startsAt := start, ap_version := v, ap_updatedAt := n\<rparr>"
    unfolding appointment_moves_def by blast
  with step.IH show ?case by simp
qed simp

section \<open>Properties\<close>

text \<open>
  C33: An appointment only follows the table of transitions, and a held, cancelled, missed or refused
  one never changes again; the people and the lead of an appointment are those it was made with, and
  two readings of the same version are the same appointment, which is what the check of the expected
  version relies on.
\<close>

theorem appointment_versions_name_contents:
  assumes "appointments_ok s" and "appointment_step\<^sup>*\<^sup>* s t" and "js_get (appointments s) k = Some a"
  shows "\<exists>b. js_get (appointments t) k = Some b \<and> appointment_walks\<^sup>*\<^sup>* (ap_state a) (ap_state b)
     \<and> ap_version a \<le> ap_version b \<and> (ap_version b = ap_version a \<longrightarrow> b = a) \<and> (is_final a \<longrightarrow> ap_state b = ap_state a)
     \<and> ap_leadId b = ap_leadId a \<and> involved b = involved a"
proof -
  from appointment_run_effect [OF assms(2)] assms(1,3) obtain b where b: "js_get (appointments t) k = Some b" "appointment_moves\<^sup>*\<^sup>* a b"
    unfolding appointment_effect_def by blast
  have "is_final a \<Longrightarrow> ap_state b = ap_state a"
    using appointment_life.final_stays [OF assms(2,1), of k] assms(3) b(1) by (simp add: appointment_status_def is_final_def)
  moreover have "involved b = involved a" using moves_identity [OF b(2)] by (simp add: involved_def)
  ultimately show ?thesis using b moves_walk_states moves_version moves_identity by blast
qed

text \<open>
  A report is written once: whatever follows, it stays as it was validated, of an appointment that
  was held, by the evaluator of that appointment, and its comment and recommendation are redacted.
\<close>

theorem report_written_once:
  assumes "appointments_ok s" and "appointment_step\<^sup>*\<^sup>* s t" and "js_get (interview_reports s) k = Some r"
  shows "js_get (interview_reports t) k = Some r \<and> rp_comment r = ''[REDACTED]'' \<and> rp_recommendation r = ''[REDACTED]''
     \<and> (\<exists>a. js_get (appointments t) k = Some a \<and> ap_state a = REALISE \<and> ap_evaluatorId a = Some (rp_validatedBy r))"
proof -
  from appointment_run_effect [OF assms(2)] assms(1,3) have r: "js_get (interview_reports t) k = Some r" and "appointments_ok t"
    unfolding appointment_effect_def by blast+
  then have "report_ok (appointments t) k r" by (simp add: appointments_ok_def)
  with r show ?thesis by (simp add: report_ok_def)
qed

section \<open>Examples\<close>

definition demo_appointment :: "appointment_state \<Rightarrow> appointment" where
  "demo_appointment st = \<lparr>ap_id = ''id-x'', ap_leadId = ''id-'', ap_type = ENTRETIEN_ADMISSION, ap_mode = TELEPHONE, ap_state = st,
     ap_startsAt = 5000, ap_durationMinutes = 30, ap_campus = Some ''cm'', ap_adviserId = ''u1'', ap_organizerId = ''m1'',
     ap_evaluatorId = Some ''m1'', ap_participantIds = [], ap_version = 1, ap_createdAt = 10, ap_updatedAt = 10,
     ap_conflictWarning = False, ap_overloadWarning = False\<rparr>"

definition demo_report :: interview_report where
  "demo_report = \<lparr>rp_id = ''r'', rp_appointmentId = ''id-x'', rp_result = FAVORABLE, rp_comment = ''[REDACTED]'', rp_missingPoints = None,
     rp_nextAction = None, rp_followUpAt = None, rp_recommendation = ''[REDACTED]'', rp_validatedAt = 10, rp_validatedBy = ''m1''\<rparr>"

definition appointment_demo :: "appointment_state \<Rightarrow> appointment_service" where
  "appointment_demo st = lead_demo CONTACTED (appointment_service_ext [(''id-x'', demo_appointment st)] []
     (if st = REALISE then [(''id-x'', demo_report)] else []) [] ())"

lemma appointment_demo_tables:
  "appointments (appointment_demo st) = [(''id-x'', demo_appointment st)]"
  "interview_reports (appointment_demo st) = (if st = REALISE then [(''id-x'', demo_report)] else [])"
  by (simp_all add: appointment_demo_def lead_demo_def note_demo_def user_demo_def)

lemma appointment_demo_ok: "appointments_ok (appointment_demo st)"
proof (rule appointments_okI)
  have "lead_ok (appointment_demo st)" unfolding appointment_demo_def by (rule lead_demo_ok)
  then show "inj (uuid (appointment_demo st))" by (simp add: lead_ok_def)
  have "''id-x'' \<in> issued (appointment_demo st)"
    by (auto simp: issued_def appointment_demo_def lead_demo_def note_demo_def user_demo_def demo_host_def intro!: image_eqI [of _ _ "1 :: nat"])
  then show "ap_id a = k \<and> k \<in> issued (appointment_demo st) \<and> 15 \<le> ap_durationMinutes a \<and> ap_durationMinutes a \<le> 480"
    if "js_get (appointments (appointment_demo st)) k = Some a" for k a
    using that by (auto simp: appointment_demo_tables js_get_def demo_appointment_def split: if_splits)
  show "report_ok (appointments (appointment_demo st)) k r" if "js_get (interview_reports (appointment_demo st)) k = Some r" for k r
    using that by (auto simp: appointment_demo_tables js_get_def report_ok_def demo_report_def demo_appointment_def split: if_splits)
qed

abbreviation confirmed_demo where
  "confirmed_demo \<equiv> snd (appointment_transition ''id-x'' \<lparr>ti_state = Some ''CONFIRME'', ti_reason = None, ti_expectedVersion = Some (JInt 1),
     ti_idempotencyKey = Some ''key-00001'', ti_startsAt = None\<rparr> demo_manager ''c'' (appointment_demo PLANIFIE))"

theorem appointment_versions_name_contents_witness:
  "\<exists>b. js_get (appointments confirmed_demo) ''id-x'' = Some b \<and> appointment_walks\<^sup>*\<^sup>* PLANIFIE (ap_state b) \<and> ap_leadId b = ''id-''"
proof -
  have stored: "js_get (appointments (appointment_demo PLANIFIE)) ''id-x'' = Some (demo_appointment PLANIFIE)"
    by (simp add: appointment_demo_tables js_get_def)
  have "appointment_step\<^sup>*\<^sup>* (appointment_demo PLANIFIE) confirmed_demo" by (rule r_into_rtranclp) (rule appointment_step.transition)
  from appointment_versions_name_contents [OF appointment_demo_ok this stored] show ?thesis
    by (auto simp: demo_appointment_def)
qed

theorem report_written_once_witness:
  "\<exists>a. js_get (appointments (snd (appointment_detail ''id-x'' demo_manager ''c'' (appointment_demo REALISE)))) ''id-x'' = Some a \<and> ap_state a = REALISE"
proof -
  have stored: "js_get (interview_reports (appointment_demo REALISE)) ''id-x'' = Some demo_report"
    by (simp add: appointment_demo_tables js_get_def)
  have "appointment_step\<^sup>*\<^sup>* (appointment_demo REALISE) (snd (appointment_detail ''id-x'' demo_manager ''c'' (appointment_demo REALISE)))"
    by (rule r_into_rtranclp) (rule appointment_step.detail)
  from report_written_once [OF appointment_demo_ok this stored] show ?thesis by blast
qed

end
