(* ===== verification/Permissions.thy ===== *)
theory Permissions
  imports Auth JsText
begin

text \<open>
  The permission engine: \<open>permissions/dynamic-contract.ts\<close>, \<open>view-grants.ts\<close>, \<open>audit-access.ts\<close>,
  \<open>dynamic-evaluator.ts\<close>, the decisions of \<open>dynamic-service.ts\<close>, \<open>dynamic-context.ts\<close> and
  \<open>permission.service.ts\<close>. The stored configurations are the list of their snapshots; what the
  service looks up in other tables (known campuses, the active super administrators, the account
  of an owner, a team responsibility) is an argument.
\<close>

section \<open>The catalogue\<close>

datatype permission_scope = ScopeNone | ScopeOwn | ScopeTeam | ScopeCampus | ScopeGlobal

fun permission_scope_name :: "permission_scope \<Rightarrow> string" where
  "permission_scope_name ScopeNone = ''NONE''"
| "permission_scope_name ScopeOwn = ''OWN''"
| "permission_scope_name ScopeTeam = ''TEAM''"
| "permission_scope_name ScopeCampus = ''CAMPUS''"
| "permission_scope_name ScopeGlobal = ''GLOBAL''"

definition permission_scopes :: "permission_scope list" where
  "permission_scopes = [ScopeNone, ScopeOwn, ScopeTeam, ScopeCampus, ScopeGlobal]"

definition viewGrantKeys :: "string list" where
  "viewGrantKeys = [''lead.views.view'', ''lead.views.share.team'', ''lead.views.share.campus'', ''lead.views.revoke.own'',
     ''lead.views.revoke.team'', ''lead.views.revoke.campus'']"

definition permission_names :: "string list" where
  "permission_names = [''lead.view'', ''lead.create'', ''lead.edit'', ''lead.qualification.update'', ''lead.assign'',
     ''lead.reassign.request'', ''lead.reassign.approve'', ''lead.close.request'', ''lead.close.approve'',
     ''lead.tags.assign'', ''lead.collaborators.manage'', ''lead.tags.manage'', ''lead.references.view'',
     ''lead.references.manage'', ''lead.references.archive'', ''interaction.create'', ''interaction.view'',
     ''reminder.manage'', ''appointment.manage'', ''import.view'', ''import.execute'', ''import.confirm'',
     ''import.review.resolve'', ''import.report.export'', ''reporting.view'', ''reporting.pilotage.view'',
     ''reporting.export'', ''reporting.global.view'', ''users.view'', ''users.create'', ''users.edit'',
     ''users.disable'', ''users.roles.assign'', ''roles.permissions.view'', ''roles.permissions.manage'',
     ''settings.campus.manage'', ''settings.global.manage'', ''audit.view'', ''audit.export'', ''chat.use'',
     ''chat.broadcast'', ''notification.manage'', ''telephony.free-call.create''] @ viewGrantKeys"

definition ends_with :: "string \<Rightarrow> string \<Rightarrow> bool" where
  "ends_with p s = starts_with (rev p) (rev s)"

definition read_only :: "string \<Rightarrow> bool" where
  "read_only k = (ends_with ''.view'' k \<or> ends_with ''.export'' k)"

definition globalOnly :: "string list" where
  "globalOnly = [''settings.global.manage'', ''reporting.global.view'']"

definition unavailable :: "string list" where
  "unavailable = [''users.edit'', ''audit.export'']"

record permission_definition =
  pd_key :: string
  pd_module :: string
  pd_mutation :: bool
  pd_sensitive :: bool
  pd_scopes :: "permission_scope list"
  pd_reserved :: bool
  pd_available :: bool

definition describe :: "string \<Rightarrow> permission_definition" where
  "describe k = \<lparr>pd_key = k, pd_module = hd (js_split (CHR ''.'') k), pd_mutation = (\<not> read_only k),
     pd_sensitive = (\<not> read_only k \<or> starts_with ''audit.'' k),
     pd_scopes = (if k \<in> set unavailable then [ScopeNone]
       else if k \<in> set globalOnly then [ScopeNone, ScopeGlobal]
       else if starts_with ''lead.'' k \<or> starts_with ''interaction.'' k
         \<or> k \<in> set [''reporting.view'', ''reporting.pilotage.view'', ''reporting.export''] then permission_scopes
       else [ScopeNone, ScopeCampus, ScopeGlobal]),
     pd_reserved = (k \<in> set globalOnly), pd_available = (k \<notin> set unavailable)\<rparr>"

definition permissionCatalogue :: "permission_definition list" where
  "permissionCatalogue = map describe permission_names"

definition perm_definition :: "string \<Rightarrow> permission_definition option" where
  "perm_definition k = find (\<lambda>d. pd_key d = k) permissionCatalogue"

text \<open>\<open>definition(key)?.available\<close>.\<close>

definition available :: "string \<Rightarrow> bool" where
  "available k = (case perm_definition k of None \<Rightarrow> False | Some d \<Rightarrow> pd_available d)"

definition mutation :: "string \<Rightarrow> bool" where
  "mutation k = (case perm_definition k of None \<Rightarrow> False | Some d \<Rightarrow> pd_mutation d)"

section \<open>Configurations\<close>

type_synonym grants = "(string, permission_scope) js_map"

datatype configuration_kind = Ceiling | RoleGrants

fun kind_name :: "configuration_kind \<Rightarrow> string" where
  "kind_name Ceiling = ''CEILING''"
| "kind_name RoleGrants = ''ROLE''"

text \<open>The role of a target, \<open>None\<close> for \<open>"*"\<close>.\<close>

record configuration_target =
  ct_kind :: configuration_kind
  ct_role :: "role option"
  ct_campus :: string

record configuration_snapshot = configuration_target +
  cs_version :: int
  cs_grants :: grants

record configuration_input = configuration_target +
  ci_expectedVersion :: int
  ci_grants :: grants
  ci_reason :: string
  ci_confirmed :: bool

definition GLOBAL_CAMPUS :: string where
  "GLOBAL_CAMPUS = ''GLOBAL''"

fun target_role_name :: "role option \<Rightarrow> string" where
  "target_role_name None = ''*''"
| "target_role_name (Some r) = role_name r"

definition configurationKey :: "'a configuration_target_scheme \<Rightarrow> string" where
  "configurationKey t = kind_name (ct_kind t) @ '':'' @ target_role_name (ct_role t) @ '':'' @ ct_campus t"

definition ceiling_of :: "string \<Rightarrow> configuration_target" where
  "ceiling_of campus = \<lparr>ct_kind = Ceiling, ct_role = None, ct_campus = campus\<rparr>"

definition grants_of :: "role \<Rightarrow> string \<Rightarrow> configuration_target" where
  "grants_of r campus = \<lparr>ct_kind = RoleGrants, ct_role = Some r, ct_campus = campus\<rparr>"

definition plain_target :: "'a configuration_target_scheme \<Rightarrow> configuration_target" where
  "plain_target t = \<lparr>ct_kind = ct_kind t, ct_role = ct_role t, ct_campus = ct_campus t\<rparr>"

definition validateTarget :: "'a configuration_target_scheme \<Rightarrow> unit result" where
  "validateTarget t =
     (if \<not> all_in word_dash 2 80 (ct_campus t)
         \<or> (case ct_kind t of Ceiling \<Rightarrow> ct_role t \<noteq> None | RoleGrants \<Rightarrow> ct_role t = None)
      then Inl (BadRequest ''role_permission_configuration_invalid'') else Inr ())"

text \<open>One entry of \<open>validateGrants\<close>: the value of the key, as the text it is until it is checked.\<close>

definition entry_valid :: "'a configuration_target_scheme \<Rightarrow> string \<times> string \<Rightarrow> bool" where
  "entry_valid t e =
     (case perm_definition (fst e) of
        None \<Rightarrow> False
      | Some d \<Rightarrow> snd e \<in> set (map permission_scope_name (pd_scopes d))
          \<and> \<not> (ct_role t = Some AUDITOR \<and> pd_mutation d \<and> snd e \<noteq> ''NONE'')
          \<and> \<not> (ct_campus t \<noteq> GLOBAL_CAMPUS \<and> snd e = ''GLOBAL'')
          \<and> \<not> (pd_reserved d \<and> ct_campus t \<noteq> GLOBAL_CAMPUS \<and> snd e \<noteq> ''NONE''))"

definition as_scope :: "string \<Rightarrow> permission_scope option" where
  "as_scope v = find (\<lambda>s. permission_scope_name s = v) permission_scopes"

definition as_grants :: "(string, string) js_map \<Rightarrow> grants" where
  "as_grants es = List.map_filter (\<lambda>(k, v). map_option (Pair k) (as_scope v)) es"

definition validateGrants :: "(string, string) js_map \<Rightarrow> 'a configuration_target_scheme \<Rightarrow> grants result" where
  "validateGrants es t =
     (if length es \<noteq> length permissionCatalogue \<or> \<not> list_all (entry_valid t) es
      then Inl (BadRequest ''role_permission_configuration_invalid'') else Inr (as_grants es))"

definition safe_integer :: "jsnum \<Rightarrow> bool" where
  "safe_integer n = (is_integer n \<and> \<bar>num_value n\<bar> \<le> 9007199254740991)"

definition configuration_reasons :: "string list" where
  "configuration_reasons = [''ACCESS_REVIEW'', ''RESPONSIBILITY_CHANGE'', ''RESTORE_VERSION'', ''CAMPUS_RESTRICTION'']"

text \<open>\<open>validateInput\<close>: the names of the fields, the target, the grants and the rest of the body.\<close>

definition validateInput ::
  "string list \<Rightarrow> configuration_target \<Rightarrow> (string, string) js_map \<Rightarrow> jsnum \<Rightarrow> string \<Rightarrow> bool \<Rightarrow> configuration_input result" where
  "validateInput ks t es version reason confirmed =
     (if \<not> list_all (\<lambda>k. k \<in> set [''kind'', ''role'', ''campus'', ''expectedVersion'', ''grants'', ''reason'', ''confirmed'']) ks
      then Inl (BadRequest ''role_permission_configuration_invalid'')
      else (case validateTarget t of Inl e \<Rightarrow> Inl e | Inr _ \<Rightarrow>
        (case validateGrants es t of Inl e \<Rightarrow> Inl e | Inr g \<Rightarrow>
          if \<not> safe_integer version \<or> num_value version < 0 \<or> reason \<notin> set configuration_reasons
          then Inl (BadRequest ''role_permission_configuration_invalid'')
          else Inr \<lparr>ct_kind = ct_kind t, ct_role = ct_role t, ct_campus = ct_campus t,
                 ci_expectedVersion = num_value version, ci_grants = g, ci_reason = reason, ci_confirmed = confirmed\<rparr>)))"

text \<open>Within: what a narrower grant may be, OWN and TEAM not being ordered.\<close>

definition scopeWithin :: "permission_scope \<Rightarrow> permission_scope \<Rightarrow> bool" where
  "scopeWithin candidate ceil =
     (candidate = ScopeNone \<or> candidate = ceil \<or> ceil = ScopeGlobal
       \<or> ceil = ScopeCampus \<and> candidate \<in> {ScopeOwn, ScopeTeam})"

section \<open>Older catalogues\<close>

definition historicalPilotageScope :: "(string, string) js_map \<Rightarrow> 'a configuration_target_scheme \<Rightarrow> string" where
  "historicalPilotageScope es t =
     (let sc = js_get es ''reporting.view''
      in if sc \<noteq> Some ''CAMPUS'' \<and> sc \<noteq> Some ''GLOBAL'' then ''NONE''
         else if ct_kind t = Ceiling \<or> ct_role t = Some SUPER_ADMIN then opt_text sc
         else if ct_role t = Some MANAGER \<or> ct_role t = Some ADMIN
         then (if sc = Some ''GLOBAL'' then ''CAMPUS'' else opt_text sc)
         else ''NONE'')"

definition without :: "string \<Rightarrow> string list \<Rightarrow> string list" where
  "without k ks = filter (\<lambda>x. x \<noteq> k) ks"

definition historical_catalogues :: "string list list" where
  "historical_catalogues = concat (map (\<lambda>base.
     (let version2 = without ''telephony.free-call.create'' base;
          beforeViews = filter (\<lambda>k. k \<notin> set viewGrantKeys) version2
      in [base, without ''lead.qualification.update'' base, version2, without ''lead.qualification.update'' version2,
          beforeViews, without ''lead.qualification.update'' beforeViews]))
     [permission_names, without ''reporting.pilotage.view'' permission_names])"

definition isExactCatalogue :: "string list \<Rightarrow> (string, string) js_map \<Rightarrow> bool" where
  "isExactCatalogue names es = (length es = length names \<and> list_all (js_has es) names)"

definition historicalGrants :: "(string, string) js_map \<Rightarrow> 'a configuration_target_scheme \<Rightarrow> grants result" where
  "historicalGrants es t =
     (if \<not> list_ex (\<lambda>names. isExactCatalogue names es) historical_catalogues
      then Inl (BadRequest ''role_permission_configuration_invalid'')
      else (let current = fold (\<lambda>(k, v) m. js_set m k v) es (map (\<lambda>k. (k, ''NONE'')) permission_names);
                filled = (if js_has es ''reporting.pilotage.view'' then current
                  else js_set current ''reporting.pilotage.view'' (historicalPilotageScope es t))
            in validateGrants filled t))"

section \<open>Defaults\<close>

definition viewDefaultScope :: "role \<Rightarrow> string \<Rightarrow> permission_scope option" where
  "viewDefaultScope r k =
     (if k \<notin> set viewGrantKeys then None
      else Some (if k = ''lead.views.view'' then (if r = SUPER_ADMIN then ScopeGlobal else ScopeCampus)
        else if r = AUDITOR then ScopeNone
        else if r = SUPER_ADMIN then ScopeGlobal
        else if k = ''lead.views.revoke.own'' then ScopeOwn
        else if r = ADMIN then ScopeCampus
        else if r = MANAGER \<and> ends_with ''.team'' k then ScopeTeam
        else ScopeNone))"

definition auditRoles :: "role list" where
  "auditRoles = [SUPER_ADMIN, ADMIN, AUDITOR]"

definition readRoles :: "role list" where
  "readRoles = [SUPER_ADMIN, ADMIN, MANAGER, ADMISSIONS, AUDITOR]"

definition managers :: "role list" where
  "managers = [SUPER_ADMIN, ADMIN, MANAGER]"

definition defaultRoles :: "(string \<times> role list) list" where
  "defaultRoles = [(''audit.view'', auditRoles), (''reporting.pilotage.view'', managers),
     (''lead.create'', [SUPER_ADMIN, ADMIN, ADMISSIONS]), (''lead.edit'', managers @ [ADMISSIONS]), (''lead.assign'', managers),
     (''lead.reassign.request'', managers @ [ADMISSIONS]), (''lead.reassign.approve'', managers),
     (''lead.close.request'', managers @ [ADMISSIONS]), (''lead.close.approve'', managers),
     (''lead.tags.assign'', managers @ [ADMISSIONS]), (''lead.collaborators.manage'', managers @ [ADMISSIONS]),
     (''lead.tags.manage'', [SUPER_ADMIN, ADMIN]), (''lead.references.manage'', [SUPER_ADMIN, ADMIN]),
     (''lead.references.archive'', [SUPER_ADMIN, ADMIN]),
     (''interaction.create'', managers @ [ADMISSIONS]), (''reminder.manage'', managers @ [ADMISSIONS]),
     (''appointment.manage'', managers @ [ADMISSIONS]),
     (''import.execute'', [SUPER_ADMIN, ADMIN]), (''import.confirm'', [SUPER_ADMIN, ADMIN]), (''import.review.resolve'', managers),
     (''roles.permissions.view'', [SUPER_ADMIN, ADMIN]), (''roles.permissions.manage'', [SUPER_ADMIN, ADMIN]),
     (''settings.campus.manage'', [SUPER_ADMIN, ADMIN]), (''settings.global.manage'', [SUPER_ADMIN]),
     (''chat.use'', managers @ [ADMISSIONS]), (''chat.broadcast'', managers), (''notification.manage'', managers @ [ADMISSIONS])]"

definition defaultRoleScope :: "role \<Rightarrow> string \<Rightarrow> permission_scope" where
  "defaultRoleScope r k =
     (if \<not> available k \<or> r = AUDITOR \<and> mutation k then ScopeNone
      else if k = ''lead.qualification.update'' then
        (case r of SUPER_ADMIN \<Rightarrow> ScopeGlobal | ADMIN \<Rightarrow> ScopeCampus | MANAGER \<Rightarrow> ScopeCampus | ADMISSIONS \<Rightarrow> ScopeOwn | AUDITOR \<Rightarrow> ScopeNone)
      else if k = ''telephony.free-call.create'' then
        (if r = SUPER_ADMIN then ScopeGlobal else if r = ADMIN then ScopeCampus else ScopeNone)
      else (case viewDefaultScope r k of
        Some s \<Rightarrow> s
      | None \<Rightarrow>
          if r = SUPER_ADMIN then ScopeGlobal
          else if k \<in> set globalOnly \<or> starts_with ''users.'' k then ScopeNone
          else (let allowed = (case map_of defaultRoles k of Some rs \<Rightarrow> rs | None \<Rightarrow> if mutation k then [] else readRoles)
            in if r \<notin> set allowed then ScopeNone
               else if r = ADMISSIONS \<and> k \<in> set [''lead.edit'', ''lead.tags.assign'', ''lead.collaborators.manage''] then ScopeOwn
               else ScopeCampus)))"

text \<open>
  The default of one permission. A target without a role is a ceiling (\<open>validateTarget\<close>), for which
  \<open>defaultRoleScope\<close> is only reached by an unavailable permission.
\<close>

definition defaultScope :: "'a configuration_target_scheme \<Rightarrow> string \<Rightarrow> permission_scope" where
  "defaultScope t k =
     (let sc = (if available k \<and> ct_kind t = Ceiling then ScopeGlobal
                else (case ct_role t of None \<Rightarrow> ScopeNone | Some r \<Rightarrow> defaultRoleScope r k))
      in if ct_campus t \<noteq> GLOBAL_CAMPUS \<and> sc = ScopeGlobal then (if k \<in> set globalOnly then ScopeNone else ScopeCampus) else sc)"

definition defaultConfiguration :: "'a configuration_target_scheme \<Rightarrow> grants" where
  "defaultConfiguration t = map (\<lambda>k. (k, defaultScope t k)) permission_names"

section \<open>Evaluation\<close>

type_synonym configurations = "configuration_snapshot list"

definition matching :: "configurations \<Rightarrow> 'a configuration_target_scheme \<Rightarrow> configurations" where
  "matching rows t = filter (\<lambda>r. configurationKey r = configurationKey t) rows"

definition resolveGrants :: "configurations \<Rightarrow> 'a configuration_target_scheme \<Rightarrow> grants result" where
  "resolveGrants rows t =
     (case matching rows t of
        [] \<Rightarrow> Inr (defaultConfiguration t)
      | [r] \<Rightarrow> Inr (cs_grants r)
      | _ \<Rightarrow> Inl (Thrown ''permission_configuration_ambiguous''))"

text \<open>\<open>grants[key] ?? "NONE"\<close>.\<close>

definition grant_or_none :: "grants \<Rightarrow> string \<Rightarrow> permission_scope" where
  "grant_or_none g k = (case js_get g k of None \<Rightarrow> ScopeNone | Some s \<Rightarrow> s)"

record evaluation_context =
  ec_campus :: string
  ec_active :: bool
  ec_own :: bool
  ec_team :: bool
  ec_managedTeam :: bool
  ec_campusAllowed :: bool
  ec_globalAllowed :: bool
  ec_restriction :: "string option"

fun includesResource :: "permission_scope \<Rightarrow> evaluation_context \<Rightarrow> role \<Rightarrow> bool" where
  "includesResource ScopeNone c r = False"
| "includesResource ScopeGlobal c r = (ec_globalAllowed c \<or> ec_campusAllowed c)"
| "includesResource ScopeCampus c r = ec_campusAllowed c"
| "includesResource ScopeOwn c r = (ec_campusAllowed c \<and> ec_own c)"
| "includesResource ScopeTeam c r = (ec_campusAllowed c \<and> (if r = MANAGER then ec_managedTeam c else ec_team c))"

record grant_explanation =
  gx_role :: role
  gx_sourceScope :: permission_scope
  gx_globalCeiling :: permission_scope
  gx_campusCeiling :: permission_scope
  gx_campusGrant :: permission_scope
  gx_allowed :: bool
  gx_restriction :: "string option"

record permission_decision =
  de_permission :: string
  de_allowed :: bool
  de_sources :: "grant_explanation list"
  de_restriction :: "string option"

definition explainRole ::
  "role \<Rightarrow> string \<Rightarrow> configurations \<Rightarrow> evaluation_context \<Rightarrow> grant_explanation result" where
  "explainRole r k rows c =
     (case resolveGrants rows (grants_of r GLOBAL_CAMPUS) of Inl e \<Rightarrow> Inl e | Inr src \<Rightarrow>
     (case resolveGrants rows (ceiling_of GLOBAL_CAMPUS) of Inl e \<Rightarrow> Inl e | Inr glob \<Rightarrow>
     (case (if ec_campus c = GLOBAL_CAMPUS then Inr ScopeGlobal
            else map_sum id (\<lambda>g. grant_or_none g k) (resolveGrants rows (ceiling_of (ec_campus c)))) of Inl e \<Rightarrow> Inl e | Inr campusCeiling \<Rightarrow>
       (let sourceScope = grant_or_none src k; globalCeiling = grant_or_none glob k;
            campusGrant = (case matching rows (grants_of r (ec_campus c)) of
              [] \<Rightarrow> sourceScope
            | row # _ \<Rightarrow> (case js_get (cs_grants row) k of None \<Rightarrow> sourceScope | Some s \<Rightarrow> s));
            scopeAllowed = list_all (\<lambda>s. includesResource s c r) [sourceScope, globalCeiling, campusCeiling, campusGrant];
            restriction = (if r = AUDITOR \<and> mutation k then Some ''auditor_read_only''
              else (case ec_restriction c of Some x \<Rightarrow> Some x
                | None \<Rightarrow> if \<not> ec_active c then Some ''resource_inactive'' else None))
        in Inr \<lparr>gx_role = r, gx_sourceScope = sourceScope, gx_globalCeiling = globalCeiling, gx_campusCeiling = campusCeiling,
             gx_campusGrant = campusGrant, gx_allowed = (scopeAllowed \<and> \<not> truthy restriction), gx_restriction = restriction\<rparr>))))"

definition explain_all ::
  "role list \<Rightarrow> string \<Rightarrow> configurations \<Rightarrow> evaluation_context \<Rightarrow> grant_explanation list result" where
  "explain_all rs k rows c = map_ok (\<lambda>r. explainRole r k rows c) (js_uniq rs)"

definition auditDecision :: "grant_explanation list \<Rightarrow> evaluation_context \<Rightarrow> permission_decision" where
  "auditDecision sources c =
     (let eligible = filter (\<lambda>x. gx_role x \<in> set auditRoles \<and> gx_sourceScope x \<noteq> ScopeNone) sources;
          allowed = (eligible \<noteq> [] \<and> list_all gx_allowed eligible)
      in \<lparr>de_permission = ''audit.view'', de_allowed = allowed, de_sources = sources,
          de_restriction = (if allowed then None else
            (case ec_restriction c of Some x \<Rightarrow> Some x | None \<Rightarrow> Some ''audit_scope_or_role_denied''))\<rparr>)"

definition evaluatePermission ::
  "principal \<Rightarrow> string \<Rightarrow> configurations \<Rightarrow> evaluation_context \<Rightarrow> permission_decision result" where
  "evaluatePermission p k rows c =
     (if \<not> available k \<or> userId p = [] \<or> sessionId p = [] \<or> mustChangeSecret p = Some True
      then Inr \<lparr>de_permission = k, de_allowed = False, de_sources = [], de_restriction = Some ''permission_or_session_invalid''\<rparr>
      else if k = ''audit.view'' then
        (let ac = c\<lparr>ec_globalAllowed := True, ec_campusAllowed := (ec_campus c \<noteq> GLOBAL_CAMPUS \<and> ec_campusAllowed c)\<rparr>
         in map_sum id (\<lambda>xs. auditDecision xs ac) (explain_all (p_roles p) k rows ac))
      else map_sum id (\<lambda>xs. \<lparr>de_permission = k, de_allowed = list_ex gx_allowed xs, de_sources = xs,
             de_restriction = ec_restriction c\<rparr>) (explain_all (p_roles p) k rows c))"

text \<open>\<open>.some(\<dots>)\<close> and \<open>.every(\<dots>)\<close> over roles or permissions: they stop at the first element that decides.\<close>

fun some_ok :: "('a \<Rightarrow> bool result) \<Rightarrow> 'a list \<Rightarrow> bool result" where
  "some_ok f [] = Inr False"
| "some_ok f (x # xs) = (case f x of Inl e \<Rightarrow> Inl e | Inr b \<Rightarrow> if b then Inr True else some_ok f xs)"

fun every_ok :: "('a \<Rightarrow> bool result) \<Rightarrow> 'a list \<Rightarrow> bool result" where
  "every_ok f [] = Inr True"
| "every_ok f (x # xs) = (case f x of Inl e \<Rightarrow> Inl e | Inr b \<Rightarrow> if b then every_ok f xs else Inr False)"

definition role_allows :: "string \<Rightarrow> configurations \<Rightarrow> evaluation_context \<Rightarrow> role \<Rightarrow> bool result" where
  "role_allows k rows c r = map_sum id gx_allowed (explainRole r k rows c)"

section \<open>Capabilities without a session\<close>

definition scheduledImportCapability ::
  "role list \<Rightarrow> string \<Rightarrow> configurations \<Rightarrow> evaluation_context \<Rightarrow> bool result" where
  "scheduledImportCapability rs k rows c =
     (if \<not> available k \<or> \<not> list_ex (\<lambda>r. r \<in> {ADMIN, SUPER_ADMIN}) rs then Inr False
      else some_ok (role_allows k rows c) (js_uniq rs))"

definition cutoverKeys :: "string list" where
  "cutoverKeys = [''settings.campus.manage'', ''import.view'', ''import.execute'', ''import.confirm'', ''lead.create'',
     ''lead.view'', ''lead.assign'']"

definition scheduledCutoverCapability ::
  "role list \<Rightarrow> string \<Rightarrow> configurations \<Rightarrow> evaluation_context \<Rightarrow> bool result" where
  "scheduledCutoverCapability rs k rows c =
     (if k \<notin> set cutoverKeys \<or> \<not> available k then Inr False
      else some_ok (role_allows k rows c) (filter (\<lambda>r. r \<in> {ADMIN, SUPER_ADMIN}) rs))"

definition assignmentCandidateCapability ::
  "role list \<Rightarrow> configurations \<Rightarrow> evaluation_context \<Rightarrow> bool result" where
  "assignmentCandidateCapability rs rows c =
     (if ADMISSIONS \<notin> set rs then Inr False
      else every_ok (\<lambda>k. role_allows k rows (c\<lparr>ec_own := True\<rparr>) ADMISSIONS) [''lead.view'', ''lead.edit'', ''reminder.manage''])"

definition both_ok :: "bool result \<Rightarrow> bool result \<Rightarrow> bool result" where
  "both_ok a b = (case a of Inl e \<Rightarrow> Inl e | Inr x \<Rightarrow> if x then b else Inr False)"

definition assignmentManagerCapability ::
  "role list \<Rightarrow> string \<Rightarrow> configurations \<Rightarrow> evaluation_context \<Rightarrow> bool result" where
  "assignmentManagerCapability rs k rows c =
     some_ok (\<lambda>r. both_ok (role_allows ''lead.view'' rows c r) (role_allows k rows c r))
       (filter (\<lambda>r. r \<in> set manager_roles) rs)"

definition admissionsResponsibleCapability ::
  "role list \<Rightarrow> configurations \<Rightarrow> evaluation_context \<Rightarrow> bool result" where
  "admissionsResponsibleCapability rs rows c =
     some_ok (role_allows ''appointment.manage'' rows c) (filter (\<lambda>r. r \<in> set operational_roles) rs)"

datatype mail_purpose = CopyMail | FollowUpOwner | LeadPrimary | AdmissionsResponsible

fun mail_permissions :: "mail_purpose \<Rightarrow> string list" where
  "mail_permissions CopyMail = [''lead.view'']"
| "mail_permissions FollowUpOwner = [''lead.view'', ''reminder.manage'']"
| "mail_permissions LeadPrimary = [''lead.view'', ''interaction.create'']"
| "mail_permissions AdmissionsResponsible = [''lead.view'', ''appointment.manage'']"

definition distinct_keys :: "configurations \<Rightarrow> bool" where
  "distinct_keys rows = (length (js_uniq (map configurationKey rows)) = length rows)"

definition businessMailRecipientCapability ::
  "role list \<Rightarrow> mail_purpose \<Rightarrow> configurations \<Rightarrow> evaluation_context \<Rightarrow> bool result" where
  "businessMailRecipientCapability rs m rows c =
     (if \<not> ec_active c \<or> truthy (ec_restriction c) \<or> \<not> distinct_keys rows then Inr False
      else every_ok (\<lambda>k. some_ok (role_allows k rows c) (filter (\<lambda>r. r \<in> set operational_roles) (js_uniq rs)))
        (mail_permissions m))"

definition businessMailConfigurationCapability ::
  "role list \<Rightarrow> configurations \<Rightarrow> evaluation_context \<Rightarrow> bool result" where
  "businessMailConfigurationCapability rs rows c =
     (if SUPER_ADMIN \<notin> set rs \<or> \<not> ec_globalAllowed c \<or> \<not> distinct_keys rows then Inr False
      else both_ok (role_allows ''settings.global.manage'' rows (c\<lparr>ec_campus := GLOBAL_CAMPUS, ec_campusAllowed := False\<rparr>) SUPER_ADMIN)
             (role_allows ''settings.campus.manage'' rows c SUPER_ADMIN))"

end
