(* ===== verification/PermissionService.thy ===== *)
theory PermissionService
  imports Permissions
begin

text \<open>
  The services over the permission engine: the resource contexts of \<open>dynamic-context.ts\<close>, the
  administration of the grants of \<open>dynamic-service.ts\<close>, the adoption of a new catalogue of
  \<open>dynamic-repository.ts\<close> and the static grants of \<open>permission.service.ts\<close>. The identifier of a stored
  configuration is its key (\<open>snapshots\<close> refuses any other), so the rows carry the target only.
\<close>

section \<open>Contexts\<close>

definition campusContext :: "principal \<Rightarrow> string \<Rightarrow> evaluation_context" where
  "campusContext p campus =
     (let g = (SUPER_ADMIN \<in> set (p_roles p))
      in \<lparr>ec_campus = campus, ec_active = True, ec_own = False, ec_team = False, ec_managedTeam = False,
          ec_campusAllowed = (g \<or> CampusScope campus \<in> set (scopes p)), ec_globalAllowed = g, ec_restriction = None\<rparr>)"

record resource_context =
  rc_global :: bool
  rc_campusKeys :: "string list"
  rc_active :: bool
  rc_ownerId :: "string option"
  rc_collaboratorIds :: "string list option"
  rc_readableResource :: bool

text \<open>The account a lookup returns: whether it is active, its campus and its team.\<close>

record assigned_identity =
  as_active :: bool
  as_campusId :: "string option"
  as_teamId :: "string option"

definition evaluateResourceContext ::
  "principal \<Rightarrow> resource_context \<Rightarrow> (string \<Rightarrow> assigned_identity option) \<Rightarrow> (string \<Rightarrow> string \<Rightarrow> string \<Rightarrow> bool)
     \<Rightarrow> evaluation_context" where
  "evaluateResourceContext p res assigned managed =
     (let campus = (case rc_campusKeys res of [] \<Rightarrow> ''GLOBAL'' | k # _ \<Rightarrow> k);
          c0 = campusContext p campus;
          c1 = c0\<lparr>ec_campusAllowed := (ec_campusAllowed c0 \<or> list_ex (\<lambda>k. CampusScope k \<in> set (scopes p)) (rc_campusKeys res)),
                 ec_active := rc_active res,
                 ec_own := (rc_ownerId res = Some (userId p)
                   \<or> (case rc_collaboratorIds res of None \<Rightarrow> False | Some us \<Rightarrow> userId p \<in> set us))\<rparr>
      in if \<not> truthy (rc_ownerId res) then c1
         else (case assigned (opt_text (rc_ownerId res)) of
           None \<Rightarrow> c1
         | Some a \<Rightarrow>
             (let inCampus = (truthy (as_campusId a) \<and> opt_text (as_campusId a) \<in> set (rc_campusKeys res));
                  team = opt_text (as_teamId a); member = (as_active a \<and> inCampus \<and> truthy (as_teamId a))
              in c1\<lparr>ec_team := (member \<and> TeamScope team \<in> set (scopes p)),
                    ec_managedTeam := (member \<and> MANAGER \<in> set (p_roles p) \<and> managed team campus (userId p))\<rparr>)))"

section \<open>Administration\<close>

definition and_then :: "'a result \<Rightarrow> ('a \<Rightarrow> 'b result) \<Rightarrow> 'b result" where
  "and_then m k = (case m of Inl e \<Rightarrow> Inl e | Inr a \<Rightarrow> k a)"

definition require :: "bool \<Rightarrow> http_error \<Rightarrow> unit result" where
  "require b e = (if b then Inr () else Inl e)"

definition permissionDenied :: http_error where
  "permissionDenied = Forbidden ''permission_denied''"

definition knownCampus :: "(string \<Rightarrow> bool) \<Rightarrow> string \<Rightarrow> unit result" where
  "knownCampus known campus = require (campus = GLOBAL_CAMPUS \<or> known campus) permissionDenied"

definition visibleTarget :: "principal \<Rightarrow> 'a configuration_target_scheme \<Rightarrow> unit result" where
  "visibleTarget p t =
     and_then (validateTarget t) (\<lambda>_.
       if \<not> list_ex (\<lambda>r. r \<in> {SUPER_ADMIN, ADMIN}) (p_roles p) then Inl permissionDenied
       else if SUPER_ADMIN \<in> set (p_roles p) then Inr ()
       else require (ct_campus t \<noteq> GLOBAL_CAMPUS \<and> ec_campusAllowed (campusContext p (ct_campus t))) permissionDenied)"

definition editableTarget :: "principal \<Rightarrow> 'a configuration_target_scheme \<Rightarrow> unit result" where
  "editableTarget p t =
     and_then (visibleTarget p t) (\<lambda>_.
       if SUPER_ADMIN \<in> set (p_roles p) then Inr ()
       else require (ct_kind t = RoleGrants
              \<and> (case ct_role t of None \<Rightarrow> False | Some r \<Rightarrow> r \<in> {MANAGER, ADMISSIONS, AUDITOR} \<and> r \<notin> set (p_roles p)))
            permissionDenied)"

definition requirePermission :: "principal \<Rightarrow> string \<Rightarrow> configurations \<Rightarrow> string \<Rightarrow> unit result" where
  "requirePermission p k rows campus =
     and_then (evaluatePermission p k rows (campusContext p campus)) (\<lambda>d. require (de_allowed d) permissionDenied)"

definition ceilings_hold :: "grants \<Rightarrow> grants \<Rightarrow> configuration_input \<Rightarrow> bool" where
  "ceilings_hold ceil own i =
     list_all (\<lambda>(k, s). scopeWithin s (grant_or_none ceil k)
       \<and> (ct_campus i \<noteq> GLOBAL_CAMPUS \<longrightarrow> scopeWithin s (grant_or_none own k))) (ci_grants i)"

definition assertCeilings :: "configuration_input \<Rightarrow> configurations \<Rightarrow> unit result" where
  "assertCeilings i rows =
     (if ct_campus i = GLOBAL_CAMPUS \<and> ct_kind i = Ceiling then Inr ()
      else and_then (resolveGrants rows (ceiling_of GLOBAL_CAMPUS)) (\<lambda>ceil.
        and_then (case (ct_kind i, ct_role i) of
            (RoleGrants, Some r) \<Rightarrow> resolveGrants rows (grants_of r GLOBAL_CAMPUS) | _ \<Rightarrow> Inr ceil) (\<lambda>own.
          require (ceilings_hold ceil own i) permissionDenied)))"

definition source_covers :: "permission_scope \<Rightarrow> grant_explanation \<Rightarrow> bool" where
  "source_covers s x = (gx_role x = ADMIN \<and> gx_allowed x
     \<and> list_all (scopeWithin s) [gx_sourceScope x, gx_globalCeiling x, gx_campusCeiling x, gx_campusGrant x])"

definition admin_may_grant :: "permission_decision \<Rightarrow> string \<times> permission_scope \<Rightarrow> bool" where
  "admin_may_grant authority e =
     (snd e = ScopeNone \<or> (snd e \<noteq> ScopeGlobal
        \<and> (case perm_definition (fst e) of None \<Rightarrow> True | Some d \<Rightarrow> \<not> pd_reserved d)
        \<and> list_ex (source_covers (snd e)) (de_sources authority)))"

definition assertAdminGrantBounds :: "principal \<Rightarrow> configuration_input \<Rightarrow> configurations \<Rightarrow> unit result" where
  "assertAdminGrantBounds p i rows =
     (if SUPER_ADMIN \<in> set (p_roles p) then Inr ()
      else and_then (evaluatePermission p ''roles.permissions.manage'' rows (campusContext p (ct_campus i))) (\<lambda>authority.
        require (list_all (admin_may_grant authority) (ci_grants i)) permissionDenied))"

record configuration_change =
  cc_permission :: string
  cc_from :: permission_scope
  cc_to :: permission_scope
  cc_widening :: bool
  cc_sensitive :: bool

definition configurationChanges :: "grants \<Rightarrow> grants \<Rightarrow> configuration_change list" where
  "configurationChanges before after =
     map (\<lambda>(k, s). \<lparr>cc_permission = k, cc_from = grant_or_none before k, cc_to = s,
           cc_widening = (\<not> scopeWithin s (grant_or_none before k)),
           cc_sensitive = (case perm_definition k of None \<Rightarrow> False | Some d \<Rightarrow> pd_sensitive d)\<rparr>)
       (filter (\<lambda>(k, s). js_get before k \<noteq> Some s) after)"

definition validateChange :: "principal \<Rightarrow> configuration_input \<Rightarrow> configurations \<Rightarrow> grants result" where
  "validateChange p i rows =
     and_then (editableTarget p i) (\<lambda>_.
     and_then (requirePermission p ''roles.permissions.manage'' rows (ct_campus i)) (\<lambda>_.
       (let current = (case matching rows i of [] \<Rightarrow> None | r # _ \<Rightarrow> Some r)
        in and_then (require ((case current of None \<Rightarrow> 0 | Some r \<Rightarrow> cs_version r) = ci_expectedVersion i)
              (Conflict ''permission_version_conflict'')) (\<lambda>_.
           and_then (assertCeilings i rows) (\<lambda>_.
           and_then (assertAdminGrantBounds p i rows) (\<lambda>_.
             Inr (case current of None \<Rightarrow> defaultConfiguration i | Some r \<Rightarrow> cs_grants r)))))))"

definition snapshot_of :: "configuration_input \<Rightarrow> configuration_snapshot" where
  "snapshot_of i = \<lparr>ct_kind = ct_kind i, ct_role = ct_role i, ct_campus = ct_campus i,
     cs_version = ci_expectedVersion i + 1, cs_grants = ci_grants i\<rparr>"

definition replace_row :: "configurations \<Rightarrow> configuration_input \<Rightarrow> configurations" where
  "replace_row rows i = filter (\<lambda>r. configurationKey r \<noteq> configurationKey i) rows @ [snapshot_of i]"

definition invariant_principal :: "string \<times> role list \<Rightarrow> principal" where
  "invariant_principal a = \<lparr>userId = fst a, p_roles = snd a, scopes = [GlobalScope], sessionId = ''invariant-check'',
     mustChangeSecret = None, permissionLeadIds = None\<rparr>"

definition still_administers :: "configurations \<Rightarrow> string \<times> role list \<Rightarrow> bool result" where
  "still_administers rows a =
     every_ok (\<lambda>k. map_sum id de_allowed
       (evaluatePermission (invariant_principal a) k rows (campusContext (invariant_principal a) GLOBAL_CAMPUS)))
       [''roles.permissions.view'', ''roles.permissions.manage'']"

text \<open>\<open>protectLastSuperAdmin\<close>: the active super administrators of the database are an argument.\<close>

definition protectLastSuperAdmin :: "(string \<times> role list) list \<Rightarrow> configurations \<Rightarrow> unit result" where
  "protectLastSuperAdmin admins rows =
     and_then (some_ok (still_administers rows) admins) (\<lambda>b. require b (Conflict ''last_super_admin_required''))"

text \<open>\<open>saveInTransaction\<close>: the response and the configurations the transaction leaves behind.\<close>

definition saveInTransaction ::
  "(string \<Rightarrow> bool) \<Rightarrow> (string \<times> role list) list \<Rightarrow> principal \<Rightarrow> configuration_input \<Rightarrow> configurations
     \<Rightarrow> (int \<times> configuration_change list) result \<times> configurations" where
  "saveInTransaction known admins p i rows =
     (case and_then (knownCampus known (ct_campus i)) (\<lambda>_.
           and_then (validateChange p i rows) (\<lambda>before.
             (let changes = configurationChanges before (ci_grants i)
              in and_then (require (changes \<noteq> []) (Conflict ''permission_no_change'')) (\<lambda>_.
                 and_then (require (\<not> (list_ex (\<lambda>c. cc_widening c \<or> cc_sensitive c) changes \<and> \<not> ci_confirmed i)) permissionDenied) (\<lambda>_.
                 and_then (protectLastSuperAdmin admins (replace_row rows i)) (\<lambda>_.
                   Inr (ci_expectedVersion i + 1, changes))))))) of
        Inl e \<Rightarrow> (Inl e, rows)
      | Inr r \<Rightarrow> (Inr r, replace_row rows i))"

definition permission_preview ::
  "(string \<Rightarrow> bool) \<Rightarrow> principal \<Rightarrow> configuration_input \<Rightarrow> configurations \<Rightarrow> configuration_change list result" where
  "permission_preview known p i rows =
     and_then (knownCampus known (ct_campus i)) (\<lambda>_.
       and_then (validateChange p i rows) (\<lambda>before. Inr (configurationChanges before (ci_grants i))))"

text \<open>\<open>read\<close>: the version, whether the defaults apply, the grants and the global ceiling.\<close>

definition permission_read ::
  "(string \<Rightarrow> bool) \<Rightarrow> principal \<Rightarrow> configuration_target \<Rightarrow> configurations \<Rightarrow> (int \<times> bool \<times> grants \<times> grants) result" where
  "permission_read known p t rows =
     and_then (visibleTarget p t) (\<lambda>_.
     and_then (knownCampus known (ct_campus t)) (\<lambda>_.
     and_then (requirePermission p ''roles.permissions.view'' rows (ct_campus t)) (\<lambda>_.
     and_then (resolveGrants rows (ceiling_of GLOBAL_CAMPUS)) (\<lambda>ceil.
       Inr (case matching rows t of
              [] \<Rightarrow> (0, True, defaultConfiguration t, ceil) | r # _ \<Rightarrow> (cs_version r, False, cs_grants r, ceil))))))"

text \<open>\<open>restore\<close>: the archive of versions, by key and number, is the database's.\<close>

definition permission_restore ::
  "(string \<Rightarrow> bool) \<Rightarrow> (string \<times> role list) list \<Rightarrow> (string \<Rightarrow> int \<Rightarrow> (string, string) js_map option) \<Rightarrow> principal
     \<Rightarrow> configuration_target \<Rightarrow> jsnum \<Rightarrow> bool \<Rightarrow> jsnum \<Rightarrow> configurations
     \<Rightarrow> (int \<times> configuration_change list) result \<times> configurations" where
  "permission_restore known admins archive p t expected confirmed number rows =
     (if \<not> safe_integer number \<or> num_value number < 1 then (Inl permissionDenied, rows)
      else (case and_then (validateTarget t) (\<lambda>_. and_then (editableTarget p t) (\<lambda>_.
              (case archive (configurationKey t) (num_value number) of
                 None \<Rightarrow> Inl permissionDenied
               | Some es \<Rightarrow> and_then (historicalGrants es t) (\<lambda>g.
                   validateInput [] t (map (\<lambda>(k, s). (k, permission_scope_name s)) g) expected ''RESTORE_VERSION'' confirmed)))) of
          Inl e \<Rightarrow> (Inl e, rows)
        | Inr i \<Rightarrow> saveInTransaction known admins p i rows))"

definition permission_explain :: "principal \<Rightarrow> configurations \<Rightarrow> evaluation_context \<Rightarrow> bool \<Rightarrow> permission_decision list result" where
  "permission_explain p rows c for_lead =
     (if \<not> ec_campusAllowed c \<and> \<not> ec_globalAllowed c then Inl permissionDenied
      else and_then (if for_lead then map_sum id de_allowed (evaluatePermission p ''lead.view'' rows c) else Inr True) (\<lambda>b.
        and_then (require b permissionDenied) (\<lambda>_.
          map_ok (\<lambda>d. evaluatePermission p (pd_key d) rows c) permissionCatalogue)))"

section \<open>Adopting a new catalogue\<close>

definition adopted_scope :: "'a configuration_target_scheme \<Rightarrow> string" where
  "adopted_scope t =
     (if ct_kind t = Ceiling \<or> ct_role t = Some SUPER_ADMIN
      then (if ct_campus t = GLOBAL_CAMPUS then ''GLOBAL'' else ''CAMPUS'')
      else if ct_role t = Some ADMIN then ''CAMPUS'' else ''NONE'')"

text \<open>
  One row of \<open>upgradeCurrentCatalogue\<close>: the grants of its latest version and its target; the new
  grants, or nothing when the catalogue is already adopted.
\<close>

definition upgraded_grants :: "(string, string) js_map \<Rightarrow> 'a configuration_target_scheme \<Rightarrow> (string, string) js_map option result" where
  "upgraded_grants es t =
     (let lacks = (\<lambda>k. \<not> js_has es k)
      in if \<not> lacks ''lead.qualification.update'' \<and> \<not> lacks ''telephony.free-call.create'' \<and> \<not> lacks ''reporting.pilotage.view''
         then Inr None
         else and_then (validateTarget t) (\<lambda>_. and_then (historicalGrants es t) (\<lambda>g.
           (let g0 = map (\<lambda>(k, s). (k, permission_scope_name s)) g;
                g1 = (if lacks ''lead.qualification.update'' then js_set g0 ''lead.qualification.update'' (adopted_scope t) else g0);
                g2 = (if lacks ''telephony.free-call.create'' then js_set g1 ''telephony.free-call.create'' (adopted_scope t) else g1)
            in Inr (Some g2)))))"

section \<open>Static grants\<close>

definition permissionKeys :: "string list" where
  "permissionKeys = [''lead.tags.assign'', ''lead.tags.manage'', ''lead.references.view'', ''lead.references.manage'',
     ''lead.references.archive'', ''settings.campus.manage'', ''settings.global.manage'']"

datatype grant_scope = AnyGrant | CampusGrant | Applicable | ActiveApplicable | OwnerGrant | ReadableResource

fun static_grants :: "role \<Rightarrow> (string \<times> grant_scope) list" where
  "static_grants SUPER_ADMIN = map (\<lambda>k. (k, AnyGrant)) permissionKeys"
| "static_grants ADMIN = [(''lead.tags.assign'', CampusGrant), (''lead.tags.manage'', CampusGrant),
     (''lead.references.view'', Applicable), (''lead.references.manage'', CampusGrant),
     (''lead.references.archive'', CampusGrant), (''settings.campus.manage'', CampusGrant)]"
| "static_grants MANAGER = [(''lead.tags.assign'', CampusGrant), (''lead.references.view'', ActiveApplicable)]"
| "static_grants ADMISSIONS = [(''lead.tags.assign'', OwnerGrant), (''lead.references.view'', ActiveApplicable)]"
| "static_grants AUDITOR = [(''lead.references.view'', ReadableResource)]"

definition grant_matches :: "grant_scope \<Rightarrow> principal \<Rightarrow> resource_context \<Rightarrow> bool" where
  "grant_matches g p c =
     (let ownCampus = list_ex (\<lambda>k. CampusScope k \<in> set (scopes p)) (rc_campusKeys c)
      in case g of
           AnyGrant \<Rightarrow> True
         | CampusGrant \<Rightarrow> \<not> rc_global c \<and> ownCampus
         | Applicable \<Rightarrow> rc_global c \<or> ownCampus
         | ActiveApplicable \<Rightarrow> rc_active c \<and> (rc_global c \<or> ownCampus)
         | OwnerGrant \<Rightarrow> ownCampus \<and> (rc_ownerId c = Some (userId p)
             \<or> (case rc_collaboratorIds c of None \<Rightarrow> False | Some us \<Rightarrow> userId p \<in> set us))
         | ReadableResource \<Rightarrow> rc_readableResource c)"

text \<open>\<open>PermissionService.can\<close>; the provider either decides itself, possibly failing, or lists static grants.\<close>

definition permission_can ::
  "(principal \<Rightarrow> string \<Rightarrow> resource_context \<Rightarrow> bool result) option \<Rightarrow> principal option \<Rightarrow> string \<Rightarrow> resource_context \<Rightarrow> bool" where
  "permission_can decide req k c =
     (case req of
        None \<Rightarrow> False
      | Some p \<Rightarrow>
          if userId p = [] \<or> sessionId p = [] \<or> mustChangeSecret p = Some True then False
          else if k = ''audit.view'' \<and> \<not> list_ex (\<lambda>r. r \<in> set auditRoles) (p_roles p) then False
          else (case decide of
            Some f \<Rightarrow> available k \<and> f p k c = Inr True
          | None \<Rightarrow> k \<in> set permissionKeys
              \<and> list_ex (\<lambda>(g, s). g = k \<and> grant_matches s p c) (concat (map static_grants (p_roles p)))))"

definition assertCan ::
  "(principal \<Rightarrow> string \<Rightarrow> resource_context \<Rightarrow> bool result) option \<Rightarrow> principal option \<Rightarrow> string \<Rightarrow> resource_context \<Rightarrow> unit result" where
  "assertCan decide req k c = require (permission_can decide req k c) permissionDenied"

end
