(* ===== verification/PermissionLaws.thy ===== *)
theory PermissionLaws
  imports PermissionService
begin

text \<open>
  What the permission engine promises: scopes are ordered by the resources they reach, a ceiling
  closes a permission to everybody, an auditor changes nothing, an administrator leaves its own
  rights alone, and every reachable configuration is well formed and keeps one super administrator
  able to administer it.
\<close>

section \<open>Catalogue and keys\<close>

lemma find_describe: "find (\<lambda>d. pd_key d = k) (map describe ks) = (if k \<in> set ks then Some (describe k) else None)"
  by (induction ks) (auto simp: describe_def)

lemma perm_definition_eq: "perm_definition k = (if k \<in> set permission_names then Some (describe k) else None)"
  by (simp only: perm_definition_def permissionCatalogue_def find_describe)

lemma mutation_eq: "mutation k \<longleftrightarrow> k \<in> set permission_names \<and> \<not> read_only k"
  by (simp add: mutation_def perm_definition_eq describe_def)

lemma available_eq: "available k \<longleftrightarrow> k \<in> set permission_names \<and> k \<notin> set unavailable"
  by (simp add: available_def perm_definition_eq describe_def)

lemma configurationKey_inj: "configurationKey s = configurationKey t \<longleftrightarrow> plain_target s = plain_target t"
proof -
  have "kind_name k @ '':'' @ target_role_name r @ '':'' @ c = kind_name k' @ '':'' @ target_role_name r' @ '':'' @ c'
      \<longleftrightarrow> k = k' \<and> r = r' \<and> c = c'" for k k' r r' c c'
  proof (cases r; cases r')
    fix a b assume "r = Some a" "r' = Some b"
    then show ?thesis by (cases k; cases k'; cases a; cases b) simp_all
  next
    fix a assume "r = Some a" "r' = None"
    then show ?thesis by (cases k; cases k'; cases a) simp_all
  next
    fix a assume "r = None" "r' = Some a"
    then show ?thesis by (cases k; cases k'; cases a) simp_all
  qed (cases k; cases k'; simp)
  then show ?thesis by (simp add: configurationKey_def plain_target_def)
qed

section \<open>Scopes\<close>

text \<open>
  A syntactic order on grants that stands for inclusion of what they reach. Whoever compares
  grants by the order relies on nothing else.
\<close>

locale reach_order =
  fixes within :: "'s \<Rightarrow> 's \<Rightarrow> bool" and reach :: "'s \<Rightarrow> 'r set"
  assumes within_iff: "within a b \<longleftrightarrow> reach a \<subseteq> reach b"
begin

lemma within_refl: "within a a"
  by (simp add: within_iff)

lemma within_trans: "within a b \<Longrightarrow> within b c \<Longrightarrow> within a c"
  unfolding within_iff by (rule order_trans)

lemma within_reach: "within a b \<Longrightarrow> x \<in> reach a \<Longrightarrow> x \<in> reach b"
  by (auto simp: within_iff)

end

definition reached :: "permission_scope \<Rightarrow> (evaluation_context \<times> role) set" where
  "reached s = {(c, r). includesResource s c r}"

definition probe :: "bool \<Rightarrow> bool \<Rightarrow> bool \<Rightarrow> bool \<Rightarrow> evaluation_context" where
  "probe camp glob own team = \<lparr>ec_campus = [], ec_active = True, ec_own = own, ec_team = team, ec_managedTeam = False,
     ec_campusAllowed = camp, ec_globalAllowed = glob, ec_restriction = None\<rparr>"

interpretation scope: reach_order scopeWithin reached
proof
  fix a b
  show "scopeWithin a b \<longleftrightarrow> reached a \<subseteq> reached b"
  proof
    assume "scopeWithin a b"
    then show "reached a \<subseteq> reached b" by (cases a; cases b) (auto simp: scopeWithin_def reached_def)
  next
    assume "reached a \<subseteq> reached b"
    then have "includesResource a c ADMIN \<Longrightarrow> includesResource b c ADMIN" for c by (auto simp: reached_def)
    from this [of "probe False True False False"] this [of "probe True False False False"]
         this [of "probe True False True False"] this [of "probe True False False True"]
    show "scopeWithin a b" by (cases a; cases b) (simp_all add: scopeWithin_def probe_def)
  qed
qed

text \<open>
  C30: A grant is within another exactly when it reaches no resource the other does not reach, for any
  role: the table the code writes out is inclusion of the resources.
\<close>

theorem scope_within_is_inclusion:
  "scopeWithin a b \<longleftrightarrow> {(c, r). includesResource a c r} \<subseteq> {(c, r). includesResource b c r}"
  unfolding reached_def [symmetric] by (rule scope.within_iff)

section \<open>Decisions\<close>

lemma map_sum_ok: "map_sum id f m = Inr b \<longleftrightarrow> (\<exists>a. m = Inr a \<and> b = f a)"
  by (cases m) auto

lemma explainRole_Inr:
  assumes "explainRole r k rows c = Inr x"
  obtains src glob cc cg re where "resolveGrants rows (grants_of r GLOBAL_CAMPUS) = Inr src"
    and "resolveGrants rows (ceiling_of GLOBAL_CAMPUS) = Inr glob"
    and "(if ec_campus c = GLOBAL_CAMPUS then Inr ScopeGlobal
          else map_sum id (\<lambda>g. grant_or_none g k) (resolveGrants rows (ceiling_of (ec_campus c)))) = Inr cc"
    and "r = AUDITOR \<and> mutation k \<Longrightarrow> truthy re"
    and "x = \<lparr>gx_role = r, gx_sourceScope = grant_or_none src k, gx_globalCeiling = grant_or_none glob k, gx_campusCeiling = cc,
           gx_campusGrant = cg,
           gx_allowed = (list_all (\<lambda>s. includesResource s c r) [grant_or_none src k, grant_or_none glob k, cc, cg] \<and> \<not> truthy re),
           gx_restriction = re\<rparr>"
proof -
  let ?cc = "if ec_campus c = GLOBAL_CAMPUS then Inr ScopeGlobal
    else map_sum id (\<lambda>g. grant_or_none g k) (resolveGrants rows (ceiling_of (ec_campus c)))"
  from assms obtain src where src: "resolveGrants rows (grants_of r GLOBAL_CAMPUS) = Inr src"
    unfolding explainRole_def by (cases "resolveGrants rows (grants_of r GLOBAL_CAMPUS)") (simp_all only: sum.case, blast+)
  from assms obtain glob where glob: "resolveGrants rows (ceiling_of GLOBAL_CAMPUS) = Inr glob"
    unfolding explainRole_def src sum.case by (cases "resolveGrants rows (ceiling_of GLOBAL_CAMPUS)") (simp_all only: sum.case, blast+)
  from assms obtain cc where cc: "?cc = Inr cc"
    unfolding explainRole_def src glob sum.case by (cases ?cc) (simp_all only: sum.case, blast+)
  show ?thesis
    by (rule that [OF src glob cc _ sym [OF Inr_inject [OF assms [unfolded explainRole_def src glob cc sum.case Let_def], symmetric], symmetric]]) simp
qed

lemma explainRole_allowed:
  assumes "explainRole r k rows c = Inr x" and "gx_allowed x"
  shows "gx_role x = r \<and> includesResource (gx_sourceScope x) c r \<and> includesResource (gx_globalCeiling x) c r
    \<and> includesResource (gx_campusCeiling x) c r \<and> includesResource (gx_campusGrant x) c r
    \<and> \<not> (r = AUDITOR \<and> mutation k)"
  by (rule explainRole_Inr [OF assms(1)]) (use assms(2) in auto)

lemma explainRole_ceiling:
  assumes "explainRole r k rows c = Inr x" and "resolveGrants rows (ceiling_of GLOBAL_CAMPUS) = Inr g"
  shows "gx_globalCeiling x = grant_or_none g k"
  by (rule explainRole_Inr [OF assms(1)]) (use assms(2) in simp)

lemma list_all2_pick: "list_all2 P us xs \<Longrightarrow> x \<in> set xs \<Longrightarrow> \<exists>u \<in> set us. P u x"
  by (induction rule: list_all2_induct) auto

lemma explain_all_mem:
  assumes "explain_all rs k rows c = Inr xs" and "x \<in> set xs"
  shows "\<exists>r \<in> set rs. explainRole r k rows c = Inr x"
  using list_all2_pick [OF assms(1) [unfolded explain_all_def map_ok_Inr] assms(2)] by simp

lemma source_role:
  assumes "evaluatePermission p k rows c = Inr d" and "x \<in> set (de_sources d)"
  shows "gx_role x \<in> set (p_roles p)"
proof -
  have "gx_role x \<in> set (p_roles p)" if all: "explain_all (p_roles p) k rows c' = Inr xs" and "x \<in> set xs" for c' xs
  proof -
    from explain_all_mem [OF that] obtain r where "r \<in> set (p_roles p)" and "explainRole r k rows c' = Inr x" by blast
    then show ?thesis by (auto elim: explainRole_Inr)
  qed

  with assms show ?thesis
    by (auto simp: evaluatePermission_def Let_def map_sum_ok auditDecision_def split: if_splits)
qed

lemma allowed_has_source:
  assumes "evaluatePermission p k rows c = Inr d" and "de_allowed d"
  shows "available k \<and> userId p \<noteq> [] \<and> sessionId p \<noteq> [] \<and> mustChangeSecret p \<noteq> Some True
    \<and> (\<exists>r \<in> set (p_roles p). \<exists>c' x. explainRole r k rows c' = Inr x \<and> gx_allowed x
          \<and> ec_campus c' = ec_campus c \<and> (k \<noteq> ''audit.view'' \<longrightarrow> c' = c))"
proof (cases "available k \<and> userId p \<noteq> [] \<and> sessionId p \<noteq> [] \<and> mustChangeSecret p \<noteq> Some True")
  case ok: True
  let ?ac = "c\<lparr>ec_globalAllowed := True, ec_campusAllowed := (ec_campus c \<noteq> GLOBAL_CAMPUS \<and> ec_campusAllowed c)\<rparr>"
  show ?thesis
  proof (cases "k = ''audit.view''")
    case True
    with ok assms(1) obtain xs where all: "explain_all (p_roles p) k rows ?ac = Inr xs" and d: "d = auditDecision xs ?ac"
      by (auto simp: evaluatePermission_def Let_def map_sum_ok split: if_splits)
    from assms(2) obtain x where "x \<in> set xs" "gx_allowed x"
      unfolding d auditDecision_def Let_def
      by (auto simp: list_all_iff filter_empty_conv)
    with explain_all_mem [OF all] ok True show ?thesis by fastforce
  next
    case False
    with ok assms(1) obtain xs where all: "explain_all (p_roles p) k rows c = Inr xs" and d: "de_allowed d = list_ex gx_allowed xs"
      by (auto simp: evaluatePermission_def Let_def map_sum_ok split: if_splits)
    from assms(2) obtain x where "x \<in> set xs" "gx_allowed x" unfolding d list_ex_iff by blast
    with explain_all_mem [OF all] ok False show ?thesis by blast
  qed
next
  case False
  with assms show ?thesis by (auto simp: evaluatePermission_def split: if_splits)
qed

text \<open>
  C27: A ceiling of NONE closes a permission: whatever the roles and their grants, nobody is allowed
  it, in any context, the audit trail included.
\<close>

theorem ceiling_closes_permission:
  assumes "resolveGrants rows (ceiling_of GLOBAL_CAMPUS) = Inr g" and "grant_or_none g k = ScopeNone"
    and "evaluatePermission p k rows c = Inr d"
  shows "\<not> de_allowed d"
proof
  assume "de_allowed d"
  with allowed_has_source [OF assms(3)] obtain r c' x where x: "explainRole r k rows c' = Inr x" "gx_allowed x" by blast
  with explainRole_ceiling [OF x(1) assms(1)] explainRole_allowed [OF x] assms(2) show False by simp
qed

text \<open>
  An auditor reads: a principal whose only role is AUDITOR is allowed no mutation, whatever the
  stored grants say.
\<close>

theorem auditor_never_mutates:
  assumes "set (p_roles p) \<subseteq> {AUDITOR}" and "mutation k" and "evaluatePermission p k rows c = Inr d"
  shows "\<not> de_allowed d"
proof
  assume "de_allowed d"
  with allowed_has_source [OF assms(3)] obtain r c' x
    where "r \<in> set (p_roles p)" and x: "explainRole r k rows c' = Inr x" "gx_allowed x" by blast
  with explainRole_allowed [OF x] assms(1,2) show False by auto
qed

section \<open>Saving\<close>

lemma and_then_Inr: "and_then m k = Inr b \<longleftrightarrow> (\<exists>a. m = Inr a \<and> k a = Inr b)"
  by (cases m) (simp_all add: and_then_def)

lemma required_Inr: "require b e = Inr u \<longleftrightarrow> b"
  by (simp add: require_def)

lemmas accepted = and_then_Inr required_Inr

lemma saved:
  assumes "saveInTransaction known admins p i rows = (Inr r, rows')"
  shows "rows' = replace_row rows i \<and> fst r = ci_expectedVersion i + 1
    \<and> (\<exists>before. validateChange p i rows = Inr before) \<and> protectLastSuperAdmin admins rows' = Inr ()"
  using assms unfolding saveInTransaction_def Let_def
  by (auto simp: accepted split: sum.splits)

lemma refused: "saveInTransaction known admins p i rows = (Inl e, rows') \<Longrightarrow> rows' = rows"
  by (auto simp: saveInTransaction_def split: sum.splits)

lemma changed:
  assumes "validateChange p i rows = Inr before"
  shows "editableTarget p i = Inr () \<and> (case matching rows i of [] \<Rightarrow> 0 | r # _ \<Rightarrow> cs_version r) = ci_expectedVersion i
    \<and> assertCeilings i rows = Inr () \<and> assertAdminGrantBounds p i rows = Inr ()"
  using assms unfolding validateChange_def Let_def
  by (auto simp: accepted split: list.splits option.splits)

lemma editable_by_admin:
  assumes "editableTarget p t = Inr u" and "SUPER_ADMIN \<notin> set (p_roles p)"
  obtains r where "ct_kind t = RoleGrants" and "ct_role t = Some r" and "r \<notin> set (p_roles p)"
    and "ct_campus t \<noteq> GLOBAL_CAMPUS"
  using assms unfolding editableTarget_def visibleTarget_def
  by (auto simp: accepted split: option.splits if_splits)

lemma matching_replace:
  "configurationKey t \<noteq> configurationKey i \<Longrightarrow> matching (replace_row rows i) t = matching rows t"
proof -
  assume other: "configurationKey t \<noteq> configurationKey i"
  have "configurationKey (snapshot_of i) = configurationKey i" by (simp add: configurationKey_inj plain_target_def snapshot_of_def)
  with other show ?thesis
    by (auto simp: matching_def replace_row_def filter_filter intro!: filter_cong)
qed

lemma explainRole_replace:
  assumes "ct_kind i = RoleGrants" and "ct_role i = Some r'" and "r' \<noteq> r"
  shows "explainRole r k (replace_row rows i) c = explainRole r k rows c"
proof -
  have ceil: "matching (replace_row rows i) (ceiling_of x) = matching rows (ceiling_of x)" for x
    by (rule matching_replace) (use assms in \<open>simp add: configurationKey_inj plain_target_def ceiling_of_def\<close>)
  have own: "matching (replace_row rows i) (grants_of r x) = matching rows (grants_of r x)" for x
    by (rule matching_replace) (use assms in \<open>simp add: configurationKey_inj plain_target_def grants_of_def\<close>)
  show ?thesis by (simp only: explainRole_def resolveGrants_def ceil own)
qed

text \<open>
  C8: An administrator does not touch its own rights: after a save accepted from somebody who is not a
  super administrator, every decision about that person, for every permission and every resource, is
  the one it was before.
\<close>

theorem admin_never_self:
  assumes "saveInTransaction known admins p i rows = (Inr r, rows')" and "SUPER_ADMIN \<notin> set (p_roles p)"
  shows "evaluatePermission p k rows' c = evaluatePermission p k rows c"
proof -
  from saved [OF assms(1)] have rows': "rows' = replace_row rows i"
    and "editableTarget p i = Inr ()" using changed by blast+
  then obtain r' where i: "ct_kind i = RoleGrants" "ct_role i = Some r'" and other: "r' \<notin> set (p_roles p)"
    using editable_by_admin assms(2) by blast
  have "explain_all (p_roles p) k rows' c' = explain_all (p_roles p) k rows c'" for c'
  proof -
    have "map_ok (\<lambda>x. explainRole x k rows' c') us = map_ok (\<lambda>x. explainRole x k rows c') us" if "r' \<notin> set us" for us
      using that by (induction us) (auto simp: rows' explainRole_replace [OF i] split: sum.splits)
    with other show ?thesis by (simp add: explain_all_def)
  qed
  then show ?thesis by (simp only: evaluatePermission_def)
qed

lemma assigned_ceilings:
  assumes "assertCeilings i rows = Inr u" and "\<not> (ct_campus i = GLOBAL_CAMPUS \<and> ct_kind i = Ceiling)"
    and "resolveGrants rows (ceiling_of GLOBAL_CAMPUS) = Inr g" and "(k, s) \<in> set (ci_grants i)"
  shows "scopeWithin s (grant_or_none g k)"
  using assms unfolding assertCeilings_def by (auto simp: accepted ceilings_hold_def list_all_iff)

text \<open>
  No save goes beyond the global ceiling: whoever saves the grants of a role or of a campus, a
  resource they reach is one the ceiling of that permission reaches.
\<close>

theorem saves_stay_below_ceiling:
  assumes "saveInTransaction known admins p i rows = (Inr r, rows')"
    and "\<not> (ct_campus i = GLOBAL_CAMPUS \<and> ct_kind i = Ceiling)"
    and "resolveGrants rows (ceiling_of GLOBAL_CAMPUS) = Inr g"
    and "(k, s) \<in> set (ci_grants i)" and "includesResource s c x"
  shows "includesResource (grant_or_none g k) c x"
proof -
  from saved [OF assms(1)] obtain u where "assertCeilings i rows = Inr u" using changed by blast
  from scope.within_reach [OF assigned_ceilings [OF this assms(2-4)]] assms(5) show ?thesis
    by (auto simp: reached_def)
qed


section \<open>Well-formed configurations\<close>

definition texts :: "grants \<Rightarrow> (string, string) js_map" where
  "texts g = map (\<lambda>(k, s). (k, permission_scope_name s)) g"

definition grants_ok :: "'a configuration_target_scheme \<Rightarrow> grants \<Rightarrow> bool" where
  "grants_ok t g = (js_wf g \<and> length g = length permissionCatalogue \<and> list_all (entry_valid t) (texts g))"

lemma as_scope_name: "as_scope (permission_scope_name s) = Some s"
  by (cases s) (simp_all add: as_scope_def permission_scopes_def)

lemma as_grants_texts: "as_grants (texts g) = g"
  by (induction g) (auto simp: as_grants_def texts_def List.map_filter_simps as_scope_name)

lemma texts_as_grants:
  assumes "list_all (entry_valid t) es"
  shows "texts (as_grants es) = es"
  using assms
proof (induction es)
  case (Cons e es)
  obtain k v where e: "e = (k, v)" by force
  from Cons.prems obtain s where v: "v = permission_scope_name s"
    unfolding e by (auto simp: entry_valid_def split: option.splits)
  with Cons e show ?case
    by (simp add: as_grants_def texts_def List.map_filter_simps as_scope_name)
qed (simp add: as_grants_def texts_def List.map_filter_simps)

lemma js_wf_texts: "js_wf (texts g) = js_wf g"
  by (simp add: js_wf_def js_keys_def texts_def comp_def case_prod_unfold)

lemma length_texts [simp]: "length (texts g) = length g"
  by (simp add: texts_def)

lemma validateGrants_ok:
  assumes "validateGrants es t = Inr g" and "js_wf es"
  shows "grants_ok t g \<and> texts g = es"
proof -
  from assms(1) have es: "length es = length permissionCatalogue" "list_all (entry_valid t) es" and g: "g = as_grants es"
    by (auto simp: validateGrants_def split: if_splits)
  have te: "texts g = es" unfolding g by (rule texts_as_grants [OF es(2)])
  have "length g = length es" by (simp only: te [symmetric] length_texts)
  with te es assms(2) show ?thesis by (simp add: grants_ok_def js_wf_texts [symmetric])
qed

lemma validateGrants_texts:
  "validateGrants (texts g) t = Inr g \<longleftrightarrow> length g = length permissionCatalogue \<and> list_all (entry_valid t) (texts g)"
  by (auto simp: validateGrants_def as_grants_texts)

lemma outside_lead:
  assumes "\<not> starts_with ''lead.'' k"
  shows "defaultRoleScope r k \<in> {ScopeNone, ScopeCampus, ScopeGlobal}"
proof -
  have lead: "k \<noteq> ''lead.qualification.update''" "k \<notin> set viewGrantKeys"
    "k \<notin> set [''lead.edit'', ''lead.tags.assign'', ''lead.collaborators.manage'']"
    using assms by (auto simp: viewGrantKeys_def)
  then have "viewDefaultScope r k = None" by (simp add: viewDefaultScope_def)
  with lead show ?thesis by (simp only: defaultRoleScope_def Let_def if_False option.case) (simp split: if_split)
qed

lemma default_super: "defaultRoleScope SUPER_ADMIN k \<in> {ScopeNone, ScopeGlobal}"
proof -
  have "viewDefaultScope SUPER_ADMIN k \<in> {None, Some ScopeGlobal}" by (simp add: viewDefaultScope_def)
  then show ?thesis by (cases "viewDefaultScope SUPER_ADMIN k") (simp_all add: defaultRoleScope_def)
qed

lemma default_reserved: "k \<in> set globalOnly \<Longrightarrow> defaultRoleScope r k \<in> {ScopeNone, ScopeGlobal}"
proof (cases "r = SUPER_ADMIN")
  case False
  assume k: "k \<in> set globalOnly"
  then have "k \<noteq> ''lead.qualification.update''" "k \<noteq> ''telephony.free-call.create''" "k \<notin> set viewGrantKeys"
    by (auto simp: viewGrantKeys_def globalOnly_def)
  with False k show ?thesis by (simp add: defaultRoleScope_def viewDefaultScope_def)
qed (use default_super in simp)

lemma default_auditor: "mutation k \<Longrightarrow> defaultRoleScope AUDITOR k = ScopeNone"
  by (simp add: defaultRoleScope_def)

lemma default_unavailable: "k \<in> set unavailable \<Longrightarrow> defaultScope t k = ScopeNone"
  by (cases "ct_role t") (auto simp: defaultScope_def available_eq defaultRoleScope_def)

lemma scope_name_eq: "permission_scope_name s = permission_scope_name s' \<longleftrightarrow> s = s'"
  by (cases s; cases s') simp_all

lemma scope_name_consts:
  "permission_scope_name s = ''NONE'' \<longleftrightarrow> s = ScopeNone" "permission_scope_name s = ''GLOBAL'' \<longleftrightarrow> s = ScopeGlobal"
  by (cases s; simp)+

lemma default_entry_valid:
  assumes "k \<in> set permission_names" and "validateTarget t = Inr ()"
  shows "entry_valid t (k, permission_scope_name (defaultScope t k))"
proof -
  let ?s = "defaultScope t k"
  have target: "ct_kind t = Ceiling \<longleftrightarrow> ct_role t = None"
    using assms(2) by (auto simp: validateTarget_def split: configuration_kind.splits if_splits)
  have campus: "ct_campus t \<noteq> GLOBAL_CAMPUS \<Longrightarrow> ?s \<noteq> ScopeGlobal"
    by (auto simp: defaultScope_def Let_def split: if_splits)
  have reserved: "?s \<in> {ScopeNone, ScopeGlobal}" if k: "k \<in> set globalOnly"
  proof (cases "ct_role t")
    case (Some r)
    with default_reserved [OF k, of r] k show ?thesis by (auto simp: defaultScope_def Let_def)
  qed (use k in \<open>simp add: defaultScope_def\<close>)
  have ordinary: "?s \<in> {ScopeNone, ScopeCampus, ScopeGlobal}" if k: "\<not> starts_with ''lead.'' k"
  proof (cases "ct_role t")
    case (Some r)
    with outside_lead [OF k, of r] k show ?thesis by (auto simp: defaultScope_def Let_def)
  qed (simp add: defaultScope_def)

  have auditor: "ct_role t = Some AUDITOR \<Longrightarrow> \<not> read_only k \<Longrightarrow> ?s = ScopeNone"
    using default_auditor [of k] assms(1) target by (auto simp: defaultScope_def mutation_eq)
  have "?s \<in> set (pd_scopes (describe k))"
    using default_unavailable [of k t] reserved ordinary
    by (cases ?s) (auto simp: describe_def permission_scopes_def)
  then show ?thesis
    using assms(1) campus reserved auditor
    by (auto simp: entry_valid_def perm_definition_eq scope_name_eq scope_name_consts describe_def)
qed

text \<open>
  C32: The defaults are grants the validation accepts: for every valid target, role or ceiling, global
  or of a campus, \<open>defaultConfiguration\<close> passes \<open>validateGrants\<close> and is what it returns.
\<close>

theorem defaults_are_valid:
  assumes "validateTarget t = Inr ()"
  shows "validateGrants (texts (defaultConfiguration t)) t = Inr (defaultConfiguration t)"
  unfolding validateGrants_texts
  using default_entry_valid [OF _ assms]
  by (auto simp: defaultConfiguration_def permissionCatalogue_def texts_def list_all_iff)

section \<open>Reachable configurations\<close>

definition config_ok :: "configurations \<Rightarrow> bool" where
  "config_ok rows = (distinct (map configurationKey rows)
     \<and> list_all (\<lambda>r. validateTarget r = Inr () \<and> 1 \<le> cs_version r \<and> grants_ok r (cs_grants r)) rows)"

text \<open>One accepted or refused request on stored configurations: the body is validated, then saved.\<close>

inductive config_step :: "(string \<Rightarrow> bool) \<Rightarrow> (string \<times> role list) list \<Rightarrow> configurations \<Rightarrow> configurations \<Rightarrow> bool"
  for known admins where
  save: "validateInput ks t es v why sure = Inr i \<Longrightarrow> js_wf es \<Longrightarrow>
     saveInTransaction known admins p i rows = (res, rows') \<Longrightarrow> config_step known admins rows rows'"

lemma target_irrelevant:
  assumes "ct_kind s = ct_kind t" and "ct_role s = ct_role t" and "ct_campus s = ct_campus t"
  shows "validateTarget s = validateTarget t \<and> grants_ok s g = grants_ok t g"
proof -
  have "entry_valid s = entry_valid t" unfolding entry_valid_def assms by (rule refl)
  then show ?thesis by (cases "ct_kind t") (simp_all add: validateTarget_def grants_ok_def assms)
qed

lemma validated:
  assumes "validateInput ks t es v why sure = Inr i" and "js_wf es"
  shows "validateTarget (snapshot_of i) = Inr () \<and> 1 \<le> cs_version (snapshot_of i)
    \<and> grants_ok (snapshot_of i) (cs_grants (snapshot_of i))"
proof -
  from assms(1) obtain g where t: "validateTarget t = Inr ()" and g: "validateGrants es t = Inr g"
    and i: "ct_kind i = ct_kind t" "ct_role i = ct_role t" "ct_campus i = ct_campus t" "ci_grants i = g"
      "0 \<le> ci_expectedVersion i"
    by (auto simp: validateInput_def split: sum.splits if_splits)
  have same: "ct_kind (snapshot_of i) = ct_kind t" "ct_role (snapshot_of i) = ct_role t" "ct_campus (snapshot_of i) = ct_campus t"
    by (simp_all add: snapshot_of_def i)
  from target_irrelevant [OF same] validateGrants_ok [OF g assms(2)] t i(4,5) show ?thesis
    by (simp add: snapshot_of_def)
qed

lemma config_ok_replace:
  assumes "config_ok rows" and "validateTarget (snapshot_of i) = Inr ()" and "1 \<le> cs_version (snapshot_of i)"
    and "grants_ok (snapshot_of i) (cs_grants (snapshot_of i))"
  shows "config_ok (replace_row rows i)"
proof -
  have key: "configurationKey (snapshot_of i) = configurationKey i" by (simp add: configurationKey_inj plain_target_def snapshot_of_def)
  with assms show ?thesis
    by (auto simp: config_ok_def replace_row_def distinct_map_filter list_all_iff)
qed

lemma config_step_ok: "config_step known admins rows rows' \<Longrightarrow> config_ok rows \<Longrightarrow> config_ok rows'"
proof (induction rule: config_step.induct)
  case (save ks t es v why sure i p rows res rows')
  show ?case
  proof (cases res)
    case (Inl e)
    with refused save show ?thesis by blast
  next
    case (Inr r)
    with saved save have "rows' = replace_row rows i" by blast
    with config_ok_replace [OF save.prems] validated [OF save.hyps(1,2)] show ?thesis by blast
  qed
qed

text \<open>
  Every reachable set of configurations is well formed: one row for each key, a valid target,
  a version of at least 1, and for every permission of the catalogue one grant that is valid for
  the target.
\<close>

theorem reachable_configurations_ok:
  assumes "(config_step known admins)\<^sup>*\<^sup>* [] rows"
  shows "config_ok rows"
  using assms by induction (simp add: config_ok_def, blast intro: config_step_ok)

lemma matching_at_most_one:
  assumes "config_ok rows"
  shows "matching rows t = [] \<or> (\<exists>r. matching rows t = [r])"
proof -
  have "length (filter (\<lambda>r. configurationKey r = key) rows) \<le> 1" if "distinct (map configurationKey rows)" for key
    using that
  proof (induction rows)
    case (Cons a rows)
    from Cons.prems have "filter (\<lambda>r. configurationKey r = key) rows = []" if "configurationKey a = key"
      using that by (simp add: filter_empty_conv) (metis image_eqI)
    with Cons show ?case by simp
  qed simp
  with assms have "length (matching rows t) \<le> 1" by (simp add: config_ok_def matching_def)
  then show ?thesis by (auto simp: le_Suc_eq length_Suc_conv)
qed

lemma resolveGrants_total: "config_ok rows \<Longrightarrow> \<exists>g. resolveGrants rows t = Inr g"
  using matching_at_most_one [of rows t] by (auto simp: resolveGrants_def)

lemma explainRole_total:
  assumes "config_ok rows"
  shows "\<exists>x. explainRole r k rows c = Inr x"
proof -
  from resolveGrants_total [OF assms] obtain a b d where
    "resolveGrants rows (grants_of r GLOBAL_CAMPUS) = Inr a" "resolveGrants rows (ceiling_of GLOBAL_CAMPUS) = Inr b"
    "resolveGrants rows (ceiling_of (ec_campus c)) = Inr d" by metis
  then show ?thesis by (simp add: explainRole_def Let_def)
qed

text \<open>
  C29: The evaluation never throws on reachable configurations: no pair of them is ambiguous, so
  every permission of every principal in every context has a decision.
\<close>

theorem evaluation_decides:
  assumes "(config_step known admins)\<^sup>*\<^sup>* [] rows"
  shows "\<exists>d. evaluatePermission p k rows c = Inr d"
proof -
  have ok: "config_ok rows" using assms by induction (simp add: config_ok_def, blast intro: config_step_ok)
  have "\<exists>xs. map_ok (\<lambda>r. explainRole r k rows c') us = Inr xs" for us c'
  proof (induction us)
    case (Cons u us)
    with explainRole_total [OF ok, of u k c'] show ?case by auto
  qed simp
  then have all: "\<exists>xs. explain_all rs k rows c' = Inr xs" for rs c' by (simp add: explain_all_def)
  let ?ac = "c\<lparr>ec_globalAllowed := True, ec_campusAllowed := (ec_campus c \<noteq> GLOBAL_CAMPUS \<and> ec_campusAllowed c)\<rparr>"
  from all obtain xs ys where "explain_all (p_roles p) k rows c = Inr xs" "explain_all (p_roles p) k rows ?ac = Inr ys" by metis
  then show ?thesis by (cases "k = ''audit.view''") (simp_all add: evaluatePermission_def Let_def)
qed


section \<open>Older catalogues\<close>

lemma fold_js_set:
  "js_wf es \<Longrightarrow> js_get (fold (\<lambda>(k, v) m. js_set m k v) es m) k = (case js_get es k of None \<Rightarrow> js_get m k | Some v \<Rightarrow> Some v)"
proof (induction es arbitrary: m)
  case (Cons e es)
  obtain a b where e: "e = (a, b)" by force
  from Cons.prems have "js_wf es" and "js_get es a = None"
    by (auto simp: js_wf_def js_keys_def js_get_def e map_of_eq_None_iff)
  moreover have "js_get (e # es) k = (if k = a then Some b else js_get es k)" by (simp add: js_get_def e)
  ultimately show ?case using Cons.IH [of "js_set m a b"] by (auto simp: e split: option.splits)
qed simp

lemma fold_js_set_wf: "js_wf m \<Longrightarrow> js_wf (fold (\<lambda>(k, v) m. js_set m k v) es m)"
  by (induction es arbitrary: m) (auto simp: case_prod_unfold)

lemma set_js_set: "e \<in> set (js_set m k v) \<Longrightarrow> e = (k, v) \<or> e \<in> set m"
  by (induction m) (auto simp: js_set_def split: if_splits)

lemma distinct_names: "distinct permission_names"
  by code_simp

lemma historical:
  assumes "historicalGrants es t = Inr g" and "js_wf es"
  shows "grants_ok t g" and "k \<in> set permission_names \<Longrightarrow> js_has (texts g) k"
    and "js_get es k = Some v \<Longrightarrow> js_get (texts g) k = Some v"
proof -
  let ?base = "map (\<lambda>k. (k, ''NONE'')) permission_names"
  let ?current = "fold (\<lambda>(k, v) m. js_set m k v) es ?base"
  let ?filled = "if js_has es ''reporting.pilotage.view'' then ?current
    else js_set ?current ''reporting.pilotage.view'' (historicalPilotageScope es t)"
  have base: "js_wf ?base" using distinct_names by (simp add: js_wf_def js_keys_def comp_def)
  then have wf: "js_wf ?filled" by (simp add: fold_js_set_wf)
  from assms(1) have "validateGrants ?filled t = Inr g" by (simp add: historicalGrants_def Let_def split: if_splits)
  from validateGrants_ok [OF this wf] show "grants_ok t g" and filled: "k \<in> set permission_names \<Longrightarrow> js_has (texts g) k"
    and "js_get es k = Some v \<Longrightarrow> js_get (texts g) k = Some v"
  proof -
    assume ok: "grants_ok t g \<and> texts g = ?filled"
    then show "grants_ok t g" by blast
    have "js_get ?base k \<noteq> None" if "k \<in> set permission_names"
      using that by (simp add: js_get_def map_of_eq_None_iff image_image)
    then show "k \<in> set permission_names \<Longrightarrow> js_has (texts g) k"
      using ok by (auto simp: js_has_def fold_js_set [OF assms(2)] split: option.splits)
    show "js_get es k = Some v \<Longrightarrow> js_get (texts g) k = Some v"
      using ok by (auto simp: js_has_def fold_js_set [OF assms(2)])
  qed
qed

lemma adopted_valid:
  assumes "validateTarget t = Inr ()" and "k = ''lead.qualification.update'' \<or> k = ''telephony.free-call.create''"
  shows "entry_valid t (k, adopted_scope t)"
proof -
  have names: "k \<in> set permission_names" "k \<notin> set unavailable" "k \<notin> set globalOnly"
    using assms(2) by (auto simp: permission_names_def unavailable_def globalOnly_def)
  have scopes: "{ScopeNone, ScopeCampus, ScopeGlobal} \<subseteq> set (pd_scopes (describe k))"
    using names by (auto simp: describe_def permission_scopes_def)
  have target: "ct_kind t = Ceiling \<longleftrightarrow> ct_role t = None"
    using assms(1) by (auto simp: validateTarget_def split: configuration_kind.splits if_splits)
  define s where "s = (if ct_kind t = Ceiling \<or> ct_role t = Some SUPER_ADMIN
      then (if ct_campus t = GLOBAL_CAMPUS then ScopeGlobal else ScopeCampus)
      else if ct_role t = Some ADMIN then ScopeCampus else ScopeNone)"
  have "adopted_scope t = permission_scope_name s" "s \<in> {ScopeNone, ScopeCampus, ScopeGlobal}"
    "s = ScopeGlobal \<Longrightarrow> ct_campus t = GLOBAL_CAMPUS" "ct_role t = Some AUDITOR \<Longrightarrow> s = ScopeNone"
    using target by (auto simp: s_def adopted_scope_def split: if_splits)
  with names scopes show ?thesis
    by (auto simp: entry_valid_def perm_definition_eq scope_name_consts describe_def)
qed

text \<open>
  C31: Adopting the catalogue loses nothing and happens once: the grants it writes are valid for the
  target, hold every grant the row had, and need no further upgrade.
\<close>

theorem upgrade_once_and_complete:
  assumes "js_wf es" and "upgraded_grants es t = Inr (Some g)"
  shows "validateGrants g t = Inr (as_grants g) \<and> upgraded_grants g t = Inr None
    \<and> (\<forall>k v. js_get es k = Some v \<longrightarrow> js_get g k = Some v)"
proof -
  let ?q = "''lead.qualification.update''" and ?f = "''telephony.free-call.create''" and ?p = "''reporting.pilotage.view''"
  from assms(2) obtain old where t: "validateTarget t = Inr ()" and old: "historicalGrants es t = Inr old"
    and g: "g = (let g1 = (if js_has es ?q then texts old else js_set (texts old) ?q (adopted_scope t))
             in if js_has es ?f then g1 else js_set g1 ?f (adopted_scope t))"
    by (auto simp: upgraded_grants_def Let_def accepted texts_def split: if_splits)
  note h = historical [OF old assms(1)]
  have names: "?q \<in> set permission_names" "?f \<in> set permission_names" "?p \<in> set permission_names" by code_simp+
  have has: "js_has g k" if "k \<in> set permission_names" for k
    using h(2) [OF that] by (auto simp: g Let_def js_has_def)
  have "length g = length permissionCatalogue"
    using h(1) h(2) [OF names(1)] h(2) [OF names(2)]
    by (auto simp: g Let_def js_set_length grants_ok_def js_has_def)
  moreover have "entry_valid t e" if "e \<in> set g" for e
  proof -
    from that have "e = (?q, adopted_scope t) \<or> e = (?f, adopted_scope t) \<or> e \<in> set (texts old)"
      unfolding g Let_def by (auto dest!: set_js_set split: if_splits)
    with adopted_valid [OF t] h(1) show ?thesis by (auto simp: grants_ok_def list_all_iff)
  qed
  ultimately have "validateGrants g t = Inr (as_grants g)" by (simp add: validateGrants_def list_all_iff)
  moreover have "upgraded_grants g t = Inr None"
    using has [OF names(1)] has [OF names(2)] has [OF names(3)] by (simp add: upgraded_grants_def)
  moreover have "js_get g k = Some v" if "js_get es k = Some v" for k v
    using h(3) [OF that] that by (auto simp: g Let_def js_has_def)
  ultimately show ?thesis by blast
qed

text \<open>Evaluation looks one permission up instead of building all defaults.\<close>

declare perm_definition_eq [code] mutation_eq [code] available_eq [code]

definition lookup_grant :: "configurations \<Rightarrow> configuration_target \<Rightarrow> string \<Rightarrow> permission_scope result" where
  "lookup_grant rows t k = map_sum id (\<lambda>g. grant_or_none g k) (resolveGrants rows t)"

lemma default_grant: "grant_or_none (defaultConfiguration t) k = (if k \<in> set permission_names then defaultScope t k else ScopeNone)"
proof -
  have "map_of (map (\<lambda>k. (k, f k)) ks) k = (if k \<in> set ks then Some (f k) else None)" for f :: "string \<Rightarrow> permission_scope" and ks
    by (induction ks) auto
  then show ?thesis by (simp add: grant_or_none_def defaultConfiguration_def js_get_def)
qed

lemma lookup_grant_code [code]:
  "lookup_grant rows t k = (case matching rows t of
     [] \<Rightarrow> Inr (if k \<in> set permission_names then defaultScope t k else ScopeNone)
   | [r] \<Rightarrow> Inr (grant_or_none (cs_grants r) k)
   | _ \<Rightarrow> Inl (Thrown ''permission_configuration_ambiguous''))"
  by (auto simp: lookup_grant_def resolveGrants_def default_grant split: list.split)

lemma explainRole_code [code]:
  "explainRole r k rows c =
     (case lookup_grant rows (grants_of r GLOBAL_CAMPUS) k of Inl e \<Rightarrow> Inl e | Inr sourceScope \<Rightarrow>
     (case lookup_grant rows (ceiling_of GLOBAL_CAMPUS) k of Inl e \<Rightarrow> Inl e | Inr globalCeiling \<Rightarrow>
     (case (if ec_campus c = GLOBAL_CAMPUS then Inr ScopeGlobal else lookup_grant rows (ceiling_of (ec_campus c)) k) of
        Inl e \<Rightarrow> Inl e | Inr campusCeiling \<Rightarrow>
       (let campusGrant = (case matching rows (grants_of r (ec_campus c)) of
              [] \<Rightarrow> sourceScope
            | row # _ \<Rightarrow> (case js_get (cs_grants row) k of None \<Rightarrow> sourceScope | Some s \<Rightarrow> s));
            scopeAllowed = list_all (\<lambda>s. includesResource s c r) [sourceScope, globalCeiling, campusCeiling, campusGrant];
            restriction = (if r = AUDITOR \<and> mutation k then Some ''auditor_read_only''
              else (case ec_restriction c of Some x \<Rightarrow> Some x
                | None \<Rightarrow> if \<not> ec_active c then Some ''resource_inactive'' else None))
        in Inr \<lparr>gx_role = r, gx_sourceScope = sourceScope, gx_globalCeiling = globalCeiling, gx_campusCeiling = campusCeiling,
             gx_campusGrant = campusGrant, gx_allowed = (scopeAllowed \<and> \<not> truthy restriction), gx_restriction = restriction\<rparr>))))"
  by (cases "resolveGrants rows (grants_of r GLOBAL_CAMPUS)"; cases "resolveGrants rows (ceiling_of GLOBAL_CAMPUS)")
    (simp_all only: explainRole_def lookup_grant_def map_sum.simps sum.case Let_def id_apply)

section \<open>A run\<close>

definition demo_grants :: grants where
  "demo_grants = map (\<lambda>k. (k, if k = ''lead.view'' then ScopeCampus else ScopeNone)) permission_names"

definition demo_input :: configuration_input where
  "demo_input = \<lparr>ct_kind = RoleGrants, ct_role = Some ADMISSIONS, ct_campus = ''c1'', ci_expectedVersion = 0,
     ci_grants = demo_grants, ci_reason = ''ACCESS_REVIEW'', ci_confirmed = True\<rparr>"

definition demo_campus_admin :: principal where
  "demo_campus_admin = \<lparr>userId = ''u1'', p_roles = [ADMIN], scopes = [CampusScope ''c1''], sessionId = ''s1'',
     mustChangeSecret = None, permissionLeadIds = None\<rparr>"

definition demo_admins :: "(string \<times> role list) list" where
  "demo_admins = [(''root'', [SUPER_ADMIN])]"

lemma demo_grants_within:
  assumes "scopeWithin ScopeCampus (grant_or_none g ''lead.view'')" and "scopeWithin ScopeCampus (grant_or_none h ''lead.view'')"
  shows "ceilings_hold g h demo_input"
  using assms by (auto simp: ceilings_hold_def demo_input_def demo_grants_def list_all_iff scopeWithin_def)

lemma demo_steps:
  "editableTarget demo_campus_admin demo_input = Inr ()"
  "requirePermission demo_campus_admin ''roles.permissions.manage'' [] ''c1'' = Inr ()"
  "assertAdminGrantBounds demo_campus_admin demo_input [] = Inr ()"
  "protectLastSuperAdmin demo_admins [] = Inr ()"
  "protectLastSuperAdmin demo_admins [snapshot_of demo_input] = Inr ()"
  "scopeWithin ScopeCampus (defaultScope (ceiling_of GLOBAL_CAMPUS) ''lead.view'')"
  "scopeWithin ScopeCampus (defaultScope (grants_of ADMISSIONS GLOBAL_CAMPUS) ''lead.view'')"
  "defaultScope demo_input ''lead.edit'' = ScopeOwn"
  "''lead.view'' \<in> set permission_names" "''lead.edit'' \<in> set permission_names"
  by code_simp+

lemma demo_ceilings: "assertCeilings demo_input [] = Inr ()"
proof -
  have "ceilings_hold (defaultConfiguration (ceiling_of GLOBAL_CAMPUS)) (defaultConfiguration (grants_of ADMISSIONS GLOBAL_CAMPUS)) demo_input"
    by (rule demo_grants_within) (simp_all only: default_grant demo_steps if_True)
  then show ?thesis
    by (simp add: assertCeilings_def demo_input_def resolveGrants_def matching_def and_then_def require_def GLOBAL_CAMPUS_def)
qed

lemma demo_change: "configurationChanges (defaultConfiguration demo_input) demo_grants \<noteq> []"
proof -
  have "js_get (defaultConfiguration demo_input) ''lead.edit'' = Some ScopeOwn"
    using default_grant [of demo_input "''lead.edit''"] demo_steps(8,10)
    by (simp add: grant_or_none_def split: option.splits)
  then have "filter (\<lambda>(k, s). js_get (defaultConfiguration demo_input) k \<noteq> Some s) demo_grants \<noteq> []"
    using demo_steps(10) by (auto simp: demo_grants_def filter_empty_conv intro!: bexI [of _ "''lead.edit''"])
  then show ?thesis by (simp only: configurationChanges_def map_is_Nil_conv not_False_eq_True)
qed

lemma demo_saved:
  "saveInTransaction (\<lambda>_. True) demo_admins demo_campus_admin demo_input []
     = (Inr (1, configurationChanges (defaultConfiguration demo_input) demo_grants), [snapshot_of demo_input])"
proof -
  have fields: "ct_campus demo_input = ''c1''" "ci_expectedVersion demo_input = 0" "ci_grants demo_input = demo_grants"
    "ci_confirmed demo_input = True"
    by (simp_all add: demo_input_def)
  have "validateChange demo_campus_admin demo_input [] = Inr (defaultConfiguration demo_input)"
    by (simp add: validateChange_def and_then_def require_def demo_steps demo_ceilings fields matching_def)
  then show ?thesis
    by (simp add: saveInTransaction_def and_then_def require_def knownCampus_def fields demo_change demo_steps replace_row_def)
qed

lemma demo_validated:
  "validateInput [''kind''] (grants_of ADMISSIONS ''c1'') (texts demo_grants) (JInt 0) ''ACCESS_REVIEW'' True = Inr demo_input"
proof -
  have "entry_valid (grants_of ADMISSIONS ''c1'') (k, permission_scope_name (if k = ''lead.view'' then ScopeCampus else ScopeNone))"
    if "k \<in> set permission_names" for k
    using that by (auto simp: entry_valid_def perm_definition_eq describe_def permission_scopes_def grants_of_def GLOBAL_CAMPUS_def
      unavailable_def globalOnly_def)
  then have "validateGrants (texts demo_grants) (grants_of ADMISSIONS ''c1'') = Inr demo_grants"
    unfolding validateGrants_texts by (auto simp: demo_grants_def texts_def permissionCatalogue_def list_all_iff)
  moreover have "validateTarget (grants_of ADMISSIONS ''c1'') = Inr ()" by code_simp
  ultimately show ?thesis
    by (simp add: validateInput_def safe_integer_def configuration_reasons_def demo_input_def grants_of_def)
qed

lemma demo_reached: "config_step (\<lambda>_. True) demo_admins [] [snapshot_of demo_input]"
proof (rule config_step.save [OF demo_validated _ demo_saved])
  have "distinct permission_names" by code_simp
  then show "js_wf (texts demo_grants)"
    by (simp add: js_wf_texts) (simp add: js_wf_def js_keys_def demo_grants_def comp_def)
qed

definition demo_context :: evaluation_context where
  "demo_context = campusContext demo_campus_admin ''c1''"

definition demo_closed :: configurations where
  "demo_closed = [\<lparr>ct_kind = Ceiling, ct_role = None, ct_campus = GLOBAL_CAMPUS, cs_version = 1, cs_grants = [(''lead.edit'', ScopeGlobal)]\<rparr>]"

definition demo_auditor :: principal where
  "demo_auditor = demo_campus_admin\<lparr>p_roles := [AUDITOR]\<rparr>"

theorem ceiling_closes_permission_witness:
  "case evaluatePermission demo_campus_admin ''lead.view'' demo_closed demo_context of Inl e \<Rightarrow> False | Inr d \<Rightarrow> \<not> de_allowed d"
proof -
  have "case evaluatePermission demo_campus_admin ''lead.view'' demo_closed demo_context of Inl e \<Rightarrow> False | Inr d \<Rightarrow> True"
    by code_simp
  then obtain d where d: "evaluatePermission demo_campus_admin ''lead.view'' demo_closed demo_context = Inr d"
    by (cases "evaluatePermission demo_campus_admin ''lead.view'' demo_closed demo_context") simp_all
  have ceil: "resolveGrants demo_closed (ceiling_of GLOBAL_CAMPUS) = Inr [(''lead.edit'', ScopeGlobal)]"
    by (simp add: resolveGrants_def matching_def demo_closed_def configurationKey_inj plain_target_def ceiling_of_def)
  have "\<not> de_allowed d"
    by (rule ceiling_closes_permission [OF ceil _ d]) (simp add: grant_or_none_def js_get_def)
  with d show ?thesis by simp
qed

theorem auditor_never_mutates_witness:
  "case evaluatePermission demo_auditor ''lead.edit'' demo_closed demo_context of Inl e \<Rightarrow> False | Inr d \<Rightarrow> \<not> de_allowed d"
proof -
  have "mutation ''lead.edit'' \<and> (case evaluatePermission demo_auditor ''lead.edit'' demo_closed demo_context of Inl e \<Rightarrow> False | Inr d \<Rightarrow> True)"
    by code_simp
  then obtain d where d: "evaluatePermission demo_auditor ''lead.edit'' demo_closed demo_context = Inr d" and m: "mutation ''lead.edit''"
    by (cases "evaluatePermission demo_auditor ''lead.edit'' demo_closed demo_context") simp_all
  from auditor_never_mutates [OF _ m d] d show ?thesis by (simp add: demo_auditor_def)
qed

lemma demo_roles: "p_roles demo_campus_admin = [ADMIN]" "SUPER_ADMIN \<notin> set (p_roles demo_campus_admin)"
  by (simp_all add: demo_campus_admin_def)

theorem admin_never_self_witness:
  "evaluatePermission demo_campus_admin ''lead.edit'' [snapshot_of demo_input] demo_context
     = evaluatePermission demo_campus_admin ''lead.edit'' [] demo_context"
  by (rule admin_never_self [OF demo_saved demo_roles(2)])

lemma demo_reach: "(''lead.view'', ScopeCampus) \<in> set (ci_grants demo_input)" "includesResource ScopeCampus demo_context ADMISSIONS"
  by (simp_all add: demo_input_def demo_grants_def permission_names_def demo_context_def campusContext_def demo_campus_admin_def Let_def)

theorem saves_stay_below_ceiling_witness:
  "includesResource (grant_or_none (defaultConfiguration (ceiling_of GLOBAL_CAMPUS)) ''lead.view'') demo_context ADMISSIONS"
  by (rule saves_stay_below_ceiling [OF demo_saved _ _ demo_reach])
    (simp_all add: demo_input_def resolveGrants_def matching_def)


theorem defaults_are_valid_witness:
  "validateGrants (texts (defaultConfiguration (grants_of MANAGER ''c1''))) (grants_of MANAGER ''c1'')
     = Inr (defaultConfiguration (grants_of MANAGER ''c1''))"
  by (rule defaults_are_valid) code_simp

lemma demo_path: "(config_step (\<lambda>_. True) demo_admins)\<^sup>*\<^sup>* [] [snapshot_of demo_input]"
  by (rule r_into_rtranclp) (rule demo_reached)

theorem reachable_configurations_ok_witness: "config_ok [snapshot_of demo_input]"
  by (rule reachable_configurations_ok [OF demo_path])

theorem evaluation_decides_witness:
  "\<exists>d. evaluatePermission demo_campus_admin ''lead.view'' [snapshot_of demo_input] demo_context = Inr d"
  by (rule evaluation_decides [OF demo_path])


definition demo_old :: "(string, string) js_map" where
  "demo_old = map (\<lambda>k. (k, ''NONE'')) (without ''reporting.pilotage.view'' permission_names)"

theorem upgrade_once_and_complete_witness:
  "case upgraded_grants demo_old (grants_of ADMIN ''c1'') of
     Inl e \<Rightarrow> False | Inr None \<Rightarrow> False | Inr (Some g) \<Rightarrow> upgraded_grants g (grants_of ADMIN ''c1'') = Inr None"
proof -
  have "case upgraded_grants demo_old (grants_of ADMIN ''c1'') of Inl e \<Rightarrow> False | Inr m \<Rightarrow> m \<noteq> None" by code_simp
  then obtain g where g: "upgraded_grants demo_old (grants_of ADMIN ''c1'') = Inr (Some g)"
    by (cases "upgraded_grants demo_old (grants_of ADMIN ''c1'')") auto
  have "js_wf demo_old"
    using distinct_names by (simp add: js_wf_def js_keys_def demo_old_def without_def comp_def)
  from upgrade_once_and_complete [OF this g] g show ?thesis by simp
qed

end
