(* ===== verification/PermissionRoutes.thy ===== *)
theory PermissionRoutes
  imports PermissionLaws
begin

text \<open>
  The permissions of the routes: \<open>permissions/dynamic-routes.ts\<close>, and the check the interceptor
  (\<open>dynamic-interceptor.ts\<close>) makes before a handler runs. The contexts of the resources a request
  names come from the database and are an argument.
\<close>

definition bindings :: "(string \<times> (string \<times> string list) list) list" where
  "bindings = [
     (''BootstrapImportController'', [(''context'', []), (''create'', []), (''chunk'', []), (''seal'', []),
       (''get'', []), (''mapping'', []), (''rows'', []), (''decide'', []), (''reopen'', []), (''confirm'', []),
       (''executeBlock'', []), (''report'', [])]),
     (''BootstrapHistoricalNotesController'', [(''notes'', [])]),
     (''LeadController'', [(''create'', [''lead.create'']), (''list'', [''lead.view'']),
       (''filterOptions'', [''lead.view'']), (''detail'', [''lead.view'']), (''update'', [''lead.edit''])]),
     (''LeadStatusController'', [(''update'', [''lead.edit''])]),
     (''LeadQualificationController'', [(''read'', [''lead.view'']), (''update'', [''lead.qualification.update''])]),
     (''LeadTimelineController'', [(''list'', [''interaction.view'']),
       (''create'', [''interaction.create'', ''reminder.manage'']), (''correct'', [''interaction.create''])]),
     (''LeadAssignmentController'', [(''candidates'', []), (''assignOne'', [''lead.assign'']),
       (''preview'', [''lead.assign'']), (''assignBatch'', [''lead.assign''])]),
     (''ReassignmentController'', [(''create'', [''lead.reassign.request'']), (''list'', [''lead.view'']),
       (''pending'', []), (''decide'', [''lead.reassign.approve''])]),
     (''ClosureController'', [(''request'', [''lead.close.request'']), (''list'', [''lead.view'']),
       (''reconcileNotifications'', [''lead.close.approve'']), (''decide'', [''lead.close.approve'']),
       (''retire'', [''lead.close.approve'']), (''cancel'', [''lead.close.request''])]),
     (''LeadCollaborationController'', [(''request'', [''lead.collaborators.manage'']), (''list'', [''lead.view'']),
       (''decide'', [''lead.collaborators.manage''])]),
     (''UserController'', [(''create'', [''users.create'']), (''list'', [''users.view'']),
       (''setStatus'', [''users.disable'']), (''updateAuthorization'', [''users.roles.assign'']),
       (''updateProfile'', [''users.roles.assign'']), (''issueTemporarySecret'', [''users.roles.assign'']),
       (''issueInvitation'', [''users.roles.assign''])]),
     (''QuickLeadController'', [(''matches'', [''lead.view'']), (''submit'', [''lead.create''])]),
     (''AssignmentController'', [(''config'', [''lead.assign'']), (''configure'', [''settings.campus.manage'']),
       (''poolAdministration'', [''settings.campus.manage'']), (''simulate'', [''lead.assign'']),
       (''assign'', [''lead.assign'']), (''history'', [''lead.assign''])]),
     (''IngestionController'', [(''ingest'', [''import.execute'']),
       (''confirmPersistent'', [''import.execute'', ''import.confirm'']), (''provenance'', [''import.view''])]),
     (''ImportMappingController'', [(''list'', [''import.view'']), (''save'', [''import.execute'']),
       (''dryRun'', [''import.execute'']), (''confirm'', [''import.confirm''])]),
     (''ImportProfileController'', [(''profile'', [''import.view''])]),
     (''ResourceController'', [(''update'', [''lead.edit''])]),
     (''CandidateDocumentController'', [(''generate'', [''lead.edit'']), (''checklist'', [''lead.view'']),
       (''upload'', [''lead.edit''])]),
     (''DocumentVerificationController'', [(''dashboard'', [''lead.view'']), (''detail'', [''lead.view'']),
       (''verify'', [''lead.edit''])]),
     (''ImportWizardController'', [(''start'', [''import.execute'']), (''reconcile'', [''import.execute'']),
       (''confirm'', [''import.confirm'']), (''get'', [''import.view''])]),
     (''ImportReviewController'', [(''enqueue'', [''import.execute'']), (''list'', [''import.view'']),
       (''decide'', [''import.review.resolve''])]),
     (''ImportReportController'', [(''create'', [''import.execute'']), (''get'', [''import.view'']),
       (''export'', [''import.report.export''])]),
     (''SavedLeadViewController'', [(''list'', [''lead.view'']), (''create'', [''lead.edit'']),
       (''update'', [''lead.edit'']), (''remove'', [''lead.edit''])]),
     (''NotificationController'', [(''list'', [''lead.view'']), (''markAll'', [''notification.manage'']),
       (''markRead'', [''notification.manage''])]),
     (''ManagerDashboardController'', [(''read'', [''reporting.view'', ''reporting.pilotage.view'']),
       (''export'', [''reporting.view'', ''reporting.pilotage.view'', ''reporting.export''])]),
     (''DashboardCapabilitiesController'', [(''read'', [])]),
     (''DashboardRecentLeadsController'', [(''read'', [''reporting.view''])]),
     (''CommercialWorkController'', [(''read'', [''reporting.view''])]),
     (''TelephonyController'', [(''configuration'', [''interaction.view'']),
       (''configure'', [''settings.global.manage'']), (''initiate'', [''interaction.create'']),
       (''freeCall'', [''telephony.free-call.create'']), (''listLeadCalls'', [''interaction.view'']),
       (''detail'', [''interaction.view'']), (''end'', [''interaction.create'']),
       (''associationCandidates'', [''interaction.view'']), (''event'', [''interaction.create'']),
       (''compensate'', [''interaction.create'']), (''associate'', [''interaction.create'']),
       (''queue'', [''interaction.view'']), (''recording'', [''interaction.view'']),
       (''webhookStatus'', [''interaction.view'']), (''webhook'', [''settings.global.manage''])]),
     (''TelephonyProvisioningController'', [(''list'', []), (''server'', []), (''user'', []), (''pairing'', []),
       (''revoke'', [])]),
     (''TelephonyOwnController'', [(''read'', [''interaction.view'']), (''pairing'', [''interaction.create'']),
       (''revoke'', [''interaction.create''])]),
     (''AdmissionsController'', [(''context'', []), (''responsibles'', []), (''configureResponsibility'', []),
       (''windows'', []), (''createWindow'', []), (''withdrawWindow'', []), (''slots'', []), (''createBooking'', []),
       (''bookings'', []), (''booking'', []), (''bookingSlots'', []), (''decide'', []), (''report'', [])])]"

definition grouped :: "(string \<times> string) list" where
  "grouped = [(''FollowUpController'', ''reminder.manage''), (''AppointmentController'', ''appointment.manage''),
     (''ChatController'', ''chat.use''), (''BroadcastController'', ''chat.broadcast''),
     (''AssignmentDashboardController'', ''reporting.view''), (''PersonalDashboardController'', ''reporting.view''),
     (''CommercialFunnelController'', ''reporting.view''), (''CommercialPerformanceController'', ''reporting.view''),
     (''SourceEffectivenessController'', ''reporting.view''), (''SharedContributionController'', ''reporting.view''),
     (''OperationalRiskController'', ''reporting.view'')]"

definition groupedHandlers :: "(string \<times> string list) list" where
  "groupedHandlers = [(''FollowUpController'', [''schedule'', ''list'', ''decide'']),
     (''AppointmentController'', [''create'', ''list'', ''availability'', ''kpis'', ''detail'', ''transition'', ''compensate'', ''report'']),
     (''ChatController'', [''createConversation'', ''listConversations'', ''postMessage'', ''listMessages'', ''editMessage'',
        ''deleteMessage'', ''markRead'', ''convertToActivity'']),
     (''BroadcastController'', [''create'', ''preview'', ''confirm'', ''cancel'', ''correct'', ''list'', ''recipients''])]"

definition delegated :: "string list" where
  "delegated = [''ReferenceController'', ''LeadTagController'', ''DynamicPermissionController'', ''AuditController'']"

definition routePermissions :: "string \<Rightarrow> string \<Rightarrow> string list option" where
  "routePermissions controller handler =
     (if controller = ''ViewSharingController'' then
        (if handler \<in> set [''audiences'', ''received'', ''history'', ''read'', ''share'', ''revoke'', ''duplicate'', ''archive'']
         then Some [] else None)
      else if controller = ''ChatController'' \<and> handler = ''convertToActivity'' then Some [''chat.use'', ''interaction.create'']
      else if controller \<in> set delegated then Some []
      else (case map_of grouped controller of
        Some k \<Rightarrow>
          if handler \<in> set (case map_of groupedHandlers controller of None \<Rightarrow> [''read''] | Some hs \<Rightarrow> hs) then Some [k] else None
      | None \<Rightarrow> (case map_of bindings controller of None \<Rightarrow> None | Some hs \<Rightarrow> map_of hs handler)))"

definition usesScopedReportingAuthorization :: "string \<Rightarrow> string \<Rightarrow> bool" where
  "usesScopedReportingAuthorization controller handler =
     (handler = ''read'' \<and> controller \<in> set [''ManagerDashboardController'', ''PersonalDashboardController'',
        ''DashboardRecentLeadsController'', ''CommercialWorkController'', ''CommercialFunnelController'',
        ''CommercialPerformanceController'', ''SourceEffectivenessController'', ''SharedContributionController'',
        ''OperationalRiskController'']
      \<or> controller = ''ManagerDashboardController'' \<and> handler = ''export'')"

text \<open>\<open>status\<close>: the field of that name of the body; \<open>campus\<close>: whether the query names a campus.\<close>

definition contextualPermissions :: "string \<Rightarrow> string list \<Rightarrow> json \<Rightarrow> bool \<Rightarrow> bool \<Rightarrow> string list" where
  "contextualPermissions controller keys status campus globalActor =
     (if controller = ''LeadStatusController'' \<and> (status = JStr ''ENROLLED'' \<or> status = JStr ''CLOSED_LOST'')
      then keys @ [''lead.close.approve'']
      else if controller = ''LeadStatusController'' \<and> status = JStr ''QUALIFIED'' then keys @ [''lead.qualification.update'']
      else if list_ex (starts_with ''reporting.'') keys \<and> globalActor \<and> \<not> campus then keys @ [''reporting.global.view'']
      else keys)"

text \<open>
  The loop of \<open>intercept\<close> over the permissions of a route. Most need a context, and are allowed in all
  of them; the lists of leads and of closures are filtered instead, and leave the identifiers the
  handler may use in \<open>permissionLeadIds\<close>. \<open>contexts\<close> and \<open>resources\<close> are what the database tells of the
  resources of the request and of the leads.
\<close>

definition permits :: "principal \<Rightarrow> configurations \<Rightarrow> string \<Rightarrow> evaluation_context \<Rightarrow> bool result" where
  "permits p rows k c = map_sum id de_allowed (evaluatePermission p k rows c)"

definition key_allowed :: "principal \<Rightarrow> configurations \<Rightarrow> (string \<Rightarrow> evaluation_context list) \<Rightarrow> string \<Rightarrow> bool result" where
  "key_allowed p rows contexts k = (if contexts k = [] then Inr False else every_ok (permits p rows k) (contexts k))"

definition filtersCollection :: "string \<Rightarrow> string \<Rightarrow> bool" where
  "filtersCollection controller handler =
     (controller = ''LeadController'' \<and> handler \<in> set [''list'', ''filterOptions'']
      \<or> controller = ''ClosureController'' \<and> handler \<in> set [''list'', ''reconcileNotifications''])"

fun filter_ok :: "('a \<Rightarrow> bool result) \<Rightarrow> 'a list \<Rightarrow> 'a list result" where
  "filter_ok f [] = Inr []"
| "filter_ok f (x # xs) = (case f x of Inl e \<Rightarrow> Inl e | Inr b \<Rightarrow> map_sum id (\<lambda>ys. if b then x # ys else ys) (filter_ok f xs))"

definition filterLeadCollection ::
  "principal \<Rightarrow> configurations \<Rightarrow> evaluation_context list \<Rightarrow> (string, evaluation_context) js_map \<Rightarrow> string list result" where
  "filterLeadCollection p rows contexts resources =
     and_then (some_ok (\<lambda>c. permits p rows ''lead.view'' (c\<lparr>ec_own := True, ec_team := True, ec_managedTeam := True\<rparr>)) contexts) (\<lambda>b.
     and_then (require b permissionDenied) (\<lambda>_.
       map_sum id (map fst) (filter_ok (\<lambda>(i, c). permits p rows ''lead.view'' c) resources)))"

definition still_permitted ::
  "principal \<Rightarrow> configurations \<Rightarrow> (string, evaluation_context) js_map \<Rightarrow> string \<Rightarrow> string list \<Rightarrow> string list result" where
  "still_permitted p rows resources k ids =
     filter_ok (\<lambda>i. case js_get resources i of None \<Rightarrow> Inr False | Some c \<Rightarrow> permits p rows k c) ids"

fun reconciled ::
  "principal \<Rightarrow> configurations \<Rightarrow> (string, evaluation_context) js_map \<Rightarrow> string list \<Rightarrow> string list \<Rightarrow> string list result" where
  "reconciled p rows resources [] ids = Inr ids"
| "reconciled p rows resources (k # ks) ids =
     and_then (still_permitted p rows resources k ids) (reconciled p rows resources ks)"

definition authorize ::
  "string \<Rightarrow> string \<Rightarrow> json \<Rightarrow> bool \<Rightarrow> principal \<Rightarrow> configurations \<Rightarrow> (string \<Rightarrow> evaluation_context list)
     \<Rightarrow> (string, evaluation_context) js_map \<Rightarrow> string list option result" where
  "authorize controller handler status campus p rows contexts resources =
     (case routePermissions controller handler of
        None \<Rightarrow> Inl permissionDenied
      | Some ks \<Rightarrow>
          (let needed = filter (\<lambda>k. \<not> (usesScopedReportingAuthorization controller handler \<and> starts_with ''reporting.'' k
                  \<and> k \<noteq> ''reporting.global.view''))
                (contextualPermissions controller ks status campus (SUPER_ADMIN \<in> set (p_roles p)))
           in if needed \<noteq> [] \<and> filtersCollection controller handler
              then and_then (filterLeadCollection p rows (contexts ''lead.view'') resources) (\<lambda>ids.
                     map_sum id Some (if controller = ''ClosureController'' \<and> handler = ''reconcileNotifications''
                       then reconciled p rows resources needed ids else Inr ids))
              else and_then (every_ok (key_allowed p rows contexts) needed) (\<lambda>b.
                     map_sum id (\<lambda>_. None) (require b permissionDenied))))"

section \<open>Laws\<close>

definition bound_keys :: "string list" where
  "bound_keys = remdups (concat (map (\<lambda>(c, hs). concat (map snd hs)) bindings) @ map snd grouped
     @ [''chat.use'', ''interaction.create'', ''lead.close.approve'', ''lead.qualification.update'', ''reporting.global.view''])"

lemma bound_keys_available: "list_all available bound_keys"
  by code_simp

lemma route_keys_bound:
  assumes "routePermissions c h = Some ks" and "k \<in> set ks"
  shows "k \<in> set bound_keys"
  using assms
  by (auto simp: routePermissions_def bound_keys_def split: if_splits option.splits dest!: map_of_SomeD) force+

text \<open>
  No route is guarded by a permission that does not exist: every permission a route requires, the
  contextual ones included, is an available one of the catalogue.
\<close>

theorem route_permissions_available:
  assumes "routePermissions c h = Some ks" and "k \<in> set (contextualPermissions c ks st camp g)"
  shows "available k"
proof -
  have extra: "set [''lead.close.approve'', ''lead.qualification.update'', ''reporting.global.view''] \<subseteq> set bound_keys"
    by (simp add: bound_keys_def)
  from assms(2) have "k \<in> set ks \<or> k \<in> set [''lead.close.approve'', ''lead.qualification.update'', ''reporting.global.view'']"
    by (auto simp: contextualPermissions_def split: if_splits)
  with route_keys_bound [OF assms(1)] extra have "k \<in> set bound_keys" by blast
  with bound_keys_available show ?thesis by (simp add: list_all_iff)
qed

lemma every_ok_True: "every_ok f xs = Inr True \<longleftrightarrow> list_all (\<lambda>x. f x = Inr True) xs"
  by (induction xs) (auto split: sum.splits)

lemma some_ok_True: "some_ok f xs = Inr True \<Longrightarrow> \<exists>x \<in> set xs. f x = Inr True"
  by (induction xs) (auto split: sum.splits if_splits)

lemma filter_ok_member: "filter_ok f xs = Inr ys \<Longrightarrow> y \<in> set ys \<Longrightarrow> y \<in> set xs \<and> f y = Inr True"
proof (induction xs arbitrary: ys)
  case (Cons x xs)
  from Cons.prems(1) obtain b zs where "f x = Inr b" "filter_ok f xs = Inr zs" "ys = (if b then x # zs else zs)"
    by (cases "f x"; cases "filter_ok f xs") auto
  with Cons.IH [of zs] Cons.prems(2) show ?case by (auto split: if_splits)
qed simp

lemma permits_True: "permits p rows k c = Inr True \<longleftrightarrow> (\<exists>d. evaluatePermission p k rows c = Inr d \<and> de_allowed d)"
  by (auto simp: permits_def map_sum_ok)

lemma permits_session: "permits p rows k c = Inr True \<Longrightarrow> mustChangeSecret p \<noteq> Some True"
  using allowed_has_source by (auto simp: permits_True)

lemma reconciled_members:
  "reconciled p rows resources ks ids = Inr out \<Longrightarrow> i \<in> set out \<Longrightarrow>
     i \<in> set ids \<and> (\<forall>k \<in> set ks. \<exists>c. js_get resources i = Some c \<and> permits p rows k c = Inr True)"
proof (induction ks arbitrary: ids)
  case (Cons k ks)
  from Cons.prems(1) obtain ids' where kept: "still_permitted p rows resources k ids = Inr ids'"
    and rest: "reconciled p rows resources ks ids' = Inr out" by (auto simp: accepted)
  from Cons.IH [OF rest Cons.prems(2)] have later: "i \<in> set ids'"
    "\<forall>k \<in> set ks. \<exists>c. js_get resources i = Some c \<and> permits p rows k c = Inr True" by blast+
  from filter_ok_member [OF kept [unfolded still_permitted_def] later(1)] later(2) show ?case
    by (auto split: option.splits)
qed simp

lemma collection_members:
  assumes "filterLeadCollection p rows cs resources = Inr ids"
  shows "mustChangeSecret p \<noteq> Some True"
    and "i \<in> set ids \<Longrightarrow> \<exists>c. (i, c) \<in> set resources \<and> permits p rows ''lead.view'' c = Inr True"
proof -
  from assms obtain kept where some: "some_ok (\<lambda>c. permits p rows ''lead.view'' (c\<lparr>ec_own := True, ec_team := True, ec_managedTeam := True\<rparr>)) cs = Inr True"
    and kept: "filter_ok (\<lambda>(i, c). permits p rows ''lead.view'' c) resources = Inr kept" and ids: "ids = map fst kept"
    by (auto simp: filterLeadCollection_def accepted map_sum_ok)
  from some_ok_True [OF some] permits_session show "mustChangeSecret p \<noteq> Some True" by blast
  from filter_ok_member [OF kept] ids show "i \<in> set ids \<Longrightarrow> \<exists>c. (i, c) \<in> set resources \<and> permits p rows ''lead.view'' c = Inr True"
    by fastforce
qed


theorem route_permissions_available_witness: "available ''lead.close.approve''"
proof -
  have "routePermissions ''LeadStatusController'' ''update'' = Some [''lead.edit'']" by code_simp
  from route_permissions_available [OF this, of _ "JStr ''ENROLLED''" True True] show ?thesis
    by (simp add: contextualPermissions_def)
qed


end
