(* ===== verification/Telephony.thy ===== *)
theory Telephony
  imports LeadLaws
begin

text \<open>
  Calls to prospects: \<open>telephony/telephony.service.ts\<close> without a database, and the adapters of
  \<open>telephony/telephony.adapter.ts\<close> it then uses: the manual one accepts, the two others refuse. An
  instant stands for the text \<open>toISOString\<close> prints of it; such texts are compared as the code does,
  character by character.
\<close>

section \<open>State\<close>

datatype telephony_mode = ManualExternalMode | CoovoxMode | LinphoneMode | DisabledMode

datatype telephony_provider = ManualExternal | Coovox | Linphone

fun provider_name :: "telephony_provider \<Rightarrow> string" where
  "provider_name ManualExternal = ''MANUAL_EXTERNAL''"
| "provider_name Coovox = ''COOVOX''"
| "provider_name Linphone = ''LINPHONE''"

fun telephony_mode_name :: "telephony_mode \<Rightarrow> string" where
  "telephony_mode_name ManualExternalMode = ''MANUAL_EXTERNAL''"
| "telephony_mode_name CoovoxMode = ''COOVOX''"
| "telephony_mode_name LinphoneMode = ''LINPHONE''"
| "telephony_mode_name DisabledMode = ''DISABLED''"

definition telephonyModes :: "telephony_mode list" where
  "telephonyModes = [ManualExternalMode, CoovoxMode, LinphoneMode, DisabledMode]"

datatype call_state = CallRequested | CallDialing | CallRinging | CallAnswered | CallMissed | CallFailed | CallCancelled | CallEnded

fun call_state_name :: "call_state \<Rightarrow> string" where
  "call_state_name CallRequested = ''REQUESTED''"
| "call_state_name CallDialing = ''DIALING''"
| "call_state_name CallRinging = ''RINGING''"
| "call_state_name CallAnswered = ''ANSWERED''"
| "call_state_name CallMissed = ''MISSED''"
| "call_state_name CallFailed = ''FAILED''"
| "call_state_name CallCancelled = ''CANCELLED''"
| "call_state_name CallEnded = ''ENDED''"

definition callStates :: "call_state list" where
  "callStates = [CallRequested, CallDialing, CallRinging, CallAnswered, CallMissed, CallFailed, CallCancelled, CallEnded]"

fun call_transitions :: "call_state \<Rightarrow> call_state list" where
  "call_transitions CallRequested = [CallDialing, CallRinging, CallAnswered, CallFailed, CallCancelled]"
| "call_transitions CallDialing = [CallRinging, CallAnswered, CallMissed, CallFailed, CallCancelled]"
| "call_transitions CallRinging = [CallAnswered, CallMissed, CallFailed, CallCancelled]"
| "call_transitions CallAnswered = [CallEnded, CallFailed]"
| "call_transitions CallMissed = []"
| "call_transitions CallFailed = []"
| "call_transitions CallCancelled = []"
| "call_transitions CallEnded = []"

datatype call_direction = Inbound | Outbound

fun direction_name :: "call_direction \<Rightarrow> string" where
  "direction_name Inbound = ''INBOUND''"
| "direction_name Outbound = ''OUTBOUND''"

datatype match_state = Matched | Unmatched | Ambiguous | Confirmed

fun match_name :: "match_state \<Rightarrow> string" where
  "match_name Matched = ''MATCHED''"
| "match_name Unmatched = ''UNMATCHED''"
| "match_name Ambiguous = ''AMBIGUOUS''"
| "match_name Confirmed = ''CONFIRMED''"

datatype dispatch_state = DispatchPending | DispatchAccepted | DispatchUncertain | DispatchRejected

datatype recording_policy = RecordingDisabled | MetadataOnly

fun policy_name :: "recording_policy \<Rightarrow> string" where
  "policy_name RecordingDisabled = ''DISABLED''"
| "policy_name MetadataOnly = ''METADATA_ONLY''"

record telephony_configuration =
  tc_mode :: telephony_mode
  tc_clickToCall :: bool
  tc_inbound :: bool
  tc_outbound :: bool
  tc_policy :: recording_policy
  tc_maxSeconds :: int
  tc_secretReference :: "string option"
  tc_version :: int
  tc_updatedBy :: string
  tc_updatedAt :: int

definition initial_configuration :: telephony_configuration where
  "initial_configuration = \<lparr>tc_mode = DisabledMode, tc_clickToCall = False, tc_inbound = False, tc_outbound = False,
     tc_policy = RecordingDisabled, tc_maxSeconds = 7200, tc_secretReference = None, tc_version = 1, tc_updatedBy = ''system'',
     tc_updatedAt = 0\<rparr>"

datatype call_event_type = StateEvent | CompensationEvent

record call_event =
  ce_id :: string
  ce_callId :: string
  ce_key :: string
  ce_type :: call_event_type
  ce_state :: call_state
  ce_reasonCode :: "string option"
  ce_actorId :: "string option"
  ce_occurredAt :: int
  ce_receivedAt :: int

record recording_metadata =
  rm_id :: string
  rm_state :: string
  rm_duration :: "int option"
  rm_provider :: telephony_provider
  rm_roles :: "role list"

record call_record =
  cr_id :: string
  cr_provider :: telephony_provider
  cr_externalId :: string
  cr_direction :: call_direction
  cr_state :: call_state
  cr_leadId :: "string option"
  cr_fingerprint :: string
  cr_maskedPhone :: string
  cr_match :: match_state
  cr_requestedAt :: int
  cr_answeredAt :: "int option"
  cr_endedAt :: "int option"
  cr_duration :: "int option"
  cr_createdBy :: string
  cr_dispatch :: dispatch_state
  cr_dispatchUpdatedAt :: int
  cr_purposeCode :: "string option"
  cr_purposeComment :: "string option"
  cr_recording :: recording_metadata
  cr_events :: "call_event list"

record telephony_service = lead_state +
  tel_config :: telephony_configuration
  calls :: "(string, call_record) js_map"
  callByProviderId :: "(string, string) js_map"
  eventReceipts :: "(string, call_event) js_map"

section \<open>Numbers\<close>

definition normalizePhone :: "string \<Rightarrow> string result" where
  "normalizePhone v = (if phone_ok (phone_digits v) then Inr (phone_digits v) else Inl (BadRequest ''telephony_phone_invalid''))"

definition mask_phone :: "string \<Rightarrow> string" where
  "mask_phone v = (let ds = filter is_digit v in ''***'' @ drop (length ds - 3) ds)"

datatype destination_type = Morocco | International | Extension

fun as_destination :: "string \<Rightarrow> destination_type option" where
  "as_destination t = (if t = ''MOROCCO'' then Some Morocco else if t = ''INTERNATIONAL'' then Some International
     else if t = ''EXTENSION'' then Some Extension else None)"

definition compact_phone :: "string \<Rightarrow> string" where
  "compact_phone v = filter (\<lambda>c. \<not> is_space c \<and> c \<notin> set ''().-'') (js_trim v)"

definition moroccan :: "string \<Rightarrow> bool" where
  "moroccan v = (starts_with ''+212'' v \<and> all_in is_digit 9 9 (drop 4 v))"

definition international_ok :: "string \<Rightarrow> bool" where
  "international_ok v = (case v of c # d # r \<Rightarrow> c = CHR ''+'' \<and> between 49 57 d \<and> all_in is_digit 7 14 r | _ \<Rightarrow> False)"

definition normalizeFreeCallDestination :: "string \<Rightarrow> string option \<Rightarrow> string result" where
  "normalizeFreeCallDestination v raw =
     (let named = (case raw of None \<Rightarrow> [] | Some t \<Rightarrow> js_upper (js_trim t));
          compact = compact_phone v
      in case as_destination (if named = [] then ''MOROCCO'' else named) of
           None \<Rightarrow> Inl (BadRequest ''telephony_free_call_destination_type_invalid'')
         | Some Extension \<Rightarrow> if all_in is_digit 2 7 compact then Inr compact
             else Inl (BadRequest ''telephony_free_call_extension_invalid'')
         | Some International \<Rightarrow> if international_ok compact then Inr compact
             else Inl (BadRequest ''telephony_free_call_international_invalid'')
         | Some Morocco \<Rightarrow>
             (let normalized = (if starts_with ''0'' compact \<and> all_in is_digit 9 9 (drop 1 compact) then ''+212'' @ drop 1 compact
                  else if starts_with ''212'' compact \<and> all_in is_digit 9 9 (drop 3 compact) then ''+'' @ compact
                  else compact)
              in if moroccan normalized then Inr normalized
                 else Inl (BadRequest ''telephony_free_call_destination_refused'')))"

section \<open>Helpers\<close>

definition assertContributor :: "principal \<Rightarrow> unit result" where
  "assertContributor p = (if is_operational p then Inr () else Inl (Forbidden ''telephony_role_forbidden''))"

definition scopedLead ::
  "string \<Rightarrow> principal \<Rightarrow> string \<Rightarrow> 'a telephony_service_scheme \<Rightarrow> lead_view result \<times> 'a telephony_service_scheme" where
  "scopedLead i p cid s =
     call (getLead i p cid s) (\<lambda>v s1.
       if reaches_campus p (ld_campus (lv_lead v)) then (Inr v, s1) else (Inl (NotFound ''lead_not_found''), s1))"

definition requiredCall ::
  "string \<Rightarrow> principal \<Rightarrow> string \<Rightarrow> 'a telephony_service_scheme \<Rightarrow> call_record result \<times> 'a telephony_service_scheme" where
  "requiredCall i p cid s =
     (case js_get (calls s) i of
        None \<Rightarrow> (Inl (NotFound ''telephony_call_not_found''), s)
      | Some c \<Rightarrow>
          if truthy (cr_leadId c) then call (scopedLead (opt_text (cr_leadId c)) p cid s) (\<lambda>_ s1. (Inr c, s1))
          else (Inr c, s))"

text \<open>\<open>this.timestamp(value, code)\<close>.\<close>

definition call_timestamp :: "'a host_scheme \<Rightarrow> string option \<Rightarrow> string \<Rightarrow> int result" where
  "call_timestamp s v err =
     (if truthy v then (case parse_opt s v of None \<Rightarrow> Inl (BadRequest err) | Some t \<Rightarrow> Inr t) else Inr (now s))"

definition call_event_of ::
  "string \<Rightarrow> string \<Rightarrow> call_event_type \<Rightarrow> call_state \<Rightarrow> int \<Rightarrow> string option \<Rightarrow> string option \<Rightarrow> 'a host_scheme \<Rightarrow> call_event" where
  "call_event_of i key ty st occurred actor reason s =
     \<lparr>ce_id = fresh_uuid s, ce_callId = i, ce_key = key, ce_type = ty, ce_state = st,
      ce_reasonCode = (if truthy reason then reason else None), ce_actorId = (if truthy actor then actor else None),
      ce_occurredAt = occurred, ce_receivedAt = now s\<rparr>"

definition tel_key :: "telephony_provider \<Rightarrow> string \<Rightarrow> string" where
  "tel_key pr x = provider_name pr @ '':'' @ x"

definition tel_request_key :: "telephony_provider \<Rightarrow> string \<Rightarrow> string" where
  "tel_request_key pr x = provider_name pr @ '':request:'' @ x"

definition tel_event_key_ok :: "string \<Rightarrow> bool" where
  "tel_event_key_ok k = all_in word_dash 8 160 k"

text \<open>
  \<open>this.copy(this.calls.get(id)!)\<close>, of an identifier the index holds. Every one of them is stored
  (\<open>tel_ok\<close> in \<open>TelephonyLaws\<close>), so the other branch stands for a state that is not reached.
\<close>

definition known_call :: "string \<Rightarrow> 'a telephony_service_scheme \<Rightarrow> call_record result" where
  "known_call i s = (case js_get (calls s) i of None \<Rightarrow> Inl (Thrown ''TypeError'') | Some c \<Rightarrow> Inr c)"

section \<open>Configuration\<close>

record configure_input =
  ti_mode :: "string option"
  ti_clickToCall :: bool
  ti_inbound :: bool
  ti_outbound :: bool
  ti_policy :: "string option"
  ti_maxSeconds :: "jsnum option"
  ti_secret :: "string option"
  ti_version :: "jsnum option"

fun digit_run :: "string \<Rightarrow> bool" where
  "digit_run [] = False"
| "digit_run (c # r) = ((8 \<le> length (c # r) \<and> list_all is_digit (take 8 (c # r))) \<or> digit_run r)"

definition secret_char :: "char \<Rightarrow> bool" where
  "secret_char c = (is_alnum c \<or> c \<in> set ''._/-'')"

definition secret_reference_ok :: "string \<Rightarrow> bool" where
  "secret_reference_ok v =
     (starts_with ''ref:'' v \<and> all_in secret_char 3 150 (drop 4 v)
       \<and> \<not> list_ex (\<lambda>w. js_includes w (js_lower v)) [''@'', ''password'', ''token='', ''http:'', ''https:''] \<and> \<not> digit_run v)"

definition as_mode :: "string option \<Rightarrow> telephony_mode option" where
  "as_mode v = find (\<lambda>m. v = Some (telephony_mode_name m)) telephonyModes"

definition telephony_configure ::
  "configure_input \<Rightarrow> principal \<Rightarrow> string \<Rightarrow> 'a telephony_service_scheme
     \<Rightarrow> telephony_configuration result \<times> 'a telephony_service_scheme" where
  "telephony_configure i p cid s =
     (if SUPER_ADMIN \<notin> set (p_roles p) then (Inl (Forbidden ''telephony_configuration_forbidden''), s)
      else (case (if ti_version i = Some (JInt (tc_version (tel_config s))) then as_mode (ti_mode i) else None) of
        None \<Rightarrow> (Inl (Conflict ''telephony_configuration_version_conflict''), s)
      | Some m \<Rightarrow>
          (case ti_maxSeconds i of
            None \<Rightarrow> (Inl (BadRequest ''telephony_duration_threshold_invalid''), s)
          | Some n \<Rightarrow>
              if \<not> is_integer n \<or> num_value n < 60 \<or> 14400 < num_value n
              then (Inl (BadRequest ''telephony_duration_threshold_invalid''), s)
              else (case find (\<lambda>x. ti_policy i = Some (policy_name x)) [RecordingDisabled, MetadataOnly] of
                None \<Rightarrow> (Inl (BadRequest ''telephony_recording_policy_invalid''), s)
              | Some pol \<Rightarrow>
                  if truthy (ti_secret i) \<and> \<not> secret_reference_ok (opt_text (ti_secret i))
                  then (Inl (BadRequest ''telephony_secret_reference_invalid''), s)
                  else (let before = tel_config s;
                            c = \<lparr>tc_mode = m, tc_clickToCall = ti_clickToCall i, tc_inbound = ti_inbound i,
                                 tc_outbound = ti_outbound i, tc_policy = pol, tc_maxSeconds = num_value n,
                                 tc_secretReference = (if truthy (ti_secret i) then ti_secret i else None),
                                 tc_version = tc_version before + 1, tc_updatedBy = userId p, tc_updatedAt = now s\<rparr>
                        in (Inr c, audit_by p cid ''TELEPHONY_CONFIGURATION_CHANGED''
                             (JObj [(''mode'', JStr (telephony_mode_name (tc_mode before))), (''version'', JNum (JInt (tc_version before)))])
                             (JObj [(''mode'', JStr (telephony_mode_name m)), (''version'', JNum (JInt (tc_version c))),
                                    (''recordingPolicy'', JStr (policy_name pol))])
                             SUCCESS (''telephony-config:'' @ show_int (tc_version c)) (s\<lparr>tel_config := c\<rparr>)))))))"

text \<open>\<open>configureForApi\<close>: whether the local bridge answers is the network's.\<close>

definition telephony_configureForApi ::
  "bool \<Rightarrow> configure_input \<Rightarrow> principal \<Rightarrow> string \<Rightarrow> 'a telephony_service_scheme
     \<Rightarrow> telephony_configuration result \<times> 'a telephony_service_scheme" where
  "telephony_configureForApi bridge_ready i p cid s =
     (if SUPER_ADMIN \<notin> set (p_roles p) \<or> \<not> global_scope p then (Inl (Forbidden ''telephony_configuration_forbidden''), s)
      else if as_mode (ti_mode i) = Some LinphoneMode \<and> ti_outbound i \<and> \<not> bridge_ready
      then (Inl (Unavailable ''telephony_bridge_not_ready''), s)
      else telephony_configure i p cid s)"

section \<open>Calls\<close>

record new_call =
  nc_provider :: telephony_provider
  nc_externalId :: string
  nc_direction :: call_direction
  nc_leadId :: "string option"
  nc_phone :: string
  nc_match :: match_state
  nc_key :: string
  nc_occurredAt :: "string option"

definition call_activity :: "string \<Rightarrow> string \<Rightarrow> activity_input" where
  "call_activity ty result = \<lparr>in_type = ty, in_result = result, in_note = None, in_nextActionAt = None, in_clearNextAction = False\<rparr>"

text \<open>The record \<open>createCall\<close> builds: its identifier, its first event and its recording take three draws.\<close>

definition fresh_call :: "new_call \<Rightarrow> int \<Rightarrow> principal \<Rightarrow> 'a telephony_service_scheme \<Rightarrow> call_record" where
  "fresh_call n occurred p s =
     \<lparr>cr_id = fresh_uuid s, cr_provider = nc_provider n, cr_externalId = nc_externalId n, cr_direction = nc_direction n,
      cr_state = CallRequested, cr_leadId = (if truthy (nc_leadId n) then nc_leadId n else None),
      cr_fingerprint = sha256hex s (nc_phone n), cr_maskedPhone = mask_phone (nc_phone n), cr_match = nc_match n,
      cr_requestedAt = occurred, cr_answeredAt = None, cr_endedAt = None, cr_duration = None, cr_createdBy = userId p,
      cr_dispatch = DispatchAccepted, cr_dispatchUpdatedAt = occurred, cr_purposeCode = None, cr_purposeComment = None,
      cr_recording = \<lparr>rm_id = fresh_uuid (drawn (drawn s)), rm_state = ''UNAVAILABLE'', rm_duration = None,
        rm_provider = nc_provider n, rm_roles = manager_roles\<rparr>,
      cr_events = [call_event_of (fresh_uuid s) (nc_key n) StateEvent CallRequested occurred (Some (userId p)) None (drawn s)]\<rparr>"

definition store_call :: "new_call \<Rightarrow> call_record \<Rightarrow> 'a telephony_service_scheme \<Rightarrow> 'a telephony_service_scheme" where
  "store_call n c s =
     (drawn (drawn (drawn s)))\<lparr>calls := js_set (calls s) (cr_id c) c,
       callByProviderId := js_set (callByProviderId s) (tel_key (nc_provider n) (nc_externalId n)) (cr_id c),
       eventReceipts := js_set (eventReceipts s) (nc_key n) (hd (cr_events c))\<rparr>"

definition createCall ::
  "new_call \<Rightarrow> principal \<Rightarrow> string \<Rightarrow> 'a telephony_service_scheme \<Rightarrow> call_record result \<times> 'a telephony_service_scheme" where
  "createCall n p cid s =
     (case js_get (callByProviderId s) (tel_key (nc_provider n) (nc_externalId n)) of
        Some i \<Rightarrow> (known_call i s, s)
      | None \<Rightarrow>
          (case call_timestamp s (nc_occurredAt n) ''telephony_call_timestamp_invalid'' of
             Inl e \<Rightarrow> (Inl e, s)
           | Inr occurred \<Rightarrow>
               (let c = fresh_call n occurred p s; s1 = store_call n c s;
                    finish = (\<lambda>s2. (Inr c, audit_by p cid ''TELEPHONY_CALL_REQUESTED'' JUndef
                      (JObj [(''callId'', JStr (cr_id c)), (''provider'', JStr (provider_name (cr_provider c))),
                             (''direction'', JStr (direction_name (cr_direction c))), (''matchState'', JStr (match_name (cr_match c)))])
                      SUCCESS (''telephony-call:'' @ tel_key (nc_provider n) (nc_externalId n)) s2))
                in if truthy (nc_leadId n)
                   then call (addActivity (opt_text (nc_leadId n)) (call_activity ''CRM_CALL'' ''CALL_REQUESTED'') p cid s1) (\<lambda>_ s2. finish s2)
                   else finish s1)))"

definition adapter_of :: "telephony_mode \<Rightarrow> telephony_provider option" where
  "adapter_of m = (case m of ManualExternalMode \<Rightarrow> Some ManualExternal | CoovoxMode \<Rightarrow> Some Coovox
     | LinphoneMode \<Rightarrow> Some Linphone | DisabledMode \<Rightarrow> None)"

text \<open>\<open>adapter.initiate\<close>: the external identifier of the manual adapter, the refusal of the others.\<close>

definition adapter_initiate ::
  "telephony_provider \<Rightarrow> 'a telephony_service_scheme \<Rightarrow> string result \<times> 'a telephony_service_scheme" where
  "adapter_initiate pr s =
     (if pr = ManualExternal then (Inr (''manual-'' @ fresh_uuid s), drawn s) else (Inl (Unavailable ''provider_not_configured''), s))"

text \<open>The end of \<open>initiate\<close>, once the number is known: the adapter, the call, its key, the optional note.\<close>

definition place_call ::
  "string \<Rightarrow> telephony_provider \<Rightarrow> string \<Rightarrow> string option \<Rightarrow> string option \<Rightarrow> string \<Rightarrow> principal \<Rightarrow> string
     \<Rightarrow> 'a telephony_service_scheme \<Rightarrow> call_record result \<times> 'a telephony_service_scheme" where
  "place_call leadId pr key comment next_at phone p cid s =
     call (adapter_initiate pr s) (\<lambda>ext s1.
     call (createCall \<lparr>nc_provider = pr, nc_externalId = ext, nc_direction = Outbound, nc_leadId = Some leadId,
             nc_phone = phone, nc_match = Matched, nc_key = key, nc_occurredAt = None\<rparr> p cid s1) (\<lambda>c s2.
       (let s3 = s2\<lparr>callByProviderId := js_set (callByProviderId s2) (tel_request_key pr key) (cr_id c)\<rparr>
        in if truthy comment \<or> truthy next_at
           then call (addActivity leadId \<lparr>in_type = ''CRM_CALL'', in_result = ''CALL_REQUESTED'',
                  in_note = (if truthy comment then comment else None),
                  in_nextActionAt = (if truthy next_at then next_at else None), in_clearNextAction = False\<rparr> p cid s3)
                (\<lambda>_ s4. (Inr c, s4))
           else (Inr c, s3))))"

definition initiate ::
  "string \<Rightarrow> string option \<Rightarrow> string option \<Rightarrow> string option \<Rightarrow> principal \<Rightarrow> string \<Rightarrow> 'a telephony_service_scheme
     \<Rightarrow> call_record result \<times> 'a telephony_service_scheme" where
  "initiate leadId key comment next_at p cid s =
     (case assertContributor p of Inl e \<Rightarrow> (Inl e, s) | Inr _ \<Rightarrow>
      call (scopedLead leadId p cid s) (\<lambda>_ s1.
        if \<not> truthy key \<or> \<not> all_in word_dash 8 128 (opt_text key) then (Inl (BadRequest ''telephony_idempotency_invalid''), s1)
        else (case (if tc_outbound (tel_config s1) \<and> tc_clickToCall (tel_config s1) then adapter_of (tc_mode (tel_config s1)) else None) of
          None \<Rightarrow> (Inl (Unavailable ''telephony_provider_disabled''), s1)
        | Some pr \<Rightarrow>
            (case js_get (callByProviderId s1) (tel_request_key pr (opt_text key)) of
              Some i \<Rightarrow> (known_call i s1, s1)
            | None \<Rightarrow>
                call (scopedLead leadId p cid s1) (\<lambda>v s2.
                  if \<not> truthy (ld_phone (lv_lead v)) then (Inl (BadRequest ''lead_phone_missing''), s2)
                  else (case normalizePhone (opt_text (ld_phone (lv_lead v))) of
                    Inl e \<Rightarrow> (Inl e, s2)
                  | Inr phone \<Rightarrow> place_call leadId pr (opt_text key) comment next_at phone p cid s2))))))"

definition incoming_query :: "string \<Rightarrow> lead_query" where
  "incoming_query phone = \<lparr>lq_page = JInt 1, lq_pageSize = JInt 100, lq_search = Some phone, lq_assignedToId = None,
     lq_collaboratorId = None, lq_adviserId = None, lq_status = None, lq_source = None, lq_channel = None, lq_program = None,
     lq_campaign = None, lq_campus = None, lq_createdFrom = None, lq_createdTo = None, lq_createdBefore = None,
     lq_assignmentMode = None, lq_importBatchId = None, lq_view = None, lq_sortBy = None, lq_sortDirection = None,
     lq_savedView = None, lq_temperature = None, lq_treatmentFrom = None, lq_treatmentTo = None, lq_treatmentState = None,
     lq_inactiveTreatmentBefore = None, lq_portfolioState = None, lq_acquisitionKind = None\<rparr>"

text \<open>\<open>lead.phone && this.normalizePhone(lead.phone) === phone\<close>, which throws on a stored number it cannot read.\<close>

definition has_phone :: "string \<Rightarrow> lead \<Rightarrow> bool result" where
  "has_phone phone l =
     (if \<not> truthy (ld_phone l) then Inr False else map_sum id (\<lambda>x. x = phone) (normalizePhone (opt_text (ld_phone l))))"

definition match_of :: "string list \<Rightarrow> match_state" where
  "match_of ids = (if length ids = 1 then Matched else if ids = [] then Unmatched else Ambiguous)"

definition ingestSyntheticIncoming ::
  "bool \<Rightarrow> telephony_provider \<Rightarrow> string \<Rightarrow> string \<Rightarrow> string \<Rightarrow> string \<Rightarrow> principal \<Rightarrow> string \<Rightarrow> 'a telephony_service_scheme
     \<Rightarrow> call_record result \<times> 'a telephony_service_scheme" where
  "ingestSyntheticIncoming pilotage pr ext phone0 key occurred p cid s =
     (case assertContributor p of Inl e \<Rightarrow> (Inl e, s) | Inr _ \<Rightarrow>
      if \<not> tc_inbound (tel_config s) then (Inl (Unavailable ''telephony_inbound_disabled''), s)
      else if pr \<noteq> ManualExternal then (Inl (Unavailable ''provider_not_configured''), s)
      else (case js_get (callByProviderId s) (tel_key pr ext) of
        Some i \<Rightarrow> (known_call i s, s)
      | None \<Rightarrow>
          (case normalizePhone phone0 of Inl e \<Rightarrow> (Inl e, s) | Inr phone \<Rightarrow>
            call (listLeads pilotage (incoming_query phone) p cid s) (\<lambda>pg s1.
              (case map_ok (\<lambda>v. has_phone phone (lv_lead v)) (lp_items pg) of
                 Inl e \<Rightarrow> (Inl e, s1)
               | Inr bs \<Rightarrow>
                   (let ids = map (\<lambda>(v, b). ld_id (lv_lead v)) (filter snd (zip (lp_items pg) bs))
                    in createCall \<lparr>nc_provider = pr, nc_externalId = ext, nc_direction = Inbound,
                         nc_leadId = (if length ids = 1 then Some (hd ids) else None), nc_phone = phone, nc_match = match_of ids,
                         nc_key = key, nc_occurredAt = Some occurred\<rparr> p cid s1))))))"

section \<open>Events\<close>

record event_input =
  ei_key :: "string option"
  ei_state :: "string option"
  ei_occurredAt :: "string option"
  ei_reasonCode :: "string option"

definition as_call_state :: "string option \<Rightarrow> call_state option" where
  "as_call_state v = find (\<lambda>x. v = Some (call_state_name x)) callStates"

definition final_call :: "call_state \<Rightarrow> bool" where
  "final_call st = (st \<in> {CallEnded, CallFailed, CallMissed, CallCancelled})"

text \<open>The times of a call after an event, and its duration in whole seconds.\<close>

definition answered_after :: "call_record \<Rightarrow> call_state \<Rightarrow> int \<Rightarrow> int option" where
  "answered_after c st occurred = (if st = CallAnswered then Some occurred else cr_answeredAt c)"

definition ended_after :: "call_record \<Rightarrow> call_state \<Rightarrow> int \<Rightarrow> int option" where
  "ended_after c st occurred = (if final_call st then Some occurred else cr_endedAt c)"

definition duration_after :: "call_record \<Rightarrow> call_state \<Rightarrow> int \<Rightarrow> int option" where
  "duration_after c st occurred =
     (case (answered_after c st occurred, ended_after c st occurred) of
        (Some a, Some e) \<Rightarrow> Some (max 0 ((e - a) div 1000)) | _ \<Rightarrow> cr_duration c)"

definition updated_call :: "call_record \<Rightarrow> call_state \<Rightarrow> int \<Rightarrow> call_event \<Rightarrow> call_record" where
  "updated_call c st occurred ev =
     (let d = duration_after c st occurred
      in c\<lparr>cr_state := st, cr_answeredAt := answered_after c st occurred, cr_endedAt := ended_after c st occurred,
           cr_duration := d, cr_recording := (cr_recording c)\<lparr>rm_duration := (case d of None \<Rightarrow> rm_duration (cr_recording c) | Some n \<Rightarrow> Some n)\<rparr>,
           cr_events := cr_events c @ [ev]\<rparr>)"

definition applyEvent ::
  "call_record \<Rightarrow> event_input \<Rightarrow> principal \<Rightarrow> string \<Rightarrow> bool \<Rightarrow> 'a telephony_service_scheme
     \<Rightarrow> call_record result \<times> 'a telephony_service_scheme" where
  "applyEvent c i p cid volatile s =
     (let key = opt_text (ei_key i); callId = cr_id c
      in case (if truthy (ei_key i) \<and> tel_event_key_ok key then as_call_state (ei_state i) else None) of
           None \<Rightarrow> (Inl (BadRequest ''telephony_event_invalid''), s)
         | Some st \<Rightarrow>
             (case js_get (eventReceipts s) key of
               Some r \<Rightarrow> if ce_callId r \<noteq> callId \<or> ce_state r \<noteq> st then (Inl (Conflict ''telephony_event_idempotency_conflict''), s)
                 else (Inr c, s)
             | None \<Rightarrow>
                 (case call_timestamp s (ei_occurredAt i) ''telephony_event_timestamp_invalid'' of
                   Inl e \<Rightarrow> (Inl e, s)
                 | Inr occurred \<Rightarrow>
                     if cr_events c \<noteq> [] \<and> string_cmp (iso_string s occurred) (iso_string s (ce_occurredAt (last (cr_events c)))) < 0
                     then (Inl (Conflict ''telephony_event_out_of_order''), s)
                     else if st \<notin> set (call_transitions (cr_state c)) then (Inl (Conflict ''telephony_transition_invalid''), s)
                     else (let ev = call_event_of callId key StateEvent st occurred (Some (userId p)) (ei_reasonCode i) s;
                               d = duration_after c st occurred
                       in if (case d of None \<Rightarrow> 0 | Some n \<Rightarrow> n) > tc_maxSeconds (tel_config s)
                          then (Inl (Conflict ''telephony_duration_threshold_exceeded''), drawn s)
                          else (let c' = updated_call c st occurred ev;
                                    s1 = (drawn s)\<lparr>calls := js_set (calls s) callId c', eventReceipts := js_set (eventReceipts s) key ev\<rparr>;
                                    finish = (\<lambda>s2. (Inr c', if \<not> volatile then s2 else
                                      audit_by p cid ''TELEPHONY_CALL_STATE_CHANGED''
                                        (JObj [(''callId'', JStr callId), (''state'', JStr (call_state_name (cr_state c)))])
                                        (JObj [(''callId'', JStr callId), (''state'', JStr (call_state_name st)),
                                               (''durationSeconds'', case d of None \<Rightarrow> JUndef | Some n \<Rightarrow> JNum (JInt n))])
                                        SUCCESS (''telephony-event:'' @ key) s2))
                            in if volatile \<and> truthy (cr_leadId c')
                               then call (addActivity (opt_text (cr_leadId c')) (call_activity ''CRM_CALL'' (''CALL_'' @ call_state_name st)) p cid s1)
                                      (\<lambda>_ s2. finish s2)
                               else finish s1)))))"

definition receiveEvent ::
  "string \<Rightarrow> event_input \<Rightarrow> principal \<Rightarrow> string \<Rightarrow> 'a telephony_service_scheme \<Rightarrow> call_record result \<times> 'a telephony_service_scheme" where
  "receiveEvent i inp p cid s =
     (case assertContributor p of Inl e \<Rightarrow> (Inl e, s)
      | Inr _ \<Rightarrow> call (requiredCall i p cid s) (\<lambda>c s1. applyEvent c inp p cid True s1))"

definition reason_code_ok :: "string \<Rightarrow> bool" where
  "reason_code_ok v = (case v of [] \<Rightarrow> False | c # r \<Rightarrow> is_upper c \<and> all_in (\<lambda>x. is_upper x \<or> is_digit x \<or> x = CHR ''_'') 2 63 r)"

definition append_compensation ::
  "call_record \<Rightarrow> call_event \<Rightarrow> 'a telephony_service_scheme \<Rightarrow> 'a telephony_service_scheme" where
  "append_compensation c ev s = (drawn s)\<lparr>calls := js_set (calls s) (cr_id c) c, eventReceipts := js_set (eventReceipts s) (ce_key ev) ev\<rparr>"

definition telephony_compensate ::
  "string \<Rightarrow> string option \<Rightarrow> string option \<Rightarrow> principal \<Rightarrow> string \<Rightarrow> 'a telephony_service_scheme
     \<Rightarrow> call_record result \<times> 'a telephony_service_scheme" where
  "telephony_compensate i key reason p cid s =
     (if \<not> is_manager p then (Inl (Forbidden ''telephony_compensation_forbidden''), s)
      else call (requiredCall i p cid s) (\<lambda>c s1.
        if \<not> truthy key \<or> \<not> tel_event_key_ok (opt_text key) \<or> \<not> reason_code_ok (opt_text reason)
        then (Inl (BadRequest ''telephony_compensation_invalid''), s1)
        else (case js_get (eventReceipts s1) (opt_text key) of
          Some _ \<Rightarrow> (Inr c, s1)
        | None \<Rightarrow>
            (let ev = call_event_of i (opt_text key) CompensationEvent (cr_state c) (now s1) (Some (userId p)) reason s1;
                 c' = c\<lparr>cr_events := cr_events c @ [ev]\<rparr>; s2 = append_compensation c' ev s1
             in if truthy (cr_leadId c)
                then call (addActivity (opt_text (cr_leadId c)) (call_activity ''CORRECTION'' ''CALL_METADATA_COMPENSATED'') p cid s2)
                       (\<lambda>_ s3. (Inr c', s3))
                else (Inr c', s2)))))"

definition confirmAssociation ::
  "string \<Rightarrow> string \<Rightarrow> principal \<Rightarrow> string \<Rightarrow> 'a telephony_service_scheme \<Rightarrow> call_record result \<times> 'a telephony_service_scheme" where
  "confirmAssociation i leadId p cid s =
     (if \<not> is_manager p then (Inl (Forbidden ''telephony_association_forbidden''), s)
      else call (requiredCall i p cid s) (\<lambda>c s1.
        if truthy (cr_leadId c) \<or> cr_match c \<notin> {Unmatched, Ambiguous}
        then (Inl (Conflict ''telephony_association_already_resolved''), s1)
        else call (scopedLead leadId p cid s1) (\<lambda>v s2.
          (case (if truthy (ld_phone (lv_lead v)) then map_sum id (sha256hex s2) (normalizePhone (opt_text (ld_phone (lv_lead v))))
                 else Inl (Conflict ''telephony_association_phone_mismatch'')) of
             Inl e \<Rightarrow> (Inl e, s2)
           | Inr print \<Rightarrow>
               if print \<noteq> cr_fingerprint c then (Inl (Conflict ''telephony_association_phone_mismatch''), s2)
               else (let key = ''association:'' @ i @ '':'' @ leadId;
                         ev = call_event_of i key CompensationEvent (cr_state c) (now s2) (Some (userId p)) (Some ''ASSOCIATION_CONFIRMED'') s2;
                         c' = c\<lparr>cr_leadId := Some leadId, cr_match := Confirmed, cr_events := cr_events c @ [ev]\<rparr>
                     in call (addActivity leadId (call_activity ''CRM_CALL'' (''CALL_'' @ call_state_name (cr_state c))) p cid
                                (append_compensation c' ev s2)) (\<lambda>_ s3.
                          (Inr c', audit_by p cid ''TELEPHONY_ASSOCIATION_CONFIRMED'' JUndef
                             (JObj [(''callId'', JStr i), (''leadId'', JStr leadId), (''matchState'', JStr ''CONFIRMED'')])
                             SUCCESS key s3)))))))"

section \<open>Reading\<close>

definition telephony_permissionLeadId :: "string \<Rightarrow> 'a telephony_service_scheme \<Rightarrow> string option result" where
  "telephony_permissionLeadId i s = (case js_get (calls s) i of None \<Rightarrow> Inl (NotFound ''call_not_found'') | Some c \<Rightarrow> Inr (cr_leadId c))"

definition telephony_call ::
  "string \<Rightarrow> principal \<Rightarrow> string \<Rightarrow> 'a telephony_service_scheme \<Rightarrow> call_record result \<times> 'a telephony_service_scheme" where
  "telephony_call i p cid s = requiredCall i p cid s"

definition canAccessCall ::
  "call_record \<Rightarrow> principal \<Rightarrow> 'a telephony_service_scheme \<Rightarrow> bool \<times> 'a telephony_service_scheme" where
  "canAccessCall c p s =
     (if \<not> truthy (cr_leadId c) then (cr_createdBy c = userId p \<or> SUPER_ADMIN \<in> set (p_roles p), s)
      else (case scopedLead (opt_text (cr_leadId c)) p ''telephony-queue'' s of
        (Inl _, s1) \<Rightarrow> (False, s1) | (Inr _, s1) \<Rightarrow> (True, s1)))"

fun accessible_calls ::
  "call_record list \<Rightarrow> principal \<Rightarrow> 'a telephony_service_scheme \<Rightarrow> call_record list \<times> 'a telephony_service_scheme" where
  "accessible_calls [] p s = ([], s)"
| "accessible_calls (c # cs) p s =
     (case canAccessCall c p s of (b, s1) \<Rightarrow>
       (case accessible_calls cs p s1 of (rest, s2) \<Rightarrow> (if b then c # rest else rest, s2)))"

text \<open>\<open>queue\<close>: the missed calls and those to verify.\<close>

definition telephony_queue ::
  "principal \<Rightarrow> 'a telephony_service_scheme \<Rightarrow> (call_record list \<times> call_record list) result \<times> 'a telephony_service_scheme" where
  "telephony_queue p s =
     (case assertContributor p of Inl e \<Rightarrow> (Inl e, s)
      | Inr _ \<Rightarrow> (case accessible_calls (js_values (calls s)) p s of (cs, s1) \<Rightarrow>
          (Inr (filter (\<lambda>c. cr_state c = CallMissed) cs, filter (\<lambda>c. cr_match c \<in> {Unmatched, Ambiguous}) cs), s1)))"

definition callsForLeadForApi ::
  "string \<Rightarrow> principal \<Rightarrow> string \<Rightarrow> 'a telephony_service_scheme \<Rightarrow> call_record list result \<times> 'a telephony_service_scheme" where
  "callsForLeadForApi leadId p cid s =
     call (scopedLead leadId p cid s) (\<lambda>_ s1.
       (Inr (sort_by (\<lambda>x y. cmp_or (locale_cmp s1 (iso_string s1 (cr_requestedAt y)) (iso_string s1 (cr_requestedAt x)))
                (locale_cmp s1 (cr_id x) (cr_id y)))
              (filter (\<lambda>c. cr_leadId c = Some leadId) (js_values (calls s1)))), s1))"

definition telephony_recording ::
  "string \<Rightarrow> principal \<Rightarrow> string \<Rightarrow> 'a telephony_service_scheme \<Rightarrow> recording_metadata result \<times> 'a telephony_service_scheme" where
  "telephony_recording i p cid s =
     call (requiredCall i p cid s) (\<lambda>c s1.
       if \<not> has_role p (rm_roles (cr_recording c)) then (Inl (NotFound ''recording_not_found''), s1)
       else (Inr (cr_recording c), audit_by p cid ''TELEPHONY_RECORDING_METADATA_VIEWED'' JUndef
              (JObj [(''callId'', JStr i), (''recordingId'', JStr (rm_id (cr_recording c))), (''state'', JStr (rm_state (cr_recording c)))])
              SUCCESS (''recording-view:'' @ rm_id (cr_recording c) @ '':'' @ userId p @ '':'' @ cid) s1))"

datatype dispatch_outcome = OutcomeAccepted | OutcomeUncertain | OutcomeRejected

text \<open>\<open>endForApi\<close>: what the local bridge answers is the network's.\<close>

definition telephony_endForApi ::
  "dispatch_outcome \<Rightarrow> string \<Rightarrow> principal \<Rightarrow> string \<Rightarrow> 'a telephony_service_scheme
     \<Rightarrow> (bool \<times> bool \<times> call_record) result \<times> 'a telephony_service_scheme" where
  "telephony_endForApi outcome i p cid s =
     (case assertContributor p of Inl e \<Rightarrow> (Inl e, s)
      | Inr _ \<Rightarrow> call (requiredCall i p cid s) (\<lambda>c s1.
          if cr_provider c \<noteq> Linphone \<or> cr_direction c \<noteq> Outbound then (Inl (Conflict ''telephony_end_not_supported''), s1)
          else if cr_state c \<notin> {CallRequested, CallDialing, CallRinging, CallAnswered} then (Inl (Conflict ''telephony_call_not_active''), s1)
          else if outcome = OutcomeRejected then (Inl (Unavailable ''telephony_bridge_end_rejected''), s1)
          else (Inr (outcome = OutcomeAccepted, outcome = OutcomeUncertain, c), s1)))"

text \<open>The replay of a persisted request: only its author finds the call, and only for the same intent.\<close>

definition leadCallReplay :: "call_record option \<Rightarrow> principal \<Rightarrow> string \<Rightarrow> string \<Rightarrow> 'a host_scheme \<Rightarrow> call_record result" where
  "leadCallReplay c p leadId phone s =
     (case c of None \<Rightarrow> Inl (Conflict ''telephony_call_idempotency_conflict'')
      | Some x \<Rightarrow> if cr_createdBy x \<noteq> userId p \<or> cr_provider x \<noteq> Linphone \<or> cr_direction x \<noteq> Outbound
            \<or> cr_leadId x \<noteq> Some leadId \<or> cr_fingerprint x \<noteq> sha256hex s phone
          then Inl (Conflict ''telephony_call_idempotency_conflict'') else Inr x)"

definition freeCallReplay ::
  "call_record option \<Rightarrow> principal \<Rightarrow> string \<Rightarrow> string \<Rightarrow> string option \<Rightarrow> 'a host_scheme \<Rightarrow> call_record result" where
  "freeCallReplay c p phone purpose comment s =
     (case c of None \<Rightarrow> Inl (Conflict ''telephony_free_call_idempotency_conflict'')
      | Some x \<Rightarrow> if cr_createdBy x \<noteq> userId p \<or> cr_provider x \<noteq> Linphone \<or> cr_direction x \<noteq> Outbound
            \<or> truthy (cr_leadId x) \<or> cr_fingerprint x \<noteq> sha256hex s phone \<or> cr_purposeCode x \<noteq> Some purpose
            \<or> opt_text (cr_purposeComment x) \<noteq> opt_text comment
          then Inl (Conflict ''telephony_free_call_idempotency_conflict'') else Inr x)"

text \<open>\<open>verifySyntheticSignature\<close>, with the keyed digest of the runtime.\<close>

definition verifySyntheticSignature :: "(string \<Rightarrow> string \<Rightarrow> string) \<Rightarrow> string \<Rightarrow> string \<Rightarrow> string \<Rightarrow> string \<Rightarrow> bool" where
  "verifySyntheticSignature hmac payload timestamp signature secret =
     (all_in is_digit 10 10 timestamp \<and> starts_with ''sha256='' signature
       \<and> all_in (\<lambda>c. is_digit c \<or> between 97 102 c) 64 64 (drop 7 signature) \<and> starts_with ''synthetic-'' secret
       \<and> signature = ''sha256='' @ hmac secret (timestamp @ ''.'' @ payload))"

end
