(* ===== verification/TelephonyLaws.thy ===== *)
theory TelephonyLaws
  imports Telephony LeadRequests Lifecycle Effects
begin

text \<open>
  What the telephony promises of its calls: the log of a call is only appended to and determines its
  state, a finished call stays finished, an association with a lead is made once, and an event is
  taken once. An operation is the composition of pieces that each keep the promise
  (\<open>call_effect\<close>), the operations of the lead service among them by their frame.
\<close>

section \<open>A call and its log\<close>

definition event_moves :: "call_event_type \<Rightarrow> call_state \<Rightarrow> call_state \<Rightarrow> bool" where
  "event_moves ty a b \<longleftrightarrow> (if ty = StateEvent then b \<in> set (call_transitions a) else b = a)"

definition event_follows :: "call_event \<Rightarrow> call_event \<Rightarrow> bool" where
  "event_follows a b \<longleftrightarrow> event_moves (ce_type b) (ce_state a) (ce_state b)"

definition duration_ok :: "int option \<Rightarrow> bool" where
  "duration_ok d = (case d of None \<Rightarrow> True | Some n \<Rightarrow> 0 \<le> n \<and> n \<le> 14400)"

definition call_ok :: "call_record \<Rightarrow> bool" where
  "call_ok c \<longleftrightarrow> cr_events c \<noteq> [] \<and> ce_state (hd (cr_events c)) = CallRequested \<and> cr_state c = ce_state (last (cr_events c))
     \<and> successively event_follows (cr_events c) \<and> list_all (\<lambda>e. ce_callId e = cr_id c) (cr_events c)
     \<and> duration_ok (cr_duration c)"

definition call_moves :: "call_record \<Rightarrow> call_record \<Rightarrow> bool" where
  "call_moves c d \<longleftrightarrow> cr_id d = cr_id c \<and> cr_fingerprint d = cr_fingerprint c \<and> cr_createdBy d = cr_createdBy c
     \<and> (truthy (cr_leadId c) \<longrightarrow> cr_leadId d = cr_leadId c) \<and> (duration_ok (cr_duration c) \<longrightarrow> duration_ok (cr_duration d))
     \<and> (\<exists>ev. cr_events d = cr_events c @ [ev] \<and> ce_state ev = cr_state d \<and> ce_callId ev = cr_id c
          \<and> event_moves (ce_type ev) (cr_state c) (cr_state d))"

lemma moves_keep_ok: "call_moves c d \<Longrightarrow> call_ok c \<Longrightarrow> call_ok d"
  by (auto simp: call_moves_def call_ok_def event_follows_def successively_append_iff)

definition tel_ok :: "'a telephony_service_scheme \<Rightarrow> bool" where
  "tel_ok s \<longleftrightarrow> inj (uuid s) \<and> tc_maxSeconds (tel_config s) \<le> 14400
     \<and> (\<forall>k c. js_get (calls s) k = Some c \<longrightarrow> cr_id c = k \<and> k \<in> issued s \<and> call_ok c)
     \<and> (\<forall>k i. js_get (callByProviderId s) k = Some i \<longrightarrow> js_has (calls s) i)"

definition call_effect :: "'a telephony_service_scheme \<Rightarrow> 'a telephony_service_scheme \<Rightarrow> bool" where
  "call_effect s t \<longleftrightarrow> grows s t \<and> (tel_ok s \<longrightarrow> tel_ok t
     \<and> (\<forall>k c. js_get (calls s) k = Some c \<longrightarrow> (\<exists>d. js_get (calls t) k = Some d \<and> call_moves\<^sup>*\<^sup>* c d)))"

lemma effect_refl [simp]: "call_effect s s"
  by (auto simp: call_effect_def)

lemma effect_trans: "call_effect s t \<Longrightarrow> call_effect t u \<Longrightarrow> call_effect s u"
  unfolding call_effect_def by (metis (no_types, lifting) supply_trans rtranclp_trans)

interpretation tel: effect_order call_effect
  by unfold_locales (rule effect_refl, rule effect_trans)

lemmas effect_rules = tel.eff_rules and effect_sequence = tel.eff_sequence

section \<open>Pieces\<close>

lemma tel_fields_more:
  "lead_state.more s = lead_state.more t \<Longrightarrow> calls s = calls t"
  "lead_state.more s = lead_state.more t \<Longrightarrow> callByProviderId s = callByProviderId t"
  "lead_state.more s = lead_state.more t \<Longrightarrow> eventReceipts s = eventReceipts t"
  "lead_state.more s = lead_state.more t \<Longrightarrow> tel_config s = tel_config t"
  by (cases s; cases t; simp)+

lemma effect_tables:
  assumes "calls t = calls s" and "callByProviderId t = callByProviderId s" and "tel_config t = tel_config s" and "grows s t"
  shows "call_effect s t"
  using assms supply_issued [OF assms(4)] by (auto simp: call_effect_def tel_ok_def grows_def)

lemma tel_drawn [simp]:
  "calls (drawn s) = calls s" "callByProviderId (drawn s) = callByProviderId s" "eventReceipts (drawn s) = eventReceipts s"
  "tel_config (drawn s) = tel_config s"
  by (simp_all add: drawn_def)

lemma effect_config: "tc_maxSeconds c \<le> 14400 \<Longrightarrow> call_effect s (s\<lparr>tel_config := c\<rparr>)"
  by (auto simp: call_effect_def tel_ok_def grows_def issued_def)

lemma effect_elsewhere: "lead_state.more t = lead_state.more s \<Longrightarrow> grows s t \<Longrightarrow> call_effect s t"
  by (rule effect_tables) (auto dest: tel_fields_more)

lemma effect_audited: "call_effect s t \<Longrightarrow> call_effect s (audit_by p c ty b a r k t)"
  by (erule effect_trans) (simp add: effect_elsewhere supply_audit)

lemma effect_lead_operations:
  "call_effect s (snd (getLead i p cid s))" "call_effect s (snd (addActivity i act p cid s))"
  "call_effect s (snd (listLeads pil q p cid s))"
proof -
  have "lead_state.more (snd (listLeads pil q p cid s)) = lead_state.more s"
    by (simp add: listLeads_def Let_def split: sum.split)
  then show "call_effect s (snd (listLeads pil q p cid s))" by (rule effect_elsewhere) (rule supply_operations)
qed (rule effect_elsewhere; simp add: supply_operations supply_addActivity)+

lemma effect_scopedLead: "call_effect s (snd (scopedLead i p cid s))"
  unfolding scopedLead_def by (rule effect_sequence) (simp_all add: effect_lead_operations)

lemma calls_scopedLead: "calls (snd (scopedLead i p cid s)) = calls s"
proof -
  have "lead_state.more (snd (scopedLead i p cid s)) = lead_state.more s"
    unfolding scopedLead_def by (rule more_call) simp_all
  then show ?thesis by (rule tel_fields_more)
qed

lemma effect_requiredCall: "call_effect s (snd (requiredCall i p cid s))"
proof -
  have "call_effect s (snd (call (scopedLead l p cid s) (\<lambda>_ s1. (Inr c, s1))))" for l and c :: call_record
    by (rule effect_sequence) (simp_all add: effect_scopedLead)
  then show ?thesis by (simp add: requiredCall_def split: option.split)
qed

lemma requiredCall_stored: "requiredCall i p cid s = (Inr c, t) \<Longrightarrow> js_get (calls t) i = Some c \<and> calls t = calls s"
  using calls_scopedLead [of _ p cid s]
  by (auto simp: requiredCall_def call_Inr split: option.splits if_splits) (metis snd_conv)+

lemma fresh_not_stored: "tel_ok s \<Longrightarrow> js_get (calls s) (fresh_uuid s) = None"
  using fresh_uuid_not_issued [of s] by (cases "js_get (calls s) (fresh_uuid s)") (auto simp: tel_ok_def)

lemma fresh_call_ok: "call_ok (fresh_call n occurred p s) \<and> cr_id (fresh_call n occurred p s) = fresh_uuid s"
  by (simp add: call_ok_def fresh_call_def call_event_of_def duration_ok_def)

lemma effect_store:
  assumes "c = fresh_call n occurred p s"
  shows "call_effect s (store_call n c s)"
proof -
  have c: "call_ok c" "cr_id c = fresh_uuid s" using fresh_call_ok assms by blast+
  have grow: "grows s (store_call n c s)" by (simp add: grows_def store_call_def)
  have mine: "fresh_uuid s \<in> issued (store_call n c s)" by (simp add: issued_def fresh_uuid_def store_call_def)
  have sub: "issued s \<subseteq> issued (store_call n c s)" by (rule supply_issued [OF grow])
  have tabs: "calls (store_call n c s) = js_set (calls s) (fresh_uuid s) c"
    "callByProviderId (store_call n c s) = js_set (callByProviderId s) (tel_key (nc_provider n) (nc_externalId n)) (fresh_uuid s)"
    by (simp_all add: store_call_def c)
  have "uuid (store_call n c s) = uuid s" "tel_config (store_call n c s) = tel_config s" by (simp_all add: store_call_def)
  with c mine sub tabs have "tel_ok s \<Longrightarrow> tel_ok (store_call n c s)"
    by (auto simp: tel_ok_def js_has_def split: if_splits)
  with grow tabs fresh_not_stored [of s] show ?thesis by (auto simp: call_effect_def)
qed

lemma effect_update:
  assumes "js_get (calls s) i = Some c" and "call_moves c d" and "calls t = js_set (calls s) i d"
    and "callByProviderId t = callByProviderId s" and "tel_config t = tel_config s" and "grows s t"
  shows "call_effect s t"
proof -
  have sub: "issued s \<subseteq> issued t" and same: "uuid t = uuid s" using supply_issued assms(6) by (auto simp: grows_def)
  have "cr_id d = cr_id c" using assms(2) by (simp add: call_moves_def)
  with assms sub same moves_keep_ok have "tel_ok s \<Longrightarrow> tel_ok t"
    by (auto simp: tel_ok_def js_has_def split: if_splits)
  moreover from assms have "\<exists>d'. js_get (calls t) k = Some d' \<and> call_moves\<^sup>*\<^sup>* x d'" if "js_get (calls s) k = Some x" for k x
    using that by (cases "k = i") auto
  ultimately show ?thesis using assms(6) by (simp add: call_effect_def)
qed

lemma tel_ok_index: "tel_ok t \<Longrightarrow> js_has (calls t) i \<Longrightarrow> tel_ok (t\<lparr>callByProviderId := js_set (callByProviderId t) k i\<rparr>)"
  by (simp add: tel_ok_def issued_def)

lemma effect_index:
  assumes "call_effect s t" and "tel_ok s \<Longrightarrow> js_has (calls t) i"
  shows "call_effect s (t\<lparr>callByProviderId := js_set (callByProviderId t) k i\<rparr>)"
proof -
  from assms have "grows s t" "tel_ok s \<Longrightarrow> tel_ok (t\<lparr>callByProviderId := js_set (callByProviderId t) k i\<rparr>)"
    using tel_ok_index [of t i k] by (simp_all add: call_effect_def)
  with assms(1) show ?thesis by (simp add: call_effect_def grows_def)
qed

section \<open>The operations\<close>

lemma effect_createCall: "call_effect s (snd (createCall n p cid s))"
proof -
  have fin: "call_effect s (snd (call (addActivity l act p cid (store_call n c s)) (\<lambda>_ s2. (Inr c, audit_by p cid ty b a r k s2))))"
    if "c = fresh_call n occurred p s" for l act c occurred ty b a r k
    by (rule effect_sequence) (simp_all add: effect_trans [OF effect_store [OF that]] effect_lead_operations effect_audited)
  show ?thesis
    by (auto simp: createCall_def Let_def fin effect_store effect_audited split: option.split sum.split)
qed

lemma createCall_stored:
  assumes "createCall n p cid s = (Inr c, t)" and "tel_ok s"
  shows "js_has (calls t) (cr_id c)"
proof (cases "js_get (callByProviderId s) (tel_key (nc_provider n) (nc_externalId n))")
  case (Some i)
  with assms show ?thesis
    by (auto simp: createCall_def known_call_def js_has_def tel_ok_def split: option.splits)
next
  case None
  have frame: "calls (audit_by p cid ty b a r k u) = calls u" for ty b a r k and u :: "'a telephony_service_scheme"
    by (rule tel_fields_more) simp
  have activity: "calls u = calls v" if "addActivity l act p cid v = (Inr x, u)" for l act x and u v :: "'a telephony_service_scheme"
    using more_addActivity [of l act p cid v] that by (auto dest: tel_fields_more)
  from None assms(1) show ?thesis
    by (auto simp: createCall_def Let_def call_Inr js_has_def frame store_call_def dest!: activity split: sum.splits if_splits)
qed

lemma effect_adapter: "call_effect s (snd (adapter_initiate pr s))"
  by (auto simp: adapter_initiate_def intro!: effect_elsewhere supply_drawn)

lemma effect_place_call: "call_effect s (snd (place_call l pr key comment next_at phone p cid s))"
proof -
  have tail: "call_effect s (snd (call (createCall n p cid s) (\<lambda>c s2.
      (let s3 = s2\<lparr>callByProviderId := js_set (callByProviderId s2) k (cr_id c)\<rparr>
       in if b then call (addActivity l act p cid s3) (\<lambda>_ s4. (Inr c, s4)) else (Inr c, s3)))))"
    for n k b act and s :: "'a telephony_service_scheme"
  proof -
    obtain r t where run: "createCall n p cid s = (r, t)" by fastforce
    have one: "call_effect s t" using effect_createCall [of s n p cid] run by simp
    show ?thesis
    proof (cases r)
      case (Inr c)
      have "tel_ok s \<Longrightarrow> js_has (calls t) (cr_id c)" using createCall_stored run Inr by blast
      note two = effect_index [OF one this, of k]
      have "call_effect s (snd (call (addActivity l act p cid (t\<lparr>callByProviderId := js_set (callByProviderId t) k (cr_id c)\<rparr>)) (\<lambda>_ s4. (Inr c, s4))))"
        by (rule effect_sequence) (simp_all add: effect_trans [OF two] effect_lead_operations)
      with run Inr two show ?thesis by (simp add: Let_def)
    qed (use run one in simp)
  qed
  show ?thesis unfolding place_call_def by (rule effect_sequence [OF effect_adapter]) (rule tail)
qed

lemma effect_initiate: "call_effect s (snd (initiate l key comment next_at p cid s))"
  unfolding initiate_def by (intro effect_rules effect_sequence [OF effect_scopedLead] effect_place_call)

lemma effect_ingest: "call_effect s (snd (ingestSyntheticIncoming pil pr ext phone key occ p cid s))"
  unfolding ingestSyntheticIncoming_def Let_def
  by (intro effect_rules effect_sequence [OF effect_lead_operations(3)] effect_createCall)

lemma effect_configure: "call_effect s (snd (telephony_configure i p cid s))"
  unfolding telephony_configure_def Let_def
  by (intro effect_rules effect_audited effect_config) simp

lemma effect_configureForApi: "call_effect s (snd (telephony_configureForApi ready i p cid s))"
  unfolding telephony_configureForApi_def by (intro effect_rules effect_configure)

lemma updated_moves:
  assumes "st \<in> set (call_transitions (cr_state c))" and "ce_type ev = StateEvent" and "ce_state ev = st" and "ce_callId ev = cr_id c"
    and "(case duration_after c st occurred of None \<Rightarrow> 0 | Some n \<Rightarrow> n) \<le> 14400"
  shows "call_moves c (updated_call c st occurred ev)"
  using assms by (auto simp: call_moves_def updated_call_def Let_def event_moves_def duration_ok_def duration_after_def split: option.splits)

lemma stored_id: "tel_ok s \<Longrightarrow> js_get (calls s) k = Some c \<Longrightarrow> cr_id c = k"
  by (simp add: tel_ok_def)

lemma effect_when_ok: "(tel_ok s \<Longrightarrow> call_effect s t) \<Longrightarrow> grows s t \<Longrightarrow> call_effect s t"
  by (auto simp: call_effect_def)

lemma effect_on_call:
  assumes "\<And>c t. js_get (calls t) i = Some c \<Longrightarrow> call_effect t (snd (k c t))"
  shows "call_effect s (snd (call (requiredCall i p cid s) k))"
  by (rule effect_sequence [OF effect_requiredCall]) (use assms requiredCall_stored in blast)

lemma effect_on_lead:
  assumes "\<And>v t. calls t = calls s \<Longrightarrow> call_effect t (snd (k v t))"
  shows "call_effect s (snd (call (scopedLead i p cid s) k))"
  by (rule effect_sequence [OF effect_scopedLead]) (use assms calls_scopedLead in \<open>metis snd_conv\<close>)

lemma effect_then_activity:
  "call_effect s t \<Longrightarrow> (\<And>a u. call_effect u (snd (k a u))) \<Longrightarrow> call_effect s (snd (call (addActivity l act p cid t) k))"
  by (rule tel.eff_after [where m = "addActivity l act p cid", OF effect_lead_operations(2)])

lemma effect_drawn: "call_effect s (drawn s)"
  by (rule effect_elsewhere) (simp_all add: supply_drawn)

lemma effect_applyEvent:
  assumes "js_get (calls s) k = Some c"
  shows "call_effect s (snd (applyEvent c i p cid volatile s))"
proof -
  have store: "call_effect s ((drawn s)\<lparr>calls := js_set (calls s) (cr_id c) (updated_call c st occurred ev),
      eventReceipts := rs\<rparr>)"
    if "st \<in> set (call_transitions (cr_state c))" and "\<not> (case duration_after c st occurred of None \<Rightarrow> 0 | Some n \<Rightarrow> n) > tc_maxSeconds (tel_config s)"
      and "ev = call_event_of (cr_id c) key StateEvent st occurred actor why s"
    for st occurred ev rs key actor why
  proof (rule effect_when_ok)
    assume "tel_ok s"
    then have stored: "js_get (calls s) (cr_id c) = Some c" using assms stored_id by blast
    from \<open>tel_ok s\<close> that(2) have short: "(case duration_after c st occurred of None \<Rightarrow> 0 | Some n \<Rightarrow> n) \<le> 14400"
      by (simp add: tel_ok_def)
    show "call_effect s ((drawn s)\<lparr>calls := js_set (calls s) (cr_id c) (updated_call c st occurred ev), eventReceipts := rs\<rparr>)"
      by (rule effect_update [OF stored updated_moves [OF that(1) _ _ _ short]]) (simp_all add: that(3) call_event_of_def grows_def)
  qed (simp add: grows_def)
  show ?thesis
    unfolding applyEvent_def Let_def
    by (intro effect_rules effect_then_activity tel.eff_unless effect_audited effect_drawn store) (blast | rule refl)+
qed

lemma effect_receiveEvent: "call_effect s (snd (receiveEvent i inp p cid s))"
  unfolding receiveEvent_def by (intro effect_rules effect_on_call effect_applyEvent)

lemma effect_compensation:
  assumes "js_get (calls s) i = Some c" and "d = c\<lparr>cr_leadId := l, cr_match := m, cr_events := cr_events c @ [ev]\<rparr>"
    and "ev = call_event_of i key CompensationEvent (cr_state c) occurred actor why s" and "truthy (cr_leadId c) \<Longrightarrow> l = cr_leadId c"
  shows "call_effect s (append_compensation d ev s)"
proof (rule effect_when_ok)
  assume "tel_ok s"
  then have id: "cr_id c = i" using assms(1) stored_id by blast
  have "call_moves c d" using assms id by (auto simp: call_moves_def event_moves_def call_event_of_def)
  with assms(1) show "call_effect s (append_compensation d ev s)"
    by (rule effect_update) (simp_all add: append_compensation_def assms(2) id grows_def)
qed (simp add: append_compensation_def grows_def)

lemma effect_compensate: "call_effect s (snd (telephony_compensate i key reason p cid s))"
proof -
  have store: "call_effect t (append_compensation (c\<lparr>cr_events := cr_events c @ [ev]\<rparr>) ev t)"
    if "js_get (calls t) i = Some c" and "ev = call_event_of i k CompensationEvent (cr_state c) occ actor why t"
    for c k occ actor why ev and t :: "'a telephony_service_scheme"
    by (rule effect_compensation [where l = "cr_leadId c" and m = "cr_match c", OF that(1) _ that(2)]) simp_all
  show ?thesis
    unfolding telephony_compensate_def Let_def
    by (intro effect_rules effect_on_call effect_then_activity store) (assumption | rule refl)+
qed

lemma effect_associate: "call_effect s (snd (confirmAssociation i leadId p cid s))"
proof -
  have store: "call_effect t (append_compensation (c\<lparr>cr_leadId := Some leadId, cr_match := Confirmed, cr_events := cr_events c @ [ev]\<rparr>) ev t)"
    if "js_get (calls u) i = Some c" and "calls t = calls u" and "\<not> (truthy (cr_leadId c) \<or> x)"
      and "ev = call_event_of i k CompensationEvent (cr_state c) occ actor why t"
    for c k occ actor why ev x and t u :: "'a telephony_service_scheme"
    by (rule effect_compensation [OF _ _ that(4)]) (use that in simp_all)
  show ?thesis
    unfolding confirmAssociation_def Let_def
    by (intro effect_rules effect_on_call effect_on_lead effect_then_activity effect_audited store) (assumption | rule refl)+
qed

lemma effect_accessible: "call_effect s (snd (accessible_calls cs p s))"
proof (induction cs arbitrary: s)
  case (Cons c cs)
  have "call_effect s (snd (canAccessCall c p s))"
    using effect_scopedLead [of s "opt_text (cr_leadId c)" p "''telephony-queue''"]
    by (auto simp: canAccessCall_def split: prod.split sum.split)
  with Cons.IH effect_trans show ?case by (auto simp: case_prod_unfold)
qed simp

lemma effect_reading:
  "call_effect s (snd (telephony_queue p s))" "call_effect s (snd (telephony_call i p cid s))"
  "call_effect s (snd (callsForLeadForApi l p cid s))" "call_effect s (snd (telephony_recording i p cid s))"
  "call_effect s (snd (telephony_endForApi outcome i p cid s))"
proof -
  show "call_effect s (snd (telephony_queue p s))"
    using effect_accessible [of s "js_values (calls s)" p] by (auto simp: telephony_queue_def split: sum.split prod.split)
  show "call_effect s (snd (telephony_call i p cid s))" by (simp add: telephony_call_def effect_requiredCall)
  show "call_effect s (snd (callsForLeadForApi l p cid s))"
    unfolding callsForLeadForApi_def by (intro effect_rules effect_on_lead)
  show "call_effect s (snd (telephony_recording i p cid s))"
    unfolding telephony_recording_def by (intro effect_rules effect_on_call effect_audited)
  show "call_effect s (snd (telephony_endForApi outcome i p cid s))"
    unfolding telephony_endForApi_def by (intro effect_rules effect_on_call)
qed

section \<open>Destinations\<close>

definition dialable :: "string \<Rightarrow> bool" where
  "dialable v = list_all (\<lambda>c. is_digit c \<or> c = CHR ''+'') v"

lemma dialable_plain:
  assumes "dialable v"
  shows "compact_phone v = v"
proof -
  have c: "\<not> is_space c \<and> c \<notin> set ''().-''" if "is_digit c \<or> c = CHR ''+''" for c
    using that by (auto simp: is_digit_def is_space_def between_def code_def)
  have drop_none: "dropWhile is_space w = w" if "\<forall>x\<in>set w. \<not> is_space x" for w
    using that by (cases w) auto
  have "js_trim v = v" using assms c by (simp add: js_trim_def dialable_def list_all_iff drop_none)
  with assms c show ?thesis by (simp add: compact_phone_def dialable_def list_all_iff filter_id_conv)
qed

lemma moroccan_dialable: "moroccan v \<Longrightarrow> dialable v \<and> \<not> starts_with ''0'' v \<and> \<not> starts_with ''212'' v"
  by (auto simp: moroccan_def dialable_def all_in_def is_digit_def between_def code_def list_all_iff dest!: starts_with_iff [THEN iffD1])

lemma international_dialable: "international_ok v \<Longrightarrow> dialable v"
  by (auto simp: international_ok_def dialable_def all_in_def is_digit_def between_def list_all_iff split: list.splits)

lemma extension_dialable: "all_in is_digit m n v \<Longrightarrow> dialable v"
  by (auto simp: all_in_def dialable_def list_all_iff)

lemma destination_cases:
  assumes "normalizeFreeCallDestination v ty = Inr n"
  obtains "moroccan n" | "international_ok n" | "all_in is_digit 2 7 n"
  using assms by (auto simp: normalizeFreeCallDestination_def Let_def split: option.splits destination_type.splits if_splits)

text \<open>
  What a free call dials is plain: digits with at most one leading \<open>+\<close>, at most sixteen
  characters; and normalising it again, for the same kind of destination, changes nothing.
\<close>

theorem destination_normal_form:
  assumes "normalizeFreeCallDestination v ty = Inr n"
  shows "normalizeFreeCallDestination n ty = Inr n \<and> n \<noteq> [] \<and> length n \<le> 16
     \<and> list_all is_digit (if starts_with ''+'' n then tl n else n)"
proof -
  have shape: "dialable n \<and> n \<noteq> [] \<and> length n \<le> 16 \<and> list_all is_digit (if starts_with ''+'' n then tl n else n)"
    using assms
  proof (cases rule: destination_cases)
    case 1
    then show ?thesis using moroccan_dialable [OF 1]
      by (auto simp: moroccan_def all_in_def is_digit_def between_def code_def dest!: starts_with_iff [THEN iffD1])
  next
    case 2
    then show ?thesis using international_dialable [OF 2]
      by (auto simp: international_ok_def all_in_def is_digit_def between_def list_all_iff split: list.splits)
  next
    case 3
    then show ?thesis using extension_dialable [OF 3]
      by (cases n) (auto simp: all_in_def is_digit_def between_def code_def)
  qed
  have "normalizeFreeCallDestination n ty = Inr n"
    using assms dialable_plain [of n] shape moroccan_dialable
    by (auto simp: normalizeFreeCallDestination_def Let_def split: option.splits destination_type.splits if_splits)
  with shape show ?thesis by blast
qed

theorem destination_normal_form_witness:
  "normalizeFreeCallDestination '' 06 12-34.56 78 '' None = Inr ''+212612345678''
     \<and> normalizeFreeCallDestination ''+212612345678'' None = Inr ''+212612345678''"
proof -
  have run: "normalizeFreeCallDestination '' 06 12-34.56 78 '' None = Inr ''+212612345678''" by code_simp
  from destination_normal_form [OF this] run show ?thesis by blast
qed

section \<open>Runs\<close>

text \<open>
  Any operation of the telephony, and any operation of another service: those leave the tables of
  the calls alone and draw identifiers from the same supply.
\<close>

inductive tel_step :: "'a telephony_service_scheme \<Rightarrow> 'a telephony_service_scheme \<Rightarrow> bool" where
  configure: "tel_step s (snd (telephony_configure i p cid s))"
| configure_api: "tel_step s (snd (telephony_configureForApi ready i p cid s))"
| initiate: "tel_step s (snd (initiate l key comment next_at p cid s))"
| ingest: "tel_step s (snd (ingestSyntheticIncoming pil pr ext phone key occ p cid s))"
| receive: "tel_step s (snd (receiveEvent i inp p cid s))"
| compensate: "tel_step s (snd (telephony_compensate i key reason p cid s))"
| associate: "tel_step s (snd (confirmAssociation i l p cid s))"
| queue: "tel_step s (snd (telephony_queue p s))"
| read: "tel_step s (snd (telephony_call i p cid s))"
| of_lead: "tel_step s (snd (callsForLeadForApi l p cid s))"
| recording: "tel_step s (snd (telephony_recording i p cid s))"
| end_call: "tel_step s (snd (telephony_endForApi outcome i p cid s))"
| other: "lead_state.more t = lead_state.more s \<Longrightarrow> grows s t \<Longrightarrow> tel_step s t"

lemmas operation_effects = effect_configure effect_configureForApi effect_initiate effect_ingest effect_receiveEvent
  effect_compensate effect_associate effect_reading effect_elsewhere

lemma step_effect: "tel_step s t \<Longrightarrow> call_effect s t"
  by (induction rule: tel_step.induct) (simp_all add: operation_effects)

lemma run_effect: "tel_step\<^sup>*\<^sup>* s t \<Longrightarrow> call_effect s t"
  by (erule tel.eff_run) (rule step_effect)

definition call_status :: "'a telephony_service_scheme \<Rightarrow> string \<Rightarrow> call_state option" where
  "call_status s k = map_option cr_state (js_get (calls s) k)"

definition call_walks :: "call_state \<Rightarrow> call_state \<Rightarrow> bool" where
  "call_walks a b \<longleftrightarrow> b \<in> set (call_transitions a)"

lemma moves_walk: "call_moves\<^sup>*\<^sup>* c d \<Longrightarrow> call_walks\<^sup>*\<^sup>* (cr_state c) (cr_state d)"
proof (induction rule: rtranclp_induct)
  case (step d e)
  then have "cr_state e = cr_state d \<or> call_walks (cr_state d) (cr_state e)"
    by (auto simp: call_moves_def event_moves_def call_walks_def split: if_splits)
  with step.IH show ?case by auto
qed simp

interpretation call_life: lifecycle call_status call_walks final_call tel_step tel_ok
proof (unfold_locales, goal_cases)
  case (1 s t)
  then show ?case using step_effect unfolding call_effect_def by blast
next
  case (2 s t k a)
  then obtain c where c: "js_get (calls s) k = Some c" "cr_state c = a" by (auto simp: call_status_def)
  from 2 step_effect have "call_effect s t" by blast
  with 2(1) c(1) obtain d where "js_get (calls t) k = Some d" "call_moves\<^sup>*\<^sup>* c d" unfolding call_effect_def by blast
  with c(2) moves_walk show ?case by (auto simp: call_status_def)
next
  case (3 a b)
  then show ?case by (auto simp: final_call_def call_walks_def)
qed

lemma moves_settle:
  "call_moves\<^sup>*\<^sup>* c d \<Longrightarrow> (\<exists>evs. cr_events d = cr_events c @ evs) \<and> (truthy (cr_leadId c) \<longrightarrow> cr_leadId d = cr_leadId c)
     \<and> cr_fingerprint d = cr_fingerprint c \<and> cr_createdBy d = cr_createdBy c"
  by (induction rule: rtranclp_induct) (auto simp: call_moves_def)

section \<open>Properties\<close>

text \<open>
  C9: Whatever the operations, the log of every call starts with a request, its state events follow
  the table of transitions one after the other, corrections repeat the state, and the state of the
  call is the one its log ends on.
\<close>

theorem call_log_walks_table:
  assumes "inj (uuid s)" and "calls s = []" and "callByProviderId s = []" and "tc_maxSeconds (tel_config s) \<le> 14400"
    and "tel_step\<^sup>*\<^sup>* s t" and "js_get (calls t) k = Some c"
  shows "\<exists>first rest. cr_events c = first # rest \<and> ce_state first = CallRequested \<and> cr_state c = ce_state (last (cr_events c))
     \<and> successively (\<lambda>a b. if ce_type b = StateEvent then ce_state b \<in> set (call_transitions (ce_state a)) else ce_state b = ce_state a)
         (cr_events c)"
proof -
  have "tel_ok s" using assms(1-4) by (simp add: tel_ok_def js_get_def)
  from call_life.run_ok [OF assms(5) this] assms(6) have "call_ok c" by (auto simp: tel_ok_def)
  then show ?thesis by (cases "cr_events c") (auto simp: call_ok_def event_follows_def [abs_def] event_moves_def)
qed

text \<open>
  A call that has ended, failed, been missed or cancelled stays so, whatever is received of it
  later; its log keeps what it has; and once it is associated with a lead it is never moved to another.
\<close>

theorem call_settled:
  assumes "tel_ok s" and "tel_step\<^sup>*\<^sup>* s t" and "js_get (calls s) k = Some c"
  shows "\<exists>d evs. js_get (calls t) k = Some d \<and> cr_events d = cr_events c @ evs \<and> (final_call (cr_state c) \<longrightarrow> cr_state d = cr_state c)
     \<and> (truthy (cr_leadId c) \<longrightarrow> cr_leadId d = cr_leadId c) \<and> cr_fingerprint d = cr_fingerprint c"
proof -
  from run_effect [OF assms(2)] assms obtain d where d: "js_get (calls t) k = Some d" "call_moves\<^sup>*\<^sup>* c d"
    unfolding call_effect_def by blast
  have "final_call (cr_state c) \<Longrightarrow> cr_state d = cr_state c"
    using call_life.final_stays [OF assms(2,1), of k] assms(3) d(1) by (simp add: call_status_def)
  with moves_settle [OF d(2)] d(1) show ?thesis by blast
qed

text \<open>No stored call lasts a negative time or more than four hours, however the threshold is reconfigured meanwhile.\<close>

theorem call_duration_bounded:
  assumes "tel_ok s" and "tel_step\<^sup>*\<^sup>* s t" and "js_get (calls t) k = Some c" and "cr_duration c = Some n"
  shows "0 \<le> n \<and> n \<le> 14400"
proof -
  from call_life.run_ok [OF assms(2,1)] assms(3) have "call_ok c" by (auto simp: tel_ok_def)
  with assms(4) show ?thesis by (simp add: call_ok_def duration_ok_def)
qed

section \<open>Examples\<close>

definition demo_settings :: telephony_configuration where
  "demo_settings = initial_configuration\<lparr>tc_mode := ManualExternalMode, tc_inbound := True\<rparr>"

definition demo_call_record :: call_record where
  "demo_call_record = \<lparr>cr_id = ''id-x'', cr_provider = ManualExternal, cr_externalId = ''e1'', cr_direction = Inbound,
     cr_state = CallMissed, cr_leadId = Some ''id-'', cr_fingerprint = ''#0612345678'', cr_maskedPhone = ''***678'', cr_match = Confirmed,
     cr_requestedAt = 10, cr_answeredAt = None, cr_endedAt = Some 30, cr_duration = Some 20, cr_createdBy = ''m1'',
     cr_dispatch = DispatchAccepted, cr_dispatchUpdatedAt = 10, cr_purposeCode = None, cr_purposeComment = None,
     cr_recording = \<lparr>rm_id = ''r'', rm_state = ''UNAVAILABLE'', rm_duration = None, rm_provider = ManualExternal, rm_roles = manager_roles\<rparr>,
     cr_events = map (\<lambda>(i, k, st). \<lparr>ce_id = i, ce_callId = ''id-x'', ce_key = k, ce_type = StateEvent, ce_state = st, ce_reasonCode = None,
       ce_actorId = Some ''m1'', ce_occurredAt = 10, ce_receivedAt = 10\<rparr>)
       [(''a'', ''key-1'', CallRequested), (''b'', ''key-2'', CallRinging), (''c'', ''key-3'', CallMissed)]\<rparr>"

definition quiet_demo :: telephony_service where
  "quiet_demo = lead_demo CONTACTED (telephony_service_ext demo_settings [] [] [] ())"

definition missed_demo :: telephony_service where
  "missed_demo = lead_demo CONTACTED (telephony_service_ext demo_settings [(''id-x'', demo_call_record)] [(''MANUAL_EXTERNAL:e1'', ''id-x'')] [] ())"

lemma demo_call_settled: "call_ok demo_call_record \<and> final_call (cr_state demo_call_record) \<and> truthy (cr_leadId demo_call_record)"
  by (simp add: call_ok_def demo_call_record_def event_follows_def event_moves_def duration_ok_def final_call_def)

lemma missed_demo_calls: "js_get (calls missed_demo) ''id-x'' = Some demo_call_record"
  by (simp add: missed_demo_def lead_demo_def note_demo_def user_demo_def js_get_def)

lemma missed_demo_ok: "tel_ok missed_demo"
proof -
  have ok: "lead_ok missed_demo" unfolding missed_demo_def by (rule lead_demo_ok)
  have "''id-x'' \<in> issued missed_demo"
    by (auto simp: issued_def missed_demo_def lead_demo_def note_demo_def user_demo_def demo_host_def intro!: image_eqI [of _ _ "1 :: nat"])
  moreover have "call_ok demo_call_record" "cr_id demo_call_record = ''id-x''" using demo_call_settled by (simp_all add: demo_call_record_def)
  moreover have "tc_maxSeconds (tel_config missed_demo) = 7200"
    by (simp add: missed_demo_def lead_demo_def note_demo_def user_demo_def demo_settings_def initial_configuration_def)
  ultimately show ?thesis using ok
    by (auto simp: tel_ok_def lead_ok_def js_get_def js_has_def missed_demo_def lead_demo_def note_demo_def user_demo_def split: if_splits)
qed

abbreviation incoming_demo where
  "incoming_demo \<equiv> ingestSyntheticIncoming False ManualExternal ''e7'' ''06 12 34 56 78'' ''event-key-1'' ''2000'' demo_manager ''c'' quiet_demo"

theorem call_log_walks_table_witness:
  "\<exists>c. js_get (calls (snd incoming_demo)) ''id-xxxxx'' = Some c \<and> cr_state c = ce_state (last (cr_events c)) \<and> cr_match c = Unmatched"
proof -
  have "case js_get (calls (snd incoming_demo)) ''id-xxxxx'' of None \<Rightarrow> False | Some c \<Rightarrow> cr_match c = Unmatched" by code_simp
  then obtain c where c: "js_get (calls (snd incoming_demo)) ''id-xxxxx'' = Some c" "cr_match c = Unmatched" by (auto split: option.splits)
  have "lead_ok quiet_demo" unfolding quiet_demo_def by (rule lead_demo_ok)
  then have "inj (uuid quiet_demo)" by (simp add: lead_ok_def)
  moreover have "calls quiet_demo = []" "callByProviderId quiet_demo = []" "tc_maxSeconds (tel_config quiet_demo) \<le> 14400"
    by (simp_all add: quiet_demo_def lead_demo_def note_demo_def user_demo_def demo_settings_def initial_configuration_def)
  moreover have "tel_step\<^sup>*\<^sup>* quiet_demo (snd incoming_demo)" by (rule r_into_rtranclp) (rule tel_step.ingest)
  ultimately show ?thesis using call_log_walks_table [of quiet_demo "snd incoming_demo", OF _ _ _ _ _ c(1)] c by blast
qed

abbreviation late_demo where
  "late_demo \<equiv> snd (telephony_compensate ''id-x'' (Some ''key-00009'') (Some ''WRONG_TIME'') demo_manager ''c'' missed_demo)"

theorem call_settled_witness:
  "\<exists>d evs. js_get (calls late_demo) ''id-x'' = Some d \<and> cr_events d = cr_events demo_call_record @ evs \<and> cr_state d = CallMissed
     \<and> cr_leadId d = Some ''id-''"
proof -
  have run: "tel_step\<^sup>*\<^sup>* missed_demo late_demo" by (rule r_into_rtranclp) (rule tel_step.compensate)
  have "cr_state demo_call_record = CallMissed" "cr_leadId demo_call_record = Some ''id-''" by (simp_all add: demo_call_record_def)
  with call_settled [OF missed_demo_ok run missed_demo_calls] demo_call_settled show ?thesis by auto
qed

theorem call_duration_bounded_witness: "0 \<le> (20 :: int) \<and> cr_duration demo_call_record = Some 20"
  using call_duration_bounded [OF missed_demo_ok rtranclp.rtrancl_refl missed_demo_calls, of 20] by (simp add: demo_call_record_def)



end
