(* ===== verification/ImportControl.thy ===== *)
theory ImportControl
  imports Host Auth JsText Lifecycle Effects
begin

text \<open>
  What accompanies an import: the review of doubtful lines (\<open>import-review/import-review.service.ts\<close>)
  and the wizard a file goes through (\<open>import-wizard/import-wizard.service.ts\<close>). Both keep their own
  map and use nothing of the other services but the identifiers, the clock, the digest and the
  collation of the host.
\<close>

section \<open>Review: state\<close>

definition REVIEW_REASONS :: "string list" where
  "REVIEW_REASONS = [''IDENTITY_COLLISION'', ''NAME_AMBIGUOUS'', ''STATUS_UNKNOWN'', ''PROGRAM_UNKNOWN'', ''OWNER_UNKNOWN'',
     ''SOURCE_UNKNOWN'', ''LOW_CONFIDENCE_MAPPING'']"

datatype review_decision = ReviewCreate | ReviewAttach | ReviewIgnore

fun review_decision_name :: "review_decision \<Rightarrow> string" where
  "review_decision_name ReviewCreate = ''CREATE''"
| "review_decision_name ReviewAttach = ''ATTACH''"
| "review_decision_name ReviewIgnore = ''IGNORE''"

datatype review_status = ReviewPending | ReviewResolved

record review_item =
  rv_id :: string
  rv_batchId :: string
  rv_lineNumber :: int
  rv_reasons :: "string list"
  rv_candidates :: "string list"
  rv_status :: review_status
  rv_version :: int
  rv_decision :: "review_decision option"
  rv_target :: "string option"
  rv_decidedBy :: "string option"
  rv_decidedAt :: "int option"

record enqueue_review =
  er_batchId :: string
  er_lineNumber :: jsnum
  er_reasons :: "string list"
  er_candidates :: "string list option"

record decide_review =
  dr_decision :: string
  dr_expectedVersion :: jsnum
  dr_idempotencyKey :: string
  dr_target :: "string option"

record review_service = host +
  review_items :: "(string, review_item) js_map"
  review_receipts :: "(string, review_item) js_map"

text \<open>\<open>/^[a-z0-9][a-z0-9_-]{2,79}$/i\<close> and \<open>/^[0-9a-f-]{36}$/i\<close>.\<close>

definition safe_id :: "string \<Rightarrow> bool" where
  "safe_id v = (case v of [] \<Rightarrow> False | c # r \<Rightarrow> is_alnum c \<and> all_in word_dash 2 79 r)"

definition hex_dash :: "char \<Rightarrow> bool" where
  "hex_dash c = (is_digit c \<or> between 97 102 c \<or> between 65 70 c \<or> c = CHR ''-'')"

definition loose_uuid :: "string \<Rightarrow> bool" where
  "loose_uuid v = all_in hex_dash 36 36 v"

section \<open>Review: operations\<close>

definition review_valid :: "enqueue_review \<Rightarrow> string list \<Rightarrow> bool" where
  "review_valid i candidates = (safe_id (er_batchId i) \<and> is_integer (er_lineNumber i) \<and> 1 \<le> num_value (er_lineNumber i)
     \<and> er_reasons i \<noteq> [] \<and> list_all (\<lambda>r. r \<in> set REVIEW_REASONS) (er_reasons i) \<and> distinct (er_reasons i)
     \<and> list_all loose_uuid candidates \<and> distinct candidates)"

definition enqueue :: "enqueue_review \<Rightarrow> principal \<Rightarrow> 'a review_service_scheme \<Rightarrow> review_item result \<times> 'a review_service_scheme" where
  "enqueue i p s =
     (if \<not> is_manager p then (Inl (Forbidden ''import_review_forbidden''), s)
      else (let candidates = (case er_candidates i of None \<Rightarrow> [] | Some cs \<Rightarrow> cs)
        in if \<not> review_valid i candidates then (Inl (BadRequest ''import_review_item_invalid''), s)
           else (let v = \<lparr>rv_id = fresh_uuid s, rv_batchId = er_batchId i, rv_lineNumber = num_value (er_lineNumber i),
                       rv_reasons = sort_by (locale_cmp s) (er_reasons i), rv_candidates = sort_by (locale_cmp s) candidates,
                       rv_status = ReviewPending, rv_version = 1, rv_decision = None, rv_target = None, rv_decidedBy = None,
                       rv_decidedAt = None\<rparr>
                 in (Inr v, (drawn s)\<lparr>review_items := js_set (review_items s) (rv_id v) v\<rparr>))))"

definition review_list :: "principal \<Rightarrow> 'a review_service_scheme \<Rightarrow> review_item list result" where
  "review_list p s =
     (if \<not> is_manager p then Inl (Forbidden ''import_review_forbidden'')
      else Inr (sort_by (\<lambda>a b. rv_lineNumber a - rv_lineNumber b) (js_values (review_items s))))"

definition as_review_decision :: "string \<Rightarrow> review_decision option" where
  "as_review_decision v = find (\<lambda>d. v = review_decision_name d) [ReviewCreate, ReviewAttach, ReviewIgnore]"

definition review_decide ::
  "string \<Rightarrow> decide_review \<Rightarrow> principal \<Rightarrow> 'a review_service_scheme \<Rightarrow> review_item result \<times> 'a review_service_scheme" where
  "review_decide i inp p s =
     (if \<not> is_manager p then (Inl (Forbidden ''import_review_forbidden''), s)
      else (case js_get (review_receipts s) (dr_idempotencyKey inp) of
        Some x \<Rightarrow> (Inr x, s)
      | None \<Rightarrow>
          (case js_get (review_items s) i of
             None \<Rightarrow> (Inl (NotFound ''import_review_not_found''), s)
           | Some v \<Rightarrow>
               (case (if safe_id (dr_idempotencyKey inp) \<and> dr_expectedVersion inp = JInt (rv_version v)
                      then as_review_decision (dr_decision inp) else None) of
                  None \<Rightarrow> (Inl (Conflict ''import_review_decision_conflict''), s)
                | Some d \<Rightarrow>
                    if d = ReviewAttach \<and> (\<not> truthy (dr_target inp) \<or> opt_text (dr_target inp) \<notin> set (rv_candidates v))
                    then (Inl (Forbidden ''import_review_target_forbidden''), s)
                    else if d \<noteq> ReviewAttach \<and> truthy (dr_target inp)
                    then (Inl (BadRequest ''import_review_target_unexpected''), s)
                    else (let v' = v\<lparr>rv_status := ReviewResolved, rv_version := rv_version v + 1, rv_decision := Some d,
                                rv_target := (if truthy (dr_target inp) then dr_target inp else rv_target v),
                                rv_decidedBy := Some (userId p), rv_decidedAt := Some (now s)\<rparr>
                          in (Inr v', s\<lparr>review_items := js_set (review_items s) i v',
                                review_receipts := js_set (review_receipts s) (dr_idempotencyKey inp) v'\<rparr>))))))"

section \<open>Wizard: state\<close>

datatype wizard_step = WizFile | WizSheet | WizProfile | WizMapping | WizPreview | WizQuality | WizAssignment | WizDryRun
  | WizConfirmation | WizReport

definition IMPORT_WIZARD_PROFILES :: "string list" where
  "IMPORT_WIZARD_PROFILES = [''FORMINATOR_ZAPIER'', ''YNOV_MA_LEGACY'', ''YNOV_COM'', ''JOBINTECH'', ''LEGACY_RELAUNCH'',
     ''CUSTOM_CONTROLLED'']"

record wizard_session =
  wz_id :: string
  wz_profile :: string
  wz_fileName :: string
  wz_sha :: string
  wz_step :: wizard_step
  wz_token :: "string option"
  wz_confirmed :: bool

record start_wizard =
  sw_profile :: string
  sw_fileName :: string
  sw_sha :: string

record reconcile_wizard =
  rw_profileId :: string
  rw_sheetName :: string
  rw_mappingId :: string
  rw_mappingVersion :: jsnum
  rw_previewed :: bool
  rw_requiredFieldsValid :: bool
  rw_countersReconciled :: bool
  rw_collisionsResolved :: bool
  rw_assignmentReconciled :: bool
  rw_dryRunMutated :: "bool option"

record wizard_service = host +
  wizard_sessions :: "(string, wizard_session) js_map"

text \<open>
  \<open>/^[a-z0-9][a-z0-9._ -]{0,119}\.(csv|xlsx)$/i\<close>, the digest, and the text the token is made of.
\<close>

definition file_char :: "char \<Rightarrow> bool" where
  "file_char c = (word_dash c \<or> c = CHR ''.'' \<or> c = CHR '' '')"

definition stem_ok :: "string \<Rightarrow> bool" where
  "stem_ok v = (case v of [] \<Rightarrow> False | c # r \<Rightarrow> is_alnum c \<and> all_in file_char 0 119 r)"

definition safe_file :: "string \<Rightarrow> bool" where
  "safe_file v = list_ex (\<lambda>e. length e \<le> length v \<and> js_lower (drop (length v - length e) v) = e \<and> stem_ok (take (length v - length e) v))
     [''.csv'', ''.xlsx'']"

definition sha_ok :: "string \<Rightarrow> bool" where
  "sha_ok v = all_in (\<lambda>c. is_digit c \<or> between 97 102 c) 64 64 v"

definition wizard_token :: "'a host_scheme \<Rightarrow> string \<Rightarrow> string \<Rightarrow> string \<Rightarrow> int \<Rightarrow> string" where
  "wizard_token s i sha m n = sha256hex s (i @ '':'' @ sha @ '':'' @ m @ '':'' @ show_int n)"

section \<open>Wizard: operations\<close>

definition wizard_start ::
  "start_wizard \<Rightarrow> principal \<Rightarrow> 'a wizard_service_scheme \<Rightarrow> wizard_session result \<times> 'a wizard_service_scheme" where
  "wizard_start i p s =
     (if \<not> is_manager p then (Inl (Forbidden ''import_wizard_forbidden''), s)
      else if sw_profile i \<notin> set IMPORT_WIZARD_PROFILES \<or> \<not> safe_file (sw_fileName i) \<or> js_includes ''..'' (sw_fileName i) \<or> \<not> sha_ok (sw_sha i)
      then (Inl (BadRequest ''import_wizard_start_invalid''), s)
      else (let w = \<lparr>wz_id = fresh_uuid s, wz_profile = sw_profile i, wz_fileName = sw_fileName i, wz_sha = sw_sha i, wz_step = WizFile,
                  wz_token = None, wz_confirmed = False\<rparr>
            in (Inr w, (drawn s)\<lparr>wizard_sessions := js_set (wizard_sessions s) (wz_id w) w\<rparr>)))"

definition wizard_required :: "string \<Rightarrow> 'a wizard_service_scheme \<Rightarrow> wizard_session result" where
  "wizard_required i s = (case js_get (wizard_sessions s) i of None \<Rightarrow> Inl (NotFound ''import_wizard_not_found'') | Some w \<Rightarrow> Inr w)"

definition evidence_ok :: "reconcile_wizard \<Rightarrow> bool" where
  "evidence_ok i = (safe_id (rw_profileId i) \<and> js_trim (rw_sheetName i) \<noteq> [] \<and> length (rw_sheetName i) \<le> 120
     \<and> safe_id (rw_mappingId i) \<and> is_integer (rw_mappingVersion i) \<and> 1 \<le> num_value (rw_mappingVersion i)
     \<and> rw_dryRunMutated i = Some False)"

definition wizard_gates :: "reconcile_wizard \<Rightarrow> bool list" where
  "wizard_gates i = [rw_previewed i, rw_requiredFieldsValid i, rw_countersReconciled i, rw_collisionsResolved i, rw_assignmentReconciled i]"

definition wizard_reconcile ::
  "string \<Rightarrow> reconcile_wizard \<Rightarrow> principal \<Rightarrow> 'a wizard_service_scheme \<Rightarrow> wizard_session result \<times> 'a wizard_service_scheme" where
  "wizard_reconcile i inp p s =
     (if \<not> is_manager p then (Inl (Forbidden ''import_wizard_forbidden''), s)
      else (case wizard_required i s of
        Inl e \<Rightarrow> (Inl e, s)
      | Inr w \<Rightarrow>
          if \<not> evidence_ok inp then (Inl (BadRequest ''import_wizard_evidence_invalid''), s)
          else if \<not> list_all id (wizard_gates inp) then (Inl (Conflict ''import_wizard_not_reconciled''), s)
          else (let w' = w\<lparr>wz_step := WizConfirmation,
                      wz_token := Some (wizard_token s (wz_id w) (wz_sha w) (rw_mappingId inp) (num_value (rw_mappingVersion inp)))\<rparr>
                in (Inr w', s\<lparr>wizard_sessions := js_set (wizard_sessions s) i w'\<rparr>))))"

definition wizard_confirm ::
  "string \<Rightarrow> string \<Rightarrow> principal \<Rightarrow> 'a wizard_service_scheme \<Rightarrow> wizard_session result \<times> 'a wizard_service_scheme" where
  "wizard_confirm i tok p s =
     (if \<not> is_manager p then (Inl (Forbidden ''import_wizard_forbidden''), s)
      else (case wizard_required i s of
        Inl e \<Rightarrow> (Inl e, s)
      | Inr w \<Rightarrow>
          if wz_step w \<noteq> WizConfirmation \<or> \<not> truthy (wz_token w) \<or> Some tok \<noteq> wz_token w
          then (Inl (Conflict ''import_wizard_confirmation_refused''), s)
          else (let w' = w\<lparr>wz_step := WizReport, wz_confirmed := True\<rparr>
                in (Inr w', s\<lparr>wizard_sessions := js_set (wizard_sessions s) i w'\<rparr>))))"

definition wizard_get :: "string \<Rightarrow> principal \<Rightarrow> 'a wizard_service_scheme \<Rightarrow> wizard_session result" where
  "wizard_get i p s = (if \<not> is_manager p then Inl (Forbidden ''import_wizard_forbidden'') else wizard_required i s)"

section \<open>The life of a line under review\<close>

definition review_ok :: "'a review_service_scheme \<Rightarrow> bool" where
  "review_ok s \<longleftrightarrow> inj (uuid s) \<and> (\<forall>k v. js_get (review_items s) k = Some v \<longrightarrow> rv_id v = k \<and> k \<in> issued s
     \<and> (rv_status v = ReviewResolved \<longleftrightarrow> rv_decision v \<noteq> None) \<and> 1 \<le> rv_version v \<and> (rv_version v = 1 \<longleftrightarrow> rv_decision v = None)
     \<and> (rv_decision v = Some ReviewAttach \<longrightarrow> opt_text (rv_target v) \<in> set (rv_candidates v)))"

definition review_moves :: "review_item \<Rightarrow> review_item \<Rightarrow> bool" where
  "review_moves v w \<longleftrightarrow> rv_status w = ReviewResolved \<and> rv_version w = rv_version v + 1 \<and> rv_candidates w = rv_candidates v
     \<and> rv_reasons w = rv_reasons v \<and> rv_lineNumber w = rv_lineNumber v \<and> rv_batchId w = rv_batchId v"

definition review_effect :: "'a review_service_scheme \<Rightarrow> 'a review_service_scheme \<Rightarrow> bool" where
  "review_effect s t \<longleftrightarrow> (review_ok s \<longrightarrow> review_ok t
     \<and> (\<forall>k v. js_get (review_items s) k = Some v \<longrightarrow> (\<exists>w. js_get (review_items t) k = Some w \<and> review_moves\<^sup>*\<^sup>* v w)))"

lemma review_effect_trans: "review_effect s t \<Longrightarrow> review_effect t u \<Longrightarrow> review_effect s u"
  unfolding review_effect_def by (meson rtranclp_trans)

interpretation review: effect_order review_effect
proof
  show "review_effect s s" for s :: "'a review_service_scheme" by (auto simp: review_effect_def)
qed (rule review_effect_trans)

lemma review_enqueue: "review_effect s (snd (enqueue i p s))"
proof -
  have store: "review_effect s ((drawn s)\<lparr>review_items := js_set (review_items s) (rv_id v) v\<rparr>)" (is "review_effect s ?t")
    if v: "rv_id v = fresh_uuid s" "rv_status v = ReviewPending" "rv_version v = 1" "rv_decision v = None" for v
  proof -
    have "js_get (review_items s) (rv_id v) = None" if "review_ok s"
      using that v(1) fresh_uuid_not_issued [of s]
      by (cases "js_get (review_items s) (rv_id v)") (auto simp: review_ok_def)
    moreover have "issued ?t = insert (rv_id v) (issued s)" "uuid ?t = uuid s"
      using issued_drawn [of s] v(1) by (simp_all add: issued_def)
    ultimately show ?thesis using v by (auto simp: review_effect_def review_ok_def)
  qed
  show ?thesis
    unfolding enqueue_def Let_def by (intro review.eff_rules) (rule store; simp)
qed

lemma decided_ok:
  assumes "js_get (review_items s) i = Some v" and "review_moves v w" and "rv_id w = rv_id v" and "rv_decision w = Some d"
    and "d = ReviewAttach \<Longrightarrow> opt_text (rv_target w) \<in> set (rv_candidates v)"
  shows "review_effect s (s\<lparr>review_items := js_set (review_items s) i w, review_receipts := rs\<rparr>)" (is "review_effect s ?t")
proof -
  have same: "issued ?t = issued s" "uuid ?t = uuid s" by (simp_all add: issued_def)
  have "review_ok ?t" if ok: "review_ok s"
  proof -
    from ok assms have "rv_id w = i \<and> i \<in> issued ?t \<and> rv_status w = ReviewResolved \<and> 2 \<le> rv_version w
        \<and> (d = ReviewAttach \<longrightarrow> opt_text (rv_target w) \<in> set (rv_candidates w))"
      unfolding same(1) review_ok_def review_moves_def by fastforce
    with ok assms(4) same show ?thesis by (auto simp: review_ok_def split: if_splits)
  qed
  moreover have "\<exists>y. js_get (review_items ?t) k = Some y \<and> review_moves\<^sup>*\<^sup>* x y" if "js_get (review_items s) k = Some x" for k x
    using that assms(1,2) by (cases "k = i") auto
  ultimately show ?thesis unfolding review_effect_def by blast
qed

lemma review_decided: "review_effect s (snd (review_decide i inp p s))"
proof -
  have store: "review_effect s (s\<lparr>review_items := js_set (review_items s) i
       (v\<lparr>rv_status := ReviewResolved, rv_version := rv_version v + 1, rv_decision := Some d,
          rv_target := (if truthy (dr_target inp) then dr_target inp else rv_target v), rv_decidedBy := by, rv_decidedAt := at\<rparr>),
       review_receipts := rs\<rparr>)"
    if "js_get (review_items s) i = Some v"
      and "\<not> (d = ReviewAttach \<and> (\<not> truthy (dr_target inp) \<or> opt_text (dr_target inp) \<notin> set (rv_candidates v)))"
    for v d "by" at rs
    by (rule decided_ok [OF that(1), where d = d]) (use that(2) in \<open>auto simp: review_moves_def\<close>)
  show ?thesis
    unfolding review_decide_def Let_def by (intro review.eff_rules) (rule store; assumption)
qed

inductive review_step :: "'a review_service_scheme \<Rightarrow> 'a review_service_scheme \<Rightarrow> bool" where
  enqueue: "review_step s (snd (enqueue i p s))"
| decide: "review_step s (snd (review_decide i inp p s))"
| time: "review_step s (s\<lparr>now := n\<rparr>)"

lemma review_step_effect: "review_step s t \<Longrightarrow> review_effect s t"
proof (induction rule: review_step.induct)
  case (time s n)
  show ?case by (auto simp: review_effect_def review_ok_def issued_def)
qed (rule review_enqueue, rule review_decided)

lemma review_kept:
  "review_moves\<^sup>*\<^sup>* v w \<Longrightarrow> rv_candidates w = rv_candidates v \<and> rv_reasons w = rv_reasons v \<and> rv_batchId w = rv_batchId v
     \<and> rv_lineNumber w = rv_lineNumber v \<and> rv_version v \<le> rv_version w \<and> (rv_status v = ReviewResolved \<longrightarrow> rv_status w = ReviewResolved)"
  by (induction rule: rtranclp_induct) (auto simp: review_moves_def)

interpretation review_life: lifecycle "\<lambda>s k. map_option rv_status (js_get (review_items s) k)"
  "\<lambda>a b. a = ReviewPending \<and> b = ReviewResolved" "\<lambda>a. a = ReviewResolved" review_step review_ok
proof (unfold_locales, goal_cases)
  case (1 s t)
  then show ?case using review_step_effect unfolding review_effect_def by blast
next
  case (2 s t k a)
  then obtain v where v: "js_get (review_items s) k = Some v" "rv_status v = a" by auto
  from 2 review_step_effect have "review_effect s t" by blast
  with 2(1) v(1) obtain w where w: "js_get (review_items t) k = Some w" "review_moves\<^sup>*\<^sup>* v w" unfolding review_effect_def by blast
  from review_kept [OF w(2)] v(2) show ?case using w(1) by (cases a; cases "rv_status w") auto
qed simp

text \<open>
  C38: From a service that starts empty, whatever is enqueued and decided afterwards: a line stays what it was, with
  its reasons and its candidates; a resolved line stays resolved and its version counts the decisions; and a line
  attached to a lead is attached to one of its own candidates.
\<close>

theorem review_target_among_candidates:
  assumes "inj (uuid s)" and "review_items s = []" and "review_step\<^sup>*\<^sup>* s t" and "js_get (review_items t) k = Some v"
    and "review_step\<^sup>*\<^sup>* t u"
  shows "\<exists>w. js_get (review_items u) k = Some w \<and> rv_lineNumber w = rv_lineNumber v \<and> rv_batchId w = rv_batchId v
     \<and> rv_reasons w = rv_reasons v \<and> rv_candidates w = rv_candidates v \<and> rv_version v \<le> rv_version w
     \<and> (rv_status v = ReviewResolved \<longrightarrow> rv_status w = ReviewResolved)
     \<and> (rv_status w = ReviewResolved \<longleftrightarrow> 1 < rv_version w)
     \<and> (rv_decision w = Some ReviewAttach \<longrightarrow> opt_text (rv_target w) \<in> set (rv_candidates v))"
proof -
  have "review_ok s" using assms(1,2) by (simp add: review_ok_def)
  with review_life.run_ok [OF assms(3)] have ok: "review_ok t" by blast
  with review.eff_run [OF assms(5) review_step_effect] assms(4) obtain w
    where w: "js_get (review_items u) k = Some w" "review_moves\<^sup>*\<^sup>* v w" and "review_ok u"
    unfolding review_effect_def by blast
  then have "(rv_status w = ReviewResolved \<longleftrightarrow> 1 < rv_version w)
      \<and> (rv_decision w = Some ReviewAttach \<longrightarrow> opt_text (rv_target w) \<in> set (rv_candidates w))"
    unfolding review_ok_def by fastforce
  with w review_kept [OF w(2)] show ?thesis by simp
qed

section \<open>The life of a session of the wizard\<close>

definition session_ok :: "'a wizard_service_scheme \<Rightarrow> string \<Rightarrow> wizard_session \<Rightarrow> bool" where
  "session_ok s k w \<longleftrightarrow> wz_id w = k \<and> k \<in> issued s \<and> wz_profile w \<in> set IMPORT_WIZARD_PROFILES \<and> safe_file (wz_fileName w)
     \<and> \<not> js_includes ''..'' (wz_fileName w) \<and> sha_ok (wz_sha w) \<and> wz_step w \<in> {WizFile, WizConfirmation, WizReport}
     \<and> (wz_step w = WizFile \<longrightarrow> \<not> wz_confirmed w) \<and> (wz_step w = WizReport \<longrightarrow> wz_confirmed w)
     \<and> (wz_step w \<noteq> WizFile \<longrightarrow> (\<exists>m n. safe_id m \<and> 1 \<le> n \<and> wz_token w = Some (wizard_token s k (wz_sha w) m n)))"

definition wizard_ok :: "'a wizard_service_scheme \<Rightarrow> bool" where
  "wizard_ok s \<longleftrightarrow> inj (uuid s) \<and> (\<forall>k w. js_get (wizard_sessions s) k = Some w \<longrightarrow> session_ok s k w)"

definition wizard_effect :: "'a wizard_service_scheme \<Rightarrow> 'a wizard_service_scheme \<Rightarrow> bool" where
  "wizard_effect s t \<longleftrightarrow> sha256hex t = sha256hex s \<and> (wizard_ok s \<longrightarrow> wizard_ok t
     \<and> (\<forall>k w. js_get (wizard_sessions s) k = Some w \<longrightarrow> (\<exists>w'. js_get (wizard_sessions t) k = Some w' \<and> wz_sha w' = wz_sha w
          \<and> wz_fileName w' = wz_fileName w \<and> (wz_confirmed w \<longrightarrow> wz_confirmed w'))))"

lemma wizard_effect_trans:
  assumes "wizard_effect s t" and "wizard_effect t u"
  shows "wizard_effect s u"
  using assms unfolding wizard_effect_def by (metis (no_types, lifting))

interpretation wizard: effect_order wizard_effect
proof
  show "wizard_effect s s" for s :: "'a wizard_service_scheme" by (auto simp: wizard_effect_def)
qed (rule wizard_effect_trans)

lemma session_issued: "session_ok s k w \<Longrightarrow> issued s \<subseteq> issued t \<Longrightarrow> sha256hex t = sha256hex s \<Longrightarrow> session_ok t k w"
  by (auto simp: session_ok_def wizard_token_def)

lemma wizard_started: "wizard_effect s (snd (wizard_start i p s))"
proof -
  have store: "wizard_effect s ((drawn s)\<lparr>wizard_sessions := js_set (wizard_sessions s) (wz_id w) w\<rparr>)" (is "wizard_effect s ?t")
    if "wz_id w = fresh_uuid s" and "wz_step w = WizFile" and "\<not> wz_confirmed w" and "wz_profile w \<in> set IMPORT_WIZARD_PROFILES"
      and "safe_file (wz_fileName w)" and "\<not> js_includes ''..'' (wz_fileName w)" and "sha_ok (wz_sha w)" for w
  proof -
    have new: "js_get (wizard_sessions s) (wz_id w) = None" if "wizard_ok s"
      using that \<open>wz_id w = fresh_uuid s\<close> fresh_uuid_not_issued [of s]
      by (cases "js_get (wizard_sessions s) (wz_id w)") (auto simp: wizard_ok_def session_ok_def)
    have grown: "issued ?t = insert (wz_id w) (issued s)" "uuid ?t = uuid s" "sha256hex ?t = sha256hex s"
      using issued_drawn [of s] that(1) by (simp_all add: issued_def)
    have "session_ok ?t (wz_id w) w" using that grown(1) by (simp add: session_ok_def)
    moreover have "session_ok s k x \<Longrightarrow> session_ok ?t k x" for k x
      by (erule session_issued) (use grown in auto)
    ultimately have "wizard_ok s \<Longrightarrow> wizard_ok ?t" using grown(2) by (auto simp: wizard_ok_def split: if_splits)
    moreover have "js_get (wizard_sessions ?t) k = Some x" if "wizard_ok s" "js_get (wizard_sessions s) k = Some x" for k x
      using new [OF that(1)] that(2) by auto
    ultimately show ?thesis using grown(3) unfolding wizard_effect_def by blast
  qed
  show ?thesis
    unfolding wizard_start_def Let_def by (intro wizard.eff_rules) (rule store; simp)
qed

lemma wizard_stored:
  assumes "js_get (wizard_sessions s) i = Some w" and "wizard_ok s \<Longrightarrow> session_ok s i w'" and "wz_sha w' = wz_sha w"
    and "wz_fileName w' = wz_fileName w" and "wz_confirmed w \<longrightarrow> wz_confirmed w'"
  shows "wizard_effect s (s\<lparr>wizard_sessions := js_set (wizard_sessions s) i w'\<rparr>)" (is "wizard_effect s ?t")
proof -
  have same: "issued ?t = issued s" "uuid ?t = uuid s" "sha256hex ?t = sha256hex s" by (simp_all add: issued_def)
  have "session_ok s k x \<Longrightarrow> session_ok ?t k x" for k x using same by (auto intro: session_issued)
  with same assms(2) have "wizard_ok s \<Longrightarrow> wizard_ok ?t" by (auto simp: wizard_ok_def split: if_splits)
  moreover have "\<exists>x'. js_get (wizard_sessions ?t) k = Some x' \<and> wz_sha x' = wz_sha x \<and> wz_fileName x' = wz_fileName x
      \<and> (wz_confirmed x \<longrightarrow> wz_confirmed x')" if "js_get (wizard_sessions s) k = Some x" for k x
    using that assms by (cases "k = i") auto
  ultimately show ?thesis using same(3) unfolding wizard_effect_def by blast
qed

lemma stored_session: "js_get (wizard_sessions s) i = Some w \<Longrightarrow> wizard_ok s \<Longrightarrow> session_ok s i w"
  by (simp add: wizard_ok_def)

lemma wizard_required_get: "wizard_required i s = Inr w \<Longrightarrow> js_get (wizard_sessions s) i = Some w"
  by (simp add: wizard_required_def split: option.splits)

lemma wizard_reconciled: "wizard_effect s (snd (wizard_reconcile i inp p s))"
proof -
  have store: "wizard_effect s (s\<lparr>wizard_sessions := js_set (wizard_sessions s) i (w\<lparr>wz_step := WizConfirmation,
      wz_token := Some (wizard_token s (wz_id w) (wz_sha w) (rw_mappingId inp) (num_value (rw_mappingVersion inp)))\<rparr>)\<rparr>)"
    if "wizard_required i s = Inr w" and "\<not> \<not> evidence_ok inp" for w
  proof (rule wizard_stored [OF wizard_required_get [OF that(1)]])
    assume "wizard_ok s"
    with stored_session wizard_required_get [OF that(1)] have "session_ok s i w" by blast
    with that(2) show "session_ok s i (w\<lparr>wz_step := WizConfirmation,
      wz_token := Some (wizard_token s (wz_id w) (wz_sha w) (rw_mappingId inp) (num_value (rw_mappingVersion inp)))\<rparr>)"
      by (auto simp: session_ok_def evidence_ok_def)
  qed simp_all
  show ?thesis
    unfolding wizard_reconcile_def Let_def by (intro wizard.eff_rules) (rule store; assumption)
qed

lemma wizard_confirmed: "wizard_effect s (snd (wizard_confirm i tok p s))"
proof -
  have store: "wizard_effect s (s\<lparr>wizard_sessions := js_set (wizard_sessions s) i (w\<lparr>wz_step := WizReport, wz_confirmed := True\<rparr>)\<rparr>)"
    if "wizard_required i s = Inr w" and "\<not> (wz_step w \<noteq> WizConfirmation \<or> x)" for w x
    by (rule wizard_stored [OF wizard_required_get [OF that(1)]])
      (use stored_session [OF wizard_required_get [OF that(1)]] that(2) in \<open>auto simp: session_ok_def\<close>)
  show ?thesis
    unfolding wizard_confirm_def Let_def by (intro wizard.eff_rules) (rule store; assumption)
qed

inductive wizard_step_rel :: "'a wizard_service_scheme \<Rightarrow> 'a wizard_service_scheme \<Rightarrow> bool" where
  start: "wizard_step_rel s (snd (wizard_start i p s))"
| reconcile: "wizard_step_rel s (snd (wizard_reconcile i inp p s))"
| confirm: "wizard_step_rel s (snd (wizard_confirm i tok p s))"

lemma wizard_step_effect: "wizard_step_rel s t \<Longrightarrow> wizard_effect s t"
  by (induction rule: wizard_step_rel.induct) (rule wizard_started wizard_reconciled wizard_confirmed)+


section \<open>Examples\<close>

abbreviation control_manager :: principal where
  "control_manager \<equiv> demo_principal ''m1'' [MANAGER]"

definition review_demo :: review_service where
  "review_demo = host.extend demo_host (review_service_ext [] [] ())"

abbreviation candidate_demo :: string where
  "candidate_demo \<equiv> ''00000000-0000-4000-8000-000000000001''"

abbreviation reviewed_demo :: review_service where
  "reviewed_demo \<equiv> snd (enqueue \<lparr>er_batchId = ''batch-1'', er_lineNumber = JInt 4, er_reasons = [''NAME_AMBIGUOUS''],
     er_candidates = Some [candidate_demo]\<rparr> control_manager review_demo)"

abbreviation attached_demo :: review_service where
  "attached_demo \<equiv> snd (review_decide ''id-'' \<lparr>dr_decision = ''ATTACH'', dr_expectedVersion = JInt 1, dr_idempotencyKey = ''key-1'',
     dr_target = Some candidate_demo\<rparr> control_manager reviewed_demo)"

theorem review_target_among_candidates_witness:
  "\<exists>w. js_get (review_items attached_demo) ''id-'' = Some w \<and> rv_candidates w = [candidate_demo]
     \<and> (rv_decision w = Some ReviewAttach \<longrightarrow> opt_text (rv_target w) = candidate_demo)
     \<and> map_option rv_status (js_get (review_items attached_demo) ''id-'') = Some ReviewResolved"
proof -
  have "inj (uuid review_demo)" by (simp add: review_demo_def host.defs demo_host_def inj_def)
  moreover have "review_items review_demo = []" by (simp add: review_demo_def host.defs)
  moreover have "review_step\<^sup>*\<^sup>* review_demo reviewed_demo" by (rule r_into_rtranclp) (rule review_step.enqueue)
  moreover have "map_option rv_candidates (js_get (review_items reviewed_demo) ''id-'') = Some [candidate_demo]" by code_simp
  moreover have "review_step\<^sup>*\<^sup>* reviewed_demo attached_demo" by (rule r_into_rtranclp) (rule review_step.decide)
  moreover have "map_option rv_status (js_get (review_items attached_demo) ''id-'') = Some ReviewResolved" by code_simp
  ultimately show ?thesis using review_target_among_candidates [of review_demo reviewed_demo "''id-''"] by fastforce
qed

definition wizard_demo :: wizard_service where
  "wizard_demo = host.extend demo_host (wizard_service_ext [] ())"

abbreviation file_demo :: string where
  "file_demo \<equiv> replicate 64 CHR ''a''"

definition started_wizard :: wizard_service where
  "started_wizard = snd (wizard_start \<lparr>sw_profile = ''YNOV_COM'', sw_fileName = ''leads.csv'', sw_sha = file_demo\<rparr> control_manager wizard_demo)"

definition reconciled_wizard :: wizard_service where
  "reconciled_wizard = snd (wizard_reconcile ''id-'' \<lparr>rw_profileId = ''pro'', rw_sheetName = ''S'', rw_mappingId = ''map'', rw_mappingVersion = JInt 2,
     rw_previewed = True, rw_requiredFieldsValid = True,
     rw_countersReconciled = True, rw_collisionsResolved = True, rw_assignmentReconciled = True, rw_dryRunMutated = Some False\<rparr> control_manager started_wizard)"

definition confirmed_wizard :: wizard_service where
  "confirmed_wizard = snd (wizard_confirm ''id-'' (''#id-:'' @ file_demo @ '':map:2'') control_manager reconciled_wizard)"

lemma confirmed_wizard_run: "wizard_step_rel\<^sup>*\<^sup>* wizard_demo confirmed_wizard"
proof -
  have "wizard_step_rel\<^sup>*\<^sup>* wizard_demo started_wizard"
    unfolding started_wizard_def by (rule r_into_rtranclp) (rule wizard_step_rel.start)
  also have "wizard_step_rel\<^sup>*\<^sup>* started_wizard reconciled_wizard"
    unfolding reconciled_wizard_def by (rule r_into_rtranclp) (rule wizard_step_rel.reconcile)
  also have "wizard_step_rel\<^sup>*\<^sup>* reconciled_wizard confirmed_wizard"
    unfolding confirmed_wizard_def by (rule r_into_rtranclp) (rule wizard_step_rel.confirm)
  finally show ?thesis .
qed


end
