(* ===== verification/ImportReport.thy ===== *)
theory ImportReport
  imports ImportMapping IngestionLaws ImportControl
begin

text \<open>
  The report of an import: \<open>import-report/import-report.service.ts\<close>. It reads the batches of the
  ingestion and the versions of the mappings, and refuses to be written when the counts of its batch
  do not add up. What is proved composes the three services: the ingestion never stores such a batch.
\<close>

section \<open>State\<close>

text \<open>A request; \<open>cr_text\<close> is its body as \<open>JSON.stringify\<close> prints it, the order of its keys included.\<close>

record create_report =
  cr_jobId :: string
  cr_batchId :: string
  cr_mappingId :: string
  cr_mappingVersion :: jsnum
  cr_sha :: string
  cr_text :: string

record import_rejection =
  rj_lineNumber :: int
  rj_category :: ingestion_outcome
  rj_reasonCode :: string

record import_report =
  xr_id :: string
  xr_jobId :: string
  xr_batchId :: string
  xr_mappingId :: string
  xr_mappingVersion :: int
  xr_sha :: string
  xr_total :: nat
  xr_created :: nat
  xr_updated :: nat
  xr_ignored :: nat
  xr_duplicates :: nat
  xr_errors :: nat
  xr_manualReview :: nat
  xr_invalid :: nat
  xr_rejectionCount :: nat
  xr_createdAt :: int

record report_state = mapping_state +
  import_reports :: "(string, import_report) js_map"
  import_rejections :: "(string, import_rejection list) js_map"
  report_fingerprints :: "(string, string) js_map"

section \<open>Operations\<close>

definition report_uuid :: "string \<Rightarrow> bool" where
  "report_uuid v = (let w = js_lower v; hex = (\<lambda>c. is_digit c \<or> between 97 102 c) in
     length w = 36 \<and> list_all (\<lambda>(n, c). if n \<in> {8, 13, 18, 23} then c = CHR ''-'' else hex c) (enumerate 0 w)
     \<and> between 49 53 (w ! 14) \<and> w ! 19 \<in> {CHR ''8'', CHR ''9'', CHR ''a'', CHR ''b''})"

definition mapping_reference :: "string \<Rightarrow> bool" where
  "mapping_reference v = (starts_with ''mapping-'' v \<and> all_in (\<lambda>c. is_digit c \<or> between 97 102 c) 24 24 (drop 8 v))"

definition report_validate :: "create_report \<Rightarrow> unit result" where
  "report_validate i =
     (if \<not> all_in word_colon 8 128 (cr_jobId i) \<or> \<not> report_uuid (cr_batchId i) \<or> \<not> mapping_reference (cr_mappingId i)
         \<or> \<not> is_integer (cr_mappingVersion i) \<or> num_value (cr_mappingVersion i) < 1 \<or> \<not> sha_ok (cr_sha i)
      then Inl (BadRequest ''import_report_identity_invalid'') else Inr ())"

definition js_slice :: "nat \<Rightarrow> nat \<Rightarrow> string \<Rightarrow> string" where
  "js_slice a b v = take (b - a) (drop a v)"

definition report_id :: "'a host_scheme \<Rightarrow> create_report \<Rightarrow> string" where
  "report_id s i =
     (let hex = sha256hex s (cr_jobId i @ '':'' @ cr_batchId i @ '':'' @ cr_mappingId i @ '':''
            @ show_int (num_value (cr_mappingVersion i)) @ '':'' @ cr_sha i)
      in js_slice 0 8 hex @ ''-'' @ js_slice 8 12 hex @ ''-4'' @ js_slice 13 16 hex @ ''-8'' @ js_slice 17 20 hex @ ''-''
           @ js_slice 20 32 hex)"

text \<open>The lines an import rejected, each with its category and its reason.\<close>

definition rejected_lines :: "ingestion_line list \<Rightarrow> import_rejection list" where
  "rejected_lines ls = concat (map (\<lambda>l. if il_outcome l = MANUAL_REVIEW \<or> il_outcome l = INVALID
     then [\<lparr>rj_lineNumber = il_lineNumber l, rj_category = il_outcome l,
            rj_reasonCode = (case il_reason l of None \<Rightarrow> ''reason_unavailable'' | Some r \<Rightarrow> r)\<rparr>] else []) ls)"

definition report_readers :: "role list" where
  "report_readers = [MANAGER, ADMIN, SUPER_ADMIN, AUDITOR]"

definition report_create ::
  "create_report \<Rightarrow> principal \<Rightarrow> string \<Rightarrow> 'a report_state_scheme \<Rightarrow> import_report result \<times> 'a report_state_scheme" where
  "report_create i p cid s =
     (if \<not> is_manager p then (Inl (Forbidden ''import_report_write_forbidden''), s)
      else (case report_validate i of
        Inl e \<Rightarrow> (Inl e, s)
      | Inr _ \<Rightarrow>
          (let fingerprint = sha256hex s (cr_text i) in
           case js_get (import_reports s) (cr_jobId i) of
             Some x \<Rightarrow> if js_get (report_fingerprints s) (cr_jobId i) \<noteq> Some fingerprint
                       then (Inl (Conflict ''import_report_replay_conflict''), s) else (Inr x, s)
           | None \<Rightarrow>
               (case getBatch (cr_batchId i) s of
                  None \<Rightarrow> (Inl (NotFound ''import_report_batch_not_found''), s)
                | Some b \<Rightarrow>
                    if describeVersion (cr_mappingId i) (num_value (cr_mappingVersion i)) s = None
                    then (Inl (NotFound ''import_report_mapping_not_found''), s)
                    else (let rejected = rejected_lines (ix_lines b); errors = ix_manualReview b + ix_invalid b;
                              x = \<lparr>xr_id = report_id s i, xr_jobId = cr_jobId i, xr_batchId = cr_batchId i, xr_mappingId = cr_mappingId i,
                                   xr_mappingVersion = num_value (cr_mappingVersion i), xr_sha = cr_sha i, xr_total = ix_total b,
                                   xr_created = ix_created b, xr_updated = 0, xr_ignored = 0, xr_duplicates = ix_attached b,
                                   xr_errors = errors, xr_manualReview = ix_manualReview b, xr_invalid = ix_invalid b,
                                   xr_rejectionCount = length rejected, xr_createdAt = now s\<rparr>
                          in if xr_created x + xr_updated x + xr_ignored x + xr_duplicates x + xr_errors x \<noteq> xr_total x
                             then (Inl (Conflict ''import_report_not_reconciled''), s)
                             else (Inr x, audit_by p cid ''LEAD_IMPORT_REPORT_CREATED'' JUndef
                               (JObj [(''reportId'', JStr (xr_id x)), (''jobId'', JStr (xr_jobId x)), (''mappingId'', JStr (xr_mappingId x)),
                                  (''mappingVersion'', JNum (JInt (xr_mappingVersion x))), (''total'', JNat (xr_total x)),
                                  (''created'', JNat (xr_created x)), (''duplicates'', JNat (xr_duplicates x)),
                                  (''errors'', JNat (xr_errors x)), (''reconciled'', JBool True)])
                               SUCCESS (''lead-import-report:'' @ xr_jobId x)
                               (s\<lparr>import_reports := js_set (import_reports s) (cr_jobId i) x,
                                  import_rejections := js_set (import_rejections s) (cr_jobId i) rejected,
                                  report_fingerprints := js_set (report_fingerprints s) (cr_jobId i) fingerprint\<rparr>)))))))"

definition report_get :: "string \<Rightarrow> principal \<Rightarrow> 'a report_state_scheme \<Rightarrow> import_report result" where
  "report_get j p s =
     (if \<not> has_role p report_readers then Inl (Forbidden ''import_report_read_forbidden'')
      else (case js_get (import_reports s) j of None \<Rightarrow> Inl (NotFound ''import_report_not_found'') | Some x \<Rightarrow> Inr x))"

fun category_name :: "ingestion_outcome \<Rightarrow> string" where
  "category_name CREATED = ''CREATED''"
| "category_name PROVENANCE_ATTACHED_LINE = ''PROVENANCE_ATTACHED''"
| "category_name MANUAL_REVIEW = ''MANUAL_REVIEW''"
| "category_name INVALID = ''INVALID''"

text \<open>The lines of the exported text, without their line ends.\<close>

definition export_lines :: "string \<Rightarrow> principal \<Rightarrow> 'a report_state_scheme \<Rightarrow> string list result" where
  "export_lines j p s =
     (case report_get j p s of
        Inl e \<Rightarrow> Inl e
      | Inr _ \<Rightarrow> Inr (''line_number,category,reason_code'' #
          map (\<lambda>r. show_int (rj_lineNumber r) @ '','' @ category_name (rj_category r) @ '','' @ rj_reasonCode r)
            (case js_get (import_rejections s) j of None \<Rightarrow> [] | Some rs \<Rightarrow> rs)))"

definition exportRejections :: "string \<Rightarrow> principal \<Rightarrow> 'a report_state_scheme \<Rightarrow> string result" where
  "exportRejections j p s = map_sum id (\<lambda>ls. concat (map (\<lambda>l. l @ [CHR 10]) ls)) (export_lines j p s)"

section \<open>What a batch leaves alone\<close>

definition leaves :: "'a ingestion_state_scheme \<Rightarrow> 'a ingestion_state_scheme \<Rightarrow> bool" where
  "leaves s t \<longleftrightarrow> ingestion_batches t = ingestion_batches s \<and> ingestion_state.more t = ingestion_state.more s"

interpretation stays: effect_order leaves
  by unfold_locales (simp_all add: leaves_def)

lemma leaves_more: "assignment_state.more t = assignment_state.more s \<Longrightarrow> leaves s t"
  by (cases s; cases t) (simp add: leaves_def)

lemma leaves_keeps: "keeps_identities p s t \<Longrightarrow> leaves s t"
  unfolding keeps_identities_def by (blast intro: leaves_more)

lemma leaves_attach: "leaves s (snd (attachProvenance l r b k p cid s))"
proof -
  have store: "leaves s (s\<lparr>provenanceByExternalId := m, provenances := ps\<rparr>)" for m ps by (simp add: leaves_def)
  have "leaves u (snd (appendIngestionActivity i ty res at p c u))" for i ty res at c u
    by (rule leaves_keeps [OF keeps_append])
  note append = stays.eff_trans [OF store this]
  show ?thesis
    unfolding attachProvenance_def Let_def
    by (intro stays.eff_if stays.eff_pair stays.eff_refl stays.eff_sequence append stays.eff_for_each)
      (auto intro!: leaves_keeps [OF keeps_append] split: prod.split)
qed

lemma leaves_one: "leaves s (snd (ingestOne r b p cid s))"
proof -
  have new: "leaves s (s\<lparr>draws := n, leads := ls\<rparr>)" for n ls by (simp add: leaves_def)
  have registered: "leaves s ((drawn (drawn s))\<lparr>leads := ls\<rparr>)" for ls by (simp add: leaves_def drawn_def)
  note attach = stays.eff_trans [OF registered leaves_attach]
  show ?thesis
    unfolding ingestOne_def Let_def registerLocalLead_def prod.case
    by (auto split: sum.split list.split historical_status.split intro!: stays.eff_sequence leaves_attach attach)
qed

lemma leaves_line: "leaves s (snd (ingest_line b i p cid r s))"
proof -
  have "leaves u (snd (case if c then assignCreated l r b p d u else (False, u) of (a, v) \<Rightarrow>
      (Inr (x, a), v\<lparr>reportingOccurrences := reportingOccurrences v @ [os v a]\<rparr>)))" for c l d u x os
    using leaves_keeps [OF assignCreated_keeps [of p u l r b d]] by (cases c) (auto simp: leaves_def split: prod.split)
  then show ?thesis
    unfolding ingest_line_def Let_def by (intro stays.eff_sequence leaves_one)
qed

lemma audit_stays [simp]:
  "ingestion_batches (audit_by q c ty a k rs key v) = ingestion_batches v"
  "ingestion_state.more (audit_by q c ty a k rs key v) = ingestion_state.more v"
  using leaves_more [of "audit_by q c ty a k rs key v" v] by (simp_all add: leaves_def)

text \<open>The counts of a batch are those of its lines.\<close>

definition batch_accounts :: "ingestion_result \<Rightarrow> bool" where
  "batch_accounts x \<longleftrightarrow> ix_total x = length (ix_lines x) \<and> ix_created x = outcome_count CREATED (ix_lines x)
     \<and> ix_attached x = outcome_count PROVENANCE_ATTACHED_LINE (ix_lines x)
     \<and> ix_manualReview x = outcome_count MANUAL_REVIEW (ix_lines x) \<and> ix_invalid x = outcome_count INVALID (ix_lines x)"

lemma ingest_batches:
  assumes "ingest b p cid s = (r, t)"
  shows "ingestion_state.more t = ingestion_state.more s
    \<and> (ingestion_batches t = ingestion_batches s
       \<or> (\<exists>x. batch_accounts x \<and> ingestion_batches t = js_set (ingestion_batches s) (ib_idempotencyKey b) x))"
proof -
  obtain q u where lines: "for_each (ingest_line b (fresh_uuid s) p cid) (ib_records b) (drawn s) = (q, u)" by fastforce
  have "leaves (drawn s) u" using stays.eff_for_each [of "ingest_line b (fresh_uuid s) p cid" "drawn s" "ib_records b", OF leaves_line] lines by simp
  then have u: "ingestion_batches u = ingestion_batches s" "ingestion_state.more u = ingestion_state.more s"
    by (simp_all add: leaves_def drawn_def)
  show ?thesis
  proof (cases "is_manager p \<and> validateBatch b = Inr () \<and> js_get (ingestion_batches s) (ib_idempotencyKey b) = None")
    case False
    with assms have "t = s" by (auto simp: ingest_def split: if_splits sum.splits option.splits)
    then show ?thesis by simp
  next
    case run: True
    show ?thesis
    proof (cases q)
      case (Inl e)
      with run assms have "t = u" by (simp add: ingest_def Let_def lines)
      with u show ?thesis by simp
    next
      case (Inr las)
      let ?x = "\<lparr>ix_batchId = fresh_uuid s, ix_idempotencyKey = ib_idempotencyKey b, ix_total = length (map fst las),
        ix_created = outcome_count CREATED (map fst las), ix_attached = outcome_count PROVENANCE_ATTACHED_LINE (map fst las),
        ix_manualReview = outcome_count MANUAL_REVIEW (map fst las), ix_invalid = outcome_count INVALID (map fst las),
        ix_assigned = length (filter snd las), ix_unassigned = int (outcome_count CREATED (map fst las)) - int (length (filter snd las)),
        ix_lines = map fst las\<rparr>"
      from run assms Inr have "ingestion_batches t = js_set (ingestion_batches u) (ib_idempotencyKey b) ?x
          \<and> ingestion_state.more t = ingestion_state.more u"
        by (auto simp: ingest_def Let_def lines)
      moreover have "batch_accounts ?x" by (simp add: batch_accounts_def)
      ultimately show ?thesis using u by metis
    qed
  qed
qed

section \<open>Reports that reconcile\<close>

definition report_accounts :: "import_report \<Rightarrow> import_rejection list \<Rightarrow> bool" where
  "report_accounts x rs \<longleftrightarrow> xr_total x = xr_created x + xr_duplicates x + xr_errors x \<and> xr_errors x = xr_manualReview x + xr_invalid x
     \<and> xr_rejectionCount x = xr_errors x \<and> length rs = xr_errors x
     \<and> length (filter (\<lambda>r. rj_category r = MANUAL_REVIEW) rs) = xr_manualReview x
     \<and> length (filter (\<lambda>r. rj_category r = INVALID) rs) = xr_invalid x"

definition reports_ok :: "'a report_state_scheme \<Rightarrow> bool" where
  "reports_ok s \<longleftrightarrow> (\<forall>b\<in>set (js_values (ingestion_batches s)). batch_accounts b)
     \<and> (\<forall>j x. js_get (import_reports s) j = Some x \<longrightarrow> (\<exists>rs. js_get (import_rejections s) j = Some rs \<and> report_accounts x rs))"

definition report_effect :: "'a report_state_scheme \<Rightarrow> 'a report_state_scheme \<Rightarrow> bool" where
  "report_effect s t \<longleftrightarrow> (reports_ok s \<longrightarrow> reports_ok t)
     \<and> (\<forall>j x. js_get (import_reports s) j = Some x \<longrightarrow> js_get (import_reports t) j = Some x
          \<and> js_get (import_rejections t) j = js_get (import_rejections s) j)"

interpretation report: effect_order report_effect
  by unfold_locales (auto simp: report_effect_def)

lemma rejected_counts:
  "length (rejected_lines ls) = outcome_count MANUAL_REVIEW ls + outcome_count INVALID ls"
  "length (filter (\<lambda>r. rj_category r = MANUAL_REVIEW) (rejected_lines ls)) = outcome_count MANUAL_REVIEW ls"
  "length (filter (\<lambda>r. rj_category r = INVALID) (rejected_lines ls)) = outcome_count INVALID ls"
  by (induction ls) (auto simp: rejected_lines_def outcome_count_def)

lemma reports_more: "mapping_state.more t = mapping_state.more s \<Longrightarrow>
    import_reports t = import_reports s \<and> import_rejections t = import_rejections s \<and> report_fingerprints t = report_fingerprints s"
  by (cases s; cases t) simp

lemma mapping_extension: "ingestion_state.more t = ingestion_state.more s \<Longrightarrow> mapping_state.more t = mapping_state.more s"
  by (cases s; cases t) simp

lemma report_elsewhere:
  "ingestion_batches t = ingestion_batches s \<Longrightarrow> mapping_state.more t = mapping_state.more s \<Longrightarrow> report_effect s t"
  using reports_more [of t s] by (simp add: report_effect_def reports_ok_def)

lemma report_audit [simp]: "report_effect s (audit_by q c ty a k rs key s)"
  by (rule report_elsewhere) (simp, rule mapping_extension, simp)

lemma report_ingest: "report_effect s (snd (ingest b p cid s))"
proof -
  obtain r t where run: "ingest b p cid s = (r, t)" by fastforce
  from ingest_batches [OF run] have "\<forall>b\<in>set (js_values (ingestion_batches s)). batch_accounts b \<Longrightarrow>
      \<forall>b\<in>set (js_values (ingestion_batches t)). batch_accounts b"
    using js_values_set_cases by fastforce
  with run reports_more [OF mapping_extension, of t s] ingest_batches [OF run] show ?thesis
    by (simp add: report_effect_def reports_ok_def)
qed

lemma report_save: "report_effect s (snd (mapping_save i p cid s))"
proof -
  have stored: "report_effect s (audit_by q c ty a k rs key (s\<lparr>mappings := ms\<rparr>))" for q c ty a k rs key ms
    by (rule report.eff_trans [OF _ report_audit]) (rule report_elsewhere; simp)
  show ?thesis unfolding mapping_save_def Let_def by (intro report.eff_rules stored)
qed

lemma report_dry: "report_effect s (snd (mapped_dryRun i p cid s))"
  unfolding mapped_dryRun_def dryRun_def recordDryRunAudit_def
  by (intro report.eff_rules report.eff_sequence report_audit)

lemma batch_reconciles: "batch_accounts b \<Longrightarrow> ix_created b + ix_attached b + (ix_manualReview b + ix_invalid b) = ix_total b"
  using outcome_partition [of "ix_lines b"] by (simp add: batch_accounts_def)

lemma getBatch_accounts: "getBatch i s = Some b \<Longrightarrow> reports_ok s \<Longrightarrow> batch_accounts b"
  by (auto simp: getBatch_def reports_ok_def find_Some_iff)

lemma report_written:
  assumes "js_get (import_reports s) j = None" and "reports_ok s \<Longrightarrow> report_accounts x rs"
  shows "report_effect s (audit_by q c ty a k r key
     (s\<lparr>import_reports := js_set (import_reports s) j x, import_rejections := js_set (import_rejections s) j rs,
        report_fingerprints := fs\<rparr>))"
  by (rule report.eff_trans [OF _ report_audit]) (use assms in \<open>auto simp: report_effect_def reports_ok_def\<close>)

lemma report_created: "report_effect s (snd (report_create i p cid s))"
  unfolding report_create_def Let_def
  by (intro report.eff_rules, rule report_written, assumption)
    (auto simp: report_accounts_def rejected_counts batch_accounts_def dest: getBatch_accounts)

inductive report_step :: "'a report_state_scheme \<Rightarrow> 'a report_state_scheme \<Rightarrow> bool" where
  ingest: "report_step s (snd (ingest b p cid s))"
| save: "report_step s (snd (mapping_save i p cid s))"
| dry: "report_step s (snd (mapped_dryRun d p cid s))"
| create: "report_step s (snd (report_create r p cid s))"
| elsewhere: "ingestion_batches t = ingestion_batches s \<Longrightarrow> mapping_state.more t = mapping_state.more s \<Longrightarrow> report_step s t"

lemma report_step_effect: "report_step s t \<Longrightarrow> report_effect s t"
  by (induction rule: report_step.induct) (simp_all add: report_ingest report_save report_dry report_created report_elsewhere)


section \<open>A run\<close>

abbreviation uuid_demo :: string where
  "uuid_demo \<equiv> ''00000000-0000-4000-8000-000000000000''"

abbreviation reference_demo :: string where
  "reference_demo \<equiv> ''mapping-'' @ replicate 24 CHR ''0''"

definition report_demo :: report_state where
  "report_demo = (lead_demo CONTACTED (assignment_state_ext [] [] [] [] [] (ingestion_state_ext [] [] [] []
     (mapping_state_ext [(''custom'', [\<lparr>mt_id = reference_demo, mt_mappingKey = ''custom'', mt_name = ''C'', mt_profile = ''CUSTOM'',
        mt_version = 1, mt_columns = [], mt_builtIn = False, mt_createdAt = ''0'', mt_createdBy = ''m1''\<rparr>])]
       (report_state_ext [] [] [] ())))))\<lparr>uuid := \<lambda>_. uuid_demo\<rparr>"

definition rejected_file :: ingestion_batch where
  "rejected_file = \<lparr>ib_idempotencyKey = ''file-0001'', ib_profile = ''CUSTOM'', ib_confirmed = True, ib_strategy = ''UNASSIGNED'',
     ib_targetUserId = None, ib_records = [(demo_row 7 ''N@y.fr'')\<lparr>ir_source := ''ELSEWHERE''\<rparr>]\<rparr>"

definition demo_request :: create_report where
  "demo_request = \<lparr>cr_jobId = ''job-0001'', cr_batchId = uuid_demo, cr_mappingId = reference_demo, cr_mappingVersion = JInt 1,
     cr_sha = replicate 64 CHR ''a'', cr_text = ''{}''\<rparr>"

definition imported_demo :: report_state where
  "imported_demo = snd (ingest rejected_file demo_manager ''c'' report_demo)"


end
