(* ===== verification/QuickLead.thy ===== *)
theory QuickLead
  imports IngestionLaws Effects
begin

text \<open>
  The quick entry of a prospect on the phone or at the desk: \<open>quick-lead/quick-lead.service.ts\<close>
  without a database. One submission goes through the leads, the provenance and the assignment of
  the other services; what it promises is that a person is entered once.
\<close>

section \<open>State\<close>

record quick_lead_input =
  ql_idempotencyKey :: string
  ql_channel :: string
  ql_firstName :: "string option"
  ql_lastName :: "string option"
  ql_email :: "string option"
  ql_phone :: "string option"
  ql_campus :: "string option"
  ql_campaign :: "string option"
  ql_educationLevel :: "string option"
  ql_program :: "string option"
  ql_nextActionAt :: "string option"
  ql_strategy :: string
  ql_targetUserId :: "string option"

datatype quick_outcome = QuickCreated | QuickExisting

datatype quick_assignment = QuickAssigned | QuickUnassigned | QuickRefused

record quick_result =
  qr_outcome :: quick_outcome
  qr_lead :: "lead option"
  qr_activityType :: string
  qr_provenanceBatchId :: string
  qr_assignmentOutcome :: quick_assignment
  qr_replayed :: bool

record quick_state = ingestion_state +
  quick_receipts :: "(string, quick_result) js_map"

definition TO_COMPLETE :: string where
  "TO_COMPLETE = CHR 0xC0 # '' compl'' @ [e_acute] @ ''ter''"

section \<open>Operations\<close>

definition quick_preview ::
  "string option \<Rightarrow> string option \<Rightarrow> principal \<Rightarrow> 'a quick_state_scheme
     \<Rightarrow> (string \<times> string \<times> matched_by list) list result" where
  "quick_preview email phone p s =
     (if \<not> is_operational p then Inl (Forbidden ''quick_lead_role_forbidden'')
      else if js_blank (opt_text email) \<and> js_blank (opt_text phone) then Inl (BadRequest ''quick_lead_identity_required'')
      else Inr (findIdentityCandidates email phone s))"

definition quick_validate :: "quick_lead_input \<Rightarrow> 'a host_scheme \<Rightarrow> unit result" where
  "quick_validate i s =
     (if \<not> all_in word_colon 8 128 (ql_idempotencyKey i) \<or> ql_channel i \<notin> {''PHONE_CALL'', ''PHYSICAL_VISIT''}
      then Inl (BadRequest ''quick_lead_request_invalid'')
      else if js_blank (opt_text (ql_firstName i)) \<or> js_blank (opt_text (ql_lastName i))
           \<or> (js_blank (opt_text (ql_email i)) \<and> js_blank (opt_text (ql_phone i)))
      then Inl (BadRequest ''quick_lead_identity_required'')
      else if (ql_strategy i = ''FIXED'') \<noteq> truthy (ql_targetUserId i) then Inl (BadRequest ''quick_lead_assignment_invalid'')
      else if truthy (ql_nextActionAt i) \<and> parse_opt s (ql_nextActionAt i) = None
      then Inl (BadRequest ''quick_lead_follow_up_invalid'')
      else Inr ())"

text \<open>\<open>value?.trim() || other\<close>, and a field given only when it is not blank, or not empty.\<close>

definition trimmed_or :: "string option \<Rightarrow> string \<Rightarrow> string option" where
  "trimmed_or v other = Some (if js_blank (opt_text v) then other else js_trim (opt_text v))"

definition unless_blank :: "string option \<Rightarrow> string option" where
  "unless_blank v = (if js_blank (opt_text v) then None else v)"

definition unless_empty :: "string option \<Rightarrow> string option" where
  "unless_empty v = (if truthy v then v else None)"

definition quick_create ::
  "quick_lead_input \<Rightarrow> principal \<Rightarrow> string \<Rightarrow> 'a quick_state_scheme \<Rightarrow> lead result \<times> 'a quick_state_scheme" where
  "quick_create i p cid s =
     call (createLead \<lparr>ci_firstName = ql_firstName i, ci_lastName = ql_lastName i, ci_email = unless_blank (ql_email i),
         ci_phone = unless_blank (ql_phone i), ci_campus = trimmed_or (ql_campus i) TO_COMPLETE,
         ci_campaign = trimmed_or (ql_campaign i) (''MANUAL_'' @ ql_channel i),
         ci_educationLevel = trimmed_or (ql_educationLevel i) TO_COMPLETE, ci_program = trimmed_or (ql_program i) TO_COMPLETE,
         ci_source = Some (ql_channel i), ci_nextActionAt = unless_empty (ql_nextActionAt i), ci_otherKeys = []\<rparr>
       p (cid @ '':create'') s) (\<lambda>x s1. (Inr (fst x), s1))"

definition quick_assign ::
  "lead \<Rightarrow> quick_lead_input \<Rightarrow> principal \<Rightarrow> string \<Rightarrow> 'a quick_state_scheme \<Rightarrow> quick_assignment result \<times> 'a quick_state_scheme" where
  "quick_assign l i p cid s =
     (if ql_strategy i = ''UNASSIGNED'' then (Inr QuickUnassigned, s)
      else if \<not> is_manager p then (Inl (Forbidden ''quick_lead_assignment_role_forbidden''), s)
      else call (assignBatch \<lparr>bi_idempotencyKey = ql_idempotencyKey i @ '':assignment'',
             bi_items = [\<lparr>it_leadId = ld_id l, it_source = ql_channel i, it_campaign = ld_campaign l\<rparr>],
             bi_strategy = ql_strategy i, bi_targetUserId = unless_empty (ql_targetUserId i), bi_confirmed = True\<rparr>
           p (cid @ '':assignment'') s) (\<lambda>x s1.
         (Inr (if length (br_assigned x) = 1 then QuickAssigned else QuickRefused), s1)))"

text \<open>\<open>emailLeadId ?? phoneLeadId\<close>, and whether the two name different leads.\<close>

definition known_person :: "string option \<times> string option \<Rightarrow> string option" where
  "known_person m = (case fst m of None \<Rightarrow> snd m | Some i \<Rightarrow> Some i)"

definition two_persons :: "string option \<times> string option \<Rightarrow> bool" where
  "two_persons m = (truthy (fst m) \<and> truthy (snd m) \<and> fst m \<noteq> snd m)"

text \<open>What a submission does once the lead is known.\<close>

definition quick_finish ::
  "quick_lead_input \<Rightarrow> quick_outcome \<Rightarrow> lead \<Rightarrow> principal \<Rightarrow> string \<Rightarrow> 'a quick_state_scheme \<Rightarrow> quick_result result \<times> 'a quick_state_scheme" where
  "quick_finish i outcome l p cid s1 =
     call (attachOperationalProvenance (ld_id l) (ql_channel i) (ql_idempotencyKey i)
             (unless_blank (ql_campaign i)) p (cid @ '':provenance'') s1) (\<lambda>prov s2.
     call (addActivity (ld_id l) \<lparr>in_type = ql_channel i, in_result = ''COMPLETED'', in_note = None,
             in_nextActionAt = unless_empty (ql_nextActionAt i), in_clearNextAction = False\<rparr>
             p (cid @ '':activity'') s2) (\<lambda>a s3.
     call (if outcome = QuickCreated then quick_assign l i p cid s3 else (Inr QuickUnassigned, s3)) (\<lambda>asg s4.
       (let x = \<lparr>qr_outcome = outcome, qr_lead = findLocalLead (ld_id l) s4, qr_activityType = ql_channel i,
              qr_provenanceBatchId = snd prov, qr_assignmentOutcome = asg, qr_replayed = False\<rparr>
        in (Inr x, s4\<lparr>quick_receipts := js_set (quick_receipts s4) (ql_idempotencyKey i) x\<rparr>)))))"

definition quick_submit ::
  "quick_lead_input \<Rightarrow> principal \<Rightarrow> string \<Rightarrow> 'a quick_state_scheme \<Rightarrow> quick_result result \<times> 'a quick_state_scheme" where
  "quick_submit i p cid s =
     (if \<not> is_operational p then (Inl (Forbidden ''quick_lead_role_forbidden''), s)
      else (case quick_validate i s of
        Inl e \<Rightarrow> (Inl e, s)
      | Inr _ \<Rightarrow>
          (case js_get (quick_receipts s) (ql_idempotencyKey i) of
             Some x \<Rightarrow> (Inr (x\<lparr>qr_replayed := True\<rparr>), s)
           | None \<Rightarrow>
               (let matches = findIdentityMatches (ql_email i) (ql_phone i) s; existing = known_person matches;
                    outcome = (if truthy existing then QuickExisting else QuickCreated)
                in if two_persons matches then (Inl (Conflict ''quick_lead_identity_collision''), s)
                   else call (if truthy existing
                          then (case findLocalLead (opt_text existing) s of
                                  None \<Rightarrow> (Inl (Conflict ''quick_lead_match_unavailable''), s) | Some l \<Rightarrow> (Inr l, s))
                          else quick_create i p cid s) (\<lambda>l s1.
                     quick_finish i outcome l p cid s1)))))"

section \<open>Entering nobody twice\<close>

text \<open>Work on the leads there are: none is added, and none changes its contacts.\<close>

definition same_roll :: "'a lead_state_scheme \<Rightarrow> 'a lead_state_scheme \<Rightarrow> bool" where
  "same_roll s t \<longleftrightarrow> contacts t = contacts s \<and> date_parse t = date_parse s"

interpretation roll: effect_order same_roll
  by unfold_locales (simp_all add: same_roll_def)

definition same_people :: "principal \<Rightarrow> 'a lead_state_scheme \<Rightarrow> 'a lead_state_scheme \<Rightarrow> bool" where
  "same_people p s t \<longleftrightarrow> lead_effect p s t \<and> same_roll s t"

interpretation people: effect_order "same_people p" for p
proof
  show "same_people p s u" if "same_people p s t" "same_people p t u" for s t u :: "'a lead_state_scheme"
    using lead_effect_trans [of p s t u] roll.eff_trans [of s t u] that by (simp add: same_people_def)
qed (simp add: same_people_def)

lemma roll_written [simp]:
  assumes "js_get (leads s) i = Some l" and "ld_id l' = ld_id l" and "ld_email l' = ld_email l" and "ld_phone l' = ld_phone l"
  shows "same_roll s (audit_by q c ty b a r k (s\<lparr>leads := js_set (leads s) i l'\<rparr>))"
    "same_roll s (audit_by q c ty b a r k (add_to_timeline x (drawn (s\<lparr>leads := js_set (leads s) i l'\<rparr>))))"
    "same_roll s (audit_by q c ty b a r k ((add_to_timeline x (drawn s))\<lparr>leads := js_set (leads (add_to_timeline x (drawn s))) i l'\<rparr>))"
proof -
  have "map (\<lambda>(k, l). (k, ld_id l, ld_email l, ld_phone l)) (js_set (leads s) i l') = contacts s"
    unfolding contacts_def by (rule contacts_put [OF assms(1), where f = "\<lambda>l. (ld_id l, ld_email l, ld_phone l)"]) (simp add: assms)
  then show "same_roll s (audit_by q c ty b a r k (s\<lparr>leads := js_set (leads s) i l'\<rparr>))"
    "same_roll s (audit_by q c ty b a r k (add_to_timeline x (drawn (s\<lparr>leads := js_set (leads s) i l'\<rparr>))))"
    "same_roll s (audit_by q c ty b a r k ((add_to_timeline x (drawn s))\<lparr>leads := js_set (leads (add_to_timeline x (drawn s))) i l'\<rparr>))"
    by (simp_all add: contacts_def same_roll_def)
qed

lemma people_changeStatus: "same_people p s (snd (changeStatus i inp p cid s))"
proof -
  have "same_roll s (snd (changeStatus i inp p cid s))"
    unfolding changeStatus_def Let_def by (intro roll.eff_rules) simp_all
  then show ?thesis by (simp add: same_people_def effect_changeStatus)
qed

lemma people_addActivity: "same_people p s (snd (addActivity i inp p cid s))"
proof -
  have contacted: "same_roll s (snd (call (changeStatus i st p cid u) (\<lambda>_ v. (Inr a, v))))" if "same_roll s u" for u st and a :: activity
    by (rule roll.eff_after [where m = "changeStatus i st p cid", OF _ that])
      (use people_changeStatus [of p u i st cid] in \<open>simp_all add: same_people_def\<close>)
  have "same_roll s (snd (addActivity i inp p cid s))"
    unfolding addActivity_def Let_def by (intro roll.eff_rules contacted) ((rule roll_written(3); (assumption | simp))+)
  then show ?thesis by (simp add: same_people_def effect_addActivity)
qed

lemma people_provenance: "same_people p s (snd (attachOperationalProvenance i src key c p cid s))"
proof -
  have attach: "same_people p u (snd (attachProvenance i r b k p cid u))" for r b k and u :: "'a ingestion_state_scheme"
    using attach_adds [of k "(None, None)" p u i r b cid] attach_contacts [of i r b k p cid u]
    unfolding same_people_def same_roll_def line_adds_def by blast
  have "same_people p s (drawn s)" by (simp add: same_people_def same_roll_def contacts_def lead_effect_same)
  then show ?thesis
    unfolding attachOperationalProvenance_def Let_def
    by (intro people.eff_rules people.eff_after) (simp_all add: attach)
qed

lemma people_assign: "same_people p s (snd (quick_assign l i p cid s))"
proof -
  have batch: "same_people p s (snd (assignBatch b p cid' s))" for b cid'
    using keeps_batch [of p s b cid'] by (simp add: keeps_identities_def same_people_def same_roll_def)
  then show ?thesis unfolding quick_assign_def by (intro people.eff_rules people.eff_sequence batch)
qed

lemma js_set_again: "js_set (js_set m k v) k w = js_set m k w"
  by (induction m) (auto simp: js_set_def)

text \<open>A creation adds one person, under the identifier it returns.\<close>

lemma createLead_adds:
  assumes "createLead i p cid s = (Inr x, t)" and "lead_ok s"
  shows "\<exists>c. contacts t = contacts s @ [c] \<and> date_parse t = date_parse s"
    and "js_get (leads t) (ld_id (fst x)) = Some (fst x)"
proof -
  have "js_get (leads s) (fresh_uuid (drawn s)) = None"
    using assms(2) uuid_not_issued [of s "Suc (draws s)"]
    by (cases "js_get (leads s) (fresh_uuid (drawn s))") (auto simp: lead_ok_def fresh_uuid_def)
  with assms(1) show "\<exists>c. contacts t = contacts s @ [c] \<and> date_parse t = date_parse s"
    by (auto simp: createLead_def Let_def registerLocalLead_def blank_lead_def contacts_def js_set_again js_set_fresh split: if_splits)
  from assms(1) show "js_get (leads t) (ld_id (fst x)) = Some (fst x)"
    by (auto simp: createLead_def Let_def registerLocalLead_def blank_lead_def split: if_splits)
qed

lemma people_receipt: "same_people p s (s\<lparr>quick_receipts := rs\<rparr>)"
  by (simp add: same_people_def same_roll_def contacts_def lead_effect_same)

lemma people_finish: "same_people p s (snd (quick_finish i outcome l p cid s))"
  unfolding quick_finish_def Let_def
  by (intro people.eff_sequence people.eff_if people_provenance people_addActivity people_assign people.eff_pair people_receipt
      people.eff_refl)

lemma people_ok: "same_people p s t \<Longrightarrow> lead_ok s \<Longrightarrow> lead_ok t"
  by (simp add: same_people_def lead_effect_def)

lemma people_kept: "same_people p s t \<Longrightarrow> lead_ok s \<Longrightarrow> js_get (leads s) i = Some l \<Longrightarrow> \<exists>l'. js_get (leads t) i = Some l'"
  by (auto simp: same_people_def lead_effect_def)

lemma people_timeline: "same_people p s t \<Longrightarrow> set (activities s) \<subseteq> set (activities t)"
  by (auto simp: same_people_def lead_effect_def)

lemma finish_result:
  assumes "quick_finish i outcome l p cid s = (Inr x, t)" and "lead_ok s"
  shows "\<exists>l' a. qr_lead x = Some l' \<and> js_get (leads t) (ld_id l) = Some l' \<and> a \<in> set (activities t) \<and> ac_leadId a = ld_id l
     \<and> qr_outcome x = outcome \<and> \<not> qr_replayed x \<and> js_get (quick_receipts t) (ql_idempotencyKey i) = Some x"
proof -
  from assms(1) obtain prov s2 a s3 asg s4 where
    prov: "attachOperationalProvenance (ld_id l) (ql_channel i) (ql_idempotencyKey i) (unless_blank (ql_campaign i)) p (cid @ '':provenance'') s
      = (Inr prov, s2)"
    and act: "addActivity (ld_id l) \<lparr>in_type = ql_channel i, in_result = ''COMPLETED'', in_note = None,
             in_nextActionAt = unless_empty (ql_nextActionAt i), in_clearNextAction = False\<rparr> p (cid @ '':activity'') s2 = (Inr a, s3)"
    and asg: "(if outcome = QuickCreated then quick_assign l i p cid s3 else (Inr QuickUnassigned, s3)) = (Inr asg, s4)"
    and x: "x = \<lparr>qr_outcome = outcome, qr_lead = findLocalLead (ld_id l) s4, qr_activityType = ql_channel i,
              qr_provenanceBatchId = snd prov, qr_assignmentOutcome = asg, qr_replayed = False\<rparr>"
      "t = s4\<lparr>quick_receipts := js_set (quick_receipts s4) (ql_idempotencyKey i) x\<rparr>"
    unfolding quick_finish_def Let_def call_Inr by (elim exE conjE) (rule that, assumption, assumption, assumption, auto simp only: prod.inject sum.inject)
  have "lead_ok s2" using people_provenance [of p s] people_ok [OF _ assms(2)] prov by (metis snd_conv)
  moreover from act obtain l2 where "js_get (leads s2) (ld_id l) = Some l2"
    by (auto simp: addActivity_def split: if_splits option.splits)
  moreover have s3: "same_people p s2 s3" using people_addActivity act by (metis snd_conv)
  ultimately obtain l3 where "js_get (leads s3) (ld_id l) = Some l3" and ok: "lead_ok s3" using people_kept people_ok by blast
  moreover have s4: "same_people p s3 s4" using people_assign [of p s3 l i cid] asg by (auto split: if_splits)
  ultimately obtain l4 where "js_get (leads s4) (ld_id l) = Some l4" using people_kept by blast
  moreover from first_contact_moves_on [OF act \<open>js_get (leads s2) (ld_id l) = Some l2\<close>]
  have "a \<in> set (activities s3)" "ac_leadId a = ld_id l" by auto
  ultimately show ?thesis using people_timeline [OF s4] unfolding x by (auto simp: findLocalLead_def)
qed

text \<open>A step that enters at most one person, and nobody when the person is known.\<close>

definition enters :: "bool \<Rightarrow> principal \<Rightarrow> 'a lead_state_scheme \<Rightarrow> 'a lead_state_scheme \<Rightarrow> bool" where
  "enters known p s t \<longleftrightarrow> lead_effect p s t \<and> date_parse t = date_parse s
     \<and> (\<exists>new. contacts t = contacts s @ new \<and> length new \<le> (if known then 0 else 1))"

lemma enters_then: "enters known p s t \<Longrightarrow> same_people p t u \<Longrightarrow> enters known p s u"
  unfolding enters_def same_people_def same_roll_def by (metis lead_effect_trans)

lemma enters_call:
  assumes "enters known p s (snd m)" and "\<And>a t. same_people p t (snd (k a t))"
  shows "enters known p s (snd (call m k))"
proof (cases m)
  case (Pair q t)
  with assms enters_then [of known p s t] show ?thesis by (cases q) simp_all
qed

lemma enters_refl [simp]: "enters known p s s"
  by (simp add: enters_def)

lemma enters_create:
  assumes "lead_ok s"
  shows "enters False p s (snd (quick_create i p cid s))"
proof -
  have "enters False p s (snd (createLead c p d s))" for c d
  proof (cases "fst (createLead c p d s)")
    case (Inl e)
    then have "snd (createLead c p d s) = s" by (auto simp: createLead_def Let_def registerLocalLead_def split: if_splits)
    then show ?thesis by simp
  next
    case (Inr x)
    then have "createLead c p d s = (Inr x, snd (createLead c p d s))" by (cases "createLead c p d s") simp
    from createLead_adds(1) [OF this assms] effect_createLead [of p s c d] show ?thesis by (auto simp: enters_def)
  qed
  then show ?thesis unfolding quick_create_def by (rule enters_call) simp
qed

lemma enters_submit:
  assumes "lead_ok s"
  shows "enters (truthy (known_person (findIdentityMatches (ql_email i) (ql_phone i) s))) p s (snd (quick_submit i p cid s))"
proof -
  let ?known = "known_person (findIdentityMatches (ql_email i) (ql_phone i) s)"
  have "enters (truthy ?known) p s (snd (call (if truthy ?known
      then (case findLocalLead (opt_text ?known) s of None \<Rightarrow> (Inl e, s) | Some l \<Rightarrow> (Inr l, s))
      else quick_create i p cid s) (\<lambda>l s1. quick_finish i out l p cid s1)))" for e out
    by (rule enters_call) (use enters_create [OF assms] in \<open>auto simp: people_finish split: option.split\<close>)
  then show ?thesis unfolding quick_submit_def Let_def by (auto split: sum.split option.split)
qed

text \<open>
  C34: A person is entered once. A submission adds one lead at most, and none to the roll when the address or the
  number is that of a known lead, whether it succeeds or not. A submission that succeeds for the first time says
  which of the two happened, gives the lead as it is stored with an activity recorded on it, and the same
  submission again, by whom it may be, gives the same answer and does nothing.
\<close>

theorem quick_lead_enters_once:
  assumes "lead_ok s" and "quick_submit i p cid s = (r, t)" and "js_get (quick_receipts s) (ql_idempotencyKey i) = None"
  shows "lead_ok t \<and> length (leads t) \<le> length (leads s) + 1
     \<and> (truthy (known_person (findIdentityMatches (ql_email i) (ql_phone i) s)) \<longrightarrow> contacts t = contacts s)
     \<and> (\<forall>x. r = Inr x \<longrightarrow>
          (qr_outcome x = QuickExisting \<longleftrightarrow> truthy (known_person (findIdentityMatches (ql_email i) (ql_phone i) s)))
          \<and> length (leads t) = length (leads s) + (if qr_outcome x = QuickCreated then 1 else 0)
          \<and> (\<exists>l a. qr_lead x = Some l \<and> js_get (leads t) (ld_id l) = Some l \<and> a \<in> set (activities t) \<and> ac_leadId a = ld_id l)
          \<and> (is_operational q \<longrightarrow> quick_submit i q cid' t = (Inr (x\<lparr>qr_replayed := True\<rparr>), t)))"
proof -
  let ?known = "known_person (findIdentityMatches (ql_email i) (ql_phone i) s)"
  let ?out = "if truthy ?known then QuickExisting else QuickCreated"
  have enters: "enters (truthy ?known) p s t" using enters_submit [OF assms(1), of i p cid] assms(2) by simp
  then obtain new where new: "contacts t = contacts s @ new" "length new \<le> (if truthy ?known then 0 else 1)" and ok: "lead_ok t"
    using assms(1) unfolding enters_def lead_effect_def by blast
  then have grown: "length (leads t) = length (leads s) + length new" using length_contacts [of s] length_contacts [of t] by simp
  have "qr_outcome x = ?out \<and> length new = (if truthy ?known then 0 else 1)
      \<and> (\<exists>l a. qr_lead x = Some l \<and> js_get (leads t) (ld_id l) = Some l \<and> a \<in> set (activities t) \<and> ac_leadId a = ld_id l)
      \<and> (is_operational q \<longrightarrow> quick_submit i q cid' t = (Inr (x\<lparr>qr_replayed := True\<rparr>), t))" if r: "r = Inr x" for x
  proof -
    from assms(2,3) r obtain l s1 where first: "(if truthy ?known then (case findLocalLead (opt_text ?known) s of
           None \<Rightarrow> (Inl (Conflict ''quick_lead_match_unavailable''), s) | Some l \<Rightarrow> (Inr l, s)) else quick_create i p cid s) = (Inr l, s1)"
      and rest: "quick_finish i ?out l p cid s1 = (Inr x, t)" and valid: "quick_validate i s = Inr ()"
      unfolding quick_submit_def Let_def by (auto simp: call_Inr split: if_splits sum.splits)
    have kept: "contacts t = contacts s1" using people_finish [of p s1 i ?out l cid] rest by (simp add: same_people_def same_roll_def)
    have "lead_ok s1 \<and> length new = (if truthy ?known then 0 else 1)"
    proof (cases "truthy ?known")
      case True
      with first assms(1) new(2) show ?thesis by (auto split: option.splits)
    next
      case False
      with first obtain y where "createLead \<lparr>ci_firstName = ql_firstName i, ci_lastName = ql_lastName i, ci_email = unless_blank (ql_email i),
         ci_phone = unless_blank (ql_phone i), ci_campus = trimmed_or (ql_campus i) TO_COMPLETE,
         ci_campaign = trimmed_or (ql_campaign i) (''MANUAL_'' @ ql_channel i),
         ci_educationLevel = trimmed_or (ql_educationLevel i) TO_COMPLETE, ci_program = trimmed_or (ql_program i) TO_COMPLETE,
         ci_source = Some (ql_channel i), ci_nextActionAt = unless_empty (ql_nextActionAt i), ci_otherKeys = []\<rparr>
         p (cid @ '':create'') s = (Inr y, s1)" by (auto simp: quick_create_def call_Inr)
      from createLead_adds(1) [OF this assms(1)] effect_createLead [of p s] this new(1) kept False assms(1) show ?thesis
        by (auto simp: lead_effect_def) (metis snd_conv)
    qed
    moreover from this finish_result [OF rest] obtain l' a where fin: "qr_lead x = Some l'" "js_get (leads t) (ld_id l) = Some l'"
        "a \<in> set (activities t)" "ac_leadId a = ld_id l" "qr_outcome x = ?out" "js_get (quick_receipts t) (ql_idempotencyKey i) = Some x"
      by blast
    moreover from fin(2) ok have "ld_id l' = ld_id l" by (simp add: lead_ok_def)
    moreover have "quick_submit i q cid' t = (Inr (x\<lparr>qr_replayed := True\<rparr>), t)" if "is_operational q"
    proof -
      have "date_parse t = date_parse s" using enters by (simp add: enters_def)
      then have "quick_validate i t = quick_validate i s" unfolding quick_validate_def parse_opt_def by (simp only:)
      with valid have "quick_validate i t = Inr ()" by simp
      with that fin(6) show ?thesis by (simp add: quick_submit_def)
    qed
    ultimately show ?thesis by metis
  qed
  with ok grown new show ?thesis by (auto split: if_splits)
qed

section \<open>A run\<close>

definition quick_demo :: quick_state where
  "quick_demo = lead_demo CONTACTED (assignment_state_ext [] [] [] [] [] (ingestion_state_ext [] [] [] [] (quick_state_ext [] ())))"

definition demo_visitor :: quick_lead_input where
  "demo_visitor = \<lparr>ql_idempotencyKey = ''visit-0001'', ql_channel = ''PHYSICAL_VISIT'', ql_firstName = Some ''Ada'', ql_lastName = Some ''L'',
     ql_email = Some ''A@b.fr'', ql_phone = None, ql_campus = None, ql_campaign = None, ql_educationLevel = None, ql_program = None,
     ql_nextActionAt = None, ql_strategy = ''UNASSIGNED'', ql_targetUserId = None\<rparr>"

lemma quick_demo_ok: "lead_ok quick_demo" "js_get (quick_receipts quick_demo) (ql_idempotencyKey demo_visitor) = None"
  unfolding quick_demo_def by (rule lead_demo_ok) (simp add: lead_demo_def note_demo_def user_demo_def demo_host_def js_get_def)

theorem quick_lead_enters_once_witness:
  "case quick_submit demo_visitor demo_adviser ''c'' quick_demo of (r, t) \<Rightarrow>
     length (leads t) = 1 \<and> contacts t = contacts quick_demo \<and> map_sum id qr_outcome r = Inr QuickExisting
     \<and> map_sum id qr_replayed (fst (quick_submit demo_visitor demo_manager ''d'' t)) = Inr True"
proof -
  let ?run = "quick_submit demo_visitor demo_adviser ''c'' quick_demo"
  have "is_ok (fst ?run)" by code_simp
  then obtain x t where run: "?run = (Inr x, t)" by (cases ?run; cases "fst ?run") auto
  have known: "truthy (known_person (findIdentityMatches (ql_email demo_visitor) (ql_phone demo_visitor) quick_demo))"
    and "is_operational demo_manager" by code_simp+
  with quick_lead_enters_once [OF quick_demo_ok(1) run quick_demo_ok(2), of demo_manager "''d''"]
  have "contacts t = contacts quick_demo" "qr_outcome x = QuickExisting" "length (leads t) = length (leads quick_demo)"
    "quick_submit demo_visitor demo_manager ''d'' t = (Inr (x\<lparr>qr_replayed := True\<rparr>), t)"
    by simp_all
  then show ?thesis unfolding run by (simp add: quick_demo_def)
qed

end
