(* ===== verification/Documents.thy ===== *)
theory Documents
  imports LeadViews
begin

text \<open>
  The documents of a candidate: \<open>documents/candidate-document.service.ts\<close> and the local storage it
  writes to, \<open>documents/document-storage.adapter.ts\<close>. A checklist says what a lead must provide; an
  upload passes the checks of the storage and is then verified by a manager. An upload waits for the
  file system in its middle, so it is two operations here, with what it remembers in between.
\<close>

section \<open>Types and states\<close>

datatype document_type = BACCALAUREAT | DIPLOME | RELEVE_NOTES | PIECE_IDENTITE | SITUATION_PROFESSIONNELLE
  | BOURSE_ELIGIBILITE | AUTRE_CONTROLE

fun document_type_name :: "document_type \<Rightarrow> string" where
  "document_type_name BACCALAUREAT = ''BACCALAUREAT''"
| "document_type_name DIPLOME = ''DIPLOME''"
| "document_type_name RELEVE_NOTES = ''RELEVE_NOTES''"
| "document_type_name PIECE_IDENTITE = ''PIECE_IDENTITE''"
| "document_type_name SITUATION_PROFESSIONNELLE = ''SITUATION_PROFESSIONNELLE''"
| "document_type_name BOURSE_ELIGIBILITE = ''BOURSE_ELIGIBILITE''"
| "document_type_name AUTRE_CONTROLE = ''AUTRE_CONTROLE''"

definition documentTypes :: "document_type list" where
  "documentTypes = [BACCALAUREAT, DIPLOME, RELEVE_NOTES, PIECE_IDENTITE, SITUATION_PROFESSIONNELLE, BOURSE_ELIGIBILITE, AUTRE_CONTROLE]"

definition as_document_type :: "string option \<Rightarrow> document_type option" where
  "as_document_type v = find (\<lambda>x. v = Some (document_type_name x)) documentTypes"

datatype document_state = MANQUANT | ATTENDU | RECU | A_VERIFIER | VALIDE | REFUSE_DOC | EXPIRE | REMPLACE

definition E_upper :: char where
  "E_upper = CHR 0xC9"

fun document_state_name :: "document_state \<Rightarrow> string" where
  "document_state_name MANQUANT = ''MANQUANT''"
| "document_state_name ATTENDU = ''ATTENDU''"
| "document_state_name RECU = ''RE'' @ [CHR 0xC7] @ ''U''"
| "document_state_name A_VERIFIER = [CHR 0xC0] @ ''_V'' @ [E_upper] @ ''RIFIER''"
| "document_state_name VALIDE = ''VALID'' @ [E_upper]"
| "document_state_name REFUSE_DOC = ''REFUS'' @ [E_upper]"
| "document_state_name EXPIRE = ''EXPIR'' @ [E_upper]"
| "document_state_name REMPLACE = ''REMPLAC'' @ [E_upper]"

fun transitionRules :: "document_state \<Rightarrow> document_state list" where
  "transitionRules MANQUANT = [ATTENDU, RECU]"
| "transitionRules ATTENDU = [RECU]"
| "transitionRules RECU = [A_VERIFIER]"
| "transitionRules A_VERIFIER = [VALIDE, REFUSE_DOC, EXPIRE]"
| "transitionRules VALIDE = [EXPIRE, REMPLACE]"
| "transitionRules REFUSE_DOC = [REMPLACE]"
| "transitionRules EXPIRE = [REMPLACE]"
| "transitionRules REMPLACE = [RECU]"

definition refusalReasons :: "string list" where
  "refusalReasons = [''ILLISIBLE'', ''INCOMPLET'', ''NON_CONFORME'', document_state_name EXPIRE, ''TYPE_INCORRECT'']"

record checklist_item =
  ck_id :: string
  ck_leadId :: string
  ck_type :: document_type
  ck_requirementCode :: string
  ck_state :: document_state
  ck_version :: int
  ck_createdAt :: int
  ck_updatedAt :: int

record stored_document =
  sd_storageReference :: string
  sd_sanitizedFileName :: string
  sd_extension :: string
  sd_declaredMime :: string
  sd_detectedMime :: string
  sd_byteSize :: nat
  sd_sha :: string

record document =
  dc_id :: string
  dc_leadId :: string
  dc_checklistItemId :: string
  dc_type :: document_type
  dc_stored :: stored_document
  dc_uploadedBy :: string
  dc_receivedAt :: int
  dc_status :: document_state
  dc_verifiedBy :: "string option"
  dc_verifiedAt :: "int option"
  dc_refusalReasonCode :: "string option"
  dc_version :: nat
  dc_replacedDocumentId :: "string option"

record document_event =
  de_id :: string
  de_documentId :: string
  de_eventType :: string
  de_actorId :: string
  de_reasonCode :: "string option"
  de_correlationId :: string
  de_occurredAt :: int

text \<open>An upload between its checks and the end of the write: the values the function holds.\<close>

record pending_upload =
  pu_leadId :: string
  pu_item :: checklist_item
  pu_replaced :: "document option"
  pu_type :: document_type
  pu_stored :: stored_document

text \<open>
  The service, the directory of its storage (the contents by file name) and the two parameters of the
  adapter; the digest of bytes is the runtime's. Bytes are characters, their codes the values.
\<close>

record document_service = lead_state +
  checklists :: "(string, checklist_item list) js_map"
  documents :: "(string, document) js_map"
  document_events :: "document_event list"
  stored_files :: "(string, string) js_map"
  scannerAvailable :: bool
  maxBytes :: nat
  digest_bytes :: "string \<Rightarrow> string"

section \<open>Storage\<close>

text \<open>\<open>Buffer.from(text, 'base64')\<close> of a text that passed \<open>/^[A-Za-z0-9+/]+={0,2}$/\<close>.\<close>

definition base64_char :: "char \<Rightarrow> bool" where
  "base64_char c = (is_alnum c \<or> c = CHR ''+'' \<or> c = CHR ''/'')"

definition base64_shape :: "string \<Rightarrow> bool" where
  "base64_shape v = (let body = takeWhile base64_char v; tail = dropWhile base64_char v
     in body \<noteq> [] \<and> length tail \<le> 2 \<and> list_all (\<lambda>c. c = CHR ''='') tail)"

definition sextet :: "char \<Rightarrow> nat" where
  "sextet c = (if between 65 90 c then code c - 65 else if between 97 122 c then code c - 71
     else if is_digit c then code c + 4 else if c = CHR ''+'' then 62 else 63)"

fun base64_bytes :: "string \<Rightarrow> nat list" where
  "base64_bytes (a # b # c # d # r) = [4 * sextet a + sextet b div 16, 16 * (sextet b mod 16) + sextet c div 4,
     64 * (sextet c mod 4) + sextet d] @ base64_bytes r"
| "base64_bytes [a, b, c] = [4 * sextet a + sextet b div 16, 16 * (sextet b mod 16) + sextet c div 4]"
| "base64_bytes [a, b] = [4 * sextet a + sextet b div 16]"
| "base64_bytes [a] = []"
| "base64_bytes [] = []"

definition base64_content :: "string \<Rightarrow> string" where
  "base64_content v = map char_of (base64_bytes (takeWhile base64_char v))"

text \<open>\<open>extname\<close> of a name without a slash: from the last dot, unless it is the first character.\<close>

definition extname :: "string \<Rightarrow> string" where
  "extname v = (let dot = last_index_of (CHR ''.'') v in if dot < 1 then [] else drop (nat dot) v)"

text \<open>The formats by extension; the ASCII decoding of the runtime drops the high bit of each byte.\<close>

definition ascii :: "string \<Rightarrow> string" where
  "ascii v = map (\<lambda>c. char_of (code c mod 128)) v"

definition document_formats :: "(string \<times> string \<times> (string \<Rightarrow> bool)) list" where
  "document_formats = (let jpeg = (''image/jpeg'', \<lambda>v. starts_with [CHR 0xFF, CHR 0xD8, CHR 0xFF] v) in
     [(''.pdf'', ''application/pdf'', \<lambda>v. ascii (take 5 v) = ''%PDF-''),
      (''.png'', ''image/png'', \<lambda>v. take 8 v = [CHR 0x89, CHR 0x50, CHR 0x4E, CHR 0x47, CHR 0x0D, CHR 0x0A, CHR 0x1A, CHR 0x0A]),
      (''.jpg'', jpeg), (''.jpeg'', jpeg)])"

definition storage_checks :: "string \<Rightarrow> string \<Rightarrow> string \<Rightarrow> 'a document_service_scheme \<Rightarrow> (string \<times> string) result" where
  "storage_checks name mime content s =
     (if \<not> scannerAvailable s then Inl (Unavailable ''document_antivirus_unavailable'')
      else if CHR ''/'' \<in> set name \<or> CHR 0x00 \<in> set name \<or> js_includes ''..'' name then Inl (BadRequest ''document_path_invalid'')
      else if content = [] \<or> maxBytes s < length content then Inl (BadRequest ''document_size_invalid'')
      else (let ext = js_lower (extname name) in
        case map_of document_formats ext of
          None \<Rightarrow> Inl (BadRequest ''document_format_invalid'')
        | Some (m, signature) \<Rightarrow>
            if m \<noteq> js_lower mime \<or> \<not> signature content then Inl (BadRequest ''document_format_invalid'')
            else if js_includes ''EICAR-STANDARD-ANTIVIRUS-TEST-FILE'' (take 2048 content)
            then Inl (BadRequest ''document_malware_suspected'')
            else Inr (ext, m)))"

definition storage_store ::
  "string \<Rightarrow> string \<Rightarrow> string \<Rightarrow> 'a document_service_scheme \<Rightarrow> stored_document result \<times> 'a document_service_scheme" where
  "storage_store name mime content s =
     (case storage_checks name mime content s of
        Inl e \<Rightarrow> (Inl e, s)
      | Inr (ext, m) \<Rightarrow>
          (let file = ''document-'' @ fresh_uuid s @ ext
           in (Inr \<lparr>sd_storageReference = ''temporary://'' @ fresh_uuid s, sd_sanitizedFileName = file, sd_extension = ext,
                    sd_declaredMime = js_lower mime, sd_detectedMime = m, sd_byteSize = length content, sd_sha = digest_bytes s content\<rparr>,
               (drawn s)\<lparr>stored_files := js_set (stored_files s) file content\<rparr>)))"

definition document_cleanup :: "'a document_service_scheme \<Rightarrow> 'a document_service_scheme" where
  "document_cleanup s = s\<lparr>stored_files := []\<rparr>"

section \<open>Access and helpers\<close>

definition document_lead ::
  "string \<Rightarrow> principal \<Rightarrow> string \<Rightarrow> 'a document_service_scheme \<Rightarrow> lead result \<times> 'a document_service_scheme" where
  "document_lead i p cid s =
     call (getLead i p cid s) (\<lambda>v s1.
       if reaches_campus p (ld_campus (lv_lead v)) then (Inr (lv_lead v), s1) else (Inl (NotFound ''lead_not_found''), s1))"

definition checklist_of :: "string \<Rightarrow> 'a document_service_scheme \<Rightarrow> checklist_item list" where
  "checklist_of i s = (case js_get (checklists s) i of None \<Rightarrow> [] | Some items \<Rightarrow> items)"

definition updateChecklist ::
  "string \<Rightarrow> string \<Rightarrow> document_state \<Rightarrow> 'a document_service_scheme \<Rightarrow> unit result \<times> 'a document_service_scheme" where
  "updateChecklist itemId leadId st s =
     (case find (\<lambda>x. ck_id x = itemId) (checklist_of leadId s) of
        None \<Rightarrow> (Inl (Conflict ''document_transition_invalid''), s)
      | Some x \<Rightarrow>
          if st \<notin> set (transitionRules (ck_state x)) then (Inl (Conflict ''document_transition_invalid''), s)
          else (Inr (), s\<lparr>checklists := js_set (checklists s) leadId
                 (map (\<lambda>y. if ck_id y = itemId then y\<lparr>ck_state := st, ck_version := ck_version y + 1, ck_updatedAt := now s\<rparr> else y)
                    (checklist_of leadId s))\<rparr>))"

definition document_event_of ::
  "string \<Rightarrow> string \<Rightarrow> principal \<Rightarrow> string \<Rightarrow> string option \<Rightarrow> 'a document_service_scheme \<Rightarrow> 'a document_service_scheme" where
  "document_event_of i ty p cid reason s = (drawn s)\<lparr>document_events := document_events s @
     [\<lparr>de_id = fresh_uuid s, de_documentId = i, de_eventType = ty, de_actorId = userId p,
       de_reasonCode = (if truthy reason then reason else None), de_correlationId = cid, de_occurredAt = now s\<rparr>]\<rparr>"

definition document_note ::
  "string \<Rightarrow> notification_type \<Rightarrow> notification_priority \<Rightarrow> document \<Rightarrow> string \<Rightarrow> 'a document_service_scheme
     \<Rightarrow> notification result \<times> 'a document_service_scheme" where
  "document_note u ty prio d key s =
     notification_create \<lparr>ni_recipientId = u, ni_type = ty, ni_priority = prio, ni_resourceType = ResDocument, ni_resourceId = dc_id d,
       ni_href = ''/leads/'' @ dc_leadId d @ ''/documents/'' @ dc_id d\<rparr> key s"

section \<open>Checklists\<close>

record document_criteria =
  cri_admissionLevel :: "string option"
  cri_program :: "string option"
  cri_applicationType :: "string option"
  cri_situation :: "string option"
  cri_scholarship :: bool

text \<open>\<open>/master|bac\+[2-5]|dipl/i\<close> and \<open>/salari|emploi|altern/i\<close>.\<close>

definition higher_level :: "string \<Rightarrow> bool" where
  "higher_level v = list_ex (\<lambda>w. js_includes w (js_lower v)) [''master'', ''bac+2'', ''bac+3'', ''bac+4'', ''bac+5'', ''dipl'']"

definition working :: "string \<Rightarrow> bool" where
  "working v = list_ex (\<lambda>w. js_includes w (js_lower v)) [''salari'', ''emploi'', ''altern'']"

definition required_documents :: "document_criteria \<Rightarrow> document_type list" where
  "required_documents c = [BACCALAUREAT, RELEVE_NOTES, PIECE_IDENTITE]
     @ (if higher_level (opt_text (cri_admissionLevel c)) then [DIPLOME] else [])
     @ (if working (opt_text (cri_situation c)) then [SITUATION_PROFESSIONNELLE] else [])
     @ (if cri_scholarship c then [BOURSE_ELIGIBILITE] else [])"

definition checklist_entry :: "string \<Rightarrow> document_criteria \<Rightarrow> 'a host_scheme \<Rightarrow> nat \<times> document_type \<Rightarrow> checklist_item" where
  "checklist_entry leadId c s e = \<lparr>ck_id = uuid s (draws s + fst e), ck_leadId = leadId, ck_type = snd e,
     ck_requirementCode = opt_text (cri_admissionLevel c) @ '':'' @ opt_text (cri_program c) @ '':'' @ opt_text (cri_applicationType c)
       @ '':'' @ opt_text (cri_situation c),
     ck_state = MANQUANT, ck_version = 1, ck_createdAt = now s, ck_updatedAt = now s\<rparr>"

definition generateChecklist ::
  "string \<Rightarrow> document_criteria \<Rightarrow> principal \<Rightarrow> string \<Rightarrow> 'a document_service_scheme
     \<Rightarrow> checklist_item list result \<times> 'a document_service_scheme" where
  "generateChecklist leadId c p cid s =
     call (document_lead leadId p cid s) (\<lambda>l s1.
       if \<not> is_operational p then (Inl (Forbidden ''document_role_forbidden''), s1)
       else if list_ex (\<lambda>v. js_blank (opt_text v)) [cri_admissionLevel c, cri_program c, cri_applicationType c, cri_situation c]
       then (Inl (BadRequest ''document_criteria_invalid''), s1)
       else (case js_get (checklists s1) leadId of
         Some items \<Rightarrow> (Inr items, s1)
       | None \<Rightarrow>
           (let types = sort_by (\<lambda>a b. locale_cmp s1 (document_type_name a) (document_type_name b)) (required_documents c);
                items = map (checklist_entry leadId c s1) (enumerate 0 types);
                s2 = s1\<lparr>draws := draws s1 + length items, checklists := js_set (checklists s1) leadId items\<rparr>
            in (Inr items, audit_by p cid ''DOCUMENT_CHECKLIST_GENERATED'' JUndef
                  (JObj [(''leadId'', JStr (ld_id l)), (''requiredCount'', JNat (length items))]) SUCCESS
                  (''document-checklist:'' @ leadId) s2))))"

definition document_checklist ::
  "string \<Rightarrow> principal \<Rightarrow> 'a document_service_scheme \<Rightarrow> checklist_item list result \<times> 'a document_service_scheme" where
  "document_checklist leadId p s =
     call (document_lead leadId p ''document-checklist-read'' s) (\<lambda>_ s1. (Inr (checklist_of leadId s1), s1))"

section \<open>Uploads\<close>

record upload_input =
  ui_checklistItemId :: "string option"
  ui_documentType :: "string option"
  ui_originalName :: "string option"
  ui_declaredMime :: "string option"
  ui_contentBase64 :: "string option"
  ui_replaces :: "string option"

text \<open>Up to the \<open>await\<close>: the checks, and the write of the file.\<close>

definition upload_begin ::
  "string \<Rightarrow> upload_input \<Rightarrow> principal \<Rightarrow> string \<Rightarrow> 'a document_service_scheme \<Rightarrow> pending_upload result \<times> 'a document_service_scheme" where
  "upload_begin leadId i p cid s =
     call (document_lead leadId p cid s) (\<lambda>_ s1.
       if \<not> is_operational p then (Inl (Forbidden ''document_role_forbidden''), s1)
       else (case (if truthy (ui_originalName i) \<and> truthy (ui_declaredMime i) \<and> truthy (ui_contentBase64 i)
                      \<and> base64_shape (opt_text (ui_contentBase64 i)) then as_document_type (ui_documentType i) else None) of
         None \<Rightarrow> (Inl (BadRequest ''document_upload_invalid''), s1)
       | Some ty \<Rightarrow>
           (case find (\<lambda>x. Some (ck_id x) = ui_checklistItemId i \<and> ck_type x = ty) (checklist_of leadId s1) of
              None \<Rightarrow> (Inl (NotFound ''document_checklist_item_not_found''), s1)
            | Some item \<Rightarrow>
                (let replaced = js_get (documents s1) (opt_text (ui_replaces i)) in
                 if truthy (ui_replaces i) \<and> (case replaced of None \<Rightarrow> True | Some d \<Rightarrow> dc_leadId d \<noteq> leadId \<or> dc_type d \<noteq> ty)
                 then (Inl (NotFound ''document_not_found''), s1)
                 else call (storage_store (opt_text (ui_originalName i)) (opt_text (ui_declaredMime i))
                              (base64_content (opt_text (ui_contentBase64 i))) s1) (\<lambda>st s2.
                   (Inr \<lparr>pu_leadId = leadId, pu_item = item, pu_replaced = replaced, pu_type = ty, pu_stored = st\<rparr>, s2))))))"

text \<open>After it: the record, the replaced document, the checklist and the traces.\<close>

definition uploaded_document :: "pending_upload \<Rightarrow> principal \<Rightarrow> 'a document_service_scheme \<Rightarrow> document" where
  "uploaded_document u p s = \<lparr>dc_id = fresh_uuid s, dc_leadId = pu_leadId u, dc_checklistItemId = ck_id (pu_item u), dc_type = pu_type u,
     dc_stored = pu_stored u, dc_uploadedBy = userId p, dc_receivedAt = now s, dc_status = A_VERIFIER, dc_verifiedBy = None,
     dc_verifiedAt = None, dc_refusalReasonCode = None,
     dc_version = length (filter (\<lambda>d. dc_leadId d = pu_leadId u \<and> dc_type d = pu_type u) (js_values (documents s))) + 1,
     dc_replacedDocumentId = map_option dc_id (pu_replaced u)\<rparr>"

definition upload_replace ::
  "pending_upload \<Rightarrow> principal \<Rightarrow> string \<Rightarrow> 'a document_service_scheme \<Rightarrow> unit result \<times> 'a document_service_scheme" where
  "upload_replace u p cid s =
     (case pu_replaced u of
        None \<Rightarrow> (Inr (), s)
      | Some old \<Rightarrow> call (updateChecklist (ck_id (pu_item u)) (pu_leadId u) REMPLACE s) (\<lambda>_ s1.
          (Inr (), document_event_of (dc_id old) ''DOCUMENT_REPLACED'' p cid None
             (s1\<lparr>documents := js_set (documents s1) (dc_id old) (old\<lparr>dc_status := REMPLACE\<rparr>)\<rparr>))))"

definition upload_end ::
  "pending_upload \<Rightarrow> principal \<Rightarrow> string \<Rightarrow> 'a document_service_scheme \<Rightarrow> document result \<times> 'a document_service_scheme" where
  "upload_end u p cid s =
     (let d = uploaded_document u p s; s1 = (drawn s)\<lparr>documents := js_set (documents s) (dc_id d) d\<rparr>
      in call (upload_replace u p cid s1) (\<lambda>_ s2.
         call (updateChecklist (ck_id (pu_item u)) (pu_leadId u) RECU s2) (\<lambda>_ s3.
         call (updateChecklist (ck_id (pu_item u)) (pu_leadId u) A_VERIFIER s3) (\<lambda>_ s4.
         call (document_note (userId p) DOCUMENT_RECEIVED PrioNormal d (''document-received:'' @ dc_id d @ '':'' @ userId p)
                (document_event_of (dc_id d) (if pu_replaced u = None then ''DOCUMENT_RECEIVED'' else ''DOCUMENT_REPLACEMENT_RECEIVED'')
                   p cid None s4)) (\<lambda>_ s5.
           (Inr d, audit_by p cid ''DOCUMENT_METADATA_RECEIVED'' JUndef
              (JObj [(''documentId'', JStr (dc_id d)), (''leadId'', JStr (dc_leadId d)), (''documentType'', JStr (document_type_name (dc_type d))),
                     (''byteSize'', JNat (sd_byteSize (dc_stored d))), (''version'', JNat (dc_version d))])
              SUCCESS (''document-received:'' @ dc_id d) s5))))))"

definition document_upload ::
  "string \<Rightarrow> upload_input \<Rightarrow> principal \<Rightarrow> string \<Rightarrow> 'a document_service_scheme \<Rightarrow> document result \<times> 'a document_service_scheme" where
  "document_upload leadId i p cid s = call (upload_begin leadId i p cid s) (\<lambda>u s1. upload_end u p cid s1)"

section \<open>Verification and reading\<close>

definition decision_of :: "string option \<Rightarrow> document_state option" where
  "decision_of v = (if v = Some ''VALIDER'' then Some VALIDE else if v = Some ''REFUSER'' then Some REFUSE_DOC else None)"

definition decision_ok :: "document_state \<Rightarrow> string option \<Rightarrow> bool" where
  "decision_ok d reason = (\<not> (d = REFUSE_DOC \<and> opt_text reason \<notin> set refusalReasons) \<and> \<not> (d = VALIDE \<and> truthy reason))"

definition document_verify ::
  "string \<Rightarrow> string option \<Rightarrow> string option \<Rightarrow> principal \<Rightarrow> string \<Rightarrow> 'a document_service_scheme
     \<Rightarrow> document result \<times> 'a document_service_scheme" where
  "document_verify i decision reason p cid s =
     (if \<not> is_manager p then (Inl (Forbidden ''document_verification_forbidden''), s)
      else (case js_get (documents s) i of
        None \<Rightarrow> (Inl (NotFound ''document_not_found''), s)
      | Some d \<Rightarrow> call (document_lead (dc_leadId d) p cid s) (\<lambda>_ s1.
          if dc_status d \<noteq> A_VERIFIER then (Inl (Conflict ''document_transition_invalid''), s1)
          else (case decision_of decision of
            None \<Rightarrow> (Inl (BadRequest ''document_decision_invalid''), s1)
          | Some st \<Rightarrow>
              if \<not> decision_ok st reason then (Inl (BadRequest ''document_decision_invalid''), s1)
              else (let d' = d\<lparr>dc_status := st, dc_verifiedBy := Some (userId p), dc_verifiedAt := Some (now s1),
                          dc_refusalReasonCode := (if st = REFUSE_DOC then reason else dc_refusalReasonCode d)\<rparr>;
                        ty = ''DOCUMENT_'' @ document_state_name st
                    in call (updateChecklist (dc_checklistItemId d) (dc_leadId d) st
                               (s1\<lparr>documents := js_set (documents s1) i d'\<rparr>)) (\<lambda>_ s2.
                       call (document_note (dc_uploadedBy d) (if st = VALIDE then DOCUMENT_VALIDATED else DOCUMENT_REFUSED)
                               (if st = REFUSE_DOC then PrioHigh else PrioNormal) (d\<lparr>dc_id := i\<rparr>)
                               (''document-'' @ document_state_name st @ '':'' @ i @ '':'' @ dc_uploadedBy d)
                               (document_event_of i ty p cid reason s2)) (\<lambda>_ s3.
                         (Inr d', audit_by p cid ty JUndef
                            (JObj [(''documentId'', JStr i), (''leadId'', JStr (dc_leadId d)),
                                   (''reasonCode'', JStr (case reason of None \<Rightarrow> ''NONE'' | Some r \<Rightarrow> r))])
                            SUCCESS (''document-'' @ document_state_name st @ '':'' @ i) s3))))))))"

definition document_detail ::
  "string \<Rightarrow> principal \<Rightarrow> 'a document_service_scheme \<Rightarrow> (document \<times> document_event list) result \<times> 'a document_service_scheme" where
  "document_detail i p s =
     (case js_get (documents s) i of
        None \<Rightarrow> (Inl (NotFound ''document_not_found''), s)
      | Some d \<Rightarrow> call (document_lead (dc_leadId d) p ''document-read'' s) (\<lambda>_ s1.
          (Inr (d, filter (\<lambda>e. de_documentId e = i) (document_events s1)), s1)))"

section \<open>The dashboard\<close>

record document_query =
  dq_page :: jsnum
  dq_pageSize :: jsnum
  dq_state :: "string option"
  dq_documentType :: "string option"
  dq_campus :: "string option"
  dq_assignedToId :: "string option"
  dq_program :: "string option"
  dq_educationLevel :: "string option"
  dq_view :: "string option"

record dashboard_row =
  dr_leadId :: string
  dr_campus :: string
  dr_program :: string
  dr_educationLevel :: string
  dr_assignedToId :: "string option"
  dr_complete :: bool
  dr_missing :: nat
  dr_toVerify :: nat
  dr_refused :: nat
  dr_expired :: nat

record document_dashboard =
  dd_items :: "dashboard_row list"
  dd_page :: int
  dd_pageSize :: int
  dd_total :: nat
  dd_complete :: nat
  dd_incomplete :: nat
  dd_toVerify :: nat
  dd_refused :: nat
  dd_expired :: nat

definition sameValue :: "string option \<Rightarrow> string option \<Rightarrow> bool" where
  "sameValue actual expected = (\<not> truthy expected \<or> map_option js_lower actual = Some (js_lower (js_trim (opt_text expected))))"

definition matchesDashboardState :: "dashboard_row \<Rightarrow> string option \<Rightarrow> bool result" where
  "matchesDashboardState r st =
     (if \<not> truthy st then Inr True
      else (case map_of [(''COMPLET'', dr_complete r), (''INCOMPLET'', \<not> dr_complete r), (document_state_name A_VERIFIER, 0 < dr_toVerify r),
                (document_state_name REFUSE_DOC, 0 < dr_refused r), (document_state_name EXPIRE, 0 < dr_expired r)] (opt_text st) of
        None \<Rightarrow> Inl (BadRequest ''document_state_filter_invalid'') | Some b \<Rightarrow> Inr b))"

definition count_states :: "document_state list \<Rightarrow> checklist_item list \<Rightarrow> nat" where
  "count_states sts items = length (filter (\<lambda>x. ck_state x \<in> set sts) items)"

definition dashboard_row_of :: "string \<Rightarrow> lead \<Rightarrow> checklist_item list \<Rightarrow> dashboard_row" where
  "dashboard_row_of i l items = \<lparr>dr_leadId = i, dr_campus = ld_campus l, dr_program = ld_program l, dr_educationLevel = ld_educationLevel l,
     dr_assignedToId = (if truthy (ld_assignedToId l) then ld_assignedToId l else None),
     dr_complete = list_all (\<lambda>x. ck_state x = VALIDE) items, dr_missing = count_states [MANQUANT, ATTENDU] items,
     dr_toVerify = count_states [RECU, A_VERIFIER] items, dr_refused = count_states [REFUSE_DOC] items,
     dr_expired = count_states [EXPIRE] items\<rparr>"

text \<open>One checklist: a lead out of reach gives no row, whatever the lookup threw.\<close>

definition dashboard_entry ::
  "document_query \<Rightarrow> principal \<Rightarrow> string \<times> checklist_item list \<Rightarrow> 'a document_service_scheme
     \<Rightarrow> dashboard_row list result \<times> 'a document_service_scheme" where
  "dashboard_entry q p e s =
     (case document_lead (fst e) p ''document-dashboard'' s of
        (Inl err, s1) \<Rightarrow> (Inr [], s1)
      | (Inr l, s1) \<Rightarrow>
          (let items = (if truthy (dq_documentType q) then filter (\<lambda>x. Some (document_type_name (ck_type x)) = dq_documentType q) (snd e)
                        else snd e)
           in if (dq_view q = Some ''MINE'' \<and> ld_assignedToId l \<noteq> Some (userId p)
                  \<and> \<not> (case ld_collaboratorIds l of None \<Rightarrow> False | Some cs \<Rightarrow> userId p \<in> set cs))
                \<or> \<not> (sameValue (Some (ld_campus l)) (dq_campus q) \<and> sameValue (ld_assignedToId l) (dq_assignedToId q)
                     \<and> sameValue (Some (ld_program l)) (dq_program q) \<and> sameValue (Some (ld_educationLevel l)) (dq_educationLevel q))
                \<or> items = []
              then (Inr [], s1)
              else (let r = dashboard_row_of (fst e) l items
                    in (map_sum id (\<lambda>b. if b then [r] else []) (matchesDashboardState r (dq_state q)), s1))))"

definition document_dashboard_op ::
  "document_query \<Rightarrow> principal \<Rightarrow> 'a document_service_scheme \<Rightarrow> document_dashboard result \<times> 'a document_service_scheme" where
  "document_dashboard_op q p s =
     (if \<not> is_integer (dq_page q) \<or> num_value (dq_page q) < 1 \<or> \<not> is_integer (dq_pageSize q) \<or> num_value (dq_pageSize q) < 1
         \<or> 100 < num_value (dq_pageSize q)
      then (Inl (BadRequest ''document_pagination_invalid''), s)
      else if \<not> is_manager p \<and> dq_view q \<noteq> Some ''MINE'' then (Inl (Forbidden ''document_dashboard_forbidden''), s)
      else if truthy (dq_documentType q) \<and> as_document_type (dq_documentType q) = None
      then (Inl (BadRequest ''document_type_filter_invalid''), s)
      else if truthy (dq_view q) \<and> opt_text (dq_view q) \<notin> {''MINE'', ''GLOBAL''} then (Inl (BadRequest ''document_view_invalid''), s)
      else call (for_each (dashboard_entry q p) (checklists s) s) (\<lambda>rows s1.
        (let rs = sort_by (\<lambda>a b. locale_cmp s1 (dr_leadId a) (dr_leadId b)) (concat rows);
             complete = length (filter dr_complete rs)
         in (Inr \<lparr>dd_items = page_slice (num_value (dq_page q)) (num_value (dq_pageSize q)) rs, dd_page = num_value (dq_page q),
               dd_pageSize = num_value (dq_pageSize q), dd_total = length rs, dd_complete = complete,
               dd_incomplete = length (filter (\<lambda>r. \<not> dr_complete r) rs), dd_toVerify = sum_list (map dr_toVerify rs),
               dd_refused = sum_list (map dr_refused rs), dd_expired = sum_list (map dr_expired rs)\<rparr>, s1))))"

end
