(* ===== verification/DocumentLaws.thy ===== *)
theory DocumentLaws
  imports Documents LeadRequests Lifecycle Effects
begin

text \<open>
  What the documents promise, uploads interleaved as they may be: a document keeps what was received,
  is decided at most once, with a reason exactly when it is refused, and a replaced one stays replaced;
  the items of a checklist walk the table of transitions.
\<close>

section \<open>The effect of an operation\<close>

definition file_ok :: "nat \<Rightarrow> stored_document \<Rightarrow> bool" where
  "file_ok n x \<longleftrightarrow> 0 < sd_byteSize x \<and> sd_byteSize x \<le> n \<and> sd_detectedMime x = sd_declaredMime x
     \<and> (sd_extension x, sd_detectedMime x) \<in> set (map (\<lambda>f. (fst f, fst (snd f))) document_formats)"

definition document_ok :: "nat \<Rightarrow> document \<Rightarrow> bool" where
  "document_ok n d \<longleftrightarrow> file_ok n (dc_stored d)
     \<and> (dc_status d = A_VERIFIER \<and> dc_verifiedBy d = None \<and> dc_refusalReasonCode d = None
        \<or> dc_status d = VALIDE \<and> dc_verifiedBy d \<noteq> None \<and> dc_refusalReasonCode d = None
        \<or> dc_status d = REFUSE_DOC \<and> dc_verifiedBy d \<noteq> None \<and> opt_text (dc_refusalReasonCode d) \<in> set refusalReasons
        \<or> dc_status d = REMPLACE)"

definition document_moves :: "document \<Rightarrow> document \<Rightarrow> bool" where
  "document_moves d e \<longleftrightarrow> (\<exists>st v n r. e = d\<lparr>dc_status := st, dc_verifiedBy := v, dc_verifiedAt := n, dc_refusalReasonCode := r\<rparr>
     \<and> (dc_status d = A_VERIFIER \<and> st \<in> {VALIDE, REFUSE_DOC} \<or> st = REMPLACE))"

definition item_moves :: "checklist_item \<Rightarrow> checklist_item \<Rightarrow> bool" where
  "item_moves x y \<longleftrightarrow> (\<exists>st n. y = x\<lparr>ck_state := st, ck_version := ck_version x + 1, ck_updatedAt := n\<rparr> \<and> st \<in> set (transitionRules (ck_state x)))"

definition items_ok :: "'a host_scheme \<Rightarrow> string \<Rightarrow> checklist_item list \<Rightarrow> bool" where
  "items_ok s k items \<longleftrightarrow> distinct (map ck_id items) \<and> set (map ck_id items) \<subseteq> issued s \<and> (\<forall>x\<in>set items. ck_leadId x = k)"

definition documents_ok :: "'a document_service_scheme \<Rightarrow> bool" where
  "documents_ok s \<longleftrightarrow> inj (uuid s)
     \<and> (\<forall>k d. js_get (documents s) k = Some d \<longrightarrow> dc_id d = k \<and> k \<in> issued s \<and> document_ok (maxBytes s) d)
     \<and> (\<forall>k items. js_get (checklists s) k = Some items \<longrightarrow> items_ok s k items)"

definition documents_effect :: "'a document_service_scheme \<Rightarrow> 'a document_service_scheme \<Rightarrow> bool" where
  "documents_effect s t \<longleftrightarrow> (documents_ok s \<longrightarrow> documents_ok t \<and> grows s t \<and> maxBytes t = maxBytes s
     \<and> (\<forall>k d. js_get (documents s) k = Some d \<longrightarrow> (\<exists>e. js_get (documents t) k = Some e \<and> document_moves\<^sup>*\<^sup>* d e))
     \<and> (\<forall>k xs. js_get (checklists s) k = Some xs \<longrightarrow> (\<exists>ys. js_get (checklists t) k = Some ys \<and> list_all2 item_moves\<^sup>*\<^sup>* xs ys))
     \<and> (\<exists>es. document_events t = document_events s @ es))"

lemma items_refl: "list_all2 item_moves\<^sup>*\<^sup>* xs xs"
  by (simp add: list_all2_refl)

lemma items_trans: "list_all2 item_moves\<^sup>*\<^sup>* xs ys \<Longrightarrow> list_all2 item_moves\<^sup>*\<^sup>* ys zs \<Longrightarrow> list_all2 item_moves\<^sup>*\<^sup>* xs zs"
  using list_all2_trans [of "item_moves\<^sup>*\<^sup>*" "item_moves\<^sup>*\<^sup>*" "item_moves\<^sup>*\<^sup>*" xs ys zs] rtranclp_trans [of item_moves] by blast

lemma documents_effect_trans:
  assumes "documents_effect s t" and "documents_effect t u"
  shows "documents_effect s u"
proof -
  have grow: "grows s u \<and> maxBytes u = maxBytes s" if "documents_ok s"
    using assms that supply_trans [of s t u] by (simp add: documents_effect_def)
  have "\<exists>es. document_events u = document_events s @ es" if "documents_ok s"
    using assms that unfolding documents_effect_def by fastforce
  moreover have "\<exists>e. js_get (documents u) k = Some e \<and> document_moves\<^sup>*\<^sup>* d e"
    if "documents_ok s" "js_get (documents s) k = Some d" for k d
    using assms that unfolding documents_effect_def by (meson rtranclp_trans)
  moreover have "\<exists>ys. js_get (checklists u) k = Some ys \<and> list_all2 item_moves\<^sup>*\<^sup>* xs ys"
    if "documents_ok s" "js_get (checklists s) k = Some xs" for k xs
    using assms that unfolding documents_effect_def by (meson items_trans)
  ultimately show ?thesis using grow assms unfolding documents_effect_def by blast
qed

interpretation doc: effect_order documents_effect
proof
  show "documents_effect s s" for s :: "'a document_service_scheme" by (auto simp: documents_effect_def items_refl)
qed (rule documents_effect_trans)

section \<open>Pieces\<close>

lemma doc_fields_more:
  assumes "lead_state.more s = lead_state.more t"
  shows "documents s = documents t" "checklists s = checklists t" "document_events s = document_events t" "maxBytes s = maxBytes t"
  using assms by (cases s; cases t; simp)+

lemma items_grow: "items_ok s k xs \<Longrightarrow> issued s \<subseteq> issued t \<Longrightarrow> items_ok t k xs"
  by (auto simp: items_ok_def)

lemma doc_tables:
  assumes "documents t = documents s" and "checklists t = checklists s" and "maxBytes t = maxBytes s"
    and "document_events t = document_events s @ es" and "grows s t"
  shows "documents_effect s t"
  using assms supply_issued [OF assms(5)] items_grow [of s _ _ t]
  by (auto simp: documents_effect_def documents_ok_def grows_def items_refl)

lemma doc_elsewhere: "lead_state.more t = lead_state.more s \<Longrightarrow> grows s t \<Longrightarrow> documents_effect s t"
  by (rule doc_tables [where es = "[]"]) (auto dest: doc_fields_more)

lemma doc_audit: "documents_effect s t \<Longrightarrow> documents_effect s (audit_by p cid ty b a r k t)"
  by (erule doc.eff_trans) (simp add: doc_elsewhere supply_audit)

lemma doc_drawn [simp]:
  "documents (drawn s) = documents s" "checklists (drawn s) = checklists s" "document_events (drawn s) = document_events s"
  "maxBytes (drawn s) = maxBytes s"
  by (simp_all add: drawn_def)

lemma doc_lead: "documents_effect s (snd (document_lead i p cid s))"
proof -
  have "documents_effect s (snd (getLead i p cid s))" by (rule doc_elsewhere) (simp_all add: supply_operations)
  then show ?thesis unfolding document_lead_def by (intro doc.eff_sequence doc.eff_rules)
qed

lemma doc_after_lead:
  "(\<And>l u. document_lead i p cid s = (Inr l, u) \<Longrightarrow> documents_effect u (snd (k l u))) \<Longrightarrow> documents_effect s (snd (call (document_lead i p cid s) k))"
  by (rule doc.eff_sequence [OF doc_lead])

lemma lead_keeps_tables:
  assumes "document_lead i p cid s = (r, t)"
  shows "documents t = documents s" "checklists t = checklists s" "maxBytes t = maxBytes s"
proof -
  have "documents (snd (getLead i p cid s)) = documents s" "checklists (snd (getLead i p cid s)) = checklists s"
    "maxBytes (snd (getLead i p cid s)) = maxBytes s"
    by (rule doc_fields_more; simp)+
  then show "documents t = documents s" "checklists t = checklists s" "maxBytes t = maxBytes s"
    using assms by (cases "getLead i p cid s"; cases "fst (getLead i p cid s)"; auto simp: document_lead_def split: if_splits)+
qed

lemma doc_note: "documents_effect s (snd (document_note u ty prio d key s))"
  unfolding document_note_def by (rule doc_elsewhere) (simp_all add: supply_notification)

lemma doc_event: "documents_effect s t \<Longrightarrow> documents_effect s (document_event_of i ty p cid reason t)"
  by (erule doc.eff_trans) (rule doc_tables, auto simp: document_event_of_def grows_def drawn_def)

text \<open>A checklist changed at one item, along the table.\<close>

lemma doc_items:
  assumes "js_get (checklists s) k = Some xs" and "x \<in> set xs" and "st \<in> set (transitionRules (ck_state x))"
  shows "documents_effect s (s\<lparr>checklists := js_set (checklists s) k
     (map (\<lambda>y. if ck_id y = ck_id x then y\<lparr>ck_state := st, ck_version := ck_version y + 1, ck_updatedAt := n\<rparr> else y) xs)\<rparr>)"
    (is "documents_effect s (s\<lparr>checklists := js_set _ _ ?ys\<rparr>)")
proof -
  have same: "issued (s\<lparr>checklists := cs\<rparr>) = issued s" for cs by (simp add: issued_def)
  have ids: "map ck_id ?ys = map ck_id xs" by (induction xs) simp_all
  have "item_moves\<^sup>*\<^sup>* y (if ck_id y = ck_id x then y\<lparr>ck_state := st, ck_version := ck_version y + 1, ck_updatedAt := n\<rparr> else y)"
    if "distinct (map ck_id xs)" "y \<in> set xs" for y
  proof (cases "ck_id y = ck_id x")
    case True
    with that assms(2) have "y = x" by (metis eq_key_imp_eq_value inj_on_eq_iff distinct_map)
    have "item_moves x (x\<lparr>ck_state := st, ck_version := ck_version x + 1, ck_updatedAt := n\<rparr>)"
      unfolding item_moves_def using assms(3) by blast
    with \<open>y = x\<close> show ?thesis by auto
  qed simp
  then have "distinct (map ck_id xs) \<Longrightarrow> list_all2 item_moves\<^sup>*\<^sup>* xs ?ys" by (simp add: list_all2_conv_all_nth)
  moreover have "items_ok s k xs \<Longrightarrow> items_ok (s\<lparr>checklists := cs\<rparr>) k ?ys" for cs
    unfolding items_ok_def same ids by auto
  moreover have "items_ok s j ys \<Longrightarrow> items_ok (s\<lparr>checklists := cs\<rparr>) j ys" for j ys cs by (simp add: items_ok_def same)
  ultimately show ?thesis
    using assms(1) by (auto simp: documents_effect_def documents_ok_def grows_def same items_refl items_ok_def [of s])
qed

lemma doc_update: "documents_effect s (snd (updateChecklist i k st s))"
proof (cases "js_get (checklists s) k")
  case None
  then show ?thesis by (simp add: updateChecklist_def checklist_of_def)
next
  case (Some xs)
  then show ?thesis
    unfolding updateChecklist_def checklist_of_def Some option.case
    by (intro doc.eff_rules) (auto simp: find_Some_iff intro!: doc_items [OF Some])
qed

lemma doc_after_update:
  "documents_effect s t \<Longrightarrow> (\<And>a u. updateChecklist i k st t = (Inr a, u) \<Longrightarrow> documents_effect u (snd (f a u)))
     \<Longrightarrow> documents_effect s (snd (call (updateChecklist i k st t) f))"
  by (rule doc.eff_after [where m = "updateChecklist i k st", OF doc_update])

lemma doc_after_note:
  "documents_effect s t \<Longrightarrow> (\<And>a u. documents_effect u (snd (f a u))) \<Longrightarrow> documents_effect s (snd (call (document_note v ty prio d key t) f))"
  by (rule doc.eff_after [where m = "document_note v ty prio d key", OF doc_note])

text \<open>A document changed along its moves.\<close>

lemma doc_changed:
  assumes "documents_ok s \<Longrightarrow> \<exists>d. js_get (documents s) k = Some d \<and> document_moves\<^sup>*\<^sup>* d e"
    and "documents_ok s \<Longrightarrow> dc_id e = k \<and> document_ok (maxBytes s) e"
  shows "documents_effect s (s\<lparr>documents := js_set (documents s) k e\<rparr>)" (is "documents_effect s ?t")
proof -
  have same: "issued ?t = issued s" by (simp add: issued_def)
  have items: "items_ok s j ys \<Longrightarrow> items_ok ?t j ys" for j ys by (simp add: items_ok_def same)
  have "k \<in> issued s" if "documents_ok s" using assms(1) [OF that] that by (auto simp: documents_ok_def)
  moreover have "\<exists>y. js_get (documents ?t) j = Some y \<and> document_moves\<^sup>*\<^sup>* d y"
    if "documents_ok s" "js_get (documents s) j = Some d" for j d
    using assms(1) [OF that(1)] that(2) by (cases "j = k") auto
  moreover have "documents_ok ?t" if "documents_ok s"
    using that assms(2) [OF that] \<open>documents_ok s \<Longrightarrow> k \<in> issued s\<close> items by (auto simp: documents_ok_def same)
  ultimately show ?thesis by (auto simp: documents_effect_def grows_def items_refl)
qed

section \<open>Uploads and decisions\<close>

definition pending_ok :: "'a document_service_scheme \<Rightarrow> pending_upload \<Rightarrow> bool" where
  "pending_ok s u \<longleftrightarrow> file_ok (maxBytes s) (pu_stored u)
     \<and> (\<forall>old. pu_replaced u = Some old \<longrightarrow> document_ok (maxBytes s) old
          \<and> (\<exists>d. js_get (documents s) (dc_id old) = Some d \<and> document_moves\<^sup>*\<^sup>* old d))"

lemma pending_kept: "documents_effect s t \<Longrightarrow> documents_ok s \<Longrightarrow> pending_ok s u \<Longrightarrow> pending_ok t u"
  unfolding documents_effect_def pending_ok_def by (metis rtranclp_trans)

lemma moves_received:
  "document_moves\<^sup>*\<^sup>* d e \<Longrightarrow> \<exists>st v n r. e = d\<lparr>dc_status := st, dc_verifiedBy := v, dc_verifiedAt := n, dc_refusalReasonCode := r\<rparr>"
proof (induction rule: rtranclp_induct)
  case base
  show ?case
    by (rule exI [of _ "dc_status d"], rule exI [of _ "dc_verifiedBy d"], rule exI [of _ "dc_verifiedAt d"],
        rule exI [of _ "dc_refusalReasonCode d"]) (cases d, simp)
next
  case (step e f)
  from step(3) obtain st v n r
    where e: "e = d\<lparr>dc_status := st, dc_verifiedBy := v, dc_verifiedAt := n, dc_refusalReasonCode := r\<rparr>" by blast
  from step(2) obtain st' v' n' r'
    where "f = e\<lparr>dc_status := st', dc_verifiedBy := v', dc_verifiedAt := n', dc_refusalReasonCode := r'\<rparr>"
    unfolding document_moves_def by blast
  then have "f = d\<lparr>dc_status := st', dc_verifiedBy := v', dc_verifiedAt := n', dc_refusalReasonCode := r'\<rparr>" by (simp add: e)
  then show ?case by blast
qed

text \<open>A stale copy of a document, marked as replaced, is still a move of the document stored now.\<close>

lemma moves_replaced:
  assumes "document_moves\<^sup>*\<^sup>* old d"
  shows "document_moves\<^sup>*\<^sup>* d (old\<lparr>dc_status := REMPLACE\<rparr>)"
proof -
  from moves_received [OF assms] obtain st v n r
    where d: "d = old\<lparr>dc_status := st, dc_verifiedBy := v, dc_verifiedAt := n, dc_refusalReasonCode := r\<rparr>" by blast
  have "old\<lparr>dc_status := REMPLACE\<rparr> = d\<lparr>dc_status := REMPLACE, dc_verifiedBy := dc_verifiedBy old, dc_verifiedAt := dc_verifiedAt old,
      dc_refusalReasonCode := dc_refusalReasonCode old\<rparr>" by (simp add: d)
  then have "document_moves d (old\<lparr>dc_status := REMPLACE\<rparr>)" unfolding document_moves_def by blast
  then show ?thesis by blast
qed

lemma doc_store:
  assumes "pending_ok s u"
  shows "documents_effect s ((drawn s)\<lparr>documents := js_set (documents s) (dc_id (uploaded_document u p s)) (uploaded_document u p s)\<rparr>)"
    (is "documents_effect s ?t")
proof -
  let ?d = "uploaded_document u p s"
  have id: "dc_id ?d = fresh_uuid s" by (simp add: uploaded_document_def)
  have issued: "issued ((drawn s)\<lparr>documents := ds\<rparr>) = insert (fresh_uuid s) (issued s)" for ds
    using issued_drawn [of s] by (simp add: issued_def)
  have new: "js_get (documents s) (fresh_uuid s) = None" if "documents_ok s"
    using that fresh_uuid_not_issued [of s] by (cases "js_get (documents s) (fresh_uuid s)") (auto simp: documents_ok_def)
  have "document_ok (maxBytes s) ?d" using assms by (simp add: document_ok_def uploaded_document_def pending_ok_def)
  moreover have "items_ok s j ys \<Longrightarrow> items_ok ?t j ys" for j ys by (rule items_grow) (auto simp: issued)
  ultimately show ?thesis
    using new id by (auto simp: documents_effect_def documents_ok_def grows_def issued items_refl)
qed

lemma doc_replace:
  assumes "pending_ok s u"
  shows "documents_effect s (snd (upload_replace u p cid s))"
proof (cases "pu_replaced u")
  case None
  then show ?thesis by (simp add: upload_replace_def)
next
  case (Some old)
  have mark: "documents_effect t (t\<lparr>documents := js_set (documents t) (dc_id old) (old\<lparr>dc_status := REMPLACE\<rparr>)\<rparr>)"
    if "updateChecklist i k st s = (Inr a, t)" for i k st a t
  proof -
    have same: "documents t = documents s" "maxBytes t = maxBytes s"
      using that by (auto simp: updateChecklist_def split: option.splits if_splits)
    show ?thesis
      by (rule doc_changed) (use assms Some moves_replaced in \<open>auto simp: pending_ok_def same document_ok_def\<close>)
  qed
  show ?thesis
    unfolding upload_replace_def Some option.case
    by (intro doc_after_update doc.eff_refl doc.eff_pair doc_event mark)
qed

lemma doc_upload_end:
  assumes "pending_ok s u"
  shows "documents_effect s (snd (upload_end u p cid s))"
proof (cases "documents_ok s")
  case True
  note store = doc_store [OF assms, of p]
  note replace = doc.eff_after [where m = "upload_replace u p cid", OF doc_replace [OF pending_kept [OF store True assms]] store]
  show ?thesis
    unfolding upload_end_def Let_def
    by (intro replace doc_after_update doc_after_note doc_event doc_audit doc.eff_refl doc.eff_pair)
qed (simp add: documents_effect_def)

lemma doc_file:
  assumes "storage_store name mime content s = (Inr x, t)"
  shows "file_ok (maxBytes s) x"
  using assms
  by (auto simp: storage_store_def storage_checks_def Let_def file_ok_def Suc_le_eq split: sum.splits option.splits if_splits
      dest!: map_of_SomeD) (force simp: image_iff)

lemma doc_stored: "documents_effect s (snd (storage_store name mime content s))"
  unfolding storage_store_def Let_def
  by (intro doc.eff_rules doc.eff_prod) (rule doc_tables [where es = "[]"], simp_all add: grows_def)

lemma doc_upload_begin: "documents_effect s (snd (upload_begin k i p cid s))"
  unfolding upload_begin_def Let_def
  by (intro doc_after_lead doc.eff_rules doc.eff_sequence doc_stored)

lemma checked_Inr:
  "(if b then (Inl e, s) else x) = (Inr a, t) \<longleftrightarrow> \<not> b \<and> x = (Inr a, t)"
  "(case v of None \<Rightarrow> (Inl e, s) | Some y \<Rightarrow> f y) = (Inr a, t) \<longleftrightarrow> (\<exists>y. v = Some y \<and> f y = (Inr a, t))"
  by (cases b; simp) (cases v; simp)

lemma upload_begin_pending:
  assumes "upload_begin k i p cid s = (Inr u, t)" and "documents_ok s"
  shows "pending_ok t u"
proof -
  from assms(1) obtain l v ty item st where lead: "document_lead k p cid s = (Inr l, v)"
    and store: "storage_store (opt_text (ui_originalName i)) (opt_text (ui_declaredMime i)) (base64_content (opt_text (ui_contentBase64 i))) v = (Inr st, t)"
    and u: "u = \<lparr>pu_leadId = k, pu_item = item, pu_replaced = js_get (documents v) (opt_text (ui_replaces i)), pu_type = ty, pu_stored = st\<rparr>"
    unfolding upload_begin_def Let_def call_Inr checked_Inr prod.inject sum.inject by (elim exE conjE) (rule that, assumption, simp, rule sym, assumption)
  have "documents_effect s v" using doc_lead [of s k p cid] lead by simp
  with assms(2) have ok: "documents_ok v" by (simp add: documents_effect_def)
  have effect: "documents_effect v t" using doc_stored [of v] store by (metis snd_conv)
  have "pending_ok v u" using ok doc_file [OF store] by (auto simp: pending_ok_def u documents_ok_def)
  with effect ok show ?thesis by (rule pending_kept)
qed

lemma doc_verify: "documents_effect s (snd (document_verify i decision reason p cid s))"
proof -
  have decided: "documents_effect t (t\<lparr>documents := js_set (documents t) i (d\<lparr>dc_status := st, dc_verifiedBy := Some (userId p),
       dc_verifiedAt := n, dc_refusalReasonCode := (if st = REFUSE_DOC then reason else dc_refusalReasonCode d)\<rparr>)\<rparr>)"
    if "js_get (documents s) i = Some d" and "document_lead k p cid s = (Inr l, t)" and "\<not> dc_status d \<noteq> A_VERIFIER"
      and "decision_of decision = Some st" and "\<not> \<not> decision_ok st reason" for d k l t st n
  proof (rule doc_changed)
    have same: "documents t = documents s" using lead_keeps_tables [OF that(2)] by simp
    let ?e = "d\<lparr>dc_status := st, dc_verifiedBy := Some (userId p), dc_verifiedAt := n,
      dc_refusalReasonCode := (if st = REFUSE_DOC then reason else dc_refusalReasonCode d)\<rparr>"
    have st: "st = VALIDE \<or> st = REFUSE_DOC" using that(4) by (auto simp: decision_of_def split: if_splits)
    with that(3) have "document_moves d ?e" unfolding document_moves_def by blast
    then show "\<exists>d. js_get (documents t) i = Some d \<and> document_moves\<^sup>*\<^sup>* d ?e" using that(1) same by auto
    assume "documents_ok t"
    with that(1) same have "dc_id d = i \<and> document_ok (maxBytes t) d" by (simp add: documents_ok_def)
    with st that(3,5) show "dc_id ?e = i \<and> document_ok (maxBytes t) ?e" by (auto simp: document_ok_def decision_ok_def)
  qed
  show ?thesis
    unfolding document_verify_def Let_def
    by (intro doc.eff_if doc.eff_option doc.eff_pair doc.eff_refl doc_after_lead doc_after_update doc_after_note doc_event doc_audit)
      (rule decided; assumption)
qed

section \<open>Checklists and readings\<close>

lemma entry_ids: "map ck_id (map (checklist_entry k c s) (enumerate 0 xs)) = map (\<lambda>n. uuid s (draws s + n)) [0..<length xs]"
  by (rule nth_equalityI) (simp_all add: enumerate_eq_zip checklist_entry_def)

lemma doc_new_checklist:
  assumes "js_get (checklists s) k = None"
  shows "documents_effect s (s\<lparr>draws := draws s + length (map (checklist_entry k c s) (enumerate 0 xs)),
     checklists := js_set (checklists s) k (map (checklist_entry k c s) (enumerate 0 xs))\<rparr>)"
proof -
  define items where "items = map (checklist_entry k c s) (enumerate 0 xs)"
  define t where "t = s\<lparr>draws := draws s + length items, checklists := js_set (checklists s) k items\<rparr>"
  have grows: "grows s t" by (simp add: grows_def t_def)
  have ids: "map ck_id items = map (\<lambda>n. uuid s (draws s + n)) [0..<length xs]" unfolding items_def by (rule entry_ids)
  have size: "length items = length xs" by (simp add: items_def)
  have new: "items_ok t k items" if "inj (uuid s)"
  proof -
    have "distinct (map ck_id items)" unfolding ids using that by (auto simp: distinct_map intro!: inj_onI dest: injD)
    moreover have "set (map ck_id items) \<subseteq> issued t" unfolding ids by (auto simp: issued_def t_def size)
    moreover have "\<forall>x\<in>set items. ck_leadId x = k" by (auto simp: items_def checklist_entry_def)
    ultimately show ?thesis by (simp add: items_ok_def)
  qed
  have "documents_ok t" if ok: "documents_ok s"
  proof -
    have "items_ok t j ys" if "js_get (checklists t) j = Some ys" for j ys
      using that ok new items_grow [OF _ supply_issued [OF grows]] by (auto simp: documents_ok_def t_def split: if_splits)
    moreover have "k \<in> issued s \<Longrightarrow> k \<in> issued t" for k using supply_issued [OF grows] by blast
    ultimately show ?thesis using ok by (simp add: documents_ok_def) (simp add: t_def)
  qed
  moreover have "maxBytes t = maxBytes s" "documents t = documents s" "document_events t = document_events s"
    "\<And>j ys. js_get (checklists s) j = Some ys \<Longrightarrow> js_get (checklists t) j = Some ys"
    using assms by (auto simp: t_def)
  ultimately have "documents_effect s t" using grows items_refl by (auto simp: documents_effect_def)
  then show ?thesis by (simp add: t_def items_def)
qed

lemma doc_generate: "documents_effect s (snd (generateChecklist k c p cid s))"
  unfolding generateChecklist_def Let_def
  by (intro doc_after_lead doc.eff_rules doc_audit doc_new_checklist)

lemma doc_readings:
  "documents_effect s (snd (document_checklist k p s))" "documents_effect s (snd (document_detail i p s))"
  unfolding document_checklist_def document_detail_def by (intro doc_after_lead doc.eff_rules)+

lemma doc_dashboard: "documents_effect s (snd (document_dashboard_op q p s))"
proof -
  have "documents_effect u (snd (dashboard_entry q p e u))" for e u
    using doc_lead [of u "fst e" p "''document-dashboard''"]
    unfolding dashboard_entry_def Let_def by (auto split: prod.split sum.split)
  then show ?thesis
    unfolding document_dashboard_op_def Let_def
    by (intro doc.eff_if doc.eff_pair doc.eff_refl doc.eff_sequence doc.eff_for_each)
qed

section \<open>Runs of requests, uploads interleaved\<close>

text \<open>The uploads that wait for the file system, and the state; time passes and the other services work.\<close>

inductive document_step ::
  "pending_upload list \<times> 'a document_service_scheme \<Rightarrow> pending_upload list \<times> 'a document_service_scheme \<Rightarrow> bool" where
  generate: "document_step (us, s) (us, snd (generateChecklist k c p cid s))"
| begins: "upload_begin k i p cid s = (Inr u, t) \<Longrightarrow> document_step (us, s) (us @ [u], t)"
| refused: "upload_begin k i p cid s = (Inl e, t) \<Longrightarrow> document_step (us, s) (us, t)"
| ends: "u \<in> set us \<Longrightarrow> document_step (us, s) (remove1 u us, snd (upload_end u p cid s))"
| verify: "document_step (us, s) (us, snd (document_verify i decision reason p cid s))"
| checklist: "document_step (us, s) (us, snd (document_checklist k p s))"
| detail: "document_step (us, s) (us, snd (document_detail i p s))"
| dashboard: "document_step (us, s) (us, snd (document_dashboard_op q p s))"
| cleanup: "document_step (us, s) (us, document_cleanup s)"
| elsewhere: "lead_state.more t = lead_state.more s \<Longrightarrow> grows s t \<Longrightarrow> document_step (us, s) (us, t)"

definition uploads_ok :: "pending_upload list \<times> 'a document_service_scheme \<Rightarrow> bool" where
  "uploads_ok = (\<lambda>(us, s). documents_ok s \<and> (\<forall>u\<in>set us. pending_ok s u))"

lemma document_step_effect:
  assumes "document_step a b" and "uploads_ok a"
  shows "documents_effect (snd a) (snd b) \<and> uploads_ok b"
proof -
  have kept: "documents_effect s t \<and> uploads_ok (vs, t)"
    if "uploads_ok (us, s)" "documents_effect s t" "set vs \<subseteq> set us" for us vs and s t :: "'a document_service_scheme"
    using that pending_kept [OF that(2)] by (auto simp: uploads_ok_def documents_effect_def)
  then have one: "uploads_ok (us, s) \<Longrightarrow> documents_effect s t \<Longrightarrow> uploads_ok (us, t)" for us and s t :: "'a document_service_scheme"
    by blast
  from assms show ?thesis
  proof cases
    case (begins k i p cid s u t us)
    then have "documents_effect s t" using doc_upload_begin [of s k i p cid] by simp
    with begins assms(2) kept [of us s t us] upload_begin_pending [OF begins(3)] show ?thesis by (auto simp: uploads_ok_def)
  next
    case (refused k i p cid s e t us)
    then have "documents_effect s t" using doc_upload_begin [of s k i p cid] by simp
    with refused assms(2) kept show ?thesis by auto
  next
    case (ends u us s p cid)
    then have "pending_ok s u" using assms(2) by (simp add: uploads_ok_def)
    with ends assms(2) kept [of us s _ "remove1 u us", OF _ doc_upload_end] show ?thesis by (auto simp: set_remove1_subset)
  next
    case (cleanup us s)
    have "documents_effect s (document_cleanup s)" by (rule doc_tables [where es = "[]"]) (simp_all add: document_cleanup_def grows_def)
    with cleanup assms(2) kept show ?thesis by auto
  qed (use assms(2) in \<open>auto intro: one doc_generate doc_verify doc_readings doc_dashboard doc_elsewhere\<close>)
qed

lemma document_run: "document_step\<^sup>*\<^sup>* a b \<Longrightarrow> uploads_ok a \<Longrightarrow> documents_effect (snd a) (snd b) \<and> uploads_ok b"
proof (induction rule: rtranclp_induct)
  case (step b c)
  with document_step_effect [OF step(2)] doc.eff_trans [of "snd a" "snd b" "snd c"] show ?case by blast
qed simp

definition document_walks :: "document_state \<Rightarrow> document_state \<Rightarrow> bool" where
  "document_walks a b \<longleftrightarrow> a = A_VERIFIER \<and> b \<in> {VALIDE, REFUSE_DOC} \<or> a \<noteq> REMPLACE \<and> b = REMPLACE"

lemma moves_walk_documents: "document_moves\<^sup>*\<^sup>* d e \<Longrightarrow> document_walks\<^sup>*\<^sup>* (dc_status d) (dc_status e)"
proof (induction rule: rtranclp_induct)
  case (step e f)
  then have "dc_status f = dc_status e \<or> document_walks (dc_status e) (dc_status f)"
    by (auto simp: document_moves_def document_walks_def)
  with step(3) show ?case by (auto intro: rtranclp.rtrancl_into_rtrancl)
qed simp

interpretation document_life: lifecycle "\<lambda>a k. map_option dc_status (js_get (documents (snd a)) k)" document_walks "\<lambda>st. st = REMPLACE"
  document_step uploads_ok
proof (unfold_locales, goal_cases)
  case (1 a b)
  then show ?case using document_step_effect by blast
next
  case (2 a b k st)
  then obtain d where d: "js_get (documents (snd a)) k = Some d" "dc_status d = st" by auto
  from 2 document_step_effect have "documents_effect (snd a) (snd b)" by blast
  moreover from 2(1) have "documents_ok (snd a)" by (cases a) (simp add: uploads_ok_def)
  ultimately obtain e where "js_get (documents (snd b)) k = Some e" "document_moves\<^sup>*\<^sup>* d e"
    using d(1) unfolding documents_effect_def by blast
  with moves_walk_documents d(2) show ?case by auto
qed (simp add: document_walks_def)

lemma walks_decided: "document_walks\<^sup>*\<^sup>* a b \<Longrightarrow> a \<noteq> A_VERIFIER \<Longrightarrow> b = a \<or> b = REMPLACE"
  by (induction rule: rtranclp_induct) (auto simp: document_walks_def)

text \<open>An item of a checklist keeps what it asks for, walks the table, and its version counts its changes.\<close>

lemma items_walk:
  "item_moves\<^sup>*\<^sup>* x y \<Longrightarrow> ck_id y = ck_id x \<and> ck_type y = ck_type x \<and> ck_requirementCode y = ck_requirementCode x
     \<and> (\<lambda>a b. b \<in> set (transitionRules a))\<^sup>*\<^sup>* (ck_state x) (ck_state y) \<and> ck_version x \<le> ck_version y"
  by (induction rule: rtranclp_induct) (auto simp: item_moves_def intro: rtranclp.rtrancl_into_rtrancl)

lemma checklist_walks_table:
  assumes "documents_ok s" and "document_step\<^sup>*\<^sup>* ([], s) (us, t)" and "js_get (checklists t) k = Some xs"
    and "document_step\<^sup>*\<^sup>* (us, t) (vs, v)"
  shows "\<exists>ys. js_get (checklists v) k = Some ys \<and> list_all2 (\<lambda>x y. ck_id y = ck_id x \<and> ck_type y = ck_type x
     \<and> (\<lambda>a b. b \<in> set (transitionRules a))\<^sup>*\<^sup>* (ck_state x) (ck_state y)) xs ys"
proof -
  have "uploads_ok ([], s)" using assms(1) by (simp add: uploads_ok_def)
  with document_run [OF assms(2)] have mid: "uploads_ok (us, t)" by blast
  then have "documents_ok t" by (simp add: uploads_ok_def)
  moreover from document_run [OF assms(4) mid] have "documents_effect t v" by simp
  ultimately obtain ys where "js_get (checklists v) k = Some ys" "list_all2 item_moves\<^sup>*\<^sup>* xs ys"
    using assms(3) unfolding documents_effect_def by blast
  moreover from this(2) have "list_all2 (\<lambda>x y. ck_id y = ck_id x \<and> ck_type y = ck_type x
     \<and> (\<lambda>a b. b \<in> set (transitionRules a))\<^sup>*\<^sup>* (ck_state x) (ck_state y)) xs ys"
    by (rule list_all2_mono) (auto dest: items_walk)
  ultimately show ?thesis by blast
qed

text \<open>
  C36: However uploads interleave with decisions: a document is never lost and keeps what was received of it; what was
  stored passed the checks of size and format; a decision was made by somebody and has a reason of the list exactly
  when it is a refusal; and a decided document keeps its decision until it is replaced, after which it stays replaced.
\<close>

theorem document_decided_once:
  assumes "documents_ok s" and "document_step\<^sup>*\<^sup>* ([], s) (us, t)" and "js_get (documents t) k = Some d"
    and "document_step\<^sup>*\<^sup>* (us, t) (vs, v)"
  shows "\<exists>e. js_get (documents v) k = Some e \<and> dc_leadId e = dc_leadId d \<and> dc_type e = dc_type d \<and> dc_stored e = dc_stored d
     \<and> dc_uploadedBy e = dc_uploadedBy d \<and> dc_version e = dc_version d
     \<and> file_ok (maxBytes s) (dc_stored d)
     \<and> (dc_status d \<noteq> A_VERIFIER \<longrightarrow> dc_status e = dc_status d \<or> dc_status e = REMPLACE)
     \<and> (dc_status e = VALIDE \<longrightarrow> dc_verifiedBy e \<noteq> None \<and> dc_refusalReasonCode e = None)
     \<and> (dc_status e = REFUSE_DOC \<longrightarrow> dc_verifiedBy e \<noteq> None \<and> opt_text (dc_refusalReasonCode e) \<in> set refusalReasons)
     \<and> dc_status e \<in> {A_VERIFIER, VALIDE, REFUSE_DOC, REMPLACE}"
proof -
  have start: "uploads_ok ([], s)" using assms(1) by (simp add: uploads_ok_def)
  from document_run [OF assms(2) start] have first: "documents_effect s t" and mid: "uploads_ok (us, t)" by simp_all
  from document_run [OF assms(4) mid] have second: "documents_effect t v" and last: "documents_ok v"
    by (simp_all add: uploads_ok_def)
  have bytes: "maxBytes v = maxBytes s"
    using first second assms(1) mid by (simp add: documents_effect_def uploads_ok_def)
  have "documents_ok t" using mid by (simp add: uploads_ok_def)
  with second assms(3) obtain e where e: "js_get (documents v) k = Some e" "document_moves\<^sup>*\<^sup>* d e"
    unfolding documents_effect_def by blast
  from last e(1) bytes have ok: "document_ok (maxBytes s) e" by (simp add: documents_ok_def)
  from moves_received [OF e(2)] have "dc_leadId e = dc_leadId d \<and> dc_type e = dc_type d \<and> dc_stored e = dc_stored d
      \<and> dc_uploadedBy e = dc_uploadedBy d \<and> dc_version e = dc_version d" by auto
  moreover have "dc_status d \<noteq> A_VERIFIER \<longrightarrow> dc_status e = dc_status d \<or> dc_status e = REMPLACE"
    using walks_decided [OF moves_walk_documents [OF e(2)]] by blast
  moreover from ok have "file_ok (maxBytes s) (dc_stored e)" "dc_status e = VALIDE \<longrightarrow> dc_verifiedBy e \<noteq> None \<and> dc_refusalReasonCode e = None"
    "dc_status e = REFUSE_DOC \<longrightarrow> dc_verifiedBy e \<noteq> None \<and> opt_text (dc_refusalReasonCode e) \<in> set refusalReasons"
    "dc_status e \<in> {A_VERIFIER, VALIDE, REFUSE_DOC, REMPLACE}" by (auto simp: document_ok_def)
  ultimately show ?thesis using e(1) by auto
qed

section \<open>Examples\<close>

definition demo_document :: document where
  "demo_document = \<lparr>dc_id = ''id-x'', dc_leadId = ''id-'', dc_checklistItemId = ''id-xx'', dc_type = DIPLOME,
     dc_stored = \<lparr>sd_storageReference = ''temporary://d'', sd_sanitizedFileName = ''document-d.pdf'', sd_extension = ''.pdf'',
       sd_declaredMime = ''application/pdf'', sd_detectedMime = ''application/pdf'', sd_byteSize = 9, sd_sha = ''s''\<rparr>,
     dc_uploadedBy = ''u1'', dc_receivedAt = 10, dc_status = REFUSE_DOC, dc_verifiedBy = Some ''m1'', dc_verifiedAt = Some 20,
     dc_refusalReasonCode = Some ''ILLISIBLE'', dc_version = 1, dc_replacedDocumentId = None\<rparr>"

definition document_demo :: document_service where
  "document_demo = lead_demo CONTACTED (document_service_ext [] [(''id-x'', demo_document)] [] [] True 5242880 (\<lambda>_. ''s'') ())"

lemma document_demo_tables:
  "documents document_demo = [(''id-x'', demo_document)]" "checklists document_demo = []" "maxBytes document_demo = 5242880"
  by (simp_all add: document_demo_def lead_demo_def note_demo_def user_demo_def)

lemma document_demo_ok: "documents_ok document_demo"
proof -
  have "lead_ok document_demo" unfolding document_demo_def by (rule lead_demo_ok)
  then have "inj (uuid document_demo)" by (simp add: lead_ok_def)
  moreover have "''id-x'' \<in> issued document_demo"
    by (auto simp: issued_def document_demo_def lead_demo_def note_demo_def user_demo_def demo_host_def intro!: image_eqI [of _ _ "1 :: nat"])
  moreover have "document_ok 5242880 demo_document"
    by (simp add: document_ok_def file_ok_def demo_document_def document_formats_def Let_def refusalReasons_def)
  ultimately show ?thesis by (auto simp: documents_ok_def document_demo_tables js_get_def demo_document_def split: if_splits)
qed

abbreviation verified_demo :: document_service where
  "verified_demo \<equiv> snd (document_verify ''id-x'' (Some ''VALIDER'') None demo_manager ''c'' document_demo)"

theorem document_decided_once_witness:
  "\<exists>e. js_get (documents verified_demo) ''id-x'' = Some e \<and> dc_status e \<in> {REFUSE_DOC, REMPLACE} \<and> dc_uploadedBy e = ''u1''"
proof -
  have "document_step\<^sup>*\<^sup>* ([], document_demo) ([], verified_demo)" by (rule r_into_rtranclp) (rule document_step.verify)
  moreover have "js_get (documents document_demo) ''id-x'' = Some demo_document" by (simp add: document_demo_tables js_get_def)
  ultimately show ?thesis
    using document_decided_once [OF document_demo_ok rtranclp.rtrancl_refl] by (fastforce simp: demo_document_def)
qed

end
