(* ===== verification/Spec2Isabelle.thy ===== *)
theory Spec2Isabelle
  imports LeadLaws RequestLaws ClosureLaws FollowUpLaws ChatLaws MappingLaws IngestionLaws SavedViews Broadcasts
    AppointmentLaws PermissionRoutes TelephonyLaws ImportControl ImportReport QuickLead
    DocumentLaws
begin

text \<open>
  A verification development of the CRM's API, \<open>apps/api/src\<close>: the services of the NestJS
  application in their in-memory form, from the accounts and sessions of the collaborators to
  the leads they work on and the requests, follow-ups, messages and imports around them.

  The program and how its parts interact. A request reaches a controller, the guard checks the
  role and the scope of its principal, and one method of one service runs to its end. Services
  share their state by calling each other: everything records into the audit trail; accounts
  end sessions and replace secrets; follow-ups, requests, appointments, chat and ingestion read
  and write leads through the operations of the lead service, and notify through the feed. The
  record types of the model are therefore one chain of extensions, and an operation of an outer
  service runs on every state that extends its own.

  Foundations.
    \<^item> \<open>Prelude\<close>: exceptions as the left side of a sum, sequencing of calls that may throw (state
      is kept when they do, as JavaScript keeps it), JSON values, the insertion-ordered \<open>Map\<close> with
      its laws as the locale \<open>record_store\<close>, stable sorting, paging.
    \<^item> \<open>JsText\<close>: the string functions and character classes the regular expressions need.
    \<^item> \<open>Host\<close>: what the Node runtime supplies, the clock, random identifiers, digests, dates and
      the collation, as fields of the innermost record. Nothing is assumed of them in a
      definition; a theorem that needs distinct identifiers says so (\<open>inj (uuid s)\<close>).
    \<^item> \<open>Lifecycle\<close>: the locale of everything that has a status: moves follow a table and a final
      status stays. It is interpreted on leads, reassignment requests, closure requests, chat
      messages, calls, appointments, documents and lines under review.
    \<^item> \<open>Effects\<close>: the locale of what an operation does to a state, a reflexive and transitive relation,
      with one rule for each construct of the model; appointments, calls, documents, imports and quick
      leads are proved through it.

  Components, each with the file it models.
    \<^item> \<open>Auth\<close>: \<open>auth/auth.types.ts\<close>, \<open>auth/rbac.guard.ts\<close>. \<open>AuditTrail\<close>: \<open>audit/audit.service.ts\<close>, with
      the redaction of payloads. \<open>Sessions\<close>: \<open>auth/session.service.ts\<close>, \<open>auth/rate-limit.service.ts\<close>.
      \<open>Credentials\<close>: \<open>access-recovery/\<close>. \<open>Users\<close> and \<open>Directory\<close>: \<open>users/\<close>, \<open>first-login/\<close>,
      \<open>auth/session.controller.ts\<close>.
    \<^item> \<open>Notifications\<close>: \<open>notifications/notification.service.ts\<close>.
    \<^item> \<open>LeadTypes\<close>, \<open>Leads\<close>, \<open>LeadViews\<close>: \<open>leads/lead.service.ts\<close> with \<open>lead-treatment.ts\<close>,
      \<open>first-treatment.ts\<close> and \<open>commercial-progression.ts\<close>. \<open>SavedViews\<close>: \<open>leads/saved-lead-view.service.ts\<close>.
    \<^item> \<open>Assignment\<close>: the engine, the campus rules, the balanced entry and the batches of
      \<open>assignment/\<close>. \<open>Reassignment\<close>, \<open>Closure\<close>, \<open>Collaboration\<close>: the requests a second person decides.
    \<^item> \<open>FollowUps\<close>: \<open>follow-up/follow-up.service.ts\<close> and \<open>next-action.contract.ts\<close>.
    \<^item> \<open>Appointments\<close>: \<open>appointments/appointment.service.ts\<close>, \<open>appointment-creation-signature.ts\<close>.
    \<^item> \<open>Documents\<close>: \<open>documents/candidate-document.service.ts\<close> and the checks of
      \<open>document-storage.adapter.ts\<close>; an upload waits for the file system in its middle and is two operations.
    \<^item> \<open>Chat\<close>: \<open>chat/chat.service.ts\<close>. \<open>Broadcasts\<close>: \<open>broadcast/\<close>.
    \<^item> \<open>Telephony\<close>: \<open>telephony/telephony.service.ts\<close> with the adapters it uses without an agent.
    \<^item> \<open>Permissions\<close>: the catalogue, the defaults and the evaluation of \<open>permissions/\<close>
      (\<open>dynamic-contract.ts\<close>, \<open>view-grants.ts\<close>, \<open>audit-access.ts\<close>, \<open>dynamic-evaluator.ts\<close>).
      \<open>PermissionService\<close>: \<open>dynamic-context.ts\<close>, \<open>dynamic-service.ts\<close>, \<open>permission.service.ts\<close> and the
      upgrade of a row in \<open>dynamic-repository.ts\<close>. \<open>PermissionRoutes\<close>: \<open>dynamic-routes.ts\<close> and the check of
      a request in \<open>dynamic-interceptor.ts\<close>. Their stored configurations are a list the operations
      take and return, and what the database says of campuses, administrators and resources are
      arguments.
    \<^item> \<open>Ingestion\<close>: \<open>ingestion/ingestion.service.ts\<close>. \<open>ImportMapping\<close>: \<open>import-mapping/import-mapping.service.ts\<close>.
      \<open>ImportControl\<close>: \<open>import-review/\<close> and \<open>import-wizard/\<close>. \<open>ImportReport\<close>: \<open>import-report/\<close>, over the batches of the
      ingestion and the versions of the mappings. \<open>QuickLead\<close>: \<open>quick-lead/\<close>, one submission through the leads, the
      provenance and the batches of assignments.

  State and operations. A class is a record of its \<open>Map\<close> and array fields, a method is a
  definition from a state to a result and a state, named as the method where the names of HOL
  and of the other services allow it; a private helper keeps its name too. A guard, an early
  return or a throw is a branch in the order of the source. Optional fields are options; an
  enumeration is a datatype with the printed names beside it.

  The lemmas.
    \<^item> \<open>Directory\<close>: every request of the directory keeps the accounts, the secrets and the identity
      state of the sessions consistent; an account that changes ends its sessions; one active
      super administrator always remains.
    \<^item> \<open>LeadLaws\<close>: every operation on leads has an effect (\<open>lead_effect\<close>) that keeps the state well
      formed, moves statuses by the table, appends to the timeline, and without a manager closes
      and reassigns nothing; listing, treatment dates and alarms; \<open>Frames\<close> and \<open>LeadRequests\<close> say
      that these operations leave the tables of every extending service alone.
    \<^item> \<open>AssignmentLaws\<close>: the engine refines a queue (\<open>rr_queue\<close>: an assignment takes its head and
      turns it), hence is fair; batches account for their items and take no lead from anybody;
      the balanced entry keeps the loads within one.
    \<^item> \<open>RequestLaws\<close>, \<open>ClosureLaws\<close>: two persons, one decision, nothing changes after it.
    \<^item> \<open>FollowUpLaws\<close>: one pending follow-up per lead, completing plans the next, the sweep of due
      dates leaves none behind.
    \<^item> \<open>ChatLaws\<close>: nothing written is lost, refused edits change nothing. \<open>MappingLaws\<close>: versions form
      a chain, a saved one is read back and its snapshot gives the same records.
      \<open>IngestionLaws\<close>: a batch accounts for its lines, a dry run predicts it.
    \<^item> \<open>PermissionLaws\<close>: the order of scopes is inclusion (the locale \<open>reach_order\<close>); what a ceiling closes
      stays closed; a configuration reached by saves is valid, is evaluated without a throw, never
      lets an administrator change its own rights or grant beyond its campus, and leaves somebody
      able to administer. \<open>PermissionRoutes\<close>: a handler runs only for a caller allowed what its route
      requires.
    \<^item> \<open>AppointmentLaws\<close>: an appointment keeps its identity, its versions count its changes and its state
      walks the table; a report is written once. \<open>ImportControl\<close>: a resolved line stays resolved, on one of its
      candidates; a confirmed session holds the token of its own file. \<open>ImportReport\<close>: the ingestion never
      stores a batch the report would refuse. \<open>QuickLead\<close>: nobody is entered twice.
    \<^item> \<open>DocumentLaws\<close>: however uploads interleave with decisions, a document keeps what was received and is
      decided once, and the items of a checklist walk their table.
    \<^item> \<open>TelephonyLaws\<close>: the log of a call walks the table of transitions and a finished call stays
      finished; an operation is taken apart by one rule for each construct.

  Bounds and fuel. Every loop of the modelled code runs over a list, so every definition is
  structural and total: no fuel is used. Lengths and limits are those of the code. JavaScript
  numbers that reach a computation were checked by \<open>Number.isInteger\<close>, and are integers here.

  Not modelled. The persistent branches (\<open>if (this.persistence?.enabled)\<close>) inside the modelled
  methods and the repositories they call: they are statements of the Prisma client over
  PostgreSQL, code that is not in the repository; the optional services are taken as absent, so
  the catalogue of references is not consulted. Awaiting a call of the in-memory path yields to
  no other request that the locks of the code do not exclude, so an operation is one step; an upload
  of a document, which does wait, is two.
  \<open>Object.freeze\<close> and the copies of returned objects have no counterpart, values being immutable.
  Of the permissions, the transactions and locks around an operation and the queries that find the
  campus, owner and collaborators of a resource; of the telephony, free calls, agents and bridge.
  Outside: the web application and the desktop agents; the sheet import, the cutover, the import
  profiles, the reporting, the admissions booking and the references, which run inside database
  transactions or over files and the network; mail, jobs and the HTTP layer.
\<close>

end
